(* ===== verification/Prelude.thy ===== *)
theory Prelude
  imports Main "HOL-Library.Char_ord" "HOL-Library.List_Lexorder"
begin

text \<open>
  Shared vocabulary of the development: the parts of the Python standard library that the
  backend uses on strings and numbers (\<^verbatim>\<open>str.strip\<close>, \<^verbatim>\<open>str.lower\<close>,
  \<^verbatim>\<open>str.split\<close>, \<^verbatim>\<open>str.join\<close>, \<^verbatim>\<open>str.partition\<close>, \<^verbatim>\<open>str.isdigit\<close>,
  zero-padded formatting), and the generic lemmas the component theories share. A Python
  string is a list of characters with code points below 256; its order is the
  lexicographic order on code points, which is what the binary comparisons of the database
  and of Python use.
\<close>

named_theorems pystr "evaluation and laws of the Python string operations"
named_theorems tbl "laws of table operations"
named_theorems inv_intros "preservation of a component invariant by its operations"

type_synonym epoch = int
type_synonym row_id = nat

section \<open>Characters\<close>

abbreviation py_ord :: "char \<Rightarrow> nat" where
  "py_ord c \<equiv> of_char c"

definition is_space :: "char \<Rightarrow> bool" where
  "is_space c = (let n = py_ord c in (9 \<le> n \<and> n \<le> 13) \<or> (28 \<le> n \<and> n \<le> 32) \<or> n = 133 \<or> n = 160)"

definition is_digit :: "char \<Rightarrow> bool" where
  "is_digit c = (48 \<le> py_ord c \<and> py_ord c \<le> 57)"

definition is_upper :: "char \<Rightarrow> bool" where
  "is_upper c = (65 \<le> py_ord c \<and> py_ord c \<le> 90)"

definition is_lower :: "char \<Rightarrow> bool" where
  "is_lower c = (97 \<le> py_ord c \<and> py_ord c \<le> 122)"

definition lower_char :: "char \<Rightarrow> char" where
  "lower_char c = (if is_upper c then char_of (py_ord c + 32) else c)"

definition digit_char :: "nat \<Rightarrow> char" where
  "digit_char d = char_of (48 + d)"

definition digit_val :: "char \<Rightarrow> nat" where
  "digit_val c = py_ord c - 48"

section \<open>Strings\<close>

definition py_lstrip :: "string \<Rightarrow> string" where
  "py_lstrip s = dropWhile is_space s"

definition py_rstrip :: "string \<Rightarrow> string" where
  "py_rstrip s = rev (dropWhile is_space (rev s))"

definition py_strip :: "string \<Rightarrow> string" where
  "py_strip s = py_rstrip (py_lstrip s)"

definition rstrip_char :: "char \<Rightarrow> string \<Rightarrow> string" where
  "rstrip_char c s = rev (dropWhile (\<lambda>x. x = c) (rev s))"

definition py_lower :: "string \<Rightarrow> string" where
  "py_lower s = List.map lower_char s"

definition replace_char :: "char \<Rightarrow> char \<Rightarrow> string \<Rightarrow> string" where
  "replace_char a b s = List.map (\<lambda>c. if c = a then b else c) s"

fun split_on :: "char \<Rightarrow> string \<Rightarrow> string list" where
  "split_on c [] = [[]]"
| "split_on c (x # xs) =
     (if x = c then [] # split_on c xs
      else (case split_on c xs of [] \<Rightarrow> [[x]] | y # ys \<Rightarrow> (x # y) # ys))"

fun py_join :: "string \<Rightarrow> string list \<Rightarrow> string" where
  "py_join sep [] = []"
| "py_join sep [x] = x"
| "py_join sep (x # y # ys) = x @ sep @ py_join sep (y # ys)"

definition starts_with :: "string \<Rightarrow> string \<Rightarrow> bool" where
  "starts_with p s = (take (length p) s = p)"

definition ends_with :: "string \<Rightarrow> string \<Rightarrow> bool" where
  "ends_with p s = starts_with (rev p) (rev s)"

text \<open>\<^verbatim>\<open>s.partition(sep)\<close> for a one-character separator: the part before the
  first separator and the part after it; without a separator, the whole string and nothing.\<close>

definition partition_at :: "char \<Rightarrow> string \<Rightarrow> string \<times> string" where
  "partition_at c s = (takeWhile (\<lambda>x. x \<noteq> c) s, drop 1 (dropWhile (\<lambda>x. x \<noteq> c) s))"

text \<open>\<^verbatim>\<open>s.split(sep, 1)\<close> when \<open>sep\<close> occurs in \<open>s\<close>: the parts around its first
  occurrence.\<close>

fun split_once :: "string \<Rightarrow> string \<Rightarrow> (string \<times> string) option" where
  "split_once sep [] = (if sep = [] then Some ([], []) else None)"
| "split_once sep (c # cs) =
     (if starts_with sep (c # cs) then Some ([], drop (length sep) (c # cs))
      else map_option (\<lambda>(a, b). (c # a, b)) (split_once sep cs))"

definition contains_sub :: "string \<Rightarrow> string \<Rightarrow> bool" where
  "contains_sub sep s = (split_once sep s \<noteq> None)"

definition py_isdigit :: "string \<Rightarrow> bool" where
  "py_isdigit s = (s \<noteq> [] \<and> list_all is_digit s)"

definition nat_of_digits :: "string \<Rightarrow> nat" where
  "nat_of_digits s = foldl (\<lambda>a c. 10 * a + digit_val c) 0 s"

fun nat_str :: "nat \<Rightarrow> string" where
  "nat_str n = (if n < 10 then [digit_char n] else nat_str (n div 10) @ [digit_char (n mod 10)])"

declare nat_str.simps [simp del]

definition zfill :: "nat \<Rightarrow> string \<Rightarrow> string" where
  "zfill k s = replicate (k - length s) (CHR ''0'') @ s"

text \<open>\<^verbatim>\<open>f"{n:013d}"\<close>: thirteen columns, zero-padded, the sign included.\<close>

definition pad13 :: "epoch \<Rightarrow> string" where
  "pad13 n = (if n < 0 then ''-'' @ zfill 12 (nat_str (nat (- n))) else zfill 13 (nat_str (nat n)))"

text \<open>\<^verbatim>\<open>x or d\<close> on a string.\<close>

definition str_or :: "string \<Rightarrow> string \<Rightarrow> string" where
  "str_or s d = (if s = [] then d else s)"

definition parse_csv :: "string \<Rightarrow> string list" where
  "parse_csv s = List.map py_strip (filter (\<lambda>x. py_strip x \<noteq> []) (split_on (CHR '','') s))"


section \<open>Laws of the string operations\<close>

lemma digit_facts [simp]:
  "d < 10 \<Longrightarrow> py_ord (digit_char d) = 48 + d"
  "d < 10 \<Longrightarrow> is_digit (digit_char d)"
  "d < 10 \<Longrightarrow> digit_val (digit_char d) = d"
  by (simp_all add: digit_char_def is_digit_def digit_val_def)

lemma digit_char_less [simp]:
  assumes "d < 10" "e < 10"
  shows "digit_char d < digit_char e \<longleftrightarrow> d < e"
  using assms by (simp add: less_char_def)

lemma digit_char_inject [simp]:
  assumes "d < 10" "e < 10"
  shows "digit_char d = digit_char e \<longleftrightarrow> d = e"
  using assms by (metis digit_facts(3))

lemma split_on_nonempty [simp]: "split_on c s \<noteq> []"
  by (induction s) (auto split: list.splits)

lemma split_on_no_sep: "c \<notin> set s \<Longrightarrow> split_on c s = [s]"
  by (induction s) auto

lemma split_on_members_no_sep: "x \<in> set (split_on c s) \<Longrightarrow> c \<notin> set x"
  by (induction s arbitrary: x) (auto split: list.splits if_splits)

lemma split_on_append_sep: "c \<notin> set a \<Longrightarrow> split_on c (a @ c # b) = a # split_on c b"
  by (induction a) auto

lemma split_on_join:
  "xs \<noteq> [] \<Longrightarrow> \<forall>x\<in>set xs. c \<notin> set x \<Longrightarrow> split_on c (py_join [c] xs) = xs"
  by (induction "[c]" xs rule: py_join.induct) (auto simp: split_on_no_sep split_on_append_sep)

lemma join_split: "py_join [c] (split_on c s) = s"
proof (induction s)
  case (Cons x xs)
  then show ?case by (cases "split_on c xs"; cases "tl (split_on c xs)") auto
qed simp

lemma starts_with_append [simp]: "starts_with p (p @ s)"
  by (simp add: starts_with_def)

lemma starts_with_iff: "starts_with p s \<longleftrightarrow> (\<exists>r. s = p @ r)"
  by (metis append_take_drop_id append_eq_conv_conj starts_with_def)

lemma split_once_sound: "split_once sep s = Some (a, b) \<Longrightarrow> s = a @ sep @ b"
  by (induction s arbitrary: a)
    (auto simp: starts_with_iff split: if_splits)

lemma starts_with_hd: "starts_with (c # p) s \<Longrightarrow> c \<in> set s"
  by (auto simp: starts_with_iff)

lemma contains_sub_chars: "contains_sub sep s \<Longrightarrow> c \<in> set sep \<Longrightarrow> c \<in> set s"
  using split_once_sound by (fastforce simp: contains_sub_def)

lemma partition_at_append:
  "c \<notin> set a \<Longrightarrow> partition_at c (a @ c # b) = (a, b)"
  by (induction a) (auto simp: partition_at_def)

lemma partition_at_no_sep:
  "c \<notin> set a \<Longrightarrow> partition_at c a = (a, [])"
  by (induction a) (auto simp: partition_at_def)

lemma dropWhile_hd_not: "dropWhile P xs = ys \<Longrightarrow> ys \<noteq> [] \<Longrightarrow> \<not> P (hd ys)"
  by (metis hd_dropWhile)

lemma py_rstrip_idem [simp]: "py_rstrip (py_rstrip s) = py_rstrip s"
  by (simp add: py_rstrip_def)

lemma py_rstrip_prefix: "\<exists>t. s = py_rstrip s @ t"
  unfolding py_rstrip_def
  by (metis rev_append rev_rev_ident takeWhile_dropWhile_id)

lemma py_lstrip_fix:
  assumes "s = [] \<or> \<not> is_space (hd s)" shows "py_lstrip s = s"
  using assms by (cases s) (auto simp: py_lstrip_def)

lemma py_strip_Nil [simp]: "py_strip [] = []"
  by (simp add: py_strip_def py_lstrip_def py_rstrip_def)

lemma py_strip_hd: "py_strip s = [] \<or> \<not> is_space (hd (py_strip s))"
proof (cases "py_strip s = []")
  case False
  let ?l = "py_lstrip s"
  obtain t where "?l = py_strip s @ t" using py_rstrip_prefix unfolding py_strip_def by blast
  with False have "hd (py_strip s) = hd ?l" "?l \<noteq> []" by (metis hd_append2, metis append_is_Nil_conv)
  then show ?thesis by (metis hd_dropWhile py_lstrip_def)
qed simp

lemma py_strip_idem [simp]: "py_strip (py_strip s) = py_strip s"
  using py_lstrip_fix [OF py_strip_hd] by (simp add: py_strip_def [of "py_strip s"]) (simp add: py_strip_def)

text \<open>A stripped string is empty or begins and ends with a non-space; mapping non-spaces to
  non-spaces keeps that.\<close>

lemma py_strip_fix:
  assumes "s = [] \<or> \<not> is_space (hd s) \<and> \<not> is_space (last s)"
  shows "py_strip s = s"
proof (cases "s = []")
  case False
  then have "dropWhile is_space (rev s) = rev s"
    using assms by (cases "rev s") (auto simp: last_rev [symmetric])
  with False assms show ?thesis by (simp add: py_strip_def py_lstrip_fix py_rstrip_def)
qed (simp add: py_strip_def py_lstrip_def py_rstrip_def)

lemma py_strip_ends:
  "py_strip s = [] \<or> \<not> is_space (hd (py_strip s)) \<and> \<not> is_space (last (py_strip s))"
proof (cases "py_strip s = []")
  case False
  let ?r = "dropWhile is_space (rev (py_lstrip s))"
  have r: "py_strip s = rev ?r" by (simp add: py_strip_def py_rstrip_def)
  with False have "\<not> is_space (hd ?r)" "?r \<noteq> []" using hd_dropWhile [of is_space] by auto
  then have "\<not> is_space (last (py_strip s))" using r by (simp add: last_rev)
  then show ?thesis using py_strip_hd [of s] by blast
qed simp

lemma py_strip_map_fix:
  assumes "\<And>c. \<not> is_space c \<Longrightarrow> \<not> is_space (f c)"
  shows "py_strip (List.map f (py_strip s)) = List.map f (py_strip s)"
proof (cases "py_strip s = []")
  case False
  then have "\<not> is_space (hd (py_strip s))" "\<not> is_space (last (py_strip s))"
    using py_strip_ends [of s] by simp_all
  then show ?thesis using False assms by (intro py_strip_fix) (simp add: hd_map last_map)
qed simp

lemma dropWhile_cong_pred:
  "(\<And>c. c \<in> set s \<Longrightarrow> P c = Q c) \<Longrightarrow> dropWhile P s = dropWhile Q s"
  by (induction s) auto

lemma is_space_lower_char [simp]: "is_space (lower_char c) = is_space c"
proof (cases "is_upper c")
  case True
  then have "65 \<le> py_ord c" "py_ord c \<le> 90" by (auto simp: is_upper_def)
  moreover then have "py_ord (char_of (py_ord c + 32) :: char) = py_ord c + 32"
    by simp
  ultimately show ?thesis using True by (auto simp: lower_char_def is_space_def Let_def)
qed (simp add: lower_char_def)

lemma not_upper_lower_char [simp]: "\<not> is_upper (lower_char c)"
proof (cases "is_upper c")
  case True
  then have "65 \<le> py_ord c" "py_ord c \<le> 90" by (auto simp: is_upper_def)
  moreover then have "py_ord (char_of (py_ord c + 32) :: char) = py_ord c + 32"
    by simp
  ultimately show ?thesis using True by (auto simp: lower_char_def is_upper_def)
qed (simp add: lower_char_def)

lemma lower_char_idem [simp]: "lower_char (lower_char c) = lower_char c"
  using not_upper_lower_char [of c] by (simp only: lower_char_def if_False)

lemma py_lower_idem [simp]: "py_lower (py_lower s) = py_lower s"
  by (simp add: py_lower_def)

lemma py_strip_lower [simp]: "py_strip (py_lower s) = py_lower (py_strip s)"
proof -
  have d: "dropWhile is_space (List.map lower_char t) = List.map lower_char (dropWhile is_space t)" for t
    by (induction t) auto
  show ?thesis
    by (simp add: py_strip_def py_lstrip_def py_rstrip_def py_lower_def d rev_map)
qed

lemma py_lower_eq_Nil [simp]: "py_lower s = [] \<longleftrightarrow> s = []"
  by (simp add: py_lower_def)

lemma parse_csv_members:
  assumes "x \<in> set (parse_csv s)"
  shows "x \<noteq> []" "py_strip x = x"
  using assms by (auto simp: parse_csv_def)

lemma parse_csv_Nil [simp]: "parse_csv [] = []"
  by (simp add: parse_csv_def)

section \<open>Decimal numerals\<close>

text \<open>The fixed-width numeral of \<open>n\<close>: its last \<open>k\<close> decimal digits.\<close>

primrec digits :: "nat \<Rightarrow> nat \<Rightarrow> string" where
  "digits 0 n = []"
| "digits (Suc k) n = digits k (n div 10) @ [digit_char (n mod 10)]"

lemma length_digits [simp]: "length (digits k n) = k"
  by (induction k arbitrary: n) auto

lemma digits_all_digit: "list_all is_digit (digits k n)"
  by (induction k arbitrary: n) (auto simp: list_all_iff)

lemma digits_digit: "c \<in> set (digits k n) \<Longrightarrow> is_digit c"
  using digits_all_digit [of k n] by (simp add: list_all_iff)

lemma digits_eq_Nil [simp]: "digits k n = [] \<longleftrightarrow> k = 0"
  by (metis length_0_conv length_digits)

lemma nat_str_all_digit: "list_all is_digit (nat_str n)"
  by (induction n rule: nat_str.induct) (subst nat_str.simps, auto)

lemma nat_str_nonempty [simp]: "nat_str n \<noteq> []"
  by (subst nat_str.simps) auto

lemma py_isdigit_nat_str [simp]: "py_isdigit (nat_str n)"
  by (simp add: py_isdigit_def nat_str_all_digit)

lemma nat_of_digits_append1: "nat_of_digits (s @ [c]) = 10 * nat_of_digits s + digit_val c"
  by (simp add: nat_of_digits_def)

lemma nat_of_digits_nat_str [simp]: "nat_of_digits (nat_str n) = n"
proof (induction n rule: nat_str.induct)
  case (1 n)
  show ?case
  proof (cases "n < 10")
    case True
    then show ?thesis by (subst nat_str.simps) (simp add: nat_of_digits_def)
  next
    case False
    then show ?thesis using 1 by (subst nat_str.simps) (simp add: nat_of_digits_append1)
  qed
qed

lemma nat_of_digits_zeros: "nat_of_digits (replicate k (CHR ''0'') @ s) = nat_of_digits s"
  by (induction k) (auto simp: nat_of_digits_def digit_val_def)

lemma digits_zero: "digits k 0 = replicate k (CHR ''0'')"
proof (induction k)
  case (Suc k)
  have "digit_char 0 = CHR ''0''" by (simp add: digit_char_def char_of_def bit_simps)
  with Suc show ?case by (simp add: replicate_append_same)
qed simp

lemma zfill_nat_str: "n < 10 ^ k \<Longrightarrow> 0 < k \<Longrightarrow> zfill k (nat_str n) = digits k n"
proof (induction k arbitrary: n)
  case (Suc k)
  show ?case
  proof (cases "n < 10")
    case True
    then have "digits k (n div 10) = replicate k (CHR ''0'')" by (simp add: digits_zero)
    with True show ?thesis by (subst nat_str.simps) (simp add: zfill_def)
  next
    case False
    then have "n div 10 < 10 ^ k" "k \<noteq> 0" using Suc.prems by (auto intro: gr0I simp: less_mult_imp_div_less)
    then have "zfill k (nat_str (n div 10)) = digits k (n div 10)" using Suc.IH by simp
    with False show ?thesis by (subst nat_str.simps) (simp add: zfill_def)
  qed
qed simp

lemma div_mod_less:
  "m div 10 < n div 10 \<or> (m div 10 = n div 10 \<and> m mod 10 < n mod 10) \<longleftrightarrow> m < n" for m n :: nat
proof -
  define a b c d where "a = m div 10" "b = m mod 10" "c = n div 10" "d = n mod 10"
  then have "m = 10 * a + b" "n = 10 * c + d" "b < 10" "d < 10" by simp_all
  moreover from this have "a < c \<or> (a = c \<and> b < d) \<longleftrightarrow> 10 * a + b < 10 * c + d"
    by (cases a c rule: linorder_cases) auto
  ultimately show ?thesis by (simp add: a_b_c_d_def)
qed

lemma digits_less:
  "m < 10 ^ k \<Longrightarrow> n < 10 ^ k \<Longrightarrow> digits k m < digits k n \<longleftrightarrow> m < n"
proof (induction k arbitrary: m n)
  case (Suc k)
  have app: "length a = length b \<Longrightarrow> a @ [x] < b @ [y] \<longleftrightarrow> a < b \<or> (a = b \<and> x < y)"
    for a b :: string and x y
    by (induction a b rule: list_induct2) auto
  have inj: "digits k (m div 10) = digits k (n div 10) \<longleftrightarrow> m div 10 = n div 10"
    using Suc.IH [of "m div 10" "n div 10"] Suc.IH [of "n div 10" "m div 10"] Suc.prems
    by (metis less_mult_imp_div_less linorder_neqE_nat mult.commute order_less_irrefl power_Suc)
  have "digits k (m div 10) < digits k (n div 10) \<longleftrightarrow> m div 10 < n div 10"
    using Suc by (simp add: less_mult_imp_div_less)
  then have "digits (Suc k) m < digits (Suc k) n \<longleftrightarrow>
      m div 10 < n div 10 \<or> (m div 10 = n div 10 \<and> m mod 10 < n mod 10)"
    by (simp add: app inj)
  also have "\<dots> \<longleftrightarrow> m < n" by (rule div_mod_less)
  finally show ?case .
qed simp

lemma digits_inject: "m < 10 ^ k \<Longrightarrow> n < 10 ^ k \<Longrightarrow> digits k m = digits k n \<longleftrightarrow> m = n"
  using digits_less [of m k n] digits_less [of n k m] by (metis linorder_neqE_nat order_less_irrefl)

lemma append_less_iff:
  fixes a b x y :: string
  assumes "length a = length b"
  shows "a @ x < b @ y \<longleftrightarrow> a < b \<or> (a = b \<and> x < y)"
  using assms by (induction a b rule: list_induct2) auto

lemma nat_of_digits_digits: "n < 10 ^ k \<Longrightarrow> nat_of_digits (digits k n) = n"
proof (induction k arbitrary: n)
  case (Suc k)
  then have "n div 10 < 10 ^ k" by (simp add: less_mult_imp_div_less)
  then show ?case using Suc.IH by (simp add: nat_of_digits_append1)
qed (simp add: nat_of_digits_def)

lemma pad13_digits: "0 \<le> n \<Longrightarrow> n < 10 ^ 13 \<Longrightarrow> pad13 n = digits 13 (nat n)"
  by (simp add: pad13_def zfill_nat_str)

text \<open>The comment of the lock module, as a law: on zero-padded timestamps the
  lexicographic order is the numeric order.\<close>

lemma pad13_less:
  assumes "0 \<le> m" "m < 10 ^ 13" "0 \<le> n" "n < 10 ^ 13"
  shows "pad13 m < pad13 n \<longleftrightarrow> m < n"
proof -
  have "nat m < 10 ^ 13" "nat n < 10 ^ 13" using assms by auto
  then have "digits 13 (nat m) < digits 13 (nat n) \<longleftrightarrow> nat m < nat n" by (rule digits_less)
  then show ?thesis using assms by (simp only: pad13_digits) auto
qed

lemma pad13_nonempty [simp]: "pad13 n \<noteq> []"
  by (simp add: pad13_def zfill_def)

lemma pad13_isdigit: "0 \<le> n \<Longrightarrow> py_isdigit (pad13 n)"
  using nat_str_all_digit
  by (auto simp: pad13_def zfill_def py_isdigit_def list_all_iff is_digit_def)

lemma pad13_value: "0 \<le> n \<Longrightarrow> nat_of_digits (pad13 n) = nat n"
  by (simp add: pad13_def zfill_def nat_of_digits_zeros)

end
