(* ===== verification/Errors.thy ===== *)
theory Errors
  imports Prelude
begin

text \<open>
  The exception hierarchy of \<^verbatim>\<open>backend/exceptions.py\<close> and the response envelopes of
  \<^verbatim>\<open>backend/responses.py\<close>. The (Chinese) display texts are left out; what the program
  branches on is the class, the status code and the i18n key, and those are kept. An
  operation that may raise returns \<open>exc + 'a\<close>. The classes of the library that the backend
  raises or catches by name (\<open>HTTPException\<close>, \<open>ValueError\<close>, ...) are constructors as well.
\<close>

datatype exc =
    AppException nat "string option"
  | NotFoundError "string option"
  | ConflictError "string option"
  | ValidationError "string option"
  | ServiceUnavailableError "string option"
  | DatabaseError "string option"
  | HTTPException nat
  | ValueError
  | TypeError
  | RuntimeError
  | ZeroDivisionError
  | InvalidTag
  | DecryptError
  | DeployCancelled
  | OtherError

type_synonym 'a result = "exc + 'a"

text \<open>The statement after one that may raise.\<close>

definition and_then :: "'a result \<Rightarrow> ('a \<Rightarrow> 'b result) \<Rightarrow> 'b result" where
  "and_then r f = (case r of Inl e \<Rightarrow> Inl e | Inr v \<Rightarrow> f v)"

lemma and_then_simps [simp]: "and_then (Inl e) f = Inl e" "and_then (Inr v) f = f v"
  by (simp_all add: and_then_def)

lemma and_then_Inr [simp]: "and_then r f = Inr w \<longleftrightarrow> (\<exists>v. r = Inr v \<and> f v = Inr w)"
  by (cases r) auto

text \<open>\<^verbatim>\<open>isinstance(e, AppException)\<close>, and \<^verbatim>\<open>isinstance(e, Exception)\<close>: only
  \<open>DeployCancelled\<close> derives from \<^verbatim>\<open>BaseException\<close>. \<open>InvalidTag\<close> derives from
  \<^verbatim>\<open>ValueError\<close>.\<close>

fun is_app_exception :: "exc \<Rightarrow> bool" where
  "is_app_exception (AppException _ _) = True"
| "is_app_exception (NotFoundError _) = True"
| "is_app_exception (ConflictError _) = True"
| "is_app_exception (ValidationError _) = True"
| "is_app_exception (ServiceUnavailableError _) = True"
| "is_app_exception (DatabaseError _) = True"
| "is_app_exception _ = False"

definition is_exception :: "exc \<Rightarrow> bool" where
  "is_exception e = (e \<noteq> DeployCancelled)"

definition is_value_error :: "exc \<Rightarrow> bool" where
  "is_value_error e = (e = ValueError \<or> e = InvalidTag)"

text \<open>The status code each class passes to the base constructor.\<close>

fun status_code :: "exc \<Rightarrow> nat" where
  "status_code (AppException c _) = c"
| "status_code (NotFoundError _) = 404"
| "status_code (ConflictError _) = 409"
| "status_code (ValidationError _) = 400"
| "status_code (ServiceUnavailableError _) = 503"
| "status_code (DatabaseError _) = 500"
| "status_code (HTTPException c) = c"
| "status_code _ = 500"

fun error_key :: "exc \<Rightarrow> string option" where
  "error_key (AppException _ k) = k"
| "error_key (NotFoundError k) = k"
| "error_key (ConflictError k) = k"
| "error_key (ValidationError k) = k"
| "error_key (ServiceUnavailableError k) = k"
| "error_key (DatabaseError k) = k"
| "error_key _ = None"

record 'a page =
  p_items :: "'a list"
  p_total :: int
  p_page :: int
  p_size :: int
  p_total_pages :: int

text \<open>\<^verbatim>\<open>responses.items\<close>: Python's floor division, which raises on a zero page size.\<close>

definition items :: "'a list \<Rightarrow> int \<Rightarrow> int \<Rightarrow> int \<Rightarrow> 'a page result" where
  "items xs tot page page_size =
     (if page_size = 0 then Inl ZeroDivisionError
      else Inr \<lparr>p_items = xs, p_total = tot, p_page = page, p_size = page_size,
                p_total_pages = max 1 ((tot + page_size - 1) div page_size)\<rparr>)"

text \<open>The clamped paging of the list queries: \<^verbatim>\<open>max(page, 1)\<close>,
  \<^verbatim>\<open>max(min(page_size, 100), 1)\<close>, \<^verbatim>\<open>LIMIT ? OFFSET ?\<close>.\<close>

definition clamp_page :: "int \<Rightarrow> int" where
  "clamp_page p = max p 1"

definition clamp_size :: "int \<Rightarrow> int" where
  "clamp_size n = max (min n 100) 1"

definition page_slice :: "int \<Rightarrow> int \<Rightarrow> 'a list \<Rightarrow> 'a list" where
  "page_slice page sz xs = take (nat sz) (drop (nat ((page - 1) * sz)) xs)"

definition paginate :: "int \<Rightarrow> int \<Rightarrow> 'a list \<Rightarrow> 'a page" where
  "paginate page page_size xs =
     (let p = clamp_page page; n = clamp_size page_size; tot = int (length xs)
      in \<lparr>p_items = page_slice p n xs, p_total = tot, p_page = p, p_size = n,
          p_total_pages = max ((tot + n - 1) div n) 1\<rparr>)"

lemma clamp_size_bounds [simp]: "1 \<le> clamp_size n" "clamp_size n \<le> 100"
  by (auto simp: clamp_size_def)

lemma clamp_page_pos [simp]: "1 \<le> clamp_page p"
  by (simp add: clamp_page_def)

lemma length_page_slice: "0 \<le> n \<Longrightarrow> length (page_slice p n xs) \<le> nat n"
  by (simp add: page_slice_def)

lemma page_ceil:
  fixes t n :: int assumes "1 \<le> n" "0 \<le> t"
  shows "t \<le> ((t + n - 1) div n) * n" "((t + n - 1) div n) * n \<le> t + n - 1"
proof -
  define q r where "q = (t + n - 1) div n * n" "r = (t + n - 1) mod n"
  then have "t + n - 1 = q + r" "0 \<le> r" "r < n" using assms by simp_all
  then have "t \<le> q" "q \<le> t + n - 1" by linarith+
  then show "t \<le> ((t + n - 1) div n) * n" "((t + n - 1) div n) * n \<le> t + n - 1"
    by (simp_all add: q_r_def)
qed

text \<open>Concatenating the pages of a listing gives the listing back.\<close>

lemma concat_slices:
  "concat (List.map (\<lambda>k. take n (drop (k * n) xs)) [0..<m]) = take (m * n) xs"
proof (induction m)
  case (Suc m)
  have "take (Suc m * n) xs = take (m * n) xs @ take n (drop (m * n) xs)"
    by (metis add.commute mult_Suc take_add)
  with Suc show ?case by simp
qed simp

lemma pages_concat:
  fixes xs :: "'a list" and sz :: int
  defines "t \<equiv> p_total_pages (paginate 1 sz xs)"
  shows "concat (List.map (\<lambda>k. p_items (paginate (int k + 1) sz xs)) [0..<nat t]) = xs"
proof -
  let ?n = "clamp_size sz"
  have n: "1 \<le> ?n" by simp
  then have n0: "0 \<le> ?n" by linarith
  let ?l = "int (length xs)"
  have t: "t = max ((?l + ?n - 1) div ?n) 1" by (simp add: t_def paginate_def Let_def)
  have "?l \<le> ((?l + ?n - 1) div ?n) * ?n" using page_ceil(1) [OF n] by simp
  also have "\<dots> \<le> t * ?n" using n0 t by (intro mult_right_mono) auto
  finally have "?l \<le> t * ?n" .
  moreover have t1: "1 \<le> t" using t by simp
  ultimately have len: "length xs \<le> nat t * nat ?n" using n
    by (metis int_nat_eq nat_int nat_le_iff nat_mult_distrib of_nat_mult order.trans zero_le_one)
  have "p_items (paginate (int k + 1) sz xs) = take (nat ?n) (drop (k * nat ?n) xs)" for k
    using n by (simp add: paginate_def Let_def page_slice_def clamp_page_def nat_mult_distrib)
  then show ?thesis using len by (simp add: concat_slices)
qed

end
