(* ===== verification/Settings.thy ===== *)
theory Settings
  imports Errors
begin

text \<open>
  \<^verbatim>\<open>backend/config.py\<close>: the settings the backend branches on, with the defaults of the
  class, its validators and the OIDC self-check. Durations are whole seconds, except where a
  comment of the source gives another unit.
\<close>

record settings =
  db_driver :: string
  auth_token_ttl_hours :: int
  allow_empty_systems :: bool
  oidc_issuer :: string
  oidc_client_id :: string
  oidc_client_secret :: string
  oidc_redirect_uri :: string
  oidc_revalidate_seconds :: int
  oidc_stale_grace_seconds :: int
  oidc_id_token_max_skew :: int
  registry_user :: string
  registry_password :: string
  trusted_proxy_hops :: int
  super_admin_role :: string
  registry_insecure_auto :: bool
  deploy_retry_attempts :: int
  log_truncate_chars :: int
  notify_truncate_chars :: int
  registry_sync_interval :: int
  ci_api_url :: string
  ci_admin_user :: string
  ci_admin_pass :: string
  ci_api_token :: string
  cd_api_token :: string
  ci_contract_ttl :: int
  http_ip_family :: string
  alert_check_interval :: int

definition default_settings :: settings where
  "default_settings =
     \<lparr>db_driver = [], auth_token_ttl_hours = 24, allow_empty_systems = False, oidc_issuer = [],
      oidc_client_id = ''cd'', oidc_client_secret = [], oidc_redirect_uri = [],
      oidc_revalidate_seconds = 60, oidc_stale_grace_seconds = 600, oidc_id_token_max_skew = 60,
      registry_user = [], registry_password = [], trusted_proxy_hops = 0,
      super_admin_role = ''super_admin'', registry_insecure_auto = False,
      deploy_retry_attempts = 3, log_truncate_chars = 20000, notify_truncate_chars = 200,
      registry_sync_interval = 30, ci_api_url = [], ci_admin_user = [], ci_admin_pass = [],
      ci_api_token = [], cd_api_token = [], ci_contract_ttl = 30, http_ip_family = ''ipv4'',
      alert_check_interval = 60\<rparr>"

definition strip_issuer_trailing_slash :: "string \<Rightarrow> string" where
  "strip_issuer_trailing_slash v = rstrip_char (CHR ''/'') (py_strip v)"

definition oidc_missing_settings :: "settings \<Rightarrow> string list" where
  "oidc_missing_settings st =
     (if oidc_issuer st = [] then [''OIDC_ISSUER''] else []) @
     (if oidc_client_secret st = [] then [''CD_OIDC_SECRET''] else []) @
     (if oidc_redirect_uri st = [] then [''CD_OIDC_REDIRECT_URI''] else [])"

definition oidc_ready :: "settings \<Rightarrow> bool" where
  "oidc_ready st = (oidc_missing_settings st = [])"

definition validate_ip_family :: "string \<Rightarrow> string result" where
  "validate_ip_family v =
     (let family = (if py_strip v = [] then ''ipv4'' else py_lower (py_strip v))
      in if family \<notin> {''ipv4'', ''ipv6'', ''auto''} then Inl ValueError else Inr family)"

lemma oidc_ready_iff:
  "oidc_ready st \<longleftrightarrow> oidc_issuer st \<noteq> [] \<and> oidc_client_secret st \<noteq> [] \<and> oidc_redirect_uri st \<noteq> []"
  by (simp add: oidc_ready_def oidc_missing_settings_def)

end
