(* ===== verification/GlueIdentity.thy ===== *)
theory GlueIdentity
  imports Settings
begin

text \<open>
  \<^verbatim>\<open>backend/services/glue_identity.py\<close>: identities and role permissions from the Glue
  service, behind in-process caches: an identity cache with a revalidation window and a
  last-known-good entry, a permission cache per role, and a negative cache for roles that do
  not exist. What Glue answers is a parameter (\<open>glue\<close>); the clock readings of one call are a
  record, because the code reads the clock at several points of a call. Throttled log lines
  are left out.
\<close>

text \<open>An HTTP GET on Glue: no connection, a status, a body that is not JSON, or a JSON body
  (\<open>None\<close> when it does not have the shape the caller checks).\<close>

datatype 'b answer = NoAnswer | Code nat | NotJson | Body "'b option"

datatype status_field = NoStatus | IntStatus int | BadStatus

record user_body =
  ub_username :: string
  ub_role :: string
  ub_systems :: "string option"
  ub_status :: status_field

record glue =
  glue_user :: "string \<Rightarrow> user_body answer"
  glue_role :: "string \<Rightarrow> (string list) answer"

record identity =
  i_username :: string
  i_role :: string
  i_systems :: "string option"
  i_status :: status_field
  i_permissions :: "string list option"
  i_usable :: bool
  i_checked_at :: epoch
  i_last_ok_at :: epoch

record caches =
  identity_cache :: "string \<rightharpoonup> identity"
  perm_cache :: "string \<rightharpoonup> string list \<times> epoch"
  role_negative :: "string \<rightharpoonup> epoch"

definition empty_caches :: caches where
  "empty_caches = \<lparr>identity_cache = Map.empty, perm_cache = Map.empty, role_negative = Map.empty\<rparr>"

text \<open>The readings of \<^verbatim>\<open>time.time()\<close> in one call of \<open>get_identity\<close>, in program order.\<close>

record times =
  tm_start :: epoch
  tm_role :: epoch
  tm_role_done :: epoch
  tm_end :: epoch

text \<open>\<open>GlueIdentityError\<close> is an \<open>AppException\<close>; \<open>GUnavailable\<close> is the internal, transient
  signal.\<close>

datatype glue_error = GDenied nat string | GUnavailable

definition window :: "settings \<Rightarrow> int" where
  "window st = max (oidc_revalidate_seconds st) 1"

definition username_max_len :: nat where
  "username_max_len = 128"

definition glue_get :: "settings \<Rightarrow> 'b answer \<Rightarrow> glue_error + (nat \<times> 'b option)" where
  "glue_get st a =
     (if rstrip_char (CHR ''/'') (ci_api_url st) = [] then Inl GUnavailable
      else if ci_api_token st = [] then Inl GUnavailable
      else case a of
             NoAnswer \<Rightarrow> Inl GUnavailable
           | Code c \<Rightarrow> if c = 200 then Inl GUnavailable else Inr (c, None)
           | NotJson \<Rightarrow> Inl GUnavailable
           | Body b \<Rightarrow> Inr (200, b))"

definition identity_unavailable :: glue_error where
  "identity_unavailable = GDenied 401 ''errors.identity_unavailable''"

text \<open>The part of \<^verbatim>\<open>role_permissions\<close> after the caches.\<close>

definition fetch_role ::
  "settings \<Rightarrow> glue \<Rightarrow> times \<Rightarrow> string \<Rightarrow> caches \<Rightarrow> (glue_error + string list) \<times> caches" where
  "fetch_role st g tm role c =
     (case glue_get st (glue_role g role) of
        Inl e \<Rightarrow> (Inl e, c)
      | Inr (code, body) \<Rightarrow>
          if code = 404
          then (Inl identity_unavailable,
                c\<lparr>role_negative := (role_negative c)(role \<mapsto> tm_role_done tm + window st)\<rparr>)
          else if code \<noteq> 200 then (Inl GUnavailable, c)
          else case body of
                 None \<Rightarrow> (Inl GUnavailable, c)
               | Some perms \<Rightarrow>
                   (Inr perms,
                    c\<lparr>perm_cache := (perm_cache c)(role \<mapsto> (perms, tm_role_done tm)),
                      role_negative := (role_negative c)(role := None)\<rparr>))"

definition role_permissions ::
  "settings \<Rightarrow> glue \<Rightarrow> times \<Rightarrow> string \<Rightarrow> caches \<Rightarrow> (glue_error + string list) \<times> caches" where
  "role_permissions st g tm raw_role c =
     (let role = py_strip raw_role; now = tm_role tm
      in if role = [] then (Inr [], c)
         else case perm_cache c role of
           Some (perms, checked) \<Rightarrow>
             if now - checked < window st then (Inr perms, c)
             else if (case role_negative c role of None \<Rightarrow> 0 | Some u \<Rightarrow> u) > now
                  then (Inl identity_unavailable, c)
             else fetch_role st g tm role c
         | None \<Rightarrow>
             if (case role_negative c role of None \<Rightarrow> 0 | Some u \<Rightarrow> u) > now
             then (Inl identity_unavailable, c)
             else fetch_role st g tm role c)"

definition fetch_identity :: "settings \<Rightarrow> glue \<Rightarrow> string \<Rightarrow> glue_error + user_body" where
  "fetch_identity st g username =
     (case glue_get st (glue_user g username) of
        Inl e \<Rightarrow> Inl e
      | Inr (code, body) \<Rightarrow>
          if code = 404 then Inl identity_unavailable
          else if code \<noteq> 200 then Inl GUnavailable
          else case body of
                 None \<Rightarrow> Inl GUnavailable
               | Some b \<Rightarrow> Inr (b\<lparr>ub_username := py_lower (py_strip
                    (if ub_username b = [] then username else ub_username b))\<rparr>))"

text \<open>Last-known-good within the grace period after the last successful check.\<close>

definition soft_fail_or_raise ::
  "settings \<Rightarrow> epoch \<Rightarrow> identity option \<Rightarrow> glue_error + identity" where
  "soft_fail_or_raise st now cached =
     (case cached of
        Some i \<Rightarrow>
          if i_usable i \<and> 0 < oidc_stale_grace_seconds st \<and>
             now - i_last_ok_at i \<le> oidc_stale_grace_seconds st
          then Inr i else Inl (GDenied 503 ''errors.service_unavailable'')
      | None \<Rightarrow> Inl (GDenied 503 ''errors.service_unavailable''))"

definition invalidate :: "string \<Rightarrow> caches \<Rightarrow> caches" where
  "invalidate username c =
     c\<lparr>identity_cache := (identity_cache c)(py_lower (py_strip username) := None)\<rparr>"

definition reset_cache :: "caches \<Rightarrow> caches" where
  "reset_cache c = empty_caches"

definition entry_of ::
  "user_body \<Rightarrow> string list option \<Rightarrow> bool \<Rightarrow> epoch \<Rightarrow> epoch \<Rightarrow> identity" where
  "entry_of b perms usable checked ok =
     \<lparr>i_username = ub_username b, i_role = ub_role b, i_systems = ub_systems b,
      i_status = ub_status b, i_permissions = perms, i_usable = usable,
      i_checked_at = checked, i_last_ok_at = ok\<rparr>"

text \<open>The part of \<^verbatim>\<open>get_identity\<close> after the cache: revalidate the account, then
  refresh the permissions of its role.\<close>

definition revalidate ::
  "settings \<Rightarrow> glue \<Rightarrow> times \<Rightarrow> string \<Rightarrow> identity option \<Rightarrow> caches \<Rightarrow> (glue_error + identity) \<times> caches" where
  "revalidate st g tm key cached c =
     (case fetch_identity st g key of
        Inl GUnavailable \<Rightarrow> (soft_fail_or_raise st (tm_end tm) cached, c)
      | Inl e \<Rightarrow> (Inl e, invalidate key c)
      | Inr b \<Rightarrow>
          (case role_permissions st g tm (ub_role b) c of
             (Inl GUnavailable, c') \<Rightarrow> (soft_fail_or_raise st (tm_end tm) cached, c')
           | (Inl e, c') \<Rightarrow>
               (Inl e, c'\<lparr>identity_cache := (identity_cache c')(key \<mapsto>
                  entry_of b None False (tm_start tm)
                    (case cached of None \<Rightarrow> 0 | Some i \<Rightarrow> i_last_ok_at i))\<rparr>)
           | (Inr perms, c') \<Rightarrow>
               (let entry = entry_of b (Some perms) True (tm_end tm) (tm_end tm)
                in (Inr entry, c'\<lparr>identity_cache := (identity_cache c')(key \<mapsto> entry)\<rparr>))))"

definition get_identity ::
  "settings \<Rightarrow> glue \<Rightarrow> times \<Rightarrow> bool \<Rightarrow> string \<Rightarrow> caches \<Rightarrow> (glue_error + identity) \<times> caches" where
  "get_identity st g tm force username c =
     (let key = py_lower (py_strip username); cached = identity_cache c key
      in if key = [] \<or> username_max_len < length key then (Inl identity_unavailable, c)
         else case cached of
           Some i \<Rightarrow>
             if \<not> force \<and> tm_start tm - i_checked_at i < window st
             then (if i_usable i then (Inr i, c) else (Inl identity_unavailable, c))
             else revalidate st g tm key cached c
         | None \<Rightarrow> revalidate st g tm key cached c)"

section \<open>What the caches hold\<close>

text \<open>A usable entry carries permissions and was written by a successful check, whose time
  is both its \<open>checked_at\<close> and its \<open>last_ok_at\<close>.\<close>

definition entry_ok :: "identity \<Rightarrow> bool" where
  "entry_ok i \<longleftrightarrow> (i_usable i \<longrightarrow> i_permissions i \<noteq> None \<and> i_last_ok_at i = i_checked_at i)"

definition caches_ok :: "caches \<Rightarrow> bool" where
  "caches_ok c \<longleftrightarrow> (\<forall>k i. identity_cache c k = Some i \<longrightarrow> entry_ok i)"

lemma caches_ok_empty [simp]: "caches_ok empty_caches"
  by (simp add: caches_ok_def empty_caches_def)

lemma fetch_role_identity_cache [simp]:
  "identity_cache (snd (fetch_role st g tm r c)) = identity_cache c"
  by (simp add: fetch_role_def split: sum.splits option.splits prod.splits)

lemma role_permissions_identity_cache [simp]:
  "identity_cache (snd (role_permissions st g tm r c)) = identity_cache c"
  by (auto simp: role_permissions_def Let_def split: option.splits)

lemma entry_of_usable [simp]: "entry_ok (entry_of b (Some p) True t t)" "entry_ok (entry_of b q False u v)"
  by (simp_all add: entry_ok_def entry_of_def)

lemma revalidate_ok:
  assumes "caches_ok c"
  shows "caches_ok (snd (revalidate st g tm key cached c))"
proof -
  have ic: "identity_cache c' = identity_cache c" if "role_permissions st g tm r c = (x, c')" for x c' r
    using role_permissions_identity_cache [of st g tm r c] that by simp
  show ?thesis using assms
    by (auto simp: revalidate_def caches_ok_def Let_def invalidate_def dest: ic
        split: sum.splits glue_error.splits prod.splits if_splits)
qed

lemma get_identity_ok [inv_intros]:
  "caches_ok c \<Longrightarrow> caches_ok (snd (get_identity st g tm force u c))"
  by (auto simp: get_identity_def Let_def revalidate_ok split: option.splits)

lemma soft_fail_Inr:
  assumes "soft_fail_or_raise st now cached = Inr i"
  shows "cached = Some i \<and> i_usable i \<and> 0 < oidc_stale_grace_seconds st
    \<and> now - i_last_ok_at i \<le> oidc_stale_grace_seconds st"
  using assms by (auto simp: soft_fail_or_raise_def split: option.splits if_splits)

text \<open>Who may answer a call: a cached entry inside the window, a fresh check, or the
  last-known-good entry inside the grace period.\<close>

lemma revalidate_Inr:
  assumes "revalidate st g tm key cached c = (Inr i, c')"
  shows "(i_usable i \<and> i_checked_at i = tm_end tm \<and> i_last_ok_at i = tm_end tm \<and> i_permissions i \<noteq> None
            \<and> identity_cache c' key = Some i)
       \<or> (cached = Some i \<and> i_usable i \<and> 0 < oidc_stale_grace_seconds st
            \<and> tm_end tm - i_last_ok_at i \<le> oidc_stale_grace_seconds st
            \<and> identity_cache c' = identity_cache c)"
proof -
  have ic: "identity_cache c' = identity_cache c" if "role_permissions st g tm r c = (x, c')" for x c' r
    using role_permissions_identity_cache [of st g tm r c] that by simp
  show ?thesis using assms
    by (auto simp: revalidate_def Let_def entry_of_def dest: ic dest!: soft_fail_Inr
        split: sum.splits glue_error.splits prod.splits)
qed

lemma get_identity_cases:
  assumes "get_identity st g tm force u c = (Inr i, c')"
  obtains "identity_cache c (py_lower (py_strip u)) = Some i" "i_usable i"
      "tm_start tm - i_checked_at i < window st" "c' = c"
    | "i_usable i" "i_checked_at i = tm_end tm" "i_last_ok_at i = tm_end tm" "i_permissions i \<noteq> None"
    | "identity_cache c (py_lower (py_strip u)) = Some i" "i_usable i"
      "tm_end tm - i_last_ok_at i \<le> oidc_stale_grace_seconds st" "identity_cache c' = identity_cache c"
  using assms
  by (auto simp: get_identity_def Let_def split: if_splits option.splits dest!: revalidate_Inr)

section \<open>Where permissions come from\<close>

text \<open>\<open>H\<close> is the history of answers of the role endpoint: role, permissions, time. The
  invariant says that everything in the caches stems from an answer, and that an identity was
  built from permissions younger than one window.\<close>

type_synonym history = "(string \<times> string list \<times> epoch) set"

definition instant :: "times \<Rightarrow> epoch \<Rightarrow> bool" where
  "instant tm now \<longleftrightarrow> tm_start tm = now \<and> tm_role tm = now \<and> tm_role_done tm = now \<and> tm_end tm = now"

definition answers :: "glue \<Rightarrow> epoch \<Rightarrow> history" where
  "answers g now = {(r, p, t). glue_role g r = Body (Some p) \<and> t = now}"

definition from_history :: "history \<Rightarrow> settings \<Rightarrow> identity \<Rightarrow> bool" where
  "from_history H st i \<longleftrightarrow>
     (py_strip (i_role i) = [] \<and> i_permissions i = Some []) \<or>
     (\<exists>p tf. (py_strip (i_role i), p, tf) \<in> H \<and> i_permissions i = Some p \<and>
             i_checked_at i - tf < window st)"

definition sourced :: "history \<Rightarrow> settings \<Rightarrow> caches \<Rightarrow> bool" where
  "sourced H st c \<longleftrightarrow>
     (\<forall>r p t. perm_cache c r = Some (p, t) \<longrightarrow> (r, p, t) \<in> H) \<and>
     (\<forall>k i. identity_cache c k = Some i \<longrightarrow> i_usable i \<longrightarrow> from_history H st i)"

lemma window_pos [simp]: "0 < window st" "1 \<le> window st"
  by (simp_all add: window_def)

lemma from_history_mono: "from_history H st i \<Longrightarrow> from_history (H \<union> H') st i"
  unfolding from_history_def by blast

lemma sourced_mono: "sourced H st c \<Longrightarrow> sourced (H \<union> H') st c"
  unfolding sourced_def using from_history_mono by blast

lemma sourced_put:
  "sourced H st c \<Longrightarrow> (i_usable e \<Longrightarrow> from_history H st e) \<Longrightarrow>
   sourced H st (c\<lparr>identity_cache := (identity_cache c)(k \<mapsto> e)\<rparr>)"
  by (simp add: sourced_def)

lemma sourced_invalidate: "sourced H st c \<Longrightarrow> sourced H st (invalidate u c)"
  by (simp add: sourced_def invalidate_def)

lemma fetch_role_sourced:
  assumes "fetch_role st g tm r c = (x, c')" "sourced H st c" "tm_role_done tm = now"
  shows "sourced (H \<union> answers g now) st c'"
    "x = Inr p \<Longrightarrow> (r, p, now) \<in> answers g now"
proof -
  have ans: "glue_get st (glue_role g r) = Inr (200, Some p) \<Longrightarrow> (r, p, now) \<in> answers g now" for p
    by (auto simp: glue_get_def answers_def split: if_splits answer.splits)
  show "x = Inr p \<Longrightarrow> (r, p, now) \<in> answers g now"
    using assms(1) ans by (auto simp: fetch_role_def split: sum.splits prod.splits if_splits option.splits)
  show "sourced (H \<union> answers g now) st c'"
  proof -
    have neg: "sourced (H \<union> answers g now) st (c\<lparr>role_negative := n\<rparr>)" for n
      using sourced_mono [OF assms(2)] by (simp add: sourced_def)
    have put: "sourced (H \<union> answers g now) st
        (c\<lparr>perm_cache := (perm_cache c)(r \<mapsto> (p, now)), role_negative := n\<rparr>)"
      if "(r, p, now) \<in> answers g now" for p n
      using sourced_mono [OF assms(2)] that by (simp add: sourced_def)
    show ?thesis using assms(1,3) neg put ans sourced_mono [OF assms(2)]
      by (auto simp: fetch_role_def split: sum.splits prod.splits if_splits option.splits)
  qed
qed

lemma role_permissions_sourced:
  assumes "role_permissions st g tm r c = (x, c')" "sourced H st c" "instant tm now"
  shows "sourced (H \<union> answers g now) st c'"
    "x = Inr p \<Longrightarrow> (py_strip r = [] \<and> p = []) \<or>
       (\<exists>tf. (py_strip r, p, tf) \<in> H \<union> answers g now \<and> now - tf < window st)"
proof -
  have t: "tm_role tm = now" "tm_role_done tm = now" using assms(3) by (auto simp: instant_def)
  have mono: "sourced (H \<union> answers g now) st c"
    using assms(2) by (rule sourced_mono)
  note fr = fetch_role_sourced [OF _ assms(2) t(2), of g "py_strip r"]
  show "sourced (H \<union> answers g now) st c'"
    using assms(1) mono fr(1) by (auto simp: role_permissions_def Let_def split: if_splits option.splits)
  show "x = Inr p \<Longrightarrow> (py_strip r = [] \<and> p = []) \<or>
       (\<exists>tf. (py_strip r, p, tf) \<in> H \<union> answers g now \<and> now - tf < window st)"
  proof -
    assume x: "x = Inr p"
    consider "py_strip r = []" "p = []"
      | tf where "perm_cache c (py_strip r) = Some (p, tf)" "now - tf < window st"
      | "fetch_role st g tm (py_strip r) c = (Inr p, c')"
      using assms(1) x t by (auto simp: role_permissions_def Let_def split: if_splits option.splits)
    then show ?thesis
    proof cases
      case 2
      then have "(py_strip r, p, tf) \<in> H" using assms(2) unfolding sourced_def by blast
      with 2 show ?thesis by blast
    next
      case 3
      then have "(py_strip r, p, now) \<in> answers g now" using fr(2) by blast
      then show ?thesis by (intro disjI2 exI [of _ now]) simp
    qed simp
  qed
qed

lemma revalidate_sourced:
  assumes "sourced H st c" "instant tm now"
  shows "sourced (H \<union> answers g now) st (snd (revalidate st g tm key cached c))"
proof -
  have t: "tm_end tm = now" "tm_start tm = now" using assms(2) by (auto simp: instant_def)
  have mono: "sourced (H \<union> answers g now) st c"
    using assms(1) by (rule sourced_mono)
  show ?thesis
  proof (cases "fetch_identity st g key")
    case (Inl e)
    then show ?thesis using mono
      by (cases e) (auto simp: revalidate_def intro: sourced_invalidate)
  next
    case (Inr b)
    obtain x c' where rp: "role_permissions st g tm (ub_role b) c = (x, c')" by fastforce
    note s = role_permissions_sourced [OF rp assms(1,2)]
    show ?thesis
    proof (cases x)
      case (Inl e)
      then show ?thesis using Inr rp s(1)
        by (cases e) (auto simp: revalidate_def entry_of_def intro!: sourced_put)
    next
      case (Inr p)
      have "from_history (H \<union> answers g now) st (entry_of b (Some p) True now now)"
        using s(2) [OF Inr] unfolding from_history_def entry_of_def by auto
      then show ?thesis using \<open>fetch_identity st g key = Inr b\<close> rp s(1) Inr t
        by (auto simp: revalidate_def Let_def intro!: sourced_put)
    qed
  qed
qed

lemma get_identity_sourced [inv_intros]:
  assumes "sourced H st c" "instant tm now"
  shows "sourced (H \<union> answers g now) st (snd (get_identity st g tm force u c))"
proof -
  have mono: "sourced (H \<union> answers g now) st c"
    using assms(1) by (rule sourced_mono)
  then show ?thesis using revalidate_sourced [OF assms]
    by (auto simp: get_identity_def Let_def split: option.splits)
qed

lemma revalidate_result_stored:
  assumes "revalidate st g tm key (identity_cache c key) c = (Inr i, c')"
  shows "identity_cache c' key = Some i"
  using revalidate_Inr [OF assms] by auto

lemma get_identity_stored:
  assumes "get_identity st g tm force u c = (Inr i, c')"
  shows "identity_cache c' (py_lower (py_strip u)) = Some i \<and> i_usable i"
  using assms revalidate_result_stored [of st g tm "py_lower (py_strip u)" c] revalidate_Inr
  by (auto simp: get_identity_def Let_def split: if_splits option.splits) blast+

lemma get_identity_age:
  assumes "caches_ok c" "get_identity st g tm force u c = (Inr i, c')" "tm_start tm \<le> tm_end tm"
  shows "i_usable i \<and> i_permissions i \<noteq> None \<and>
    tm_start tm - i_last_ok_at i \<le> max (window st) (oidc_stale_grace_seconds st)"
  using assms(2)
proof (cases rule: get_identity_cases)
  case 1
  then have "entry_ok i" using assms(1) by (auto simp: caches_ok_def)
  with 1 show ?thesis by (auto simp: entry_ok_def)
next
  case 2
  have "0 < max (window st) (oidc_stale_grace_seconds st)" by (simp add: max.strict_coboundedI1)
  with 2 assms(3) show ?thesis by simp
next
  case 3
  then have "entry_ok i" using assms(1) by (auto simp: caches_ok_def)
  with 3 assms(3) show ?thesis by (auto simp: entry_ok_def)
qed

section \<open>Properties\<close>

text \<open>C39. Whatever answers an identity lookup, the identity is usable, has its permissions, and
  its last successful verification is no older than the revalidation window or the grace
  period, whichever is longer: a failing Glue never extends the life of a cached identity.\<close>

theorem identity_age_bounded:
  assumes "caches_ok c" "get_identity st g tm force u c = (Inr i, c')" "tm_start tm \<le> tm_end tm"
  shows "i_usable i \<and> i_permissions i \<noteq> None \<and>
    tm_start tm - i_last_ok_at i \<le> max (window st) (oidc_stale_grace_seconds st)"
  using assms by (rule get_identity_age)

definition sample_settings :: settings where
  "sample_settings = default_settings\<lparr>ci_api_url := ''http://glue'', ci_api_token := ''dg_x''\<rparr>"

definition sample_glue :: "string list \<Rightarrow> glue" where
  "sample_glue perms =
     \<lparr>glue_user = (\<lambda>u. Body (Some \<lparr>ub_username = u, ub_role = ''dev'', ub_systems = Some ''cd'',
                            ub_status = IntStatus 1\<rparr>)),
      glue_role = (\<lambda>r. Body (Some perms))\<rparr>"

definition at_time :: "epoch \<Rightarrow> times" where
  "at_time t = \<lparr>tm_start = t, tm_role = t, tm_role_done = t, tm_end = t\<rparr>"

lemma instant_at_time [simp]: "instant (at_time t) t"
  by (simp add: instant_def at_time_def)

lemmas identity_simps = get_identity_def revalidate_def fetch_identity_def role_permissions_def
  fetch_role_def glue_get_def sample_settings_def default_settings_def sample_glue_def at_time_def
  window_def username_max_len_def entry_of_def Let_def rstrip_char_def py_strip_def py_lstrip_def
  py_rstrip_def is_space_def py_lower_def lower_char_def is_upper_def empty_caches_def

lemma sample_first_call:
  "get_identity sample_settings (sample_glue [''p'']) (at_time 1000) False ''bob'' empty_caches =
     (Inr \<lparr>i_username = ''bob'', i_role = ''dev'', i_systems = Some ''cd'', i_status = IntStatus 1,
           i_permissions = Some [''p''], i_usable = True, i_checked_at = 1000, i_last_ok_at = 1000\<rparr>,
      \<lparr>identity_cache = [''bob'' \<mapsto>
          \<lparr>i_username = ''bob'', i_role = ''dev'', i_systems = Some ''cd'', i_status = IntStatus 1,
           i_permissions = Some [''p''], i_usable = True, i_checked_at = 1000, i_last_ok_at = 1000\<rparr>],
       perm_cache = [''dev'' \<mapsto> ([''p''], 1000)], role_negative = Map.empty\<rparr>)"
  by (simp add: identity_simps)

theorem identity_age_bounded_witness:
  "i_usable (projr (fst (get_identity sample_settings (sample_glue [''p'']) (at_time 1000) False
      ''bob'' empty_caches)))"
  using identity_age_bounded [OF caches_ok_empty sample_first_call] sample_first_call
  by (simp add: at_time_def)

text \<open>A definite denial takes effect at once and is never softened: when Glue answers 404
  for the account on a revalidation, the call is refused with 401, the last-known-good entry
  is dropped, and a later call with Glue unreachable is refused with 503 although the grace
  period has not run out.\<close>

theorem denial_is_immediate:
  assumes "get_identity st g tm force u c = (r, c')"
    and key: "py_lower (py_strip u) = k" "k \<noteq> []" "length k \<le> username_max_len"
    and conf: "rstrip_char (CHR ''/'') (ci_api_url st) \<noteq> []" "ci_api_token st \<noteq> []"
    and gone: "glue_user g k = Code 404"
    and expired: "force \<or> (\<forall>i. identity_cache c k = Some i \<longrightarrow> window st \<le> tm_start tm - i_checked_at i)"
    and down: "glue_user g2 k = NoAnswer"
  shows "r = Inl (GDenied 401 ''errors.identity_unavailable'') \<and> identity_cache c' k = None \<and>
    fst (get_identity st g2 tm2 force2 u c') = Inl (GDenied 503 ''errors.service_unavailable'')"
proof -
  have f: "fetch_identity st g k = Inl identity_unavailable"
    using conf gone by (simp add: fetch_identity_def glue_get_def)
  have "get_identity st g tm force u c = revalidate st g tm k (identity_cache c k) c"
    using key expired by (auto simp: get_identity_def Let_def split: option.splits)
  then have "get_identity st g tm force u c = (Inl identity_unavailable, invalidate k c)"
    using f by (simp add: revalidate_def identity_unavailable_def)
  moreover have "py_lower (py_strip k) = k" using key(1) by (metis py_lower_idem py_strip_idem py_strip_lower)
  ultimately have r: "r = Inl identity_unavailable" "identity_cache c' k = None"
    using assms(1) by (auto simp: invalidate_def)
  have "fetch_identity st g2 k = Inl GUnavailable"
    using conf down by (simp add: fetch_identity_def glue_get_def)
  then have "fst (get_identity st g2 tm2 force2 u c') = Inl (GDenied 503 ''errors.service_unavailable'')"
    using key r(2) by (simp add: get_identity_def Let_def revalidate_def soft_fail_or_raise_def)
  with r show ?thesis by (simp add: identity_unavailable_def)
qed

definition gone_glue :: glue where
  "gone_glue = \<lparr>glue_user = (\<lambda>u. Code 404), glue_role = (\<lambda>r. NoAnswer)\<rparr>"

definition down_glue :: glue where
  "down_glue = \<lparr>glue_user = (\<lambda>u. NoAnswer), glue_role = (\<lambda>r. NoAnswer)\<rparr>"

theorem denial_is_immediate_witness:
  "fst (get_identity sample_settings down_glue (at_time 1101) False ''bob''
     (snd (get_identity sample_settings gone_glue (at_time 1100) False ''bob''
       (snd (get_identity sample_settings (sample_glue [''p'']) (at_time 1000) False ''bob'' empty_caches)))))
   = Inl (GDenied 503 ''errors.service_unavailable'')"
proof -
  let ?c = "snd (get_identity sample_settings (sample_glue [''p'']) (at_time 1000) False ''bob'' empty_caches)"
  have "py_lower (py_strip ''bob'') = ''bob''" by (simp add: identity_simps)
  moreover have "rstrip_char (CHR ''/'') (ci_api_url sample_settings) \<noteq> []" "ci_api_token sample_settings \<noteq> []"
    by (simp_all add: identity_simps)
  moreover have "\<forall>i. identity_cache ?c ''bob'' = Some i \<longrightarrow>
      window sample_settings \<le> tm_start (at_time 1100) - i_checked_at i"
    by (simp add: sample_first_call) (simp add: identity_simps)
  ultimately show ?thesis
    using denial_is_immediate [of sample_settings gone_glue "at_time 1100" False "''bob''" ?c _ _ "''bob''"
        down_glue "at_time 1101" False, OF prod.collapse [symmetric]]
    by (simp add: gone_glue_def down_glue_def username_max_len_def)
qed

text \<open>Permissions served from the caches stem from an answer of the role endpoint for
  that role that is younger than two windows, or the account has no role and no permissions
  (a call inside the identity window, no call counted as taking time).\<close>

theorem permissions_age_bounded:
  assumes "sourced H st c" "instant tm now"
    and "get_identity st g tm force u c = (Inr i, c')"
    and fresh: "now - i_checked_at i < window st"
  shows "(py_strip (i_role i) = [] \<and> i_permissions i = Some []) \<or>
    (\<exists>p tf. (py_strip (i_role i), p, tf) \<in> H \<union> answers g now \<and> i_permissions i = Some p \<and>
       now - tf < 2 * window st)"
proof -
  have "sourced (H \<union> answers g now) st c'"
    using get_identity_sourced [OF assms(1,2), of g force u] assms(3) by simp
  moreover have "identity_cache c' (py_lower (py_strip u)) = Some i" "i_usable i"
    using get_identity_stored [OF assms(3)] by simp_all
  ultimately have "from_history (H \<union> answers g now) st i" unfolding sourced_def by blast
  with fresh show ?thesis unfolding from_history_def by fastforce
qed

lemma sourced_empty [simp]: "sourced H st empty_caches"
  by (simp add: sourced_def empty_caches_def)

theorem permissions_age_bounded_witness:
  "\<exists>p tf. (''dev'', p, tf) \<in> answers (sample_glue [''p'']) 1000 \<and> p = [''p''] \<and> 1000 - tf < 120"
  using permissions_age_bounded [OF sourced_empty instant_at_time sample_first_call, of "{}"]
  by (auto simp: identity_simps)

text \<open>The bound of two windows is not slack: with the default window of 60 seconds, a
  permission that Glue stopped granting 117 seconds ago is still served from the caches,
  without any failure of Glue. The permission list is cached per role and may be up to one
  window old when an identity is built from it, and that identity is served for another
  window, whereas the settings promise one window as the limit for a withdrawn permission.\<close>

theorem revoked_permission_outlives_window:
  "let c1 = snd (get_identity sample_settings (sample_glue [''p'']) (at_time 1000) False ''bob'' empty_caches);
       c2 = snd (get_identity sample_settings (sample_glue []) (at_time 1059) False ''eve'' c1);
       r = fst (get_identity sample_settings (sample_glue []) (at_time 1118) False ''eve'' c2)
   in map_sum id i_permissions r = Inr (Some [''p'']) \<and> window sample_settings = 60"
  unfolding Let_def sample_first_call by (simp add: identity_simps)

end
