(* ===== verification/Contract.thy ===== *)
theory Contract
  imports Settings
begin

text \<open>
  The integration contract and the deployment gate: \<^verbatim>\<open>backend/database.py\<close> (contract
  state, its cache, registry hints, required tables, table provisioning) and
  \<^verbatim>\<open>cd_deploy_gate\<close> of \<^verbatim>\<open>backend/auth.py\<close>; with them the small time-to-live
  caches of the backend, stated as an interface, and \<^verbatim>\<open>backend/services/ci_service.py\<close>,
  whose project list is such a cache. What the Glue endpoints answer is a parameter.
\<close>

section \<open>Time-to-live caches\<close>

text \<open>A cache of one value with its time of filling. The client law proved here: what is served
  was fetched less than one time to live ago, and a failed fetch does not count.\<close>

type_synonym 'v cache1 = "('v \<times> epoch) option"

definition cache_lookup :: "int \<Rightarrow> epoch \<Rightarrow> 'v cache1 \<Rightarrow> 'v option" where
  "cache_lookup ttl now c =
     (case c of None \<Rightarrow> None | Some (v, t) \<Rightarrow> if 0 < ttl \<and> now - t < ttl then Some v else None)"

definition cache_store :: "epoch \<Rightarrow> 'v \<Rightarrow> 'v cache1 \<Rightarrow> 'v cache1" where
  "cache_store now v c = Some (v, now)"

locale ttl_cache =
  fixes lookup :: "epoch \<Rightarrow> 'c \<Rightarrow> 'v option"
    and store :: "epoch \<Rightarrow> 'v \<Rightarrow> 'c \<Rightarrow> 'c"
    and filled :: "'c \<Rightarrow> ('v \<times> epoch) option"
    and ttl :: int
  assumes lookup_filled: "lookup now c = Some v \<Longrightarrow> \<exists>t. filled c = Some (v, t) \<and> now - t < ttl"
    and filled_store: "filled (store now v c) = Some (v, now)"
begin

lemma served_is_recent:
  assumes "lookup now (store t v c) = Some w"
  shows "w = v \<and> now - t < ttl"
  using lookup_filled [OF assms] by (simp add: filled_store)

lemma expired_misses:
  assumes "ttl \<le> now - t" shows "lookup now (store t v c) = None"
  using served_is_recent [of now t v c] assms by (cases "lookup now (store t v c)") auto

end

interpretation c1: ttl_cache "cache_lookup ttl" cache_store "\<lambda>c. c" ttl for ttl
  by unfold_locales (auto simp: cache_lookup_def cache_store_def split: option.splits if_splits)

section \<open>Contract answers\<close>

text \<open>A JSON scalar of the answer, Python's \<^verbatim>\<open>str\<close> of it and its truth value.\<close>

datatype raw = RNone | RBool bool | RInt int | RStr string

definition int_str :: "int \<Rightarrow> string" where
  "int_str n = (if n < 0 then ''-'' @ nat_str (nat (- n)) else nat_str (nat n))"

fun raw_str :: "raw \<Rightarrow> string" where
  "raw_str RNone = ''None''"
| "raw_str (RBool b) = (if b then ''True'' else ''False'')"
| "raw_str (RInt n) = int_str n"
| "raw_str (RStr s) = s"

fun truthy :: "raw \<Rightarrow> bool" where
  "truthy RNone = False"
| "truthy (RBool b) = b"
| "truthy (RInt n) = (n \<noteq> 0)"
| "truthy (RStr s) = (s \<noteq> [])"

definition str_or_blank :: "raw \<Rightarrow> string" where
  "str_or_blank r = (if truthy r then raw_str r else [])"

record raw_contract =
  rc_enabled :: raw
  rc_provision :: raw
  rc_registry_type :: raw
  rc_registry_url :: raw

text \<open>The endpoint fails, answers with the wrong shape, or answers.\<close>

datatype contract_answer = CFailed | CMisshaped | CAnswer raw_contract

record integration_state =
  is_enabled :: bool
  is_provision :: string
  is_row_exists :: bool
  is_registry_type :: string
  is_registry_url :: string

record contract_cache =
  cc_state :: "integration_state cache1"
  cc_down_until :: epoch

definition empty_contract_cache :: contract_cache where
  "empty_contract_cache = \<lparr>cc_state = None, cc_down_until = 0\<rparr>"

definition invalidate_contract_cache :: "contract_cache \<Rightarrow> contract_cache" where
  "invalidate_contract_cache c = \<lparr>cc_state = None, cc_down_until = 0\<rparr>"

definition contract_unreachable :: exc where
  "contract_unreachable = AppException 503 (Some ''errors.ci_contract_unreachable'')"

definition contract_warn_interval :: int where
  "contract_warn_interval = 60"

definition effective_ttl :: "settings \<Rightarrow> int" where
  "effective_ttl st = max 0 (ci_contract_ttl st)"

definition mark_contract_http_down :: "settings \<Rightarrow> epoch \<Rightarrow> contract_cache \<Rightarrow> contract_cache" where
  "mark_contract_http_down st now c =
     c\<lparr>cc_down_until :=
         now + (if effective_ttl st = 0 then contract_warn_interval else effective_ttl st)\<rparr>"

definition normalize_contract :: "raw \<Rightarrow> raw \<Rightarrow> bool \<times> string" where
  "normalize_contract raw_enabled raw_provision =
     (py_lower (py_strip (raw_str raw_enabled)) \<notin> {[], ''0'', ''false'', ''none''},
      if py_lower (py_strip (str_or_blank raw_provision)) = ''manual'' then ''manual'' else ''auto'')"

definition normalize_registry_type :: "raw \<Rightarrow> string" where
  "normalize_registry_type r =
     (let value = py_lower (py_strip (str_or_blank r))
      in if value \<in> {''harbor'', ''registry''} then value else [])"

definition normalize_registry_url :: "raw \<Rightarrow> string" where
  "normalize_registry_url r =
     (let url = rstrip_char (CHR ''/'') (py_strip (str_or_blank r))
      in if starts_with ''https://'' url then drop 8 url
         else if starts_with ''http://'' url then drop 7 url
         else url)"

text \<open>One question to the endpoint.\<close>

definition fetch_contract_http ::
  "settings \<Rightarrow> epoch \<Rightarrow> contract_answer \<Rightarrow> contract_cache \<Rightarrow> integration_state result \<times> contract_cache" where
  "fetch_contract_http st now ans c =
     (if ci_api_url st = [] \<or> ci_api_token st = [] then (Inl contract_unreachable, c)
      else if now < cc_down_until c then (Inl contract_unreachable, c)
      else case ans of
        CFailed \<Rightarrow> (Inl contract_unreachable, mark_contract_http_down st now c)
      | CMisshaped \<Rightarrow> (Inl contract_unreachable, c)
      | CAnswer r \<Rightarrow>
          (case normalize_contract (rc_enabled r) (rc_provision r) of
             (enabled, provision) \<Rightarrow>
               (Inr \<lparr>is_enabled = enabled, is_provision = provision, is_row_exists = True,
                     is_registry_type = normalize_registry_type (rc_registry_type r),
                     is_registry_url = normalize_registry_url (rc_registry_url r)\<rparr>, c)))"

definition resolve_contract_state ::
  "settings \<Rightarrow> epoch \<Rightarrow> contract_answer \<Rightarrow> contract_cache \<Rightarrow> integration_state result \<times> contract_cache" where
  "resolve_contract_state st now ans c =
     (case cache_lookup (effective_ttl st) now (cc_state c) of
        Some s \<Rightarrow> (Inr s, c)
      | None \<Rightarrow>
          (case fetch_contract_http st now ans c of
             (Inl e, c') \<Rightarrow> (Inl e, c')
           | (Inr s, c') \<Rightarrow> (Inr s, c'\<lparr>cc_state := cache_store now s (cc_state c')\<rparr>)))"

text \<open>The registry hints share the cache; a failed question falls back to the last answer,
  however old.\<close>

definition contract_registry_hints ::
  "settings \<Rightarrow> epoch \<Rightarrow> contract_answer \<Rightarrow> contract_cache \<Rightarrow> (string \<times> string) \<times> contract_cache" where
  "contract_registry_hints st now ans c =
     (case cache_lookup (effective_ttl st) now (cc_state c) of
        Some s \<Rightarrow> ((is_registry_type s, is_registry_url s), c)
      | None \<Rightarrow>
          (case fetch_contract_http st now ans c of
             (Inl e, c') \<Rightarrow>
               ((case cc_state c' of None \<Rightarrow> ([], [])
                 | Some (s, _) \<Rightarrow> (is_registry_type s, is_registry_url s)), c')
           | (Inr s, c') \<Rightarrow>
               ((is_registry_type s, is_registry_url s),
                c'\<lparr>cc_state := cache_store now s (cc_state c')\<rparr>)))"

section \<open>Tables and the gate\<close>

definition cd_required_tables :: "string list" where
  "cd_required_tables =
     [''cd_servers'', ''cd_deploy_logs'', ''cd_bots'', ''cd_registry_repositories'',
      ''cd_registry_artifacts'', ''cd_config'', ''cd_alert_rules'', ''cd_custom_monitors'',
      ''cd_custom_monitor_metrics'', ''cd_webhooks'', ''cd_webhook_events'', ''cd_approvals'',
      ''cd_approval_rules'', ''cd_sessions'']"

definition cd_missing_tables :: "string list \<Rightarrow> string list" where
  "cd_missing_tables existing = filter (\<lambda>t. t \<notin> set existing) cd_required_tables"

definition cd_deployed :: "string list \<Rightarrow> bool" where
  "cd_deployed existing = (cd_missing_tables existing = [])"

text \<open>The process-wide flag that tables have been ensured, and the tables present. Opening a
  connection asks the contract while the flag is unset, and creates tables only for an enabled
  service in auto mode.\<close>

record schema =
  sc_ensured :: bool
  sc_tables :: "string list"

definition ensure_tables ::
  "settings \<Rightarrow> epoch \<Rightarrow> contract_answer \<Rightarrow> contract_cache \<Rightarrow> schema \<Rightarrow> unit result \<times> contract_cache \<times> schema" where
  "ensure_tables st now ans c sc =
     (if sc_ensured sc then (Inr (), c, sc)
      else case resolve_contract_state st now ans c of
        (Inl e, c') \<Rightarrow> (Inl e, c', sc)
      | (Inr s, c') \<Rightarrow>
          if \<not> is_enabled s then (Inr (), c', sc)
          else if is_provision s = ''auto''
          then (Inr (), c', \<lparr>sc_ensured = True, sc_tables = sc_tables sc @ cd_missing_tables (sc_tables sc)\<rparr>)
          else (Inr (), c', sc\<lparr>sc_ensured := True\<rparr>))"

text \<open>\<^verbatim>\<open>cd_deploy_gate\<close>: enabled first, then all tables present (listing the tables
  opens a connection, which may create them).\<close>

definition cd_deploy_gate ::
  "settings \<Rightarrow> epoch \<Rightarrow> contract_answer \<Rightarrow> contract_cache \<Rightarrow> schema \<Rightarrow> unit result \<times> contract_cache \<times> schema" where
  "cd_deploy_gate st now ans c sc =
     (case resolve_contract_state st now ans c of
        (Inl e, c') \<Rightarrow> (Inl e, c', sc)
      | (Inr s, c') \<Rightarrow>
          if \<not> is_enabled s then (Inl (AppException 503 (Some ''errors.cd_not_enabled'')), c', sc)
          else (case ensure_tables st now ans c' sc of
             (Inl e, c2, sc2) \<Rightarrow> (Inl e, c2, sc2)
           | (Inr _, c2, sc2) \<Rightarrow>
               if cd_missing_tables (sc_tables sc2) = [] then (Inr (), c2, sc2)
               else (Inl (AppException 503 (Some ''errors.cd_not_deployed'')), c2, sc2)))"

section \<open>CI projects\<close>

record job =
  j_name :: string
  j_path :: string
  j_registry_repo :: string
  j_harbor_repo :: string
  j_latest_tag :: string

definition projects_ttl :: int where
  "projects_ttl = 30"

text \<open>\<open>None\<close> is a failed request, which is not cached.\<close>

definition load_projects ::
  "epoch \<Rightarrow> job list option \<Rightarrow> job list cache1 \<Rightarrow> job list \<times> job list cache1" where
  "load_projects now ans c =
     (case cache_lookup projects_ttl now c of
        Some js \<Rightarrow> (js, c)
      | None \<Rightarrow> (case ans of None \<Rightarrow> ([], c) | Some js \<Rightarrow> (js, cache_store now js c)))"

definition invalidate_projects_cache :: "job list cache1 \<Rightarrow> job list cache1" where
  "invalidate_projects_cache c = None"

definition find_job :: "job list \<Rightarrow> string \<Rightarrow> job option" where
  "find_job js project = List.find (\<lambda>m. j_name m = project \<or> j_path m = project) js"

definition resolve_harbor_repo :: "job list \<Rightarrow> string \<Rightarrow> string option" where
  "resolve_harbor_repo js project =
     (case find_job js project of
        None \<Rightarrow> None
      | Some m \<Rightarrow>
          let repo = py_strip (str_or (j_registry_repo m) (j_harbor_repo m))
          in if repo = [] then None else Some repo)"

definition resolve_project_key :: "job list \<Rightarrow> string \<Rightarrow> string option" where
  "resolve_project_key js project =
     (case find_job js project of
        None \<Rightarrow> None
      | Some m \<Rightarrow> if j_name m = [] then None else Some (j_name m))"

section \<open>Laws\<close>

text \<open>Why the contract counts as known at a moment: a cached answer inside its time to live, or
  an answer just given.\<close>

definition known_state ::
  "settings \<Rightarrow> epoch \<Rightarrow> contract_answer \<Rightarrow> contract_cache \<Rightarrow> integration_state \<Rightarrow> bool" where
  "known_state st now ans c s \<longleftrightarrow>
     (\<exists>t. cc_state c = Some (s, t) \<and> now - t < effective_ttl st) \<or>
     (\<exists>r. ans = CAnswer r \<and> ci_api_url st \<noteq> [] \<and> ci_api_token st \<noteq> [] \<and> cc_down_until c \<le> now \<and>
          (is_enabled s, is_provision s) = normalize_contract (rc_enabled r) (rc_provision r))"

lemma fetch_contract_Inr:
  assumes "fetch_contract_http st now ans c = (Inr s, c')"
  shows "c' = c \<and> known_state st now ans c s"
  using assms
  by (cases ans) (auto simp: fetch_contract_http_def known_state_def split: if_splits prod.splits)

lemma resolve_contract_Inr:
  assumes "resolve_contract_state st now ans c = (Inr s, c')"
  shows "known_state st now ans c s"
proof (cases "cache_lookup (effective_ttl st) now (cc_state c)")
  case None
  then obtain c2 where "fetch_contract_http st now ans c = (Inr s, c2)"
    using assms by (auto simp: resolve_contract_state_def split: sum.splits prod.splits)
  then show ?thesis using fetch_contract_Inr by blast
next
  case (Some s')
  then have "s' = s" using assms by (simp add: resolve_contract_state_def)
  with c1.lookup_filled [OF Some] show ?thesis by (auto simp: known_state_def)
qed

lemma resolve_contract_again:
  assumes "resolve_contract_state st now ans c = (Inr s, c')"
  shows "\<exists>c2. resolve_contract_state st now ans c' = (Inr s, c2)"
proof (cases "cache_lookup (effective_ttl st) now (cc_state c)")
  case None
  then have f: "fetch_contract_http st now ans c = (Inr s, c)" and c': "c' = c\<lparr>cc_state := Some (s, now)\<rparr>"
    using assms fetch_contract_Inr [of st now ans c s]
    by (auto simp: resolve_contract_state_def cache_store_def split: sum.splits prod.splits)
  have "fetch_contract_http st now ans c' = (Inr s, c')"
    using f unfolding c'
    by (cases ans) (auto simp: fetch_contract_http_def split: if_splits prod.splits)
  then show ?thesis unfolding c'
    by (auto simp: resolve_contract_state_def cache_lookup_def)
next
  case (Some s')
  then show ?thesis using assms by (simp add: resolve_contract_state_def)
qed

lemma ensure_tables_cases:
  assumes "ensure_tables st now ans c sc = (r, c', sc')"
  shows "sc_tables sc' = sc_tables sc \<or>
    (\<not> sc_ensured sc \<and> (\<exists>s c2. resolve_contract_state st now ans c = (Inr s, c2) \<and> is_enabled s \<and>
       is_provision s = ''auto'') \<and> sc_tables sc' = sc_tables sc @ cd_missing_tables (sc_tables sc))"
  using assms by (auto simp: ensure_tables_def split: if_splits sum.splits prod.splits)

lemma missing_none: "cd_missing_tables ts = [] \<longleftrightarrow> set cd_required_tables \<subseteq> set ts"
  by (auto simp: cd_missing_tables_def filter_empty_conv)

lemma missing_created: "cd_missing_tables (ts @ cd_missing_tables ts) = []"
  by (auto simp: missing_none cd_missing_tables_def)

lemma gate_passes_known:
  assumes "cd_deploy_gate st now ans c sc = (Inr (), c', sc')"
  shows "\<exists>s. known_state st now ans c s \<and> is_enabled s"
  using assms resolve_contract_Inr [of st now ans c]
  by (auto simp: cd_deploy_gate_def split: sum.splits prod.splits if_splits)

section \<open>Properties\<close>

text \<open>C8. The gate fails closed: a request passes only if the contract says enabled (an answer
  given now, or one younger than the cache's time to live) and every required table exists;
  and tables appear only for an enabled service in auto mode.\<close>

theorem gate_fails_closed:
  assumes "cd_deploy_gate st now ans c sc = (r, c', sc')"
  shows "(r = Inr () \<longrightarrow> set cd_required_tables \<subseteq> set (sc_tables sc') \<and>
            (\<exists>s. known_state st now ans c s \<and> is_enabled s))
       \<and> (sc_tables sc' \<noteq> sc_tables sc \<longrightarrow> \<not> sc_ensured sc \<and>
            (\<exists>s. known_state st now ans c s \<and> is_enabled s \<and> is_provision s = ''auto'' \<and>
               set (sc_tables sc') = set (sc_tables sc) \<union> set cd_required_tables))"
proof (cases "resolve_contract_state st now ans c")
  case (Pair x c2)
  show ?thesis
  proof (cases x)
    case (Inl e)
    then show ?thesis using assms Pair by (auto simp: cd_deploy_gate_def)
  next
    case (Inr s)
    note k = resolve_contract_Inr [OF Pair [unfolded Inr]]
    show ?thesis
    proof (cases "is_enabled s")
      case False
      then show ?thesis using assms Pair Inr by (auto simp: cd_deploy_gate_def)
    next
      case True
      obtain y c3 sc3 where e: "ensure_tables st now ans c2 sc = (y, c3, sc3)"
        by (cases "ensure_tables st now ans c2 sc")
      have sc': "sc' = sc3" and r: "r = Inr () \<Longrightarrow> cd_missing_tables (sc_tables sc3) = []"
        using assms Pair Inr True e by (auto simp: cd_deploy_gate_def split: sum.splits if_splits)
      have un: "set (sc_tables sc @ cd_missing_tables (sc_tables sc)) = set (sc_tables sc) \<union> set cd_required_tables"
        by (auto simp: cd_missing_tables_def)
      obtain c4 where again: "resolve_contract_state st now ans c2 = (Inr s, c4)"
        using resolve_contract_again Pair Inr by blast
      have "\<not> sc_ensured sc \<and> is_provision s = ''auto'' \<and>
          set (sc_tables sc') = set (sc_tables sc) \<union> set cd_required_tables"
        if "sc_tables sc' \<noteq> sc_tables sc"
        using ensure_tables_cases [OF e] that again un unfolding sc' by (elim disjE) simp_all
      moreover have "r = Inr () \<longrightarrow> set cd_required_tables \<subseteq> set (sc_tables sc')"
        using r missing_none unfolding sc' by blast
      ultimately show ?thesis using k True by (intro conjI impI exI [of _ s]) simp_all
    qed
  qed
qed

definition gate_settings :: settings where
  "gate_settings = default_settings\<lparr>ci_api_url := ''http://glue'', ci_api_token := ''dg_x''\<rparr>"

definition enabled_answer :: contract_answer where
  "enabled_answer = CAnswer \<lparr>rc_enabled = RInt 1, rc_provision = RStr ''auto'',
     rc_registry_type = RStr ''harbor'', rc_registry_url = RStr ''https://r.example''\<rparr>"

theorem gate_fails_closed_witness:
  "set cd_required_tables \<subseteq> set (sc_tables (snd (snd
     (cd_deploy_gate gate_settings 100 enabled_answer empty_contract_cache \<lparr>sc_ensured = False, sc_tables = []\<rparr>))))"
proof -
  let ?g = "cd_deploy_gate gate_settings 100 enabled_answer empty_contract_cache
    \<lparr>sc_ensured = False, sc_tables = []\<rparr>"
  have "normalize_contract (RInt 1) (RStr ''auto'') = (True, ''auto'')"
    by code_simp
  then have ok: "fst ?g = Inr ()"
    using missing_created [of "[]"]
    by (simp add: cd_deploy_gate_def resolve_contract_state_def cache_lookup_def empty_contract_cache_def
        fetch_contract_http_def gate_settings_def default_settings_def enabled_answer_def
        ensure_tables_def cache_store_def effective_ttl_def)
  have "?g = (fst ?g, fst (snd ?g), snd (snd ?g))" by simp
  from gate_fails_closed [OF this] ok show ?thesis by blast
qed

end
