(* ===== verification/Table.thy ===== *)
theory Table
  imports Prelude
begin

text \<open>
  The tables of the database as the backend uses them: rows in insertion (= id) order and
  the counter of the \<^verbatim>\<open>INTEGER PRIMARY KEY AUTOINCREMENT\<close> column. The operations
  are the statement shapes that occur in the source: INSERT returning
  \<^verbatim>\<open>lastrowid\<close>, UPDATE ... WHERE returning \<^verbatim>\<open>rowcount\<close>, SELECT by id, SELECT
  ... ORDER BY id DESC LIMIT 1, and DELETE. The locale \<open>row_key\<close> is the interface the
  components rely on (a row has an id, an insert assigns it); its clients get the laws of
  lookups after inserts and updates, and the count of a conditional update, which is what
  the compare-and-set transitions of the source test. The locale \<open>unique_col\<close> extends it by
  a nullable UNIQUE column.
\<close>

record 'r table =
  rows :: "'r list"
  next_id :: row_id

definition empty_table :: "'r table" where
  "empty_table = \<lparr>rows = [], next_id = 1\<rparr>"

definition t_insert :: "(row_id \<Rightarrow> 'r \<Rightarrow> 'r) \<Rightarrow> 'r \<Rightarrow> 'r table \<Rightarrow> 'r table \<times> row_id" where
  "t_insert assign r t =
     (t\<lparr>rows := rows t @ [assign (next_id t) r], next_id := Suc (next_id t)\<rparr>, next_id t)"

definition t_where :: "('r \<Rightarrow> bool) \<Rightarrow> 'r table \<Rightarrow> 'r list" where
  "t_where P t = filter P (rows t)"

definition t_update :: "('r \<Rightarrow> bool) \<Rightarrow> ('r \<Rightarrow> 'r) \<Rightarrow> 'r table \<Rightarrow> 'r table \<times> nat" where
  "t_update P f t =
     (t\<lparr>rows := List.map (\<lambda>r. if P r then f r else r) (rows t)\<rparr>, length (filter P (rows t)))"

definition t_get :: "('r \<Rightarrow> row_id) \<Rightarrow> row_id \<Rightarrow> 'r table \<Rightarrow> 'r option" where
  "t_get key i t = List.find (\<lambda>r. key r = i) (rows t)"

definition t_first :: "('r \<Rightarrow> bool) \<Rightarrow> 'r table \<Rightarrow> 'r option" where
  "t_first P t = List.find P (rows t)"

definition t_last :: "('r \<Rightarrow> bool) \<Rightarrow> 'r table \<Rightarrow> 'r option" where
  "t_last P t = List.find P (rev (rows t))"

definition t_delete :: "('r \<Rightarrow> bool) \<Rightarrow> 'r table \<Rightarrow> 'r table \<times> nat" where
  "t_delete P t =
     (t\<lparr>rows := filter (\<lambda>r. \<not> P r) (rows t)\<rparr>, length (filter P (rows t)))"

definition wf_table :: "('r \<Rightarrow> row_id) \<Rightarrow> 'r table \<Rightarrow> bool" where
  "wf_table key t \<longleftrightarrow>
     sorted_wrt (<) (List.map key (rows t)) \<and> (\<forall>r\<in>set (rows t). 0 < key r \<and> key r < next_id t)
     \<and> 0 < next_id t"

definition uniq_ok :: "('r \<Rightarrow> row_id) \<Rightarrow> ('r \<Rightarrow> 'k option) \<Rightarrow> 'r table \<Rightarrow> bool" where
  "uniq_ok key u t \<longleftrightarrow>
     (\<forall>r\<in>set (rows t). \<forall>s\<in>set (rows t). u r \<noteq> None \<longrightarrow> u r = u s \<longrightarrow> key r = key s)"

lemma rows_insert [simp]: "rows (fst (t_insert a r t)) = rows t @ [a (next_id t) r]"
  and id_insert [simp]: "snd (t_insert a r t) = next_id t"
  and next_insert [simp]: "next_id (fst (t_insert a r t)) = Suc (next_id t)"
  by (simp_all add: t_insert_def)

lemma rows_update [simp]:
  "rows (fst (t_update P f t)) = List.map (\<lambda>r. if P r then f r else r) (rows t)"
  and count_update: "snd (t_update P f t) = length (filter P (rows t))"
  and next_update [simp]: "next_id (fst (t_update P f t)) = next_id t"
  by (simp_all add: t_update_def)

lemma rows_delete [simp]: "rows (fst (t_delete P t)) = filter (\<lambda>r. \<not> P r) (rows t)"
  and count_delete: "snd (t_delete P t) = length (filter P (rows t))"
  and next_delete [simp]: "next_id (fst (t_delete P t)) = next_id t"
  by (simp_all add: t_delete_def)

lemma find_SomeD: "List.find P xs = Some x \<Longrightarrow> x \<in> set xs \<and> P x"
  by (induction xs) (auto split: if_splits)

lemma t_last_SomeD: "t_last P t = Some r \<Longrightarrow> r \<in> set (rows t) \<and> P r"
  using find_SomeD by (fastforce simp: t_last_def)

lemma t_last_None_iff: "t_last P t = None \<longleftrightarrow> (\<forall>r\<in>set (rows t). \<not> P r)"
  by (auto simp: t_last_def find_None_iff)

lemma t_get_SomeD: "t_get key i t = Some r \<Longrightarrow> r \<in> set (rows t) \<and> key r = i"
  by (auto simp: t_get_def dest: find_SomeD)

lemma t_get_NoneD: "t_get key i t = None \<Longrightarrow> r \<in> set (rows t) \<Longrightarrow> key r \<noteq> i"
  by (simp add: t_get_def find_None_iff)

lemma find_map_if:
  "(\<And>r. key (f r) = key r) \<Longrightarrow>
   List.find (\<lambda>r. key r = i) (List.map (\<lambda>r. if P r then f r else r) xs) =
   map_option (\<lambda>r. if P r then f r else r) (List.find (\<lambda>r. key r = i) xs)"
  by (induction xs) auto

lemma find_append: "List.find P (xs @ ys) = (case List.find P xs of None \<Rightarrow> List.find P ys | Some r \<Rightarrow> Some r)"
  by (induction xs) auto

lemma update_zero_id: "snd (t_update P f t) = 0 \<Longrightarrow> fst (t_update P f t) = t"
  by (auto simp: t_update_def filter_empty_conv intro!: table.equality map_idI)

locale row_key =
  fixes key :: "'r \<Rightarrow> row_id" and assign :: "row_id \<Rightarrow> 'r \<Rightarrow> 'r"
  assumes key_assign [simp]: "key (assign i r) = i"
begin

lemma wf_empty [simp]: "wf_table key empty_table"
  by (simp add: wf_table_def empty_table_def)

lemma wf_insert: "wf_table key t \<Longrightarrow> wf_table key (fst (t_insert assign r t))"
  by (auto simp: wf_table_def sorted_wrt_append less_Suc_eq)

lemma wf_update:
  assumes "\<And>r. key (f r) = key r" "wf_table key t"
  shows "wf_table key (fst (t_update P f t))"
proof -
  have "List.map key (rows (fst (t_update P f t))) = List.map key (rows t)"
    using assms(1) by simp
  moreover have "\<forall>r\<in>set (rows (fst (t_update P f t))). 0 < key r \<and> key r < next_id t"
    using assms by (auto simp: wf_table_def)
  ultimately show ?thesis using assms(2) by (simp only: wf_table_def next_update)
qed

lemma wf_delete: "wf_table key t \<Longrightarrow> wf_table key (fst (t_delete P t))"
  by (auto simp: wf_table_def sorted_wrt_map sorted_wrt_filter)

lemma wf_distinct: "wf_table key t \<Longrightarrow> distinct (List.map key (rows t))"
  by (simp add: wf_table_def strict_sorted_iff)

lemma get_eq_iff:
  assumes "wf_table key t"
  shows "t_get key i t = Some r \<longleftrightarrow> r \<in> set (rows t) \<and> key r = i"
proof
  assume r: "r \<in> set (rows t) \<and> key r = i"
  have inj: "inj_on key (set (rows t))" using wf_distinct [OF assms] by (simp add: distinct_map)
  show "t_get key i t = Some r"
  proof (cases "t_get key i t")
    case None
    with r show ?thesis using t_get_NoneD [OF None, of r] by simp
  next
    case (Some s)
    then have "s \<in> set (rows t)" "key s = key r" using r t_get_SomeD [OF Some] by simp_all
    with inj r have "s = r" by (metis inj_onD)
    with Some show ?thesis by simp
  qed
qed (rule t_get_SomeD)

lemma get_insert_same [simp]:
  "wf_table key t \<Longrightarrow> t_get key (next_id t) (fst (t_insert assign r t)) = Some (assign (next_id t) r)"
  using wf_insert get_eq_iff by fastforce

lemma get_insert_other:
  "i \<noteq> next_id t \<Longrightarrow> t_get key i (fst (t_insert assign r t)) = t_get key i t"
  by (auto simp: t_get_def find_append split: option.splits)

lemma get_update:
  "(\<And>r. key (f r) = key r) \<Longrightarrow>
   t_get key i (fst (t_update P f t)) = map_option (\<lambda>r. if P r then f r else r) (t_get key i t)"
  by (simp add: t_get_def find_map_if)

lemma key_inj:
  assumes "wf_table key t" "r \<in> set (rows t)" "s \<in> set (rows t)" "key r = key s"
  shows "r = s"
  using get_eq_iff [OF assms(1)] assms(2-) by (metis option.inject)

lemma count_by_key:
  assumes "wf_table key t"
  shows "snd (t_update (\<lambda>r. key r = i \<and> Q r) f t) =
    (case t_get key i t of Some r \<Rightarrow> (if Q r then 1 else 0) | None \<Rightarrow> 0)"
proof -
  have d: "distinct (rows t)"
    using wf_distinct [OF assms] by (simp add: distinct_map)
  have "set (filter (\<lambda>r. key r = i \<and> Q r) (rows t)) =
      (case t_get key i t of Some r \<Rightarrow> (if Q r then {r} else {}) | None \<Rightarrow> {})"
    using get_eq_iff [OF assms] t_get_NoneD [of key i t]
    by (auto split: option.splits dest: key_inj [OF assms])
  moreover have "length (filter P (rows t)) = card (set (filter P (rows t)))" for P
    using d distinct_card distinct_filter by metis
  ultimately show ?thesis by (auto simp: count_update split: option.splits)
qed

text \<open>A conditional update of one row: it succeeds exactly when the row exists and meets
  the condition, and then it rewrites that row.\<close>

lemma update_by_key_hit:
  assumes "wf_table key t" "0 < snd (t_update (\<lambda>r. key r = i \<and> Q r) f t)"
  shows "\<exists>r. t_get key i t = Some r \<and> Q r"
  using assms count_by_key by (auto split: option.splits if_splits)

lemma last_greatest:
  assumes "wf_table key t" "t_last P t = Some r" "s \<in> set (rows t)" "P s"
  shows "key s \<le> key r"
proof -
  have sw: "sorted_wrt (\<lambda>a b. key b < key a) (rev (rows t))"
    using assms(1) by (simp add: wf_table_def sorted_wrt_map sorted_wrt_rev)
  have "sorted_wrt (\<lambda>a b. key b < key a) xs \<Longrightarrow> List.find P xs = Some r \<Longrightarrow> s \<in> set xs
      \<Longrightarrow> P s \<Longrightarrow> key s \<le> key r" for xs
    by (induction xs) (auto split: if_splits)
  with sw assms show ?thesis by (metis set_rev t_last_def)
qed

end

locale unique_col = row_key key assign
  for key :: "'r \<Rightarrow> row_id" and assign :: "row_id \<Rightarrow> 'r \<Rightarrow> 'r" +
  fixes u :: "'r \<Rightarrow> 'k option"
  assumes u_assign [simp]: "u (assign i r) = u r"
begin

lemma uniq_empty [simp]: "uniq_ok key u empty_table"
  by (simp add: uniq_ok_def empty_table_def)

lemma uniq_insert:
  assumes "uniq_ok key u t" "\<And>s. s \<in> set (rows t) \<Longrightarrow> u r \<noteq> None \<Longrightarrow> u s \<noteq> u r"
  shows "uniq_ok key u (fst (t_insert assign r t))"
  using assms(1) assms(2) assms(2) [symmetric] unfolding uniq_ok_def by (fastforce simp del: not_None_eq)

lemma uniq_clear:
  assumes "\<And>r. key (f r) = key r" "\<And>r. u (f r) = None \<or> u (f r) = u r" "uniq_ok key u t"
  shows "uniq_ok key u (fst (t_update P f t))"
proof -
  let ?g = "\<lambda>r. if P r then f r else r"
  have g1: "key (?g r) = key r" for r by (simp add: assms(1))
  have g2: "u (?g r) \<noteq> None \<Longrightarrow> u (?g r) = u r" for r using assms(2) [of r] by presburger
  have "key (?g r) = key (?g s)"
    if "r \<in> set (rows t)" "s \<in> set (rows t)" "u (?g r) \<noteq> None" "u (?g r) = u (?g s)" for r s
  proof -
    have "u r = u s" using that(3,4) g2 [of r] g2 [of s] by (metis (full_types))
    moreover have "u r \<noteq> None" using that(3) g2 [of r] by (metis (full_types))
    ultimately have "key r = key s" using that(1,2) assms(3) unfolding uniq_ok_def by blast
    then show ?thesis by (simp only: g1)
  qed
  then show ?thesis unfolding uniq_ok_def rows_update set_map by blast
qed

lemma uniq_set_one:
  assumes f: "\<And>r. key (f r) = key r" and u: "uniq_ok key u t" and wf: "wf_table key t"
    and one: "\<And>r. P r \<Longrightarrow> key r = i" and k: "\<And>r. P r \<Longrightarrow> u (f r) = Some k"
    and free: "\<And>s. s \<in> set (rows t) \<Longrightarrow> u s = Some k \<Longrightarrow> key s = i"
  shows "uniq_ok key u (fst (t_update P f t))"
proof -
  let ?g = "\<lambda>r. if P r then f r else r"
  have "key (?g r) = key (?g s)"
    if m: "r \<in> set (rows t)" "s \<in> set (rows t)" "u (?g r) \<noteq> None" "u (?g r) = u (?g s)" for r s
  proof (cases "P r \<or> P s")
    case True
    then have "u (?g r) = Some k" "u (?g s) = Some k" using m(4) k by (metis (full_types))+
    then have "key r = i" "key s = i" using one free m(1,2) by (metis (full_types))+
    then show ?thesis by (simp add: f)
  next
    case False
    then have "u r \<noteq> None" "u r = u s" using m(3,4) by simp_all
    then have "key r = key s" using m(1,2) u unfolding uniq_ok_def by blast
    then show ?thesis by (simp add: f)
  qed
  then show ?thesis unfolding uniq_ok_def rows_update set_map by blast
qed

lemma uniq_delete: "uniq_ok key u t \<Longrightarrow> uniq_ok key u (fst (t_delete P t))"
  by (auto simp: uniq_ok_def)

end

end
