(* ===== verification/Data.thy ===== *)
theory Data
  imports Table Errors
begin

text \<open>
  The rows of the CD tables (\<^verbatim>\<open>backend/database.py\<close>, \<^verbatim>\<open>_ensure_cd_tables\<close>), one
  record per table with a field per column the backend reads, and the database as a record of
  tables. A parameter snapshot (\<^verbatim>\<open>params_json\<close>) is kept as the value it encodes: empty
  text, text that does not parse, or a document, whose fields are optional because the code
  reads them with \<^verbatim>\<open>params.get\<close> or tests \<^verbatim>\<open>k in params\<close>. Boolean columns
  (INTEGER 0/1) are \<open>bool\<close>.
\<close>

section \<open>Parameter snapshots\<close>

record params =
  pp_deploy_type :: "string option"
  pp_project :: "string option"
  pp_tag :: "string option"
  pp_server_ids :: "string option"
  pp_target_path :: "string option"
  pp_deploy_mode :: "string option"
  pp_commands :: "string option"
  pp_yaml_content :: "string option"
  pp_k8s_ns :: "string option"
  pp_k8s_deploy :: "string option"
  pp_k8s_container :: "string option"
  pp_env_file :: "string option"
  pp_deploy_note :: "string option"
  pp_rollback_type :: "string option"
  pp_bot_id :: "int option"
  pp_lang :: "string option"
  pp_cd_type :: "string option"
  pp_cluster_id :: "int option"
  pp_path :: "string option"
  pp_api_url :: "string option"
  pp_scheduled_at :: "string option"
  pp_rollback :: "bool option"
  pp_approval_id :: "int option"

definition empty_params :: params where
  "empty_params = \<lparr>pp_deploy_type = None, pp_project = None, pp_tag = None, pp_server_ids = None,
     pp_target_path = None, pp_deploy_mode = None, pp_commands = None, pp_yaml_content = None,
     pp_k8s_ns = None, pp_k8s_deploy = None, pp_k8s_container = None, pp_env_file = None,
     pp_deploy_note = None, pp_rollback_type = None, pp_bot_id = None, pp_lang = None,
     pp_cd_type = None, pp_cluster_id = None, pp_path = None, pp_api_url = None,
     pp_scheduled_at = None, pp_rollback = None, pp_approval_id = None\<rparr>"

datatype snapshot = SEmpty | SCorrupt | SDoc params

text \<open>\<^verbatim>\<open>json.loads(text or "{}")\<close>\<close>

fun load_snapshot :: "snapshot \<Rightarrow> params result" where
  "load_snapshot SEmpty = Inr empty_params"
| "load_snapshot SCorrupt = Inl ValueError"
| "load_snapshot (SDoc p) = Inr p"

text \<open>\<^verbatim>\<open>x or ""\<close> on an optional string.\<close>

definition or_empty :: "string option \<Rightarrow> string" where
  "or_empty x = (case x of None \<Rightarrow> [] | Some s \<Rightarrow> s)"

lemma or_empty_simps [simp]: "or_empty None = []" "or_empty (Some s) = s"
  by (simp_all add: or_empty_def)

section \<open>Rows\<close>

record stage =
  st_server :: "row_id option"
  st_host :: string
  st_status :: string
  st_ms :: int

record dlog =
  d_id :: row_id
  d_project :: string
  d_tag :: string
  d_image :: string
  d_type :: string
  d_target :: string
  d_status :: string
  d_output :: string
  d_by :: string
  d_note :: string
  d_duration :: int
  d_stages :: "stage list"
  d_lock :: "string option"
  d_params :: snapshot
  d_rbtype :: string
  d_approval :: row_id
  d_runner :: "string option"
  d_heartbeat :: "string option"
  d_created :: string

datatype astatus = Pending | Approved | Deploying | Deployed | Failed | Rejected | Cancelled

record approval =
  a_id :: row_id
  a_project :: string
  a_tag :: string
  a_image :: string
  a_type :: string
  a_envs :: string
  a_params :: snapshot
  a_status :: astatus
  a_requester :: string
  a_approver :: string
  a_note :: string
  a_deploy :: row_id
  a_created :: string
  a_approved_at :: string
  a_scheduled :: string
  a_updated :: string

record rule =
  r_id :: row_id
  r_project :: string
  r_enabled :: bool
  r_envs :: string
  r_role :: string
  r_approvers :: string
  r_bot :: int
  r_rollback :: bool

record server =
  s_id :: row_id
  s_name :: string
  s_host :: string
  s_port :: int
  s_user :: string
  s_type :: string
  s_password :: string
  s_key :: string
  s_tags :: string

record user =
  u_name :: string
  u_role :: string
  u_perms :: "string list"

record cdb =
  db_logs :: "dlog table"
  db_apprs :: "approval table"
  db_rules :: "rule table"
  db_servers :: "server table"
  db_config :: "(string \<times> string) list"

text \<open>Assignment of the primary key by the database.\<close>

definition dlog_assign :: "row_id \<Rightarrow> dlog \<Rightarrow> dlog" where
  "dlog_assign i r = r\<lparr>d_id := i\<rparr>"

definition appr_assign :: "row_id \<Rightarrow> approval \<Rightarrow> approval" where
  "appr_assign i r = r\<lparr>a_id := i\<rparr>"

definition rule_assign :: "row_id \<Rightarrow> rule \<Rightarrow> rule" where
  "rule_assign i r = r\<lparr>r_id := i\<rparr>"

definition server_assign :: "row_id \<Rightarrow> server \<Rightarrow> server" where
  "server_assign i r = r\<lparr>s_id := i\<rparr>"

interpretation dl: unique_col d_id dlog_assign d_lock
  by unfold_locales (simp_all add: dlog_assign_def)

interpretation ap: row_key a_id appr_assign
  by unfold_locales (simp add: appr_assign_def)

interpretation ru: row_key r_id rule_assign
  by unfold_locales (simp add: rule_assign_def)

interpretation sv: unique_col s_id server_assign "\<lambda>s. Some (s_name s)"
  by unfold_locales (simp_all add: server_assign_def)

section \<open>Approval statuses\<close>

text \<open>The column text of a status, and the rank that the list of active approvals sorts by
  (deploying, approved, pending, then the terminal ones), refined to a linear order.\<close>

fun status_text :: "astatus \<Rightarrow> string" where
  "status_text Pending = ''pending''"
| "status_text Approved = ''approved''"
| "status_text Deploying = ''deploying''"
| "status_text Deployed = ''deployed''"
| "status_text Failed = ''failed''"
| "status_text Rejected = ''rejected''"
| "status_text Cancelled = ''cancelled''"

fun status_rank :: "astatus \<Rightarrow> nat" where
  "status_rank Deploying = 0"
| "status_rank Approved = 1"
| "status_rank Pending = 2"
| "status_rank Deployed = 3"
| "status_rank Failed = 4"
| "status_rank Rejected = 5"
| "status_rank Cancelled = 6"

lemma status_rank_inject [simp]: "status_rank a = status_rank b \<longleftrightarrow> a = b"
  by (cases a; cases b) simp_all

lemma status_text_inject [simp]: "status_text a = status_text b \<longleftrightarrow> a = b"
  by (cases a; cases b) simp_all

instantiation astatus :: linorder
begin

definition less_eq_astatus :: "astatus \<Rightarrow> astatus \<Rightarrow> bool" where
  "less_eq_astatus a b = (status_rank a \<le> status_rank b)"

definition less_astatus :: "astatus \<Rightarrow> astatus \<Rightarrow> bool" where
  "less_astatus a b = (status_rank a < status_rank b)"

instance
proof
  fix a b c :: astatus
  show "(a < b) = (a \<le> b \<and> \<not> b \<le> a)"
    by (simp add: less_eq_astatus_def less_astatus_def less_le_not_le)
  show "a \<le> a" by (simp add: less_eq_astatus_def)
  show "a \<le> b \<Longrightarrow> b \<le> c \<Longrightarrow> a \<le> c" by (simp add: less_eq_astatus_def)
  show "a \<le> b \<Longrightarrow> b \<le> a \<Longrightarrow> a = b" by (simp add: less_eq_astatus_def)
  show "a \<le> b \<or> b \<le> a" by (simp add: less_eq_astatus_def nat_le_linear)
qed

end

section \<open>Transactions\<close>

text \<open>\<^verbatim>\<open>with db.conn() as conn: body\<close>: the state the body left is committed when it
  returns, and rolled back when it raises. The \<open>except\<close> clause of the source catches
  \<^verbatim>\<open>Exception\<close> only; a \<open>BaseException\<close> skips both, and closing the connection
  discards the open transaction as well.\<close>

definition transaction :: "'s \<Rightarrow> 'a result \<times> 's \<Rightarrow> 'a result \<times> 's" where
  "transaction s0 b = (case b of (Inl e, _) \<Rightarrow> (Inl e, s0) | (Inr v, s) \<Rightarrow> (Inr v, s))"

lemma transaction_simps [simp]:
  "transaction s0 (Inl e, s) = (Inl e, s0)" "transaction s0 (Inr v, s) = (Inr v, s)"
  by (simp_all add: transaction_def)

end
