(* ===== verification/Auth.thy ===== *)
theory Auth
  imports GlueIdentity Contract Data
begin

text \<open>
  \<^verbatim>\<open>backend/auth.py\<close>: server-side sessions (only a digest of the token is stored), the
  admission of an identity, the request dependencies \<^verbatim>\<open>verify_token\<close>,
  \<^verbatim>\<open>get_current_user\<close> and \<^verbatim>\<open>require_perm\<close>, and the permission an actual
  deployment needs. The digest is a parameter \<open>h\<close>, the fresh random token an argument.
\<close>

section \<open>Sessions\<close>

record session =
  ss_hash :: string
  ss_user :: string
  ss_expires :: epoch

type_synonym sessions = "session list"

definition create_session ::
  "settings \<Rightarrow> (string \<Rightarrow> string) \<Rightarrow> epoch \<Rightarrow> string \<Rightarrow> string \<Rightarrow> sessions \<Rightarrow> sessions" where
  "create_session st h now token username ss =
     filter (\<lambda>s. \<not> ss_expires s \<le> now) ss @
       [\<lparr>ss_hash = h token, ss_user = username, ss_expires = now + auth_token_ttl_hours st * 3600\<rparr>]"

definition lookup_session :: "(string \<Rightarrow> string) \<Rightarrow> string \<Rightarrow> sessions \<Rightarrow> session option" where
  "lookup_session h token ss = List.find (\<lambda>s. ss_hash s = h token) ss"

definition delete_session :: "(string \<Rightarrow> string) \<Rightarrow> string \<Rightarrow> sessions \<Rightarrow> sessions" where
  "delete_session h token ss = filter (\<lambda>s. ss_hash s \<noteq> h token) ss"

definition revoke_session :: "(string \<Rightarrow> string) \<Rightarrow> string \<Rightarrow> sessions \<Rightarrow> sessions" where
  "revoke_session h token ss = delete_session h token ss"

text \<open>The cookie first (an empty cookie does not count), then the Bearer header.\<close>

definition extract_token :: "string option \<Rightarrow> string option \<Rightarrow> string option" where
  "extract_token cookie bearer =
     (case cookie of Some c \<Rightarrow> if c = [] then bearer else Some c | None \<Rightarrow> bearer)"

text \<open>The body of the lookup, which deletes an expired session before it raises, and the
  transaction around it.\<close>

definition oidc_session_body ::
  "(string \<Rightarrow> string) \<Rightarrow> epoch \<Rightarrow> string \<Rightarrow> sessions \<Rightarrow> session result \<times> sessions" where
  "oidc_session_body h now token ss =
     (case lookup_session h token ss of
        None \<Rightarrow> (Inl (HTTPException 401), ss)
      | Some s \<Rightarrow>
          if ss_expires s < now then (Inl (HTTPException 401), delete_session h token ss)
          else (Inr s, ss))"

definition oidc_session ::
  "(string \<Rightarrow> string) \<Rightarrow> epoch \<Rightarrow> string \<Rightarrow> sessions \<Rightarrow> session result \<times> sessions" where
  "oidc_session h now token ss = transaction ss (oidc_session_body h now token ss)"

section \<open>Admission\<close>

definition has_system :: "settings \<Rightarrow> string option \<Rightarrow> string \<Rightarrow> bool" where
  "has_system st systems target =
     (case systems of
        None \<Rightarrow> allow_empty_systems st
      | Some s \<Rightarrow> if s = [] then allow_empty_systems st
                  else target \<in> set (List.map py_strip (split_on (CHR '','') s)))"

definition identity_disabled :: "identity \<Rightarrow> bool" where
  "identity_disabled i = (i_status i = IntStatus 0)"

fun glue_exc :: "glue_error \<Rightarrow> exc" where
  "glue_exc (GDenied c k) = AppException c (Some k)"
| "glue_exc GUnavailable = OtherError"

definition oidc_identity ::
  "settings \<Rightarrow> (string \<Rightarrow> string) \<Rightarrow> glue \<Rightarrow> times \<Rightarrow> string \<Rightarrow> string \<Rightarrow> caches \<Rightarrow> sessions
     \<Rightarrow> identity result \<times> caches \<times> sessions" where
  "oidc_identity st h g tm token username c ss =
     (case get_identity st g tm False username c of
        (Inl e, c') \<Rightarrow>
          (Inl (glue_exc e), c',
           if is_app_exception (glue_exc e) \<and> status_code (glue_exc e) \<in> {401, 403}
           then delete_session h token ss else ss)
      | (Inr i, c') \<Rightarrow>
          if identity_disabled i
          then (Inl (AppException 401 (Some ''errors.user_disabled'')), c', delete_session h token ss)
          else if \<not> has_system st (i_systems i) ''cd''
          then (Inl (AppException 401 (Some ''errors.no_cd_access'')), c', delete_session h token ss)
          else (Inr i, c', ss))"

record auth_env =
  ae_settings :: settings
  ae_hash :: "string \<Rightarrow> string"
  ae_now :: epoch
  ae_times :: times
  ae_glue :: glue
  ae_contract :: contract_answer

record auth_state =
  as_sessions :: sessions
  as_caches :: caches
  as_contract :: contract_cache
  as_schema :: schema

text \<open>The steps shared by \<^verbatim>\<open>verify_token\<close> and \<^verbatim>\<open>get_current_user\<close>: token, gate,
  session, identity, in this order.\<close>

definition authenticate ::
  "auth_env \<Rightarrow> string option \<Rightarrow> string option \<Rightarrow> auth_state \<Rightarrow> (session \<times> identity) result \<times> auth_state" where
  "authenticate env cookie bearer s =
     (case extract_token cookie bearer of
        None \<Rightarrow> (Inl (HTTPException 401), s)
      | Some token \<Rightarrow>
          if token = [] then (Inl (HTTPException 401), s)
          else case cd_deploy_gate (ae_settings env) (ae_now env) (ae_contract env) (as_contract s) (as_schema s) of
            (Inl e, cc, sc) \<Rightarrow> (Inl e, s\<lparr>as_contract := cc, as_schema := sc\<rparr>)
          | (Inr _, cc, sc) \<Rightarrow>
              (let s1 = s\<lparr>as_contract := cc, as_schema := sc\<rparr>
               in case oidc_session (ae_hash env) (ae_now env) token (as_sessions s1) of
                 (Inl e, ss) \<Rightarrow> (Inl e, s1\<lparr>as_sessions := ss\<rparr>)
               | (Inr sess, ss) \<Rightarrow>
                   (case oidc_identity (ae_settings env) (ae_hash env) (ae_glue env) (ae_times env)
                           token (ss_user sess) (as_caches s1) ss of
                      (Inl e, c, ss') \<Rightarrow> (Inl e, s1\<lparr>as_sessions := ss', as_caches := c\<rparr>)
                    | (Inr i, c, ss') \<Rightarrow> (Inr (sess, i), s1\<lparr>as_sessions := ss', as_caches := c\<rparr>))))"

definition verify_token ::
  "auth_env \<Rightarrow> string option \<Rightarrow> string option \<Rightarrow> auth_state \<Rightarrow> string result \<times> auth_state" where
  "verify_token env cookie bearer s =
     (case authenticate env cookie bearer s of
        (Inl e, s') \<Rightarrow> (Inl e, s') | (Inr (sess, _), s') \<Rightarrow> (Inr (ss_user sess), s'))"

definition user_of :: "identity \<Rightarrow> user" where
  "user_of i = \<lparr>u_name = i_username i, u_role = i_role i,
     u_perms = (case i_permissions i of None \<Rightarrow> [] | Some p \<Rightarrow> p)\<rparr>"

definition get_current_user ::
  "auth_env \<Rightarrow> string option \<Rightarrow> string option \<Rightarrow> auth_state \<Rightarrow> user result \<times> auth_state" where
  "get_current_user env cookie bearer s =
     (case authenticate env cookie bearer s of
        (Inl e, s') \<Rightarrow> (Inl e, s') | (Inr (_, i), s') \<Rightarrow> (Inr (user_of i), s'))"

text \<open>The static token of the inbound CI calls.\<close>

definition verify_inbound_api_token :: "settings \<Rightarrow> string option \<Rightarrow> unit result" where
  "verify_inbound_api_token st bearer =
     (let token = or_empty bearer
      in if cd_api_token st = [] \<or> token = [] \<or> token \<noteq> cd_api_token st
         then Inl (HTTPException 401) else Inr ())"

section \<open>Permissions\<close>

definition require_perm :: "settings \<Rightarrow> string \<Rightarrow> user \<Rightarrow> user result" where
  "require_perm st perm u =
     (if u_role u = super_admin_role st then Inr u
      else if ''*'' \<in> set (u_perms u) \<or> perm \<in> set (u_perms u) then Inr u
      else Inl (HTTPException 403))"

definition deploy_perm_map :: "(string \<times> string) list" where
  "deploy_perm_map =
     [(''ssh'', ''cd.deploy.single''), (''compose'', ''cd.deploy.docker''),
      (''docker'', ''cd.deploy.docker''), (''k8s/kubectl'', ''cd.deploy.k8s''),
      (''k8s/argocd'', ''cd.deploy.k8s''), (''k8s/fluxcd'', ''cd.deploy.k8s''),
      (''k8s/helm'', ''cd.deploy.k8s'')]"

definition resolve_deploy_perm :: "string \<Rightarrow> string \<Rightarrow> string" where
  "resolve_deploy_perm deploy_type cd_type =
     (let combined = (if deploy_type \<noteq> ''k8s'' then deploy_type @ ''/'' @ cd_type else ''k8s/'' @ cd_type)
      in case (if cd_type = [] then None else map_of deploy_perm_map combined) of
           Some p \<Rightarrow> p
         | None \<Rightarrow> (case map_of deploy_perm_map deploy_type of
                      Some p \<Rightarrow> p | None \<Rightarrow> ''cd.deploy.single''))"

definition enforce_deploy_perm :: "settings \<Rightarrow> user \<Rightarrow> string \<Rightarrow> string \<Rightarrow> unit result" where
  "enforce_deploy_perm st u deploy_type cd_type =
     (if u_role u = super_admin_role st then Inr ()
      else if ''*'' \<in> set (u_perms u) \<or> ''cd.deploy-manage'' \<in> set (u_perms u) then Inr ()
      else if resolve_deploy_perm deploy_type cd_type \<in> set (u_perms u) then Inr ()
      else Inl (HTTPException 403))"

text \<open>The identity a background execution acts as.\<close>

definition load_user_context ::
  "settings \<Rightarrow> glue \<Rightarrow> times \<Rightarrow> string \<Rightarrow> caches \<Rightarrow> user result \<times> caches" where
  "load_user_context st g tm username c =
     (case get_identity st g tm False username c of
        (Inl e, c') \<Rightarrow> (Inl (glue_exc e), c')
      | (Inr i, c') \<Rightarrow>
          if identity_disabled i then (Inl (AppException 403 (Some ''errors.user_disabled'')), c')
          else if \<not> has_system st (i_systems i) ''cd''
          then (Inl (AppException 403 (Some ''errors.no_cd_access'')), c')
          else (Inr ((user_of i)\<lparr>u_name := str_or (i_username i) username\<rparr>), c'))"

section \<open>Laws\<close>

lemma lookup_delete [simp]: "lookup_session h token (delete_session h token ss) = None"
  by (simp add: lookup_session_def delete_session_def find_None_iff)

lemma lookup_SomeD: "lookup_session h token ss = Some s \<Longrightarrow> s \<in> set ss \<and> ss_hash s = h token"
  unfolding lookup_session_def using find_SomeD by fastforce

lemma oidc_session_same [simp]: "snd (oidc_session h now token ss) = ss"
  by (simp add: oidc_session_def oidc_session_body_def split: option.splits)

lemma oidc_session_Inr:
  "oidc_session h now token ss = (Inr s, ss') \<Longrightarrow>
   lookup_session h token ss = Some s \<and> now \<le> ss_expires s \<and> ss' = ss"
  by (auto simp: oidc_session_def oidc_session_body_def split: option.splits if_splits)

lemma oidc_identity_Inr:
  assumes "oidc_identity st h g tm token u c ss = (Inr i, c', ss')"
  shows "get_identity st g tm False u c = (Inr i, c') \<and> \<not> identity_disabled i
    \<and> has_system st (i_systems i) ''cd'' \<and> ss' = ss"
  using assms by (auto simp: oidc_identity_def split: sum.splits prod.splits if_splits)

lemma authenticate_Inr:
  assumes "authenticate env cookie bearer s = (Inr (sess, i), s')"
  obtains token cc sc where
    "extract_token cookie bearer = Some token" "token \<noteq> []"
    "cd_deploy_gate (ae_settings env) (ae_now env) (ae_contract env) (as_contract s) (as_schema s) = (Inr (), cc, sc)"
    "lookup_session (ae_hash env) token (as_sessions s) = Some sess" "ae_now env \<le> ss_expires sess"
    "get_identity (ae_settings env) (ae_glue env) (ae_times env) False (ss_user sess) (as_caches s) =
       (Inr i, as_caches s')"
    "\<not> identity_disabled i" "has_system (ae_settings env) (i_systems i) ''cd''"
proof -
  obtain token where t: "extract_token cookie bearer = Some token" "token \<noteq> []"
    using assms by (auto simp: authenticate_def split: option.splits if_splits)
  obtain g cc sc where g: "cd_deploy_gate (ae_settings env) (ae_now env) (ae_contract env)
      (as_contract s) (as_schema s) = (g, cc, sc)"
    by (cases "cd_deploy_gate (ae_settings env) (ae_now env) (ae_contract env) (as_contract s) (as_schema s)")
  have g0: "g = Inr ()" using assms t g by (auto simp: authenticate_def split: sum.splits)
  obtain x ss where x: "oidc_session (ae_hash env) (ae_now env) token (as_sessions s) = (x, ss)"
    by (cases "oidc_session (ae_hash env) (ae_now env) token (as_sessions s)")
  obtain y c ss2 where y: "oidc_identity (ae_settings env) (ae_hash env) (ae_glue env) (ae_times env) token
      (ss_user (projr x)) (as_caches s) ss = (y, c, ss2)"
    by (cases "oidc_identity (ae_settings env) (ae_hash env) (ae_glue env) (ae_times env) token
      (ss_user (projr x)) (as_caches s) ss")
  have "x = Inr sess" "y = Inr i" "c = as_caches s'"
    using assms t g g0 x y by (auto simp: authenticate_def Let_def split: sum.splits)
  then show thesis
    using that [OF t g [unfolded g0]] oidc_session_Inr x oidc_identity_Inr y by fastforce
qed

section \<open>Properties\<close>

text \<open>C6. Authentication is sound: a request is accepted only with the token of a stored,
  unexpired session, with the service enabled and its tables present, and for an identity of
  the session's account that is not disabled, may use the CD system, and was verified with
  Glue within the revalidation window or the grace period.\<close>

theorem authentication_sound:
  assumes "caches_ok (as_caches s)" "tm_start (ae_times env) \<le> tm_end (ae_times env)"
    and "authenticate env cookie bearer s = (Inr (sess, i), s')"
  shows "\<exists>token. extract_token cookie bearer = Some token
    \<and> lookup_session (ae_hash env) token (as_sessions s) = Some sess \<and> ae_now env \<le> ss_expires sess
    \<and> (\<exists>st. known_state (ae_settings env) (ae_now env) (ae_contract env) (as_contract s) st \<and> is_enabled st)
    \<and> \<not> identity_disabled i \<and> has_system (ae_settings env) (i_systems i) ''cd''
    \<and> tm_start (ae_times env) - i_last_ok_at i
        \<le> max (window (ae_settings env)) (oidc_stale_grace_seconds (ae_settings env))"
proof -
  obtain token cc sc where a: "extract_token cookie bearer = Some token"
    "cd_deploy_gate (ae_settings env) (ae_now env) (ae_contract env) (as_contract s) (as_schema s) = (Inr (), cc, sc)"
    "lookup_session (ae_hash env) token (as_sessions s) = Some sess" "ae_now env \<le> ss_expires sess"
    "get_identity (ae_settings env) (ae_glue env) (ae_times env) False (ss_user sess) (as_caches s) =
       (Inr i, as_caches s')"
    "\<not> identity_disabled i" "has_system (ae_settings env) (i_systems i) ''cd''"
    using assms(3) by (rule authenticate_Inr)
  have "\<exists>st. known_state (ae_settings env) (ae_now env) (ae_contract env) (as_contract s) st \<and> is_enabled st"
    using gate_passes_known [OF a(2)] .
  moreover have "tm_start (ae_times env) - i_last_ok_at i
      \<le> max (window (ae_settings env)) (oidc_stale_grace_seconds (ae_settings env))"
    using get_identity_age [OF assms(1) a(5) assms(2)] by simp
  ultimately show ?thesis using a by blast
qed

definition sample_env :: "epoch \<Rightarrow> auth_env" where
  "sample_env now = \<lparr>ae_settings = sample_settings, ae_hash = (\<lambda>x. ''#'' @ x), ae_now = now,
     ae_times = at_time now, ae_glue = sample_glue [''p''], ae_contract = enabled_answer\<rparr>"

definition sample_auth :: auth_state where
  "sample_auth = \<lparr>as_sessions = [\<lparr>ss_hash = ''#tok'', ss_user = ''bob'', ss_expires = 2000\<rparr>],
     as_caches = empty_caches, as_contract = empty_contract_cache,
     as_schema = \<lparr>sc_ensured = True, sc_tables = cd_required_tables\<rparr>\<rparr>"

lemma sample_gate:
  "\<exists>cc sc. cd_deploy_gate sample_settings now enabled_answer empty_contract_cache
     \<lparr>sc_ensured = True, sc_tables = cd_required_tables\<rparr> = (Inr (), cc, sc)" if "0 \<le> now"
proof -
  have "normalize_contract (RInt 1) (RStr ''auto'') = (True, ''auto'')" by code_simp
  then show ?thesis using that
    by (simp add: cd_deploy_gate_def resolve_contract_state_def cache_lookup_def empty_contract_cache_def
        fetch_contract_http_def sample_settings_def default_settings_def enabled_answer_def
        ensure_tables_def missing_none)
qed

lemma sample_authenticate:
  "\<exists>s'. authenticate (sample_env 1000) (Some ''tok'') None sample_auth =
     (Inr (\<lparr>ss_hash = ''#tok'', ss_user = ''bob'', ss_expires = 2000\<rparr>,
           \<lparr>i_username = ''bob'', i_role = ''dev'', i_systems = Some ''cd'', i_status = IntStatus 1,
            i_permissions = Some [''p''], i_usable = True, i_checked_at = 1000, i_last_ok_at = 1000\<rparr>), s')"
proof -
  obtain cc sc where g: "cd_deploy_gate sample_settings 1000 enabled_answer empty_contract_cache
     \<lparr>sc_ensured = True, sc_tables = cd_required_tables\<rparr> = (Inr (), cc, sc)"
    using sample_gate [of 1000] by auto
  have "has_system sample_settings (Some ''cd'') ''cd''"
    by (simp add: has_system_def py_strip_def py_lstrip_def py_rstrip_def is_space_def)
  then show ?thesis
    by (simp add: authenticate_def extract_token_def sample_env_def sample_auth_def g Let_def
        oidc_session_def oidc_session_body_def lookup_session_def oidc_identity_def sample_first_call
        identity_disabled_def)
qed

theorem authentication_sound_witness:
  "\<exists>sess i s'. authenticate (sample_env 1000) (Some ''tok'') None sample_auth = (Inr (sess, i), s')
     \<and> lookup_session (\<lambda>x. ''#'' @ x) ''tok'' (as_sessions sample_auth) = Some sess"
proof -
  obtain sess i s' where a: "authenticate (sample_env 1000) (Some ''tok'') None sample_auth = (Inr (sess, i), s')"
    using sample_authenticate by blast
  have "caches_ok (as_caches sample_auth)" by (simp add: sample_auth_def)
  moreover have "tm_start (ae_times (sample_env 1000)) \<le> tm_end (ae_times (sample_env 1000))"
    by (simp add: sample_env_def at_time_def)
  ultimately show ?thesis using authentication_sound [OF _ _ a] a
    by (auto simp: extract_token_def sample_env_def)
qed

text \<open>Logging out revokes at once: after the session of a token is revoked, no request with
  that token is accepted, whatever Glue and the contract answer and whatever the caches hold.\<close>

theorem logout_revokes:
  "\<exists>e. fst (authenticate env (Some (c # token)) bearer
      (s\<lparr>as_sessions := revoke_session (ae_hash env) (c # token) (as_sessions s)\<rparr>)) = Inl e"
proof -
  let ?s = "s\<lparr>as_sessions := revoke_session (ae_hash env) (c # token) (as_sessions s)\<rparr>"
  have False if a: "authenticate env (Some (c # token)) bearer ?s = (Inr (sess, i), s')" for sess i s'
    using a
  proof (rule authenticate_Inr)
    fix token'
    assume "extract_token (Some (c # token)) bearer = Some token'"
      "lookup_session (ae_hash env) token' (as_sessions ?s) = Some sess"
    then show False by (simp add: extract_token_def revoke_session_def)
  qed
  then show ?thesis by (cases "authenticate env (Some (c # token)) bearer ?s"; cases "fst (authenticate env (Some (c # token)) bearer ?s)") auto
qed

text \<open>A new session authenticates its own token for exactly its time to live, and creating
  it keeps every other session that has not expired. The digest of the new token is assumed
  not to collide with a stored one.\<close>

theorem session_roundtrip:
  assumes "\<And>s. s \<in> set ss \<Longrightarrow> ss_hash s \<noteq> h token" "0 \<le> auth_token_ttl_hours st"
  shows "fst (oidc_session h t token (create_session st h now token u ss)) =
      (if now + auth_token_ttl_hours st * 3600 < t then Inl (HTTPException 401)
       else Inr \<lparr>ss_hash = h token, ss_user = u, ss_expires = now + auth_token_ttl_hours st * 3600\<rparr>)
    \<and> (\<forall>s\<in>set ss. now < ss_expires s \<longrightarrow> s \<in> set (create_session st h now token u ss))"
proof -
  have "List.find (\<lambda>s. ss_hash s = h token) (filter (\<lambda>s. \<not> ss_expires s \<le> now) ss) = None"
    using assms(1) by (auto simp: find_None_iff)
  then have "lookup_session h token (create_session st h now token u ss) =
      Some \<lparr>ss_hash = h token, ss_user = u, ss_expires = now + auth_token_ttl_hours st * 3600\<rparr>"
    by (simp add: lookup_session_def create_session_def find_append)
  then show ?thesis by (auto simp: oidc_session_def oidc_session_body_def create_session_def)
qed

theorem session_roundtrip_witness:
  "fst (oidc_session id 86400 ''t2'' (create_session default_settings id 0 ''t2'' ''eve''
     [\<lparr>ss_hash = ''t1'', ss_user = ''bob'', ss_expires = 5\<rparr>])) =
   Inr \<lparr>ss_hash = ''t2'', ss_user = ''eve'', ss_expires = 86400\<rparr>"
  using session_roundtrip [of "[\<lparr>ss_hash = ''t1'', ss_user = ''bob'', ss_expires = 5\<rparr>]" id "''t2''"
      default_settings 86400 0 "''eve''"]
  by (simp add: default_settings_def)

text \<open>An expired session is never cleaned up by the request that finds it: the lookup
  deletes the row, but the 401 it raises inside the connection block rolls the deletion back,
  so the stored sessions are unchanged although the body removed the row.\<close>

theorem expired_session_stays:
  assumes "lookup_session h token ss = Some s" "ss_expires s < now"
  shows "oidc_session h now token ss = (Inl (HTTPException 401), ss)
    \<and> snd (oidc_session_body h now token ss) \<noteq> ss"
proof -
  have "s \<in> set ss" "ss_hash s = h token" using lookup_SomeD [OF assms(1)] by simp_all
  then have "delete_session h token ss \<noteq> ss"
    unfolding delete_session_def by (metis (mono_tags, lifting) filter_id_conv)
  then show ?thesis using assms by (simp add: oidc_session_def oidc_session_body_def)
qed

theorem expired_session_stays_witness:
  "oidc_session id 10 ''t1'' [\<lparr>ss_hash = ''t1'', ss_user = ''bob'', ss_expires = 5\<rparr>] =
     (Inl (HTTPException 401), [\<lparr>ss_hash = ''t1'', ss_user = ''bob'', ss_expires = 5\<rparr>])"
  using expired_session_stays [of id "''t1''" "[\<lparr>ss_hash = ''t1'', ss_user = ''bob'', ss_expires = 5\<rparr>]"
      "\<lparr>ss_hash = ''t1'', ss_user = ''bob'', ss_expires = 5\<rparr>" 10]
  by (simp add: lookup_session_def)

text \<open>The permission check of a deployment admits exactly super administrators, the
  wildcard, the blanket permission, and the permission of the deployment's type, which for
  every Kubernetes mode is \<^verbatim>\<open>cd.deploy.k8s\<close>; the bare type \<^verbatim>\<open>k8s\<close> without a mode is
  checked as a single-server deployment.\<close>

theorem deploy_perm_exact:
  "(enforce_deploy_perm st u dt ct = Inr ()) =
     (u_role u = super_admin_role st \<or> ''*'' \<in> set (u_perms u) \<or>
      ''cd.deploy-manage'' \<in> set (u_perms u) \<or> resolve_deploy_perm dt ct \<in> set (u_perms u))
   \<and> (enforce_deploy_perm st u dt ct = Inr () \<or> enforce_deploy_perm st u dt ct = Inl (HTTPException 403))
   \<and> resolve_deploy_perm dt ct \<in> {''cd.deploy.single'', ''cd.deploy.docker'', ''cd.deploy.k8s''}
   \<and> list_all (\<lambda>m. resolve_deploy_perm ''k8s'' m = ''cd.deploy.k8s'' \<and>
        resolve_deploy_perm (''k8s/'' @ m) [] = ''cd.deploy.k8s'')
        [''kubectl'', ''argocd'', ''fluxcd'', ''helm'']
   \<and> resolve_deploy_perm ''k8s'' [] = ''cd.deploy.single''"
proof -
  have "p \<in> {''cd.deploy.single'', ''cd.deploy.docker'', ''cd.deploy.k8s''}"
    if "map_of deploy_perm_map k = Some p" for k p
    using map_of_SomeD [OF that] by (auto simp: deploy_perm_map_def)
  then have "resolve_deploy_perm dt ct \<in> {''cd.deploy.single'', ''cd.deploy.docker'', ''cd.deploy.k8s''}"
    by (fastforce simp: resolve_deploy_perm_def Let_def split: option.splits if_splits)
  moreover have "list_all (\<lambda>m. resolve_deploy_perm ''k8s'' m = ''cd.deploy.k8s'' \<and>
        resolve_deploy_perm (''k8s/'' @ m) [] = ''cd.deploy.k8s'')
        [''kubectl'', ''argocd'', ''fluxcd'', ''helm'']"
    by (simp add: resolve_deploy_perm_def deploy_perm_map_def)
  moreover have "resolve_deploy_perm ''k8s'' [] = ''cd.deploy.single''"
    by (simp add: resolve_deploy_perm_def deploy_perm_map_def)
  ultimately show ?thesis by (auto simp: enforce_deploy_perm_def)
qed

end
