(* ===== verification/ApprovalRules.thy ===== *)
theory ApprovalRules
  imports Auth
begin

text \<open>
  The rule part of \<^verbatim>\<open>backend/services/approval_service.py\<close>: the schedule format, which
  approval rule applies to a project, which environments a deployment touches, whether it
  needs an approval, and who may approve, cancel and execute. \<open>parse_server_ids\<close> is shared
  with \<^verbatim>\<open>deploy_service.py\<close>.
\<close>

section \<open>The schedule format\<close>

text \<open>\<^verbatim>\<open>datetime.strptime\<close> for \<^verbatim>\<open>%Y-%m-%d %H:%M[:%S]\<close>: four digits of year, one or
  two digits elsewhere (a day may have a leading space), any run of white space for the
  space, nothing after the last field; then the checks of the \<^verbatim>\<open>datetime\<close> constructor.\<close>

record datetime =
  dt_year :: nat
  dt_month :: nat
  dt_day :: nat
  dt_hour :: nat
  dt_minute :: nat
  dt_second :: nat

definition number_field :: "nat \<Rightarrow> nat \<Rightarrow> string \<Rightarrow> (nat \<times> string) option" where
  "number_field lo hi s =
     (let ds = takeWhile is_digit s; v = nat_of_digits ds
      in if (length ds = lo \<or> length ds = hi) \<and> ds \<noteq> [] then Some (v, drop (length ds) s) else None)"

fun literal :: "char \<Rightarrow> string \<Rightarrow> string option" where
  "literal c [] = None"
| "literal c (x # xs) = (if x = c then Some xs else None)"

definition spaces :: "string \<Rightarrow> string option" where
  "spaces s = (case s of [] \<Rightarrow> None | x # xs \<Rightarrow> if is_space x then Some (dropWhile is_space xs) else None)"

definition day_field :: "string \<Rightarrow> (nat \<times> string) option" where
  "day_field s = (case s of
       [] \<Rightarrow> None
     | x # xs \<Rightarrow> if x = CHR '' '' then number_field 1 1 xs else number_field 1 2 s)"

definition in_range :: "nat \<Rightarrow> nat \<Rightarrow> nat \<times> string \<Rightarrow> (nat \<times> string) option" where
  "in_range lo hi p = (if lo \<le> fst p \<and> fst p \<le> hi then Some p else None)"

definition leap_year :: "nat \<Rightarrow> bool" where
  "leap_year y = (y mod 4 = 0 \<and> (y mod 100 \<noteq> 0 \<or> y mod 400 = 0))"

definition days_in_month :: "nat \<Rightarrow> nat \<Rightarrow> nat" where
  "days_in_month y m =
     (if m = 2 then (if leap_year y then 29 else 28) else if m \<in> {4, 6, 9, 11} then 30 else 31)"

definition valid_datetime :: "datetime \<Rightarrow> bool" where
  "valid_datetime d \<longleftrightarrow> 1 \<le> dt_year d \<and> dt_year d \<le> 9999 \<and> 1 \<le> dt_month d \<and> dt_month d \<le> 12 \<and>
     1 \<le> dt_day d \<and> dt_day d \<le> days_in_month (dt_year d) (dt_month d) \<and>
     dt_hour d \<le> 23 \<and> dt_minute d \<le> 59 \<and> dt_second d \<le> 59"

definition parse_prefix :: "string \<Rightarrow> (nat \<times> nat \<times> nat \<times> nat \<times> nat \<times> string) option" where
  "parse_prefix s =
     Option.bind (number_field 4 4 s) (\<lambda>(y, s1). Option.bind (literal (CHR ''-'') s1) (\<lambda>s2.
     Option.bind (number_field 1 2 s2) (\<lambda>p. Option.bind (in_range 1 12 p) (\<lambda>(m, s3).
     Option.bind (literal (CHR ''-'') s3) (\<lambda>s4. Option.bind (day_field s4) (\<lambda>p.
     Option.bind (in_range 1 31 p) (\<lambda>(d, s5). Option.bind (spaces s5) (\<lambda>s6.
     Option.bind (number_field 1 2 s6) (\<lambda>p. Option.bind (in_range 0 23 p) (\<lambda>(h, s7).
     Option.bind (literal (CHR '':'') s7) (\<lambda>s8. Option.bind (number_field 1 2 s8) (\<lambda>p.
     Option.bind (in_range 0 59 p) (\<lambda>(mi, s9). Some (y, m, d, h, mi, s9))))))))))))))"

definition strptime_full :: "string \<Rightarrow> datetime option" where
  "strptime_full s =
     Option.bind (parse_prefix s) (\<lambda>(y, m, d, h, mi, r). Option.bind (literal (CHR '':'') r) (\<lambda>r1.
     Option.bind (number_field 1 2 r1) (\<lambda>p. Option.bind (in_range 0 61 p) (\<lambda>(se, r2).
     if r2 \<noteq> [] then None
     else let dt = \<lparr>dt_year = y, dt_month = m, dt_day = d, dt_hour = h, dt_minute = mi, dt_second = se\<rparr>
          in if valid_datetime dt then Some dt else None))))"

definition strptime_short :: "string \<Rightarrow> datetime option" where
  "strptime_short s =
     Option.bind (parse_prefix s) (\<lambda>(y, m, d, h, mi, r).
     if r \<noteq> [] then None
     else let dt = \<lparr>dt_year = y, dt_month = m, dt_day = d, dt_hour = h, dt_minute = mi, dt_second = 0\<rparr>
          in if valid_datetime dt then Some dt else None)"

text \<open>\<^verbatim>\<open>strftime("%Y-%m-%d %H:%M:%S")\<close>, every field zero-padded.\<close>

definition format_datetime :: "datetime \<Rightarrow> string" where
  "format_datetime d = digits 4 (dt_year d) @ ''-'' @ digits 2 (dt_month d) @ ''-'' @ digits 2 (dt_day d) @
     '' '' @ digits 2 (dt_hour d) @ '':'' @ digits 2 (dt_minute d) @ '':'' @ digits 2 (dt_second d)"

definition approval_invalid_schedule :: exc where
  "approval_invalid_schedule = ValidationError (Some ''errors.approval_invalid_schedule'')"

definition parse_scheduled_at :: "string \<Rightarrow> string result" where
  "parse_scheduled_at s0 =
     (let s = replace_char (CHR ''T'') (CHR '' '') (py_strip s0)
      in if s = [] then Inr []
         else case strptime_full s of
           Some d \<Rightarrow> Inr (format_datetime d)
         | None \<Rightarrow> (case strptime_short s of
             Some d \<Rightarrow> Inr (format_datetime d) | None \<Rightarrow> Inl approval_invalid_schedule))"

section \<open>Rules\<close>

definition list_all_rules :: "rule table \<Rightarrow> rule list" where
  "list_all_rules t = rows t"

text \<open>One pass over the rules with the two accumulators of the source.\<close>

fun match_loop :: "rule list \<Rightarrow> string \<Rightarrow> rule option \<Rightarrow> rule option \<Rightarrow> rule option" where
  "match_loop [] project exact fallback = (case exact of Some r \<Rightarrow> Some r | None \<Rightarrow> fallback)"
| "match_loop (r # rs) project exact fallback =
     (let targets = parse_csv (r_project r)
      in if targets = [] then match_loop rs project exact fallback
         else if project \<in> set targets
         then match_loop rs project (case exact of None \<Rightarrow> Some r | Some e \<Rightarrow> Some e) fallback
         else if ''*'' \<in> set targets \<and> fallback = None then match_loop rs project exact (Some r)
         else match_loop rs project exact fallback)"

definition match_rule :: "rule list \<Rightarrow> string \<Rightarrow> rule option" where
  "match_rule rules project = match_loop rules project None None"

definition get_rule :: "rule table \<Rightarrow> string \<Rightarrow> rule option" where
  "get_rule t project = match_rule (list_all_rules t) project"

section \<open>Environments\<close>

definition parse_server_ids :: "string \<Rightarrow> row_id list" where
  "parse_server_ids s =
     List.map (\<lambda>x. nat_of_digits (py_strip x)) (filter (\<lambda>x. py_isdigit (py_strip x)) (split_on (CHR '','') s))"

definition envs_of :: "server list \<Rightarrow> string list" where
  "envs_of ss = remdups (concat (List.map (\<lambda>s. parse_csv (s_tags s)) ss))"

definition deploy_validation :: exc where
  "deploy_validation = ValidationError (Some ''errors.deploy_validation'')"

text \<open>No selection means every server; a selection without a valid id is an error, never the
  empty set.\<close>

definition resolve_target_envs :: "server table \<Rightarrow> string \<Rightarrow> string list result" where
  "resolve_target_envs t server_ids0 =
     (let server_ids = py_strip server_ids0
      in if server_ids = [] then Inr (envs_of (rows t))
         else let ids = parse_server_ids server_ids
              in if ids = [] then Inl deploy_validation
                 else Inr (envs_of (t_where (\<lambda>s. s_id s \<in> set ids) t)))"

definition approval_required ::
  "rule table \<Rightarrow> server table \<Rightarrow> string \<Rightarrow> string \<Rightarrow> bool \<Rightarrow> rule option result" where
  "approval_required rt st project server_ids for_rollback =
     (case get_rule rt project of
        None \<Rightarrow> Inr None
      | Some rule \<Rightarrow>
          if \<not> r_enabled rule then Inr None
          else if for_rollback \<and> \<not> r_rollback rule then Inr None
          else let require_envs = parse_csv (r_envs rule)
               in if require_envs = [] then Inr (Some rule)
                  else (case resolve_target_envs st server_ids of
                          Inl e \<Rightarrow> Inl e
                        | Inr envs \<Rightarrow>
                            if list_ex (\<lambda>x. x \<in> set envs) require_envs then Inr (Some rule) else Inr None))"

section \<open>Authority\<close>

definition is_super :: "settings \<Rightarrow> user \<Rightarrow> bool" where
  "is_super st u = (u_role u = super_admin_role st \<or> ''*'' \<in> set (u_perms u))"

text \<open>The rule argument may be the empty dict, here \<open>None\<close>.\<close>

definition can_approve :: "settings \<Rightarrow> rule option \<Rightarrow> user \<Rightarrow> bool" where
  "can_approve st rule u =
     (if is_super st u then True
      else if ''cd.deploy.approve'' \<in> set (u_perms u) then True
      else case rule of
             None \<Rightarrow> False
           | Some r \<Rightarrow>
               if u_name u \<in> set (parse_csv (r_approvers r)) then True
               else py_strip (r_role r) \<noteq> [] \<and> u_role u = py_strip (r_role r))"

definition can_cancel :: "settings \<Rightarrow> approval \<Rightarrow> user \<Rightarrow> bool" where
  "can_cancel st a u =
     (if \<not> is_super st u \<and> u_name u \<noteq> a_requester a then False
      else a_status a \<in> {Pending, Approved})"

definition can_execute :: "approval \<Rightarrow> user \<Rightarrow> bool" where
  "can_execute a u = (if u_name u \<noteq> a_requester a then False else a_status a = Approved)"

definition ensure_not_requester :: "approval \<Rightarrow> user \<Rightarrow> unit result" where
  "ensure_not_requester a u =
     (let requester = py_strip (a_requester a); current = py_strip (u_name u)
      in if requester \<noteq> [] \<and> current \<noteq> [] \<and> requester = current
         then Inl (AppException 403 (Some ''errors.self_approval_forbidden'')) else Inr ())"

section \<open>Laws\<close>

lemma number_field_digits:
  assumes "n < 10 ^ k" "k = lo \<or> k = hi" "0 < k" "rest = [] \<or> \<not> is_digit (hd rest)"
  shows "number_field lo hi (digits k n @ rest) = Some (n, rest)"
proof -
  have "takeWhile is_digit rest = []" using assms(4) by (cases rest) auto
  moreover have "\<forall>x\<in>set (digits k n). is_digit x" using digits_all_digit by (simp add: list_all_iff)
  ultimately have "takeWhile is_digit (digits k n @ rest) = digits k n" by (simp add: takeWhile_append2)
  then show ?thesis using assms(1-3)
    by (auto simp: number_field_def nat_of_digits_digits)
qed

lemma digits_two: "2 = Suc (Suc 0)" by simp

lemma digit_hd: "0 < k \<Longrightarrow> is_digit (hd (digits k n @ r))"
  using digits_digit [of "hd (digits k n)" k n] by simp

lemma digit_not_space: "is_digit c \<Longrightarrow> \<not> is_space c"
  by (auto simp: is_digit_def is_space_def Let_def)

lemma not_digit_seps [simp]: "\<not> is_digit (CHR ''-'')" "\<not> is_digit (CHR '' '')" "\<not> is_digit (CHR '':'')"
  by (simp_all add: is_digit_def)

lemma day_field_digits:
  assumes "n < 100" "rest = [] \<or> \<not> is_digit (hd rest)"
  shows "day_field (digits 2 n @ rest) = Some (n, rest)"
proof -
  have "is_digit (hd (digits 2 n @ rest))" by (rule digit_hd) simp
  moreover obtain x xs where "digits 2 n @ rest = x # xs"
    by (metis append_is_Nil_conv length_0_conv length_digits neq_Nil_conv zero_neq_numeral)
  ultimately show ?thesis using number_field_digits [of n 2 1 2 rest] assms
    by (auto simp: day_field_def is_digit_def)
qed

lemma spaces_digits: "spaces ('' '' @ digits 2 n @ rest) = Some (digits 2 n @ rest)"
proof -
  have "\<not> is_space (hd (digits 2 n @ rest))" using digit_hd [of 2 n rest] digit_not_space by simp
  then have "dropWhile is_space (digits 2 n @ rest) = digits 2 n @ rest"
    by (cases "digits 2 n @ rest") auto
  then show ?thesis by (simp add: spaces_def is_space_def)
qed

lemma valid_bounds:
  assumes "valid_datetime d"
  shows "dt_year d < 10 ^ 4" "dt_month d < 10 ^ 2" "dt_day d < 10 ^ 2" "dt_hour d < 10 ^ 2"
    "dt_minute d < 10 ^ 2" "dt_second d < 10 ^ 2" "dt_day d \<le> 31"
proof -
  have "dt_day d \<le> days_in_month (dt_year d) (dt_month d)" using assms by (simp add: valid_datetime_def)
  also have "\<dots> \<le> 31" by (simp add: days_in_month_def)
  finally show "dt_day d \<le> 31" .
  then show "dt_day d < 10 ^ 2" by simp
qed (use assms in \<open>auto simp: valid_datetime_def\<close>)

lemma parse_prefix_format:
  assumes "valid_datetime d" "rest = [] \<or> \<not> is_digit (hd rest)"
  shows "parse_prefix (digits 4 (dt_year d) @ ''-'' @ digits 2 (dt_month d) @ ''-'' @ digits 2 (dt_day d) @
     '' '' @ digits 2 (dt_hour d) @ '':'' @ digits 2 (dt_minute d) @ rest) =
    Some (dt_year d, dt_month d, dt_day d, dt_hour d, dt_minute d, rest)"
proof -
  note b = valid_bounds [OF assms(1)]
  have v: "1 \<le> dt_month d" "dt_month d \<le> 12" "1 \<le> dt_day d" "dt_hour d \<le> 23" "dt_minute d \<le> 59"
    using assms(1) by (auto simp: valid_datetime_def)
  have sp: "spaces (CHR '' '' # digits 2 n @ r) = Some (digits 2 n @ r)" for n r
    using spaces_digits [of n r] by simp
  show ?thesis
    using b v assms(2)
    by (simp add: parse_prefix_def number_field_digits day_field_digits sp in_range_def del: digits.simps)
qed

lemma format_chars: "c \<in> set (format_datetime d) \<Longrightarrow> is_digit c \<or> c \<in> {CHR ''-'', CHR '' '', CHR '':''}"
  by (auto simp: format_datetime_def dest: digits_digit)

lemma format_ends:
  "hd (format_datetime d) = hd (digits 4 (dt_year d) @ [])" "last (format_datetime d) = last (digits 2 (dt_second d))"
  "format_datetime d \<noteq> []"
proof -
  show "hd (format_datetime d) = hd (digits 4 (dt_year d) @ [])"
    "last (format_datetime d) = last (digits 2 (dt_second d))" "format_datetime d \<noteq> []"
    by (simp_all add: format_datetime_def del: digits.simps)
qed

lemma format_strip: "py_strip (format_datetime d) = format_datetime d"
proof -
  have "is_digit (hd (format_datetime d))" unfolding format_ends(1) by (rule digit_hd) simp
  moreover have "is_digit (last (format_datetime d))"
    unfolding format_ends(2) by (rule digits_digit, rule last_in_set) simp
  ultimately show ?thesis by (intro py_strip_fix) (simp add: digit_not_space)
qed

lemma format_no_T: "replace_char (CHR ''T'') (CHR '' '') (format_datetime d) = format_datetime d"
proof -
  have "CHR ''T'' \<notin> set (format_datetime d)" using format_chars [of "CHR ''T''" d] by (auto simp: is_digit_def)
  then show ?thesis by (auto simp: replace_char_def intro!: map_idI)
qed

lemma strptime_full_format: "valid_datetime d \<Longrightarrow> strptime_full (format_datetime d) = Some d"
proof -
  assume v: "valid_datetime d"
  have s: "dt_second d \<le> 61" using v by (simp add: valid_datetime_def)
  have pp: "parse_prefix (format_datetime d) =
      Some (dt_year d, dt_month d, dt_day d, dt_hour d, dt_minute d, '':'' @ digits 2 (dt_second d))"
    unfolding format_datetime_def by (rule parse_prefix_format [OF v]) simp
  have nf: "number_field 1 2 (digits 2 (dt_second d)) = Some (dt_second d, [])"
    using number_field_digits [of "dt_second d" 2 1 2 "[]"] valid_bounds [OF v] by simp
  have eq: "\<lparr>dt_year = dt_year d, dt_month = dt_month d, dt_day = dt_day d, dt_hour = dt_hour d,
      dt_minute = dt_minute d, dt_second = dt_second d\<rparr> = d" by (cases d) simp
  show ?thesis using v s nf by (simp add: strptime_full_def pp in_range_def Let_def eq del: digits.simps)
qed

lemma parse_scheduled_cases:
  assumes "parse_scheduled_at s = Inr x"
  shows "x = [] \<or> (\<exists>d. valid_datetime d \<and> x = format_datetime d)"
proof -
  have "valid_datetime d" if "strptime_full t = Some d" for t d
    using that by (auto simp: strptime_full_def Option.bind_eq_Some_conv Let_def split: if_splits)
  moreover have "valid_datetime d" if "strptime_short t = Some d" for t d
    using that by (auto simp: strptime_short_def Option.bind_eq_Some_conv Let_def split: if_splits)
  moreover have "x = [] \<or> (\<exists>d t. x = format_datetime d \<and> (strptime_full t = Some d \<or> strptime_short t = Some d))"
    using assms by (auto simp: parse_scheduled_at_def Let_def split: if_splits option.splits)
  ultimately show ?thesis by blast
qed

lemma parse_format: "valid_datetime d \<Longrightarrow> parse_scheduled_at (format_datetime d) = Inr (format_datetime d)"
  by (simp add: parse_scheduled_at_def format_strip format_no_T format_ends(3) strptime_full_format)

text \<open>The fields in the order in which two times are compared.\<close>

definition time_less :: "datetime \<Rightarrow> datetime \<Rightarrow> bool" where
  "time_less a b \<longleftrightarrow> dt_year a < dt_year b \<or> (dt_year a = dt_year b \<and> (dt_month a < dt_month b \<or>
     (dt_month a = dt_month b \<and> (dt_day a < dt_day b \<or> (dt_day a = dt_day b \<and> (dt_hour a < dt_hour b \<or>
     (dt_hour a = dt_hour b \<and> (dt_minute a < dt_minute b \<or>
     (dt_minute a = dt_minute b \<and> dt_second a < dt_second b)))))))))"

lemma format_less:
  assumes "valid_datetime a" "valid_datetime b"
  shows "format_datetime a < format_datetime b \<longleftrightarrow> time_less a b"
proof -
  note A = valid_bounds [OF assms(1)] and B = valid_bounds [OF assms(2)]
  have d: "digits 2 m @ c # x < digits 2 n @ c # y \<longleftrightarrow> m < n \<or> (m = n \<and> x < y)"
    if "m < 10 ^ 2" "n < 10 ^ 2" for m n x y and c :: char
    using that by (simp add: append_less_iff digits_less digits_inject)
  have e: "digits 4 m @ c # x < digits 4 n @ c # y \<longleftrightarrow> m < n \<or> (m = n \<and> x < y)"
    if "m < 10 ^ 4" "n < 10 ^ 4" for m n x y and c :: char
    using that by (simp add: append_less_iff digits_less digits_inject)
  show ?thesis
    using A B by (simp add: format_datetime_def time_less_def d e digits_less del: digits.simps)
qed

lemma find_append_exact:
  "match_loop rs p e f =
     (case e of Some r \<Rightarrow> Some r
      | None \<Rightarrow> (case List.find (\<lambda>r. p \<in> set (parse_csv (r_project r))) rs of
          Some r \<Rightarrow> Some r
        | None \<Rightarrow> (case f of Some r \<Rightarrow> Some r
            | None \<Rightarrow> List.find (\<lambda>r. ''*'' \<in> set (parse_csv (r_project r))) rs)))"
  by (induction rs p e f rule: match_loop.induct) (auto simp: Let_def split: option.splits)

lemma match_rule_find:
  "match_rule rs p =
     (case List.find (\<lambda>r. p \<in> set (parse_csv (r_project r))) rs of
        Some r \<Rightarrow> Some r
      | None \<Rightarrow> List.find (\<lambda>r. ''*'' \<in> set (parse_csv (r_project r))) rs)"
  by (simp add: match_rule_def find_append_exact split: option.split)

section \<open>Properties\<close>

text \<open>A schedule that is accepted is stored in a canonical form: it is empty or a valid
  calendar time, parsing it again gives the same text, and comparing two stored schedules
  as strings, which is how due approvals are selected, compares the times they stand for.\<close>

theorem schedule_canonical:
  assumes "parse_scheduled_at s1 = Inr x1" "parse_scheduled_at s2 = Inr x2"
  shows "parse_scheduled_at x1 = Inr x1 \<and>
    (x1 = [] \<or> x2 = [] \<or>
      (\<exists>d1 d2. valid_datetime d1 \<and> valid_datetime d2 \<and> x1 = format_datetime d1 \<and>
         x2 = format_datetime d2 \<and> (x1 < x2 \<longleftrightarrow> time_less d1 d2)))"
proof -
  have "parse_scheduled_at [] = Inr []" by (simp add: parse_scheduled_at_def replace_char_def)
  then have p: "parse_scheduled_at x1 = Inr x1" using parse_scheduled_cases [OF assms(1)] parse_format by auto
  show ?thesis
  proof (cases "x1 = [] \<or> x2 = []")
    case False
    then obtain d1 d2 where "valid_datetime d1" "x1 = format_datetime d1" "valid_datetime d2" "x2 = format_datetime d2"
      using parse_scheduled_cases [OF assms(1)] parse_scheduled_cases [OF assms(2)] by blast
    then show ?thesis using p format_less [of d1 d2] by simp blast
  qed (use p in auto)
qed

lemma sample_schedule: "parse_scheduled_at '' 2026-3-05T09:30 '' = Inr ''2026-03-05 09:30:00''"
  by code_simp

theorem schedule_canonical_witness:
  "parse_scheduled_at ''2026-03-05 09:30:00'' = Inr ''2026-03-05 09:30:00''"
  using schedule_canonical [OF sample_schedule sample_schedule] by blast

text \<open>Which rule governs a project: the first rule (by id) that names the project, and only
  when there is none the first rule that names \<^verbatim>\<open>*\<close>; rules with an empty project list never
  apply.\<close>

theorem rule_precedence:
  "get_rule t p =
     (case List.find (\<lambda>r. p \<in> set (parse_csv (r_project r))) (rows t) of
        Some r \<Rightarrow> Some r
      | None \<Rightarrow> List.find (\<lambda>r. ''*'' \<in> set (parse_csv (r_project r))) (rows t))"
  by (simp add: get_rule_def list_all_rules_def match_rule_find)

text \<open>Deciding whether a deployment needs an approval fails closed: with an enabled rule that
  lists environments, the deployment goes through without approval only if the selected
  servers were resolved and none of them carries a listed environment; a selection that
  names no valid server id is an error. A rule without environments always requires
  approval, except for a rollback the rule exempts.\<close>

theorem approval_fails_closed:
  assumes "get_rule rt p = Some r" "r_enabled r" "\<not> for_rollback \<or> r_rollback r"
  shows "approval_required rt st p ids for_rollback =
    (if parse_csv (r_envs r) = [] then Inr (Some r)
     else if py_strip ids \<noteq> [] \<and> parse_server_ids (py_strip ids) = [] then Inl deploy_validation
     else if \<exists>s\<in>set (rows st). (py_strip ids = [] \<or> s_id s \<in> set (parse_server_ids (py_strip ids))) \<and>
               set (parse_csv (s_tags s)) \<inter> set (parse_csv (r_envs r)) \<noteq> {}
     then Inr (Some r) else Inr None)"
proof (cases "parse_csv (r_envs r) = []")
  case True
  then show ?thesis using assms by (simp add: approval_required_def)
next
  case False
  have envs: "list_ex (\<lambda>x. x \<in> set (envs_of ss)) es \<longleftrightarrow>
      (\<exists>s\<in>set ss. set (parse_csv (s_tags s)) \<inter> set es \<noteq> {})" for ss es
    by (auto simp: list_ex_iff envs_of_def)
  show ?thesis
  proof (cases "py_strip ids = []")
    case True
    then show ?thesis using assms False
      by (auto simp: approval_required_def resolve_target_envs_def envs)
  next
    case sel: False
    then show ?thesis using assms False
      by (auto simp: approval_required_def resolve_target_envs_def envs t_where_def Let_def)
  qed
qed

definition sample_rules :: "rule table" where
  "sample_rules = \<lparr>rows = [\<lparr>r_id = 1, r_project = ''web'', r_enabled = True, r_envs = ''prod'', r_role = [],
     r_approvers = ''amy'', r_bot = 0, r_rollback = True\<rparr>], next_id = 2\<rparr>"

definition sample_servers :: "server table" where
  "sample_servers = \<lparr>rows = [\<lparr>s_id = 1, s_name = ''a'', s_host = ''h'', s_port = 22, s_user = ''root'',
     s_type = ''ssh'', s_password = [], s_key = [], s_tags = ''prod,web''\<rparr>], next_id = 2\<rparr>"

lemma sample_get_rule: "get_rule sample_rules ''web'' = Some (hd (rows sample_rules))"
  by code_simp

theorem approval_fails_closed_witness:
  "approval_required sample_rules sample_servers ''web'' ''x'' False = Inl deploy_validation"
proof -
  have "r_enabled (hd (rows sample_rules))" by (simp add: sample_rules_def)
  moreover have "parse_csv (r_envs (hd (rows sample_rules))) \<noteq> []" by code_simp
  moreover have "py_strip ''x'' \<noteq> []" "parse_server_ids (py_strip ''x'') = []" by code_simp+
  ultimately show ?thesis
    using approval_fails_closed [OF sample_get_rule, of False sample_servers "''x''"] by simp
qed

text \<open>An approval rule can be sidestepped by naming the project differently: the rule is
  matched on the submitted text, while the deployment resolves it, by job name or by
  repository path, to the same job. With a rule on the job name only, a request under the
  job's path needs no approval and deploys the governed project.\<close>

theorem approval_alias_bypass:
  "let js = [\<lparr>j_name = ''web'', j_path = ''group/web'', j_registry_repo = ''lib/web'', j_harbor_repo = [],
              j_latest_tag = []\<rparr>]
   in approval_required sample_rules sample_servers ''web'' [] False = Inr (Some (hd (rows sample_rules)))
    \<and> approval_required sample_rules sample_servers ''group/web'' [] False = Inr None
    \<and> resolve_project_key js ''group/web'' = resolve_project_key js ''web''
    \<and> resolve_harbor_repo js ''group/web'' = resolve_harbor_repo js ''web''"
  by code_simp

end
