(* ===== verification/Locks.thy ===== *)
theory Locks
  imports Prelude
begin

text \<open>
  The interface of an exclusive lock, as the deployment code relies on it: who holds a key,
  an acquire that either hands out a fresh holder or leaves the state alone, and a release by
  holder. What the clients use is proved here once: any sequence of operations keeps the
  invariant, and between an acquire and the release of its holder every other acquire of the
  key fails. The project lock of the deployment log (theory DeployRun) implements it.
\<close>

datatype ('k, 'h) lock_op = Acquire 'k | Release 'h

fun run_lock_op ::
  "('k \<Rightarrow> 's \<Rightarrow> 'h option \<times> 's) \<Rightarrow> ('h \<Rightarrow> 's \<Rightarrow> 's) \<Rightarrow> ('k, 'h) lock_op \<Rightarrow> 's \<Rightarrow> 's" where
  "run_lock_op acq rel (Acquire k) s = snd (acq k s)"
| "run_lock_op acq rel (Release h) s = rel h s"

locale exclusive_lock =
  fixes inv :: "'s \<Rightarrow> bool"
    and holder :: "'k \<Rightarrow> 's \<Rightarrow> 'h option"
    and acquire :: "'k \<Rightarrow> 's \<Rightarrow> 'h option \<times> 's"
    and release :: "'h \<Rightarrow> 's \<Rightarrow> 's"
  assumes acquire_inv: "inv s \<Longrightarrow> inv (snd (acquire k s))"
    and release_inv: "inv s \<Longrightarrow> inv (release h s)"
    and acquire_free: "inv s \<Longrightarrow> holder k s = None \<Longrightarrow>
      \<exists>h. fst (acquire k s) = Some h \<and> holder k (snd (acquire k s)) = Some h"
    and acquire_busy: "inv s \<Longrightarrow> holder k s = Some h \<Longrightarrow> acquire k s = (None, s)"
    and acquire_other: "inv s \<Longrightarrow> k' \<noteq> k \<Longrightarrow> holder k' (snd (acquire k s)) = holder k' s"
    and release_holder: "inv s \<Longrightarrow>
      holder k (release h s) = (if holder k s = Some h then None else holder k s)"
begin

lemma run_inv: "inv s \<Longrightarrow> inv (run_lock_op acquire release x s)"
  by (cases x) (auto intro: acquire_inv release_inv)

lemma runs_inv: "inv s \<Longrightarrow> inv (fold (run_lock_op acquire release) xs s)"
  by (induction xs arbitrary: s) (auto intro: run_inv)

lemma acquire_keeps_holder:
  assumes "inv s" "holder k s = Some h"
  shows "holder k (snd (acquire k' s)) = Some h"
  using assms acquire_busy acquire_other by (cases "k = k'") simp_all

lemma holder_stable:
  "inv s \<Longrightarrow> holder k s = Some h \<Longrightarrow> Release h \<notin> set xs \<Longrightarrow>
   holder k (fold (run_lock_op acquire release) xs s) = Some h"
proof (induction xs arbitrary: s)
  case (Cons x xs)
  have "holder k (run_lock_op acquire release x s) = Some h"
    using Cons.prems by (cases x) (auto simp: acquire_keeps_holder release_holder)
  then show ?case using Cons run_inv by simp
qed simp

lemma exclusion:
  assumes "inv s" "fst (acquire k s) = Some h" "Release h \<notin> set xs"
  shows "fst (acquire k (fold (run_lock_op acquire release) xs (snd (acquire k s)))) = None"
proof -
  have "holder k s = None" using assms(1,2) acquire_busy [of s k] by (cases "holder k s") auto
  then have "holder k (snd (acquire k s)) = Some h"
    using acquire_free [OF assms(1), of k] assms(2) by auto
  with holder_stable [OF acquire_inv [OF assms(1)]] assms(3)
  have "holder k (fold (run_lock_op acquire release) xs (snd (acquire k s))) = Some h" by blast
  then show ?thesis using acquire_busy runs_inv [OF acquire_inv [OF assms(1)]] by simp
qed

lemma released_free:
  assumes "inv s" "holder k s = Some h"
  shows "\<exists>h'. fst (acquire k (release h s)) = Some h'"
proof -
  have "holder k (release h s) = None" using assms by (simp add: release_holder)
  then show ?thesis using acquire_free [OF release_inv [OF assms(1)]] by blast
qed

end

section \<open>Compare-and-set transitions\<close>

text \<open>The interface of a keyed status column changed only by conditional updates: a transition
  names the statuses it may start from and answers whether it took place. Its laws give that
  of several transitions racing for one start only one wins, and that a status only moves along
  the pairs the transitions name.\<close>

locale cas_machine =
  fixes inv :: "'s \<Rightarrow> bool"
    and status_of :: "'k \<Rightarrow> 's \<Rightarrow> 't option"
    and trans :: "'k \<Rightarrow> 't list \<Rightarrow> 't \<Rightarrow> 's \<Rightarrow> bool \<times> 's"
  assumes trans_inv: "inv s \<Longrightarrow> inv (snd (trans k fs to s))"
    and trans_ok: "inv s \<Longrightarrow> fst (trans k fs to s) \<longleftrightarrow> (\<exists>x\<in>set fs. status_of k s = Some x)"
    and trans_status: "inv s \<Longrightarrow>
      status_of j (snd (trans k fs to s)) =
        (if j = k \<and> fst (trans k fs to s) then Some to else status_of j s)"
begin

lemma one_winner:
  assumes "inv s" "fst (trans k fs to s)" "to \<notin> set fs2"
  shows "\<not> fst (trans k fs2 to2 (snd (trans k fs to s)))"
  using assms by (simp add: trans_ok [OF trans_inv] trans_status)

fun run :: "('k \<times> 't list \<times> 't) list \<Rightarrow> 's \<Rightarrow> 's" where
  "run [] s = s"
| "run ((k, fs, to) # xs) s = run xs (snd (trans k fs to s))"

lemma run_inv: "inv s \<Longrightarrow> inv (run xs s)"
  by (induction xs s rule: run.induct) (auto intro: trans_inv)

lemma run_moves:
  assumes "inv s" "status_of k s = Some x" "\<forall>(j, fs, to)\<in>set xs. \<forall>f\<in>set fs. R f to"
  shows "\<exists>y. status_of k (run xs s) = Some y \<and> R\<^sup>*\<^sup>* x y"
  using assms
proof (induction xs s arbitrary: x rule: run.induct)
  case (2 j fs to xs s)
  let ?s = "snd (trans j fs to s)"
  have "\<exists>z. status_of k ?s = Some z \<and> R\<^sup>*\<^sup>* x z"
  proof (cases "k = j \<and> fst (trans j fs to s)")
    case True
    then obtain f where "f \<in> set fs" "status_of k s = Some f" using 2 trans_ok by blast
    then have "f = x" "R f to" using 2 by auto
    then show ?thesis using True 2 by (simp add: trans_status r_into_rtranclp)
  next
    case False
    then show ?thesis using 2 by (auto simp: trans_status)
  qed
  then obtain z where z: "status_of k ?s = Some z" "R\<^sup>*\<^sup>* x z" by blast
  then obtain y where "status_of k (run xs ?s) = Some y" "R\<^sup>*\<^sup>* z y"
    using 2 trans_inv by fastforce
  with z show ?case by (auto intro: rtranclp_trans)
qed simp

end

end
