(* ===== verification/DeployRun.thy ===== *)
theory DeployRun
  imports Data Locks "HOL-Library.AList"
begin

text \<open>
  \<^verbatim>\<open>backend/deploy_run.py\<close>: normalisation of statuses, the in-process registry of
  cancellation events, and the life cycle of deployment records. The project lock is the
  UNIQUE column \<^verbatim>\<open>lock_key\<close>: a record holds the lock of its project exactly while it
  is \<^verbatim>\<open>running\<close>. \<open>now\<close> is \<^verbatim>\<open>int(time.time())\<close>, \<open>inst\<close> is
  \<^verbatim>\<open>INSTANCE_ID\<close>, \<open>ts\<close> the database's \<^verbatim>\<open>datetime('now')\<close>.
\<close>

section \<open>Normalisation\<close>

definition canon :: "string option \<Rightarrow> string" where
  "canon raw = replace_char (CHR '' '') (CHR ''_'')
     (replace_char (CHR ''-'') (CHR ''_'') (py_lower (py_strip (or_empty raw))))"

definition deploy_status_aliases :: "(string \<times> string) list" where
  "deploy_status_aliases =
    [(''ok'', ''ok''), (''success'', ''ok''), (''succeeded'', ''ok''), (''completed'', ''ok''),
     (''failed'', ''failed''), (''failure'', ''failed''), (''error'', ''failed''),
     (''running'', ''running''), (''in_progress'', ''running''),
     (''terminated'', ''terminated''), (''cancelled'', ''terminated''),
     (''canceled'', ''terminated''), (''stopped'', ''terminated''),
     (''interrupted'', ''interrupted''), (''interrupt'', ''interrupted''),
     (''partial'', ''partial'')]"

definition normalize_deploy_status :: "string option \<Rightarrow> string" where
  "normalize_deploy_status raw =
     (let value = canon raw
      in case map_of deploy_status_aliases value of
           Some s \<Rightarrow> s
         | None \<Rightarrow> str_or value ''failed'')"

definition rollback_aliases :: "(string \<times> string) list" where
  "rollback_aliases =
    [(''native'', ''native''), (''native_rollback'', ''native''),
     (''kubectl_rollback'', ''native''), (''helm_rollback'', ''native''),
     (''argocd_rollback'', ''native''), (''rollback'', ''native''),
     (''replay'', ''replay''), (''replay_rollback'', ''replay''), (''tag_rollback'', ''replay''),
     (''manual'', ''manual''), (''default'', ''manual''), ([], ''manual'')]"

definition normalize_rollback_type :: "string option \<Rightarrow> string" where
  "normalize_rollback_type raw =
     (case map_of rollback_aliases (canon raw) of Some s \<Rightarrow> s | None \<Rightarrow> ''manual'')"

definition normalize_db_status_for_query :: "string option \<Rightarrow> string" where
  "normalize_db_status_for_query status = normalize_deploy_status status"

section \<open>The registry of cancellation events\<close>

text \<open>The registry maps a deployment id to whether its event is set, in insertion order.\<close>

type_synonym registry = "(row_id \<times> bool) list"

definition register :: "row_id \<Rightarrow> registry \<Rightarrow> registry" where
  "register i m =
     (case map_of m i of
        None \<Rightarrow> AList.update i False m
      | Some s \<Rightarrow> if s then m else AList.update i False m)"

definition cancel_event :: "row_id \<Rightarrow> registry \<Rightarrow> registry" where
  "cancel_event i m = AList.update i True m"

definition is_cancelled :: "row_id \<Rightarrow> registry \<Rightarrow> bool" where
  "is_cancelled i m = (map_of m i = Some True)"

definition unregister :: "row_id \<Rightarrow> registry \<Rightarrow> registry" where
  "unregister i m = AList.delete i m"

definition active_ids :: "registry \<Rightarrow> row_id list" where
  "active_ids m = List.map fst m"

definition cancel_all :: "registry \<Rightarrow> registry" where
  "cancel_all m = List.map (\<lambda>(i, _). (i, True)) m"

text \<open>One period of the heartbeat thread: refresh the records this instance is running.\<close>

definition heartbeat :: "string \<Rightarrow> epoch \<Rightarrow> registry \<Rightarrow> dlog table \<Rightarrow> dlog table" where
  "heartbeat inst now m t =
     (if active_ids m = [] then t
      else fst (t_update
        (\<lambda>r. d_id r \<in> set (active_ids m) \<and> d_runner r = Some inst \<and> d_status r = ''running'')
        (\<lambda>r. r\<lparr>d_heartbeat := Some (pad13 now)\<rparr>) t))"

text \<open>Graceful shutdown polls the registry until it is empty or the deadline passes. The
  registry changes under it (the deployment threads unregister): \<open>m k\<close> is the registry at
  the \<open>k\<close>-th poll, \<open>n\<close> the number of polls before the deadline.\<close>

fun wait_idle :: "nat \<Rightarrow> (nat \<Rightarrow> registry) \<Rightarrow> nat \<Rightarrow> nat" where
  "wait_idle 0 m k = length (active_ids (m k))"
| "wait_idle (Suc n) m k = (if active_ids (m k) = [] then 0 else wait_idle n m (Suc k))"

definition shutdown_running_deploys ::
  "(registry \<Rightarrow> nat \<Rightarrow> registry) \<Rightarrow> nat \<Rightarrow> registry \<Rightarrow> nat" where
  "shutdown_running_deploys env polls m = wait_idle polls (env (cancel_all m)) 0"

text \<open>The checker a deployment thread polls: the in-process event, or a record that is no
  longer running because another instance wrote it. \<open>None\<close> for the table stands for a
  database that does not answer.\<close>

definition cancel_checker :: "registry \<Rightarrow> dlog table option \<Rightarrow> row_id \<Rightarrow> bool" where
  "cancel_checker m t i =
     (if is_cancelled i m then True
      else case t of
             None \<Rightarrow> False
           | Some t' \<Rightarrow> (case t_get d_id i t' of
                          None \<Rightarrow> False
                        | Some r \<Rightarrow> d_status r \<noteq> ''running''))"

section \<open>The life cycle of deployment records\<close>

text \<open>The keyword arguments shared by the two functions that insert a record.\<close>

record dlog_args =
  g_type :: string
  g_project :: string
  g_tag :: string
  g_image :: string
  g_by :: string
  g_note :: string
  g_target :: string
  g_params :: snapshot
  g_rbtype :: "string option"
  g_approval :: row_id

definition running_row :: "string \<Rightarrow> epoch \<Rightarrow> string \<Rightarrow> dlog_args \<Rightarrow> dlog" where
  "running_row inst now ts g =
     \<lparr>d_id = 0, d_project = g_project g, d_tag = g_tag g, d_image = g_image g, d_type = g_type g,
      d_target = g_target g, d_status = ''running'', d_output = [], d_by = g_by g,
      d_note = g_note g, d_duration = 0, d_stages = [], d_lock = Some (g_project g),
      d_params = g_params g, d_rbtype = normalize_rollback_type (g_rbtype g),
      d_approval = g_approval g, d_runner = Some inst, d_heartbeat = Some (pad13 now),
      d_created = ts\<rparr>"

definition pending_row :: "string \<Rightarrow> dlog_args \<Rightarrow> dlog" where
  "pending_row ts g =
     \<lparr>d_id = 0, d_project = g_project g, d_tag = g_tag g, d_image = g_image g, d_type = g_type g,
      d_target = g_target g, d_status = ''pending'', d_output = [], d_by = g_by g,
      d_note = g_note g, d_duration = 0, d_stages = [], d_lock = None,
      d_params = g_params g, d_rbtype = normalize_rollback_type (g_rbtype g),
      d_approval = g_approval g, d_runner = Some [], d_heartbeat = Some [], d_created = ts\<rparr>"

definition lock_taken :: "string \<Rightarrow> dlog table \<Rightarrow> bool" where
  "lock_taken p t = list_ex (\<lambda>r. d_lock r = Some p) (rows t)"

text \<open>INSERT of a running record; the UNIQUE index on \<^verbatim>\<open>lock_key\<close> turns a second
  one for the project into an integrity error, which becomes \<open>ValueError\<close>.\<close>

definition start_deploy_record ::
  "string \<Rightarrow> epoch \<Rightarrow> string \<Rightarrow> dlog_args \<Rightarrow> dlog table \<Rightarrow> row_id result \<times> dlog table" where
  "start_deploy_record inst now ts g t =
     (if lock_taken (g_project g) t then (Inl ValueError, t)
      else (case t_insert dlog_assign (running_row inst now ts g) t of (t', i) \<Rightarrow> (Inr i, t')))"

definition create_pending_deploy_record ::
  "string \<Rightarrow> dlog_args \<Rightarrow> dlog table \<Rightarrow> row_id \<times> dlog table" where
  "create_pending_deploy_record ts g t =
     (case t_insert dlog_assign (pending_row ts g) t of (t', i) \<Rightarrow> (i, t'))"

text \<open>SELECT the newest pending record of the approval, then the conditional UPDATE to
  running, which takes the project lock; an approval without a pending record gives \<open>0\<close>.\<close>

definition claim_pending_deploy_record ::
  "string \<Rightarrow> epoch \<Rightarrow> string \<Rightarrow> row_id \<Rightarrow> dlog table \<Rightarrow> row_id result \<times> dlog table" where
  "claim_pending_deploy_record inst now project aid t =
     (if aid = 0 then (Inr 0, t)
      else case t_last (\<lambda>r. d_approval r = aid \<and> d_status r = ''pending'') t of
        None \<Rightarrow> (Inr 0, t)
      | Some row \<Rightarrow>
          if list_ex (\<lambda>r. d_lock r = Some project \<and> d_id r \<noteq> d_id row) (rows t)
          then (Inl ValueError, t)
          else (case t_update (\<lambda>r. d_id r = d_id row \<and> d_status r = ''pending'')
                  (\<lambda>r. r\<lparr>d_status := ''running'', d_lock := Some project, d_project := project,
                       d_runner := Some inst, d_heartbeat := Some (pad13 now)\<rparr>) t of
                (t', n) \<Rightarrow> (Inr (if 0 < n then d_id row else 0), t')))"

definition reset_pending_deploy_record :: "row_id \<Rightarrow> dlog table \<Rightarrow> dlog table" where
  "reset_pending_deploy_record aid t =
     (if aid = 0 then t
      else fst (t_update (\<lambda>r. d_approval r = aid \<and> d_status r = ''running'')
                 (\<lambda>r. r\<lparr>d_status := ''pending'', d_lock := None\<rparr>) t))"

definition mark_approval_log_terminal :: "row_id \<Rightarrow> string \<Rightarrow> dlog table \<Rightarrow> dlog table" where
  "mark_approval_log_terminal aid status t =
     (if aid = 0 \<or> status \<notin> {''rejected'', ''cancelled''} then t
      else fst (t_update (\<lambda>r. d_approval r = aid \<and> d_status r = ''pending'')
                 (\<lambda>r. r\<lparr>d_status := status, d_lock := None\<rparr>) t))"

record finish_args =
  f_status :: "string option"
  f_target :: string
  f_output :: string
  f_duration :: int
  f_stages :: "stage list"
  f_note :: "string option"
  f_project :: string

definition finish_row :: "nat \<Rightarrow> finish_args \<Rightarrow> dlog \<Rightarrow> dlog" where
  "finish_row trunc f r =
     r\<lparr>d_status := normalize_deploy_status (f_status f), d_target := f_target f,
       d_output := take trunc (f_output f), d_duration := f_duration f, d_stages := f_stages f,
       d_note := (case f_note f of None \<Rightarrow> d_note r | Some n \<Rightarrow> take 512 n), d_lock := None\<rparr>"

text \<open>\<open>trunc\<close> is \<^verbatim>\<open>settings.log_truncate_chars\<close>. A cancelled thread writes its row
  unconditionally (the cancel request may already have set \<^verbatim>\<open>terminated\<close>); every other
  outcome only ends a row that is still running.\<close>

definition finish_deploy_record ::
  "nat \<Rightarrow> row_id \<Rightarrow> finish_args \<Rightarrow> dlog table \<Rightarrow> dlog table" where
  "finish_deploy_record trunc i f t =
     (let st = normalize_deploy_status (f_status f)
      in if i \<noteq> 0
         then fst (t_update (\<lambda>r. d_id r = i \<and> (st = ''terminated'' \<or> d_status r = ''running''))
                     (finish_row trunc f) t)
         else fst (t_update (\<lambda>r. d_status r = ''running'' \<and>
                       (f_project f = [] \<or> d_project r = f_project f))
                     (finish_row trunc f) t))"

definition find_running_deploy :: "string \<Rightarrow> dlog table \<Rightarrow> dlog option" where
  "find_running_deploy project t =
     t_last (\<lambda>r. d_project r = project \<and> d_status r = ''running'') t"

text \<open>Cancel: set the in-process event, then the conditional UPDATE. The flag says whether a
  running record was there.\<close>

definition mark_deploy_cancelled ::
  "row_id \<Rightarrow> registry \<Rightarrow> dlog table \<Rightarrow> bool \<times> registry \<times> dlog table" where
  "mark_deploy_cancelled i m t =
     (case t_update (\<lambda>r. d_id r = i \<and> d_status r = ''running'')
             (\<lambda>r. r\<lparr>d_status := ''terminated'', d_lock := None\<rparr>) t of
        (t', n) \<Rightarrow> (0 < n, cancel_event i m, t'))"

definition is_stale :: "string \<Rightarrow> dlog \<Rightarrow> bool" where
  "is_stale before r =
     (d_status r = ''running'' \<and>
      (d_runner r = None \<or> d_runner r = Some [] \<or>
       (case d_heartbeat r of None \<Rightarrow> True | Some h \<Rightarrow> h = [] \<or> h < before)))"

definition recover_stale_running :: "epoch \<Rightarrow> int \<Rightarrow> dlog table \<Rightarrow> dlog table \<times> nat" where
  "recover_stale_running now stale t =
     t_update (is_stale (pad13 (now - stale)))
       (\<lambda>r. r\<lparr>d_status := ''interrupted'', d_lock := None\<rparr>) t"

text \<open>The default of the source: a record without a heartbeat for 120 seconds is stale.\<close>

definition default_stale :: int where
  "default_stale = 120"

section \<open>The lock invariant\<close>

definition lock_inv :: "dlog table \<Rightarrow> bool" where
  "lock_inv t \<longleftrightarrow> wf_table d_id t \<and> uniq_ok d_id d_lock t \<and>
     (\<forall>r\<in>set (rows t). d_lock r = (if d_status r = ''running'' then Some (d_project r) else None))"

text \<open>Who holds the lock of a project: the id of its running record.\<close>

definition holder :: "string \<Rightarrow> dlog table \<Rightarrow> row_id option" where
  "holder p t = map_option d_id (find_running_deploy p t)"

lemma lock_invD:
  assumes "lock_inv t"
  shows "wf_table d_id t" "uniq_ok d_id d_lock t"
    "r \<in> set (rows t) \<Longrightarrow> d_lock r = (if d_status r = ''running'' then Some (d_project r) else None)"
  using assms by (auto simp: lock_inv_def)

lemma lock_inv_empty [simp]: "lock_inv empty_table"
  by (simp add: lock_inv_def) (simp add: empty_table_def)

text \<open>An update that ends rows releases their locks; one that leaves id, project, status and
  lock alone changes nothing the invariant looks at.\<close>

lemma lock_inv_release:
  assumes "\<And>r. d_id (f r) = d_id r" "\<And>r. d_lock (f r) = None"
    "\<And>r. P r \<Longrightarrow> d_status (f r) \<noteq> ''running''" "lock_inv t"
  shows "lock_inv (fst (t_update P f t))"
  unfolding lock_inv_def
proof (intro conjI)
  show "wf_table d_id (fst (t_update P f t))"
    using assms(1) lock_invD(1) [OF assms(4)] by (rule dl.wf_update)
  show "uniq_ok d_id d_lock (fst (t_update P f t))"
    using assms(1,2) lock_invD(2) [OF assms(4)] by (intro dl.uniq_clear) auto
  show "\<forall>r\<in>set (rows (fst (t_update P f t))).
      d_lock r = (if d_status r = ''running'' then Some (d_project r) else None)"
    using assms(2,3) lock_invD(3) [OF assms(4)] by auto
qed

lemma lock_inv_frame:
  assumes "\<And>r. d_id (f r) = d_id r" "\<And>r. d_lock (f r) = d_lock r"
    "\<And>r. d_status (f r) = d_status r" "\<And>r. d_project (f r) = d_project r" "lock_inv t"
  shows "lock_inv (fst (t_update P f t))"
  unfolding lock_inv_def
proof (intro conjI)
  show "wf_table d_id (fst (t_update P f t))"
    using assms(1) lock_invD(1) [OF assms(5)] by (rule dl.wf_update)
  show "uniq_ok d_id d_lock (fst (t_update P f t))"
    using assms(1,2) lock_invD(2) [OF assms(5)] by (intro dl.uniq_clear) auto
  show "\<forall>r\<in>set (rows (fst (t_update P f t))).
      d_lock r = (if d_status r = ''running'' then Some (d_project r) else None)"
    using assms(2-4) lock_invD(3) [OF assms(5)] by auto
qed

lemma lock_taken_iff: "lock_taken p t \<longleftrightarrow> (\<exists>r\<in>set (rows t). d_lock r = Some p)"
  by (auto simp: lock_taken_def list_ex_iff)

lemma lock_holder:
  assumes "lock_inv t"
  shows "lock_taken p t \<longleftrightarrow> holder p t \<noteq> None"
  using lock_invD(3) [OF assms]
  by (auto simp: lock_taken_iff holder_def find_running_deploy_def t_last_None_iff split: if_splits)

lemma running_unique:
  assumes "lock_inv t" "r \<in> set (rows t)" "s \<in> set (rows t)"
    "d_status r = ''running''" "d_status s = ''running''" "d_project r = d_project s"
  shows "r = s"
proof -
  have "d_lock r = d_lock s" "d_lock r \<noteq> None" using assms lock_invD(3) [OF assms(1)] by auto
  then have "d_id r = d_id s" using lock_invD(2) [OF assms(1)] assms(2,3) unfolding uniq_ok_def by blast
  then show ?thesis using dl.key_inj lock_invD(1) [OF assms(1)] assms(2,3) by blast
qed

lemma holder_iff:
  assumes "lock_inv t"
  shows "holder p t = Some i \<longleftrightarrow>
    (\<exists>r\<in>set (rows t). d_id r = i \<and> d_project r = p \<and> d_status r = ''running'')"
proof
  assume "holder p t = Some i"
  then show "\<exists>r\<in>set (rows t). d_id r = i \<and> d_project r = p \<and> d_status r = ''running''"
    by (auto simp: holder_def find_running_deploy_def dest: t_last_SomeD)
next
  assume "\<exists>r\<in>set (rows t). d_id r = i \<and> d_project r = p \<and> d_status r = ''running''"
  then obtain r where r: "r \<in> set (rows t)" "d_id r = i" "d_project r = p" "d_status r = ''running''"
    by blast
  then obtain s where s: "find_running_deploy p t = Some s"
    using t_last_None_iff [of "\<lambda>r. d_project r = p \<and> d_status r = ''running''" t]
    by (fastforce simp: find_running_deploy_def)
  then have "s \<in> set (rows t)" "d_project s = p" "d_status s = ''running''"
    by (auto simp: find_running_deploy_def dest: t_last_SomeD)
  then have "s = r" using running_unique [OF assms] r by simp
  then show "holder p t = Some i" using s r by (simp add: holder_def)
qed

lemma holder_get:
  assumes "lock_inv t"
  shows "holder p t = Some j \<longleftrightarrow>
    (\<exists>r. t_get d_id j t = Some r \<and> d_project r = p \<and> d_status r = ''running'')"
  using holder_iff [OF assms] dl.get_eq_iff [OF lock_invD(1) [OF assms]] by blast

section \<open>Every operation preserves the lock invariant\<close>

lemma start_inv [inv_intros]:
  assumes "lock_inv t"
  shows "lock_inv (snd (start_deploy_record inst now ts g t))"
proof (cases "lock_taken (g_project g) t")
  case False
  let ?t = "fst (t_insert dlog_assign (running_row inst now ts g) t)"
  have "wf_table d_id ?t" using lock_invD(1) [OF assms] by (rule dl.wf_insert)
  moreover have "uniq_ok d_id d_lock ?t"
    using lock_invD(2) [OF assms] False
    by (intro dl.uniq_insert) (auto simp: lock_taken_iff running_row_def)
  moreover have "\<forall>r\<in>set (rows ?t).
      d_lock r = (if d_status r = ''running'' then Some (d_project r) else None)"
    using lock_invD(3) [OF assms] by (auto simp: running_row_def dlog_assign_def)
  ultimately have "lock_inv ?t" by (simp add: lock_inv_def)
  then show ?thesis using False by (simp add: start_deploy_record_def split_beta)
qed (use assms in \<open>simp add: start_deploy_record_def\<close>)

lemma create_pending_inv [inv_intros]:
  assumes "lock_inv t"
  shows "lock_inv (snd (create_pending_deploy_record ts g t))"
proof -
  let ?t = "fst (t_insert dlog_assign (pending_row ts g) t)"
  have "wf_table d_id ?t" using lock_invD(1) [OF assms] by (rule dl.wf_insert)
  moreover have "uniq_ok d_id d_lock ?t"
    using lock_invD(2) [OF assms] by (intro dl.uniq_insert) (auto simp: pending_row_def)
  moreover have "\<forall>r\<in>set (rows ?t).
      d_lock r = (if d_status r = ''running'' then Some (d_project r) else None)"
    using lock_invD(3) [OF assms] by (auto simp: pending_row_def dlog_assign_def)
  ultimately have "lock_inv ?t" by (simp add: lock_inv_def)
  then show ?thesis by (simp add: create_pending_deploy_record_def split_beta)
qed

lemma claim_update_inv:
  assumes "lock_inv t" "row \<in> set (rows t)"
    and free: "\<forall>r\<in>set (rows t). d_lock r = Some p \<longrightarrow> d_id r = d_id row"
    and f: "f = (\<lambda>r. r\<lparr>d_status := ''running'', d_lock := Some p, d_project := p,
                d_runner := Some inst, d_heartbeat := Some (pad13 now)\<rparr>)"
  shows "lock_inv (fst (t_update (\<lambda>r. d_id r = d_id row \<and> d_status r = ''pending'') f t))"
proof -
  let ?P = "\<lambda>r. d_id r = d_id row \<and> d_status r = ''pending''"
  have "wf_table d_id (fst (t_update ?P f t))"
    using lock_invD(1) [OF assms(1)] by (intro dl.wf_update) (simp_all add: f)
  moreover have "uniq_ok d_id d_lock (fst (t_update ?P f t))"
    using lock_invD(1,2) [OF assms(1)] free
    by (intro dl.uniq_set_one [where i = "d_id row" and k = p]) (auto simp: f)
  moreover have "\<forall>r\<in>set (rows (fst (t_update ?P f t))).
      d_lock r = (if d_status r = ''running'' then Some (d_project r) else None)"
    using lock_invD(3) [OF assms(1)] by (auto simp: f)
  ultimately show ?thesis by (simp add: lock_inv_def)
qed

lemma claim_inv [inv_intros]:
  assumes "lock_inv t"
  shows "lock_inv (snd (claim_pending_deploy_record inst now p aid t))"
proof -
  have "lock_inv (fst (t_update (\<lambda>r. d_id r = d_id row \<and> d_status r = ''pending'')
          (\<lambda>r. r\<lparr>d_status := ''running'', d_lock := Some p, d_project := p,
                d_runner := Some inst, d_heartbeat := Some (pad13 now)\<rparr>) t))"
    if "t_last (\<lambda>r. d_approval r = aid \<and> d_status r = ''pending'') t = Some row"
      "\<not> list_ex (\<lambda>r. d_lock r = Some p \<and> d_id r \<noteq> d_id row) (rows t)" for row
    using t_last_SomeD [OF that(1)] that(2)
    by (intro claim_update_inv [OF assms _ _ refl]) (auto simp: list_ex_iff)
  then show ?thesis using assms
    by (auto simp: claim_pending_deploy_record_def split_beta split: option.splits)
qed

lemma reset_pending_inv [inv_intros]: "lock_inv t \<Longrightarrow> lock_inv (reset_pending_deploy_record aid t)"
  by (simp add: reset_pending_deploy_record_def lock_inv_release)

lemma mark_terminal_inv [inv_intros]:
  "lock_inv t \<Longrightarrow> lock_inv (mark_approval_log_terminal aid st t)"
  by (auto simp: mark_approval_log_terminal_def intro!: lock_inv_release)

lemma finish_inv [inv_intros]:
  assumes "lock_inv t" "normalize_deploy_status (f_status f) \<noteq> ''running''"
  shows "lock_inv (finish_deploy_record trunc i f t)"
  using assms
  by (auto simp: finish_deploy_record_def Let_def finish_row_def intro!: lock_inv_release)

lemma mark_cancelled_inv [inv_intros]:
  "lock_inv t \<Longrightarrow> lock_inv (snd (snd (mark_deploy_cancelled i m t)))"
  by (auto simp: mark_deploy_cancelled_def split_beta intro!: lock_inv_release)

lemma recover_stale_inv [inv_intros]: "lock_inv t \<Longrightarrow> lock_inv (fst (recover_stale_running now s t))"
  by (auto simp: recover_stale_running_def intro!: lock_inv_release)

lemma heartbeat_inv [inv_intros]: "lock_inv t \<Longrightarrow> lock_inv (heartbeat inst now m t)"
  by (auto simp: heartbeat_def intro!: lock_inv_frame)

section \<open>The project lock as an exclusive lock\<close>

text \<open>Releasing a lock ends its record; the argument list is the one a successful deployment
  passes.\<close>

definition acquire_project ::
  "string \<Rightarrow> epoch \<Rightarrow> string \<Rightarrow> dlog_args \<Rightarrow> string \<Rightarrow> dlog table \<Rightarrow> row_id option \<times> dlog table" where
  "acquire_project inst now ts g p t =
     (case start_deploy_record inst now ts (g\<lparr>g_project := p\<rparr>) t of
        (Inl _, t') \<Rightarrow> (None, t')
      | (Inr i, t') \<Rightarrow> (Some i, t'))"

definition finish_ok :: "finish_args \<Rightarrow> finish_args" where
  "finish_ok f = f\<lparr>f_status := Some ''ok''\<rparr>"

definition release_project :: "nat \<Rightarrow> finish_args \<Rightarrow> row_id \<Rightarrow> dlog table \<Rightarrow> dlog table" where
  "release_project trunc f i t = (if i = 0 then t else finish_deploy_record trunc i (finish_ok f) t)"

lemma normalize_ok [simp]: "normalize_deploy_status (Some ''ok'') = ''ok''"
  by code_simp

lemma find_running_iff:
  assumes "lock_inv t"
  shows "find_running_deploy p t = Some r \<longleftrightarrow>
    r \<in> set (rows t) \<and> d_project r = p \<and> d_status r = ''running''"
proof
  assume r: "r \<in> set (rows t) \<and> d_project r = p \<and> d_status r = ''running''"
  then obtain s where s: "find_running_deploy p t = Some s"
    using holder_iff [OF assms, of p "d_id r"] by (auto simp: holder_def)
  then have "s \<in> set (rows t)" "d_project s = p" "d_status s = ''running''"
    by (auto simp: find_running_deploy_def dest: t_last_SomeD)
  with r s show "find_running_deploy p t = Some r" using running_unique [OF assms] by simp
qed (auto simp: find_running_deploy_def dest: t_last_SomeD)

lemma find_running_cong:
  assumes "lock_inv t" "lock_inv t'"
    "\<And>r. r \<in> set (rows t) \<and> d_project r = p \<and> d_status r = ''running'' \<longleftrightarrow>
       r \<in> set (rows t') \<and> d_project r = p \<and> d_status r = ''running''"
  shows "find_running_deploy p t = find_running_deploy p t'"
  using find_running_iff [OF assms(1), of p] find_running_iff [OF assms(2), of p] assms(3)
  by (metis not_Some_eq)

text \<open>Ending a set of rows frees exactly the locks they held.\<close>

lemma find_running_release:
  assumes "\<And>r. d_id (f r) = d_id r" "\<And>r. d_lock (f r) = None"
    "\<And>r. P r \<Longrightarrow> d_status (f r) \<noteq> ''running''" "lock_inv t"
  shows "find_running_deploy p (fst (t_update P f t)) =
    (case find_running_deploy p t of None \<Rightarrow> None | Some r \<Rightarrow> if P r then None else Some r)"
proof -
  let ?t = "fst (t_update P f t)"
  have inv: "lock_inv ?t" using assms by (intro lock_inv_release)
  have mem: "r \<in> set (rows ?t) \<and> d_project r = p \<and> d_status r = ''running'' \<longleftrightarrow>
      find_running_deploy p t = Some r \<and> \<not> P r" for r
    using assms(3) by (auto simp: find_running_iff [OF assms(4)])
  show ?thesis
  proof (cases "find_running_deploy p ?t")
    case None
    then show ?thesis using mem find_running_iff [OF inv, of p] by (auto split: option.splits)
  next
    case (Some r)
    then show ?thesis using mem find_running_iff [OF inv, of p] by (auto split: option.splits)
  qed
qed

lemma find_running_start:
  assumes "lock_inv t" "\<not> lock_taken (g_project g) t"
  shows "find_running_deploy p (snd (start_deploy_record inst now ts g t)) =
    (if p = g_project g then Some (dlog_assign (next_id t) (running_row inst now ts g))
     else find_running_deploy p t)"
proof -
  let ?t = "snd (start_deploy_record inst now ts g t)"
  have inv: "lock_inv ?t" using assms(1) by (rule start_inv)
  have rows: "rows ?t = rows t @ [dlog_assign (next_id t) (running_row inst now ts g)]"
    using assms(2) by (simp add: start_deploy_record_def split_beta)
  show ?thesis
  proof (cases "p = g_project g")
    case True
    then show ?thesis using rows
      by (simp add: find_running_iff [OF inv]) (simp add: dlog_assign_def running_row_def)
  next
    case False
    then have "find_running_deploy p t = find_running_deploy p ?t"
      using rows by (intro find_running_cong [OF assms(1) inv])
        (auto simp: dlog_assign_def running_row_def)
    then show ?thesis using False by simp
  qed
qed

lemma start_result:
  "fst (start_deploy_record inst now ts g t) =
     (if lock_taken (g_project g) t then Inl ValueError else Inr (next_id t))"
  by (simp add: start_deploy_record_def split_beta)

lemma start_busy: "lock_taken (g_project g) t \<Longrightarrow> start_deploy_record inst now ts g t = (Inl ValueError, t)"
  by (simp add: start_deploy_record_def)

lemma id_pos: "lock_inv t \<Longrightarrow> r \<in> set (rows t) \<Longrightarrow> 0 < d_id r"
  by (auto simp: lock_inv_def wf_table_def)

lemma release_project_find:
  assumes "lock_inv t"
  shows "find_running_deploy p (release_project trunc f i t) =
    (case find_running_deploy p t of None \<Rightarrow> None | Some r \<Rightarrow> if d_id r = i then None else Some r)"
proof (cases "i = 0")
  case True
  have "d_id r \<noteq> 0" if "find_running_deploy p t = Some r" for r
    using id_pos [OF assms] that by (auto simp: find_running_iff [OF assms])
  with True show ?thesis by (auto simp: release_project_def split: option.splits)
next
  case False
  let ?P = "\<lambda>r. d_id r = i \<and> d_status r = ''running''"
  have "find_running_deploy p (fst (t_update ?P (finish_row trunc (finish_ok f)) t)) =
    (case find_running_deploy p t of None \<Rightarrow> None | Some r \<Rightarrow> if ?P r then None else Some r)"
    by (intro find_running_release assms) (simp_all add: finish_row_def finish_ok_def)
  moreover have "release_project trunc f i t = fst (t_update ?P (finish_row trunc (finish_ok f)) t)"
    using False by (simp add: release_project_def finish_deploy_record_def finish_ok_def Let_def)
  moreover have "d_status r = ''running''" if "find_running_deploy p t = Some r" for r
    using that find_running_iff [OF assms] by blast
  ultimately show ?thesis by (cases "find_running_deploy p t") auto
qed

interpretation pl: exclusive_lock lock_inv holder "acquire_project inst now ts g" "release_project trunc f"
  for inst now ts g trunc f
proof unfold_locales
  fix s :: "dlog table" and k k' :: string and h :: row_id
  let ?g = "g\<lparr>g_project := k\<rparr>"
  assume inv: "lock_inv s"
  show "lock_inv (snd (acquire_project inst now ts g k s))"
    using start_inv [OF inv, of inst now ts ?g]
    by (auto simp: acquire_project_def split: prod.splits sum.splits)
  show "lock_inv (release_project trunc f h s)"
    using inv by (auto simp: release_project_def finish_ok_def intro!: finish_inv)
  show "holder k (release_project trunc f h s) = (if holder k s = Some h then None else holder k s)"
    by (auto simp: holder_def release_project_find [OF inv] split: option.splits)
  show "\<exists>h. fst (acquire_project inst now ts g k s) = Some h \<and>
      holder k (snd (acquire_project inst now ts g k s)) = Some h" if "holder k s = None"
  proof -
    have free: "\<not> lock_taken (g_project ?g) s" using that lock_holder [OF inv] by simp
    from start_result [of inst now ts ?g s] free
    obtain t' where st: "start_deploy_record inst now ts ?g s = (Inr (next_id s), t')"
      by (cases "start_deploy_record inst now ts ?g s") auto
    with find_running_start [OF inv free, of k inst now ts]
    have "holder k t' = Some (next_id s)" by (simp add: holder_def dlog_assign_def)
    with st show ?thesis by (simp add: acquire_project_def)
  qed
  show "acquire_project inst now ts g k s = (None, s)" if "holder k s = Some h"
    using that lock_holder [OF inv] by (simp add: acquire_project_def start_busy)
  show "holder k' (snd (acquire_project inst now ts g k s)) = holder k' s" if "k' \<noteq> k"
  proof (cases "lock_taken k s")
    case True
    then show ?thesis by (simp add: acquire_project_def start_busy)
  next
    case False
    then have "find_running_deploy k' (snd (start_deploy_record inst now ts ?g s)) = find_running_deploy k' s"
      using find_running_start [OF inv, of ?g k'] that by simp
    then show ?thesis
      by (auto simp: acquire_project_def holder_def split: prod.splits sum.splits)
  qed
qed

section \<open>Facts about normalisation\<close>

lemma sep_not_space: "\<not> is_space c \<Longrightarrow>
    \<not> is_space (if (if c = CHR ''-'' then CHR ''_'' else c) = CHR '' '' then CHR ''_''
      else if c = CHR ''-'' then CHR ''_'' else c)"
  by (auto simp: is_space_def Let_def)

lemma canon_idem [simp]: "canon (Some (canon raw)) = canon raw"
proof -
  let ?h = "\<lambda>c. (if (if c = CHR ''-'' then CHR ''_'' else c) = CHR '' '' then CHR ''_''
      else if c = CHR ''-'' then CHR ''_'' else c)"
  have c: "canon (Some x) = List.map ?h (py_strip (py_lower x))" for x
    by (simp add: canon_def replace_char_def comp_def)
  obtain y where y: "canon raw = List.map ?h (py_strip (py_lower y))"
    using c [of "or_empty raw"] by (auto simp: canon_def)
  have low: "lower_char (?h (lower_char d)) = ?h (lower_char d)" for d
    using lower_char_idem [of d] by (auto simp: lower_char_def is_upper_def)
  have "py_lower (canon raw) = canon raw"
    unfolding y py_strip_lower by (simp add: py_lower_def low)
  moreover have "py_strip (canon raw) = canon raw"
    unfolding y using sep_not_space by (rule py_strip_map_fix)
  moreover have "List.map ?h (canon raw) = canon raw"
    unfolding y by (auto simp: comp_def)
  ultimately show ?thesis by (simp add: c)
qed

lemma alias_values: "map_of deploy_status_aliases v = Some s \<Longrightarrow>
    canon (Some s) = s \<and> map_of deploy_status_aliases s = Some s"
proof -
  have "list_all (\<lambda>(_, s). canon (Some s) = s \<and> map_of deploy_status_aliases s = Some s) deploy_status_aliases"
    by code_simp
  moreover assume "map_of deploy_status_aliases v = Some s"
  ultimately show ?thesis by (auto simp: list_all_iff dest!: map_of_SomeD)
qed

lemma canon_failed: "normalize_deploy_status (Some ''failed'') = ''failed''"
  by code_simp

section \<open>Properties\<close>

text \<open>Normalising a deployment status twice is normalising it once, \<^verbatim>\<open>pending\<close> is its own
  normal form (never an alias of running), and every spelling of success and cancellation
  listed in the source is mapped to \<^verbatim>\<open>ok\<close> and \<^verbatim>\<open>terminated\<close>.\<close>

theorem normalize_status_idempotent:
  "normalize_deploy_status (Some (normalize_deploy_status raw)) = normalize_deploy_status raw
   \<and> normalize_deploy_status (Some '' Pending '') = ''pending''
   \<and> normalize_deploy_status (Some ''In-Progress'') = ''running''
   \<and> normalize_deploy_status (Some ''SUCCEEDED'') = ''ok''
   \<and> normalize_deploy_status (Some ''canceled'') = ''terminated''
   \<and> normalize_deploy_status None = ''failed''"
proof -
  have "normalize_deploy_status (Some (normalize_deploy_status raw)) = normalize_deploy_status raw"
  proof (cases "map_of deploy_status_aliases (canon raw)")
    case (Some s)
    then show ?thesis using alias_values [OF Some] by (simp add: normalize_deploy_status_def)
  next
    case None
    then have n: "normalize_deploy_status raw = (if canon raw = [] then ''failed'' else canon raw)"
      by (simp add: normalize_deploy_status_def str_or_def)
    show ?thesis
    proof (cases "canon raw = []")
      case True
      then show ?thesis using n canon_failed by simp
    next
      case False
      then have "normalize_deploy_status raw = canon raw" using n by simp
      moreover have "normalize_deploy_status (Some (canon raw)) = canon raw"
        using None False by (simp add: normalize_deploy_status_def str_or_def)
      ultimately show ?thesis by (simp only:)
    qed
  qed
  moreover have "normalize_deploy_status (Some '' Pending '') = ''pending''
   \<and> normalize_deploy_status (Some ''In-Progress'') = ''running''
   \<and> normalize_deploy_status (Some ''SUCCEEDED'') = ''ok''
   \<and> normalize_deploy_status (Some ''canceled'') = ''terminated''
   \<and> normalize_deploy_status None = ''failed''"
    by code_simp
  ultimately show ?thesis by blast
qed

text \<open>The project lock excludes: once a deployment of a project has been started, every
  further start for that project fails, whatever other deployments start or finish in
  between, until that deployment's own record is finished.\<close>

theorem project_lock_exclusive:
  assumes "lock_inv t" "fst (acquire_project inst now ts g p t) = Some i" "Release i \<notin> set ops"
  shows "fst (acquire_project inst now ts g p
    (fold (run_lock_op (acquire_project inst now ts g) (release_project trunc f)) ops
      (snd (acquire_project inst now ts g p t)))) = None"
  using assms by (rule pl.exclusion)

definition sample_args :: dlog_args where
  "sample_args = \<lparr>g_type = ''ssh'', g_project = ''web'', g_tag = ''v1'', g_image = ''r/web:v1'',
     g_by = ''bob'', g_note = [], g_target = [], g_params = SEmpty, g_rbtype = None, g_approval = 0\<rparr>"

definition sample_finish :: finish_args where
  "sample_finish = \<lparr>f_status = Some ''ok'', f_target = [], f_output = [], f_duration = 0,
     f_stages = [], f_note = None, f_project = ''web''\<rparr>"

theorem project_lock_exclusive_witness:
  "fst (acquire_project ''i'' 5 [] sample_args ''web''
    (fold (run_lock_op (acquire_project ''i'' 5 [] sample_args) (release_project 9 sample_finish))
      [Acquire ''api'', Release 2] (snd (acquire_project ''i'' 5 [] sample_args ''web'' empty_table)))) = None"
proof -
  have "fst (acquire_project ''i'' 5 [] sample_args ''web'' empty_table) = Some 1"
    by (simp add: acquire_project_def start_deploy_record_def lock_taken_def empty_table_def t_insert_def)
  then show ?thesis by (rule project_lock_exclusive [OF lock_inv_empty]) (simp add: eval_nat_numeral)
qed

definition sample_running :: dlog where
  "sample_running = (running_row ''a'' 1000 [] sample_args)\<lparr>d_id := 1\<rparr>"

definition sample_table :: "dlog table" where
  "sample_table =
     \<lparr>rows = [sample_running,
              (pending_row [] sample_args)\<lparr>d_id := 2, d_project := ''api'', d_approval := 7\<rparr>],
      next_id = 3\<rparr>"

lemmas sample_simps = sample_table_def sample_running_def running_row_def pending_row_def sample_args_def

lemma sample_table_inv: "lock_inv sample_table"
  by (auto simp: lock_inv_def wf_table_def uniq_ok_def sample_simps)

lemma sample_find: "find_running_deploy ''web'' sample_table = Some sample_running"
  unfolding find_running_iff [OF sample_table_inv] by (simp add: sample_simps)

lemma claim_hit:
  assumes "claim_pending_deploy_record inst now p aid t = (Inr i, t')" "i \<noteq> 0"
  obtains row where "aid \<noteq> 0" "t_last (\<lambda>r. d_approval r = aid \<and> d_status r = ''pending'') t = Some row"
    "i = d_id row" "\<not> list_ex (\<lambda>r. d_lock r = Some p \<and> d_id r \<noteq> d_id row) (rows t)"
    "t' = fst (t_update (\<lambda>r. d_id r = d_id row \<and> d_status r = ''pending'')
            (\<lambda>r. r\<lparr>d_status := ''running'', d_lock := Some p, d_project := p,
                 d_runner := Some inst, d_heartbeat := Some (pad13 now)\<rparr>) t)"
  using assms
  by (auto simp: claim_pending_deploy_record_def split_beta split: if_splits option.splits)

lemma claim_facts:
  assumes "lock_inv t" "claim_pending_deploy_record inst now p aid t = (Inr i, t')" "i \<noteq> 0"
  shows "\<exists>r\<in>set (rows t). d_id r = i \<and> d_approval r = aid \<and> d_status r = ''pending''
    \<and> (\<forall>s\<in>set (rows t). d_approval s = aid \<and> d_status s = ''pending'' \<longrightarrow> d_id s \<le> i)
    \<and> holder p t = None \<and> holder p t' = Some i
    \<and> (\<forall>j. j \<noteq> i \<longrightarrow> t_get d_id j t' = t_get d_id j t)"
proof -
  obtain row where row: "t_last (\<lambda>r. d_approval r = aid \<and> d_status r = ''pending'') t = Some row"
    and i: "i = d_id row" and free: "\<not> list_ex (\<lambda>r. d_lock r = Some p \<and> d_id r \<noteq> d_id row) (rows t)"
    and t': "t' = fst (t_update (\<lambda>r. d_id r = d_id row \<and> d_status r = ''pending'')
            (\<lambda>r. r\<lparr>d_status := ''running'', d_lock := Some p, d_project := p,
                 d_runner := Some inst, d_heartbeat := Some (pad13 now)\<rparr>) t)"
    using assms(2,3) by (rule claim_hit)
  have mem: "row \<in> set (rows t)" "d_approval row = aid" "d_status row = ''pending''"
    using t_last_SomeD [OF row] by auto
  have inv': "lock_inv t'" using claim_inv [OF assms(1), of inst now p aid] assms(2) by simp
  have "d_lock row = None" using lock_invD(3) [OF assms(1) mem(1)] mem(3) by simp
  then have "\<not> lock_taken p t" using free lock_invD(1) [OF assms(1)] dl.key_inj mem(1)
    by (fastforce simp: lock_taken_iff list_ex_iff)
  then have "holder p t = None" using lock_holder [OF assms(1)] by blast
  moreover have "holder p t' = Some i"
  proof -
    have "row\<lparr>d_status := ''running'', d_lock := Some p, d_project := p, d_runner := Some inst,
        d_heartbeat := Some (pad13 now)\<rparr> \<in> set (rows t')"
      unfolding t' using mem by (auto simp: image_iff intro!: bexI [of _ row])
    then show ?thesis unfolding holder_iff [OF inv'] i by (rule bexI [rotated]) simp
  qed
  moreover have "t_get d_id j t' = t_get d_id j t" if "j \<noteq> i" for j
    unfolding t' using that i by (cases "t_get d_id j t") (auto simp: dl.get_update dest: t_get_SomeD)
  moreover have "\<forall>s\<in>set (rows t). d_approval s = aid \<and> d_status s = ''pending'' \<longrightarrow> d_id s \<le> i"
    using dl.last_greatest [OF lock_invD(1) [OF assms(1)] row] i by auto
  ultimately show ?thesis using mem i by blast
qed

text \<open>Claiming the record of an approval takes the newest pending record of that approval
  and nothing else: it was pending, the project was free before, afterwards it holds the
  project lock, and every other record is as it was.\<close>

theorem claim_takes_newest_pending:
  assumes "lock_inv t" "claim_pending_deploy_record inst now p aid t = (Inr i, t')" "i \<noteq> 0"
  shows "\<exists>r\<in>set (rows t). d_id r = i \<and> d_approval r = aid \<and> d_status r = ''pending''
    \<and> (\<forall>s\<in>set (rows t). d_approval s = aid \<and> d_status s = ''pending'' \<longrightarrow> d_id s \<le> i)
    \<and> holder p t = None \<and> holder p t' = Some i
    \<and> (\<forall>j. j \<noteq> i \<longrightarrow> t_get d_id j t' = t_get d_id j t)"
  using assms by (rule claim_facts)

theorem claim_takes_newest_pending_witness:
  "holder ''api'' (snd (claim_pending_deploy_record ''i'' 9 ''api'' 7 sample_table)) = Some 2"
proof -
  have "claim_pending_deploy_record ''i'' 9 ''api'' 7 sample_table =
      (Inr 2, snd (claim_pending_deploy_record ''i'' 9 ''api'' 7 sample_table))"
    by (simp add: claim_pending_deploy_record_def sample_simps t_last_def t_update_def)
  from claim_takes_newest_pending [OF sample_table_inv this] show ?thesis by auto
qed

text \<open>C16. A cancellation is not overwritten: once a running record has been marked cancelled
  (by any instance), its project is free again, the deployment thread's checker reports the
  cancellation even without the in-process signal, and finishing the record with any outcome
  other than \<^verbatim>\<open>terminated\<close> changes nothing.\<close>

theorem cancel_wins:
  assumes "lock_inv t" "find_running_deploy p t = Some r"
    and "mark_deploy_cancelled (d_id r) m t = (ok, m', t')"
    and "normalize_deploy_status (f_status f) \<noteq> ''terminated''"
  shows "ok \<and> holder p t' = None \<and> cancel_checker m0 (Some t') (d_id r)
    \<and> finish_deploy_record trunc (d_id r) f t' = t'"
proof -
  let ?P = "\<lambda>s. d_id s = d_id r \<and> d_status s = ''running''"
  let ?f = "\<lambda>s. s\<lparr>d_status := ''terminated'', d_lock := None\<rparr>"
  have mem: "r \<in> set (rows t)" "d_project r = p" "d_status r = ''running''"
    using assms(2) find_running_iff [OF assms(1)] by auto
  have get: "t_get d_id (d_id r) t = Some r"
    using dl.get_eq_iff [OF lock_invD(1) [OF assms(1)]] mem(1) by simp
  have t': "t' = fst (t_update ?P ?f t)" and ok: "ok = (0 < snd (t_update ?P ?f t))"
    using assms(3) by (simp_all add: mark_deploy_cancelled_def split_beta)
  have inv': "lock_inv t'" using mark_cancelled_inv [OF assms(1), of "d_id r" m] assms(3) by simp
  have "find_running_deploy p t' = None"
    unfolding t' using find_running_release [OF _ _ _ assms(1), of ?f ?P p] assms(2) mem(3) by simp
  moreover have get': "t_get d_id (d_id r) t' = Some (?f r)"
    unfolding t' using get mem(3) by (simp add: dl.get_update)
  moreover have "ok" using ok dl.count_by_key [OF lock_invD(1) [OF assms(1)]] get mem(3) by simp
  moreover have "finish_deploy_record trunc (d_id r) f t' = t'"
  proof -
    have "snd (t_update (\<lambda>s. d_id s = d_id r \<and> d_status s = ''running'') (finish_row trunc f) t') = 0"
      using dl.count_by_key [OF lock_invD(1) [OF inv'], of "d_id r" "\<lambda>s. d_status s = ''running''"] get' by simp
    then show ?thesis using update_zero_id id_pos [OF assms(1) mem(1)] assms(4)
      by (simp add: finish_deploy_record_def Let_def)
  qed
  ultimately show ?thesis by (simp add: holder_def cancel_checker_def)
qed

theorem cancel_wins_witness:
  "cancel_checker [] (Some (snd (snd (mark_deploy_cancelled 1 [] sample_table)))) 1"
proof -
  have "mark_deploy_cancelled (d_id sample_running) [] sample_table =
    (fst (mark_deploy_cancelled 1 [] sample_table), fst (snd (mark_deploy_cancelled 1 [] sample_table)),
     snd (snd (mark_deploy_cancelled 1 [] sample_table)))"
    by (simp add: sample_running_def)
  from cancel_wins [OF sample_table_inv sample_find this, of sample_finish] show ?thesis
    by (simp add: sample_finish_def) (simp add: sample_running_def)
qed

text \<open>Recovery of stale records ends exactly the dead: a running record with an instance
  and a heartbeat \<open>hb\<close> loses its lock when \<open>hb\<close> is more than \<open>stale\<close> seconds old and is
  untouched otherwise, and a project is free afterwards unless its holder is alive.\<close>

theorem recovery_spares_the_living:
  assumes "lock_inv t" "find_running_deploy p t = Some r"
    and "d_runner r = Some inst" "inst \<noteq> []" "d_heartbeat r = Some (pad13 hb)"
    and "0 \<le> hb" "hb < 10 ^ 13" "0 \<le> now - stale" "now - stale < 10 ^ 13"
  shows "find_running_deploy p (fst (recover_stale_running now stale t)) =
    (if stale < now - hb then None else Some r)"
proof -
  have "d_status r = ''running''" using assms(2) find_running_iff [OF assms(1)] by blast
  then have "is_stale (pad13 (now - stale)) r \<longleftrightarrow> stale < now - hb"
    using assms(3-) pad13_less [of hb "now - stale"] by (auto simp: is_stale_def)
  moreover have "find_running_deploy p (fst (recover_stale_running now stale t)) =
    (case find_running_deploy p t of None \<Rightarrow> None | Some r \<Rightarrow>
       if is_stale (pad13 (now - stale)) r then None else Some r)"
    unfolding recover_stale_running_def by (intro find_running_release assms(1)) simp_all
  ultimately show ?thesis using assms(2) by simp
qed

theorem recovery_spares_the_living_witness:
  "find_running_deploy ''web'' (fst (recover_stale_running 1100 default_stale sample_table)) = Some sample_running
   \<and> find_running_deploy ''web'' (fst (recover_stale_running 1121 default_stale sample_table)) = None"
  using recovery_spares_the_living [OF sample_table_inv sample_find, of "''a''" 1000 1100 120]
    recovery_spares_the_living [OF sample_table_inv sample_find, of "''a''" 1000 1121 120]
  by (simp add: sample_running_def running_row_def default_stale_def)

end
