(* ===== verification/Dlock.thy ===== *)
theory Dlock
  imports Data "HOL-Library.AList"
begin

text \<open>
  \<^verbatim>\<open>backend/dlock.py\<close>: a named lock with a time to live, kept as a row of
  \<^verbatim>\<open>cd_config\<close> whose value is \<^verbatim>\<open>owner|timestamp\<close>. The configuration table
  is an association list with unique keys. \<open>acquire\<close> is split at its only point where another
  instance can interleave, between the SELECT and the conditional write; \<open>acquire\<close> composes the
  two halves.
\<close>

type_synonym config = "(string \<times> string) list"

text \<open>SQL \<^verbatim>\<open>LIKE\<close> (ASCII case-insensitive, as in SQLite and in MySQL's default
  collation): a percent sign matches any sequence, an underscore any character.\<close>

fun sql_like :: "string \<Rightarrow> string \<Rightarrow> bool" where
  "sql_like [] s = (s = [])"
| "sql_like (p # ps) [] = (p = CHR ''%'' \<and> sql_like ps [])"
| "sql_like (p # ps) (c # cs) =
     (if p = CHR ''%'' then sql_like ps (c # cs) \<or> sql_like (p # ps) cs
      else (p = CHR ''_'' \<or> lower_char p = lower_char c) \<and> sql_like ps cs)"

definition lock_key :: "string \<Rightarrow> string" where
  "lock_key name = ''cd_lock.'' @ name"

definition lock_value :: "string \<Rightarrow> epoch \<Rightarrow> string" where
  "lock_value inst now = inst @ ''|'' @ pad13 now"

datatype read_result = Absent | Renewable string | Held

text \<open>The SELECT and the decision taken on it.\<close>

definition acquire_read :: "string \<Rightarrow> epoch \<Rightarrow> int \<Rightarrow> string \<Rightarrow> config \<Rightarrow> read_result" where
  "acquire_read inst now ttl name cfg =
     (case map_of cfg (lock_key name) of
        None \<Rightarrow> Absent
      | Some old \<Rightarrow>
          (case partition_at (CHR ''|'') old of
             (old_owner, old_ts) \<Rightarrow>
               let is_mine = (old_owner = inst);
                   is_stale = (\<not> py_isdigit old_ts \<or> ttl \<le> now - int (nat_of_digits old_ts))
               in if \<not> (is_mine \<or> is_stale) then Held else Renewable old))"

text \<open>What \<^verbatim>\<open>rowcount\<close> counts after an UPDATE: SQLite the rows that match, the MySQL
  driver (it connects without \<^verbatim>\<open>CLIENT.FOUND_ROWS\<close>) the rows that change.\<close>

datatype row_counting = Matched | Changed

text \<open>The write: INSERT, which fails on a key another instance inserted meanwhile, or UPDATE
  ... WHERE value = old, which counts no row on MySQL when the holder renews within the same second.\<close>

definition acquire_write :: "row_counting \<Rightarrow> string \<Rightarrow> epoch \<Rightarrow> string \<Rightarrow> read_result \<Rightarrow> config \<Rightarrow> bool \<times> config" where
  "acquire_write drv inst now name rd cfg =
     (case rd of
        Held \<Rightarrow> (False, cfg)
      | Absent \<Rightarrow>
          (if map_of cfg (lock_key name) = None
           then (True, AList.update (lock_key name) (lock_value inst now) cfg) else (False, cfg))
      | Renewable old \<Rightarrow>
          (if map_of cfg (lock_key name) = Some old \<and> (drv = Changed \<longrightarrow> old \<noteq> lock_value inst now)
           then (True, AList.update (lock_key name) (lock_value inst now) cfg) else (False, cfg)))"

definition acquire :: "row_counting \<Rightarrow> string \<Rightarrow> epoch \<Rightarrow> string \<Rightarrow> int \<Rightarrow> config \<Rightarrow> bool \<times> config" where
  "acquire drv inst now name ttl cfg = acquire_write drv inst now name (acquire_read inst now ttl name cfg) cfg"

definition release :: "string \<Rightarrow> string \<Rightarrow> config \<Rightarrow> config" where
  "release inst name cfg =
     filter (\<lambda>(k, v). \<not> (k = lock_key name \<and> sql_like (inst @ ''|%'') v)) cfg"

section \<open>Laws\<close>

lemma lock_value_parts:
  assumes "CHR ''|'' \<notin> set inst"
  shows "partition_at (CHR ''|'') (lock_value inst now) = (inst, pad13 now)"
  using partition_at_append [OF assms] by (simp add: lock_value_def)

text \<open>The owner and the age the code reads out of a lock row.\<close>

definition lock_owner :: "string \<Rightarrow> config \<Rightarrow> string option" where
  "lock_owner name cfg = map_option (\<lambda>v. fst (partition_at (CHR ''|'') v)) (map_of cfg (lock_key name))"

lemma acquire_owner:
  assumes "CHR ''|'' \<notin> set inst" "acquire drv inst now name ttl cfg = (True, cfg')"
  shows "map_of cfg' (lock_key name) = Some (lock_value inst now)" "lock_owner name cfg' = Some inst"
proof -
  show "map_of cfg' (lock_key name) = Some (lock_value inst now)"
    using assms(2)
    by (auto simp: acquire_def acquire_write_def update_conv' split: read_result.splits if_splits)
  then show "lock_owner name cfg' = Some inst" using assms(1) by (simp add: lock_owner_def lock_value_parts)
qed

lemma acquire_fail_same: "acquire drv inst now name ttl cfg = (False, cfg') \<Longrightarrow> cfg' = cfg"
  by (auto simp: acquire_def acquire_write_def split: read_result.splits if_splits)

lemma acquire_read_value:
  assumes "CHR ''|'' \<notin> set owner" "0 \<le> t0" "map_of cfg (lock_key name) = Some (lock_value owner t0)"
  shows "acquire_read inst now ttl name cfg =
    (if owner = inst \<or> ttl \<le> now - t0 then Renewable (lock_value owner t0) else Held)"
  using assms pad13_value [OF assms(2)] pad13_isdigit [OF assms(2)]
  by (simp add: acquire_read_def lock_value_parts)

lemma sql_like_wild: "sql_like [CHR ''%''] s"
  by (induction s) auto

lemma sql_like_prefix:
  assumes "CHR ''%'' \<notin> set p" "CHR ''_'' \<notin> set p"
  shows "sql_like (p @ ''%'') s \<longleftrightarrow> py_lower (take (length p) s) = py_lower p"
  using assms
proof (induction p arbitrary: s)
  case Nil
  then show ?case using sql_like_wild [of s] by (auto simp: py_lower_def)
next
  case (Cons c p)
  then show ?case by (cases s) (auto simp: py_lower_def)
qed

lemma release_other_key: "k \<noteq> lock_key name \<Longrightarrow> map_of (release inst name cfg) k = map_of cfg k"
  by (induction cfg) (auto simp: release_def)

lemma release_keeps:
  assumes "\<not> sql_like (inst @ ''|%'') v" "map_of cfg (lock_key name) = Some v"
  shows "map_of (release inst name cfg) (lock_key name) = Some v"
  using assms by (induction cfg) (auto simp: release_def split: if_splits)

text \<open>Two instances: plain names, different also when case is ignored.\<close>

definition plain_instance :: "string \<Rightarrow> bool" where
  "plain_instance inst \<longleftrightarrow> CHR ''|'' \<notin> set inst \<and> CHR ''%'' \<notin> set inst \<and> CHR ''_'' \<notin> set inst"

lemma lower_bar: "c \<noteq> CHR ''|'' \<Longrightarrow> lower_char c \<noteq> CHR ''|''"
proof (cases "is_upper c")
  case True
  then have "65 \<le> py_ord c" "py_ord c \<le> 90" by (auto simp: is_upper_def)
  moreover then have "py_ord (char_of (py_ord c + 32) :: char) = py_ord c + 32" by simp
  ultimately have "py_ord (lower_char c) \<le> 122" using True by (simp only: lower_char_def if_True)
  then have le: "py_ord (lower_char c) \<le> 122" .
  have bar: "py_ord (CHR ''|'') = (124 :: nat)" by simp
  show ?thesis
  proof
    assume "lower_char c = CHR ''|''"
    with le have "py_ord (CHR ''|'') \<le> (122 :: nat)" by (simp only:)
    with bar show False by linarith
  qed
qed (simp add: lower_char_def)

lemma lower_bar_self [simp]: "lower_char (CHR ''|'') = CHR ''|''"
  by (simp add: lower_char_def is_upper_def)

lemma lower_bar_iff: "lower_char c = CHR ''|'' \<longleftrightarrow> c = CHR ''|''"
  by (cases "c = CHR ''|''") (simp_all add: lower_bar)

lemma partition_fst_lower:
  assumes "CHR ''|'' \<notin> set a" "CHR ''|'' \<notin> set b"
    "py_lower (take (length (a @ ''|'')) (b @ ''|'' @ r)) = py_lower (a @ ''|'')"
  shows "py_lower a = py_lower b"
  using assms
proof (induction a arbitrary: b)
  case Nil
  then show ?case by (cases b) (auto simp: py_lower_def lower_bar_iff)
next
  case (Cons c a)
  show ?case
  proof (cases b)
    case Nil
    then show ?thesis using Cons.prems lower_bar [of c] by (auto simp: py_lower_def)
  next
    case (Cons d b')
    then show ?thesis using Cons.IH [of b'] Cons.prems by (auto simp: py_lower_def)
  qed
qed

lemma release_foreign:
  assumes "plain_instance inst" "CHR ''|'' \<notin> set owner" "py_lower inst \<noteq> py_lower owner"
    "map_of cfg (lock_key name) = Some (lock_value owner t0)"
  shows "map_of (release inst name cfg) (lock_key name) = Some (lock_value owner t0)"
proof (rule release_keeps [OF _ assms(4)])
  have "sql_like ((inst @ ''|'') @ ''%'') (lock_value owner t0) \<longleftrightarrow>
      py_lower (take (length (inst @ ''|'')) (lock_value owner t0)) = py_lower (inst @ ''|'')"
    using assms(1) by (intro sql_like_prefix) (auto simp: plain_instance_def)
  with partition_fst_lower [of inst owner "pad13 t0"] assms
  show "\<not> sql_like (inst @ ''|%'') (lock_value owner t0)"
    by (auto simp: plain_instance_def lock_value_def)
qed

lemma release_own:
  assumes "plain_instance inst" "map_of cfg (lock_key name) = Some (lock_value inst t0)" "distinct (List.map fst cfg)"
  shows "map_of (release inst name cfg) (lock_key name) = None"
proof -
  have "sql_like ((inst @ ''|'') @ ''%'') (lock_value inst t0)"
    using assms(1) by (subst sql_like_prefix) (auto simp: plain_instance_def lock_value_def)
  moreover have "v = lock_value inst t0" if "(lock_key name, v) \<in> set cfg" for v
    using that assms(2,3) by (metis map_of_is_SomeI option.inject)
  ultimately have "(lock_key name, v) \<notin> set (release inst name cfg)" for v
    by (auto simp: release_def)
  then show ?thesis by (metis map_of_SomeD not_Some_eq)
qed

section \<open>Properties\<close>

text \<open>C38. Mutual exclusion with a time to live: while the holder's timestamp is younger than
  the time to live, another instance's acquire fails and changes nothing, and a release by
  another instance leaves the lock alone; once it is older, the other instance takes over.\<close>

theorem dlock_mutual_exclusion:
  assumes "plain_instance a" "plain_instance b" "py_lower a \<noteq> py_lower b" "0 \<le> t0"
    and "acquire drv a t0 name ttl0 cfg = (True, cfg1)"
  shows "lock_owner name (release b name cfg1) = Some a \<and>
    (if now - t0 < ttl then acquire drv b now name ttl cfg1 = (False, cfg1)
     else fst (acquire drv b now name ttl cfg1) \<and>
          lock_owner name (snd (acquire drv b now name ttl cfg1)) = Some b)"
proof -
  have bar: "CHR ''|'' \<notin> set a" "CHR ''|'' \<notin> set b" using assms(1,2) by (auto simp: plain_instance_def)
  have v: "map_of cfg1 (lock_key name) = Some (lock_value a t0)"
    using acquire_owner(1) [OF bar(1) assms(5)] .
  have ne: "a \<noteq> b" using assms(3) by auto
  note rd = acquire_read_value [OF bar(1) assms(4) v, of b now ttl]
  have "lock_owner name (release b name cfg1) = Some a"
    using release_foreign [OF assms(2) bar(1) _ v] assms(3) bar(1)
    by (simp add: lock_owner_def lock_value_parts)
  moreover have "acquire drv b now name ttl cfg1 = (False, cfg1)" if "now - t0 < ttl"
    using rd ne that by (simp add: acquire_def acquire_write_def)
  moreover have "fst (acquire drv b now name ttl cfg1) \<and> lock_owner name (snd (acquire drv b now name ttl cfg1)) = Some b"
    if "ttl \<le> now - t0"
  proof -
    have "lock_value a t0 \<noteq> lock_value b now" using ne lock_value_parts [OF bar(1)] lock_value_parts [OF bar(2)] by (metis fst_conv)
    then have t: "acquire drv b now name ttl cfg1 = (True, AList.update (lock_key name) (lock_value b now) cfg1)"
      using rd v that by (simp add: acquire_def acquire_write_def)
    then show ?thesis using acquire_owner(2) [OF bar(2) t] by simp
  qed
  ultimately show ?thesis by simp
qed

theorem dlock_mutual_exclusion_witness:
  "fst (acquire Changed ''a:1'' 1000 ''job'' 90 []) \<and>
   \<not> fst (acquire Changed ''b:2'' 1089 ''job'' 90 (snd (acquire Changed ''a:1'' 1000 ''job'' 90 []))) \<and>
   fst (acquire Changed ''b:2'' 1090 ''job'' 90 (snd (acquire Changed ''a:1'' 1000 ''job'' 90 [])))"
proof -
  have p: "plain_instance ''a:1''" "plain_instance ''b:2''" "py_lower ''a:1'' \<noteq> py_lower ''b:2''"
    by (simp_all add: plain_instance_def py_lower_def lower_char_def is_upper_def)
  have b: "fst (acquire Changed ''a:1'' 1000 ''job'' 90 [])"
    by (simp add: acquire_def acquire_read_def acquire_write_def)
  have a: "acquire Changed ''a:1'' 1000 ''job'' 90 [] = (True, snd (acquire Changed ''a:1'' 1000 ''job'' 90 []))"
    by (simp add: acquire_def acquire_read_def acquire_write_def)
  show ?thesis
    using dlock_mutual_exclusion [OF p _ a, of 1089 90] dlock_mutual_exclusion [OF p _ a, of 1090 90] b
    by simp
qed

text \<open>The race for a free or expired lock has one winner: two instances that both read the
  row before either writes it cannot both succeed (the row was not already one of the two
  new values, which an expired row never is).\<close>

theorem dlock_one_winner:
  assumes "acquire_write drv a ta name (acquire_read a ta ttl name cfg) cfg = (True, cfg1)"
    and "map_of cfg (lock_key name) \<noteq> Some (lock_value a ta)"
  shows "acquire_write drv b tb name (acquire_read b tb ttl name cfg) cfg1 = (False, cfg1)"
proof -
  have new: "map_of cfg1 (lock_key name) = Some (lock_value a ta)"
    using assms(1) by (auto simp: acquire_write_def update_conv' split: read_result.splits if_splits)
  have "acquire_read b tb ttl name cfg = Absent \<or> acquire_read b tb ttl name cfg = Held \<or>
      (\<exists>old. acquire_read b tb ttl name cfg = Renewable old \<and> map_of cfg (lock_key name) = Some old)"
    by (auto simp: acquire_read_def Let_def split: option.splits prod.splits)
  then show ?thesis using new assms(2) by (auto simp: acquire_write_def)
qed

theorem dlock_one_winner_witness:
  "\<not> fst (acquire_write Changed ''b'' 500 ''job'' (acquire_read ''b'' 500 90 ''job'' [(''cd_lock.job'', ''c|0000000000100'')])
     (snd (acquire_write Changed ''a'' 500 ''job'' (Renewable ''c|0000000000100'') [(''cd_lock.job'', ''c|0000000000100'')])))"
proof -
  let ?cfg = "[(''cd_lock.job'', ''c|0000000000100'')]"
  have r: "acquire_read ''a'' 500 90 ''job'' ?cfg = Renewable ''c|0000000000100''"
    by (simp add: acquire_read_def lock_key_def partition_at_def py_isdigit_def is_digit_def
        nat_of_digits_def digit_val_def)
  have "acquire_write Changed ''a'' 500 ''job'' (acquire_read ''a'' 500 90 ''job'' ?cfg) ?cfg =
      (True, snd (acquire_write Changed ''a'' 500 ''job'' (Renewable ''c|0000000000100'') ?cfg))"
    unfolding r by (simp add: acquire_write_def lock_key_def lock_value_def)
  moreover have "map_of ?cfg (lock_key ''job'') \<noteq> Some (lock_value ''a'' 500)"
    by (simp add: lock_key_def lock_value_def)
  ultimately show ?thesis by (simp add: dlock_one_winner)
qed

text \<open>A lock its holder releases is free for anyone at once, without waiting for the time to
  live.\<close>

theorem dlock_release_frees:
  assumes "plain_instance a" "acquire drv a t0 name ttl0 cfg = (True, cfg1)" "distinct (List.map fst cfg)"
  shows "fst (acquire drv b now name ttl (release a name cfg1))"
proof -
  have "CHR ''|'' \<notin> set a" using assms(1) by (simp add: plain_instance_def)
  with acquire_owner(1) assms(2) have v: "map_of cfg1 (lock_key name) = Some (lock_value a t0)" by blast
  have "distinct (List.map fst cfg1)" using assms(2,3)
    by (auto simp: acquire_def acquire_write_def distinct_update split: read_result.splits if_splits)
  with release_own [OF assms(1) v] show ?thesis
    by (simp add: acquire_def acquire_read_def acquire_write_def)
qed

theorem dlock_release_frees_witness:
  "fst (acquire Changed ''b'' 1001 ''job'' 90 (release ''a'' ''job'' (snd (acquire Changed ''a'' 1000 ''job'' 90 []))))"
proof -
  have "acquire Changed ''a'' 1000 ''job'' 90 [] = (True, snd (acquire Changed ''a'' 1000 ''job'' 90 []))"
    by (simp add: acquire_def acquire_read_def acquire_write_def)
  from dlock_release_frees [OF _ this] show ?thesis by (simp add: plain_instance_def)
qed

end
