(* ===== verification/Registry.thy ===== *)
theory Registry
  imports Contract
begin

text \<open>
  \<^verbatim>\<open>backend/services/registry_provider.py\<close>: which image registry is in use, as the
  contract hints say. The functions that read the hints take the hint pair (type, url) as an
  argument; \<open>contract_registry_hints\<close> of theory Contract produces it. The pages of the tag
  endpoint are a parameter of \<open>fetch_all_tags\<close>.
\<close>

record capabilities =
  cap_scan :: bool
  cap_size :: bool
  cap_push_time :: bool

definition registry_type_hint :: "string \<times> string \<Rightarrow> string" where
  "registry_type_hint h = py_lower (py_strip (fst h))"

definition registry_type :: "string \<times> string \<Rightarrow> string" where
  "registry_type h = str_or (registry_type_hint h) ''harbor''"

definition registry_base_url :: "string \<times> string \<Rightarrow> string result" where
  "registry_base_url h =
     (if snd h = [] then Inl RuntimeError
      else let url = rstrip_char (CHR ''/'') (py_strip (snd h))
           in Inr (case split_once ''://'' url of None \<Rightarrow> url | Some (_, rest) \<Rightarrow> rest))"

definition registry_url_raw :: "string \<times> string \<Rightarrow> string" where
  "registry_url_raw h = rstrip_char (CHR ''/'') (py_strip (snd h))"

definition registry_scheme :: "string \<times> string \<Rightarrow> string" where
  "registry_scheme h =
     (case split_once ''://'' (registry_url_raw h) of
        None \<Rightarrow> [] | Some (scheme, _) \<Rightarrow> py_lower (py_strip scheme))"

definition registry_is_insecure :: "string \<times> string \<Rightarrow> bool" where
  "registry_is_insecure h = (registry_scheme h = ''http'')"

definition registry_capabilities :: "string \<times> string \<Rightarrow> capabilities" where
  "registry_capabilities h =
     (if registry_type h = ''registry''
      then \<lparr>cap_scan = False, cap_size = True, cap_push_time = False\<rparr>
      else \<lparr>cap_scan = True, cap_size = True, cap_push_time = True\<rparr>)"

definition split_repo :: "string \<Rightarrow> string \<times> string" where
  "split_repo repo_full =
     (if CHR ''/'' \<in> set repo_full then partition_at (CHR ''/'') repo_full else (repo_full, repo_full))"

definition base_url_candidates :: "string \<Rightarrow> string list result" where
  "base_url_candidates raw0 =
     (let r = rstrip_char (CHR ''/'') (py_strip raw0)
      in if r = [] then Inl RuntimeError
         else if starts_with ''http://'' r \<or> starts_with ''https://'' r then Inr [r]
         else Inr [''https://'' @ r, ''http://'' @ r])"

section \<open>Tags\<close>

text \<open>An answer of the tags endpoint: an error status, no answer, the paged envelope (with its
  \<^verbatim>\<open>total_pages\<close>, \<open>None\<close> when it is not a number), a bare list, or anything
  else. An error 404 counts as the empty list.\<close>

datatype 'a tag_answer = TError nat | TDown | TPage "'a list" "int option" | TList "'a list" | TOther

datatype registry_error = PermissionDenied | Unavailable

definition tags_max_pages :: int where
  "tags_max_pages = 50"

fun provider_get :: "'a tag_answer \<Rightarrow> registry_error + 'a tag_answer" where
  "provider_get (TError c) =
     (if c = 401 \<or> c = 403 then Inl PermissionDenied else if c = 404 then Inr (TList []) else Inl Unavailable)"
| "provider_get TDown = Inl Unavailable"
| "provider_get a = Inr a"

fun page_items :: "'a tag_answer \<Rightarrow> 'a list" where
  "page_items (TPage xs _) = xs"
| "page_items _ = []"

text \<open>Pages \<open>2..n\<close> after the first; a failing page fails the whole listing.\<close>

fun fetch_pages :: "(nat \<Rightarrow> 'a tag_answer) \<Rightarrow> nat list \<Rightarrow> registry_error + 'a list" where
  "fetch_pages ask [] = Inr []"
| "fetch_pages ask (p # ps) =
     (case provider_get (ask p) of
        Inl e \<Rightarrow> Inl e
      | Inr a \<Rightarrow> (case fetch_pages ask ps of Inl e \<Rightarrow> Inl e | Inr rest \<Rightarrow> Inr (page_items a @ rest)))"

definition fetch_all_tags :: "(nat \<Rightarrow> 'a tag_answer) \<Rightarrow> registry_error + 'a list" where
  "fetch_all_tags ask =
     (case provider_get (ask 1) of
        Inl e \<Rightarrow> Inl e
      | Inr (TPage xs tp) \<Rightarrow>
          (let total_pages = (case tp of None \<Rightarrow> 1 | Some n \<Rightarrow> max 1 n)
           in map_sum id (\<lambda>rest. xs @ rest)
                (fetch_pages ask [2..<nat (min total_pages tags_max_pages) + 1]))
      | Inr (TList xs) \<Rightarrow> Inr xs
      | Inr _ \<Rightarrow> Inr [])"

record tag_object =
  to_name :: string
  to_digest :: string
  to_size :: int

text \<open>The artifact rows of a standard registry: tags without a name are skipped.\<close>

definition list_artifacts :: "(nat \<Rightarrow> tag_object tag_answer) \<Rightarrow> registry_error + tag_object list" where
  "list_artifacts ask = map_sum id (filter (\<lambda>o'. to_name o' \<noteq> [])) (fetch_all_tags ask)"

definition get_registry_provider :: "string \<times> string \<Rightarrow> string" where
  "get_registry_provider h = (if registry_type h = ''registry'' then ''registry'' else ''harbor'')"

lemma fetch_pages_all:
  assumes "\<And>p. p \<in> set ps \<Longrightarrow> ask p = TPage (f p) (tp p)"
  shows "fetch_pages ask ps = Inr (concat (List.map f ps))"
  using assms by (induction ps) auto

section \<open>Properties\<close>

text \<open>The plain-HTTP declaration of a registry never reaches its check: for a contract URL
  \<^verbatim>\<open>http://host\<close> the normalisation of the contract strips the scheme before the hints are
  stored, so \<^verbatim>\<open>registry_is_insecure\<close> answers no, although the address it was given is
  plain HTTP (and would be recognised unnormalised).\<close>

theorem insecure_registry_undetected:
  assumes "py_strip host = host" "host \<noteq> []" "CHR ''/'' \<notin> set host"
  shows "\<not> registry_is_insecure (t, normalize_registry_url (RStr (''http://'' @ host)))
    \<and> registry_is_insecure (t, ''http://'' @ host)"
proof -
  have last: "\<not> is_space (last host)" "last host \<noteq> CHR ''/''"
    using py_strip_ends [of host] assms(1,2) last_in_set [OF assms(2)] assms(3) by (simp, metis)
  have strip: "py_strip (''http://'' @ host) = ''http://'' @ host"
    using last(1) assms(2) by (intro py_strip_fix) (simp add: is_space_def)
  have rs: "rstrip_char (CHR ''/'') (x @ host) = x @ host" for x
    using last(2) assms(2) by (cases "rev host") (auto simp: rstrip_char_def last_rev [symmetric])
  have n: "normalize_registry_url (RStr (''http://'' @ host)) = host"
    using rs [of "''http://''"] strip
    by (simp add: normalize_registry_url_def str_or_blank_def starts_with_def)
  have no: "split_once ''://'' host = None"
    using contains_sub_chars [of "''://''" host "CHR ''/''"] assms(3)
    by (cases "split_once ''://'' host") (auto simp: contains_sub_def)
  have "registry_scheme (t, host) = []"
    using rs [of "[]"] assms(1) no by (simp add: registry_scheme_def registry_url_raw_def)
  moreover have "registry_scheme (t, ''http://'' @ host) = ''http''"
    using rs [of "''http://''"] strip
    by (simp add: registry_scheme_def registry_url_raw_def starts_with_def py_lower_def lower_char_def
        is_upper_def py_strip_fix is_space_def)
  ultimately show ?thesis unfolding registry_is_insecure_def n by simp
qed

theorem insecure_registry_undetected_witness:
  "\<not> registry_is_insecure (''harbor'', normalize_registry_url (RStr (''http://'' @ ''10.0.0.5:5000'')))"
proof -
  have "py_strip ''10.0.0.5:5000'' = ''10.0.0.5:5000''" by (intro py_strip_fix) (simp add: is_space_def)
  then show ?thesis using insecure_registry_undetected [of "''10.0.0.5:5000''"] by simp
qed

text \<open>Listing the tags of a repository loses none: with a paged endpoint of at most fifty
  pages the listing is the concatenation of all pages in order, and one failing page fails
  the whole listing instead of shortening it.\<close>

theorem tag_listing_is_complete:
  assumes "1 \<le> n" "n \<le> 50" "\<And>p. 1 \<le> p \<Longrightarrow> p \<le> n \<Longrightarrow> ask p = TPage (page p) (Some (int n))"
  shows "fetch_all_tags ask = Inr (concat (List.map page [1..<Suc n]))
    \<and> (\<forall>q. 2 \<le> q \<and> q \<le> n \<longrightarrow> fetch_all_tags (ask(q := TDown)) = Inl Unavailable)"
proof (intro conjI allI impI)
  have n: "max 1 (int n) = int n" "nat (min (int n) tags_max_pages) = n"
    using assms(1,2) by (auto simp: tags_max_pages_def)
  have one: "ask 1 = TPage (page 1) (Some (int n))" using assms(1,3) by simp
  have all: "fetch_pages ask [2..<n + 1] = Inr (concat (List.map page [2..<n + 1]))"
    using assms(3) by (intro fetch_pages_all [where tp = "\<lambda>_. Some (int n)"]) auto
  have "[1..<Suc n] = 1 # [2..<n + 1]" using assms(1) upt_conv_Cons [of 1 "Suc n"] by (simp add: eval_nat_numeral)
  then show "fetch_all_tags ask = Inr (concat (List.map page [1..<Suc n]))"
    using one all n by (simp add: fetch_all_tags_def Let_def del: upt_Suc)
  fix q assume q: "2 \<le> q \<and> q \<le> n"
  have "fetch_pages (ask(q := TDown)) ps = Inl Unavailable"
    if "q \<in> set ps" "\<And>p. p \<in> set ps \<Longrightarrow> p \<noteq> q \<Longrightarrow> \<exists>xs tp. ask p = TPage xs tp" for ps
    using that
  proof (induction ps)
    case (Cons p ps)
    show ?case
    proof (cases "p = q")
      case False
      then obtain xs tp where "ask p = TPage xs tp" using Cons.prems(2) [of p] by auto
      then show ?thesis using False Cons by auto
    qed simp
  qed simp
  moreover have "\<exists>xs tp. ask p = TPage xs tp" if "p \<in> set [2..<n + 1]" for p using assms(3) [of p] that by auto
  moreover have "q \<in> set [2..<n + 1]" using q by auto
  ultimately have "fetch_pages (ask(q := TDown)) [2..<n + 1] = Inl Unavailable" by blast
  moreover have "(ask(q := TDown)) 1 = TPage (page 1) (Some (int n))" using q one by simp
  ultimately show "fetch_all_tags (ask(q := TDown)) = Inl Unavailable"
    using n by (simp add: fetch_all_tags_def Let_def del: upt_Suc)
qed

theorem tag_listing_is_complete_witness:
  "fetch_all_tags (\<lambda>p. TPage [''v'' @ nat_str p] (Some (int 3))) =
     Inr (concat (List.map (\<lambda>p. [''v'' @ nat_str p]) [1..<Suc 3]))"
  using tag_listing_is_complete [of 3 "\<lambda>p. TPage [''v'' @ nat_str p] (Some (int 3))" "\<lambda>p. [''v'' @ nat_str p]"]
  by simp

end
