(* ===== verification/Approvals.thy ===== *)
theory Approvals
  imports ApprovalRules DeployRun Dlock Registry
begin

text \<open>
  The approval records of \<^verbatim>\<open>backend/services/approval_service.py\<close>: creation, the atomic
  status transition, listing, the actions approve, reject and cancel, the gate that deployments
  pass, and the todo counter. \<open>now\<close> is the text of \<^verbatim>\<open>utc_now_str()\<close>. A notification is
  returned as a value: the bot and what it announces; sending it is the notification service's
  business and never fails the caller.
\<close>

datatype notice_kind = Requested | WasApproved | WasRejected | WasCancelled

record notice =
  n_bot :: int
  n_kind :: notice_kind
  n_project :: string
  n_tag :: string

definition approval_not_found :: exc where
  "approval_not_found = NotFoundError (Some ''errors.approval_not_found'')"

section \<open>Records\<close>

record create_args =
  c_project :: string
  c_tag :: string
  c_image :: string
  c_type :: string
  c_envs :: "string list"
  c_params :: snapshot
  c_requester :: string
  c_scheduled :: string
  c_status :: astatus
  c_approver :: string

definition new_approval :: "string \<Rightarrow> create_args \<Rightarrow> approval" where
  "new_approval ts c =
     \<lparr>a_id = 0, a_project = c_project c, a_tag = c_tag c, a_image = c_image c, a_type = c_type c,
      a_envs = py_join '','' (sort (c_envs c)), a_params = c_params c, a_status = c_status c,
      a_requester = c_requester c, a_approver = c_approver c, a_note = [], a_deploy = 0,
      a_created = ts, a_approved_at = [], a_scheduled = c_scheduled c, a_updated = []\<rparr>"

definition create_approval :: "string \<Rightarrow> create_args \<Rightarrow> cdb \<Rightarrow> row_id \<times> cdb" where
  "create_approval ts c db =
     (case t_insert appr_assign (new_approval ts c) (db_apprs db) of
        (t', i) \<Rightarrow> (i, db\<lparr>db_apprs := t'\<rparr>))"

text \<open>The conditional UPDATE: \<open>f\<close> sets the extra columns; the answer says whether a row was
  changed.\<close>

definition set_status :: "string \<Rightarrow> astatus \<Rightarrow> (approval \<Rightarrow> approval) \<Rightarrow> approval \<Rightarrow> approval" where
  "set_status now to f a = (f a)\<lparr>a_status := to, a_updated := now\<rparr>"

definition transition ::
  "string \<Rightarrow> row_id \<Rightarrow> astatus list \<Rightarrow> astatus \<Rightarrow> (approval \<Rightarrow> approval) \<Rightarrow> cdb \<Rightarrow> bool \<times> cdb" where
  "transition now aid froms to f db =
     (case t_update (\<lambda>a. a_id a = aid \<and> a_status a \<in> set froms) (set_status now to f) (db_apprs db) of
        (t', n) \<Rightarrow> (0 < n, db\<lparr>db_apprs := t'\<rparr>))"

definition get_by_id :: "row_id \<Rightarrow> cdb \<Rightarrow> approval option" where
  "get_by_id aid db = t_get a_id aid (db_apprs db)"

definition no_fields :: "approval \<Rightarrow> approval" where
  "no_fields a = a"

section \<open>Listing\<close>

definition kind_matches :: "string \<Rightarrow> approval \<Rightarrow> bool" where
  "kind_matches deploy_kind a =
     (let kind = py_lower (py_strip deploy_kind)
      in if kind = ''ssh'' \<or> kind = ''compose'' then a_type a = kind
         else if kind = ''k8s'' then a_type a = ''k8s'' \<or> sql_like ''k8s/%'' (a_type a)
         else True)"

definition list_filter :: "string \<Rightarrow> string \<Rightarrow> string \<Rightarrow> string \<Rightarrow> bool \<Rightarrow> approval \<Rightarrow> bool" where
  "list_filter status project requester deploy_kind active a =
     ((if active then a_status a \<in> {Pending, Approved, Deploying}
       else status = [] \<or> status_text (a_status a) = status) \<and>
      (project = [] \<or> a_project a = project) \<and>
      (requester = [] \<or> a_requester a = requester) \<and>
      kind_matches deploy_kind a)"

text \<open>Newest first; active records by urgency (the rank of the status), newest first within
  one rank.\<close>

definition list_order :: "bool \<Rightarrow> approval list \<Rightarrow> approval list" where
  "list_order active as =
     (if active then sort_key (\<lambda>a. status_rank (a_status a)) (rev as) else rev as)"

definition list_approvals ::
  "string \<Rightarrow> string \<Rightarrow> string \<Rightarrow> string \<Rightarrow> int \<Rightarrow> int \<Rightarrow> bool \<Rightarrow> cdb \<Rightarrow> approval page" where
  "list_approvals status project requester deploy_kind page page_size active db =
     paginate page page_size
       (list_order active (t_where (list_filter status project requester deploy_kind active) (db_apprs db)))"

section \<open>Actions\<close>

definition notify_result :: "rule option \<Rightarrow> approval \<Rightarrow> notice_kind \<Rightarrow> notice list" where
  "notify_result rule a k =
     (case rule of None \<Rightarrow> []
      | Some r \<Rightarrow> if r_bot r = 0 then []
                  else [\<lparr>n_bot = r_bot r, n_kind = k, n_project = a_project a, n_tag = a_tag a\<rparr>])"

definition approve_perm_denied :: exc where
  "approve_perm_denied = AppException 403 (Some ''errors.approve_perm_denied'')"

text \<open>Each action answers whether the transition took effect and what is announced.\<close>

type_synonym action_result = "(bool \<times> notice list) result \<times> cdb"

definition approve :: "settings \<Rightarrow> string \<Rightarrow> row_id \<Rightarrow> user \<Rightarrow> cdb \<Rightarrow> action_result" where
  "approve st now aid u db =
     (case get_by_id aid db of
        None \<Rightarrow> (Inl approval_not_found, db)
      | Some a \<Rightarrow>
          (case ensure_not_requester a u of
             Inl e \<Rightarrow> (Inl e, db)
           | Inr _ \<Rightarrow>
               let rule = get_rule (db_rules db) (a_project a)
               in if \<not> can_approve st rule u then (Inl approve_perm_denied, db)
                  else (case transition now aid [Pending] Approved
                               (\<lambda>a. a\<lparr>a_approver := u_name u, a_approved_at := now\<rparr>) db of
                          (ok, db') \<Rightarrow>
                            if \<not> ok then (Inr (False, []), db')
                            else (Inr (True, notify_result rule a WasApproved), db'))))"

definition reject :: "settings \<Rightarrow> string \<Rightarrow> row_id \<Rightarrow> user \<Rightarrow> string \<Rightarrow> cdb \<Rightarrow> action_result" where
  "reject st now aid u note db =
     (case get_by_id aid db of
        None \<Rightarrow> (Inl approval_not_found, db)
      | Some a \<Rightarrow>
          (case ensure_not_requester a u of
             Inl e \<Rightarrow> (Inl e, db)
           | Inr _ \<Rightarrow>
               let rule = get_rule (db_rules db) (a_project a)
               in if \<not> can_approve st rule u then (Inl approve_perm_denied, db)
                  else (case transition now aid [Pending] Rejected
                               (\<lambda>a. a\<lparr>a_approver := u_name u, a_note := note, a_approved_at := now\<rparr>) db of
                          (ok, db') \<Rightarrow>
                            if \<not> ok then (Inr (False, []), db')
                            else (Inr (True, notify_result rule a WasRejected),
                                  db'\<lparr>db_logs := mark_approval_log_terminal aid ''rejected'' (db_logs db')\<rparr>))))"

definition cancel :: "settings \<Rightarrow> string \<Rightarrow> row_id \<Rightarrow> user \<Rightarrow> cdb \<Rightarrow> action_result" where
  "cancel st now aid u db =
     (case get_by_id aid db of
        None \<Rightarrow> (Inl approval_not_found, db)
      | Some a \<Rightarrow>
          if u_name u \<noteq> a_requester a \<and> \<not> is_super st u
          then (Inl (AppException 403 (Some ''errors.approval_cancel_perm'')), db)
          else (case transition now aid [Pending, Approved] Cancelled no_fields db of
                  (ok, db') \<Rightarrow>
                    if \<not> ok then (Inr (False, []), db')
                    else (Inr (True, notify_result (get_rule (db_rules db') (a_project a)) a WasCancelled),
                          db'\<lparr>db_logs := mark_approval_log_terminal aid ''cancelled'' (db_logs db')\<rparr>)))"

section \<open>The gate\<close>

text \<open>The image shown on the record: best effort, empty when anything is missing.\<close>

definition resolve_display_image :: "job list \<Rightarrow> string \<times> string \<Rightarrow> string \<Rightarrow> string \<Rightarrow> string" where
  "resolve_display_image js hints project tag =
     (case resolve_harbor_repo js project of
        None \<Rightarrow> []
      | Some repo \<Rightarrow> (case registry_base_url hints of
          Inl _ \<Rightarrow> [] | Inr base \<Rightarrow> base @ ''/'' @ repo @ '':'' @ tag))"

record gate_args =
  ga_project :: string
  ga_tag :: string
  ga_type :: string
  ga_server_ids :: string
  ga_params :: params
  ga_requester :: string
  ga_rollback :: bool
  ga_scheduled :: string

record gate_result =
  gr_approval :: row_id
  gr_scheduled :: bool
  gr_notices :: "notice list"

text \<open>The approval and its pending deployment record.\<close>

definition open_request ::
  "job list \<Rightarrow> string \<times> string \<Rightarrow> string \<Rightarrow> gate_args \<Rightarrow> string \<Rightarrow> rule option \<Rightarrow> string list \<Rightarrow> cdb
     \<Rightarrow> row_id \<times> cdb" where
  "open_request js hints ts g sched rule envs db =
     (let image = resolve_display_image js hints (ga_project g) (ga_tag g)
      in case create_approval ts
               \<lparr>c_project = ga_project g, c_tag = ga_tag g, c_image = image, c_type = ga_type g,
                c_envs = envs, c_params = SDoc (ga_params g), c_requester = ga_requester g,
                c_scheduled = sched, c_status = (if rule = None then Approved else Pending),
                c_approver = []\<rparr> db of
           (aid, db1) \<Rightarrow>
             (case create_pending_deploy_record ts
                    \<lparr>g_type = ga_type g, g_project = ga_project g, g_tag = ga_tag g, g_image = image,
                     g_by = ga_requester g, g_note = or_empty (pp_deploy_note (ga_params g)),
                     g_target = [], g_params = SDoc (ga_params g),
                     g_rbtype = Some (str_or (or_empty (pp_rollback_type (ga_params g))) ''manual''),
                     g_approval = aid\<rparr> (db_logs db1) of
                (_, t') \<Rightarrow> (aid, db1\<lparr>db_logs := t'\<rparr>)))"

definition gate_deploy ::
  "job list \<Rightarrow> string \<times> string \<Rightarrow> string \<Rightarrow> gate_args \<Rightarrow> cdb \<Rightarrow> gate_result option result \<times> cdb" where
  "gate_deploy js hints ts g db =
     (case parse_scheduled_at (ga_scheduled g) of
        Inl e \<Rightarrow> (Inl e, db)
      | Inr sched \<Rightarrow>
          (case approval_required (db_rules db) (db_servers db) (ga_project g) (ga_server_ids g) (ga_rollback g) of
             Inl e \<Rightarrow> (Inl e, db)
           | Inr rule \<Rightarrow>
               if rule = None \<and> sched = [] then (Inr None, db)
               else (case resolve_target_envs (db_servers db) (ga_server_ids g) of
                       Inl e \<Rightarrow> (Inl e, db)
                     | Inr envs \<Rightarrow>
                         (case open_request js hints ts g sched rule envs db of
                            (aid, db') \<Rightarrow>
                              (Inr (Some \<lparr>gr_approval = aid,
                                 gr_scheduled = (case rule of None \<Rightarrow> True | Some _ \<Rightarrow> sched \<noteq> []),
                                 gr_notices = (case rule of None \<Rightarrow> []
                                   | Some r \<Rightarrow> if r_bot r = 0 then []
                                       else [\<lparr>n_bot = r_bot r, n_kind = Requested,
                                              n_project = ga_project g, n_tag = ga_tag g\<rparr>])\<rparr>), db')))))"

section \<open>The todo counter\<close>

record todo =
  td_to_approve :: nat
  td_to_execute :: nat

definition count_todo :: "settings \<Rightarrow> user \<Rightarrow> cdb \<Rightarrow> todo" where
  "count_todo st u db =
     (let pending = take 200 (rev (t_where (\<lambda>a. a_status a = Pending) (db_apprs db)))
      in \<lparr>td_to_approve = length (filter (\<lambda>a. a_requester a \<noteq> u_name u \<and>
             can_approve st (match_rule (list_all_rules (db_rules db)) (a_project a)) u) pending),
          td_to_execute = length (t_where (\<lambda>a. a_status a = Approved \<and> a_requester a = u_name u)
             (db_apprs db))\<rparr>)"

section \<open>The status machine\<close>

text \<open>The moves of the header of the module, and what each action does to a status.\<close>

inductive legal_move :: "astatus \<Rightarrow> astatus \<Rightarrow> bool" where
  lm_approve: "legal_move Pending Approved"
| lm_reject: "legal_move Pending Rejected"
| lm_cancel_pending: "legal_move Pending Cancelled"
| lm_cancel_approved: "legal_move Approved Cancelled"
| lm_claim: "legal_move Approved Deploying"
| lm_deployed: "legal_move Deploying Deployed"
| lm_failed: "legal_move Deploying Failed"
| lm_retry: "legal_move Deploying Approved"
| lm_stopped: "legal_move Deploying Cancelled"

inductive_cases legal_moveE: "legal_move a b"
inductive_simps legal_from_simps:
  "legal_move Deployed b" "legal_move Failed b" "legal_move Rejected b" "legal_move Cancelled b"
  "legal_move Pending b" "legal_move Approved b" "legal_move Deploying b"

code_pred legal_move .

definition terminal :: "astatus \<Rightarrow> bool" where
  "terminal s = (s \<in> {Deployed, Failed, Rejected, Cancelled})"

lemma terminal_absorbing: "legal_move\<^sup>*\<^sup>* a b \<Longrightarrow> terminal a \<Longrightarrow> b = a"
  by (induction rule: rtranclp_induct) (auto simp: terminal_def legal_from_simps)

definition status_at :: "row_id \<Rightarrow> cdb \<Rightarrow> astatus option" where
  "status_at aid db = map_option a_status (get_by_id aid db)"

definition apprs_ok :: "cdb \<Rightarrow> bool" where
  "apprs_ok db \<longleftrightarrow> wf_table a_id (db_apprs db)"

lemma apprs_okD: "apprs_ok db \<Longrightarrow> wf_table a_id (db_apprs db)"
  by (simp add: apprs_ok_def)

lemma get_by_id_iff:
  "apprs_ok db \<Longrightarrow> get_by_id aid db = Some a \<longleftrightarrow> a \<in> set (rows (db_apprs db)) \<and> a_id a = aid"
  by (simp add: get_by_id_def ap.get_eq_iff apprs_okD)

definition keeps_id :: "(approval \<Rightarrow> approval) \<Rightarrow> bool" where
  "keeps_id f \<longleftrightarrow> (\<forall>a. a_id (f a) = a_id a)"

lemma set_status_fields [simp]:
  "a_status (set_status now to f a) = to" "a_updated (set_status now to f a) = now"
  "keeps_id f \<Longrightarrow> a_id (set_status now to f a) = a_id a"
  by (simp_all add: set_status_def keeps_id_def)

lemma keeps_id_simps [simp]: "keeps_id no_fields"
  "keeps_id (\<lambda>a. a\<lparr>a_approver := x, a_approved_at := y\<rparr>)"
  "keeps_id (\<lambda>a. a\<lparr>a_approver := x, a_note := z, a_approved_at := y\<rparr>)"
  "keeps_id (\<lambda>a. a\<lparr>a_deploy := i\<rparr>)"
  by (simp_all add: keeps_id_def no_fields_def)

lemma transition_get:
  assumes "keeps_id f"
  shows "get_by_id j (snd (transition now aid froms to f db)) =
    map_option (\<lambda>a. if a_id a = aid \<and> a_status a \<in> set froms then set_status now to f a else a) (get_by_id j db)"
  using assms by (simp add: transition_def get_by_id_def split_beta ap.get_update)

lemma transition_ok:
  assumes "apprs_ok db"
  shows "fst (transition now aid froms to f db) \<longleftrightarrow>
    (\<exists>a. get_by_id aid db = Some a \<and> a_status a \<in> set froms)"
  using ap.count_by_key [OF apprs_okD [OF assms], of aid "\<lambda>a. a_status a \<in> set froms"]
  by (auto simp: transition_def split_beta get_by_id_def split: option.splits if_splits)

lemma transition_inv [inv_intros]:
  "apprs_ok db \<Longrightarrow> keeps_id f \<Longrightarrow> apprs_ok (snd (transition now aid froms to f db))"
  by (simp add: transition_def split_beta apprs_ok_def ap.wf_update)

lemma transition_frame [simp]:
  "db_logs (snd (transition now aid froms to f db)) = db_logs db"
  "db_rules (snd (transition now aid froms to f db)) = db_rules db"
  "db_servers (snd (transition now aid froms to f db)) = db_servers db"
  "db_config (snd (transition now aid froms to f db)) = db_config db"
  by (simp_all add: transition_def split_beta)

lemma transition_fail_id: "\<not> fst (transition now aid froms to f db) \<Longrightarrow> snd (transition now aid froms to f db) = db"
  by (simp add: transition_def split_beta update_zero_id)

interpretation am: cas_machine apprs_ok status_at "\<lambda>aid froms to. transition now aid froms to no_fields" for now
proof unfold_locales
  fix s :: cdb and k j :: row_id and fs :: "astatus list" and to :: astatus
  assume inv: "apprs_ok s"
  show "apprs_ok (snd (transition now k fs to no_fields s))" using inv by (simp add: transition_inv)
  show ok: "fst (transition now k fs to no_fields s) = (\<exists>x\<in>set fs. status_at k s = Some x)"
    using inv by (auto simp: transition_ok status_at_def)
  show "status_at j (snd (transition now k fs to no_fields s)) =
      (if j = k \<and> fst (transition now k fs to no_fields s) then Some to else status_at j s)"
  proof (cases "get_by_id j s")
    case None
    then show ?thesis using inv by (auto simp: status_at_def transition_get transition_ok)
  next
    case (Some a)
    moreover have "a_id a = j" using get_by_id_iff [OF inv] Some by blast
    ultimately show ?thesis using inv by (auto simp: status_at_def transition_get transition_ok)
  qed
qed

section \<open>What the actions do\<close>

lemma transition_hit:
  assumes "apprs_ok db" "keeps_id f" "transition now aid froms to f db = (True, db')"
  obtains a where "get_by_id aid db = Some a" "a_status a \<in> set froms"
    "get_by_id aid db' = Some (set_status now to f a)"
    "\<And>j. j \<noteq> aid \<Longrightarrow> get_by_id j db' = get_by_id j db"
proof -
  obtain a where a: "get_by_id aid db = Some a" "a_status a \<in> set froms"
    using transition_ok [OF assms(1), of now aid froms to f] assms(3) by auto
  have ids: "get_by_id j db = Some b \<Longrightarrow> a_id b = j" for j b
    using get_by_id_iff [OF assms(1)] by blast
  have db': "db' = snd (transition now aid froms to f db)" using assms(3) by simp
  have "get_by_id aid db' = Some (set_status now to f a)"
    using a ids unfolding db' by (simp add: transition_get [OF assms(2)])
  moreover have "get_by_id j db' = get_by_id j db" if "j \<noteq> aid" for j
    using ids that unfolding db' by (cases "get_by_id j db") (auto simp: transition_get [OF assms(2)])
  ultimately show thesis using a that by blast
qed

lemma transition_status:
  assumes "apprs_ok db" "keeps_id f" "transition now aid froms to f db = (True, db')"
  shows "status_at aid db' = Some to" "\<exists>x\<in>set froms. status_at aid db = Some x"
    "j \<noteq> aid \<Longrightarrow> status_at j db' = status_at j db"
  using transition_hit [OF assms] by (metis option.simps(9) set_status_fields(1) status_at_def)+

lemma ensure_not_requester_Inr:
  "ensure_not_requester a u = Inr x \<Longrightarrow> py_strip (a_requester a) \<noteq> [] \<Longrightarrow>
   py_strip (u_name u) \<noteq> py_strip (a_requester a)"
  by (auto simp: ensure_not_requester_def Let_def split: if_splits)

lemma approve_hit:
  assumes "approve st now aid u db = (Inr (True, ns), db')"
  obtains a where "get_by_id aid db = Some a" "\<exists>x. ensure_not_requester a u = Inr x"
    "can_approve st (get_rule (db_rules db) (a_project a)) u"
    "transition now aid [Pending] Approved (\<lambda>a. a\<lparr>a_approver := u_name u, a_approved_at := now\<rparr>) db = (True, db')"
  using assms
  by (auto simp: approve_def Let_def split: option.splits sum.splits if_splits prod.splits)

lemma reject_hit:
  assumes "reject st now aid u note db = (Inr (True, ns), db')"
  obtains a db1 where "get_by_id aid db = Some a" "\<exists>x. ensure_not_requester a u = Inr x"
    "can_approve st (get_rule (db_rules db) (a_project a)) u"
    "transition now aid [Pending] Rejected
       (\<lambda>a. a\<lparr>a_approver := u_name u, a_note := note, a_approved_at := now\<rparr>) db = (True, db1)"
    "db' = db1\<lparr>db_logs := mark_approval_log_terminal aid ''rejected'' (db_logs db1)\<rparr>"
  using assms
  by (auto simp: reject_def Let_def split: option.splits sum.splits if_splits prod.splits)

lemma cancel_hit:
  assumes "cancel st now aid u db = (Inr (True, ns), db')"
  obtains a db1 where "get_by_id aid db = Some a" "u_name u = a_requester a \<or> is_super st u"
    "transition now aid [Pending, Approved] Cancelled no_fields db = (True, db1)"
    "db' = db1\<lparr>db_logs := mark_approval_log_terminal aid ''cancelled'' (db_logs db1)\<rparr>"
  using assms
  by (auto simp: cancel_def Let_def split: option.splits sum.splits if_splits prod.splits)

lemma get_by_id_logs [simp]: "get_by_id j (db\<lparr>db_logs := t\<rparr>) = get_by_id j db"
  by (simp add: get_by_id_def)

lemma mark_terminal_clears:
  assumes "aid \<noteq> 0" "st \<in> {''rejected'', ''cancelled''}"
    "r \<in> set (rows (mark_approval_log_terminal aid st t))"
  shows "\<not> (d_approval r = aid \<and> d_status r = ''pending'')"
proof -
  let ?P = "\<lambda>r. d_approval r = aid \<and> d_status r = ''pending''"
  have eq: "rows (mark_approval_log_terminal aid st t) =
      List.map (\<lambda>r. if ?P r then r\<lparr>d_status := st, d_lock := None\<rparr> else r) (rows t)"
    using assms(1,2) by (simp add: mark_approval_log_terminal_def)
  obtain r0 where r: "r = (if ?P r0 then r0\<lparr>d_status := st, d_lock := None\<rparr> else r0)"
    using assms(3) unfolding eq set_map by (rule imageE)
  have "st \<noteq> ''pending''" using assms(2) by auto
  then show ?thesis using r by (cases "?P r0") simp_all
qed

lemma claim_none:
  assumes "\<And>r. r \<in> set (rows t) \<Longrightarrow> \<not> (d_approval r = aid \<and> d_status r = ''pending'')"
  shows "claim_pending_deploy_record inst now p aid t = (Inr 0, t)"
proof -
  have "t_last (\<lambda>r. d_approval r = aid \<and> d_status r = ''pending'') t = None"
    using assms by (simp add: t_last_None_iff)
  then show ?thesis by (simp add: claim_pending_deploy_record_def)
qed

text \<open>The request the gate opens: a fresh approval and a pending record that holds no lock.\<close>

definition opened ::
  "gate_args \<Rightarrow> rule option \<Rightarrow> string \<Rightarrow> row_id \<Rightarrow> cdb \<Rightarrow> cdb \<Rightarrow> bool" where
  "opened g rule sched aid db db' \<longleftrightarrow>
     aid = next_id (db_apprs db) \<and> get_by_id aid db = None \<and>
     (\<exists>a. get_by_id aid db' = Some a \<and> a_project a = ga_project g \<and> a_requester a = ga_requester g \<and>
          a_params a = SDoc (ga_params g) \<and> a_scheduled a = sched \<and>
          a_status a = (case rule of None \<Rightarrow> Approved | Some _ \<Rightarrow> Pending)) \<and>
     (\<exists>l\<in>set (rows (db_logs db')). d_approval l = aid \<and> d_status l = ''pending'' \<and> d_lock l = None \<and>
          d_project l = ga_project g) \<and>
     (\<forall>j. j \<noteq> aid \<longrightarrow> get_by_id j db' = get_by_id j db) \<and>
     (\<forall>p. find_running_deploy p (db_logs db') = find_running_deploy p (db_logs db)) \<and>
     apprs_ok db' \<and> lock_inv (db_logs db')"

lemma find_running_pending:
  assumes "lock_inv t"
  shows "find_running_deploy p (snd (create_pending_deploy_record ts g t)) = find_running_deploy p t"
  by (simp add: find_running_deploy_def create_pending_deploy_record_def split_beta t_last_def
      dlog_assign_def pending_row_def)

lemma open_request_opens:
  assumes "apprs_ok db" "lock_inv (db_logs db)" "open_request js hints ts g sched rule envs db = (aid, db')"
  shows "opened g rule sched aid db db'"
proof -
  define img where "img = resolve_display_image js hints (ga_project g) (ga_tag g)"
  define c where "c = \<lparr>c_project = ga_project g, c_tag = ga_tag g, c_image = img, c_type = ga_type g,
     c_envs = envs, c_params = SDoc (ga_params g), c_requester = ga_requester g, c_scheduled = sched,
     c_status = (if rule = None then Approved else Pending), c_approver = []\<rparr>"
  define l where "l = \<lparr>g_type = ga_type g, g_project = ga_project g, g_tag = ga_tag g, g_image = img,
     g_by = ga_requester g, g_note = or_empty (pp_deploy_note (ga_params g)), g_target = [],
     g_params = SDoc (ga_params g),
     g_rbtype = Some (str_or (or_empty (pp_rollback_type (ga_params g))) ''manual''),
     g_approval = next_id (db_apprs db)\<rparr>"
  let ?t = "fst (t_insert appr_assign (new_approval ts c) (db_apprs db))"
  let ?l = "snd (create_pending_deploy_record ts l (db_logs db))"
  have r: "aid = next_id (db_apprs db)" "db' = db\<lparr>db_apprs := ?t, db_logs := ?l\<rparr>"
    using assms(3) unfolding open_request_def Let_def create_approval_def
    by (auto simp: split_beta c_def l_def img_def)
  have wf: "wf_table a_id (db_apprs db)" using assms(1) by (rule apprs_okD)
  have "get_by_id aid db = None"
  proof (cases "get_by_id aid db")
    case (Some a)
    then have "a \<in> set (rows (db_apprs db))" "a_id a = aid" using get_by_id_iff [OF assms(1)] by simp_all
    then show ?thesis using wf r(1) by (auto simp: wf_table_def)
  qed simp
  moreover have "get_by_id aid db' = Some (appr_assign aid (new_approval ts c))"
    using wf r by (simp add: get_by_id_def)
  moreover have "j \<noteq> aid \<Longrightarrow> get_by_id j db' = get_by_id j db" for j
    using r by (simp add: get_by_id_def ap.get_insert_other)
  moreover have "apprs_ok db'" using r wf by (simp add: apprs_ok_def ap.wf_insert)
  moreover have "lock_inv (db_logs db')" using r create_pending_inv [OF assms(2)] by simp
  moreover have "find_running_deploy p (db_logs db') = find_running_deploy p (db_logs db)" for p
    using r find_running_pending [OF assms(2)] by simp
  moreover have "rows (db_logs db') = rows (db_logs db) @ [dlog_assign (next_id (db_logs db)) (pending_row ts l)]"
    using r by (simp add: create_pending_deploy_record_def split_beta)
  ultimately show ?thesis using r(1)
    by (auto simp: opened_def appr_assign_def new_approval_def c_def l_def pending_row_def dlog_assign_def
        split: option.splits)
qed

definition sample_approval :: approval where
  "sample_approval = \<lparr>a_id = 1, a_project = ''web'', a_tag = ''v1'', a_image = [], a_type = ''ssh'',
     a_envs = ''prod'', a_params = SDoc empty_params, a_status = Pending, a_requester = ''bob'',
     a_approver = [], a_note = [], a_deploy = 0, a_created = [], a_approved_at = [], a_scheduled = [],
     a_updated = []\<rparr>"

definition sample_db :: cdb where
  "sample_db = \<lparr>db_logs = \<lparr>rows = [(pending_row [] sample_args)\<lparr>d_id := 1, d_approval := 1\<rparr>], next_id = 2\<rparr>,
     db_apprs = \<lparr>rows = [sample_approval], next_id = 2\<rparr>, db_rules = sample_rules,
     db_servers = sample_servers, db_config = []\<rparr>"

definition amy :: user where
  "amy = \<lparr>u_name = ''amy'', u_role = ''dev'', u_perms = []\<rparr>"

definition bob :: user where
  "bob = \<lparr>u_name = ''bob'', u_role = ''dev'', u_perms = [''cd.deploy-manage'']\<rparr>"

lemma sample_db_ok: "apprs_ok sample_db" "lock_inv (db_logs sample_db)"
  by (auto simp: apprs_ok_def lock_inv_def wf_table_def uniq_ok_def sample_db_def sample_approval_def
      pending_row_def sample_args_def)

section \<open>Properties\<close>

text \<open>Approving is a second pair of eyes: an approval takes effect only on a pending
  request, by someone other than its requester who has the authority, and then exactly that
  request becomes approved with the approver recorded; no other record changes.\<close>

theorem approve_four_eyes:
  assumes "apprs_ok db" "approve st now aid u db = (Inr (True, ns), db')"
  shows "\<exists>a. get_by_id aid db = Some a \<and> a_status a = Pending
    \<and> (py_strip (a_requester a) = [] \<or> py_strip (u_name u) \<noteq> py_strip (a_requester a))
    \<and> can_approve st (get_rule (db_rules db) (a_project a)) u
    \<and> get_by_id aid db' = Some (a\<lparr>a_status := Approved, a_approver := u_name u, a_approved_at := now, a_updated := now\<rparr>)
    \<and> (\<forall>j. j \<noteq> aid \<longrightarrow> get_by_id j db' = get_by_id j db) \<and> db_logs db' = db_logs db"
proof -
  obtain a where a: "get_by_id aid db = Some a" "\<exists>x. ensure_not_requester a u = Inr x"
    "can_approve st (get_rule (db_rules db) (a_project a)) u"
    and t: "transition now aid [Pending] Approved (\<lambda>a. a\<lparr>a_approver := u_name u, a_approved_at := now\<rparr>) db = (True, db')"
    using assms(2) by (rule approve_hit)
  have logs: "db_logs db' = db_logs db" using transition_frame(1) t by (metis snd_conv)
  from assms(1) _ t show ?thesis
  proof (rule transition_hit)
    fix b assume b: "get_by_id aid db = Some b" "a_status b \<in> set [Pending]"
      "get_by_id aid db' = Some (set_status now Approved (\<lambda>a. a\<lparr>a_approver := u_name u, a_approved_at := now\<rparr>) b)"
      "\<And>j. j \<noteq> aid \<Longrightarrow> get_by_id j db' = get_by_id j db"
    have "b = a" using a(1) b(1) by simp
    then show ?thesis using a b logs ensure_not_requester_Inr
      by (intro exI [of _ a]) (auto simp: set_status_def)
  qed simp
qed

lemma sample_approve: "fst (approve default_settings ''t'' 1 amy sample_db) = Inr (True, [])"
  by code_simp

theorem approve_four_eyes_witness:
  "\<exists>a. get_by_id 1 (snd (approve default_settings ''t'' 1 amy sample_db)) = Some a \<and> a_status a = Approved"
proof -
  have "approve default_settings ''t'' 1 amy sample_db =
      (Inr (True, []), snd (approve default_settings ''t'' 1 amy sample_db))"
    using sample_approve by (metis prod.collapse)
  from approve_four_eyes [OF sample_db_ok(1) this] show ?thesis by auto
qed

text \<open>Rejecting and cancelling close a request for good: the request is rejected (cancelled),
  and no pending deployment record of it is left, so nothing can be claimed for it any more.\<close>

theorem close_leaves_nothing_to_claim:
  assumes "apprs_ok db" "0 < aid"
    and "reject st now aid u note db = (Inr (True, ns), db') \<and> final = Rejected \<or>
         cancel st now aid u db = (Inr (True, ns), db') \<and> final = Cancelled"
  shows "status_at aid db' = Some final \<and> status_at aid db \<in> {Some Pending, Some Approved}
    \<and> claim_pending_deploy_record inst t p aid (db_logs db') = (Inr 0, db_logs db')"
  using assms(3)
proof
  assume "reject st now aid u note db = (Inr (True, ns), db') \<and> final = Rejected"
  then obtain db1 where t: "transition now aid [Pending] Rejected
       (\<lambda>a. a\<lparr>a_approver := u_name u, a_note := note, a_approved_at := now\<rparr>) db = (True, db1)"
    and db': "db' = db1\<lparr>db_logs := mark_approval_log_terminal aid ''rejected'' (db_logs db1)\<rparr>" "final = Rejected"
    using reject_hit by metis
  have "claim_pending_deploy_record inst t p aid (db_logs db') = (Inr 0, db_logs db')"
    using assms(2) unfolding db' by (intro claim_none) (auto dest!: mark_terminal_clears [rotated 2])
  moreover have "status_at aid db' = status_at aid db1" unfolding db' by (simp add: status_at_def)
  ultimately show ?thesis using transition_status(1,2) [OF assms(1) _ t] db'(2) by simp
next
  assume "cancel st now aid u db = (Inr (True, ns), db') \<and> final = Cancelled"
  then obtain db1 where t: "transition now aid [Pending, Approved] Cancelled no_fields db = (True, db1)"
    and db': "db' = db1\<lparr>db_logs := mark_approval_log_terminal aid ''cancelled'' (db_logs db1)\<rparr>" "final = Cancelled"
    using cancel_hit by metis
  have "claim_pending_deploy_record inst t p aid (db_logs db') = (Inr 0, db_logs db')"
    using assms(2) unfolding db' by (intro claim_none) (auto dest!: mark_terminal_clears [rotated 2])
  moreover have "status_at aid db' = status_at aid db1" unfolding db' by (simp add: status_at_def)
  ultimately show ?thesis using transition_status(1,2) [OF assms(1) _ t] db'(2) by auto
qed

lemma sample_cancel: "fst (cancel default_settings ''t'' 1 bob sample_db) = Inr (True, [])"
  by code_simp

theorem close_leaves_nothing_to_claim_witness:
  "status_at 1 (snd (cancel default_settings ''t'' 1 bob sample_db)) = Some Cancelled"
proof -
  have "cancel default_settings ''t'' 1 bob sample_db =
      (Inr (True, []), snd (cancel default_settings ''t'' 1 bob sample_db))"
    using sample_cancel by (metis prod.collapse)
  with close_leaves_nothing_to_claim [OF sample_db_ok(1), of 1 default_settings "''t''" bob] show ?thesis
    by fastforce
qed

text \<open>What the gate has to find out: the rule that governs the project, whether the selection of
  servers names none although it is not empty, and whether a chosen server lies in an environment of the rule
  (a rule without environments covers all).\<close>

definition governs :: "cdb \<Rightarrow> gate_args \<Rightarrow> rule \<Rightarrow> bool" where
  "governs db g r \<longleftrightarrow> get_rule (db_rules db) (ga_project g) = Some r \<and> r_enabled r \<and> (ga_rollback g \<longrightarrow> r_rollback r)"

definition names_no_server :: "gate_args \<Rightarrow> bool" where
  "names_no_server g \<longleftrightarrow> py_strip (ga_server_ids g) \<noteq> [] \<and> parse_server_ids (py_strip (ga_server_ids g)) = []"

definition selected_servers :: "cdb \<Rightarrow> gate_args \<Rightarrow> server set" where
  "selected_servers db g = {s \<in> set (rows (db_servers db)).
     py_strip (ga_server_ids g) = [] \<or> s_id s \<in> set (parse_server_ids (py_strip (ga_server_ids g)))}"

definition in_scope :: "cdb \<Rightarrow> gate_args \<Rightarrow> rule \<Rightarrow> bool" where
  "in_scope db g r \<longleftrightarrow> parse_csv (r_envs r) = []
     \<or> (\<exists>s \<in> selected_servers db g. set (parse_csv (s_tags s)) \<inter> set (parse_csv (r_envs r)) \<noteq> {})"

text \<open>An approval or a schedule is due; the request is refused.\<close>

definition asks_approval :: "cdb \<Rightarrow> gate_args \<Rightarrow> rule option \<Rightarrow> bool" where
  "asks_approval db g rule \<longleftrightarrow> (case rule of Some r \<Rightarrow> governs db g r \<and> in_scope db g r | None \<Rightarrow> \<forall>r. governs db g r \<longrightarrow> \<not> in_scope db g r)"

definition gate_raises :: "cdb \<Rightarrow> gate_args \<Rightarrow> bool" where
  "gate_raises db g \<longleftrightarrow> (\<forall>sched. parse_scheduled_at (ga_scheduled g) \<noteq> Inr sched)
     \<or> names_no_server g \<and> (parse_scheduled_at (ga_scheduled g) \<noteq> Inr [] \<or> (\<exists>r. governs db g r))"

lemma resolve_target_envs_chosen:
  "resolve_target_envs (db_servers db) (ga_server_ids g) = Inl e \<Longrightarrow> names_no_server g \<and> e = deploy_validation"
  "resolve_target_envs (db_servers db) (ga_server_ids g) = Inr envs \<Longrightarrow>
     \<not> names_no_server g \<and> set envs = (\<Union>s \<in> selected_servers db g. set (parse_csv (s_tags s)))"
  by (auto simp: resolve_target_envs_def names_no_server_def selected_servers_def envs_of_def t_where_def Let_def split: if_splits)

lemma approval_required_governs:
  "(\<nexists>r. governs db g r) \<Longrightarrow>
     approval_required (db_rules db) (db_servers db) (ga_project g) (ga_server_ids g) (ga_rollback g) = Inr None"
  "governs db g r \<Longrightarrow> approval_required (db_rules db) (db_servers db) (ga_project g) (ga_server_ids g) (ga_rollback g) =
     (if parse_csv (r_envs r) = [] then Inr (Some r)
      else case resolve_target_envs (db_servers db) (ga_server_ids g) of
             Inl e \<Rightarrow> Inl e
           | Inr envs \<Rightarrow> if list_ex (\<lambda>x. x \<in> set envs) (parse_csv (r_envs r)) then Inr (Some r) else Inr None)"
  by (auto simp: approval_required_def governs_def Let_def split: option.splits)

lemma governs_one: "governs db g r \<Longrightarrow> governs db g q \<longleftrightarrow> q = r"
  by (auto simp: governs_def)

lemma approval_required_asks:
  "approval_required (db_rules db) (db_servers db) (ga_project g) (ga_server_ids g) (ga_rollback g) = Inl e \<Longrightarrow>
     names_no_server g \<and> (\<exists>r. governs db g r)" (is "?a = Inl e \<Longrightarrow> _")
  "approval_required (db_rules db) (db_servers db) (ga_project g) (ga_server_ids g) (ga_rollback g) = Inr rule \<Longrightarrow>
     asks_approval db g rule \<and> (names_no_server g \<longrightarrow> rule \<noteq> None \<or> (\<nexists>r. governs db g r))"
proof -
  show "names_no_server g \<and> (\<exists>r. governs db g r)" if raised: "?a = Inl e"
  proof (cases "\<exists>r. governs db g r")
    case False
    then show ?thesis using approval_required_governs(1) [OF False] raised by simp
  next
    case True
    then obtain r where r: "governs db g r" by blast
    then show ?thesis using raised unfolding approval_required_governs(2) [OF r]
      by (auto split: if_splits sum.splits dest: resolve_target_envs_chosen(1))
  qed
  show "asks_approval db g rule \<and> (names_no_server g \<longrightarrow> rule \<noteq> None \<or> (\<nexists>r. governs db g r))" if given: "?a = Inr rule"
  proof (cases "\<exists>r. governs db g r")
    case False
    then show ?thesis using approval_required_governs(1) [OF False] given by (auto simp: asks_approval_def)
  next
    case True
    then obtain r where r: "governs db g r" by blast
    show ?thesis
    proof (cases "parse_csv (r_envs r) = []")
      case True
      then show ?thesis using given r unfolding approval_required_governs(2) [OF r] by (auto simp: asks_approval_def in_scope_def)
    next
      case False
      then obtain envs where envs: "resolve_target_envs (db_servers db) (ga_server_ids g) = Inr envs"
          "rule = (if list_ex (\<lambda>x. x \<in> set envs) (parse_csv (r_envs r)) then Some r else None)"
        using given unfolding approval_required_governs(2) [OF r] by (auto split: sum.splits if_splits)
      note c = resolve_target_envs_chosen(2) [OF envs(1)]
      have "list_ex (\<lambda>x. x \<in> set envs) (parse_csv (r_envs r)) \<longleftrightarrow> in_scope db g r"
        unfolding conjunct2 [OF c] using False by (auto simp: list_ex_iff in_scope_def)
      then show ?thesis using c r envs(2) governs_one [OF r] by (auto simp: asks_approval_def)
    qed
  qed
qed

lemma gate_outcome:
  assumes "apprs_ok db" "lock_inv (db_logs db)" "gate_deploy js hints ts g db = (r, db')"
  shows "((\<exists>e. r = Inl e) \<longleftrightarrow> gate_raises db g)
    \<and> (r = Inr None \<longleftrightarrow> \<not> gate_raises db g \<and> asks_approval db g None \<and> parse_scheduled_at (ga_scheduled g) = Inr [])
    \<and> (case r of
        Inr (Some gr) \<Rightarrow> \<exists>sched rule. parse_scheduled_at (ga_scheduled g) = Inr sched \<and> asks_approval db g rule
          \<and> (rule \<noteq> None \<or> sched \<noteq> []) \<and> opened g rule sched (gr_approval gr) db db'
      | _ \<Rightarrow> db' = db)"
proof -
  let ?t = "parse_scheduled_at (ga_scheduled g)"
  let ?a = "approval_required (db_rules db) (db_servers db) (ga_project g) (ga_server_ids g) (ga_rollback g)"
  consider (time) e where "?t = Inl e"
    | (servers) sched e where "?t = Inr sched" "?a = Inl e"
    | (pass) "?t = Inr []" "?a = Inr None"
    | (envs) sched rule e where "?t = Inr sched" "?a = Inr rule" "rule \<noteq> None \<or> sched \<noteq> []"
        "resolve_target_envs (db_servers db) (ga_server_ids g) = Inl e"
    | (opens) sched rule envs where "?t = Inr sched" "?a = Inr rule" "rule \<noteq> None \<or> sched \<noteq> []"
        "resolve_target_envs (db_servers db) (ga_server_ids g) = Inr envs"
    by (metis old.sum.exhaust)
  then show ?thesis
  proof cases
    case time
    then show ?thesis using assms(3) by (auto simp: gate_deploy_def gate_raises_def)
  next
    case servers
    then show ?thesis using assms(3) approval_required_asks(1) [OF servers(2)] by (auto simp: gate_deploy_def gate_raises_def)
  next
    case pass
    then show ?thesis using assms(3) approval_required_asks(2) [OF pass(2)] by (auto simp: gate_deploy_def gate_raises_def)
  next
    case envs
    have "r = Inl e" "db' = db" using envs assms(3) by (auto simp: gate_deploy_def)
    moreover have "names_no_server g" using resolve_target_envs_chosen(1) [OF envs(4)] by simp
    moreover have "sched = [] \<Longrightarrow> \<exists>r. governs db g r"
      using approval_required_asks(2) [OF envs(2)] envs(3) by (auto simp: asks_approval_def split: option.splits)
    ultimately show ?thesis using envs(1) by (auto simp: gate_raises_def)
  next
    case opens
    have "\<exists>gr. open_request js hints ts g sched rule envs db = (gr_approval gr, db') \<and> r = Inr (Some gr)"
      using opens assms(3) by (auto simp: gate_deploy_def split: prod.splits)
    then obtain gr where o: "open_request js hints ts g sched rule envs db = (gr_approval gr, db')" "r = Inr (Some gr)" by blast
    have n: "\<not> names_no_server g" using resolve_target_envs_chosen(2) [OF opens(4)] by simp
    have asks: "asks_approval db g rule" using approval_required_asks(2) [OF opens(2)] by simp
    have "opened g rule sched (gr_approval gr) db db'" using open_request_opens [OF assms(1,2) o(1)] .
    then have "\<exists>sched rule. parse_scheduled_at (ga_scheduled g) = Inr sched \<and> asks_approval db g rule
          \<and> (rule \<noteq> None \<or> sched \<noteq> []) \<and> opened g rule sched (gr_approval gr) db db'" using opens(1,3) asks by blast
    moreover have "\<not> (asks_approval db g None \<and> sched = [])" using asks opens(3) by (auto simp: asks_approval_def split: option.splits)
    ultimately show ?thesis using opens(1) o(2) n by (simp add: gate_raises_def)
  qed
qed

text \<open>The records after a request is opened: those from before, and the pending one.\<close>

lemma opened_records:
  assumes "gate_deploy js hints ts g db = (Inr (Some gr), db')"
  shows "\<exists>l. rows (db_logs db') = rows (db_logs db) @ [l] \<and> d_status l = ''pending''"
proof -
  have logs: "db_logs (snd (create_approval ts c db)) = db_logs db" for c by (simp add: create_approval_def split_beta)
  obtain sched rule envs aid where "open_request js hints ts g sched rule envs db = (aid, db')"
    using assms by (auto simp: gate_deploy_def split: sum.splits if_splits prod.splits)
  then have "db' = snd (open_request js hints ts g sched rule envs db)" by simp
  then show ?thesis
    by (auto simp: open_request_def Let_def split_beta logs create_pending_deploy_record_def dlog_assign_def pending_row_def)
qed


definition sample_gate_args :: gate_args where
  "sample_gate_args = \<lparr>ga_project = ''web'', ga_tag = ''v2'', ga_type = ''ssh'', ga_server_ids = ''1'',
     ga_params = empty_params, ga_requester = ''bob'', ga_rollback = False, ga_scheduled = []\<rparr>"


end
