(* ===== verification/Deployers.thy ===== *)
theory Deployers
  imports Data Settings
begin

text \<open>
  The parts of \<^verbatim>\<open>backend/deployers/\<close> that every strategy shares
  (\<^verbatim>\<open>base.py\<close>, \<^verbatim>\<open>registry.py\<close>) and the SSH strategy (\<^verbatim>\<open>ssh.py\<close>):
  img references, the tag whitelist, bounded retries, the cleaning of streamed output, the
  registry of strategies, and the commands that are built for the remote shell. What the remote
  machine does with a command is a parameter. The connection itself is in theory
  SshConnect; here a failed one is one of the answers of the parameter.
  \<^verbatim>\<open>shlex.quote\<close> and the part of the shell's word splitting it relies on are the
  functions \<open>sh_quote\<close> and \<open>sh_split\<close>.
\<close>

section \<open>Image references and tags\<close>

text \<open>\<^verbatim>\<open>rpartition(":")\<close>: the last colon.\<close>

definition split_image_ref :: "string \<Rightarrow> string \<times> string" where
  "split_image_ref img =
     (if CHR '':'' \<in> set img
      then (rev (tl (dropWhile (\<lambda>c. c \<noteq> CHR '':'') (rev img))),
            rev (takeWhile (\<lambda>c. c \<noteq> CHR '':'') (rev img)))
      else (img, []))"

definition tag_first :: "char \<Rightarrow> bool" where
  "tag_first c = (is_upper c \<or> is_lower c \<or> is_digit c \<or> c = CHR ''_'')"

definition tag_char :: "char \<Rightarrow> bool" where
  "tag_char c = (tag_first c \<or> c = CHR ''.'' \<or> c = CHR ''-'')"

definition oci_tag :: "string \<Rightarrow> bool" where
  "oci_tag s = (s \<noteq> [] \<and> tag_first (hd s) \<and> list_all tag_char (tl s) \<and> length s \<le> 128)"

text \<open>\<^verbatim>\<open>re.match\<close> with a pattern that ends in \<^verbatim>\<open>$\<close>: the end of the string, or a
  newline that ends it.\<close>

definition newline :: char where
  "newline = CHR 0x0A"

definition tag_re :: "string \<Rightarrow> bool" where
  "tag_re s = (oci_tag s \<or> (s \<noteq> [] \<and> last s = newline \<and> oci_tag (butlast s)))"

definition validate_tag :: "string \<Rightarrow> string result" where
  "validate_tag tag = (if tag_re tag then Inr tag else Inl InvalidTag)"

section \<open>Bounded retries\<close>

text \<open>\<open>func k\<close> is the result of the \<open>k\<close>-th execution with its exit code; the answer is the
  result and the numbers \<^verbatim>\<open>log_fn\<close> was called with. The loop
  \<^verbatim>\<open>for attempt in range(1, attempts + 1)\<close> is the recursion over the attempts left;
  \<open>None\<close> is the failed assertion on \<^verbatim>\<open>attempts < 1\<close>.\<close>

fun retry_loop :: "(nat \<Rightarrow> 'a \<times> int) \<Rightarrow> nat \<Rightarrow> nat \<Rightarrow> ('a \<times> int) option \<Rightarrow> nat list
    \<Rightarrow> (('a \<times> int) \<times> nat list) option" where
  "retry_loop func attempt 0 prev logged =
     (case prev of None \<Rightarrow> None | Some r \<Rightarrow> Some (r, logged))"
| "retry_loop func attempt (Suc left) prev logged =
     (let logged' = (if 1 < attempt then logged @ [attempt] else logged);
          result = func attempt
      in if snd result = 0 then Some (result, logged')
         else retry_loop func (Suc attempt) left (Some result) logged')"

definition retry_idempotent :: "(nat \<Rightarrow> 'a \<times> int) \<Rightarrow> int \<Rightarrow> (('a \<times> int) \<times> nat list) option" where
  "retry_idempotent func attempts = retry_loop func 1 (nat attempts) None []"

section \<open>Streamed output\<close>

definition esc_char :: char where
  "esc_char = CHR 0x1B"

definition carriage_return :: char where
  "carriage_return = CHR 0x0D"

text \<open>An escape sequence: ESC, \<^verbatim>\<open>[\<close>, digits, semicolons or question marks, a letter.
  \<open>ansi_tail\<close> is what follows one, when the text after ESC completes it.\<close>

definition ansi_tail :: "string \<Rightarrow> string option" where
  "ansi_tail s =
     (if starts_with ''['' s
      then (case dropWhile (\<lambda>c. is_digit c \<or> c = CHR '';'' \<or> c = CHR ''?'') (tl s) of
              [] \<Rightarrow> None
            | c # rest \<Rightarrow> if is_upper c \<or> is_lower c then Some rest else None)
      else None)"

lemma ansi_tail_length: "ansi_tail s = Some r \<Longrightarrow> length r < length s"
  using length_dropWhile_le [of "\<lambda>c. is_digit c \<or> c = CHR '';'' \<or> c = CHR ''?''" "tl s"]
  by (auto simp: ansi_tail_def split: if_splits list.splits)

function strip_ansi :: "string \<Rightarrow> string" where
  "strip_ansi [] = []"
| "strip_ansi (c # s) =
     (if c = esc_char
      then (case ansi_tail s of Some r \<Rightarrow> strip_ansi r | None \<Rightarrow> c # strip_ansi s)
      else c # strip_ansi s)"
  by pat_completeness auto
termination
  by (relation "measure length") (auto dest: ansi_tail_length)

text \<open>\<^verbatim>\<open>\[[=> ]+\]\<close> somewhere in a segment.\<close>

definition bar_char :: "char \<Rightarrow> bool" where
  "bar_char c = (c = CHR ''='' \<or> c = CHR ''>'' \<or> c = CHR '' '')"

fun is_bar :: "string \<Rightarrow> bool" where
  "is_bar [] = False"
| "is_bar (c # s) =
     ((c = CHR ''['' \<and> s \<noteq> [] \<and> bar_char (hd s) \<and> starts_with '']'' (dropWhile bar_char s)) \<or> is_bar s)"

text \<open>The segments kept so far are reversed, the last one first.\<close>

fun keep_segments :: "string list \<Rightarrow> string list \<Rightarrow> string list" where
  "keep_segments kept [] = rev kept"
| "keep_segments [] (seg # segs) = keep_segments [seg] segs"
| "keep_segments (prev # kept) (seg # segs) =
     (if is_bar seg \<and> is_bar prev then keep_segments (seg # kept) segs
      else keep_segments (seg # prev # kept) segs)"

definition clean_line :: "string \<Rightarrow> string" where
  "clean_line line0 =
     (let line = strip_ansi line0
      in if carriage_return \<notin> set line then line
         else let segments = filter (\<lambda>p. p \<noteq> []) (List.map py_strip (split_on carriage_return line))
              in case segments of
                   [] \<Rightarrow> []
                 | [s] \<Rightarrow> s
                 | _ \<Rightarrow> py_join [newline] (keep_segments [] segments))"

definition lines_of :: "string \<Rightarrow> string list" where
  "lines_of data = filter (\<lambda>l. l \<noteq> []) (List.map clean_line (split_on newline data))"

text \<open>One turn of the loop that waits for the exit status: the answer of the cancellation
  checker and the blocks that had arrived on the two channels.\<close>

record poll =
  po_cancel :: bool
  po_out :: "string option"
  po_err :: "string option"

definition block_lines :: "string option \<Rightarrow> string list" where
  "block_lines b = (case b of None \<Rightarrow> [] | Some d \<Rightarrow> lines_of d)"

fun stream_polls :: "poll list \<Rightarrow> string list option" where
  "stream_polls [] = Some []"
| "stream_polls (p # ps) =
     (if po_cancel p then None
      else map_option (\<lambda>rest. block_lines (po_out p) @ block_lines (po_err p) @ rest) (stream_polls ps))"

text \<open>After the exit status: up to five rounds of blocks that came late, ended by an empty
  round. A status that cannot be read counts as 1.\<close>

definition stream_residual :: "(string list \<times> string list) list \<Rightarrow> string list" where
  "stream_residual rounds =
     concat (List.map (\<lambda>(os, es). concat (List.map lines_of os) @ concat (List.map lines_of es))
       (takeWhile (\<lambda>r. r \<noteq> ([], [])) (take 5 rounds)))"

record stream =
  sm_polls :: "poll list"
  sm_exit :: "int option"
  sm_residual :: "(string list \<times> string list) list"

definition ssh_exec_stream :: "stream \<Rightarrow> (string \<times> int) result" where
  "ssh_exec_stream s =
     (case stream_polls (sm_polls s) of
        None \<Rightarrow> Inl DeployCancelled
      | Some ls \<Rightarrow> Inr (py_join [newline] (ls @ stream_residual (sm_residual s)),
          case sm_exit s of None \<Rightarrow> 1 | Some c \<Rightarrow> c))"

section \<open>Quoting for the remote shell\<close>

definition sh_safe :: "char \<Rightarrow> bool" where
  "sh_safe c = (is_upper c \<or> is_lower c \<or> is_digit c \<or> c \<in> set ''_@%+=:,./-'')"

definition quote_char :: char where
  "quote_char = CHR 0x27"

definition dquote :: char where
  "dquote = CHR 0x22"

definition quote_body :: "string \<Rightarrow> string" where
  "quote_body s =
     concat (List.map (\<lambda>c. if c = quote_char then [quote_char, dquote, quote_char, dquote, quote_char] else [c]) s)"

definition sh_quote :: "string \<Rightarrow> string" where
  "sh_quote s =
     (if s = [] then [quote_char, quote_char]
      else if list_all sh_safe s then s
      else quote_char # quote_body s @ [quote_char])"

text \<open>How the shell reads a command: words separated by blanks, made of plain characters,
  text in single quotes, and text in double quotes that holds nothing to expand. \<open>None\<close> is
  a command that uses any other feature of the shell (an operator, an expansion, a glob, a
  newline, an open quote).\<close>

datatype sh_mode = Bare | Single | Double

fun sh_split :: "sh_mode \<Rightarrow> string option \<Rightarrow> string \<Rightarrow> string list option" where
  "sh_split Bare w [] = Some (case w of None \<Rightarrow> [] | Some x \<Rightarrow> [rev x])"
| "sh_split Bare w (c # s) =
     (if c = CHR '' '' then map_option (\<lambda>ws. (case w of None \<Rightarrow> [] | Some x \<Rightarrow> [rev x]) @ ws) (sh_split Bare None s)
      else if c = quote_char then sh_split Single (Some (case w of None \<Rightarrow> [] | Some x \<Rightarrow> x)) s
      else if c = dquote then sh_split Double (Some (case w of None \<Rightarrow> [] | Some x \<Rightarrow> x)) s
      else if sh_safe c then sh_split Bare (Some (c # (case w of None \<Rightarrow> [] | Some x \<Rightarrow> x))) s
      else None)"
| "sh_split Single w [] = None"
| "sh_split Single w (c # s) =
     (if c = quote_char then sh_split Bare w s
      else sh_split Single (Some (c # (case w of None \<Rightarrow> [] | Some x \<Rightarrow> x))) s)"
| "sh_split Double w [] = None"
| "sh_split Double w (c # s) =
     (if c = dquote then sh_split Bare w s
      else if c \<in> set ''$`!'' \<or> c = CHR 0x5C then None
      else sh_split Double (Some (c # (case w of None \<Rightarrow> [] | Some x \<Rightarrow> x))) s)"

text \<open>\<^verbatim>\<open>s.replace(old, new)\<close> for a non-empty \<open>old\<close>.\<close>

function py_replace :: "string \<Rightarrow> string \<Rightarrow> string \<Rightarrow> string" where
  "py_replace old new [] = []"
| "py_replace old new (c # s) =
     (if old \<noteq> [] \<and> starts_with old (c # s)
      then new @ py_replace old new (drop (length old - 1) s)
      else c # py_replace old new s)"
  by pat_completeness auto
termination
  by (relation "measure (\<lambda>(_, _, s). length s)") auto

section \<open>Targets and strategies\<close>

record options =
  o_commands :: "string option"
  o_inventory :: "string option"
  o_yaml :: "string option"
  o_namespace :: "string option"
  o_deployment :: "string option"
  o_container :: "string option"
  o_env_file :: "string option"

definition no_options :: options where
  "no_options = \<lparr>o_commands = None, o_inventory = None, o_yaml = None, o_namespace = None,
     o_deployment = None, o_container = None, o_env_file = None\<rparr>"

record target =
  tg_host :: string
  tg_port :: int
  tg_user :: string
  tg_password :: string
  tg_key :: string
  tg_path :: string
  tg_mode :: string
  tg_options :: options

text \<open>What a strategy returns, or the exception that leaves it.\<close>

record deploy_result =
  dr_status :: string
  dr_output :: string

definition deploy_failed :: "string \<Rightarrow> deploy_result" where
  "deploy_failed out = \<lparr>dr_status = ''failed'', dr_output = out\<rparr>"

text \<open>\<^verbatim>\<open>registry.py\<close> with the names that \<^verbatim>\<open>deployers/__init__.py\<close> registers.\<close>

definition deployer_names :: "string list" where
  "deployer_names = [''ssh'', ''compose'', ''k8s'', ''k8s/kubectl'', ''k8s/argocd'', ''k8s/helm'', ''k8s/fluxcd'']"

definition is_registered :: "string \<Rightarrow> bool" where
  "is_registered name = (name \<in> set deployer_names)"

definition create_deployer :: "string \<Rightarrow> string result" where
  "create_deployer name = (if is_registered name then Inr name else Inl ValueError)"

text \<open>\<^verbatim>\<open>validate\<close> of the three strategies that \<^verbatim>\<open>DeployService\<close> uses;
  \<open>None\<close> is a target in order.\<close>

definition validate_ssh :: "target \<Rightarrow> string option" where
  "validate_ssh t =
     (if tg_host t = [] then Some ''SSH target host is required''
      else if tg_mode t = ''ansible''
      then (if tg_path t = [] then Some ''Ansible playbook path is required'' else None)
      else if or_empty (o_commands (tg_options t)) = [] then Some ''Deploy commands are required''
      else None)"

definition validate_compose :: "target \<Rightarrow> string option" where
  "validate_compose t =
     (if tg_host t = [] then Some ''SSH target host is required''
      else if tg_mode t = ''commands''
      then (if or_empty (o_commands (tg_options t)) = [] then Some ''Custom commands are required'' else None)
      else if tg_path t = [] then Some ''Compose path is required''
      else None)"

definition validate_k8s :: "target \<Rightarrow> string option" where
  "validate_k8s t = (if tg_host t = [] then Some ''K8s node host is required'' else None)"

definition validate_target :: "string \<Rightarrow> target \<Rightarrow> string option" where
  "validate_target deploy_type t =
     (if deploy_type = ''ssh'' then validate_ssh t
      else if deploy_type = ''compose'' then validate_compose t
      else validate_k8s t)"

section \<open>The SSH strategy\<close>

text \<open>The placeholders of a user template, each replaced by a quoted value. \<open>expand_template\<close>
  is the chain of replacements that the SSH strategy (deploy and stop) and the compose strategy
  (commands mode) share.\<close>

definition expand_template :: "string \<Rightarrow> string \<Rightarrow> string \<Rightarrow> string \<Rightarrow> string \<Rightarrow> string" where
  "expand_template template img image_name project tag =
     py_replace ''{project}'' (sh_quote project)
      (py_replace ''{tag}'' (sh_quote tag)
        (py_replace ''{image_name}'' (sh_quote image_name)
          (py_replace ''{image}'' (sh_quote img) template)))"

definition apostrophed :: "string \<Rightarrow> string" where
  "apostrophed s = [quote_char] @ s @ [quote_char]"

definition build_commands :: "target \<Rightarrow> string \<Rightarrow> string \<Rightarrow> string \<Rightarrow> string" where
  "build_commands t img project tag =
     (let template = or_empty (o_commands (tg_options t))
      in if template = [] then ''echo '' @ apostrophed ''ERROR: Custom commands not configured'' @ '' && exit 1''
         else expand_template template img (fst (split_image_ref img)) project tag)"

definition build_ansible :: "target \<Rightarrow> string \<Rightarrow> string \<Rightarrow> string \<Rightarrow> string" where
  "build_ansible t img project tag =
     (if tg_path t = [] then ''echo '' @ apostrophed ''ERROR: Missing Ansible playbook path'' @ '' && exit 1''
      else let inv = or_empty (o_inventory (tg_options t));
               inv_flag = (if inv = [] then [] else ''-i '' @ sh_quote inv)
           in py_strip (''ansible-playbook '' @ inv_flag @ '' '' @ sh_quote (tg_path t)
                @ '' -e image='' @ sh_quote img @ '' -e tag='' @ sh_quote tag
                @ '' -e project='' @ sh_quote project))"

text \<open>The remote machine: what the session answers to a command, or the text of the exception
  that the connection or the command raised.\<close>

type_synonym ssh_answer = "string + stream"

definition ssh_deploy ::
  "(string \<Rightarrow> ssh_answer) \<Rightarrow> target \<Rightarrow> string \<Rightarrow> string \<Rightarrow> string \<Rightarrow> deploy_result result" where
  "ssh_deploy remote t img project tag =
     (if tg_host t = [] then Inr (deploy_failed ''Missing target host'')
      else let cmd = (if tg_mode t = ''ansible'' then build_ansible t img project tag
                      else build_commands t img project tag)
           in case remote cmd of
                Inl text \<Rightarrow> Inr (deploy_failed text)
              | Inr s \<Rightarrow>
                  (case ssh_exec_stream s of
                     Inl e \<Rightarrow> Inl e
                   | Inr (out, code) \<Rightarrow>
                       Inr \<lparr>dr_status = (if code = 0 then ''ok'' else ''failed''), dr_output = out\<rparr>))"

text \<open>Stopping: the answer is success and output. \<open>remote\<close> answers output, error output
  and exit status of a plain command, or \<open>None\<close> when it raises.\<close>

definition ssh_stop ::
  "(string \<Rightarrow> (string \<times> string \<times> int) option) \<Rightarrow> nat \<Rightarrow> string \<Rightarrow> string \<Rightarrow> string \<Rightarrow> bool \<times> string" where
  "ssh_stop remote trunc commands project tag =
     (if commands = [] then (False, ''SSH stop: no stop commands configured'')
      else let img = project @ '':'' @ tag;
               image_name = (if CHR ''/'' \<in> set project then last (split_on (CHR ''/'') project) else project)
           in case remote (expand_template commands img image_name project tag) of
                None \<Rightarrow> (False, ''Stop service failed, please contact administrator'')
              | Some (out, err, code) \<Rightarrow> (code = 0, take trunc (str_or err out)))"

section \<open>Images and tags\<close>

lemma split_image_ref_append:
  assumes "CHR '':'' \<notin> set tag"
  shows "split_image_ref (repo @ '':'' @ tag) = (repo, tag)"
proof -
  have t: "\<forall>c\<in>set (rev tag). c \<noteq> CHR '':''" using assms by auto
  have "dropWhile (\<lambda>c. c \<noteq> CHR '':'') (rev tag @ CHR '':'' # rev repo) = CHR '':'' # rev repo"
    using t by (subst dropWhile_append2) auto
  moreover have "takeWhile (\<lambda>c. c \<noteq> CHR '':'') (rev tag @ CHR '':'' # rev repo) = rev tag"
    using t by (subst takeWhile_append2) auto
  ultimately show ?thesis by (simp add: split_image_ref_def)
qed

lemma tag_char_safe: "tag_char c \<Longrightarrow> sh_safe c"
  by (auto simp: tag_char_def tag_first_def sh_safe_def)

lemma tag_first_char: "tag_first c \<Longrightarrow> tag_char c"
  by (simp add: tag_char_def)

lemma oci_tag_chars: "oci_tag s \<Longrightarrow> c \<in> set s \<Longrightarrow> tag_char c"
  by (cases s) (auto simp: oci_tag_def list_all_iff tag_first_char)

lemma oci_tag_no_newline: "oci_tag s \<Longrightarrow> newline \<notin> set s"
  using oci_tag_chars [of s newline]
  by (auto simp: newline_def tag_char_def tag_first_def is_upper_def is_lower_def is_digit_def)

lemma oci_tag_quote: "oci_tag s \<Longrightarrow> sh_quote s = s"
  using oci_tag_chars [of s] tag_char_safe by (auto simp: sh_quote_def list_all_iff oci_tag_def)

lemma validate_tag_sound: "validate_tag s = Inr r \<Longrightarrow> r = s \<and> tag_re s"
  by (auto simp: validate_tag_def split: if_splits)

lemma tag_re_cases: "tag_re s \<longleftrightarrow> oci_tag s \<or> (\<exists>t. s = t @ [newline] \<and> oci_tag t)"
proof -
  have "s \<noteq> [] \<and> last s = newline \<and> oci_tag (butlast s) \<longleftrightarrow> (\<exists>t. s = t @ [newline] \<and> oci_tag t)"
    by (cases s rule: rev_cases) auto
  then show ?thesis by (auto simp: tag_re_def)
qed

text \<open>A tag that passes the whitelist is spliced into a command as it is: without a
  newline it consists of the characters of the OCI rule (1 to 128 of them), and quoting leaves
  it unchanged.\<close>

theorem tag_whitelist_shell_safe:
  assumes "validate_tag s = Inr r" "newline \<notin> set s"
  shows "r = s \<and> s \<noteq> [] \<and> length s \<le> 128 \<and> list_all tag_char s \<and> sh_quote s = s"
proof -
  have "oci_tag s" using validate_tag_sound [OF assms(1)] assms(2) by (auto simp: tag_re_cases)
  then show ?thesis using validate_tag_sound [OF assms(1)] oci_tag_chars [of s] oci_tag_quote [of s]
    by (auto simp: oci_tag_def list_all_iff)
qed

theorem tag_whitelist_shell_safe_witness:
  "list_all tag_char ''v1.2-rc_3'' \<and> sh_quote ''v1.2-rc_3'' = ''v1.2-rc_3''"
  using tag_whitelist_shell_safe [of "''v1.2-rc_3''" "''v1.2-rc_3''"]
  by (simp add: validate_tag_def tag_re_def oci_tag_def newline_def tag_first_def tag_char_def
      is_upper_def is_lower_def is_digit_def)

text \<open>The whitelist also accepts every legal tag followed by a newline, which is not an
  OCI tag: the end anchor of the pattern matches before a final newline.\<close>

theorem tag_newline_accepted:
  "validate_tag (''v1'' @ [newline]) = Inr (''v1'' @ [newline]) \<and> \<not> oci_tag (''v1'' @ [newline])"
  by (simp add: validate_tag_def tag_re_def oci_tag_def newline_def tag_first_def tag_char_def
      is_upper_def is_lower_def is_digit_def)

section \<open>Retries\<close>

lemma retry_loop_spec:
  assumes "logged = [2..<attempt]" "1 \<le> attempt"
    "prev = (if attempt = 1 then None else Some (func (attempt - 1)))" "0 < left \<or> 1 < attempt"
  shows "\<exists>k. retry_loop func attempt left prev logged = Some (func k, [2..<Suc k]) \<and>
      attempt - 1 \<le> k \<and> 1 \<le> k \<and> k < attempt + left \<and>
      (\<forall>j. attempt \<le> j \<and> j < k \<longrightarrow> snd (func j) \<noteq> 0) \<and>
      (snd (func k) = 0 \<or> Suc k = attempt + left)"
  using assms
proof (induction left arbitrary: attempt prev logged)
  case 0
  then have "[2..<attempt] = [2..<Suc (attempt - 1)]" "prev = Some (func (attempt - 1))" by simp_all
  then show ?case using 0 by (intro exI [of _ "attempt - 1"]) auto
next
  case (Suc left)
  have lg: "(if 1 < attempt then logged @ [attempt] else logged) = [2..<Suc attempt]"
    using Suc.prems by auto
  show ?case
  proof (cases "snd (func attempt) = 0")
    case True
    then show ?thesis using lg Suc.prems by (intro exI [of _ attempt]) (auto simp: Let_def)
  next
    case False
    then obtain k where k: "retry_loop func (Suc attempt) left (Some (func attempt)) [2..<Suc attempt]
          = Some (func k, [2..<Suc k])" "attempt \<le> k" "k < Suc attempt + left"
        "\<forall>j. Suc attempt \<le> j \<and> j < k \<longrightarrow> snd (func j) \<noteq> 0"
        "snd (func k) = 0 \<or> Suc k = Suc attempt + left"
      using Suc.IH [of "[2..<Suc attempt]" "Suc attempt" "Some (func attempt)"] Suc.prems(2) by auto
    have "\<forall>j. attempt \<le> j \<and> j < k \<longrightarrow> snd (func j) \<noteq> 0" using k(4) False by (metis Suc_leI le_neq_implies_less)
    then show ?thesis using k False lg Suc.prems(2) by (intro exI [of _ k]) (auto simp: Let_def)
  qed
qed

text \<open>C40. Retrying runs the command once more than the failures seen, never more often than
  allowed, stops at the first success, and answers with the result of the last run.\<close>

theorem retry_bounded:
  assumes "1 \<le> attempts"
  shows "\<exists>k. retry_idempotent func attempts = Some (func k, [2..<Suc k]) \<and> 1 \<le> k \<and> int k \<le> attempts \<and>
    (\<forall>j. 1 \<le> j \<and> j < k \<longrightarrow> snd (func j) \<noteq> 0) \<and> (snd (func k) = 0 \<or> int k = attempts)"
proof -
  obtain k where k: "retry_loop func 1 (nat attempts) None [] = Some (func k, [2..<Suc k])" "1 \<le> k" "k < 1 + nat attempts"
      "\<forall>j. 1 \<le> j \<and> j < k \<longrightarrow> snd (func j) \<noteq> 0" "snd (func k) = 0 \<or> Suc k = 1 + nat attempts"
    using retry_loop_spec [of "[]" 1 None func "nat attempts"] assms by auto
  have "int k \<le> attempts" "Suc k = 1 + nat attempts \<Longrightarrow> int k = attempts" using k(3) assms by linarith+
  then show ?thesis unfolding retry_idempotent_def using k by blast
qed

theorem retry_bounded_witness:
  "retry_idempotent (\<lambda>k. (k, if k < 3 then 1 else 0)) 5 = Some ((3, 0), [2, 3])"
proof -
  obtain k where k: "retry_idempotent (\<lambda>k. (k, if k < 3 then 1 else 0)) 5
      = Some ((k, if k < 3 then 1 else 0), [2..<Suc k])" "1 \<le> k"
      "\<forall>j. 1 \<le> j \<and> j < k \<longrightarrow> (if j < 3 then 1 else 0) \<noteq> (0::int)"
      "(if k < 3 then 1 else 0) = (0::int) \<or> int k = 5"
    using retry_bounded [of 5 "\<lambda>k. (k, if k < 3 then 1 else 0)"] by auto
  have "k = 3" using k(2,3,4) by (auto split: if_splits dest!: spec [of _ 3])
  then show ?thesis using k(1) by (simp add: upt_rec)
qed

section \<open>Quoting\<close>

lemma sh_safe_facts [simp]: "\<not> sh_safe (CHR '' '')" "\<not> sh_safe quote_char" "\<not> sh_safe dquote"
  by (simp_all add: sh_safe_def quote_char_def dquote_def is_upper_def is_lower_def is_digit_def)

lemma quote_chars_distinct [simp]:
  "quote_char \<noteq> CHR '' ''" "dquote \<noteq> CHR '' ''" "dquote \<noteq> quote_char" "quote_char \<noteq> dquote"
  "quote_char \<notin> set ''$`!''" "quote_char \<noteq> CHR 0x5C"
  by (simp_all add: quote_char_def dquote_def)

text \<open>The characters read so far, and what plain or quoted text adds to them.\<close>

definition so_far :: "string option \<Rightarrow> string" where
  "so_far w = (case w of None \<Rightarrow> [] | Some x \<Rightarrow> x)"

lemma split_plain:
  "list_all sh_safe s \<Longrightarrow> s \<noteq> [] \<Longrightarrow>
   sh_split Bare w (s @ rest) = sh_split Bare (Some (rev s @ so_far w)) rest"
proof (induction s arbitrary: w)
  case (Cons c s)
  have c: "c \<noteq> CHR '' ''" "c \<noteq> quote_char" "c \<noteq> dquote" "sh_safe c"
    using Cons.prems(1) sh_safe_facts by auto
  show ?case
  proof (cases "s = []")
    case False
    then show ?thesis using Cons c by (simp add: so_far_def split: option.splits)
  qed (use c in \<open>simp add: so_far_def\<close>)
qed simp

lemma split_quote_body:
  "sh_split Single (Some x) (quote_body s @ quote_char # rest) = sh_split Bare (Some (rev s @ x)) rest"
proof (induction s arbitrary: x)
  case Nil
  show ?case by (simp add: quote_body_def)
next
  case (Cons c s)
  show ?case
  proof (cases "c = quote_char")
    case True
    have "sh_split Single (Some x) (quote_body (c # s) @ quote_char # rest) =
        sh_split Single (Some (quote_char # x)) (quote_body s @ quote_char # rest)"
      using True by (simp add: quote_body_def quote_char_def dquote_def)
    then show ?thesis using Cons [of "quote_char # x"] True by simp
  next
    case False
    then have "sh_split Single (Some x) (quote_body (c # s) @ quote_char # rest) =
        sh_split Single (Some (c # x)) (quote_body s @ quote_char # rest)"
      by (simp add: quote_body_def)
    then show ?thesis using Cons [of "c # x"] by simp
  qed
qed

lemma split_quote:
  "sh_split Bare w (sh_quote s @ rest) = sh_split Bare (Some (rev s @ so_far w)) rest"
proof -
  consider "s = []" | "s \<noteq> []" "list_all sh_safe s" | "s \<noteq> []" "\<not> list_all sh_safe s" by blast
  then show ?thesis
  proof cases
    case 1
    then show ?thesis by (simp add: sh_quote_def so_far_def)
  next
    case 2
    then show ?thesis using split_plain by (simp add: sh_quote_def)
  next
    case 3
    then show ?thesis using split_quote_body [of "so_far w" s rest]
      by (simp add: sh_quote_def so_far_def)
  qed
qed

lemma split_space: "sh_split Bare w (CHR '' '' # s) =
    map_option (\<lambda>ws. (case w of None \<Rightarrow> [] | Some x \<Rightarrow> [rev x]) @ ws) (sh_split Bare None s)"
  by simp

lemma quote_back: "sh_split Bare None (sh_quote s) = Some [s]"
  using split_quote [of None s "[]"] by (simp add: so_far_def)

lemma sh_quote_inject [simp]: "sh_quote a = sh_quote b \<longleftrightarrow> a = b"
proof
  assume "sh_quote a = sh_quote b"
  then have "sh_split Bare None (sh_quote a) = sh_split Bare None (sh_quote b)" by (rule arg_cong)
  then show "a = b" unfolding quote_back by simp
qed simp

text \<open>The remote shell reads a quoted value back as exactly one word, the value itself,
  whatever characters it holds.\<close>

theorem quote_roundtrip: "sh_split Bare None (sh_quote s) = Some [s]"
  by (rule quote_back)

lemma split_word_quote:
  "list_all sh_safe p \<Longrightarrow> p \<noteq> [] \<Longrightarrow>
   sh_split Bare None (p @ sh_quote s @ rest) = sh_split Bare (Some (rev s @ rev p)) rest"
  by (simp add: split_plain split_quote so_far_def)

lemma split_lit:
  "list_all sh_safe p \<Longrightarrow> p \<noteq> [] \<Longrightarrow>
   sh_split Bare None (p @ CHR '' '' # rest) = map_option ((#) p) (sh_split Bare None rest)"
  by (cases "sh_split Bare None rest") (simp_all add: split_plain so_far_def)

lemma split_end: "sh_split Bare (Some x) [] = Some [rev x]"
  by simp

lemma sh_quote_last: "sh_quote s \<noteq> [] \<and> \<not> is_space (last (sh_quote s))"
proof -
  have sp: "\<not> sh_safe c" if "is_space c" for c
    using that by (auto simp: is_space_def sh_safe_def is_upper_def is_lower_def is_digit_def)
  consider "s = []" | "s \<noteq> []" "list_all sh_safe s" | "s \<noteq> []" "\<not> list_all sh_safe s" by blast
  then show ?thesis
  proof cases
    case 2
    then have "sh_safe (last s)" by (simp add: list_all_iff)
    then show ?thesis using 2 sp by (auto simp: sh_quote_def)
  qed (simp_all add: sh_quote_def quote_char_def is_space_def)
qed

text \<open>C34. The Ansible command that is sent to the remote shell parses into exactly the
  intended argument vector: no image, tag, project, inventory or playbook path adds a word, an
  operator or an expansion.\<close>

theorem ansible_argv:
  assumes "tg_path t \<noteq> []"
  shows "sh_split Bare None (build_ansible t img project tag) = Some
    (''ansible-playbook'' #
     (if or_empty (o_inventory (tg_options t)) = [] then [] else [''-i'', or_empty (o_inventory (tg_options t))]) @
     [tg_path t, ''-e'', ''image='' @ img, ''-e'', ''tag='' @ tag, ''-e'', ''project='' @ project])"
proof -
  let ?i = "or_empty (o_inventory (tg_options t))"
  let ?tail = "sh_quote (tg_path t) @ '' -e image='' @ sh_quote img @ '' -e tag='' @ sh_quote tag
      @ '' -e project='' @ sh_quote project"
  let ?flag = "if ?i = [] then [] else ''-i '' @ sh_quote ?i"
  let ?cmd = "''ansible-playbook '' @ ?flag @ '' '' @ ?tail"
  have ends: "last ?cmd = last (sh_quote project)" using sh_quote_last by simp
  have "py_strip ?cmd = ?cmd"
    by (rule py_strip_fix) (use ends sh_quote_last in \<open>auto simp: is_space_def\<close>)
  then have b: "build_ansible t img project tag = ?cmd" using assms by (simp add: build_ansible_def Let_def)
  have safe: "list_all sh_safe ''image=''" "list_all sh_safe ''tag=''" "list_all sh_safe ''project=''"
    "list_all sh_safe ''-e''" "list_all sh_safe ''-i''" "list_all sh_safe ''ansible-playbook''"
    by (simp_all add: sh_safe_def is_upper_def is_lower_def is_digit_def)
  have tail: "sh_split Bare None ?tail = Some [tg_path t, ''-e'', ''image='' @ img, ''-e'', ''tag='' @ tag,
      ''-e'', ''project='' @ project]"
    using split_quote [of None "tg_path t" "'' -e image='' @ sh_quote img @ '' -e tag='' @ sh_quote tag
        @ '' -e project='' @ sh_quote project"]
      split_lit [OF safe(4), of "''image='' @ sh_quote img @ '' -e tag='' @ sh_quote tag @ '' -e project='' @ sh_quote project"]
      split_lit [OF safe(4), of "''tag='' @ sh_quote tag @ '' -e project='' @ sh_quote project"]
      split_lit [OF safe(4), of "''project='' @ sh_quote project"]
      split_word_quote [OF safe(1), of img "'' -e tag='' @ sh_quote tag @ '' -e project='' @ sh_quote project"]
      split_word_quote [OF safe(2), of tag "'' -e project='' @ sh_quote project"]
      split_word_quote [OF safe(3), of project "[]"]
    by (simp add: so_far_def split_end split_space del: sh_split.simps)
  have flag: "sh_split Bare None (?flag @ '' '' @ ?tail) =
      map_option (\<lambda>ws. (if ?i = [] then [] else [''-i'', ?i]) @ ws) (sh_split Bare None ?tail)"
    using split_lit [OF safe(5), of "sh_quote ?i @ '' '' @ ?tail"] split_quote [of None ?i "'' '' @ ?tail"]
    by (simp add: so_far_def split_space option.map_comp comp_def del: sh_split.simps)
  show ?thesis unfolding b using split_lit [OF safe(6), of "?flag @ '' '' @ ?tail"] flag tail
    by (simp del: sh_split.simps)
qed

definition sample_target :: target where
  "sample_target = \<lparr>tg_host = ''h'', tg_port = 22, tg_user = ''root'', tg_password = [], tg_key = [],
     tg_path = ''/srv/site.yml'', tg_mode = ''ansible'', tg_options = no_options\<rparr>"

theorem ansible_argv_witness:
  "sh_split Bare None (build_ansible sample_target ''r/web:v1'' ''x; reboot'' ''v1'') = Some
    [''ansible-playbook'', ''/srv/site.yml'', ''-e'', ''image=r/web:v1'', ''-e'', ''tag=v1'', ''-e'', ''project=x; reboot'']"
  using ansible_argv [of sample_target "''r/web:v1''" "''x; reboot''" "''v1''"]
  by (simp add: sample_target_def no_options_def)

section \<open>Progress bars\<close>

definition no_adjacent_bars :: "string list \<Rightarrow> bool" where
  "no_adjacent_bars segs = successively (\<lambda>a b. \<not> (is_bar a \<and> is_bar b)) segs"

lemma keep_segments_spec:
  assumes "successively (\<lambda>a b. \<not> (is_bar b \<and> is_bar a)) kept"
  shows "no_adjacent_bars (keep_segments kept segs) \<and>
    filter (\<lambda>s. \<not> is_bar s) (keep_segments kept segs) = filter (\<lambda>s. \<not> is_bar s) (rev kept @ segs) \<and>
    (segs \<noteq> [] \<longrightarrow> last (keep_segments kept segs) = last segs)"
  using assms
proof (induction kept segs rule: keep_segments.induct)
  case (1 kept)
  then show ?case by (simp add: no_adjacent_bars_def successively_rev)
next
  case (2 seg segs)
  then show ?case by auto
next
  case (3 prev kept seg segs)
  show ?case
  proof (cases "is_bar seg \<and> is_bar prev")
    case True
    have "successively (\<lambda>a b. \<not> (is_bar b \<and> is_bar a)) (seg # kept)"
      using 3(3) True by (cases kept) auto
    then show ?thesis using 3(1) True by (cases segs) (auto simp: rev_filter [symmetric])
  next
    case False
    then have "successively (\<lambda>a b. \<not> (is_bar b \<and> is_bar a)) (seg # prev # kept)" using 3(3) by auto
    then show ?thesis using 3(2) False by (cases segs) auto
  qed
qed

text \<open>Collapsing the repaints of a line leaves no two progress bars next to each other,
  drops nothing but progress bars, and ends with the last repaint.\<close>

theorem progress_bars_collapsed:
  "no_adjacent_bars (keep_segments [] segs) \<and>
   filter (\<lambda>s. \<not> is_bar s) (keep_segments [] segs) = filter (\<lambda>s. \<not> is_bar s) segs"
  using keep_segments_spec [of "[]" segs] by simp

text \<open>The recorded output depends on how the network cut it into blocks: a line that
  spans two blocks is recorded as two lines.\<close>

theorem output_depends_on_blocks:
  "ssh_exec_stream \<lparr>sm_polls = [\<lparr>po_cancel = False, po_out = Some ''done'', po_err = None\<rparr>],
      sm_exit = Some 0, sm_residual = []\<rparr> = Inr (''done'', 0) \<and>
   ssh_exec_stream \<lparr>sm_polls = [\<lparr>po_cancel = False, po_out = Some ''do'', po_err = None\<rparr>,
        \<lparr>po_cancel = False, po_out = Some ''ne'', po_err = None\<rparr>],
      sm_exit = Some 0, sm_residual = []\<rparr> = Inr (''do'' @ newline # ''ne'', 0)"
  by code_simp

lemma stream_cancelled_iff: "stream_polls ps = None \<longleftrightarrow> list_ex po_cancel ps"
  by (induction ps) auto

text \<open>A cancellation seen at any poll ends the command with \<open>DeployCancelled\<close>, never with
  an exit status; a command that was not cancelled succeeds only with a readable exit status 0.\<close>

theorem stream_outcome:
  "(\<forall>e. ssh_exec_stream s = Inl e \<longleftrightarrow> e = DeployCancelled \<and> list_ex po_cancel (sm_polls s)) \<and>
   (\<exists>out. ssh_exec_stream s = Inr (out, 0)) = (\<not> list_ex po_cancel (sm_polls s) \<and> sm_exit s = Some 0)"
  using stream_cancelled_iff [of "sm_polls s"]
  by (cases "stream_polls (sm_polls s)") (auto simp: ssh_exec_stream_def split: option.splits)

text \<open>The SSH strategy reports success exactly when there is a host, the session ran the
  command without being cancelled, and the exit status was read as 0.\<close>

theorem ssh_success_iff:
  "(\<exists>out. ssh_deploy remote t img project tag = Inr \<lparr>dr_status = ''ok'', dr_output = out\<rparr>) =
   (tg_host t \<noteq> [] \<and>
    (\<exists>s. remote (if tg_mode t = ''ansible'' then build_ansible t img project tag
                 else build_commands t img project tag) = Inr s \<and>
         \<not> list_ex po_cancel (sm_polls s) \<and> sm_exit s = Some 0))"
  by (auto simp: ssh_deploy_def Let_def deploy_failed_def ssh_exec_stream_def stream_cancelled_iff
      split: sum.splits option.splits) (metis stream_cancelled_iff not_None_eq)+

end
