(* ===== verification/Notify.thy ===== *)
theory Notify
  imports Data Settings
begin

text \<open>
  \<^verbatim>\<open>backend/services/notification.py\<close>: which webhook addresses are accepted, the
  translation of labels, the message template and the notification of a deployment. The HTTP
  post, the DingTalk signature, the classification of literal IP addresses
  (\<^verbatim>\<open>ipaddress\<close>) and the texts that are not ASCII are parameters.
\<close>

section \<open>Web addresses\<close>

text \<open>\<^verbatim>\<open>urlparse(url).hostname\<close>: the authority that follows the scheme, without user
  information and port, in lower case; \<open>[]\<close> stands for \<^verbatim>\<open>None\<close>, which the code
  turns into the empty string. Unbalanced brackets raise \<open>ValueError\<close>.\<close>

definition scheme_char :: "char \<Rightarrow> bool" where
  "scheme_char c = (is_upper c \<or> is_lower c \<or> is_digit c \<or> c \<in> set ''+-.'')"

definition sanitize_url :: "string \<Rightarrow> string" where
  "sanitize_url u =
     filter (\<lambda>c. c \<notin> {CHR 0x09, CHR 0x0A, CHR 0x0D}) (dropWhile (\<lambda>c. py_ord c \<le> 32) u)"

definition after_scheme :: "string \<Rightarrow> string" where
  "after_scheme u =
     (let scheme = takeWhile (\<lambda>c. c \<noteq> CHR '':'') u
      in if CHR '':'' \<in> set u \<and> scheme \<noteq> [] \<and> (is_upper (hd scheme) \<or> is_lower (hd scheme)) \<and> list_all scheme_char scheme
         then drop (Suc (length scheme)) u else u)"

definition netloc :: "string \<Rightarrow> string" where
  "netloc u =
     (if starts_with ''//'' (after_scheme u)
      then takeWhile (\<lambda>c. c \<notin> set ''/?#'') (drop 2 (after_scheme u)) else [])"

text \<open>The part after the last \<^verbatim>\<open>@\<close>.\<close>

definition host_info :: "string \<Rightarrow> string" where
  "host_info loc = rev (takeWhile (\<lambda>c. c \<noteq> CHR ''@'') (rev loc))"

definition url_hostname :: "string \<Rightarrow> string result" where
  "url_hostname url =
     (let loc = netloc (sanitize_url url); h = host_info loc
      in if (CHR ''['' \<in> set loc) \<noteq> (CHR '']'' \<in> set loc) then Inl ValueError
         else if CHR ''['' \<in> set h
         then Inr (py_lower (takeWhile (\<lambda>c. c \<noteq> CHR '']'') (tl (dropWhile (\<lambda>c. c \<noteq> CHR ''['') h))))
         else Inr (py_lower (takeWhile (\<lambda>c. c \<noteq> CHR '':'') h)))"

definition allowed_webhook_domains :: "string list" where
  "allowed_webhook_domains = [''oapi.dingtalk.com'', ''qyapi.weixin.qq.com'', ''open.feishu.cn'', ''api.feishu.cn'']"

definition is_allowed_webhook :: "string \<Rightarrow> bool" where
  "is_allowed_webhook url =
     (case url_hostname url of
        Inl _ \<Rightarrow> False
      | Inr domain \<Rightarrow> list_ex (\<lambda>d. domain = d \<or> ends_with (CHR ''.'' # d) domain) allowed_webhook_domains)"

text \<open>\<open>internal_ip host\<close> is \<open>None\<close> when \<^verbatim>\<open>host\<close> is no literal address, otherwise
  whether it is private, loopback, link-local, reserved or multicast.\<close>

definition strip_brackets :: "string \<Rightarrow> string" where
  "strip_brackets s =
     rev (dropWhile (\<lambda>c. c \<in> set ''[]'') (rev (dropWhile (\<lambda>c. c \<in> set ''[]'') s)))"

definition is_private_address :: "(string \<Rightarrow> bool option) \<Rightarrow> string \<Rightarrow> bool result" where
  "is_private_address internal_ip url =
     (case url_hostname url of
        Inl e \<Rightarrow> Inl e
      | Inr h \<Rightarrow>
          let host = strip_brackets (py_strip h)
          in if host = [] \<or> py_lower host \<in> {''localhost'', ''localhost.localdomain''} then Inr True
             else Inr (case internal_ip host of None \<Rightarrow> False | Some b \<Rightarrow> b))"

section \<open>Sending\<close>

text \<open>The outside of the service: the address classes, the signed address, and whether a post
  of a message to an address is answered with success (an exception counts as failure).\<close>

record hook_env =
  hk_internal :: "string \<Rightarrow> bool option"
  hk_secret :: string
  hk_sign :: "string \<Rightarrow> string"
  hk_post :: "string \<Rightarrow> string \<Rightarrow> bool"

text \<open>The answer and the address that was posted to, if any.\<close>

definition send_webhook :: "hook_env \<Rightarrow> string \<Rightarrow> string \<Rightarrow> string \<Rightarrow> (bool \<times> string option) result" where
  "send_webhook env url message bot_type =
     (if url = [] \<or> message = [] then Inr (False, None)
      else case is_private_address (hk_internal env) url of
             Inl e \<Rightarrow> Inl e
           | Inr private \<Rightarrow>
               if private then Inr (False, None)
               else if py_lower bot_type \<noteq> ''custom'' \<and> \<not> is_allowed_webhook url then Inr (False, None)
               else let to = (if hk_secret env \<noteq> [] \<and> contains_sub ''oapi.dingtalk.com'' url
                              then hk_sign env url else url)
                    in Inr (hk_post env to message, Some to))"

section \<open>Labels\<close>

text \<open>The texts that are not ASCII: the three status labels, their Chinese counterparts, and
  the Chinese template and mode names.\<close>

record texts =
  tx_ok :: string
  tx_failed :: string
  tx_partial :: string
  tx_zh_ok :: string
  tx_zh_failed :: string
  tx_zh_partial :: string
  tx_zh_template :: string
  tx_zh_modes :: "(string \<times> string) list"

datatype label = LSuccess | LPartial nat nat | LFailed

fun status_label :: "texts \<Rightarrow> label \<Rightarrow> string" where
  "status_label tx LSuccess = tx_ok tx"
| "status_label tx (LPartial oks n) = tx_partial tx @ '' '' @ nat_str oks @ ''/'' @ nat_str n"
| "status_label tx LFailed = tx_failed tx"

fun translate_prefix :: "(string \<times> string) list \<Rightarrow> string \<Rightarrow> string option" where
  "translate_prefix [] v = None"
| "translate_prefix ((en, zh) # ps) v =
     (if starts_with en v then Some (zh @ drop (length en) v) else translate_prefix ps v)"

definition translate_status :: "texts \<Rightarrow> string \<Rightarrow> string \<Rightarrow> string" where
  "translate_status tx lang v =
     (if lang \<noteq> ''zh'' then v
      else case translate_prefix [(tx_ok tx, tx_zh_ok tx), (tx_failed tx, tx_zh_failed tx),
                                  (tx_partial tx, tx_zh_partial tx)] v of
             Some w \<Rightarrow> w | None \<Rightarrow> v)"

definition translate_mode :: "texts \<Rightarrow> string \<Rightarrow> string \<Rightarrow> string" where
  "translate_mode tx lang v =
     (if lang \<noteq> ''zh'' then v else case map_of (tx_zh_modes tx) v of Some w \<Rightarrow> w | None \<Rightarrow> v)"

section \<open>The template\<close>

text \<open>\<^verbatim>\<open>str.format\<close> with keyword arguments. A field is plain when its text holds none
  of the characters that start a conversion, a format, an attribute, an index or a nested
  field. What the library does from the first field on that is not plain is the parameter
  \<open>rich\<close>. A field without a name, or with a number, asks for a positional argument
  (\<^verbatim>\<open>IndexError\<close>), an unknown name raises \<^verbatim>\<open>KeyError\<close>; both are
  \<open>OtherError\<close>.\<close>

definition open_brace :: char where "open_brace = CHR 0x7B"
definition close_brace :: char where "close_brace = CHR 0x7D"

definition plain_field :: "string \<Rightarrow> bool" where
  "plain_field s = list_all (\<lambda>c. c \<notin> set ''!:.['' \<and> c \<noteq> open_brace) s"

function py_format :: "(string \<Rightarrow> string result) \<Rightarrow> (string \<times> string) list \<Rightarrow> string \<Rightarrow> string result" where
  "py_format rich args [] = Inr []"
| "py_format rich args (c # s) =
     (if c = open_brace
      then (if s = [] then Inl ValueError
            else if hd s = open_brace then map_sum id ((#) open_brace) (py_format rich args (tl s))
            else let name = takeWhile (\<lambda>c. c \<noteq> close_brace) s; rest = drop (Suc (length name)) s
                 in if \<not> plain_field name then rich (c # s)
                    else if close_brace \<notin> set s then Inl ValueError
                    else case map_of args name of
                           None \<Rightarrow> Inl OtherError
                         | Some v \<Rightarrow> map_sum id ((@) v) (py_format rich args rest))
      else if c = close_brace
      then (if s \<noteq> [] \<and> hd s = close_brace then map_sum id ((#) close_brace) (py_format rich args (tl s))
            else Inl ValueError)
      else map_sum id ((#) c) (py_format rich args s))"
  by pat_completeness auto
termination
  by (relation "measure (\<lambda>(_, _, t). length t)") auto

definition in_braces :: "string \<Rightarrow> string" where
  "in_braces s = open_brace # s @ [close_brace]"

definition default_template_en :: string where
  "default_template_en =
     ''['' @ in_braces ''time'' @ ''] '' @ in_braces ''project'' @ '' [Deploy Notification]'' @ [CHR 0x0A] @
     ''Version: '' @ in_braces ''tag'' @ '' --> '' @ in_braces ''status'' @ [CHR 0x0A] @
     ''Target: '' @ in_braces ''target'' @ [CHR 0x0A] @
     ''Mode: '' @ in_braces ''mode'' @ [CHR 0x0A] @
     ''Image: '' @ in_braces ''image''"

record bot =
  b_id :: row_id
  b_type :: string
  b_url :: string
  b_template :: string

record notify_args =
  na_bot :: int
  na_tag :: string
  na_project :: string
  na_image :: string
  na_label :: label
  na_mode :: string
  na_targets :: "string list"
  na_lang :: string

record notify_env =
  ne_hook :: hook_env
  ne_texts :: texts
  ne_rich :: "string \<Rightarrow> string result"
  ne_bots :: "bot list"
  ne_now :: string

definition template_of :: "texts \<Rightarrow> string \<Rightarrow> string \<Rightarrow> string" where
  "template_of tx lang raw =
     (let t = py_strip raw
      in if t \<noteq> [] then t
         else py_strip (if lang = ''zh'' then tx_zh_template tx else default_template_en))"

definition notify_fields :: "notify_env \<Rightarrow> notify_args \<Rightarrow> (string \<times> string) list" where
  "notify_fields env n =
     [(''time'', ne_now env), (''project'', na_project n), (''tag'', na_tag n),
      (''status'', translate_status (ne_texts env) (na_lang n) (status_label (ne_texts env) (na_label n))),
      (''image'', na_image n), (''target'', py_join '', '' (na_targets n)),
      (''mode'', translate_mode (ne_texts env) (na_lang n) (na_mode n))]"

text \<open>The address posted to, if any. The only exceptions are those of the template and of an
  address that cannot be parsed.\<close>

definition notify_deploy :: "notify_env \<Rightarrow> notify_args \<Rightarrow> string option result" where
  "notify_deploy env n =
     (if na_bot n = 0 then Inr None
      else case List.find (\<lambda>b. int (b_id b) = na_bot n) (ne_bots env) of
             None \<Rightarrow> Inr None
           | Some b \<Rightarrow>
               (case py_format (ne_rich env) (notify_fields env n)
                       (template_of (ne_texts env) (na_lang n) (b_template b)) of
                  Inl e \<Rightarrow> Inl e
                | Inr msg \<Rightarrow> map_sum id snd (send_webhook (ne_hook env) (b_url b) msg (b_type b))))"

definition notify_approval :: "notify_env \<Rightarrow> int \<Rightarrow> string \<Rightarrow> string option result" where
  "notify_approval env bot_id message =
     (if bot_id = 0 then Inr None
      else case List.find (\<lambda>b. int (b_id b) = bot_id) (ne_bots env) of
             None \<Rightarrow> Inr None
           | Some b \<Rightarrow> map_sum id snd (send_webhook (ne_hook env) (b_url b) message (b_type b)))"

section \<open>Properties\<close>

text \<open>A message is posted only to an address whose host is neither local nor a literal
  internal address, and, unless the bot is a custom one, only to a host of the whitelisted
  domains.\<close>

theorem webhook_target_checked:
  assumes "send_webhook env url message bot_type = Inr (ok, Some to)"
  shows "\<exists>h. url_hostname url = Inr h \<and> strip_brackets (py_strip h) \<noteq> [] \<and>
    py_lower (strip_brackets (py_strip h)) \<noteq> ''localhost'' \<and>
    hk_internal env (strip_brackets (py_strip h)) \<noteq> Some True \<and>
    (py_lower bot_type = ''custom'' \<or>
     list_ex (\<lambda>d. h = d \<or> ends_with (CHR ''.'' # d) h) allowed_webhook_domains)"
  using assms
  by (auto simp: send_webhook_def is_private_address_def is_allowed_webhook_def Let_def
      split: if_splits sum.splits option.splits)

definition sample_hook :: hook_env where
  "sample_hook = \<lparr>hk_internal = (\<lambda>h. if h = ''10.0.0.1'' then Some True else None), hk_secret = [],
     hk_sign = id, hk_post = (\<lambda>_ _. True)\<rparr>"

lemma sample_post: "send_webhook sample_hook ''https://oapi.dingtalk.com/robot?t=1'' ''hi'' ''dingtalk''
    = Inr (True, Some ''https://oapi.dingtalk.com/robot?t=1'')"
  by code_simp

theorem webhook_target_checked_witness:
  "hk_internal sample_hook ''oapi.dingtalk.com'' \<noteq> Some True \<and>
   url_hostname ''https://oapi.dingtalk.com/robot?t=1'' = Inr ''oapi.dingtalk.com''"
proof -
  have "url_hostname ''https://oapi.dingtalk.com/robot?t=1'' = Inr ''oapi.dingtalk.com''" by code_simp
  moreover have "strip_brackets (py_strip ''oapi.dingtalk.com'') = ''oapi.dingtalk.com''" by code_simp
  ultimately show ?thesis using webhook_target_checked [OF sample_post] by fastforce
qed

text \<open>Sending does raise, against its promise: an address with an unbalanced bracket.\<close>

theorem send_webhook_raises:
  "send_webhook env ''http://[fe80::1/hook'' ''hi'' ''custom'' = Inl ValueError"
proof -
  have "url_hostname ''http://[fe80::1/hook'' = Inl ValueError" by code_simp
  then show ?thesis by (simp add: send_webhook_def is_private_address_def)
qed

lemma format_plain_char:
  "c \<noteq> open_brace \<Longrightarrow> c \<noteq> close_brace \<Longrightarrow>
   py_format rich args (c # s) = map_sum id ((#) c) (py_format rich args s)"
  by simp

lemma format_field:
  assumes "plain_field name" "close_brace \<notin> set name" "map_of args name = Some v"
  shows "py_format rich args (in_braces name @ s) = map_sum id ((@) v) (py_format rich args s)"
proof -
  have n: "takeWhile (\<lambda>c. c \<noteq> close_brace) (name @ close_brace # s) = name"
    using assms(2) by (subst takeWhile_append2) auto
  have h: "hd (name @ close_brace # s) \<noteq> open_brace"
    using assms(1) by (cases name) (auto simp: plain_field_def open_brace_def close_brace_def)
  show ?thesis using n h assms by (simp add: in_braces_def Let_def)
qed

lemma format_unknown:
  assumes "plain_field name" "close_brace \<notin> set name" "map_of args name = None"
  shows "py_format rich args (in_braces name @ s) = Inl OtherError"
proof -
  have n: "takeWhile (\<lambda>c. c \<noteq> close_brace) (name @ close_brace # s) = name"
    using assms(2) by (subst takeWhile_append2) auto
  have h: "hd (name @ close_brace # s) \<noteq> open_brace"
    using assms(1) by (cases name) (auto simp: plain_field_def open_brace_def close_brace_def)
  show ?thesis using n h assms by (simp add: in_braces_def Let_def)
qed

text \<open>The built-in English template renders for every deployment.\<close>

theorem default_template_renders:
  "\<exists>msg. py_format rich (notify_fields env n) default_template_en = Inr msg"
proof -
  let ?a = "notify_fields env n"
  have f: "\<exists>m. py_format rich ?a (in_braces k @ s) = Inr m"
    if "k \<in> {''time'', ''project'', ''tag'', ''status'', ''target'', ''mode'', ''image''}"
      "\<exists>m. py_format rich ?a s = Inr m" for k s
  proof -
    have "plain_field k" "close_brace \<notin> set k" "\<exists>v. map_of ?a k = Some v"
      using that(1) by (auto simp: plain_field_def open_brace_def close_brace_def notify_fields_def)
    then show ?thesis using format_field [of k ?a _ rich s] that(2) by auto
  qed
  have l: "\<exists>m. py_format rich ?a (t @ s) = Inr m"
    if "list_all (\<lambda>c. c \<noteq> open_brace \<and> c \<noteq> close_brace) t" "\<exists>m. py_format rich ?a s = Inr m" for t s
    using that by (induction t) (auto simp: format_plain_char simp del: py_format.simps(2))
  have e: "\<exists>m. py_format rich ?a (in_braces ''image'') = Inr m"
    using f [of "''image''" "[]"] by simp
  show ?thesis unfolding default_template_en_def
    by (rule e f l | simp add: open_brace_def close_brace_def)+
qed

text \<open>A template with a placeholder outside the seven documented names makes the
  notification raise, whatever the deployment was.\<close>

theorem unknown_placeholder_raises:
  assumes "na_bot n = int (b_id b)" "na_bot n \<noteq> 0" "ne_bots env = [b]"
    "b_template b = in_braces ''version''"
  shows "notify_deploy env n = Inl OtherError"
proof -
  have "py_format (ne_rich env) (notify_fields env n) (in_braces ''version'') = Inl OtherError"
    using format_unknown [of "''version''" "notify_fields env n" "ne_rich env" "[]"]
    by (simp add: plain_field_def open_brace_def close_brace_def notify_fields_def)
  moreover have "template_of (ne_texts env) (na_lang n) (in_braces ''version'') = in_braces ''version''"
  proof -
    have "py_strip (in_braces ''version'') = in_braces ''version''" by code_simp
    then show ?thesis by (simp add: template_of_def in_braces_def)
  qed
  ultimately show ?thesis using assms by (simp add: notify_deploy_def)
qed

definition sample_texts :: texts where
  "sample_texts = \<lparr>tx_ok = ''Success'', tx_failed = ''Failed'', tx_partial = ''Partial success'',
     tx_zh_ok = ''CG'', tx_zh_failed = ''SB'', tx_zh_partial = ''BF'', tx_zh_template = [], tx_zh_modes = []\<rparr>"

definition sample_notify :: notify_env where
  "sample_notify = \<lparr>ne_hook = sample_hook, ne_texts = sample_texts, ne_rich = (\<lambda>_. Inl ValueError),
     ne_bots = [\<lparr>b_id = 1, b_type = ''custom'', b_url = ''https://example.com/h'', b_template = in_braces ''version''\<rparr>],
     ne_now = ''2026-01-02 03:04:05''\<rparr>"

definition sample_notify_args :: notify_args where
  "sample_notify_args = \<lparr>na_bot = 1, na_tag = ''v1'', na_project = ''web'', na_image = ''r/web:v1'',
     na_label = LSuccess, na_mode = ''ssh'', na_targets = [''ssh[h]''], na_lang = ''en''\<rparr>"

theorem unknown_placeholder_raises_witness:
  "notify_deploy sample_notify sample_notify_args = Inl OtherError"
  by (rule unknown_placeholder_raises
      [of _ "\<lparr>b_id = 1, b_type = ''custom'', b_url = ''https://example.com/h'', b_template = in_braces ''version''\<rparr>"])
    (simp_all add: sample_notify_def sample_notify_args_def)

end
