(* ===== verification/Crypto.thy ===== *)
theory Crypto
  imports Data
begin

text \<open>
  \<^verbatim>\<open>backend/crypto.py\<close>: the choice of the secret, and the encryption of credentials
  at rest with its fallback keys. Key derivation and the Fernet cipher are a library: what each
  key makes of a token is a parameter.
\<close>

section \<open>The secret\<close>

datatype key_file = Absent | Unreadable | Holds string

definition insecure_default_keys :: "string list" where
  "insecure_default_keys = [''devops_cd_2026'', ''change_me_to_secret'']"

text \<open>The configured key, then the key file, then a new key that is written to the file
  (\<open>writable\<close>: whether that works). The answer is the secret and the file afterwards.\<close>

definition resolve_secret :: "string \<Rightarrow> string \<Rightarrow> bool \<Rightarrow> key_file \<Rightarrow> string result \<times> key_file" where
  "resolve_secret configured new_key writable kf =
     (let stripped = py_strip configured;
          raw = (if stripped \<in> set insecure_default_keys then [] else stripped);
          fresh = (if writable then (Inr new_key, Holds new_key) else (Inl RuntimeError, kf))
      in if raw \<noteq> [] then (Inr raw, kf)
         else case kf of
                Unreadable \<Rightarrow> (Inl RuntimeError, kf)
              | Holds s \<Rightarrow> if py_strip s \<noteq> [] then (Inr (py_strip s), kf) else fresh
              | Absent \<Rightarrow> fresh)"

section \<open>Encryption\<close>

text \<open>What a key makes of a token: the text, a refusal (\<^verbatim>\<open>InvalidToken\<close>), or bytes that
  are no text (\<^verbatim>\<open>ValueError\<close>).\<close>

datatype opened_token = Plain string | BadToken | BadText

record keyring =
  kr_encrypt :: "string \<Rightarrow> string"
  kr_main :: "string \<Rightarrow> opened_token"
  kr_fallbacks :: "(string \<Rightarrow> opened_token) list"

definition encrypt_prefix :: string where
  "encrypt_prefix = ''enc:''"

definition encrypt :: "keyring \<Rightarrow> string \<Rightarrow> string" where
  "encrypt k v =
     (if v = [] then v else if starts_with encrypt_prefix v then v
      else encrypt_prefix @ kr_encrypt k v)"

text \<open>The loop over the fallback keys; \<open>None\<close> when every key refused. A \<open>ValueError\<close>
  in it leaves the function.\<close>

fun try_fallbacks :: "(string \<Rightarrow> opened_token) list \<Rightarrow> string \<Rightarrow> string option result" where
  "try_fallbacks [] token = Inr None"
| "try_fallbacks (f # fs) token =
     (case f token of
        Plain s \<Rightarrow> Inr (Some s) | BadToken \<Rightarrow> try_fallbacks fs token | BadText \<Rightarrow> Inl ValueError)"

definition decrypt :: "keyring \<Rightarrow> string \<Rightarrow> string result" where
  "decrypt k v =
     (if v = [] \<or> \<not> starts_with encrypt_prefix v then Inr v
      else let token = drop (length encrypt_prefix) v
           in case kr_main k token of
                Plain s \<Rightarrow> Inr s
              | BadText \<Rightarrow> Inr []
              | BadToken \<Rightarrow> map_sum id or_empty (try_fallbacks (kr_fallbacks k) token))"

definition decrypt_strict :: "keyring \<Rightarrow> string \<Rightarrow> string result" where
  "decrypt_strict k v =
     (if v = [] \<or> \<not> starts_with encrypt_prefix v then Inr v
      else let token = drop (length encrypt_prefix) v
           in case kr_main k token of
                Plain s \<Rightarrow> Inr s
              | BadText \<Rightarrow> Inl DecryptError
              | BadToken \<Rightarrow>
                  (case try_fallbacks (kr_fallbacks k) token of
                     Inl e \<Rightarrow> Inl e
                   | Inr None \<Rightarrow> Inl DecryptError
                   | Inr (Some s) \<Rightarrow> Inr s))"

definition decrypt_server_row :: "keyring \<Rightarrow> server \<Rightarrow> server result" where
  "decrypt_server_row k s =
     (case decrypt k (s_password s) of
        Inl e \<Rightarrow> Inl e
      | Inr p \<Rightarrow> (case decrypt k (s_key s) of
          Inl e \<Rightarrow> Inl e | Inr key \<Rightarrow> Inr (s\<lparr>s_password := p, s_key := key\<rparr>)))"

section \<open>Properties\<close>

text \<open>C37. A credential that does not itself begin with the marker survives storage: it is
  stored encrypted and decrypts to itself, under the law that the main key opens what it
  sealed.\<close>

theorem credential_roundtrip:
  assumes "\<And>s. kr_main k (kr_encrypt k s) = Plain s" "\<not> starts_with encrypt_prefix v"
  shows "decrypt_strict k (encrypt k v) = Inr v \<and> decrypt k (encrypt k v) = Inr v \<and>
    (v \<noteq> [] \<longrightarrow> starts_with encrypt_prefix (encrypt k v))"
  using assms
  by (auto simp: encrypt_def decrypt_strict_def decrypt_def encrypt_prefix_def starts_with_def Let_def)

definition sample_keyring :: keyring where
  "sample_keyring = \<lparr>kr_encrypt = rev, kr_main = (\<lambda>t. Plain (rev t)), kr_fallbacks = []\<rparr>"

theorem credential_roundtrip_witness:
  "decrypt_strict sample_keyring (encrypt sample_keyring ''s3cret'') = Inr ''s3cret''"
  using credential_roundtrip [of sample_keyring "''s3cret''"]
  by (simp add: sample_keyring_def encrypt_prefix_def starts_with_def)

text \<open>A credential that begins with the marker is stored as it is, in the clear, and the
  strict decryption that deployments use then fails, when no key opens the rest as a token.\<close>

theorem marked_credential_lost:
  assumes "kr_main k pw = BadToken" "kr_fallbacks k = []"
  shows "encrypt k (encrypt_prefix @ pw) = encrypt_prefix @ pw \<and>
    decrypt_strict k (encrypt k (encrypt_prefix @ pw)) = Inl DecryptError"
  using assms by (simp add: encrypt_def decrypt_strict_def encrypt_prefix_def starts_with_def)

theorem marked_credential_lost_witness:
  "encrypt \<lparr>kr_encrypt = rev, kr_main = (\<lambda>t. BadToken), kr_fallbacks = []\<rparr> ''enc:hunter2'' = ''enc:hunter2''"
  using marked_credential_lost [of "\<lparr>kr_encrypt = rev, kr_main = (\<lambda>t. BadToken), kr_fallbacks = []\<rparr>" "''hunter2''"]
  by (simp add: encrypt_prefix_def)

text \<open>Whatever the strict decryption accepts, the lenient one returns as well; where the
  strict one reports a failure, the lenient one answers the empty credential or fails too.\<close>

theorem strict_refines_lenient:
  "case decrypt_strict k v of
     Inr s \<Rightarrow> decrypt k v = Inr s
   | Inl e \<Rightarrow> decrypt k v = Inr [] \<or> decrypt k v = Inl e"
  by (auto simp: decrypt_def decrypt_strict_def Let_def split: opened_token.splits sum.splits option.splits)

text \<open>The secret is stable: a second start, with a new random key at hand and whatever the
  state of the disk, chooses the secret of the first.\<close>

theorem secret_stable:
  assumes "py_strip new_key = new_key" "new_key \<noteq> []"
    "resolve_secret configured new_key writable kf = (Inr s, kf')"
  shows "resolve_secret configured other writable' kf' = (Inr s, kf')"
  using assms by (auto simp: resolve_secret_def Let_def split: if_splits key_file.splits)

theorem secret_stable_witness:
  "resolve_secret ''devops_cd_2026'' ''new2'' False (Holds ''new1'') = (Inr ''new1'', Holds ''new1'')"
proof (rule secret_stable [of "''new1''" "''devops_cd_2026''" True Absent "''new1''" "Holds ''new1''"])
  show "py_strip ''new1'' = ''new1''" by code_simp
  show "resolve_secret ''devops_cd_2026'' ''new1'' True Absent = (Inr ''new1'', Holds ''new1'')" by code_simp
qed simp

end
