(* ===== verification/Deploy.thy ===== *)
theory Deploy
  imports DeployRun Auth ApprovalRules Registry Deployers Notify Crypto
begin

text \<open>
  \<^verbatim>\<open>backend/services/deploy_service.py\<close>: a deployment over SSH or compose. A run has
  three parts: the checks and the record that takes the project lock
  (\<open>begin_execute\<close>), the loop over the servers (\<open>run_targets\<close>), and the end of the
  record with the notification (\<open>close_execute\<close>). While the loop runs, other threads and
  other instances change the state; that is the parameter \<open>de_meanwhile\<close>. What the servers
  answer is a parameter as well: for the SSH strategy the sessions (\<open>ssh_deploy\<close> of theory
  Deployers), for the two others the result of the strategy. Progress messages to the caller's
  callback are left out.
\<close>

section \<open>State and environment\<close>

record dstate =
  ds_db :: cdb
  ds_reg :: registry

definition logs :: "dstate \<Rightarrow> dlog table" where
  "logs s = db_logs (ds_db s)"

definition set_logs :: "dlog table \<Rightarrow> dstate \<Rightarrow> dstate" where
  "set_logs t s = s\<lparr>ds_db := (ds_db s)\<lparr>db_logs := t\<rparr>\<rparr>"

lemma logs_simps [simp]:
  "logs (set_logs t s) = t" "logs (s\<lparr>ds_reg := m\<rparr>) = logs s" "ds_reg (set_logs t s) = ds_reg s"
  "set_logs (logs s) s = s" "db_apprs (ds_db (set_logs t s)) = db_apprs (ds_db s)"
  by (simp_all add: logs_def set_logs_def)

text \<open>Everything but the records and the registry, which no run touches.\<close>

definition rest_of :: "dstate \<Rightarrow> cdb" where
  "rest_of s = (ds_db s)\<lparr>db_logs := empty_table\<rparr>"

lemma rest_simps [simp]:
  "rest_of (set_logs t s) = rest_of s" "rest_of (s\<lparr>ds_reg := m\<rparr>) = rest_of s"
  by (simp_all add: rest_of_def set_logs_def)

record denv =
  de_settings :: settings
  de_inst :: string
  de_now :: epoch
  de_ts :: string
  de_jobs :: "job list"
  de_hints :: "string \<times> string"
  de_keys :: keyring
  de_notify :: notify_env
  de_remote :: "row_id \<Rightarrow> string \<Rightarrow> ssh_answer"
  de_other :: "string \<Rightarrow> row_id \<Rightarrow> target \<Rightarrow> string \<Rightarrow> deploy_result result"
  de_ms :: "nat \<Rightarrow> int"
  de_total_ms :: int
  de_exc_text :: "exc \<Rightarrow> string"
  de_bar :: string
  de_none :: string
  de_aborted :: string
  de_busy_text :: string
  de_meanwhile :: "dstate \<Rightarrow> dstate"

record exec_args =
  x_project :: string
  x_tag :: string
  x_type :: string
  x_server_ids :: string
  x_target_path :: string
  x_mode :: string
  x_commands :: string
  x_yaml :: string
  x_k8s_ns :: string
  x_k8s_deploy :: string
  x_k8s_container :: string
  x_env_file :: string
  x_note :: string
  x_rbtype :: string
  x_bot :: int
  x_lang :: string
  x_approval :: row_id

section \<open>Options and targets\<close>

definition parse_command_options :: "string \<Rightarrow> options" where
  "parse_command_options commands =
     (if commands = [] then no_options
      else case split_once ''|INV|'' commands of
             None \<Rightarrow> no_options\<lparr>o_commands := Some commands\<rparr>
           | Some (cmds, inventory) \<Rightarrow> no_options\<lparr>o_commands := Some cmds, o_inventory := Some inventory\<rparr>)"

definition unless_blank :: "string \<Rightarrow> string option" where
  "unless_blank s = (if s = [] then None else Some s)"

definition build_options :: "exec_args \<Rightarrow> options" where
  "build_options a =
     (parse_command_options (x_commands a))
       \<lparr>o_yaml := unless_blank (x_yaml a), o_namespace := unless_blank (x_k8s_ns a),
        o_deployment := unless_blank (x_k8s_deploy a), o_container := unless_blank (x_k8s_container a),
        o_env_file := unless_blank (x_env_file a)\<rparr>"

definition undecryptable :: exc where
  "undecryptable = AppException 500 None"

definition build_target :: "keyring \<Rightarrow> server \<Rightarrow> (row_id \<times> target) result" where
  "build_target k r =
     (let wrap = (\<lambda>e. if e = DecryptError then undecryptable else e)
      in case decrypt_strict k (s_password r) of
           Inl e \<Rightarrow> Inl (wrap e)
         | Inr pw \<Rightarrow>
             (case decrypt_strict k (s_key r) of
                Inl e \<Rightarrow> Inl (wrap e)
              | Inr key \<Rightarrow>
                  Inr (s_id r, \<lparr>tg_host = s_host r, tg_port = s_port r, tg_user = s_user r, tg_password = pw,
                    tg_key = key, tg_path = [], tg_mode = [], tg_options = no_options\<rparr>)))"

fun build_all :: "keyring \<Rightarrow> server list \<Rightarrow> (row_id \<times> target) list result" where
  "build_all k [] = Inr []"
| "build_all k (r # rs) = and_then (build_target k r) (\<lambda>t. and_then (build_all k rs) (\<lambda>ts. Inr (t # ts)))"

definition chosen_servers :: "server table \<Rightarrow> string \<Rightarrow> server list" where
  "chosen_servers t server_ids =
     (if server_ids \<noteq> []
      then let ids = parse_server_ids server_ids
           in if ids = [] then [] else t_where (\<lambda>r. s_id r \<in> set ids) t
      else sort_key s_name (t_where (\<lambda>r. s_type r \<in> {''ssh'', ''docker''}) t))"

definition get_targets :: "keyring \<Rightarrow> server table \<Rightarrow> string \<Rightarrow> (row_id \<times> target) list result" where
  "get_targets k t server_ids = build_all k (chosen_servers t server_ids)"

section \<open>Results\<close>

record sresult =
  sr_server :: row_id
  sr_host :: string
  sr_status :: string
  sr_output :: string

definition numbered :: "nat \<Rightarrow> (nat \<times> sresult) \<Rightarrow> string" where
  "numbered n p = ''['' @ nat_str (fst p) @ ''/'' @ nat_str n @ ''] #'' @ nat_str (sr_server (snd p)) @ '' '' @ sr_host (snd p)"

definition build_target_str :: "denv \<Rightarrow> sresult list \<Rightarrow> bool \<Rightarrow> nat \<Rightarrow> string" where
  "build_target_str env results is_batch n =
     (if is_batch then py_join '', '' (List.map (numbered n) (enumerate 1 results))
      else case results of
             [] \<Rightarrow> de_none env
           | r # _ \<Rightarrow> ''#'' @ nat_str (sr_server r) @ '' '' @ sr_host r)"

definition build_output :: "denv \<Rightarrow> sresult list \<Rightarrow> bool \<Rightarrow> nat \<Rightarrow> string" where
  "build_output env results is_batch n =
     (if is_batch
      then py_join [newline] (concat (List.map (\<lambda>p.
             [de_bar env @ '' '' @ numbered n p @ '' ('' @ sr_status (snd p) @ '') '' @ de_bar env,
              sr_output (snd p)]) (enumerate 1 results)))
      else case results of [] \<Rightarrow> [] | r # _ \<Rightarrow> sr_output r)"

definition count_ok :: "sresult list \<Rightarrow> nat" where
  "count_ok results = length (filter (\<lambda>r. sr_status r = ''ok'') results)"

definition overall_status :: "sresult list \<Rightarrow> string" where
  "overall_status results =
     (if count_ok results = length results then ''ok''
      else if count_ok results = 0 then ''failed'' else ''partial'')"

definition overall_label :: "sresult list \<Rightarrow> label" where
  "overall_label results =
     (if count_ok results = length results then LSuccess
      else if 0 < count_ok results then LPartial (count_ok results) (length results) else LFailed)"

section \<open>Checks and the record\<close>

definition deploy_busy :: exc where
  "deploy_busy = ValidationError (Some ''errors.deploy_busy'')"

record plan =
  pl_key :: string
  pl_image :: string
  pl_targets :: "(row_id \<times> target) list"

definition or_value_error :: "'a option \<Rightarrow> 'a result" where
  "or_value_error x = (case x of None \<Rightarrow> Inl ValueError | Some v \<Rightarrow> Inr v)"

text \<open>A registry that is not configured becomes \<open>ValueError\<close>.\<close>

definition registry_or_value_error :: "string \<times> string \<Rightarrow> string result" where
  "registry_or_value_error h = (case registry_base_url h of Inl _ \<Rightarrow> Inl ValueError | Inr b \<Rightarrow> Inr b)"

definition project_key_of :: "job list \<Rightarrow> string \<Rightarrow> string" where
  "project_key_of js project = (case resolve_project_key js project of None \<Rightarrow> project | Some k \<Rightarrow> k)"

definition plan_deploy :: "denv \<Rightarrow> user option \<Rightarrow> exec_args \<Rightarrow> cdb \<Rightarrow> plan result" where
  "plan_deploy env u a db =
     (if starts_with ''k8s/'' (x_type a) then Inl ValueError
      else and_then (case u of None \<Rightarrow> Inr () | Some usr \<Rightarrow> enforce_deploy_perm (de_settings env) usr (x_type a) []) (\<lambda>_.
           and_then (validate_tag (x_tag a)) (\<lambda>_.
           and_then (or_value_error (resolve_harbor_repo (de_jobs env) (x_project a))) (\<lambda>repo.
           and_then (registry_or_value_error (de_hints env)) (\<lambda>base.
             let key = project_key_of (de_jobs env) (x_project a)
             in if find_running_deploy key (db_logs db) \<noteq> None then Inl deploy_busy
                else if \<not> is_registered (x_type a) then Inl ValueError
                else and_then (get_targets (de_keys env) (db_servers db) (x_server_ids a)) (\<lambda>ts.
                       if ts = [] then Inl ValueError
                       else Inr \<lparr>pl_key = key, pl_image = base @ ''/'' @ repo @ '':'' @ x_tag a, pl_targets = ts\<rparr>))))))"

text \<open>The parameter snapshot, for replays.\<close>

definition snapshot_of :: "exec_args \<Rightarrow> params" where
  "snapshot_of a = empty_params
     \<lparr>pp_deploy_type := Some (x_type a), pp_project := Some (x_project a), pp_tag := Some (x_tag a),
      pp_server_ids := Some (x_server_ids a), pp_target_path := Some (x_target_path a),
      pp_deploy_mode := Some (x_mode a), pp_commands := Some (x_commands a),
      pp_yaml_content := Some (x_yaml a), pp_k8s_ns := Some (x_k8s_ns a),
      pp_k8s_deploy := Some (x_k8s_deploy a), pp_k8s_container := Some (x_k8s_container a),
      pp_env_file := Some (x_env_file a), pp_deploy_note := Some (x_note a),
      pp_rollback_type := Some (x_rbtype a), pp_bot_id := Some (x_bot a), pp_lang := Some (x_lang a)\<rparr>"

text \<open>Claim the pending record of the approval, or insert a new one; either may lose the
  project lock to another instance, which both callers report as busy.\<close>

definition claim_or_start ::
  "string \<Rightarrow> epoch \<Rightarrow> string \<Rightarrow> dlog_args \<Rightarrow> dlog table \<Rightarrow> row_id result \<times> dlog table" where
  "claim_or_start inst now ts g t =
     (case claim_pending_deploy_record inst now (g_project g) (g_approval g) t of
        (Inl e, t1) \<Rightarrow> (Inl deploy_busy, t1)
      | (Inr i, t1) \<Rightarrow>
          if i \<noteq> 0 then (Inr i, t1)
          else (case start_deploy_record inst now ts g t1 of
                  (Inl e, t2) \<Rightarrow> (Inl deploy_busy, t2)
                | (Inr j, t2) \<Rightarrow> (Inr j, t2)))"

definition record_args :: "user option \<Rightarrow> exec_args \<Rightarrow> plan \<Rightarrow> dlog_args" where
  "record_args u a p =
     \<lparr>g_type = x_type a, g_project = pl_key p, g_tag = x_tag a, g_image = pl_image p,
      g_by = (case u of None \<Rightarrow> [] | Some usr \<Rightarrow> u_name usr), g_note = x_note a, g_target = [],
      g_params = SDoc (snapshot_of a), g_rbtype = Some (x_rbtype a), g_approval = x_approval a\<rparr>"

record started =
  sx_id :: row_id
  sx_plan :: plan

definition begin_execute :: "denv \<Rightarrow> user option \<Rightarrow> exec_args \<Rightarrow> dstate \<Rightarrow> started result \<times> dstate" where
  "begin_execute env u a s =
     (case plan_deploy env u a (ds_db s) of
        Inl e \<Rightarrow> (Inl e, s)
      | Inr p \<Rightarrow>
          (case claim_or_start (de_inst env) (de_now env) (de_ts env) (record_args u a p) (logs s) of
             (Inl e, t) \<Rightarrow> (Inl e, set_logs t s)
           | (Inr i, t) \<Rightarrow> (Inr \<lparr>sx_id = i, sx_plan = p\<rparr>,
               (set_logs t s)\<lparr>ds_reg := register i (ds_reg s)\<rparr>)))"

section \<open>The loop over the servers\<close>

definition deploy_target :: "denv \<Rightarrow> exec_args \<Rightarrow> plan \<Rightarrow> row_id \<Rightarrow> target \<Rightarrow> deploy_result result" where
  "deploy_target env a p sid t =
     (if x_type a = ''ssh'' then ssh_deploy (de_remote env sid) t (pl_image p) (pl_key p) (x_tag a)
      else de_other env (x_type a) sid t (pl_image p))"

definition prepared :: "exec_args \<Rightarrow> target \<Rightarrow> target" where
  "prepared a t = t\<lparr>tg_path := x_target_path a, tg_mode := x_mode a, tg_options := build_options a\<rparr>"

definition server_result :: "row_id \<Rightarrow> target \<Rightarrow> string \<Rightarrow> string \<Rightarrow> sresult" where
  "server_result sid t status out = \<lparr>sr_server = sid, sr_host = tg_host t, sr_status = status, sr_output = out\<rparr>"

definition stage_of :: "denv \<Rightarrow> nat \<Rightarrow> sresult \<Rightarrow> stage" where
  "stage_of env i r = \<lparr>st_server = Some (sr_server r), st_host = sr_host r, st_status = sr_status r, st_ms = de_ms env i\<rparr>"

text \<open>One server: its result, or \<open>None\<close> when the deployment was cancelled in it.\<close>

definition run_one :: "denv \<Rightarrow> exec_args \<Rightarrow> plan \<Rightarrow> row_id \<Rightarrow> target \<Rightarrow> sresult option" where
  "run_one env a p sid t0 =
     (let t = prepared a t0
      in case validate_target (x_type a) t of
           Some err \<Rightarrow> Some (server_result sid t ''failed'' err)
         | None \<Rightarrow>
             (case deploy_target env a p sid t of
                Inr r \<Rightarrow> Some (server_result sid t (dr_status r) (dr_output r))
              | Inl e \<Rightarrow> if e = DeployCancelled then None
                         else Some (server_result sid t ''failed'' (de_exc_text env e))))"

fun run_targets :: "denv \<Rightarrow> exec_args \<Rightarrow> plan \<Rightarrow> nat \<Rightarrow> (row_id \<times> target) list \<Rightarrow> sresult list \<times> stage list \<times> bool" where
  "run_targets env a p i [] = ([], [], False)"
| "run_targets env a p i ((sid, t) # ts) =
     (case run_one env a p sid t of
        None \<Rightarrow> ([], [], True)
      | Some r \<Rightarrow>
          (case run_targets env a p (Suc i) ts of
             (rs, ss, c) \<Rightarrow> (r # rs, stage_of env i r # ss, c)))"

section \<open>The end of a run\<close>

datatype exec_outcome = XRaised exc | XDone bool row_id "sresult list" | XCancelled row_id "sresult list"

definition finish_run :: "denv \<Rightarrow> row_id \<Rightarrow> finish_args \<Rightarrow> dstate \<Rightarrow> dstate" where
  "finish_run env i f s = set_logs (finish_deploy_record (nat (log_truncate_chars (de_settings env))) i f (logs s)) s"

definition leave_run :: "row_id \<Rightarrow> dstate \<Rightarrow> dstate" where
  "leave_run i s = s\<lparr>ds_reg := unregister i (ds_reg s)\<rparr>"

definition end_args :: "denv \<Rightarrow> plan \<Rightarrow> string \<Rightarrow> string \<Rightarrow> sresult list \<Rightarrow> stage list \<Rightarrow> finish_args" where
  "end_args env p status out rs ss =
     \<lparr>f_status = Some status, f_target = build_target_str env rs (1 < length (pl_targets p)) (length (pl_targets p)),
      f_output = out, f_duration = de_total_ms env, f_stages = ss, f_note = None, f_project = pl_key p\<rparr>"

definition with_suffix :: "string \<Rightarrow> string \<Rightarrow> string \<Rightarrow> string" where
  "with_suffix out long short = (if out = [] then short else out @ long)"

definition cancelled_text :: string where
  "cancelled_text = ''Deployment cancelled by user''"

definition notify_args_of :: "exec_args \<Rightarrow> plan \<Rightarrow> sresult list \<Rightarrow> notify_args" where
  "notify_args_of a p rs =
     \<lparr>na_bot = x_bot a, na_tag = x_tag a, na_project = pl_key p, na_image = pl_image p,
      na_label = overall_label rs, na_mode = str_or (x_mode a) (x_type a),
      na_targets = List.map (\<lambda>r. (if x_type a = ''compose'' then ''docker'' else ''ssh'') @ ''['' @ sr_host r @ '']'') rs,
      na_lang = x_lang a\<rparr>"

text \<open>The three ends: cancelled, run to its end, and aborted by an exception.\<close>

definition run_output :: "denv \<Rightarrow> plan \<Rightarrow> sresult list \<Rightarrow> string" where
  "run_output env p rs = build_output env rs (1 < length (pl_targets p)) (length (pl_targets p))"

definition cancelled_end :: "denv \<Rightarrow> plan \<Rightarrow> sresult list \<Rightarrow> stage list \<Rightarrow> finish_args" where
  "cancelled_end env p rs ss =
     end_args env p ''terminated''
       (with_suffix (run_output env p rs)
          ([newline, newline] @ de_bar env @ '' Deployment cancelled by user '' @ de_bar env) cancelled_text) rs ss"

definition normal_end :: "denv \<Rightarrow> plan \<Rightarrow> sresult list \<Rightarrow> stage list \<Rightarrow> finish_args" where
  "normal_end env p rs ss = end_args env p (overall_status rs) (run_output env p rs) rs ss"

definition aborted_end :: "denv \<Rightarrow> plan \<Rightarrow> exc \<Rightarrow> sresult list \<Rightarrow> stage list \<Rightarrow> finish_args" where
  "aborted_end env p e rs ss =
     (let text = de_aborted env @ de_exc_text env e
      in end_args env p ''failed''
           (take (nat (log_truncate_chars (de_settings env)))
             (with_suffix (run_output env p rs)
                ([newline, newline] @ de_bar env @ '' '' @ text @ '' '' @ de_bar env) text)) rs ss)"

definition close_execute ::
  "denv \<Rightarrow> exec_args \<Rightarrow> started \<Rightarrow> sresult list \<times> stage list \<times> bool \<Rightarrow> dstate \<Rightarrow> exec_outcome \<times> dstate" where
  "close_execute env a b res s =
     (case res of (rs, ss, cancelled) \<Rightarrow>
        let p = sx_plan b; i = sx_id b
        in if cancelled then (XCancelled i rs, leave_run i (finish_run env i (cancelled_end env p rs ss) s))
           else let s1 = finish_run env i (normal_end env p rs ss) s
                in case notify_deploy (de_notify env) (notify_args_of a p rs) of
                     Inr _ \<Rightarrow> (XDone (count_ok rs = length rs) i rs, leave_run i s1)
                   | Inl e \<Rightarrow> (XRaised e, leave_run i (finish_run env i (aborted_end env p e rs ss) s1)))"

definition execute :: "denv \<Rightarrow> user option \<Rightarrow> exec_args \<Rightarrow> dstate \<Rightarrow> exec_outcome \<times> dstate" where
  "execute env u a s =
     (case begin_execute env u a s of
        (Inl e, s1) \<Rightarrow> (XRaised e, s1)
      | (Inr b, s1) \<Rightarrow>
          close_execute env a b (run_targets env a (sx_plan b) 0 (pl_targets (sx_plan b))) (de_meanwhile env s1))"

section \<open>The list of records\<close>

record log_item =
  li_log :: dlog
  li_approval :: "(string \<times> string \<times> astatus) option"

definition list_logs :: "string \<Rightarrow> int \<Rightarrow> int \<Rightarrow> cdb \<Rightarrow> log_item page" where
  "list_logs project page page_size db =
     paginate page page_size
       (List.map (\<lambda>r. \<lparr>li_log = r, li_approval =
            (if d_approval r = 0 then None
             else map_option (\<lambda>a. (a_approver a, a_approved_at a, a_status a)) (t_get a_id (d_approval r) (db_apprs db)))\<rparr>)
         (rev (t_where (\<lambda>r. project = [] \<or> d_project r = project) (db_logs db))))"

section \<open>The protocol of a run\<close>

text \<open>What the two kinds of runs promise each other about the project lock. A beginning either
  fails without a trace or holds the lock of \<open>key\<close>, which was free; an end leaves no running
  record behind and does not touch another record.\<close>

lemma option_eqI: "(\<And>j. x = Some j \<longleftrightarrow> y = Some j) \<Longrightarrow> x = y"
  by (metis not_Some_eq)

text \<open>What other threads and instances keep while a run is under way: the lock invariant and a
  property of the other tables.\<close>

definition kept :: "(dstate \<Rightarrow> dstate) \<Rightarrow> (cdb \<Rightarrow> bool) \<Rightarrow> bool" where
  "kept m Q \<longleftrightarrow> (\<forall>x. lock_inv (logs x) \<longrightarrow> Q (rest_of x) \<longrightarrow> lock_inv (logs (m x)) \<and> Q (rest_of (m x)))"

locale run_protocol =
  fixes key :: string
    and begin_run :: "dstate \<Rightarrow> 'b result \<times> dstate"
    and run_id :: "'b \<Rightarrow> row_id"
    and close_run :: "'b \<Rightarrow> dstate \<Rightarrow> 'o \<times> dstate"
  assumes begin_fail: "lock_inv (logs s) \<Longrightarrow> begin_run s = (Inl e, s') \<Longrightarrow> s' = s"
    and begin_lock: "lock_inv (logs s) \<Longrightarrow> begin_run s = (Inr b, s') \<Longrightarrow>
      lock_inv (logs s') \<and> 0 < run_id b \<and> holder key (logs s) = None \<and>
      holder key (logs s') = Some (run_id b) \<and> (\<forall>p. p \<noteq> key \<longrightarrow> holder p (logs s') = holder p (logs s))"
    and begin_registers: "begin_run s = (Inr b, s') \<Longrightarrow> ds_reg s' = register (run_id b) (ds_reg s)"
    and close_inv: "lock_inv (logs s) \<Longrightarrow> lock_inv (logs (snd (close_run b s)))"
    and close_ends: "lock_inv (logs s) \<Longrightarrow> 0 < run_id b \<Longrightarrow>
      t_get d_id (run_id b) (logs (snd (close_run b s))) = Some r \<Longrightarrow> d_status r \<noteq> ''running''"
    and close_frame: "0 < run_id b \<Longrightarrow> j \<noteq> run_id b \<Longrightarrow>
      t_get d_id j (logs (snd (close_run b s))) = t_get d_id j (logs s)"
    and close_leaves: "ds_reg (snd (close_run b s)) = unregister (run_id b) (ds_reg s)"
    and begin_rest: "rest_of (snd (begin_run s)) = rest_of s"
    and close_rest: "rest_of (snd (close_run b s)) = rest_of s"
begin

lemma busy_refused:
  assumes "lock_inv (logs s)" "holder key (logs s) \<noteq> None"
  shows "\<exists>e. begin_run s = (Inl e, s)"
  using begin_lock [OF assms(1)] begin_fail [OF assms(1)] assms(2)
  by (cases "begin_run s"; cases "fst (begin_run s)") fastforce+

lemma close_holder:
  assumes "lock_inv (logs s)" "0 < run_id b"
  shows "holder p (logs (snd (close_run b s))) =
    (if holder p (logs s) = Some (run_id b) then None else holder p (logs s))"
proof -
  let ?t = "logs (snd (close_run b s))"
  have "holder p ?t = Some j \<longleftrightarrow> holder p (logs s) = Some j \<and> j \<noteq> run_id b" for j
  proof (cases "j = run_id b")
    case True
    then show ?thesis using holder_get [OF close_inv [OF assms(1)], of p b j] close_ends [OF assms] by blast
  next
    case False
    then show ?thesis
      using holder_get [OF close_inv [OF assms(1)], of p b j] holder_get [OF assms(1), of p j] close_frame [OF assms(2) False]
      by simp
  qed
  then show ?thesis by (intro option_eqI) (auto split: if_splits)
qed

lemma run_keeps:
  assumes "kept m Q" "lock_inv (logs s)" "Q (rest_of s)" "begin_run s = (Inr b, s1)"
  shows "lock_inv (logs (snd (close_run b (m s1)))) \<and> Q (rest_of (snd (close_run b (m s1))))"
proof -
  have "lock_inv (logs s1)" "rest_of s1 = rest_of s" using begin_lock [OF assms(2,4)] begin_rest [of s] assms(4) by auto
  then have "lock_inv (logs (m s1))" "Q (rest_of (m s1))" using assms(1,3) by (simp_all add: kept_def)
  then show ?thesis using close_inv close_rest by simp
qed

text \<open>When nothing else happens during the run, every project's lock is as it was before.\<close>

lemma quiet:
  assumes "lock_inv (logs s)" "begin_run s = (Inr b, s1)"
  shows "lock_inv (logs (snd (close_run b s1))) \<and> holder p (logs (snd (close_run b s1))) = holder p (logs s)"
proof -
  have b: "lock_inv (logs s1)" "0 < run_id b" "holder key (logs s) = None" "holder key (logs s1) = Some (run_id b)"
    "p \<noteq> key \<Longrightarrow> holder p (logs s1) = holder p (logs s)"
    using begin_lock [OF assms] by auto
  have "holder p (logs s) \<noteq> Some (run_id b)" if "p \<noteq> key"
  proof
    assume "holder p (logs s) = Some (run_id b)"
    then have "holder p (logs s1) = Some (run_id b)" using b(5) that by simp
    then show False using b(4) holder_get [OF b(1)] that by auto
  qed
  then show ?thesis using close_holder [OF b(1,2), of p] close_inv [OF b(1)] b(3-5) by (cases "p = key") auto
qed

lemma bracket:
  assumes "lock_inv (logs s)" "begin_run s = (Inr b, s1)" "lock_inv (logs s2)"
  shows "holder key (logs s) = None \<and> holder key (logs s1) = Some (run_id b) \<and>
    lock_inv (logs (snd (close_run b s2))) \<and> holder p (logs (snd (close_run b s2))) \<noteq> Some (run_id b) \<and>
    run_id b \<notin> set (active_ids (ds_reg (snd (close_run b s2))))"
proof -
  let ?t = "logs (snd (close_run b s2))"
  have b: "0 < run_id b" using begin_lock [OF assms(1,2)] by simp
  have inv: "lock_inv ?t" using assms(3) by (rule close_inv)
  have "holder p ?t \<noteq> Some (run_id b)"
  proof
    assume "holder p ?t = Some (run_id b)"
    then obtain r where "r \<in> set (rows ?t)" "d_id r = run_id b" "d_status r = ''running''"
      using holder_iff [OF inv] by blast
    then show False using close_ends [OF assms(3) b] dl.get_eq_iff [OF lock_invD(1) [OF inv]] by blast
  qed
  moreover have "run_id b \<notin> set (active_ids (unregister (run_id b) m))" for m
    by (simp add: active_ids_def unregister_def delete_keys)
  ultimately show ?thesis using begin_lock [OF assms(1,2)] inv close_leaves by simp
qed

end

section \<open>The laws of the two parts\<close>

lemma claim_miss:
  assumes "lock_inv t" "claim_pending_deploy_record inst now p aid t = (Inr 0, t')"
  shows "t' = t"
proof (cases "t_last (\<lambda>r. d_approval r = aid \<and> d_status r = ''pending'') t")
  case (Some row)
  then have "d_id row \<noteq> 0" using id_pos [OF assms(1)] t_last_SomeD [OF Some] by blast
  then show ?thesis using assms(2) Some
    by (simp add: claim_pending_deploy_record_def split_beta update_zero_id split: if_splits)
qed (use assms(2) in \<open>auto simp: claim_pending_deploy_record_def split: if_splits\<close>)

lemma claim_fail:
  "claim_pending_deploy_record inst now p aid t = (Inl e, t') \<Longrightarrow> t' = t"
  by (auto simp: claim_pending_deploy_record_def split_beta split: if_splits option.splits)

lemma claim_or_start_ok:
  assumes "lock_inv t" "claim_or_start inst now ts g t = (Inr i, t')"
  shows "lock_inv t' \<and> 0 < i \<and> holder (g_project g) t = None \<and> holder (g_project g) t' = Some i \<and>
    (\<forall>p. p \<noteq> g_project g \<longrightarrow> holder p t' = holder p t)"
proof -
  obtain r t1 where c: "claim_pending_deploy_record inst now (g_project g) (g_approval g) t = (r, t1)"
    by fastforce
  obtain j where r: "r = Inr j" using assms(2) c by (cases r) (auto simp: claim_or_start_def)
  show ?thesis
  proof (cases "j = 0")
    case False
    then have e: "i = j" "t' = t1" using assms(2) c r by (simp_all add: claim_or_start_def)
    have h: "holder (g_project g) t = None" "holder (g_project g) t1 = Some j"
      using claim_facts [OF assms(1) c [unfolded r] False] by blast+
    have inv: "lock_inv t1" using claim_inv [OF assms(1), of inst now "g_project g" "g_approval g"] c by simp
    have pend: "\<exists>r\<in>set (rows t). d_id r = j \<and> d_status r = ''pending''"
      and frame: "\<forall>k. k \<noteq> j \<longrightarrow> t_get d_id k t1 = t_get d_id k t"
      using claim_facts [OF assms(1) c [unfolded r] False] by blast+
    have "holder p t1 = holder p t" if p: "p \<noteq> g_project g" for p
    proof -
      have "holder p t1 \<noteq> Some j" using h(2) holder_get [OF inv] p by auto
      moreover have "holder p t \<noteq> Some j"
        using pend holder_iff [OF assms(1)] dl.key_inj [OF lock_invD(1) [OF assms(1)]] by fastforce
      moreover have "holder p t1 = Some k \<longleftrightarrow> holder p t = Some k" if "k \<noteq> j" for k
        using frame that holder_get [OF inv] holder_get [OF assms(1)] by simp
      ultimately show ?thesis by (metis not_Some_eq)
    qed
    then show ?thesis using e h inv False by simp
  next
    case True
    have t1: "t1 = t" using claim_miss [OF assms(1)] c r True by blast
    then have st: "start_deploy_record inst now ts g t = (Inr i, t')"
      using assms(2) c r True by (auto simp: claim_or_start_def split: prod.splits sum.splits)
    then have free: "\<not> lock_taken (g_project g) t" by (auto simp: start_deploy_record_def)
    have i: "i = next_id t" using st free by (simp add: start_deploy_record_def split_beta)
    have "find_running_deploy (g_project g) t' = Some (dlog_assign i (running_row inst now ts g))"
      using find_running_start [OF assms(1) free, of "g_project g" inst now ts] st i by simp
    moreover have "lock_inv t'" using start_inv [OF assms(1), of inst now ts g] st by simp
    moreover have "0 < i" using i lock_invD(1) [OF assms(1)] by (simp add: wf_table_def)
    moreover have "holder p t' = holder p t" if "p \<noteq> g_project g" for p
      using find_running_start [OF assms(1) free, of p inst now ts] st that by (simp add: holder_def)
    ultimately show ?thesis using free lock_holder [OF assms(1)] by (simp add: holder_def)
  qed
qed

lemma claim_or_start_fail:
  assumes "lock_inv t" "claim_or_start inst now ts g t = (Inl e, t')"
  shows "t' = t \<and> e = deploy_busy"
proof -
  obtain r t1 where c: "claim_pending_deploy_record inst now (g_project g) (g_approval g) t = (r, t1)"
    by fastforce
  show ?thesis
  proof (cases r)
    case (Inl x)
    then show ?thesis using assms(2) c claim_fail [of inst now _ _ t x t1] by (simp add: claim_or_start_def)
  next
    case (Inr j)
    then have j: "j = 0" using assms(2) c by (auto simp: claim_or_start_def split: if_splits)
    then have "t1 = t" using claim_miss [OF assms(1)] c Inr by blast
    then show ?thesis using assms(2) c Inr j
      by (auto simp: claim_or_start_def start_deploy_record_def split_beta split: sum.splits if_splits)
  qed
qed

lemma begin_execute_fail:
  "lock_inv (logs s) \<Longrightarrow> begin_execute env u a s = (Inl e, s') \<Longrightarrow> s' = s"
  using claim_or_start_fail [of "logs s"]
  by (auto simp: begin_execute_def split: sum.splits prod.splits) fastforce

lemma plan_key: "plan_deploy env u a db = Inr p \<Longrightarrow> pl_key p = project_key_of (de_jobs env) (x_project a)"
  by (auto simp: plan_deploy_def Let_def split: if_splits)

lemma begin_execute_ok:
  assumes "begin_execute env u a s = (Inr b, s')"
  obtains p t where "plan_deploy env u a (ds_db s) = Inr p"
    "claim_or_start (de_inst env) (de_now env) (de_ts env) (record_args u a p) (logs s) = (Inr (sx_id b), t)"
    "sx_plan b = p" "s' = (set_logs t s)\<lparr>ds_reg := register (sx_id b) (ds_reg s)\<rparr>"
  using assms by (auto simp: begin_execute_def split: sum.splits prod.splits)

lemma normalize_ends [simp]:
  "normalize_deploy_status (Some ''failed'') = ''failed''"
  "normalize_deploy_status (Some ''partial'') = ''partial''"
  "normalize_deploy_status (Some ''terminated'') = ''terminated''"
  by code_simp+

lemma overall_normalized [simp]: "normalize_deploy_status (Some (overall_status rs)) = overall_status rs"
  and overall_not_running [simp]: "overall_status rs \<noteq> ''running''" "overall_status rs \<noteq> ''terminated''"
  by (simp_all add: overall_status_def)

text \<open>One end of a record.\<close>

lemma finish_get:
  assumes "0 < i"
  shows "t_get d_id j (finish_deploy_record n i f t) =
    map_option (\<lambda>r. if d_id r = i \<and> (normalize_deploy_status (f_status f) = ''terminated'' \<or> d_status r = ''running'')
      then finish_row n f r else r) (t_get d_id j t)"
  using assms by (simp add: finish_deploy_record_def Let_def dl.get_update finish_row_def)

lemma finish_frame:
  assumes "0 < i" "j \<noteq> i"
  shows "t_get d_id j (finish_deploy_record n i f t) = t_get d_id j t"
  using assms by (cases "t_get d_id j t") (auto simp: finish_get dest: t_get_SomeD)

lemma finish_row_status [simp]: "d_status (finish_row n f r) = normalize_deploy_status (f_status f)"
  by (simp add: finish_row_def)

text \<open>A run ends its record by one or more updates of it.\<close>

definition ending :: "finish_args \<Rightarrow> bool" where
  "ending f \<longleftrightarrow> normalize_deploy_status (f_status f) \<noteq> ''running''"

definition finishes :: "nat \<Rightarrow> row_id \<Rightarrow> finish_args list \<Rightarrow> dlog table \<Rightarrow> dlog table" where
  "finishes n i fs t = fold (finish_deploy_record n i) fs t"

lemma finishes_inv: "list_all ending fs \<Longrightarrow> lock_inv t \<Longrightarrow> lock_inv (finishes n i fs t)"
  by (induction fs arbitrary: t) (auto simp: finishes_def ending_def finish_inv)

lemma finishes_frame: "0 < i \<Longrightarrow> j \<noteq> i \<Longrightarrow> t_get d_id j (finishes n i fs t) = t_get d_id j t"
  by (induction fs arbitrary: t) (auto simp: finishes_def finish_frame)

lemma finishes_end:
  assumes "0 < i" "fs \<noteq> []" "list_all ending fs" "t_get d_id i (finishes n i fs t) = Some r"
  shows "d_status r \<noteq> ''running''"
proof -
  obtain gs g where fs: "fs = gs @ [g]" using assms(2) by (metis rev_exhaust)
  let ?u = "finishes n i gs t"
  have "t_get d_id i (finish_deploy_record n i g ?u) = Some r" "ending g"
    using assms(3,4) fs by (simp_all add: finishes_def)
  then obtain r0 where "t_get d_id i ?u = Some r0"
    "r = (if d_id r0 = i \<and> (normalize_deploy_status (f_status g) = ''terminated'' \<or> d_status r0 = ''running'')
       then finish_row n g r0 else r0)" "normalize_deploy_status (f_status g) \<noteq> ''running''"
    using assms(1) by (auto simp: finish_get ending_def)
  then show ?thesis using t_get_SomeD [of d_id i ?u r0] by (auto split: if_splits)
qed

lemma ends_ending [simp]:
  "ending (cancelled_end env p rs ss)" "ending (normal_end env p rs ss)" "ending (aborted_end env p e rs ss)"
  by (simp_all add: ending_def cancelled_end_def normal_end_def aborted_end_def end_args_def Let_def)

lemma close_execute_shape:
  "\<exists>fs. fs \<noteq> [] \<and> list_all ending fs \<and> logs (snd (close_execute env a b res s)) =
     finishes (nat (log_truncate_chars (de_settings env))) (sx_id b) fs (logs s)"
proof -
  obtain rs ss c where res: "res = (rs, ss, c)" by (cases res) auto
  let ?p = "sx_plan b"
  consider "c" | "\<not> c" "\<exists>x. notify_deploy (de_notify env) (notify_args_of a ?p rs) = Inr x"
    | e where "\<not> c" "notify_deploy (de_notify env) (notify_args_of a ?p rs) = Inl e"
    by (cases "notify_deploy (de_notify env) (notify_args_of a ?p rs)") auto
  then show ?thesis
  proof cases
    case 1
    then show ?thesis using res
      by (intro exI [of _ "[cancelled_end env ?p rs ss]"])
        (simp add: close_execute_def Let_def leave_run_def finish_run_def finishes_def)
  next
    case 2
    then show ?thesis using res
      by (intro exI [of _ "[normal_end env ?p rs ss]"])
        (auto simp: close_execute_def Let_def leave_run_def finish_run_def finishes_def)
  next
    case 3
    then show ?thesis using res
      by (intro exI [of _ "[normal_end env ?p rs ss, aborted_end env ?p e rs ss]"])
        (simp add: close_execute_def Let_def leave_run_def finish_run_def finishes_def)
  qed
qed

lemma close_execute_reg: "ds_reg (snd (close_execute env a b res s)) = unregister (sx_id b) (ds_reg s)"
  by (auto simp: close_execute_def Let_def leave_run_def finish_run_def split: sum.splits prod.splits)

lemma begin_execute_rest: "rest_of (snd (begin_execute env u a s)) = rest_of s"
  by (auto simp: begin_execute_def split: sum.splits prod.splits)

lemma close_execute_rest: "rest_of (snd (close_execute env a b res s)) = rest_of s"
  by (auto simp: close_execute_def Let_def leave_run_def finish_run_def split: sum.splits prod.splits)

interpretation ssh: run_protocol "project_key_of (de_jobs env) (x_project a)" "begin_execute env u a" sx_id
    "\<lambda>b. close_execute env a b (res b)" for env u a res
proof unfold_locales
  fix s s' :: dstate and e :: exc and b :: started and j :: row_id and r :: dlog
  show "lock_inv (logs s) \<Longrightarrow> begin_execute env u a s = (Inl e, s') \<Longrightarrow> s' = s" by (rule begin_execute_fail)
  show "begin_execute env u a s = (Inr b, s') \<Longrightarrow> ds_reg s' = register (sx_id b) (ds_reg s)"
    by (elim begin_execute_ok) simp
  obtain fs where fs: "fs \<noteq> []" "list_all ending fs" "logs (snd (close_execute env a b (res b) s)) =
     finishes (nat (log_truncate_chars (de_settings env))) (sx_id b) fs (logs s)"
    using close_execute_shape [of env a b "res b" s] by blast
  show "lock_inv (logs s) \<Longrightarrow> lock_inv (logs (snd (close_execute env a b (res b) s)))"
    using fs by (simp add: finishes_inv)
  show "0 < sx_id b \<Longrightarrow> t_get d_id (sx_id b) (logs (snd (close_execute env a b (res b) s))) = Some r \<Longrightarrow>
      d_status r \<noteq> ''running''"
    using fs finishes_end by simp
  show "0 < sx_id b \<Longrightarrow> j \<noteq> sx_id b \<Longrightarrow>
      t_get d_id j (logs (snd (close_execute env a b (res b) s))) = t_get d_id j (logs s)"
    using fs by (simp add: finishes_frame)
  show "ds_reg (snd (close_execute env a b (res b) s)) = unregister (sx_id b) (ds_reg s)"
    by (rule close_execute_reg)
  show "rest_of (snd (begin_execute env u a s)) = rest_of s" by (rule begin_execute_rest)
  show "rest_of (snd (close_execute env a b (res b) s)) = rest_of s" by (rule close_execute_rest)
next
  fix s s' :: dstate and b :: started
  assume inv: "lock_inv (logs s)" and bg: "begin_execute env u a s = (Inr b, s')"
  obtain p t where p: "plan_deploy env u a (ds_db s) = Inr p"
    "claim_or_start (de_inst env) (de_now env) (de_ts env) (record_args u a p) (logs s) = (Inr (sx_id b), t)"
    "s' = (set_logs t s)\<lparr>ds_reg := register (sx_id b) (ds_reg s)\<rparr>"
    using begin_execute_ok [OF bg] by metis
  show "lock_inv (logs s') \<and> 0 < sx_id b \<and> holder (project_key_of (de_jobs env) (x_project a)) (logs s) = None \<and>
      holder (project_key_of (de_jobs env) (x_project a)) (logs s') = Some (sx_id b) \<and>
      (\<forall>p. p \<noteq> project_key_of (de_jobs env) (x_project a) \<longrightarrow> holder p (logs s') = holder p (logs s))"
    using claim_or_start_ok [OF inv p(2)] plan_key [OF p(1)] p(3) by (simp add: record_args_def)
qed

section \<open>Properties\<close>

text \<open>C5. A deployment brackets its project lock. When the beginning fails, nothing has
  changed. Otherwise the project was free, the new record holds its lock, and whatever the
  outcome (success, failure, cancellation, an exception of the notification) and whatever other
  threads did meanwhile, in the end the record holds no lock and its cancellation event is gone.\<close>

theorem execute_brackets_lock:
  assumes "lock_inv (logs s)" "\<And>x. lock_inv (logs x) \<Longrightarrow> lock_inv (logs (de_meanwhile env x))"
  shows "case begin_execute env u a s of
      (Inl e, s1) \<Rightarrow> execute env u a s = (XRaised e, s)
    | (Inr b, s1) \<Rightarrow>
        (let key = project_key_of (de_jobs env) (x_project a); s' = snd (execute env u a s)
         in holder key (logs s) = None \<and> holder key (logs s1) = Some (sx_id b) \<and> lock_inv (logs s') \<and>
            holder key (logs s') \<noteq> Some (sx_id b) \<and> sx_id b \<notin> set (active_ids (ds_reg s')))"
proof (cases "begin_execute env u a s")
  case (Pair r s1)
  show ?thesis
  proof (cases r)
    case (Inl e)
    then show ?thesis using Pair begin_execute_fail [OF assms(1)] by (auto simp: execute_def)
  next
    case (Inr b)
    let ?res = "run_targets env a (sx_plan b) 0 (pl_targets (sx_plan b))"
    have "lock_inv (logs s1)" using ssh.begin_lock [OF assms(1)] Pair Inr by blast
    then have "lock_inv (logs (de_meanwhile env s1))" by (rule assms(2))
    from ssh.bracket [OF assms(1) Pair [unfolded Inr] this, of "\<lambda>_. ?res"] show ?thesis
      using Pair Inr by (simp add: execute_def Let_def)
  qed
qed

definition sample_server :: server where
  "sample_server = \<lparr>s_id = 1, s_name = ''prod-1'', s_host = ''10.1.1.1'', s_port = 22, s_user = ''root'',
     s_type = ''ssh'', s_password = ''pw'', s_key = [], s_tags = ''prod''\<rparr>"

definition sample_stream :: stream where
  "sample_stream = \<lparr>sm_polls = [\<lparr>po_cancel = False, po_out = Some ''done'', po_err = None\<rparr>],
     sm_exit = Some 0, sm_residual = []\<rparr>"

definition sample_denv :: denv where
  "sample_denv = \<lparr>de_settings = default_settings, de_inst = ''i'', de_now = 1000, de_ts = [],
     de_jobs = [\<lparr>j_name = ''web'', j_path = ''g/web'', j_registry_repo = ''g/web'', j_harbor_repo = [], j_latest_tag = []\<rparr>],
     de_hints = (''harbor'', ''hub.local''), de_keys = sample_keyring, de_notify = sample_notify,
     de_remote = (\<lambda>_ _. Inr sample_stream), de_other = (\<lambda>_ _ _ _. Inr (deploy_failed [])),
     de_ms = (\<lambda>_. 5), de_total_ms = 5, de_exc_text = (\<lambda>_. []), de_bar = ''--'', de_none = ''-'',
     de_aborted = ''aborted: '', de_busy_text = ''BUSY'', de_meanwhile = (\<lambda>s. s)\<rparr>"

definition sample_exec :: exec_args where
  "sample_exec = \<lparr>x_project = ''g/web'', x_tag = ''v1'', x_type = ''ssh'', x_server_ids = ''1'',
     x_target_path = [], x_mode = [], x_commands = ''run {image}'', x_yaml = [], x_k8s_ns = [],
     x_k8s_deploy = [], x_k8s_container = [], x_env_file = [], x_note = [], x_rbtype = ''manual'',
     x_bot = 0, x_lang = ''en'', x_approval = 0\<rparr>"

definition sample_state :: dstate where
  "sample_state = \<lparr>ds_db = \<lparr>db_logs = empty_table, db_apprs = empty_table, db_rules = empty_table,
     db_servers = \<lparr>rows = [sample_server], next_id = 2\<rparr>, db_config = []\<rparr>, ds_reg = []\<rparr>"

lemma sample_state_inv: "lock_inv (logs sample_state)"
  by (simp add: sample_state_def logs_def)

text \<open>The sample run in steps: its plan, its record, its loop.\<close>

definition sample_plan :: plan where
  "sample_plan = \<lparr>pl_key = ''web'', pl_image = ''hub.local/g/web:v1'', pl_targets = [(1, \<lparr>tg_host = ''10.1.1.1'',
     tg_port = 22, tg_user = ''root'', tg_password = ''pw'', tg_key = [], tg_path = [], tg_mode = [],
     tg_options = no_options\<rparr>)]\<rparr>"

definition sample_result :: sresult where
  "sample_result = \<lparr>sr_server = 1, sr_host = ''10.1.1.1'', sr_status = ''ok'', sr_output = ''done''\<rparr>"

definition sample_with_bot :: "int \<Rightarrow> exec_args" where
  "sample_with_bot n = sample_exec\<lparr>x_bot := n\<rparr>"

lemma sample_plan_ok: "plan_deploy sample_denv None sample_exec (ds_db sample_state) = Inr sample_plan"
  by code_simp

lemma plan_caller: "enforce_deploy_perm (de_settings env) u (x_type a) [] = Inr () \<Longrightarrow>
   plan_deploy env (Some u) a db = plan_deploy env None a db"
  by (simp add: plan_deploy_def)

lemma sample_fields:
  "x_project (sample_with_bot n) = x_project sample_exec" "x_tag (sample_with_bot n) = x_tag sample_exec"
  "x_type (sample_with_bot n) = x_type sample_exec" "x_server_ids (sample_with_bot n) = x_server_ids sample_exec"
  "x_target_path (sample_with_bot n) = x_target_path sample_exec" "x_mode (sample_with_bot n) = x_mode sample_exec"
  "x_commands (sample_with_bot n) = x_commands sample_exec" "x_yaml (sample_with_bot n) = x_yaml sample_exec"
  "x_k8s_ns (sample_with_bot n) = x_k8s_ns sample_exec" "x_k8s_deploy (sample_with_bot n) = x_k8s_deploy sample_exec"
  "x_k8s_container (sample_with_bot n) = x_k8s_container sample_exec"
  "x_env_file (sample_with_bot n) = x_env_file sample_exec" "x_lang (sample_with_bot n) = x_lang sample_exec"
  "x_approval (sample_with_bot n) = 0" "x_bot (sample_with_bot n) = n"
  by (simp_all add: sample_with_bot_def) (simp add: sample_exec_def)

lemma plan_bot: "plan_deploy env u (sample_with_bot n) db = plan_deploy env u sample_exec db"
  unfolding plan_deploy_def sample_fields by (rule refl)

lemma sample_begin:
  assumes "plan_deploy sample_denv u sample_exec (ds_db sample_state) = Inr sample_plan"
  obtains s1 r where "begin_execute sample_denv u (sample_with_bot n) sample_state = (Inr \<lparr>sx_id = 1, sx_plan = sample_plan\<rparr>, s1)"
    "de_meanwhile sample_denv s1 = s1" "t_get d_id 1 (logs s1) = Some r" "d_status r = ''running''"
proof -
  let ?g = "record_args u (sample_with_bot n) sample_plan"
  let ?r = "dlog_assign 1 (running_row (de_inst sample_denv) (de_now sample_denv) (de_ts sample_denv) ?g)"
  have l: "logs sample_state = empty_table" by (simp add: sample_state_def logs_def)
  have "claim_or_start (de_inst sample_denv) (de_now sample_denv) (de_ts sample_denv) ?g empty_table =
      (Inr 1, \<lparr>rows = [?r], next_id = 2\<rparr>)"
    by (simp add: claim_or_start_def claim_pending_deploy_record_def record_args_def sample_fields
        start_deploy_record_def lock_taken_def t_insert_def empty_table_def)
  then have "begin_execute sample_denv u (sample_with_bot n) sample_state = (Inr \<lparr>sx_id = 1, sx_plan = sample_plan\<rparr>,
      (set_logs \<lparr>rows = [?r], next_id = 2\<rparr> sample_state)\<lparr>ds_reg := register 1 (ds_reg sample_state)\<rparr>)"
    using assms l by (simp add: begin_execute_def plan_bot)
  moreover have "d_status ?r = ''running''" "d_id ?r = 1" by (simp_all add: dlog_assign_def) (simp add: running_row_def)
  moreover from this have "t_get d_id 1 (logs ((set_logs \<lparr>rows = [?r], next_id = 2\<rparr> sample_state)\<lparr>ds_reg := m\<rparr>)) = Some ?r" for m
    unfolding logs_simps t_get_def by simp
  moreover have "de_meanwhile sample_denv x = x" for x by (simp add: sample_denv_def)
  ultimately show ?thesis by (intro that)
qed

lemma sample_loop: "run_targets sample_denv (sample_with_bot n) sample_plan 0 (pl_targets sample_plan) =
    ([sample_result], [stage_of sample_denv 0 sample_result], False)"
proof -
  have "run_targets sample_denv sample_exec sample_plan 0 (pl_targets sample_plan) =
    ([sample_result], [stage_of sample_denv 0 sample_result], False)" by code_simp
  moreover have "run_one env (sample_with_bot n) p sid t = run_one env sample_exec p sid t" for env p sid t
    unfolding run_one_def deploy_target_def prepared_def build_options_def sample_fields by (rule refl)
  then have "run_targets env (sample_with_bot n) p i ts = run_targets env sample_exec p i ts" for env p i ts
    by (induction ts arbitrary: i) (auto split: option.splits prod.splits)
  ultimately show ?thesis by simp
qed

lemma sample_key: "project_key_of (de_jobs sample_denv) (x_project (sample_with_bot n)) = ''web''"
proof -
  have "project_key_of (de_jobs sample_denv) (x_project sample_exec) = ''web''" by code_simp
  then show ?thesis by (simp add: sample_with_bot_def)
qed

theorem execute_brackets_lock_witness:
  "holder ''web'' (logs sample_state) = None \<and>
   holder ''web'' (logs (snd (execute sample_denv None (sample_with_bot 0) sample_state))) \<noteq> Some 1"
proof -
  obtain s1 where "begin_execute sample_denv None (sample_with_bot 0) sample_state = (Inr \<lparr>sx_id = 1, sx_plan = sample_plan\<rparr>, s1)"
    by (rule sample_begin [OF sample_plan_ok])
  moreover have "lock_inv (logs (de_meanwhile sample_denv x))" if "lock_inv (logs x)" for x
    using that by (simp add: sample_denv_def)
  ultimately show ?thesis
    using execute_brackets_lock [OF sample_state_inv, of sample_denv None "sample_with_bot 0"] sample_key
    by (simp add: Let_def)
qed

lemma plan_ok:
  assumes "plan_deploy env u a db = Inr p"
  shows "\<not> starts_with ''k8s/'' (x_type a) \<and> is_registered (x_type a) \<and> tag_re (x_tag a) \<and> pl_targets p \<noteq> [] \<and>
    (case u of None \<Rightarrow> True | Some usr \<Rightarrow> enforce_deploy_perm (de_settings env) usr (x_type a) [] = Inr ()) \<and>
    find_running_deploy (pl_key p) (db_logs db) = None \<and>
    get_targets (de_keys env) (db_servers db) (x_server_ids a) = Inr (pl_targets p)"
  using assms validate_tag_sound
  by (auto simp: plan_deploy_def Let_def split: if_splits option.splits)

text \<open>C15. A deployment record is made only for a caller who may deploy that type, a tag of the
  whitelist, a registered strategy outside the cluster route, and a non-empty list of servers;
  the record is the caller's, for the job's own key, tag and image.\<close>

theorem execute_checked:
  assumes "begin_execute env (Some u) a s = (Inr b, s1)"
  shows "enforce_deploy_perm (de_settings env) u (x_type a) [] = Inr () \<and> tag_re (x_tag a) \<and>
    is_registered (x_type a) \<and> \<not> starts_with ''k8s/'' (x_type a) \<and> pl_targets (sx_plan b) \<noteq> [] \<and>
    find_running_deploy (project_key_of (de_jobs env) (x_project a)) (logs s) = None"
proof -
  obtain p where p: "plan_deploy env (Some u) a (ds_db s) = Inr p" "sx_plan b = p"
    using begin_execute_ok [OF assms] by metis
  show ?thesis using plan_ok [OF p(1)] plan_key [OF p(1)] p(2) by (simp add: logs_def)
qed

definition carol :: user where
  "carol = \<lparr>u_name = ''carol'', u_role = ''dev'', u_perms = [''cd.deploy.single'']\<rparr>"

lemma carol_ok: "enforce_deploy_perm (de_settings sample_denv) carol (x_type sample_exec) [] = Inr ()"
  by code_simp

theorem execute_checked_witness: "enforce_deploy_perm default_settings carol ''ssh'' [] = Inr ()"
proof -
  obtain s1 where "begin_execute sample_denv (Some carol) (sample_with_bot 0) sample_state =
      (Inr \<lparr>sx_id = 1, sx_plan = sample_plan\<rparr>, s1)"
    by (rule sample_begin [of "Some carol" 0]) (simp_all add: plan_caller [OF carol_ok] sample_plan_ok)
  from execute_checked [OF this] show ?thesis
    by (simp add: sample_denv_def sample_fields) (simp add: sample_exec_def)
qed

text \<open>The loop: one result per server in order, a prefix of the servers when cancelled.\<close>

lemma run_targets_servers:
  "case run_targets env a p i ts of (rs, ss, c) \<Rightarrow>
     length ss = length rs \<and> List.map st_status ss = List.map sr_status rs \<and>
     (\<exists>rest. List.map fst ts = List.map sr_server rs @ rest \<and> (rest = [] \<or> c)) \<and>
     (c \<longrightarrow> length rs < length ts)"
proof (induction ts arbitrary: i)
  case (Cons t ts)
  obtain sid tg where t: "t = (sid, tg)" by fastforce
  obtain rs ss c where r: "run_targets env a p (Suc i) ts = (rs, ss, c)" by (metis prod_cases3)
  have "sr_server r = sid" if "run_one env a p sid tg = Some r" for r
    using that by (auto simp: run_one_def Let_def server_result_def split: option.splits sum.splits if_splits)
  then show ?case using Cons [of "Suc i"] t r
    by (cases "run_one env a p sid tg") (auto simp: stage_of_def)
qed simp

lemma count_ok_all: "count_ok rs = length rs \<longleftrightarrow> list_all (\<lambda>r. sr_status r = ''ok'') rs"
proof (induction rs)
  case (Cons r rs)
  have "count_ok rs \<le> length rs" unfolding count_ok_def by (rule length_filter_le)
  then have "count_ok rs \<noteq> Suc (length rs)" by linarith
  moreover have "count_ok (r # rs) = (if sr_status r = ''ok'' then Suc (count_ok rs) else count_ok rs)"
    by (simp add: count_ok_def)
  ultimately show ?case using Cons by auto
qed (simp add: count_ok_def)

lemma count_ok_none: "count_ok rs = 0 \<longleftrightarrow> \<not> list_ex (\<lambda>r. sr_status r = ''ok'') rs"
  by (auto simp: count_ok_def filter_empty_conv list_ex_iff)

text \<open>A deployment that returns reports the truth: it answers success exactly when every
  chosen server succeeded, one result per server in their order; the record, if no one ended it
  before, is then \<^verbatim>\<open>ok\<close>, \<^verbatim>\<open>failed\<close> when none succeeded, and \<^verbatim>\<open>partial\<close>
  otherwise.\<close>

theorem recorded_status_truthful:
  assumes "begin_execute env u a s = (Inr b, s1)" "execute env u a s = (XDone success i rs, s2)"
    and "t_get d_id (sx_id b) (logs (de_meanwhile env s1)) = Some r" "d_status r = ''running''" "0 < sx_id b"
  shows "i = sx_id b \<and> List.map sr_server rs = List.map fst (pl_targets (sx_plan b)) \<and>
    success = list_all (\<lambda>r. sr_status r = ''ok'') rs \<and>
    map_option d_status (t_get d_id i (logs s2)) = Some
      (if list_all (\<lambda>r. sr_status r = ''ok'') rs then ''ok''
       else if list_ex (\<lambda>r. sr_status r = ''ok'') rs then ''partial'' else ''failed'')"
proof -
  let ?p = "sx_plan b"
  obtain rs' ss c where rt: "run_targets env a ?p 0 (pl_targets ?p) = (rs', ss, c)" by (metis prod_cases3)
  have ex: "close_execute env a b (rs', ss, c) (de_meanwhile env s1) = (XDone success i rs, s2)"
    using assms(1,2) rt by (simp add: execute_def)
  then have c: "\<not> c" and rs: "rs = rs'" "i = sx_id b" "success = (count_ok rs = length rs)"
    and s2: "s2 = leave_run i (finish_run env i (normal_end env ?p rs ss) (de_meanwhile env s1))"
    by (auto simp: close_execute_def Let_def split: if_splits sum.splits)
  have "List.map sr_server rs = List.map fst (pl_targets ?p)"
    using run_targets_servers [where env = env and a = a and p = ?p and i = 0 and ts = "pl_targets ?p"] rt c rs by auto
  moreover have "t_get d_id i (logs s2) =
      Some (finish_row (nat (log_truncate_chars (de_settings env))) (normal_end env ?p rs ss) r)"
    using assms(3-5) rs t_get_SomeD [OF assms(3)]
    by (simp add: s2 leave_run_def finish_run_def finish_get)
  moreover have "overall_status rs = (if list_all (\<lambda>r. sr_status r = ''ok'') rs then ''ok''
       else if list_ex (\<lambda>r. sr_status r = ''ok'') rs then ''partial'' else ''failed'')"
    by (simp add: overall_status_def count_ok_all count_ok_none)
  ultimately show ?thesis using rs count_ok_all by (simp add: normal_end_def end_args_def)
qed

theorem recorded_status_truthful_witness:
  "map_option d_status (t_get d_id 1 (logs (snd (execute sample_denv None (sample_with_bot 0) sample_state)))) = Some ''ok''"
proof -
  obtain s1 r where b: "begin_execute sample_denv None (sample_with_bot 0) sample_state =
      (Inr \<lparr>sx_id = 1, sx_plan = sample_plan\<rparr>, s1)" "de_meanwhile sample_denv s1 = s1"
      "t_get d_id 1 (logs s1) = Some r" "d_status r = ''running''"
    by (rule sample_begin [OF sample_plan_ok])
  have "fst (execute sample_denv None (sample_with_bot 0) sample_state) = XDone True 1 [sample_result]"
    using b by (simp add: execute_def sample_loop close_execute_def Let_def notify_deploy_def
        notify_args_of_def sample_fields count_ok_def) (simp add: sample_result_def)
  then have e: "execute sample_denv None (sample_with_bot 0) sample_state =
      (XDone True 1 [sample_result], snd (execute sample_denv None (sample_with_bot 0) sample_state))"
    by (metis prod.collapse)
  show ?thesis using recorded_status_truthful [OF b(1) e] b(2-) by (simp add: sample_result_def)
qed

text \<open>An exception of the notification turns a successful deployment into a failed one for
  the caller: every server succeeded and the record says \<^verbatim>\<open>ok\<close>, but the call raises.\<close>

theorem notification_masks_success:
  assumes "\<not> c" "overall_status rs = ''ok''"
    and "notify_deploy (de_notify env) (notify_args_of a (sx_plan b) rs) = Inl e"
    and "t_get d_id (sx_id b) (logs s) = Some r" "d_status r = ''running''" "0 < sx_id b"
  shows "fst (close_execute env a b (rs, ss, c) s) = XRaised e \<and>
    map_option d_status (t_get d_id (sx_id b) (logs (snd (close_execute env a b (rs, ss, c) s)))) = Some ''ok''"
  using assms t_get_SomeD [OF assms(4)]
  by (simp add: close_execute_def Let_def leave_run_def finish_run_def finish_get normal_end_def
      aborted_end_def end_args_def)



theorem notification_masks_success_witness:
  "fst (execute sample_denv None (sample_with_bot 1) sample_state) = XRaised OtherError \<and>
   map_option d_status (t_get d_id 1 (logs (snd (execute sample_denv None (sample_with_bot 1) sample_state)))) = Some ''ok''"
proof -
  obtain s1 r where b: "begin_execute sample_denv None (sample_with_bot 1) sample_state =
      (Inr \<lparr>sx_id = 1, sx_plan = sample_plan\<rparr>, s1)" "de_meanwhile sample_denv s1 = s1"
      "t_get d_id 1 (logs s1) = Some r" "d_status r = ''running''"
    by (rule sample_begin [OF sample_plan_ok])
  have "overall_status [sample_result] = ''ok''"
    "notify_deploy (de_notify sample_denv) (notify_args_of (sample_with_bot 1) sample_plan [sample_result]) = Inl OtherError"
    by code_simp+
  then show ?thesis
    using notification_masks_success [of False "[sample_result]" sample_denv "sample_with_bot 1"
        "\<lparr>sx_id = 1, sx_plan = sample_plan\<rparr>" OtherError s1 r "[stage_of sample_denv 0 sample_result]"] b
    by (simp add: execute_def sample_loop)
qed

end
