(* ===== verification/DeployK8s.thy ===== *)
theory DeployK8s
  imports Deploy
begin

text \<open>
  \<^verbatim>\<open>backend/services/k8s_deploy_service.py\<close>: the deployment to a Kubernetes cluster,
  with the same three parts as theory Deploy. The result of the sub-mode's deployer
  (\<^verbatim>\<open>deploy\<close> or the native \<^verbatim>\<open>rollback\<close>) is the parameter \<open>remote\<close>.
\<close>

record k8s_req =
  q_project :: string
  q_tag :: string
  q_cd_type :: string
  q_cluster :: int
  q_path :: string
  q_api_url :: string
  q_ns :: string
  q_note :: string
  q_scheduled :: string
  q_bot :: int
  q_lang :: string

record cluster =
  cl_host :: string
  cl_port :: int
  cl_user :: string
  cl_password :: string
  cl_key :: string

record k8s_result =
  kr_success :: bool
  kr_output :: string
  kr_summary :: string

type_synonym k8s_remote = "bool \<Rightarrow> k8s_req \<Rightarrow> string \<Rightarrow> string \<Rightarrow> cluster \<Rightarrow> k8s_result result"

section \<open>Resolving the cluster and the image\<close>

definition resolve_cluster :: "keyring \<Rightarrow> server table \<Rightarrow> k8s_req \<Rightarrow> cluster result" where
  "resolve_cluster k t q =
     (if q_cluster q = 0 then Inl (ValidationError (Some ''errors.select_cluster''))
      else case (if q_cluster q < 0 then None else t_get s_id (nat (q_cluster q)) t) of
             None \<Rightarrow> Inl (NotFoundError (Some ''errors.cluster_not_found''))
           | Some srv \<Rightarrow>
               let wrap = (\<lambda>e. if e = DecryptError then undecryptable else e)
               in case decrypt_strict k (s_password srv) of
                    Inl e \<Rightarrow> Inl (wrap e)
                  | Inr pwd \<Rightarrow>
                      (case decrypt_strict k (s_key srv) of
                         Inl e \<Rightarrow> Inl (wrap e)
                       | Inr key \<Rightarrow> Inr \<lparr>cl_host = s_host srv, cl_port = s_port srv, cl_user = s_user srv,
                           cl_password = pwd, cl_key = key\<rparr>))"

record k8s_image =
  ki_image :: string
  ki_key :: string
  ki_short :: string

definition resolve_image :: "job list \<Rightarrow> string \<times> string \<Rightarrow> k8s_req \<Rightarrow> k8s_image result" where
  "resolve_image js hints q =
     (case resolve_harbor_repo js (q_project q) of
        None \<Rightarrow> Inl (ValidationError (Some ''errors.no_harbor_repo''))
      | Some repo \<Rightarrow>
          (case registry_base_url hints of
             Inl _ \<Rightarrow> Inl (ValidationError None)
           | Inr base \<Rightarrow>
               let key = project_key_of js (q_project q)
               in Inr \<lparr>ki_image = base @ ''/'' @ repo @ '':'' @ q_tag q, ki_key = key,
                       ki_short = last (split_on (CHR ''/'') key)\<rparr>))"

section \<open>The run\<close>

definition k8s_snapshot :: "k8s_req \<Rightarrow> params" where
  "k8s_snapshot q = empty_params
     \<lparr>pp_deploy_type := Some (''k8s/'' @ q_cd_type q), pp_project := Some (q_project q), pp_tag := Some (q_tag q),
      pp_cd_type := Some (q_cd_type q), pp_cluster_id := Some (q_cluster q), pp_path := Some (q_path q),
      pp_api_url := Some (q_api_url q), pp_k8s_ns := Some (q_ns q), pp_deploy_note := Some (q_note q),
      pp_scheduled_at := Some (q_scheduled q), pp_bot_id := Some (q_bot q), pp_lang := Some (q_lang q)\<rparr>"

definition k8s_record_args :: "user \<Rightarrow> k8s_req \<Rightarrow> k8s_image \<Rightarrow> cluster \<Rightarrow> row_id \<Rightarrow> dlog_args" where
  "k8s_record_args u q ki cl aid =
     \<lparr>g_type = ''k8s/'' @ q_cd_type q, g_project = ki_key ki, g_tag = q_tag q, g_image = ki_image ki,
      g_by = u_name u, g_note = q_note q, g_target = cl_host cl, g_params = SDoc (k8s_snapshot q),
      g_rbtype = Some ''manual'', g_approval = aid\<rparr>"

definition begin_k8s ::
  "denv \<Rightarrow> user \<Rightarrow> k8s_req \<Rightarrow> k8s_image \<Rightarrow> cluster \<Rightarrow> row_id \<Rightarrow> dstate \<Rightarrow> row_id result \<times> dstate" where
  "begin_k8s env u q ki cl aid s =
     (case validate_tag (q_tag q) of
        Inl _ \<Rightarrow> (Inl deploy_validation, s)
      | Inr _ \<Rightarrow>
          if find_running_deploy (ki_key ki) (logs s) \<noteq> None then (Inl deploy_busy, s)
          else (case create_deployer (''k8s/'' @ q_cd_type q) of
                  Inl e \<Rightarrow> (Inl e, s)
                | Inr _ \<Rightarrow>
                    (case claim_or_start (de_inst env) (de_now env) (de_ts env)
                            (k8s_record_args u q ki cl aid) (logs s) of
                       (Inl e, t) \<Rightarrow> (Inl e, set_logs t s)
                     | (Inr i, t) \<Rightarrow> (Inr i, (set_logs t s)\<lparr>ds_reg := register i (ds_reg s)\<rparr>))))"

datatype k8s_outcome = KRaised exc | KDone bool row_id string | KCancelled row_id

definition k8s_end :: "denv \<Rightarrow> k8s_image \<Rightarrow> cluster \<Rightarrow> string \<Rightarrow> string \<Rightarrow> string option \<Rightarrow> finish_args" where
  "k8s_end env ki cl status out note =
     \<lparr>f_status = Some status, f_target = cl_host cl, f_output = out, f_duration = de_total_ms env,
      f_stages = [\<lparr>st_server = None, st_host = cl_host cl, st_status = status, st_ms = de_total_ms env\<rparr>],
      f_note = note, f_project = ki_key ki\<rparr>"

text \<open>A native rollback knows its target only afterwards and prepends it to the note.\<close>

definition rollback_note :: "bool \<Rightarrow> k8s_req \<Rightarrow> k8s_result \<Rightarrow> string option" where
  "rollback_note rb q r =
     (if rb \<and> kr_summary r \<noteq> [] then Some (py_strip (kr_summary r @ '' '' @ py_strip (q_note q))) else None)"

definition close_k8s ::
  "denv \<Rightarrow> k8s_req \<Rightarrow> k8s_image \<Rightarrow> cluster \<Rightarrow> bool \<Rightarrow> row_id \<Rightarrow> k8s_result result \<Rightarrow> dstate \<Rightarrow> k8s_outcome \<times> dstate" where
  "close_k8s env q ki cl rb i r s =
     (case r of
        Inr res \<Rightarrow>
          let status = (if kr_success res then ''ok'' else ''failed'')
          in (KDone (kr_success res) i (kr_output res),
              leave_run i (finish_run env i (k8s_end env ki cl status (kr_output res) (rollback_note rb q res)) s))
      | Inl e \<Rightarrow>
          if e = DeployCancelled
          then (KCancelled i, leave_run i (finish_run env i (k8s_end env ki cl ''terminated'' cancelled_text None) s))
          else (KRaised e, leave_run i (finish_run env i (k8s_end env ki cl ''failed''
                 (take (nat (log_truncate_chars (de_settings env))) (de_exc_text env e)) None) s)))"

definition deploy_k8s_core ::
  "denv \<Rightarrow> k8s_remote \<Rightarrow> user \<Rightarrow> k8s_req \<Rightarrow> k8s_image \<Rightarrow> cluster \<Rightarrow> bool \<Rightarrow> row_id \<Rightarrow> dstate \<Rightarrow> k8s_outcome \<times> dstate" where
  "deploy_k8s_core env remote u q ki cl rb aid s =
     (case begin_k8s env u q ki cl aid s of
        (Inl e, s1) \<Rightarrow> (KRaised e, s1)
      | (Inr i, s1) \<Rightarrow> close_k8s env q ki cl rb i (remote rb q (ki_image ki) (ki_short ki) cl) (de_meanwhile env s1))"

definition notify_k8s :: "denv \<Rightarrow> k8s_req \<Rightarrow> k8s_image \<Rightarrow> cluster \<Rightarrow> bool \<Rightarrow> string option result" where
  "notify_k8s env q ki cl ok =
     notify_deploy (de_notify env)
       \<lparr>na_bot = q_bot q, na_tag = q_tag q, na_project = ki_key ki, na_image = ki_image ki,
        na_label = (if ok then LSuccess else LFailed), na_mode = q_cd_type q,
        na_targets = [''k8s['' @ cl_host cl @ '']''], na_lang = q_lang q\<rparr>"

end
