(* ===== verification/Executor.thy ===== *)
theory Executor
  imports DeployK8s
begin

text \<open>
  \<^verbatim>\<open>backend/services/deploy_executor.py\<close>: deployments replayed from a parameter
  snapshot, for approvals and rollbacks. The snapshot's \<^verbatim>\<open>deploy_type\<close> decides
  between theory Deploy and theory DeployK8s; every exception ends as one of the four statuses.
\<close>

datatype run_status = RunOk | RunFailed | RunBusy | RunCancelled

record run_result =
  rr_status :: run_status
  rr_deploy :: row_id
  rr_output :: string

section \<open>Snapshots of requests\<close>

text \<open>\<^verbatim>\<open>ssh_params\<close>: the fields of a request that are kept; the rollback type and the
  approval are not among them.\<close>

definition ssh_params :: "exec_args \<Rightarrow> params" where
  "ssh_params a = (snapshot_of a)\<lparr>pp_rollback_type := None\<rparr>"

definition k8s_params :: "k8s_req \<Rightarrow> params" where
  "k8s_params q = (k8s_snapshot q)\<lparr>pp_scheduled_at := None\<rparr>"

text \<open>\<^verbatim>\<open>build_params\<close>: the type first, which the fields may override.\<close>

definition build_params :: "string \<Rightarrow> params \<Rightarrow> params" where
  "build_params deploy_type given =
     given\<lparr>pp_deploy_type := (case pp_deploy_type given of None \<Rightarrow> Some deploy_type | Some t \<Rightarrow> Some t)\<rparr>"

section \<open>Execution\<close>

definition is_busy :: "denv \<Rightarrow> exc \<Rightarrow> bool" where
  "is_busy env e =
     (error_key e = Some ''errors.deploy_busy'' \<or> contains_sub (de_busy_text env) (de_exc_text env e))"

text \<open>The keyword arguments taken from the snapshot; a call without one of the three that have
  no default is a \<^verbatim>\<open>TypeError\<close>. The field list has no \<^verbatim>\<open>rollback_type\<close>, so the
  default is always used.\<close>

definition exec_args_of :: "params \<Rightarrow> row_id \<Rightarrow> exec_args result" where
  "exec_args_of p aid =
     (case (pp_project p, pp_tag p, pp_deploy_type p) of
        (Some project, Some tag, Some ty) \<Rightarrow>
          Inr \<lparr>x_project = project, x_tag = tag, x_type = ty, x_server_ids = or_empty (pp_server_ids p),
            x_target_path = or_empty (pp_target_path p), x_mode = or_empty (pp_deploy_mode p),
            x_commands = or_empty (pp_commands p), x_yaml = or_empty (pp_yaml_content p),
            x_k8s_ns = or_empty (pp_k8s_ns p), x_k8s_deploy = or_empty (pp_k8s_deploy p),
            x_k8s_container = or_empty (pp_k8s_container p), x_env_file = or_empty (pp_env_file p),
            x_note = or_empty (pp_deploy_note p), x_rbtype = ''manual'',
            x_bot = (case pp_bot_id p of None \<Rightarrow> 0 | Some b \<Rightarrow> b),
            x_lang = (case pp_lang p of None \<Rightarrow> ''en'' | Some l \<Rightarrow> l), x_approval = aid\<rparr>
      | _ \<Rightarrow> Inl TypeError)"

definition joined_output :: "sresult list \<Rightarrow> string" where
  "joined_output rs = py_join [newline] (List.map sr_output rs)"

definition execute_ssh :: "denv \<Rightarrow> params \<Rightarrow> user \<Rightarrow> row_id \<Rightarrow> dstate \<Rightarrow> run_result result \<times> dstate" where
  "execute_ssh env p u aid s =
     (case exec_args_of p aid of
        Inl e \<Rightarrow> (Inl e, s)
      | Inr a \<Rightarrow>
          (case execute env (Some u) a s of
             (XRaised e, s') \<Rightarrow> (Inl e, s')
           | (XCancelled i rs, s') \<Rightarrow> (Inr \<lparr>rr_status = RunCancelled, rr_deploy = i, rr_output = joined_output rs\<rparr>, s')
           | (XDone ok i rs, s') \<Rightarrow>
               (Inr \<lparr>rr_status = (if ok then RunOk else RunFailed), rr_deploy = i, rr_output = joined_output rs\<rparr>, s')))"

text \<open>The model of the request validates itself: project and tag are required.\<close>

definition k8s_req_of :: "params \<Rightarrow> k8s_req result" where
  "k8s_req_of p =
     (case (pp_project p, pp_tag p) of
        (Some project, Some tag) \<Rightarrow>
          Inr \<lparr>q_project = project, q_tag = tag,
            q_cd_type = (case pp_cd_type p of None \<Rightarrow> ''kubectl'' | Some t \<Rightarrow> t),
            q_cluster = (case pp_cluster_id p of None \<Rightarrow> 0 | Some c \<Rightarrow> c), q_path = or_empty (pp_path p),
            q_api_url = or_empty (pp_api_url p), q_ns = or_empty (pp_k8s_ns p), q_note = or_empty (pp_deploy_note p),
            q_scheduled = [], q_bot = (case pp_bot_id p of None \<Rightarrow> 0 | Some b \<Rightarrow> b),
            q_lang = (case pp_lang p of None \<Rightarrow> ''en'' | Some l \<Rightarrow> l)\<rparr>
      | _ \<Rightarrow> Inl OtherError)"

definition execute_k8s ::
  "denv \<Rightarrow> k8s_remote \<Rightarrow> params \<Rightarrow> user \<Rightarrow> bool \<Rightarrow> row_id \<Rightarrow> dstate \<Rightarrow> run_result result \<times> dstate" where
  "execute_k8s env remote p u rb aid s =
     (case and_then (k8s_req_of p) (\<lambda>q.
           and_then (resolve_image (de_jobs env) (de_hints env) q) (\<lambda>ki.
           and_then (resolve_cluster (de_keys env) (db_servers (ds_db s)) q) (\<lambda>cl. Inr (q, ki, cl)))) of
        Inl e \<Rightarrow> (Inl e, s)
      | Inr (q, ki, cl) \<Rightarrow>
          (case deploy_k8s_core env remote u q ki cl rb aid s of
             (KRaised e, s') \<Rightarrow> (Inl e, s')
           | (KCancelled i, s') \<Rightarrow> (Inr \<lparr>rr_status = RunCancelled, rr_deploy = i, rr_output = cancelled_text\<rparr>, s')
           | (KDone ok i out, s') \<Rightarrow>
               (case notify_k8s env q ki cl ok of
                  Inl e \<Rightarrow> (Inl e, s')
                | Inr _ \<Rightarrow> (Inr \<lparr>rr_status = (if ok then RunOk else RunFailed), rr_deploy = i, rr_output = out\<rparr>, s'))))"

definition execute_from_params ::
  "denv \<Rightarrow> k8s_remote \<Rightarrow> params \<Rightarrow> user \<Rightarrow> bool \<Rightarrow> row_id \<Rightarrow> dstate \<Rightarrow> run_result \<times> dstate" where
  "execute_from_params env remote p u rb aid s =
     (case (if starts_with ''k8s/'' (or_empty (pp_deploy_type p)) then execute_k8s env remote p u rb aid s
            else execute_ssh env p u aid s) of
        (Inr r, s') \<Rightarrow> (r, s')
      | (Inl e, s') \<Rightarrow>
          (\<lparr>rr_status = (if is_busy env e then RunBusy else RunFailed), rr_deploy = 0, rr_output = de_exc_text env e\<rparr>, s'))"

section \<open>The protocol of a cluster run\<close>

lemma k8s_ends [simp]:
  "ending (k8s_end env ki cl ''ok'' out n)" "ending (k8s_end env ki cl ''failed'' out n)"
  "ending (k8s_end env ki cl ''terminated'' out n)"
  by (simp_all add: ending_def k8s_end_def)

lemma close_k8s_shape:
  "\<exists>f. ending f \<and> logs (snd (close_k8s env q ki cl rb i r s)) =
     finishes (nat (log_truncate_chars (de_settings env))) i [f] (logs s)"
proof (cases r)
  case (Inl e)
  then show ?thesis
    by (cases "e = DeployCancelled")
      (auto simp: close_k8s_def leave_run_def finish_run_def finishes_def intro: exI [of _ "k8s_end env ki cl ''terminated'' cancelled_text None"]
        exI [of _ "k8s_end env ki cl ''failed'' (take (nat (log_truncate_chars (de_settings env))) (de_exc_text env e)) None"])
next
  case (Inr res)
  then show ?thesis
    by (intro exI [of _ "k8s_end env ki cl (if kr_success res then ''ok'' else ''failed'') (kr_output res) (rollback_note rb q res)"])
      (auto simp: close_k8s_def Let_def leave_run_def finish_run_def finishes_def)
qed

lemma close_k8s_reg: "ds_reg (snd (close_k8s env q ki cl rb i r s)) = unregister i (ds_reg s)"
  by (cases r) (auto simp: close_k8s_def Let_def leave_run_def finish_run_def)

lemma begin_k8s_rest: "rest_of (snd (begin_k8s env u q ki cl aid s)) = rest_of s"
  by (auto simp: begin_k8s_def split: sum.splits prod.splits)

lemma close_k8s_rest: "rest_of (snd (close_k8s env q ki cl rb i r s)) = rest_of s"
  by (cases r) (auto simp: close_k8s_def Let_def leave_run_def finish_run_def)

lemma begin_k8s_cases:
  assumes "begin_k8s env u q ki cl aid s = (r, s')"
  obtains e where "r = Inl e" "s' = s"
  | t e where "claim_or_start (de_inst env) (de_now env) (de_ts env) (k8s_record_args u q ki cl aid) (logs s) = (Inl e, t)"
      "r = Inl e" "s' = set_logs t s"
  | t i where "claim_or_start (de_inst env) (de_now env) (de_ts env) (k8s_record_args u q ki cl aid) (logs s) = (Inr i, t)"
      "r = Inr i" "s' = (set_logs t s)\<lparr>ds_reg := register i (ds_reg s)\<rparr>" "tag_re (q_tag q)"
proof -
  let ?ok = "(\<exists>x. validate_tag (q_tag q) = Inr x) \<and> find_running_deploy (ki_key ki) (logs s) = None \<and>
     (\<exists>y. create_deployer (''k8s/'' @ q_cd_type q) = Inr y)"
  obtain cr t where c: "claim_or_start (de_inst env) (de_now env) (de_ts env)
      (k8s_record_args u q ki cl aid) (logs s) = (cr, t)" by fastforce
  show thesis
  proof (cases ?ok)
    case False
    then have "\<exists>e. r = Inl e \<and> s' = s" using assms
      by (cases "validate_tag (q_tag q)"; cases "create_deployer (''k8s/'' @ q_cd_type q)";
          cases "find_running_deploy (ki_key ki) (logs s)") (auto simp: begin_k8s_def)
    then show ?thesis using that(1) by blast
  next
    case True
    then have v: "tag_re (q_tag q)" using validate_tag_sound by blast
    have "begin_k8s env u q ki cl aid s = (case cr of Inl e \<Rightarrow> (Inl e, set_logs t s)
        | Inr i \<Rightarrow> (Inr i, (set_logs t s)\<lparr>ds_reg := register i (ds_reg s)\<rparr>))"
      using True c by (auto simp: begin_k8s_def split: sum.splits)
    then show ?thesis using assms that(2,3) c v by (cases cr) auto
  qed
qed

interpretation k8s: run_protocol "ki_key ki" "begin_k8s env u q ki cl aid" "\<lambda>i. i"
    "\<lambda>i. close_k8s env q ki cl rb i (res i)" for env u q ki cl aid rb res
proof unfold_locales
  fix s s' :: dstate and e :: exc and i j :: row_id and r :: dlog
  show "s' = s" if "lock_inv (logs s)" "begin_k8s env u q ki cl aid s = (Inl e, s')"
    using that(2) by (cases rule: begin_k8s_cases) (use claim_or_start_fail [OF that(1)] in force)+
  show "ds_reg s' = register i (ds_reg s)" if "begin_k8s env u q ki cl aid s = (Inr i, s')"
    using that by (cases rule: begin_k8s_cases) auto
  show "lock_inv (logs s') \<and> 0 < i \<and> holder (ki_key ki) (logs s) = None \<and> holder (ki_key ki) (logs s') = Some i \<and>
      (\<forall>p. p \<noteq> ki_key ki \<longrightarrow> holder p (logs s') = holder p (logs s))"
    if "lock_inv (logs s)" "begin_k8s env u q ki cl aid s = (Inr i, s')"
    using that(2) by (cases rule: begin_k8s_cases) (use claim_or_start_ok [OF that(1)] in \<open>force simp: k8s_record_args_def\<close>)+
  obtain f where f: "ending f" "logs (snd (close_k8s env q ki cl rb i (res i) s)) =
     finishes (nat (log_truncate_chars (de_settings env))) i [f] (logs s)"
    using close_k8s_shape by blast
  show "lock_inv (logs s) \<Longrightarrow> lock_inv (logs (snd (close_k8s env q ki cl rb i (res i) s)))"
    using f by (simp add: finishes_inv)
  show "0 < i \<Longrightarrow> t_get d_id i (logs (snd (close_k8s env q ki cl rb i (res i) s))) = Some r \<Longrightarrow> d_status r \<noteq> ''running''"
    using f finishes_end [of i "[f]"] by simp
  show "0 < i \<Longrightarrow> j \<noteq> i \<Longrightarrow> t_get d_id j (logs (snd (close_k8s env q ki cl rb i (res i) s))) = t_get d_id j (logs s)"
    using f by (simp add: finishes_frame)
  show "ds_reg (snd (close_k8s env q ki cl rb i (res i) s)) = unregister i (ds_reg s)"
    by (rule close_k8s_reg)
  show "rest_of (snd (begin_k8s env u q ki cl aid s)) = rest_of s" by (rule begin_k8s_rest)
  show "rest_of (snd (close_k8s env q ki cl rb i (res i) s)) = rest_of s" by (rule close_k8s_rest)
qed

section \<open>Properties\<close>

lemma execute_quiet:
  assumes "lock_inv (logs s)" "\<And>x. de_meanwhile env x = x"
  shows "lock_inv (logs (snd (execute env u a s))) \<and> holder p (logs (snd (execute env u a s))) = holder p (logs s)"
proof (cases "begin_execute env u a s")
  case (Pair r s1)
  show ?thesis
  proof (cases r)
    case (Inl e)
    then have "s1 = s" using begin_execute_fail [OF assms(1)] Pair by blast
    then show ?thesis using Pair Inl assms(1) by (simp add: execute_def)
  next
    case (Inr b)
    let ?res = "run_targets env a (sx_plan b) 0 (pl_targets (sx_plan b))"
    from ssh.quiet [OF assms(1) Pair [unfolded Inr], of "\<lambda>_. ?res"] show ?thesis
      using Pair Inr assms(2) by (simp add: execute_def)
  qed
qed

lemma core_quiet:
  assumes "lock_inv (logs s)" "\<And>x. de_meanwhile env x = x"
  shows "lock_inv (logs (snd (deploy_k8s_core env remote u q ki cl rb aid s))) \<and>
    holder p (logs (snd (deploy_k8s_core env remote u q ki cl rb aid s))) = holder p (logs s)"
proof (cases "begin_k8s env u q ki cl aid s")
  case (Pair r s1)
  show ?thesis
  proof (cases r)
    case (Inl e)
    then have "s1 = s" using k8s.begin_fail [OF assms(1)] Pair by blast
    then show ?thesis using Pair Inl assms(1) by (simp add: deploy_k8s_core_def)
  next
    case (Inr i)
    from k8s.quiet [OF assms(1) Pair [unfolded Inr], of rb "\<lambda>_. remote rb q (ki_image ki) (ki_short ki) cl"]
    show ?thesis using Pair Inr assms(2) by (simp add: deploy_k8s_core_def)
  qed
qed

text \<open>The state an execution ends in is that of one run, or the initial one.\<close>

lemma execute_from_params_state:
  "snd (execute_from_params env remote p u rb aid s) = s \<or>
   (\<exists>a. exec_args_of p aid = Inr a \<and> snd (execute_from_params env remote p u rb aid s) = snd (execute env (Some u) a s)) \<or>
   (\<exists>q ki cl. k8s_req_of p = Inr q \<and> resolve_image (de_jobs env) (de_hints env) q = Inr ki \<and>
      snd (execute_from_params env remote p u rb aid s) = snd (deploy_k8s_core env remote u q ki cl rb aid s))"
proof -
  have "snd (execute_ssh env p u aid s) = s \<or>
      (\<exists>a. exec_args_of p aid = Inr a \<and> snd (execute_ssh env p u aid s) = snd (execute env (Some u) a s))"
    by (auto simp: execute_ssh_def split: sum.splits prod.splits exec_outcome.splits)
  moreover have "snd (execute_k8s env remote p u rb aid s) = s \<or>
      (\<exists>q ki cl. k8s_req_of p = Inr q \<and> resolve_image (de_jobs env) (de_hints env) q = Inr ki \<and>
        snd (execute_k8s env remote p u rb aid s) = snd (deploy_k8s_core env remote u q ki cl rb aid s))"
  proof (cases "and_then (k8s_req_of p) (\<lambda>q. and_then (resolve_image (de_jobs env) (de_hints env) q) (\<lambda>ki.
           and_then (resolve_cluster (de_keys env) (db_servers (ds_db s)) q) (\<lambda>cl. Inr (q, ki, cl))))")
    case (Inr x)
    obtain q ki cl where x: "x = (q, ki, cl)" by (cases x) auto
    have "snd (execute_k8s env remote p u rb aid s) = snd (deploy_k8s_core env remote u q ki cl rb aid s)"
      using Inr x by (cases "deploy_k8s_core env remote u q ki cl rb aid s")
        (auto simp: execute_k8s_def split: k8s_outcome.splits sum.splits)
    then show ?thesis using Inr x by auto
  qed (simp add: execute_k8s_def)
  ultimately show ?thesis
    by (auto simp: execute_from_params_def split: sum.splits prod.splits if_splits)
qed

text \<open>What other threads keep, an execution keeps.\<close>

lemma execute_keeps:
  assumes "kept (de_meanwhile env) Q" "lock_inv (logs s)" "Q (rest_of s)"
  shows "lock_inv (logs (snd (execute env u a s))) \<and> Q (rest_of (snd (execute env u a s)))"
proof (cases "begin_execute env u a s")
  case (Pair r s1)
  show ?thesis
  proof (cases r)
    case (Inl e)
    then have "s1 = s" using begin_execute_fail [OF assms(2)] Pair by blast
    then show ?thesis using Pair Inl assms(2,3) by (simp add: execute_def)
  next
    case (Inr b)
    let ?res = "run_targets env a (sx_plan b) 0 (pl_targets (sx_plan b))"
    from ssh.run_keeps [OF assms(1,2) assms(3) Pair [unfolded Inr], of "\<lambda>_. ?res"] show ?thesis
      using Pair Inr by (simp add: execute_def)
  qed
qed

lemma core_keeps:
  assumes "kept (de_meanwhile env) Q" "lock_inv (logs s)" "Q (rest_of s)"
  shows "lock_inv (logs (snd (deploy_k8s_core env remote u q ki cl rb aid s))) \<and>
    Q (rest_of (snd (deploy_k8s_core env remote u q ki cl rb aid s)))"
proof (cases "begin_k8s env u q ki cl aid s")
  case (Pair r s1)
  show ?thesis
  proof (cases r)
    case (Inl e)
    then have "s1 = s" using k8s.begin_fail [OF assms(2)] Pair by blast
    then show ?thesis using Pair Inl assms(2,3) by (simp add: deploy_k8s_core_def)
  next
    case (Inr i)
    from k8s.run_keeps [OF assms(1,2) assms(3) Pair [unfolded Inr], of rb "\<lambda>_. remote rb q (ki_image ki) (ki_short ki) cl"]
    show ?thesis using Pair Inr by (simp add: deploy_k8s_core_def)
  qed
qed

lemma executor_keeps:
  assumes "kept (de_meanwhile env) Q" "lock_inv (logs s)" "Q (rest_of s)"
    and "execute_from_params env remote p u rb aid s = (r, s')"
  shows "lock_inv (logs s') \<and> Q (rest_of s')"
  using execute_from_params_state [of env remote p u rb aid s] execute_keeps [OF assms(1-3)] core_keeps [OF assms(1-3)]
    assms(2-4) by auto

text \<open>An execution of a snapshot by itself restores every project lock: whatever the type,
  the outcome and the errors on the way, each project's lock is held afterwards by the record
  that held it before, and the lock invariant holds.\<close>

theorem executor_restores_locks:
  assumes "lock_inv (logs s)" "\<And>x. de_meanwhile env x = x"
  shows "lock_inv (logs (snd (execute_from_params env remote p u rb aid s))) \<and>
    holder project (logs (snd (execute_from_params env remote p u rb aid s))) = holder project (logs s)"
  using execute_from_params_state [of env remote p u rb aid s] execute_quiet [OF assms] core_quiet [OF assms] assms(1)
  by auto

theorem executor_restores_locks_witness:
  "holder ''web'' (logs (snd (execute_from_params sample_denv (\<lambda>_ _ _ _ _. Inl OtherError)
     (ssh_params sample_exec) carol False 0 sample_state))) = None"
proof -
  have "de_meanwhile sample_denv x = x" for x by (simp add: sample_denv_def)
  moreover have "holder ''web'' (logs sample_state) = None"
    by (simp add: holder_def find_running_deploy_def t_last_def sample_state_def logs_def empty_table_def)
  ultimately show ?thesis using executor_restores_locks [OF sample_state_inv] by metis
qed

text \<open>While a deployment of the project runs, executing a snapshot for it changes nothing:
  the answer is busy or failed, without a record.\<close>

theorem locked_project_untouched:
  assumes "lock_inv (logs s)" "pp_project p = Some project"
    and "holder (project_key_of (de_jobs env) project) (logs s) \<noteq> None"
  shows "\<exists>r. execute_from_params env remote p u rb aid s = (r, s) \<and> rr_status r \<in> {RunFailed, RunBusy} \<and> rr_deploy r = 0"
proof -
  have ssh: "\<exists>e. execute_ssh env p u aid s = (Inl e, s)"
  proof (cases "exec_args_of p aid")
    case (Inr a)
    then have "x_project a = project" using assms(2)
      by (auto simp: exec_args_of_def split: option.splits)
    then obtain e where "begin_execute env (Some u) a s = (Inl e, s)"
      using ssh.busy_refused [of s env a "Some u"] assms by auto
    then show ?thesis using Inr by (simp add: execute_ssh_def execute_def)
  qed (simp add: execute_ssh_def)
  have k8s: "\<exists>e. execute_k8s env remote p u rb aid s = (Inl e, s)"
  proof (cases "and_then (k8s_req_of p) (\<lambda>q. and_then (resolve_image (de_jobs env) (de_hints env) q) (\<lambda>ki.
           and_then (resolve_cluster (de_keys env) (db_servers (ds_db s)) q) (\<lambda>cl. Inr (q, ki, cl))))")
    case (Inr x)
    obtain q ki cl where x: "x = (q, ki, cl)" by (cases x) auto
    have "q_project q = project" using Inr x assms(2) by (auto simp: k8s_req_of_def split: option.splits)
    moreover have "ki_key ki = project_key_of (de_jobs env) (q_project q)"
      using Inr x by (auto simp: resolve_image_def Let_def split: option.splits sum.splits)
    ultimately obtain e where "begin_k8s env u q ki cl aid s = (Inl e, s)"
      using k8s.busy_refused [of s ki env u q cl aid] assms by auto
    then show ?thesis using Inr x by (simp add: execute_k8s_def deploy_k8s_core_def)
  qed (simp add: execute_k8s_def)
  show ?thesis using ssh k8s by (auto simp: execute_from_params_def)
qed

definition busy_state :: dstate where
  "busy_state = set_logs sample_table sample_state"

theorem locked_project_untouched_witness:
  "snd (execute_from_params sample_denv (\<lambda>_ _ _ _ _. Inl OtherError) (ssh_params sample_exec) carol False 0 busy_state)
     = busy_state"
proof -
  have l: "logs busy_state = sample_table" by (simp add: busy_state_def)
  have "pp_project (ssh_params sample_exec) = Some ''g/web''"
    by (simp add: ssh_params_def snapshot_of_def sample_exec_def)
  moreover have "project_key_of (de_jobs sample_denv) ''g/web'' = ''web''" by code_simp
  moreover have "holder ''web'' sample_table \<noteq> None" by (simp add: holder_def sample_find)
  ultimately show ?thesis
    using locked_project_untouched [of busy_state "ssh_params sample_exec" "''g/web''" sample_denv] sample_table_inv l
    by (metis snd_conv)
qed

text \<open>A rollback that needs no approval is recorded as a manual deployment, whatever type
  the snapshot names: the executor does not pass the type on.\<close>

theorem rollback_type_lost:
  "map_sum id x_rbtype (exec_args_of (p\<lparr>pp_rollback_type := Some rt\<rparr>) aid) =
   map_sum id (\<lambda>_. ''manual'') (exec_args_of p aid) \<and>
   g_rbtype (k8s_record_args u q ki cl aid) = Some ''manual''"
  by (auto simp: exec_args_of_def k8s_record_args_def split: option.splits)

end
