(* ===== verification/Execution.thy ===== *)
theory Execution
  imports Approvals Executor
begin

text \<open>
  The execution of approved requests (\<^verbatim>\<open>backend/services/approval_service.py\<close>, from
  \<^verbatim>\<open>_enforce_execute_perm\<close> on): claiming, running, the recovery after a crash, and the
  scheduler. The state is that of theory Deploy with the identity caches, which a claim
  consults to rebuild the requester's current permissions.
\<close>

section \<open>State and environment\<close>

record estate =
  es_d :: dstate
  es_caches :: caches

record xenv =
  xe_d :: denv
  xe_k8s :: k8s_remote
  xe_glue :: glue
  xe_times :: times
  xe_now :: string

definition db_of :: "estate \<Rightarrow> cdb" where
  "db_of s = ds_db (es_d s)"

definition set_db :: "cdb \<Rightarrow> estate \<Rightarrow> estate" where
  "set_db db s = s\<lparr>es_d := (es_d s)\<lparr>ds_db := db\<rparr>\<rparr>"

lemma db_simps [simp]:
  "db_of (set_db db s) = db" "db_of (s\<lparr>es_caches := c\<rparr>) = db_of s" "set_db (db_of s) s = s"
  "ds_reg (es_d (set_db db s)) = ds_reg (es_d s)" "db_of (s\<lparr>es_d := d\<rparr>) = ds_db d"
  by (simp_all add: db_of_def set_db_def)

section \<open>Claiming\<close>

definition execute_perm :: "nat \<Rightarrow> exc" where
  "execute_perm code = AppException code (Some ''errors.approval_execute_perm'')"

definition enforce_execute_perm :: "settings \<Rightarrow> params \<Rightarrow> user \<Rightarrow> unit result" where
  "enforce_execute_perm st p u =
     (if pp_rollback p = Some True
      then (if is_super st u \<or> ''cd.deploy-manage'' \<in> set (u_perms u) then Inr () else Inl (execute_perm 403))
      else case enforce_deploy_perm st u (or_empty (pp_deploy_type p)) [] of
             Inl e \<Rightarrow> Inl (execute_perm (status_code e))
           | Inr _ \<Rightarrow> Inr ())"

definition self_only :: exc where
  "self_only = AppException 403 (Some ''errors.approval_execute_self_only'')"

definition not_executable :: exc where
  "not_executable = ConflictError (Some ''errors.approval_not_executable'')"

definition params_invalid :: exc where
  "params_invalid = ValidationError (Some ''errors.approval_params_invalid'')"

definition claim_for_execution ::
  "xenv \<Rightarrow> row_id \<Rightarrow> string \<Rightarrow> estate \<Rightarrow> (approval \<times> user) result \<times> estate" where
  "claim_for_execution x aid username s =
     (case get_by_id aid (db_of s) of
        None \<Rightarrow> (Inl approval_not_found, s)
      | Some a \<Rightarrow>
          if a_requester a \<noteq> username then (Inl self_only, s)
          else if a_status a \<noteq> Approved then (Inl not_executable, s)
          else (case load_user_context (de_settings (xe_d x)) (xe_glue x) (xe_times x) (a_requester a) (es_caches s) of
             (Inl e, c) \<Rightarrow> (Inl e, s\<lparr>es_caches := c\<rparr>)
           | (Inr u, c) \<Rightarrow>
               let s1 = s\<lparr>es_caches := c\<rparr>
               in case load_snapshot (a_params a) of
                    Inl _ \<Rightarrow> (Inl params_invalid, s1)
                  | Inr p \<Rightarrow>
                      (case enforce_execute_perm (de_settings (xe_d x)) p u of
                         Inl e \<Rightarrow> (Inl e, s1)
                       | Inr _ \<Rightarrow>
                           (case transition (xe_now x) aid [Approved] Deploying no_fields (db_of s1) of
                              (ok, db') \<Rightarrow>
                                if \<not> ok then (Inl not_executable, set_db db' s1)
                                else (Inr (case get_by_id aid db' of None \<Rightarrow> a | Some a' \<Rightarrow> a', u), set_db db' s1)))))"

section \<open>Running a claimed request\<close>

definition with_deploy :: "row_id \<Rightarrow> approval \<Rightarrow> approval" where
  "with_deploy i a = a\<lparr>a_deploy := i\<rparr>"

definition advance :: "xenv \<Rightarrow> row_id \<Rightarrow> astatus \<Rightarrow> (approval \<Rightarrow> approval) \<Rightarrow> cdb \<Rightarrow> cdb" where
  "advance x aid to f db = snd (transition (xe_now x) aid [Deploying] to f db)"

definition settle :: "xenv \<Rightarrow> row_id \<Rightarrow> run_result \<Rightarrow> cdb \<Rightarrow> cdb" where
  "settle x aid r db =
     (case rr_status r of
        RunOk \<Rightarrow> advance x aid Deployed (with_deploy (rr_deploy r)) db
      | RunBusy \<Rightarrow>
          (let db' = advance x aid Approved no_fields db
           in db'\<lparr>db_logs := reset_pending_deploy_record aid (db_logs db')\<rparr>)
      | RunCancelled \<Rightarrow> advance x aid Cancelled no_fields db
      | RunFailed \<Rightarrow> advance x aid Failed (with_deploy (rr_deploy r)) db)"

definition status_changed :: run_result where
  "status_changed = \<lparr>rr_status = RunFailed, rr_deploy = 0,
     rr_output = ''approval status changed before execution''\<rparr>"

definition run_approval :: "xenv \<Rightarrow> row_id \<Rightarrow> user \<Rightarrow> estate \<Rightarrow> run_result result \<times> estate" where
  "run_approval x aid u s =
     (case get_by_id aid (db_of s) of
        None \<Rightarrow> (Inr status_changed, s)
      | Some row \<Rightarrow>
          if a_status row \<noteq> Deploying then (Inr status_changed, s)
          else (case load_snapshot (a_params row) of
             Inl e \<Rightarrow> (Inl e, s)
           | Inr p0 \<Rightarrow>
               (case execute_from_params (xe_d x) (xe_k8s x) (p0\<lparr>pp_rollback := None, pp_approval_id := None\<rparr>) u
                       (pp_rollback p0 = Some True) aid (es_d s) of
                  (r, d) \<Rightarrow> (Inr r, set_db (settle x aid r (ds_db d)) (s\<lparr>es_d := d\<rparr>)))))"

section \<open>Recovery\<close>

definition has_log :: "dlog table \<Rightarrow> string \<Rightarrow> approval \<Rightarrow> bool" where
  "has_log t status a = list_ex (\<lambda>r. 0 < d_approval r \<and> d_status r = status \<and> d_approval r = a_id a) (rows t)"

definition newest_log :: "dlog table \<Rightarrow> string \<Rightarrow> approval \<Rightarrow> row_id" where
  "newest_log t status a =
     (case t_last (\<lambda>r. d_approval r = a_id a \<and> d_status r = status) t of None \<Rightarrow> 0 | Some r \<Rightarrow> d_id r)"

definition converge :: "string \<Rightarrow> dlog table \<Rightarrow> string \<Rightarrow> astatus \<Rightarrow> approval table \<Rightarrow> approval table" where
  "converge now t log_status to at =
     fst (t_update (\<lambda>a. a_status a = Deploying \<and> has_log t log_status a)
       (\<lambda>a. a\<lparr>a_status := to, a_updated := now, a_deploy := newest_log t log_status a\<rparr>) at)"

definition has_running :: "dlog table \<Rightarrow> approval \<Rightarrow> bool" where
  "has_running t a = list_ex (\<lambda>r. d_approval r = a_id a \<and> d_status r = ''running'') (rows t)"

definition recover_approvals :: "string \<Rightarrow> dlog table \<Rightarrow> approval table \<Rightarrow> approval table" where
  "recover_approvals now t at =
     fst (t_update (\<lambda>a. a_status a = Deploying \<and> \<not> has_running t a)
       (\<lambda>a. a\<lparr>a_status := Approved, a_updated := now\<rparr>)
       (converge now t ''failed'' Failed (converge now t ''ok'' Deployed at)))"

definition reopen_interrupted :: "dlog table \<Rightarrow> dlog table" where
  "reopen_interrupted t =
     fst (t_update (\<lambda>r. 0 < d_approval r \<and> d_status r = ''interrupted'')
       (\<lambda>r. r\<lparr>d_status := ''pending'', d_lock := None\<rparr>) t)"

definition recover_on_startup :: "epoch \<Rightarrow> string \<Rightarrow> cdb \<Rightarrow> cdb" where
  "recover_on_startup now nows db =
     (let t = fst (recover_stale_running now default_stale (db_logs db))
      in db\<lparr>db_logs := reopen_interrupted t, db_apprs := recover_approvals nows t (db_apprs db)\<rparr>)"

section \<open>The scheduler\<close>

definition is_due :: "string \<Rightarrow> approval \<Rightarrow> bool" where
  "is_due now a = (a_status a = Approved \<and> a_scheduled a \<noteq> [] \<and> a_scheduled a \<le> now)"

definition due_list :: "string \<Rightarrow> cdb \<Rightarrow> (row_id \<times> string) list" where
  "due_list now db =
     List.map (\<lambda>a. (a_id a, a_requester a)) (sort_key a_scheduled (t_where (is_due now) (db_apprs db)))"

definition clear_schedule :: "string \<Rightarrow> row_id \<Rightarrow> cdb \<Rightarrow> cdb" where
  "clear_schedule now aid db =
     db\<lparr>db_apprs := fst (t_update (\<lambda>a. a_id a = aid \<and> a_status a = Approved)
        (\<lambda>a. a\<lparr>a_scheduled := [], a_updated := now\<rparr>) (db_apprs db))\<rparr>"

fun is_conflict :: "exc \<Rightarrow> bool" where
  "is_conflict (ConflictError _) = True"
| "is_conflict _ = False"

text \<open>One due request: the result of the run if it got that far.\<close>

definition handle_failure :: "xenv \<Rightarrow> row_id \<Rightarrow> exc \<Rightarrow> estate \<Rightarrow> estate" where
  "handle_failure x aid e s =
     (if is_conflict e then s
      else if is_app_exception e then set_db (clear_schedule (xe_now x) aid (db_of s)) s
      else let db' = advance x aid Approved no_fields (db_of s)
           in set_db (db'\<lparr>db_logs := reset_pending_deploy_record aid (db_logs db')\<rparr>) s)"

definition run_due_one :: "xenv \<Rightarrow> row_id \<Rightarrow> string \<Rightarrow> estate \<Rightarrow> bool \<times> estate" where
  "run_due_one x aid requester s =
     (case claim_for_execution x aid requester s of
        (Inl e, s1) \<Rightarrow> (False, handle_failure x aid e s1)
      | (Inr (_, u), s1) \<Rightarrow>
          (case run_approval x aid u s1 of
             (Inl e, s2) \<Rightarrow> (False, handle_failure x aid e s2)
           | (Inr r, s2) \<Rightarrow> (rr_status r = RunOk, s2)))"

text \<open>Every request is handled in its own environment (its moment, its servers).\<close>

fun run_due_list :: "(row_id \<Rightarrow> xenv) \<Rightarrow> (row_id \<times> string) list \<Rightarrow> estate \<Rightarrow> nat \<times> estate" where
  "run_due_list x [] s = (0, s)"
| "run_due_list x ((aid, requester) # todo) s =
     (case run_due_one (x aid) aid requester s of
        (ok, s1) \<Rightarrow> (case run_due_list x todo s1 of (n, s2) \<Rightarrow> ((if ok then Suc n else n), s2)))"

definition run_due_scheduled :: "string \<Rightarrow> (row_id \<Rightarrow> xenv) \<Rightarrow> estate \<Rightarrow> nat \<times> estate" where
  "run_due_scheduled now x s = run_due_list x (due_list now (db_of s)) s"

text \<open>One period of the scheduler thread, under the distributed lock: the due requests, then the
  recovery. The three moments are those of the lock, of the due list and of the recovery.\<close>

record moments =
  mo_lock :: epoch
  mo_due :: string
  mo_recover :: epoch
  mo_stamp :: string

definition scheduler_tick :: "row_counting \<Rightarrow> string \<Rightarrow> moments \<Rightarrow> (row_id \<Rightarrow> xenv) \<Rightarrow> estate \<Rightarrow> nat option \<times> estate" where
  "scheduler_tick drv inst m x s =
     (case acquire drv inst (mo_lock m) ''scheduled_executor'' 120 (db_config (db_of s)) of
        (False, cfg) \<Rightarrow> (None, set_db ((db_of s)\<lparr>db_config := cfg\<rparr>) s)
      | (True, cfg) \<Rightarrow>
          (case run_due_scheduled (mo_due m) x (set_db ((db_of s)\<lparr>db_config := cfg\<rparr>) s) of
             (n, s1) \<Rightarrow>
               let db1 = recover_on_startup (mo_recover m) (mo_stamp m) (db_of s1)
               in (Some n, set_db (db1\<lparr>db_config := release inst ''scheduled_executor'' (db_config db1)\<rparr>) s1)))"

section \<open>What a claim does\<close>

lemma execution_hit:
  assumes "claim_for_execution x aid name s = (Inr (a, u), s')"
  obtains a0 p c where "get_by_id aid (db_of s) = Some a0" "a_requester a0 = name" "a_status a0 = Approved"
    "load_user_context (de_settings (xe_d x)) (xe_glue x) (xe_times x) name (es_caches s) = (Inr u, c)"
    "load_snapshot (a_params a0) = Inr p" "enforce_execute_perm (de_settings (xe_d x)) p u = Inr ()"
    "transition (xe_now x) aid [Approved] Deploying no_fields (db_of s) = (True, db_of s')" "es_caches s' = c"
    "get_by_id aid (db_of s') = None \<and> a = a0 \<or> get_by_id aid (db_of s') = Some a"
    "ds_reg (es_d s') = ds_reg (es_d s)"
  using assms
  by (auto simp: claim_for_execution_def Let_def set_db_def db_of_def
      split: option.splits if_splits sum.splits prod.splits)

lemma claim_needs_approved:
  assumes "apprs_ok (db_of s)" "status_at aid (db_of s) \<noteq> Some Approved"
  shows "\<exists>e. fst (claim_for_execution x aid name s) = Inl e"
proof (rule ccontr)
  assume "\<not> ?thesis"
  then obtain a u s' where "claim_for_execution x aid name s = (Inr (a, u), s')"
    by (cases "claim_for_execution x aid name s"; cases "fst (claim_for_execution x aid name s)") fastforce+
  then obtain a0 where "get_by_id aid (db_of s) = Some a0" "a_status a0 = Approved" by (rule execution_hit)
  then show False using assms(2) by (simp add: status_at_def)
qed

section \<open>What a run does to its request\<close>

lemma rest_status [simp]:
  "status_at aid (rest_of d) = status_at aid (ds_db d)" "apprs_ok (rest_of d) = apprs_ok (ds_db d)"
  by (simp_all add: rest_of_def status_at_def get_by_id_def apprs_ok_def)

lemma logs_change [simp]:
  "status_at j (db\<lparr>db_logs := t\<rparr>) = status_at j db" "apprs_ok (db\<lparr>db_logs := t\<rparr>) = apprs_ok db"
  by (simp_all add: status_at_def apprs_ok_def)

definition outcome_status :: "run_status \<Rightarrow> astatus" where
  "outcome_status r = (case r of RunOk \<Rightarrow> Deployed | RunBusy \<Rightarrow> Approved | RunCancelled \<Rightarrow> Cancelled | RunFailed \<Rightarrow> Failed)"

lemma advance_from_deploying:
  assumes "apprs_ok db" "keeps_id f" "status_at aid db = Some Deploying"
  shows "apprs_ok (advance x aid to f db) \<and> status_at aid (advance x aid to f db) = Some to
    \<and> (\<forall>j. j \<noteq> aid \<longrightarrow> status_at j (advance x aid to f db) = status_at j db)
    \<and> db_logs (advance x aid to f db) = db_logs db"
proof -
  have "fst (transition (xe_now x) aid [Deploying] to f db)"
    using assms(1,3) by (auto simp: transition_ok status_at_def)
  then have t: "transition (xe_now x) aid [Deploying] to f db = (True, advance x aid to f db)"
    by (metis advance_def prod.collapse)
  show ?thesis using transition_status [OF assms(1,2) t] transition_inv [OF assms(1,2)]
    by (simp add: advance_def)
qed

lemma with_deploy_keeps [simp]: "keeps_id (with_deploy i)"
  by (simp add: keeps_id_def with_deploy_def)

lemma settle_from_deploying:
  assumes "apprs_ok db" "lock_inv (db_logs db)" "status_at aid db = Some Deploying"
  shows "apprs_ok (settle x aid r db) \<and> lock_inv (db_logs (settle x aid r db))
    \<and> status_at aid (settle x aid r db) = Some (outcome_status (rr_status r))
    \<and> (\<forall>j. j \<noteq> aid \<longrightarrow> status_at j (settle x aid r db) = status_at j db)"
  using advance_from_deploying [OF assms(1) _ assms(3), of no_fields x]
    advance_from_deploying [OF assms(1) _ assms(3), of "with_deploy (rr_deploy r)" x] assms(2)
  by (cases "rr_status r") (simp_all add: settle_def outcome_status_def Let_def reset_pending_inv)

lemma settle_deploy:
  assumes "apprs_ok db" "status_at aid db = Some Deploying" "rr_status r \<in> {RunOk, RunFailed}"
  shows "\<exists>a. get_by_id aid (settle x aid r db) = Some a \<and> a_deploy a = rr_deploy r"
proof -
  obtain a where a: "get_by_id aid db = Some a" "a_status a = Deploying"
    using assms(2) by (auto simp: status_at_def)
  then have "a_id a = aid" using get_by_id_iff [OF assms(1)] by blast
  then show ?thesis using a assms(3)
    by (auto simp: settle_def advance_def transition_get set_status_def with_deploy_def)
qed

text \<open>What a running execution relies on: nobody else moves the request it holds.\<close>

definition undisturbed :: "row_id \<Rightarrow> cdb \<Rightarrow> bool" where
  "undisturbed aid db \<longleftrightarrow> apprs_ok db \<and> status_at aid db = Some Deploying"

lemma claimed_state:
  assumes "apprs_ok (db_of s)" "claim_for_execution x aid name s = (Inr (a, u), s')"
  shows "\<exists>row p. get_by_id aid (db_of s') = Some row \<and> a_status row = Deploying \<and> load_snapshot (a_params row) = Inr p"
    "undisturbed aid (db_of s')" "db_logs (db_of s') = db_logs (db_of s)"
    "\<And>j. j \<noteq> aid \<Longrightarrow> get_by_id j (db_of s') = get_by_id j (db_of s)"
proof -
  obtain a0 p where a0: "get_by_id aid (db_of s) = Some a0" "load_snapshot (a_params a0) = Inr p"
    and t: "transition (xe_now x) aid [Approved] Deploying no_fields (db_of s) = (True, db_of s')"
    using assms(2) by (rule execution_hit)
  have k: "keeps_id no_fields" by simp
  have ok: "apprs_ok (db_of s')" using transition_inv [OF assms(1) k] t by (metis snd_conv)
  show "\<exists>row p. get_by_id aid (db_of s') = Some row \<and> a_status row = Deploying \<and> load_snapshot (a_params row) = Inr p"
    by (rule transition_hit [OF assms(1) k t]) (use a0 in \<open>auto simp: set_status_def no_fields_def\<close>)
  then show "undisturbed aid (db_of s')" using ok by (auto simp: undisturbed_def status_at_def)
  show "db_logs (db_of s') = db_logs (db_of s)" using transition_frame(1) t by (metis snd_conv)
  show "get_by_id j (db_of s') = get_by_id j (db_of s)" if "j \<noteq> aid" for j
    using transition_hit [OF assms(1) k t] that by metis
qed

section \<open>What the recovery does\<close>

lemma converge_get:
  "t_get a_id j (converge now t ls to at) = map_option (\<lambda>a. if a_status a = Deploying \<and> has_log t ls a
     then a\<lparr>a_status := to, a_updated := now, a_deploy := newest_log t ls a\<rparr> else a) (t_get a_id j at)"
  by (simp add: converge_def ap.get_update)

lemma converge_wf: "wf_table a_id at \<Longrightarrow> wf_table a_id (converge now t ls to at)"
  by (simp add: converge_def ap.wf_update)

lemma recover_approvals_wf: "wf_table a_id at \<Longrightarrow> wf_table a_id (recover_approvals now t at)"
  by (simp add: recover_approvals_def ap.wf_update converge_wf)

lemma has_log_frame [simp]:
  "has_log t ls (a\<lparr>a_status := x, a_updated := y, a_deploy := z\<rparr>) = has_log t ls a"
  "has_running t (a\<lparr>a_status := x, a_updated := y, a_deploy := z\<rparr>) = has_running t a"
  by (simp_all add: has_log_def has_running_def)

definition recovered_status :: "dlog table \<Rightarrow> approval \<Rightarrow> astatus" where
  "recovered_status t a =
     (if a_status a \<noteq> Deploying then a_status a
      else if has_log t ''ok'' a then Deployed
      else if has_log t ''failed'' a then Failed
      else if has_running t a then Deploying
      else Approved)"

lemma recover_approvals_get:
  "map_option a_status (t_get a_id j (recover_approvals now t at)) = map_option (recovered_status t) (t_get a_id j at)"
  by (cases "t_get a_id j at") (auto simp: recover_approvals_def ap.get_update converge_get recovered_status_def)

lemma recover_approvals_same:
  "t_get a_id j at = Some a \<Longrightarrow> a_status a \<noteq> Deploying \<Longrightarrow> t_get a_id j (recover_approvals now t at) = Some a"
  by (auto simp: recover_approvals_def ap.get_update converge_get)

lemma reopen_inv [inv_intros]: "lock_inv t \<Longrightarrow> lock_inv (reopen_interrupted t)"
  by (simp add: reopen_interrupted_def lock_inv_release)

section \<open>What the scheduler does\<close>

text \<open>A property of one request that operations on the others keep.\<close>

definition holds_row :: "row_id \<Rightarrow> approval \<Rightarrow> cdb \<Rightarrow> bool" where
  "holds_row j a db \<longleftrightarrow> apprs_ok db \<and> get_by_id j db = Some a"

lemma holds_row_simps [simp]:
  "holds_row j a (db\<lparr>db_logs := t\<rparr>) = holds_row j a db" "holds_row j a (rest_of d) = holds_row j a (ds_db d)"
  by (simp_all add: holds_row_def rest_of_def)

lemma transition_row:
  assumes "holds_row j a db" "keeps_id f" "j \<noteq> aid"
  shows "holds_row j a (snd (transition now aid froms to f db))"
proof -
  have "a_id a = j" using assms(1) get_by_id_iff by (auto simp: holds_row_def)
  then show ?thesis using assms by (simp add: holds_row_def transition_get transition_inv)
qed

lemma settle_row:
  assumes "holds_row j a db" "j \<noteq> aid"
  shows "holds_row j a (settle x aid r db)"
  using assms by (cases "rr_status r") (simp_all add: settle_def advance_def transition_row Let_def)

lemma settle_logs: "lock_inv (db_logs db) \<Longrightarrow> lock_inv (db_logs (settle x aid r db))"
  by (cases "rr_status r") (simp_all add: settle_def advance_def Let_def reset_pending_inv)

text \<open>The two facts every step of the scheduler keeps.\<close>

definition spared :: "row_id \<Rightarrow> approval \<Rightarrow> estate \<Rightarrow> bool" where
  "spared j a s \<longleftrightarrow> holds_row j a (db_of s) \<and> lock_inv (db_logs (db_of s))"

lemma claim_spares:
  assumes "spared j a s" "j \<noteq> aid"
  shows "spared j a (snd (claim_for_execution x aid name s))"
proof -
  have k: "keeps_id no_fields" by simp
  have "db_of (snd (claim_for_execution x aid name s)) \<in>
      {db_of s, snd (transition (xe_now x) aid [Approved] Deploying no_fields (db_of s))}"
    by (auto simp: claim_for_execution_def Let_def split: option.splits if_splits sum.splits prod.splits)
  then show ?thesis using assms transition_row [OF _ k] by (auto simp: spared_def)
qed

lemma run_spares:
  assumes "spared j a s" "j \<noteq> aid" "kept (de_meanwhile (xe_d x)) (holds_row j a)"
  shows "spared j a (snd (run_approval x aid u s))"
proof (cases "\<exists>row p. get_by_id aid (db_of s) = Some row \<and> a_status row = Deploying \<and> load_snapshot (a_params row) = Inr p")
  case True
  then obtain row p where p: "get_by_id aid (db_of s) = Some row" "a_status row = Deploying" "load_snapshot (a_params row) = Inr p"
    by blast
  obtain r d where e: "execute_from_params (xe_d x) (xe_k8s x) (p\<lparr>pp_rollback := None, pp_approval_id := None\<rparr>) u
      (pp_rollback p = Some True) aid (es_d s) = (r, d)" by (rule prod.exhaust)
  have "lock_inv (logs (es_d s))" "holds_row j a (rest_of (es_d s))"
    using assms(1) by (simp_all add: spared_def logs_def db_of_def)
  from executor_keeps [OF assms(3) this e] have "lock_inv (db_logs (ds_db d))" "holds_row j a (ds_db d)"
    by (simp_all add: logs_def)
  then have "spared j a (set_db (settle x aid r (ds_db d)) (s\<lparr>es_d := d\<rparr>))"
    using assms(2) by (simp add: spared_def settle_row settle_logs)
  then show ?thesis using p e by (simp add: run_approval_def)
next
  case False
  then have "snd (run_approval x aid u s) = s"
    by (auto simp: run_approval_def split: option.splits sum.splits)
  then show ?thesis using assms(1) by simp
qed

lemma clear_schedule_row:
  assumes "holds_row j a db" "j \<noteq> aid"
  shows "holds_row j a (clear_schedule now aid db)"
proof -
  have "a_id a = j" using assms(1) get_by_id_iff by (auto simp: holds_row_def)
  then show ?thesis using assms
    by (simp add: holds_row_def clear_schedule_def apprs_ok_def get_by_id_def ap.get_update ap.wf_update)
qed

lemma clear_schedule_logs [simp]: "db_logs (clear_schedule now aid db) = db_logs db"
  by (simp add: clear_schedule_def)

lemma failure_spares:
  assumes "spared j a s" "j \<noteq> aid"
  shows "spared j a (handle_failure x aid e s)"
  using assms
  by (auto simp: handle_failure_def spared_def clear_schedule_row advance_def transition_row reset_pending_inv Let_def)

lemma run_due_one_spares:
  assumes "spared j a s" "j \<noteq> aid" "kept (de_meanwhile (xe_d x)) (holds_row j a)"
  shows "spared j a (snd (run_due_one x aid requester s))"
proof -
  obtain r s1 where c: "claim_for_execution x aid requester s = (r, s1)" by fastforce
  have s1: "spared j a s1" using claim_spares [OF assms(1,2), of x requester] c by simp
  show ?thesis
  proof (cases r)
    case (Inl e)
    then show ?thesis using c failure_spares [OF s1 assms(2)] by (simp add: run_due_one_def)
  next
    case (Inr b)
    obtain r2 s2 where r2: "run_approval x aid (snd b) s1 = (r2, s2)" by fastforce
    have "spared j a s2" using run_spares [OF s1 assms(2,3), of "snd b"] r2 by simp
    then show ?thesis using c Inr r2 failure_spares [OF _ assms(2)]
      by (cases r2) (simp_all add: run_due_one_def split_beta)
  qed
qed

lemma run_due_list_spares:
  assumes "spared j a s" "j \<notin> fst ` set todo" "\<And>i. kept (de_meanwhile (xe_d (x i))) (holds_row j a)"
  shows "spared j a (snd (run_due_list x todo s))"
  using assms(1,2)
proof (induction todo arbitrary: s)
  case (Cons t todo)
  then have "spared j a (snd (run_due_one (x (fst t)) (fst t) (snd t) s))"
    using run_due_one_spares [OF _ _ assms(3)] by simp
  then show ?case using Cons by (cases t) (auto simp: split_beta)
qed simp

section \<open>Samples\<close>

definition sample_xenv :: xenv where
  "sample_xenv = \<lparr>xe_d = sample_denv\<lparr>de_settings := sample_settings\<rparr>, xe_k8s = (\<lambda>_ _ _ _ _. Inl OtherError),
     xe_glue = sample_glue [''cd.deploy-manage''], xe_times = at_time 1000, xe_now = ''t''\<rparr>"

definition approved_db :: cdb where
  "approved_db = sample_db\<lparr>db_apprs := \<lparr>rows = [sample_approval\<lparr>a_status := Approved\<rparr>], next_id = 2\<rparr>\<rparr>"

definition sample_estate :: estate where
  "sample_estate = \<lparr>es_d = \<lparr>ds_db = approved_db, ds_reg = []\<rparr>, es_caches = empty_caches\<rparr>"

lemma sample_estate_ok: "apprs_ok (db_of sample_estate)" "lock_inv (db_logs (db_of sample_estate))"
  using sample_db_ok
  by (auto simp: apprs_ok_def wf_table_def sample_estate_def approved_db_def db_of_def sample_approval_def)

definition claimed_estate :: estate where
  "claimed_estate = snd (claim_for_execution sample_xenv 1 ''bob'' sample_estate)"

lemma sample_load: "\<exists>c. load_user_context sample_settings (sample_glue ps) (at_time 1000) ''bob'' empty_caches =
    (Inr \<lparr>u_name = ''bob'', u_role = ''dev'', u_perms = ps\<rparr>, c)"
proof -
  have "has_system sample_settings (Some ''cd'') ''cd''" by code_simp
  then show ?thesis
    by (simp add: load_user_context_def identity_simps identity_disabled_def user_of_def str_or_def)
qed

lemma sample_claim: "\<exists>a u. claim_for_execution sample_xenv 1 ''bob'' sample_estate = (Inr (a, u), claimed_estate)"
proof -
  have g: "get_by_id 1 (db_of sample_estate) = Some (sample_approval\<lparr>a_status := Approved\<rparr>)"
    by (simp add: get_by_id_def t_get_def sample_estate_def approved_db_def db_of_def sample_approval_def)
  then have t: "fst (transition now 1 [Approved] Deploying no_fields (db_of sample_estate))" for now
    using transition_ok [OF sample_estate_ok(1)] by simp
  have e: "enforce_execute_perm sample_settings empty_params \<lparr>u_name = ''bob'', u_role = ''dev'', u_perms = [''cd.deploy-manage'']\<rparr> = Inr ()"
    by code_simp
  obtain c where l: "load_user_context (de_settings (xe_d sample_xenv)) (xe_glue sample_xenv) (xe_times sample_xenv) ''bob''
      (es_caches sample_estate) = (Inr \<lparr>u_name = ''bob'', u_role = ''dev'', u_perms = [''cd.deploy-manage'']\<rparr>, c)"
    using sample_load by (auto simp: sample_xenv_def sample_estate_def)
  have "\<exists>a u. fst (claim_for_execution sample_xenv 1 ''bob'' sample_estate) = Inr (a, u)"
    using t e unfolding claim_for_execution_def g
    by (simp add: l Let_def sample_approval_def split_beta) (simp add: sample_xenv_def split_beta)
  then show ?thesis unfolding claimed_estate_def by (metis prod.collapse)
qed

section \<open>Properties\<close>

text \<open>Who may claim, and what a claim does.\<close>

lemma claim_sound:
  assumes "apprs_ok (db_of s)" "claim_for_execution x aid name s = (Inr (a, u), s')"
  shows "(\<exists>a0 p c. get_by_id aid (db_of s) = Some a0 \<and> a_requester a0 = name \<and> a_status a0 = Approved
        \<and> load_user_context (de_settings (xe_d x)) (xe_glue x) (xe_times x) name (es_caches s) = (Inr u, c)
        \<and> load_snapshot (a_params a0) = Inr p \<and> enforce_execute_perm (de_settings (xe_d x)) p u = Inr ())
    \<and> status_at aid (db_of s') = Some Deploying \<and> apprs_ok (db_of s') \<and> db_logs (db_of s') = db_logs (db_of s)
    \<and> (\<forall>j. j \<noteq> aid \<longrightarrow> get_by_id j (db_of s') = get_by_id j (db_of s))"
proof -
  obtain a0 p c where h: "get_by_id aid (db_of s) = Some a0" "a_requester a0 = name" "a_status a0 = Approved"
    "load_user_context (de_settings (xe_d x)) (xe_glue x) (xe_times x) name (es_caches s) = (Inr u, c)"
    "load_snapshot (a_params a0) = Inr p" "enforce_execute_perm (de_settings (xe_d x)) p u = Inr ()"
    using assms(2) by (rule execution_hit)
  have "status_at aid (db_of s') = Some Deploying" "apprs_ok (db_of s')"
    using claimed_state(2) [OF assms] by (simp_all add: undisturbed_def)
  then show ?thesis using h claimed_state(3,4) [OF assms] by blast
qed

text \<open>A run that was not disturbed leaves its request to be settled.\<close>

lemma undisturbed_run:
  assumes "execute_from_params (xe_d y) k p u rb aid (es_d s) = (r, d)" "lock_inv (logs (es_d s))" "undisturbed aid (db_of s)"
    and "kept (de_meanwhile (xe_d y)) (undisturbed aid)"
  shows "status_at aid (ds_db d) = Some Deploying"
proof -
  have "undisturbed aid (rest_of (es_d s))" using assms(3) by (simp add: undisturbed_def db_of_def)
  from executor_keeps [OF assms(4,2) this assms(1)] show ?thesis by (simp add: undisturbed_def)
qed

text \<open>A request that is not being deployed is not settled.\<close>

lemma settle_elsewhere:
  assumes "apprs_ok db" "status_at aid db \<noteq> Some Deploying"
  shows "get_by_id j (settle x aid r db) = get_by_id j db"
proof -
  have "a_id a = aid \<and> a_status a = Deploying \<Longrightarrow> get_by_id j db \<noteq> Some a" for a
    using assms get_by_id_iff [OF assms(1)] by (auto simp: status_at_def)
  then have "get_by_id j (snd (transition now aid [Deploying] to f db)) = get_by_id j db" if "keeps_id f" for now to f
    using that by (cases "get_by_id j db") (auto simp: transition_get)
  then show ?thesis by (cases "rr_status r") (simp_all add: settle_def advance_def Let_def get_by_id_def)
qed

lemma recover_facts:
  assumes "apprs_ok db" "lock_inv (db_logs db)" "db' = recover_on_startup now nows db"
    "t = fst (recover_stale_running now default_stale (db_logs db))"
  shows "apprs_ok db' \<and> lock_inv (db_logs db')
    \<and> status_at j db' = map_option (recovered_status t) (get_by_id j db)
    \<and> (\<forall>a. get_by_id j db = Some a \<longrightarrow> a_status a \<noteq> Deploying \<longrightarrow> get_by_id j db' = Some a)"
proof -
  have "lock_inv t" using recover_stale_inv [OF assms(2)] assms(4) by simp
  then show ?thesis
    using assms(1) recover_approvals_get [of j nows t "db_apprs db"] recover_approvals_same [of j "db_apprs db"]
      recover_approvals_wf [of "db_apprs db" nows t] reopen_inv [of t]
    unfolding assms(3,4) by (auto simp: recover_on_startup_def Let_def apprs_ok_def status_at_def get_by_id_def)
qed

text \<open>C12. The recovery converges: a request that is being deployed ends as deployed or failed if a
  record of it says so, stays while a record of it still runs, and otherwise goes back to
  approved; every other request is left as it is, and both invariants are kept.\<close>

theorem recovery_converges:
  assumes "apprs_ok db" "lock_inv (db_logs db)" "db' = recover_on_startup now nows db"
    "t = fst (recover_stale_running now default_stale (db_logs db))"
  shows "apprs_ok db' \<and> lock_inv (db_logs db')
    \<and> status_at j db' = map_option (recovered_status t) (get_by_id j db)
    \<and> (\<forall>a. get_by_id j db = Some a \<longrightarrow> a_status a \<noteq> Deploying \<longrightarrow> get_by_id j db' = Some a)"
  using assms by (rule recover_facts)

text \<open>The instance stopped after the run was recorded as successful and before the request was settled.\<close>

definition crashed_db :: cdb where
  "crashed_db = sample_db\<lparr>db_apprs := \<lparr>rows = [sample_approval\<lparr>a_status := Deploying\<rparr>], next_id = 2\<rparr>,
     db_logs := \<lparr>rows = [(pending_row [] sample_args)\<lparr>d_id := 1, d_approval := 1, d_status := ''ok''\<rparr>], next_id = 2\<rparr>\<rparr>"

theorem recovery_converges_witness:
  "status_at 1 crashed_db = Some Deploying \<and> status_at 1 (recover_on_startup 1000 ''n'' crashed_db) = Some Deployed"
proof -
  have ok: "apprs_ok crashed_db" "lock_inv (db_logs crashed_db)"
    by (auto simp: apprs_ok_def lock_inv_def wf_table_def uniq_ok_def crashed_db_def sample_approval_def pending_row_def)
  have g: "get_by_id 1 crashed_db = Some (sample_approval\<lparr>a_status := Deploying\<rparr>)"
    by (simp add: get_by_id_def t_get_def crashed_db_def sample_approval_def)
  have "has_log (fst (recover_stale_running 1000 default_stale (db_logs crashed_db))) ''ok'' (sample_approval\<lparr>a_status := Deploying\<rparr>)"
    by code_simp
  then have "recovered_status (fst (recover_stale_running 1000 default_stale (db_logs crashed_db)))
      (sample_approval\<lparr>a_status := Deploying\<rparr>) = Deployed" by (simp add: recovered_status_def)
  then show ?thesis
    using recovery_converges [OF ok refl refl, where now = 1000 and nows = "''n''" and j = 1] g
    by (simp add: status_at_def)
qed

text \<open>C13. The periodic recovery breaks the exclusiveness of a claim: a request that is claimed but
  whose record has not started yet looks like one of a crashed instance, so it is put back to
  approved, and a second claim passes its transition.\<close>

theorem recovery_reopens_claimed:
  assumes "apprs_ok (db_of s)" "lock_inv (db_logs (db_of s))" "claim_for_execution x aid name s = (Inr (a, u), s')"
    and "\<forall>r\<in>set (rows (db_logs (db_of s))). d_approval r = aid \<longrightarrow> d_status r = ''pending''"
  shows "status_at aid (db_of s') = Some Deploying
    \<and> status_at aid (recover_on_startup now nows (db_of s')) = Some Approved
    \<and> fst (transition now2 aid [Approved] Deploying no_fields (recover_on_startup now nows (db_of s')))"
proof -
  have st: "status_at aid (db_of s') = Some Deploying" and ok: "apprs_ok (db_of s')"
    using claimed_state(2) [OF assms(1,3)] by (simp_all add: undisturbed_def)
  have logs: "db_logs (db_of s') = db_logs (db_of s)" using claimed_state(3) [OF assms(1,3)] .
  obtain b where b: "get_by_id aid (db_of s') = Some b" "a_status b = Deploying" "a_id b = aid"
    using st get_by_id_iff [OF ok] by (auto simp: status_at_def)
  let ?t = "fst (recover_stale_running now default_stale (db_logs (db_of s')))"
  have "d_status r = ''pending''" if "r \<in> set (rows ?t)" "d_approval r = aid" for r
    using that assms(4) unfolding logs recover_stale_running_def by (auto simp: is_stale_def split: if_splits)
  then have "recovered_status ?t b = Approved"
    using b by (auto simp: recovered_status_def has_log_def has_running_def list_ex_iff)
  then have rec: "status_at aid (recover_on_startup now nows (db_of s')) = Some Approved"
    and "apprs_ok (recover_on_startup now nows (db_of s'))"
    using recover_facts [OF ok, where j = aid] assms(2) logs b by auto
  then show ?thesis using st am.trans_ok by simp
qed

theorem recovery_reopens_claimed_witness:
  "status_at 1 (db_of claimed_estate) = Some Deploying \<and>
   status_at 1 (recover_on_startup 1000 ''n'' (db_of claimed_estate)) = Some Approved"
proof -
  have "d_status r = ''pending''" if "r \<in> set (rows (db_logs (db_of sample_estate)))" for r
    using that by (simp add: sample_estate_def approved_db_def db_of_def sample_db_def pending_row_def)
  then show ?thesis
    using sample_claim recovery_reopens_claimed [OF sample_estate_ok] by blast
qed

text \<open>A second run of a request that meets its own first run as busy takes the project lock from
  it: settling the busy result resets the running record of the request, and the project is free
  while the first run goes on.\<close>

theorem busy_settle_frees_running:
  assumes "lock_inv (db_logs db)" "t_get d_id i (db_logs db) = Some l" "d_status l = ''running''"
    "d_approval l = aid" "aid \<noteq> 0" "rr_status r = RunBusy"
  shows "holder (d_project l) (db_logs db) = Some i \<and> holder (d_project l) (db_logs (settle x aid r db)) = None"
proof -
  have h: "holder (d_project l) (db_logs db) = Some i" using holder_get [OF assms(1)] assms(2,3) by blast
  let ?t = "reset_pending_deploy_record aid (db_logs db)"
  have e: "db_logs (settle x aid r db) = ?t"
    using assms(6) by (simp add: settle_def Let_def advance_def)
  have inv: "lock_inv ?t" using assms(1) by (rule reset_pending_inv)
  have "holder (d_project l) ?t \<noteq> Some j" for j
  proof
    assume "holder (d_project l) ?t = Some j"
    then obtain q where q: "t_get d_id j ?t = Some q" "d_project q = d_project l" "d_status q = ''running''"
      using holder_get [OF inv] by blast
    then obtain q0 where e0: "t_get d_id j (db_logs db) = Some q0"
      "q = (if d_approval q0 = aid \<and> d_status q0 = ''running'' then q0\<lparr>d_status := ''pending'', d_lock := None\<rparr> else q0)"
      using assms(5) by (auto simp: reset_pending_deploy_record_def dl.get_update)
    have "\<not> (d_approval q0 = aid \<and> d_status q0 = ''running'')"
    proof
      assume "d_approval q0 = aid \<and> d_status q0 = ''running''"
      then have "d_status q = ''pending''" unfolding e0(2) by simp
      then show False using q(3) by simp
    qed
    then have q0: "q0 = q" "d_approval q0 \<noteq> aid" using e0(2) q(3) by auto
    then have "holder (d_project l) (db_logs db) = Some j" using holder_get [OF assms(1)] q e0(1) by blast
    then show False using h q0 e0(1) assms(2,4) by simp
  qed
  then show ?thesis using h e by (metis not_Some_eq)
qed

definition busy_db :: cdb where
  "busy_db = approved_db\<lparr>db_logs := \<lparr>rows = [sample_running\<lparr>d_approval := 7\<rparr>], next_id = 2\<rparr>\<rparr>"

theorem busy_settle_frees_running_witness:
  "holder ''web'' (db_logs busy_db) = Some 1 \<and>
   holder ''web'' (db_logs (settle sample_xenv 7 \<lparr>rr_status = RunBusy, rr_deploy = 0, rr_output = []\<rparr> busy_db)) = None"
proof -
  have "lock_inv (db_logs busy_db)"
    by (simp add: busy_db_def lock_inv_def wf_table_def uniq_ok_def sample_simps)
  moreover have "t_get d_id 1 (db_logs busy_db) = Some (sample_running\<lparr>d_approval := 7\<rparr>)"
    by (simp add: busy_db_def t_get_def sample_simps)
  ultimately show ?thesis
    using busy_settle_frees_running [of busy_db 1 "sample_running\<lparr>d_approval := 7\<rparr>" 7
      "\<lparr>rr_status = RunBusy, rr_deploy = 0, rr_output = []\<rparr>" sample_xenv]
    by (simp add: sample_simps)
qed

text \<open>The scheduler touches only what is due: a request that is not approved, has no schedule
  or a later one comes out of a round exactly as it was, and both invariants are kept, whatever
  happens to the requests that are due.\<close>

theorem scheduler_spares_undue:
  assumes "apprs_ok (db_of s)" "lock_inv (db_logs (db_of s))" "get_by_id j (db_of s) = Some a" "\<not> is_due now a"
    and "\<And>i. kept (de_meanwhile (xe_d (x i))) (holds_row j a)"
    and "s' = snd (run_due_scheduled now x s)"
  shows "get_by_id j (db_of s') = Some a \<and> apprs_ok (db_of s') \<and> lock_inv (db_logs (db_of s'))"
proof -
  have sp: "spared j a s" using assms(1-3) by (simp add: spared_def holds_row_def)
  have a: "a \<in> set (rows (db_apprs (db_of s)))" "a_id a = j" using get_by_id_iff [OF assms(1)] assms(3) by auto
  have "b = a" if "b \<in> set (rows (db_apprs (db_of s)))" "a_id b = j" for b
    using ap.key_inj [OF apprs_okD [OF assms(1)]] a that by blast
  then have "j \<notin> fst ` set (due_list now (db_of s))"
    using assms(4) by (auto simp: due_list_def t_where_def)
  from run_due_list_spares [OF sp this assms(5)] show ?thesis
    unfolding assms(6) by (simp add: run_due_scheduled_def spared_def holds_row_def)
qed

theorem scheduler_spares_undue_witness:
  "get_by_id 1 (db_of (snd (run_due_scheduled ''2026'' (\<lambda>_. sample_xenv) sample_estate))) =
     Some (sample_approval\<lparr>a_status := Approved\<rparr>)"
proof -
  have g: "get_by_id 1 (db_of sample_estate) = Some (sample_approval\<lparr>a_status := Approved\<rparr>)"
    by (simp add: get_by_id_def t_get_def sample_estate_def approved_db_def db_of_def sample_approval_def)
  have "de_meanwhile (xe_d sample_xenv) x = x" for x by (simp add: sample_xenv_def sample_denv_def)
  then have k: "kept (de_meanwhile (xe_d sample_xenv)) Q" for Q by (simp add: kept_def)
  have "\<not> is_due ''2026'' (sample_approval\<lparr>a_status := Approved\<rparr>)" by (simp add: is_due_def sample_approval_def)
  from scheduler_spares_undue [OF sample_estate_ok g this k refl] show ?thesis by blast
qed


text \<open>A short outage of the identity service loses a schedule: the claim of a due request fails
  with 503, the scheduler takes every application exception that is no conflict for a permanent
  failure, and the request stays approved without its schedule.\<close>

theorem outage_clears_schedule:
  assumes "apprs_ok (db_of s)" "get_by_id aid (db_of s) = Some a" "a_status a = Approved"
    and "load_user_context (de_settings (xe_d x)) (xe_glue x) (xe_times x) (a_requester a) (es_caches s) =
      (Inl (AppException 503 k), c)"
  shows "fst (run_due_one x aid (a_requester a) s) = False \<and>
    get_by_id aid (db_of (snd (run_due_one x aid (a_requester a) s))) =
      Some (a\<lparr>a_scheduled := [], a_updated := xe_now x\<rparr>)"
proof -
  have "a_id a = aid" using get_by_id_iff [OF assms(1)] assms(2) by blast
  moreover have "claim_for_execution x aid (a_requester a) s = (Inl (AppException 503 k), s\<lparr>es_caches := c\<rparr>)"
    using assms(2-4) by (simp add: claim_for_execution_def)
  ultimately show ?thesis using assms(2,3)
    by (simp add: run_due_one_def handle_failure_def clear_schedule_def get_by_id_def ap.get_update)
qed

definition outage_xenv :: xenv where
  "outage_xenv = sample_xenv\<lparr>xe_glue := down_glue\<rparr>"

definition scheduled_approval :: approval where
  "scheduled_approval = sample_approval\<lparr>a_status := Approved, a_scheduled := ''2026-01-01 08:00:00''\<rparr>"

definition scheduled_estate :: estate where
  "scheduled_estate = \<lparr>es_d = \<lparr>ds_db = sample_db\<lparr>db_apprs := \<lparr>rows = [scheduled_approval], next_id = 2\<rparr>\<rparr>, ds_reg = []\<rparr>,
     es_caches = empty_caches\<rparr>"

theorem outage_clears_schedule_witness:
  "is_due ''2026-01-01 09:00:00'' scheduled_approval \<and>
   get_by_id 1 (db_of (snd (run_due_one outage_xenv 1 ''bob'' scheduled_estate))) =
     Some (scheduled_approval\<lparr>a_scheduled := [], a_updated := ''t''\<rparr>)"
proof -
  have ok: "apprs_ok (db_of scheduled_estate)"
    by (simp add: apprs_ok_def wf_table_def scheduled_estate_def db_of_def scheduled_approval_def sample_approval_def)
  have g: "get_by_id 1 (db_of scheduled_estate) = Some scheduled_approval"
    by (simp add: get_by_id_def t_get_def scheduled_estate_def db_of_def scheduled_approval_def sample_approval_def)
  have l: "load_user_context (de_settings (xe_d outage_xenv)) (xe_glue outage_xenv) (xe_times outage_xenv)
      (a_requester scheduled_approval) (es_caches scheduled_estate) =
      (Inl (AppException 503 (Some ''errors.service_unavailable'')), empty_caches)"
    by (simp add: outage_xenv_def sample_xenv_def scheduled_estate_def scheduled_approval_def sample_approval_def
        load_user_context_def identity_simps down_glue_def soft_fail_or_raise_def identity_unavailable_def)
  have "a_status scheduled_approval = Approved" "a_requester scheduled_approval = ''bob''" "xe_now outage_xenv = ''t''"
    by (simp_all add: scheduled_approval_def sample_approval_def outage_xenv_def sample_xenv_def)
  moreover have "is_due ''2026-01-01 09:00:00'' scheduled_approval" by code_simp
  ultimately show ?thesis using outage_clears_schedule [OF ok g _ l] by simp
qed


text \<open>A round of the scheduler runs on one instance at a time: while another instance holds the
  distributed lock and it is fresh, the round is skipped and nothing changes.\<close>

theorem tick_needs_lock:
  assumes "map_of (db_config (db_of s)) (lock_key ''scheduled_executor'') = Some (lock_value owner t0)"
    "CHR ''|'' \<notin> set owner" "0 \<le> t0" "owner \<noteq> inst" "mo_lock m - t0 < 120"
  shows "scheduler_tick drv inst m x s = (None, s)"
  using assms by (simp add: scheduler_tick_def acquire_def acquire_read_value acquire_write_def)

definition locked_estate :: estate where
  "locked_estate = set_db (approved_db\<lparr>db_config := [(''cd_lock.scheduled_executor'', lock_value ''b'' 1000)]\<rparr>) sample_estate"

theorem tick_needs_lock_witness:
  "scheduler_tick Changed ''a'' \<lparr>mo_lock = 1050, mo_due = ''2026'', mo_recover = 1051, mo_stamp = ''2026''\<rparr> (\<lambda>_. sample_xenv) locked_estate
     = (None, locked_estate)"
  by (rule tick_needs_lock [of _ "''b''" 1000]) (simp_all add: locked_estate_def lock_key_def)

end
