(* ===== verification/Rollback.thy ===== *)
theory Rollback
  imports Approvals Executor
begin

text \<open>
  \<^verbatim>\<open>backend/services/rollback_service.py\<close>: choosing the record to go back to, the
  parameters of the rollback, the approval gate and the direct execution. The two markers of a
  rollback note contain characters outside ASCII, so their texts are parameters.
\<close>

section \<open>The record to go back to\<close>

definition succeeded :: "string \<Rightarrow> dlog \<Rightarrow> bool" where
  "succeeded project r = (d_project r = project \<and> d_status r = ''ok'' \<and> d_params r \<noteq> SEmpty)"

definition find_record :: "string \<Rightarrow> row_id \<Rightarrow> dlog table \<Rightarrow> dlog option" where
  "find_record project i t = t_first (\<lambda>r. d_id r = i \<and> d_project r = project) t"

definition find_latest_success :: "string \<Rightarrow> string \<Rightarrow> dlog table \<Rightarrow> dlog option" where
  "find_latest_success project deploy_type t =
     (if deploy_type \<noteq> [] then t_last (\<lambda>r. succeeded project r \<and> d_type r = deploy_type) t
      else t_last (succeeded project) t)"

definition rollback_ref :: "string \<Rightarrow> row_id \<Rightarrow> string \<Rightarrow> dlog table \<Rightarrow> dlog option" where
  "rollback_ref project before deploy_type t =
     (if before \<noteq> 0 then t_first (\<lambda>r. d_id r = before \<and> d_project r = project) t
      else if deploy_type \<noteq> [] then t_last (\<lambda>r. succeeded project r \<and> d_type r = deploy_type) t
      else t_last (succeeded project) t)"

definition find_rollback_source :: "string \<Rightarrow> row_id \<Rightarrow> string \<Rightarrow> dlog table \<Rightarrow> dlog option" where
  "find_rollback_source project before deploy_type t =
     (case rollback_ref project before deploy_type t of
        None \<Rightarrow> None
      | Some ref \<Rightarrow>
          t_last (\<lambda>r. succeeded project r \<and> d_type r = d_type ref \<and> d_tag r \<noteq> d_tag ref \<and> d_id r < d_id ref) t)"

section \<open>The preparation\<close>

record rollback_args =
  ra_project :: string
  ra_before :: row_id
  ra_type :: string
  ra_tag :: string
  ra_note :: string
  ra_bot :: int
  ra_lang :: string

record rollback_texts =
  rt_to_tag :: string
  rt_to_id :: string

datatype preparation =
    PrepPending row_id row_id
  | PrepReady params bool row_id

definition native_types :: "string list" where
  "native_types = [''k8s/kubectl'', ''k8s/helm'', ''k8s/argocd'']"

definition rollback_not_found :: exc where
  "rollback_not_found = NotFoundError (Some ''errors.rollback_not_found'')"

definition rollback_unsupported :: exc where
  "rollback_unsupported = ValidationError (Some ''errors.rollback_unsupported'')"

definition rollback_mode :: "rollback_args \<Rightarrow> dlog table \<Rightarrow> string result" where
  "rollback_mode a t =
     (if ra_before a = 0 then Inr (ra_type a)
      else case find_record (ra_project a) (ra_before a) t of
             None \<Rightarrow> Inl rollback_not_found
           | Some ref \<Rightarrow> Inr (d_type ref))"

definition rollback_source :: "rollback_args \<Rightarrow> string \<Rightarrow> dlog table \<Rightarrow> dlog option" where
  "rollback_source a mode t =
     (if ra_tag a \<noteq> [] \<or> mode \<in> set native_types
      then (if ra_before a \<noteq> 0 then find_record (ra_project a) (ra_before a) t
            else find_latest_success (ra_project a) mode t)
      else find_rollback_source (ra_project a) (ra_before a) mode t)"

text \<open>The note: the marker and the user's text, cut so that the marker survives the column
  width of 512.\<close>

definition rollback_note_text :: "rollback_texts \<Rightarrow> rollback_args \<Rightarrow> row_id \<Rightarrow> string" where
  "rollback_note_text x a src =
     (let marker = (if ra_tag a \<noteq> [] then rt_to_tag x @ ra_tag a @ '']'' else rt_to_id x @ nat_str src @ '']'');
          user_note = py_strip (ra_note a);
          max_len = 512 - int (length marker) - 1;
          cut = (if 0 < max_len \<and> max_len < int (length user_note) then take (nat max_len) user_note else user_note)
      in py_strip (marker @ '' '' @ cut))"

text \<open>The parameters of the rollback from the snapshot \<open>p\<close> of the source.\<close>

definition rollback_params :: "rollback_texts \<Rightarrow> rollback_args \<Rightarrow> bool \<Rightarrow> row_id \<Rightarrow> params \<Rightarrow> params" where
  "rollback_params x a native src p =
     p\<lparr>pp_rollback_type := Some (if native \<and> ra_tag a = [] then ''native'' else ''replay''),
       pp_tag := (if ra_tag a \<noteq> [] then Some (ra_tag a) else pp_tag p),
       pp_deploy_note := Some (rollback_note_text x a src),
       pp_bot_id := Some (if ra_bot a \<noteq> 0 then ra_bot a else case pp_bot_id p of None \<Rightarrow> 0 | Some b \<Rightarrow> b),
       pp_lang := Some (str_or (ra_lang a) (str_or (or_empty (pp_lang p)) ''en'')),
       pp_rollback := Some (native \<and> ra_tag a = [])\<rparr>"

definition rollback_gate_args :: "rollback_args \<Rightarrow> user \<Rightarrow> dlog \<Rightarrow> params \<Rightarrow> gate_args" where
  "rollback_gate_args a u src p =
     \<lparr>ga_project = ra_project a, ga_tag = str_or (or_empty (pp_tag p)) (d_tag src),
      ga_type = or_empty (pp_deploy_type p), ga_server_ids = or_empty (pp_server_ids p), ga_params = p,
      ga_requester = u_name u, ga_rollback = True, ga_scheduled = []\<rparr>"

definition prepare_rollback ::
  "denv \<Rightarrow> rollback_texts \<Rightarrow> rollback_args \<Rightarrow> user \<Rightarrow> cdb \<Rightarrow> preparation result \<times> cdb" where
  "prepare_rollback env x a u db =
     (case rollback_mode a (db_logs db) of
        Inl e \<Rightarrow> (Inl e, db)
      | Inr mode \<Rightarrow>
          let native = mode \<in> set native_types
          in if ra_tag a \<noteq> [] \<and> \<not> tag_re (ra_tag a) then (Inl deploy_validation, db)
             else (case rollback_source a mode (db_logs db) of
                None \<Rightarrow> (Inl rollback_not_found, db)
              | Some src \<Rightarrow>
                  (case load_snapshot (d_params src) of
                     Inl _ \<Rightarrow> (Inl rollback_unsupported, db)
                   | Inr p0 \<Rightarrow>
                       if or_empty (pp_deploy_type p0) = [] then (Inl rollback_unsupported, db)
                       else let p = rollback_params x a native (d_id src) p0
                            in (case gate_deploy (de_jobs env) (de_hints env) (de_ts env) (rollback_gate_args a u src p) db of
                                  (Inl e, db') \<Rightarrow> (Inl e, db')
                                | (Inr (Some g), db') \<Rightarrow> (Inr (PrepPending (gr_approval g) (d_id src)), db')
                                | (Inr None, db') \<Rightarrow> (Inr (PrepReady p (native \<and> ra_tag a = []) (d_id src)), db')))))"

datatype rollback_answer =
    RollbackPending row_id row_id
  | RollbackRan run_result row_id

definition rollback ::
  "denv \<Rightarrow> k8s_remote \<Rightarrow> rollback_texts \<Rightarrow> rollback_args \<Rightarrow> user \<Rightarrow> dstate \<Rightarrow> rollback_answer result \<times> dstate" where
  "rollback env remote x a u s =
     (case prepare_rollback env x a u (ds_db s) of
        (Inl e, db) \<Rightarrow> (Inl e, s\<lparr>ds_db := db\<rparr>)
      | (Inr (PrepPending aid src), db) \<Rightarrow> (Inr (RollbackPending aid src), s\<lparr>ds_db := db\<rparr>)
      | (Inr (PrepReady p native src), db) \<Rightarrow>
          (case execute_from_params env remote p u native 0 (s\<lparr>ds_db := db\<rparr>) of
             (r, s') \<Rightarrow> (Inr (RollbackRan r src), s')))"

section \<open>Laws\<close>

lemma t_first_SomeD: "t_first P t = Some r \<Longrightarrow> r \<in> set (rows t) \<and> P r"
  by (auto simp: t_first_def find_Some_iff)

lemma find_record_SomeD:
  "find_record project i t = Some r \<Longrightarrow> r \<in> set (rows t) \<and> d_id r = i \<and> d_project r = project"
  unfolding find_record_def by (drule t_first_SomeD) simp

lemma find_latest_success_SomeD:
  "find_latest_success project ty t = Some r \<Longrightarrow>
     r \<in> set (rows t) \<and> succeeded project r \<and> (ty \<noteq> [] \<longrightarrow> d_type r = ty)"
  by (auto simp: find_latest_success_def dest: t_last_SomeD split: if_splits)

lemma prepare_cases:
  assumes "prepare_rollback env x a u db = (Inr r, db')"
  obtains mode src p0 o' where "rollback_mode a (db_logs db) = Inr mode"
    "ra_tag a = [] \<or> tag_re (ra_tag a)" "rollback_source a mode (db_logs db) = Some src"
    "load_snapshot (d_params src) = Inr p0" "or_empty (pp_deploy_type p0) \<noteq> []"
    "gate_deploy (de_jobs env) (de_hints env) (de_ts env)
       (rollback_gate_args a u src (rollback_params x a (mode \<in> set native_types) (d_id src) p0)) db = (Inr o', db')"
    "r = (case o' of Some g \<Rightarrow> PrepPending (gr_approval g) (d_id src)
       | None \<Rightarrow> PrepReady (rollback_params x a (mode \<in> set native_types) (d_id src) p0)
           (mode \<in> set native_types \<and> ra_tag a = []) (d_id src))"
  using assms
  by (auto simp: prepare_rollback_def Let_def split: sum.splits if_splits option.splits prod.splits)

text \<open>A stripped text is no longer than the text.\<close>

lemma length_py_strip: "length (py_strip s) \<le> length s"
  using length_dropWhile_le [of is_space "rev (dropWhile is_space s)"] length_dropWhile_le [of is_space s]
  by (simp add: py_strip_def py_lstrip_def py_rstrip_def)

lemma oci_tag_length: "tag_re s \<Longrightarrow> length s \<le> 129"
  by (auto simp: tag_re_def oci_tag_def)

lemma note_fits:
  assumes "ra_tag a = [] \<or> length (ra_tag a) \<le> 129" "length (rt_to_tag x) \<le> 100" "length (rt_to_id x @ nat_str src) \<le> 500"
  shows "length (rollback_note_text x a src) \<le> 512"
proof -
  define marker where "marker = (if ra_tag a \<noteq> [] then rt_to_tag x @ ra_tag a @ '']'' else rt_to_id x @ nat_str src @ '']'')"
  define un where "un = py_strip (ra_note a)"
  define cut where "cut = (if 0 < 512 - int (length marker) - 1 \<and> 512 - int (length marker) - 1 < int (length un)
      then take (nat (512 - int (length marker) - 1)) un else un)"
  have "length marker \<le> 501" using assms by (auto simp: marker_def)
  then have "length (marker @ '' '' @ cut) \<le> 512" by (auto simp: cut_def)
  moreover have "rollback_note_text x a src = py_strip (marker @ '' '' @ cut)"
    by (simp add: rollback_note_text_def Let_def marker_def un_def cut_def)
  ultimately show ?thesis using length_py_strip le_trans by metis
qed

lemma gate_passes:
  assumes "gate_deploy js hints ts g db = (Inr None, db')"
  shows "db' = db \<and> approval_required (db_rules db) (db_servers db) (ga_project g) (ga_server_ids g) (ga_rollback g) = Inr None"
  using assms by (auto simp: gate_deploy_def split: sum.splits if_splits prod.splits)

section \<open>Properties\<close>

text \<open>C14. The record a replay goes back to is the right one: of the same project and type as the
  record it leaves, successful, with a snapshot, of another tag and older; and no newer record
  has these qualities.\<close>

theorem rollback_source_right:
  assumes "lock_inv t" "find_rollback_source project before ty t = Some r"
  shows "\<exists>ref. rollback_ref project before ty t = Some ref \<and> d_project ref = project
    \<and> r \<in> set (rows t) \<and> d_project r = project \<and> d_status r = ''ok'' \<and> d_params r \<noteq> SEmpty
    \<and> d_type r = d_type ref \<and> d_tag r \<noteq> d_tag ref \<and> d_id r < d_id ref
    \<and> (\<forall>q\<in>set (rows t). succeeded project q \<longrightarrow> d_type q = d_type ref \<longrightarrow> d_tag q \<noteq> d_tag ref \<longrightarrow>
          d_id r < d_id q \<longrightarrow> d_id ref \<le> d_id q)"
proof -
  obtain ref where ref: "rollback_ref project before ty t = Some ref"
    and r: "t_last (\<lambda>r. succeeded project r \<and> d_type r = d_type ref \<and> d_tag r \<noteq> d_tag ref \<and> d_id r < d_id ref) t = Some r"
    using assms(2) by (auto simp: find_rollback_source_def split: option.splits)
  have "d_project ref = project"
    using ref by (auto simp: rollback_ref_def succeeded_def dest!: t_first_SomeD t_last_SomeD split: if_splits)
  moreover have "d_id q \<le> d_id r" if "q \<in> set (rows t)" "succeeded project q" "d_type q = d_type ref"
      "d_tag q \<noteq> d_tag ref" "d_id q < d_id ref" for q
    using dl.last_greatest [OF lock_invD(1) [OF assms(1)] r] that by blast
  then have "\<forall>q\<in>set (rows t). succeeded project q \<longrightarrow> d_type q = d_type ref \<longrightarrow> d_tag q \<noteq> d_tag ref \<longrightarrow>
      d_id r < d_id q \<longrightarrow> d_id ref \<le> d_id q" by (meson leD leI)
  ultimately show ?thesis using ref t_last_SomeD [OF r] unfolding succeeded_def by blast
qed

definition old_ok :: dlog where
  "old_ok = (running_row ''a'' 1 [] sample_args)\<lparr>d_id := 1, d_status := ''ok'', d_lock := None, d_tag := ''v0'',
     d_params := SDoc (ssh_params sample_exec)\<rparr>"

definition new_failed :: dlog where
  "new_failed = (running_row ''a'' 2 [] sample_args)\<lparr>d_id := 2, d_status := ''failed'', d_lock := None,
     d_params := SDoc (ssh_params sample_exec)\<rparr>"

definition history :: "dlog table" where
  "history = \<lparr>rows = [old_ok, new_failed], next_id = 3\<rparr>"

lemma history_inv: "lock_inv history"
  by (simp add: lock_inv_def wf_table_def uniq_ok_def history_def old_ok_def new_failed_def running_row_def sample_args_def)

theorem rollback_source_right_witness:
  "\<exists>r. find_rollback_source ''web'' 2 [] history = Some r \<and> d_tag r = ''v0'' \<and> d_status r = ''ok''"
proof -
  have f: "find_rollback_source ''web'' 2 [] history = Some old_ok"
    by (simp add: find_rollback_source_def rollback_ref_def t_first_def t_last_def history_def old_ok_def new_failed_def
        running_row_def sample_args_def succeeded_def)
  then show ?thesis using rollback_source_right [OF history_inv f] by (auto simp: old_ok_def)
qed

text \<open>A rollback that is prepared without an approval changes nothing, no rule asked for one,
  and its parameters are those of the chosen record with at most the tag replaced, by a
  whitelisted one; its note keeps the marker within the column of 512 characters; a native
  rollback is only made of the three cluster types and without a tag.\<close>

theorem rollback_prepared:
  assumes "apprs_ok db" "lock_inv (db_logs db)" "prepare_rollback env x a u db = (Inr (PrepReady p native src), db')"
    and "length (rt_to_tag x) \<le> 100" "length (rt_to_id x @ nat_str src) \<le> 500"
  shows "db' = db
    \<and> approval_required (db_rules db) (db_servers db) (ra_project a) (or_empty (pp_server_ids p)) True = Inr None
    \<and> (\<exists>r p0. r \<in> set (rows (db_logs db)) \<and> d_id r = src \<and> d_project r = ra_project a \<and> d_params r = SDoc p0
         \<and> or_empty (pp_deploy_type p0) \<noteq> []
         \<and> pp_deploy_type p = pp_deploy_type p0 \<and> pp_server_ids p = pp_server_ids p0 \<and> pp_commands p = pp_commands p0
         \<and> pp_tag p = (if ra_tag a \<noteq> [] then Some (ra_tag a) else pp_tag p0)
         \<and> (native \<longrightarrow> d_type r \<in> set native_types))
    \<and> (ra_tag a = [] \<or> tag_re (ra_tag a)) \<and> (native \<longrightarrow> ra_tag a = [])
    \<and> length (or_empty (pp_deploy_note p)) \<le> 512"
proof -
  obtain mode r p0 o' where h: "rollback_mode a (db_logs db) = Inr mode" "ra_tag a = [] \<or> tag_re (ra_tag a)"
    "rollback_source a mode (db_logs db) = Some r" "load_snapshot (d_params r) = Inr p0"
    "or_empty (pp_deploy_type p0) \<noteq> []"
    and g: "gate_deploy (de_jobs env) (de_hints env) (de_ts env)
       (rollback_gate_args a u r (rollback_params x a (mode \<in> set native_types) (d_id r) p0)) db = (Inr o', db')"
    and e: "PrepReady p native src = (case o' of Some g \<Rightarrow> PrepPending (gr_approval g) (d_id r)
       | None \<Rightarrow> PrepReady (rollback_params x a (mode \<in> set native_types) (d_id r) p0)
           (mode \<in> set native_types \<and> ra_tag a = []) (d_id r))"
    using assms(3) by (rule prepare_cases)
  have o': "o' = None" using e by (cases o') simp_all
  then have p: "p = rollback_params x a (mode \<in> set native_types) src p0" "native = (mode \<in> set native_types \<and> ra_tag a = [])"
    "src = d_id r" using e by simp_all
  have r: "r \<in> set (rows (db_logs db))" "d_project r = ra_project a"
    using h(3) by (auto simp: rollback_source_def find_rollback_source_def succeeded_def
        dest!: find_record_SomeD find_latest_success_SomeD t_last_SomeD split: if_splits option.splits)
  have sd: "d_params r = SDoc p0" using h(4,5) by (cases "d_params r") (auto simp: empty_params_def)
  have nat_ty: "d_type r \<in> set native_types" if "mode \<in> set native_types" "ra_tag a = []"
  proof (cases "ra_before a = 0")
    case True
    then have "find_latest_success (ra_project a) mode (db_logs db) = Some r" using h(3) that by (simp add: rollback_source_def)
    moreover have "mode \<noteq> []" using that(1) by (auto simp: native_types_def)
    ultimately show ?thesis using find_latest_success_SomeD that(1) by blast
  next
    case False
    then show ?thesis using h(1,3) that by (auto simp: rollback_mode_def rollback_source_def split: option.splits)
  qed
  have gate: "db' = db" "approval_required (db_rules db) (db_servers db) (ra_project a) (or_empty (pp_server_ids p)) True = Inr None"
    using gate_passes [OF g [unfolded o']] p(1,3) by (simp_all add: rollback_gate_args_def)
  have fits: "length (or_empty (pp_deploy_note p)) \<le> 512"
    using note_fits [OF _ assms(4,5), of a] h(2) oci_tag_length [of "ra_tag a"] unfolding p(1) by (auto simp: rollback_params_def)
  show ?thesis using gate r sd nat_ty h(2,5) fits p by (auto simp: rollback_params_def)
qed

definition sample_rollback :: rollback_args where
  "sample_rollback = \<lparr>ra_project = ''web'', ra_before = 2, ra_type = [], ra_tag = [], ra_note = ''oops'', ra_bot = 0, ra_lang = ''en''\<rparr>"

definition sample_texts :: rollback_texts where
  "sample_texts = \<lparr>rt_to_tag = ''[to '', rt_to_id = ''[#''\<rparr>"

definition history_db :: cdb where
  "history_db = (ds_db sample_state)\<lparr>db_logs := history\<rparr>"

lemma sample_prepare: "\<exists>p. prepare_rollback sample_denv sample_texts sample_rollback carol history_db = (Inr (PrepReady p False 1), history_db)"
proof -
  have "rollback_source sample_rollback ''ssh'' history = Some old_ok" "rollback_mode sample_rollback history = Inr ''ssh''"
    by (simp_all add: rollback_source_def sample_rollback_def native_types_def find_rollback_source_def rollback_ref_def
        rollback_mode_def find_record_def t_first_def t_last_def history_def old_ok_def new_failed_def running_row_def
        sample_args_def succeeded_def)
  moreover have "or_empty (pp_deploy_type (ssh_params sample_exec)) = ''ssh''" "or_empty (pp_server_ids (ssh_params sample_exec)) = ''1''"
    by (simp_all add: ssh_params_def snapshot_of_def sample_exec_def)
  moreover have "db_logs history_db = history" "d_params old_ok = SDoc (ssh_params sample_exec)" "d_id old_ok = 1"
    "ra_tag sample_rollback = []" "ra_project sample_rollback = ''web''"
    by (simp_all add: history_db_def) (simp_all add: old_ok_def sample_rollback_def)
  moreover have "gate_deploy js hints ts g history_db = (Inr None, history_db)"
    if "ga_scheduled g = []" "ga_project g = ''web''" for js hints ts g
  proof -
    have "db_rules history_db = empty_table" by (simp add: history_db_def sample_state_def)
    then have "approval_required (db_rules history_db) sv p i rb = Inr None" for sv p i rb
      by (simp add: approval_required_def get_rule_def match_rule_def list_all_rules_def t_where_def empty_table_def)
    moreover have "parse_scheduled_at [] = Inr []" by code_simp
    ultimately show ?thesis using that by (simp add: gate_deploy_def)
  qed
  ultimately show ?thesis
    by (simp add: prepare_rollback_def rollback_gate_args_def rollback_params_def native_types_def)
qed

theorem rollback_prepared_witness:
  "\<exists>p db'. prepare_rollback sample_denv sample_texts sample_rollback carol history_db = (Inr (PrepReady p False 1), db')
     \<and> db' = history_db \<and> length (or_empty (pp_deploy_note p)) \<le> 512"
proof -
  obtain p where p: "prepare_rollback sample_denv sample_texts sample_rollback carol history_db = (Inr (PrepReady p False 1), history_db)"
    using sample_prepare by blast
  have ok: "apprs_ok history_db" "lock_inv (db_logs history_db)"
    using history_inv by (simp_all add: history_db_def sample_state_def apprs_ok_def)
  have len: "length (rt_to_tag sample_texts) \<le> 100" "length (rt_to_id sample_texts @ nat_str 1) \<le> 500"
    by (simp_all add: sample_texts_def nat_str.simps)
  show ?thesis using rollback_prepared [OF ok p len] p by blast
qed

text \<open>An explicit record is taken as it is: with a tag given, the rollback starts from a failed
  record as well, although the error text speaks of a successful one.\<close>

theorem failed_record_accepted:
  assumes "find_record (ra_project a) (ra_before a) t = Some r" "ra_before a \<noteq> 0" "ra_tag a \<noteq> []"
  shows "rollback_mode a t = Inr (d_type r) \<and> rollback_source a (d_type r) t = Some r"
  using assms by (simp add: rollback_mode_def rollback_source_def)

theorem failed_record_accepted_witness:
  "rollback_source (sample_rollback\<lparr>ra_tag := ''v0''\<rparr>) ''ssh'' history = Some new_failed \<and> d_status new_failed = ''failed''"
proof -
  have "find_record ''web'' 2 history = Some new_failed"
    by (simp add: find_record_def t_first_def history_def old_ok_def new_failed_def running_row_def sample_args_def)
  moreover have "d_type new_failed = ''ssh''" "d_status new_failed = ''failed''"
    by (simp_all add: new_failed_def) (simp add: running_row_def sample_args_def)
  ultimately show ?thesis using failed_record_accepted [of "sample_rollback\<lparr>ra_tag := ''v0''\<rparr>" history new_failed]
    by (simp add: sample_rollback_def)
qed

end
