(* ===== verification/System.thy ===== *)
theory System
  imports Execution Rollback
begin

text \<open>
  The backend as a whole: every transaction that writes \<^verbatim>\<open>cd_approvals\<close> or
  \<^verbatim>\<open>cd_deploy_logs\<close>, by any thread of any instance and in any order, as one step of a
  relation on the shared database. The invariants of the two tables and the history of a request
  are proved for all reachable states; the composed operations of the other theories (a
  deployment, an approved run, a round of the scheduler) are sequences of such steps.
\<close>

section \<open>Steps\<close>

inductive log_step :: "dlog table \<Rightarrow> dlog table \<Rightarrow> bool" where
  ls_start: "log_step t (snd (start_deploy_record inst now ts g t))"
| ls_pending: "log_step t (snd (create_pending_deploy_record ts g t))"
| ls_claim: "log_step t (snd (claim_pending_deploy_record inst now p aid t))"
| ls_reset: "log_step t (reset_pending_deploy_record aid t)"
| ls_mark: "log_step t (mark_approval_log_terminal aid st t)"
| ls_finish: "ending f \<Longrightarrow> log_step t (finish_deploy_record n i f t)"
| ls_cancel: "log_step t (snd (snd (mark_deploy_cancelled i m t)))"
| ls_beat: "log_step t (heartbeat inst now m t)"
| ls_stale: "log_step t (fst (recover_stale_running now age t))"
| ls_reopen: "log_step t (reopen_interrupted t)"

inductive step :: "cdb \<Rightarrow> cdb \<Rightarrow> bool" where
  st_log: "log_step (db_logs db) t \<Longrightarrow> step db (db\<lparr>db_logs := t\<rparr>)"
| st_create: "c_status c \<in> {Pending, Approved} \<Longrightarrow> step db (snd (create_approval ts c db))"
| st_approve: "step db (snd (approve st now aid u db))"
| st_reject: "step db ((snd (reject st now aid u note db))\<lparr>db_logs := db_logs db\<rparr>)"
| st_cancel: "step db ((snd (cancel st now aid u db))\<lparr>db_logs := db_logs db\<rparr>)"
| st_claim: "step db (snd (transition now aid [Approved] Deploying no_fields db))"
| st_advance: "step db (snd (transition now aid [Deploying] (outcome_status rs) (with_deploy i) db))"
| st_back: "step db (snd (transition now aid [Deploying] (outcome_status rs) no_fields db))"
| st_clear: "step db (clear_schedule now aid db)"
| st_converge: "step db (db\<lparr>db_logs := reopen_interrupted (db_logs db),
     db_apprs := recover_approvals now (db_logs db) (db_apprs db)\<rparr>)"
| st_admin: "step db (db\<lparr>db_rules := R, db_servers := S, db_config := C\<rparr>)"

inductive_cases log_stepE: "log_step t t'"
inductive_cases stepE: "step db db'"

section \<open>The invariants\<close>

definition sys_inv :: "cdb \<Rightarrow> bool" where
  "sys_inv db \<longleftrightarrow> lock_inv (db_logs db) \<and> apprs_ok db"

lemma log_step_inv: "log_step t t' \<Longrightarrow> lock_inv t \<Longrightarrow> lock_inv t'"
  by (induction rule: log_step.induct) (simp_all add: inv_intros ending_def)

text \<open>What one transaction may do to one request.\<close>

definition row_ok :: "approval \<Rightarrow> approval \<Rightarrow> bool" where
  "row_ok a b \<longleftrightarrow> a_id b = a_id a \<and> a_project b = a_project a \<and> a_tag b = a_tag a \<and> a_type b = a_type a
     \<and> a_params b = a_params a \<and> a_requester b = a_requester a
     \<and> (a_status b = a_status a \<or> legal_move (a_status a) (a_status b))
     \<and> (a_status a = Pending \<and> a_status b = Approved \<longrightarrow>
          py_strip (a_requester a) = [] \<or> py_strip (a_approver b) \<noteq> py_strip (a_requester a))
     \<and> (a_status a \<noteq> Pending \<or> a_status b = Pending \<longrightarrow> a_approver b = a_approver a)"

lemma row_ok_refl [simp]: "row_ok a a"
  by (auto simp: row_ok_def)

lemma set_status_row:
  assumes "legal_move (a_status a) to" "a_status a \<noteq> Pending \<or> to \<in> {Rejected, Cancelled}" "f \<in> {no_fields} \<union> range with_deploy"
  shows "row_ok a (set_status now to f a)"
  using assms by (auto simp: row_ok_def set_status_def no_fields_def with_deploy_def elim: legal_moveE)

lemma transition_row_ok:
  assumes "get_by_id j db = Some a" "keeps_id f"
    and "a_status a \<in> set froms \<Longrightarrow> row_ok a (set_status now to f a)"
  shows "\<exists>b. get_by_id j (snd (transition now aid froms to f db)) = Some b \<and> row_ok a b"
  using assms by (auto simp: transition_get)

lemma outcome_legal: "legal_move Deploying (outcome_status rs)"
  by (cases rs) (simp_all add: outcome_status_def legal_move.intros)

lemma get_cong: "db_apprs db = db_apprs db2 \<Longrightarrow> get_by_id j db = get_by_id j db2"
  by (simp add: get_by_id_def)

lemma ok_cong: "db_apprs db = db_apprs db2 \<Longrightarrow> apprs_ok db = apprs_ok db2"
  by (simp add: apprs_ok_def)

lemma transition_logs: "transition now aid froms to f db = (r, db') \<Longrightarrow> db_logs db' = db_logs db"
  using transition_frame(1) by (metis snd_conv)

text \<open>The three actions are one conditional update each, as far as requests are concerned.\<close>

lemma approve_apprs:
  "db_apprs (snd (approve st now aid u db)) = db_apprs db \<or>
   (\<exists>a. get_by_id aid db = Some a \<and> (\<exists>x. ensure_not_requester a u = Inr x) \<and>
      db_apprs (snd (approve st now aid u db)) =
      db_apprs (snd (transition now aid [Pending] Approved (\<lambda>a. a\<lparr>a_approver := u_name u, a_approved_at := now\<rparr>) db)))"
  by (auto simp: approve_def Let_def split: option.splits sum.splits if_splits prod.splits)

lemma reject_apprs:
  "db_apprs (snd (reject st now aid u note db)) = db_apprs db \<or>
   db_apprs (snd (reject st now aid u note db)) = db_apprs (snd (transition now aid [Pending] Rejected
     (\<lambda>a. a\<lparr>a_approver := u_name u, a_note := note, a_approved_at := now\<rparr>) db))"
  by (auto simp: reject_def Let_def split: option.splits sum.splits if_splits prod.splits)

lemma cancel_apprs:
  "db_apprs (snd (cancel st now aid u db)) = db_apprs db \<or>
   db_apprs (snd (cancel st now aid u db)) = db_apprs (snd (transition now aid [Pending, Approved] Cancelled no_fields db))"
  by (auto simp: cancel_def Let_def split: option.splits sum.splits if_splits prod.splits)

lemma create_row:
  "get_by_id j db = Some a \<Longrightarrow> apprs_ok db \<Longrightarrow> get_by_id j (snd (create_approval ts c db)) = Some a"
  by (auto simp: create_approval_def split_beta get_by_id_def apprs_ok_def t_get_def find_append)

lemma step_row:
  assumes "step db db'" "apprs_ok db" "get_by_id j db = Some a"
  shows "\<exists>b. get_by_id j db' = Some b \<and> row_ok a b"
  using assms(1)
proof cases
  case st_log
  then show ?thesis using assms(3) by simp
next
  case (st_create c ts)
  then show ?thesis using create_row [OF assms(3,2)] by simp
next
  case (st_approve st now aid u)
  let ?f = "\<lambda>a. a\<lparr>a_approver := u_name u, a_approved_at := now\<rparr>"
  consider "db_apprs db' = db_apprs db"
    | r where "get_by_id aid db = Some r" "\<exists>x. ensure_not_requester r u = Inr x"
      "db_apprs db' = db_apprs (snd (transition now aid [Pending] Approved ?f db))"
    using approve_apprs [of st now aid u db] st_approve by auto
  then show ?thesis
  proof cases
    case 1
    then show ?thesis using assms(3) by (simp add: get_by_id_def)
  next
    case 2
    have k: "keeps_id ?f" by simp
    have "row_ok a (set_status now Approved ?f a)" if "a_id a = aid" "a_status a = Pending"
    proof -
      have "a_id a = j" using assms(3) get_by_id_iff [OF assms(2)] by blast
      then have "j = aid" using that(1) by simp
      then have "a = r" using 2(1) assms(3) by simp
      then show ?thesis using 2(2) that(2) ensure_not_requester_Inr
        by (fastforce simp: row_ok_def set_status_def legal_move.intros)
    qed
    then have "\<exists>b. get_by_id j (snd (transition now aid [Pending] Approved ?f db)) = Some b \<and> row_ok a b"
      using assms(3) by (auto simp: transition_get [OF k])
    then show ?thesis using 2(3) by (simp add: get_by_id_def)
  qed
next
  case (st_reject st now aid u nt)
  let ?f = "\<lambda>a. a\<lparr>a_approver := u_name u, a_note := nt, a_approved_at := now\<rparr>"
  have "row_ok a (set_status now Rejected ?f a)" if "a_status a \<in> set [Pending]"
    using that by (auto simp: row_ok_def set_status_def legal_move.intros)
  then have "\<exists>b. get_by_id j (snd (transition now aid [Pending] Rejected ?f db)) = Some b \<and> row_ok a b"
    using assms(3) by (intro transition_row_ok) simp_all
  then show ?thesis using reject_apprs [of st now aid u nt db] st_reject assms(3) by (auto simp: get_by_id_def)
next
  case (st_cancel st now aid u)
  have "row_ok a (set_status now Cancelled no_fields a)" if "a_status a \<in> set [Pending, Approved]"
    using that by (intro set_status_row) (auto simp: legal_move.intros)
  then have "\<exists>b. get_by_id j (snd (transition now aid [Pending, Approved] Cancelled no_fields db)) = Some b \<and> row_ok a b"
    using assms(3) by (intro transition_row_ok) simp_all
  then show ?thesis using cancel_apprs [of st now aid u db] st_cancel assms(3) by (auto simp: get_by_id_def)
next
  case (st_claim now aid)
  then show ?thesis using assms(3)
    by (auto intro!: transition_row_ok set_status_row simp: legal_move.intros)
next
  case (st_advance now aid rs i)
  then show ?thesis using assms(3)
    by (auto intro!: transition_row_ok set_status_row simp: outcome_legal)
next
  case (st_back now aid rs)
  then show ?thesis using assms(3)
    by (auto intro!: transition_row_ok set_status_row simp: outcome_legal)
next
  case (st_clear now aid)
  have "row_ok a (a\<lparr>a_scheduled := [], a_updated := now\<rparr>)" by (auto simp: row_ok_def)
  then show ?thesis using st_clear assms(3) by (auto simp: clear_schedule_def get_by_id_def ap.get_update)
next
  case (st_converge now)
  have "row_ok a (a\<lparr>a_status := to, a_updated := now, a_deploy := n\<rparr>)" if "a_status a = Deploying" "to \<in> {Deployed, Failed}" for to n
    using that by (auto simp: row_ok_def legal_move.intros)
  moreover have "row_ok a (a\<lparr>a_status := Approved, a_updated := now\<rparr>)" if "a_status a = Deploying"
    using that by (auto simp: row_ok_def legal_move.intros)
  ultimately show ?thesis using st_converge assms(3)
    by (auto simp: get_by_id_def recover_approvals_def ap.get_update converge_get)
next
  case (st_admin R S C)
  then show ?thesis using assms(3) by (simp add: get_by_id_def)
qed

lemma step_ok:
  assumes "step db db'" "apprs_ok db"
  shows "apprs_ok db'"
  using assms(1)
proof cases
  case (st_approve st now aid u)
  then show ?thesis using approve_apprs [of st now aid u db] assms(2) transition_inv [OF assms(2)]
    by (metis keeps_id_simps(2) ok_cong)
next
  case (st_reject st now aid u nt)
  have "apprs_ok (snd (reject st now aid u nt db))"
    using reject_apprs [of st now aid u nt db] assms(2) transition_inv [OF assms(2)] by (metis keeps_id_simps(3) ok_cong)
  then show ?thesis using st_reject by simp
next
  case (st_cancel st now aid u)
  have "apprs_ok (snd (cancel st now aid u db))"
    using cancel_apprs [of st now aid u db] assms(2) transition_inv [OF assms(2)] by (metis keeps_id_simps(1) ok_cong)
  then show ?thesis using st_cancel by simp
next
  case (st_create c ts)
  then show ?thesis using assms(2) by (simp add: create_approval_def split_beta apprs_ok_def ap.wf_insert)
next
  case (st_clear now aid)
  then show ?thesis using assms(2) by (simp add: clear_schedule_def apprs_ok_def ap.wf_update)
next
  case (st_converge now)
  then show ?thesis using assms(2) by (simp add: apprs_ok_def recover_approvals_wf)
next
  case (st_admin R S C)
  then show ?thesis using assms(2) by (simp add: apprs_ok_def)
qed (use assms(2) in \<open>simp_all add: transition_inv\<close>)

lemma step_inv:
  assumes "step db db'" "sys_inv db"
  shows "sys_inv db'"
proof -
  have "lock_inv (db_logs db')" using assms(1)
  proof cases
    case (st_approve st now aid u)
    then show ?thesis using assms(2)
      by (auto simp: sys_inv_def approve_def Let_def split: option.splits sum.splits if_splits prod.splits
          dest: transition_logs)
  qed (use assms(2) in \<open>auto simp: sys_inv_def log_step_inv create_approval_def split_beta reopen_inv\<close>)
  then show ?thesis using step_ok assms by (simp add: sys_inv_def)
qed

lemma reach_inv: "step\<^sup>*\<^sup>* db db' \<Longrightarrow> sys_inv db \<Longrightarrow> sys_inv db'"
  by (induction rule: rtranclp_induct) (auto intro: step_inv)

text \<open>What many transactions may do to one request.\<close>

definition same_order :: "approval \<Rightarrow> approval \<Rightarrow> bool" where
  "same_order a b \<longleftrightarrow> a_project b = a_project a \<and> a_tag b = a_tag a \<and> a_type b = a_type a
     \<and> a_params b = a_params a \<and> a_requester b = a_requester a"

lemma reach_row:
  assumes "step\<^sup>*\<^sup>* db db'" "apprs_ok db" "get_by_id j db = Some a"
  shows "\<exists>b. get_by_id j db' = Some b \<and> same_order a b \<and> legal_move\<^sup>*\<^sup>* (a_status a) (a_status b) \<and> apprs_ok db'"
  using assms
proof (induction rule: rtranclp_induct)
  case base
  then show ?case by (simp add: same_order_def)
next
  case (step db1 db2)
  then obtain b where b: "get_by_id j db1 = Some b" "same_order a b" "legal_move\<^sup>*\<^sup>* (a_status a) (a_status b)" "apprs_ok db1"
    by blast
  obtain c where c: "get_by_id j db2 = Some c" "row_ok b c" using step_row [OF step.hyps(2) b(4,1)] by blast
  have "a_status c = a_status b \<or> legal_move (a_status b) (a_status c)" using c(2) by (simp add: row_ok_def)
  then have "legal_move\<^sup>*\<^sup>* (a_status a) (a_status c)" using b(3) by auto
  moreover have "same_order a c" using b(2) c(2) by (simp add: same_order_def row_ok_def)
  ultimately show ?case using c(1) step_ok [OF step.hyps(2) b(4)] by blast
qed

text \<open>A second pair of eyes on a request: it is still pending or closed, or its approver is not its
  requester.\<close>

definition four_eyes :: "approval \<Rightarrow> bool" where
  "four_eyes a \<longleftrightarrow> a_status a \<in> {Pending, Rejected, Cancelled} \<or> py_strip (a_requester a) = []
     \<or> py_strip (a_approver a) \<noteq> py_strip (a_requester a)"

lemma row_four_eyes: "row_ok a b \<Longrightarrow> four_eyes a \<Longrightarrow> four_eyes b"
  by (auto simp: row_ok_def four_eyes_def elim!: legal_moveE)

lemma reach_four_eyes:
  assumes "step\<^sup>*\<^sup>* db db'" "apprs_ok db" "get_by_id j db = Some a" "four_eyes a"
  shows "\<exists>b. get_by_id j db' = Some b \<and> four_eyes b"
  using assms(1)
proof (induction rule: rtranclp_induct)
  case (step db1 db2)
  then obtain b where b: "get_by_id j db1 = Some b" "four_eyes b" by blast
  have "apprs_ok db1" using reach_row [OF step.hyps(1) assms(2,3)] by blast
  then obtain c where "get_by_id j db2 = Some c" "row_ok b c" using step_row [OF step.hyps(2) _ b(1)] by blast
  then show ?case using row_four_eyes b(2) by blast
qed (use assms(3,4) in blast)

section \<open>The composed operations are sequences of steps\<close>

lemma logs_steps: "log_step\<^sup>*\<^sup>* t t' \<Longrightarrow> t = db_logs db \<Longrightarrow> step\<^sup>*\<^sup>* db (db\<lparr>db_logs := t'\<rparr>)"
proof (induction rule: rtranclp_induct)
  case (step t1 t2)
  have "step (db\<lparr>db_logs := t1\<rparr>) ((db\<lparr>db_logs := t1\<rparr>)\<lparr>db_logs := t2\<rparr>)"
    by (rule st_log) (use step.hyps(2) in simp)
  with step show ?case by (simp add: rtranclp.rtrancl_into_rtrancl)
qed simp

lemma log_steps1: "log_step (db_logs db) t \<Longrightarrow> step\<^sup>*\<^sup>* db (db\<lparr>db_logs := t\<rparr>)"
  by (rule logs_steps [OF r_into_rtranclp refl])

lemma claim_or_start_steps: "log_step\<^sup>*\<^sup>* t (snd (claim_or_start inst now ts g t))"
proof -
  obtain r t1 where c: "claim_pending_deploy_record inst now (g_project g) (g_approval g) t = (r, t1)" by fastforce
  have "log_step t t1" using ls_claim [of t inst now "g_project g" "g_approval g"] c by simp
  moreover have "log_step t1 (snd (start_deploy_record inst now ts g t1))" by (rule ls_start)
  ultimately have "log_step\<^sup>*\<^sup>* t t1" "log_step\<^sup>*\<^sup>* t (snd (start_deploy_record inst now ts g t1))" by auto
  then show ?thesis using c by (auto simp: claim_or_start_def split: sum.splits prod.splits)
qed

lemma finishes_steps: "list_all ending fs \<Longrightarrow> log_step\<^sup>*\<^sup>* t (finishes n i fs t)"
proof (induction fs arbitrary: t)
  case (Cons f fs)
  then have "log_step t (finish_deploy_record n i f t)" by (auto intro: ls_finish)
  moreover have "log_step\<^sup>*\<^sup>* (finish_deploy_record n i f t) (finishes n i fs (finish_deploy_record n i f t))"
    using Cons by simp
  ultimately show ?case by (simp add: finishes_def)
qed (simp add: finishes_def)

lemma rest_eq:
  assumes "rest_of s' = rest_of s"
  shows "ds_db s' = (ds_db s)\<lparr>db_logs := logs s'\<rparr>"
proof -
  have "(rest_of s')\<lparr>db_logs := logs s'\<rparr> = (rest_of s)\<lparr>db_logs := logs s'\<rparr>" using assms by simp
  then show ?thesis by (simp add: rest_of_def logs_def)
qed

lemma dstate_steps:
  assumes "rest_of s' = rest_of s" "log_step\<^sup>*\<^sup>* (logs s) (logs s')"
  shows "step\<^sup>*\<^sup>* (ds_db s) (ds_db s')"
proof -
  have "step\<^sup>*\<^sup>* (ds_db s) ((ds_db s)\<lparr>db_logs := logs s'\<rparr>)" using assms(2) logs_def by (rule logs_steps)
  then show ?thesis by (simp only: rest_eq [OF assms(1), symmetric])
qed

text \<open>Other threads and instances take steps, too.\<close>

definition env_steps :: "(dstate \<Rightarrow> dstate) \<Rightarrow> bool" where
  "env_steps m \<longleftrightarrow> (\<forall>x. step\<^sup>*\<^sup>* (ds_db x) (ds_db (m x)))"

lemma begin_execute_steps: "log_step\<^sup>*\<^sup>* (logs s) (logs (snd (begin_execute env u a s)))"
proof (cases "plan_deploy env u a (ds_db s)")
  case (Inr p)
  have "log_step\<^sup>*\<^sup>* (logs s) (snd (claim_or_start (de_inst env) (de_now env) (de_ts env) (record_args u a p) (logs s)))"
    by (rule claim_or_start_steps)
  then show ?thesis using Inr by (auto simp: begin_execute_def split: sum.splits prod.splits)
qed (simp add: begin_execute_def)

lemma execute_steps:
  assumes "env_steps (de_meanwhile env)"
  shows "step\<^sup>*\<^sup>* (ds_db s) (ds_db (snd (execute env u a s)))"
proof -
  obtain r s1 where b: "begin_execute env u a s = (r, s1)" by fastforce
  have "step\<^sup>*\<^sup>* (ds_db s) (ds_db (snd (begin_execute env u a s)))"
    by (rule dstate_steps [OF begin_execute_rest begin_execute_steps])
  then have 1: "step\<^sup>*\<^sup>* (ds_db s) (ds_db s1)" using b by simp
  show ?thesis
  proof (cases r)
    case (Inl e)
    then show ?thesis using b 1 by (simp add: execute_def)
  next
    case (Inr x)
    let ?res = "run_targets env a (sx_plan x) 0 (pl_targets (sx_plan x))"
    let ?s2 = "de_meanwhile env s1"
    have 2: "step\<^sup>*\<^sup>* (ds_db s1) (ds_db ?s2)" using assms by (simp add: env_steps_def)
    obtain fs where "list_all ending fs" "logs (snd (close_execute env a x ?res ?s2)) =
        finishes (nat (log_truncate_chars (de_settings env))) (sx_id x) fs (logs ?s2)"
      using close_execute_shape by blast
    then have "step\<^sup>*\<^sup>* (ds_db ?s2) (ds_db (snd (close_execute env a x ?res ?s2)))"
      by (intro dstate_steps) (simp_all add: close_execute_rest finishes_steps)
    then show ?thesis using 1 2 b Inr by (simp add: execute_def)
  qed
qed

lemma begin_k8s_steps: "log_step\<^sup>*\<^sup>* (logs s) (logs (snd (begin_k8s env u q ki cl aid s)))"
proof -
  have "log_step\<^sup>*\<^sup>* (logs s) (snd (claim_or_start (de_inst env) (de_now env) (de_ts env) (k8s_record_args u q ki cl aid) (logs s)))"
    by (rule claim_or_start_steps)
  then show ?thesis by (auto simp: begin_k8s_def split: sum.splits prod.splits)
qed

lemma core_steps:
  assumes "env_steps (de_meanwhile env)"
  shows "step\<^sup>*\<^sup>* (ds_db s) (ds_db (snd (deploy_k8s_core env remote u q ki cl rb aid s)))"
proof -
  obtain r s1 where b: "begin_k8s env u q ki cl aid s = (r, s1)" by fastforce
  have "step\<^sup>*\<^sup>* (ds_db s) (ds_db (snd (begin_k8s env u q ki cl aid s)))"
    by (rule dstate_steps [OF begin_k8s_rest begin_k8s_steps])
  then have 1: "step\<^sup>*\<^sup>* (ds_db s) (ds_db s1)" using b by simp
  show ?thesis
  proof (cases r)
    case (Inl e)
    then show ?thesis using b 1 by (simp add: deploy_k8s_core_def)
  next
    case (Inr i)
    let ?res = "remote rb q (ki_image ki) (ki_short ki) cl"
    let ?s2 = "de_meanwhile env s1"
    have 2: "step\<^sup>*\<^sup>* (ds_db s1) (ds_db ?s2)" using assms by (simp add: env_steps_def)
    obtain f where "ending f" "logs (snd (close_k8s env q ki cl rb i ?res ?s2)) =
        finishes (nat (log_truncate_chars (de_settings env))) i [f] (logs ?s2)"
      using close_k8s_shape by blast
    then have "step\<^sup>*\<^sup>* (ds_db ?s2) (ds_db (snd (close_k8s env q ki cl rb i ?res ?s2)))"
      by (intro dstate_steps) (simp_all add: close_k8s_rest finishes_steps)
    then show ?thesis using 1 2 b Inr by (simp add: deploy_k8s_core_def)
  qed
qed

lemma executor_steps:
  "env_steps (de_meanwhile env) \<Longrightarrow> step\<^sup>*\<^sup>* (ds_db s) (ds_db (snd (execute_from_params env remote p u rb aid s)))"
  using execute_from_params_state [of env remote p u rb aid s] execute_steps core_steps by (elim disjE exE) auto

lemma settle_steps: "step\<^sup>*\<^sup>* db (settle x aid r db)"
proof (cases "rr_status r")
  case RunBusy
  let ?d = "advance x aid Approved no_fields db"
  have 1: "step db ?d" using st_back [of db "xe_now x" aid RunBusy] by (simp add: advance_def outcome_status_def)
  have "step\<^sup>*\<^sup>* ?d (?d\<lparr>db_logs := reset_pending_deploy_record aid (db_logs ?d)\<rparr>)" by (intro log_steps1 ls_reset)
  then show ?thesis using 1 RunBusy by (simp add: settle_def Let_def)
qed (use st_advance [of db "xe_now x" aid "rr_status r" "rr_deploy r"] st_back [of db "xe_now x" aid "rr_status r"] in
  \<open>auto simp: settle_def advance_def outcome_status_def\<close>)

lemma claim_steps: "step\<^sup>*\<^sup>* (db_of s) (db_of (snd (claim_for_execution x aid name s)))"
proof -
  have "db_of (snd (claim_for_execution x aid name s)) \<in>
      {db_of s, snd (transition (xe_now x) aid [Approved] Deploying no_fields (db_of s))}"
    by (auto simp: claim_for_execution_def Let_def split: option.splits if_splits sum.splits prod.splits)
  then show ?thesis using st_claim [of "db_of s" "xe_now x" aid] by auto
qed

lemma run_steps:
  assumes "env_steps (de_meanwhile (xe_d x))"
  shows "step\<^sup>*\<^sup>* (db_of s) (db_of (snd (run_approval x aid u s)))"
proof (cases "\<exists>row p. get_by_id aid (db_of s) = Some row \<and> a_status row = Deploying \<and> load_snapshot (a_params row) = Inr p")
  case True
  then obtain row p where p: "get_by_id aid (db_of s) = Some row" "a_status row = Deploying" "load_snapshot (a_params row) = Inr p"
    by blast
  obtain r d where e: "execute_from_params (xe_d x) (xe_k8s x) (p\<lparr>pp_rollback := None, pp_approval_id := None\<rparr>) u
      (pp_rollback p = Some True) aid (es_d s) = (r, d)" by (rule prod.exhaust)
  have "step\<^sup>*\<^sup>* (db_of s) (ds_db d)" using executor_steps [OF assms] e by (metis db_of_def snd_conv)
  moreover have "step\<^sup>*\<^sup>* (ds_db d) (settle x aid r (ds_db d))" by (rule settle_steps)
  ultimately show ?thesis using p e by (simp add: run_approval_def)
next
  case False
  then have "snd (run_approval x aid u s) = s"
    by (auto simp: run_approval_def split: option.splits sum.splits)
  then show ?thesis by simp
qed

lemma failure_steps: "step\<^sup>*\<^sup>* (db_of s) (db_of (handle_failure x aid e s))"
proof -
  let ?d = "advance x aid Approved no_fields (db_of s)"
  have 1: "step (db_of s) ?d"
    using st_back [of "db_of s" "xe_now x" aid RunBusy] by (simp add: advance_def outcome_status_def)
  have "step\<^sup>*\<^sup>* ?d (?d\<lparr>db_logs := reset_pending_deploy_record aid (db_logs ?d)\<rparr>)" by (intro log_steps1 ls_reset)
  then show ?thesis using 1 st_clear [of "db_of s" "xe_now x" aid]
    by (auto simp: handle_failure_def Let_def intro: converse_rtranclp_into_rtranclp)
qed

lemma run_due_one_steps:
  assumes "env_steps (de_meanwhile (xe_d x))"
  shows "step\<^sup>*\<^sup>* (db_of s) (db_of (snd (run_due_one x aid name s)))"
proof -
  obtain r s1 where c: "claim_for_execution x aid name s = (r, s1)" by fastforce
  then have 1: "step\<^sup>*\<^sup>* (db_of s) (db_of s1)" using claim_steps [of s x aid name] by simp
  show ?thesis
  proof (cases r)
    case (Inl e)
    then show ?thesis using c 1 failure_steps [of s1 x aid e] by (simp add: run_due_one_def)
  next
    case (Inr b)
    obtain r2 s2 where r2: "run_approval x aid (snd b) s1 = (r2, s2)" by fastforce
    then have 2: "step\<^sup>*\<^sup>* (db_of s1) (db_of s2)" using run_steps [OF assms, of s1 aid "snd b"] by simp
    then show ?thesis using c Inr r2 1 failure_steps [of s2 x aid]
      by (cases r2) (auto simp: run_due_one_def split_beta intro: rtranclp_trans)
  qed
qed

lemma run_due_list_steps:
  assumes "\<And>i. env_steps (de_meanwhile (xe_d (x i)))"
  shows "step\<^sup>*\<^sup>* (db_of s) (db_of (snd (run_due_list x todo s)))"
proof (induction todo arbitrary: s)
  case (Cons t todo)
  let ?s1 = "snd (run_due_one (x (fst t)) (fst t) (snd t) s)"
  have "step\<^sup>*\<^sup>* (db_of s) (db_of ?s1)" using assms by (rule run_due_one_steps)
  also have "step\<^sup>*\<^sup>* (db_of ?s1) (db_of (snd (run_due_list x todo ?s1)))" by (rule Cons.IH)
  finally show ?case by (cases t) (simp add: split_beta)
qed simp

lemma recover_steps: "step\<^sup>*\<^sup>* db (recover_on_startup now nows db)"
proof -
  let ?t = "fst (recover_stale_running now default_stale (db_logs db))"
  let ?d = "db\<lparr>db_logs := ?t\<rparr>"
  have "step\<^sup>*\<^sup>* db ?d" by (intro log_steps1 ls_stale)
  moreover have "step ?d (?d\<lparr>db_logs := reopen_interrupted (db_logs ?d), db_apprs := recover_approvals nows (db_logs ?d) (db_apprs ?d)\<rparr>)"
    by (rule st_converge)
  ultimately show ?thesis by (simp add: recover_on_startup_def Let_def)
qed

lemma config_step: "step db (db\<lparr>db_config := C\<rparr>)"
  using st_admin [of db C "db_servers db" "db_rules db"] by simp

lemma gate_steps: "step\<^sup>*\<^sup>* db (snd (gate_deploy js hints ts g db))"
proof -
  have o: "step\<^sup>*\<^sup>* db (snd (open_request js hints ts g sched rule envs db))" for sched rule envs
  proof -
    let ?img = "resolve_display_image js hints (ga_project g) (ga_tag g)"
    let ?c = "\<lparr>c_project = ga_project g, c_tag = ga_tag g, c_image = ?img, c_type = ga_type g,
       c_envs = envs, c_params = SDoc (ga_params g), c_requester = ga_requester g, c_scheduled = sched,
       c_status = (if rule = None then Approved else Pending), c_approver = []\<rparr>"
    obtain aid db1 where c: "create_approval ts ?c db = (aid, db1)" by fastforce
    have "step db db1" using st_create [of ?c db ts] c by simp
    moreover have "step\<^sup>*\<^sup>* db1 (db1\<lparr>db_logs := snd (create_pending_deploy_record ts l (db_logs db1))\<rparr>)" for l
      by (intro log_steps1 ls_pending)
    ultimately show ?thesis using c by (auto simp: open_request_def Let_def split_beta intro: converse_rtranclp_into_rtranclp)
  qed
  show ?thesis unfolding gate_deploy_def
    by (auto split: sum.splits prod.splits intro: o) (metis o snd_conv)+
qed

lemma tick_steps:
  assumes "\<And>i. env_steps (de_meanwhile (xe_d (x i)))"
  shows "step\<^sup>*\<^sup>* (db_of s) (db_of (snd (scheduler_tick drv inst m x s)))"
proof -
  obtain ok cfg where a: "acquire drv inst (mo_lock m) ''scheduled_executor'' 120 (db_config (db_of s)) = (ok, cfg)" by fastforce
  let ?s0 = "set_db ((db_of s)\<lparr>db_config := cfg\<rparr>) s"
  have 0: "step (db_of s) (db_of ?s0)" by (simp add: config_step)
  obtain n s1 where d: "run_due_scheduled (mo_due m) x ?s0 = (n, s1)" by fastforce
  have 1: "step\<^sup>*\<^sup>* (db_of ?s0) (db_of s1)"
    using run_due_list_steps [of x ?s0, OF assms, of "due_list (mo_due m) (db_of ?s0)"] d by (simp add: run_due_scheduled_def)
  let ?db1 = "recover_on_startup (mo_recover m) (mo_stamp m) (db_of s1)"
  have 2: "step\<^sup>*\<^sup>* (db_of s1) ?db1" by (rule recover_steps)
  have 3: "step ?db1 (?db1\<lparr>db_config := release inst ''scheduled_executor'' (db_config ?db1)\<rparr>)" by (rule config_step)
  have "step\<^sup>*\<^sup>* (db_of s) (?db1\<lparr>db_config := release inst ''scheduled_executor'' (db_config ?db1)\<rparr>)"
    using converse_rtranclp_into_rtranclp [OF 0 1] 2 3 by (meson rtranclp.rtrancl_into_rtrancl rtranclp_trans)
  then show ?thesis using 0 a d by (cases ok) (auto simp: scheduler_tick_def Let_def)
qed

lemma prepare_steps: "step\<^sup>*\<^sup>* db (snd (prepare_rollback env x a u db))"
proof -
  have "snd (prepare_rollback env x a u db) = db \<or>
      (\<exists>g. snd (prepare_rollback env x a u db) = snd (gate_deploy (de_jobs env) (de_hints env) (de_ts env) g db))"
    by (auto simp: prepare_rollback_def Let_def split: sum.splits option.splits if_splits prod.splits) (metis snd_conv)+
  then show ?thesis using gate_steps by (elim disjE exE) auto
qed

lemma rollback_steps:
  assumes "env_steps (de_meanwhile env)"
  shows "step\<^sup>*\<^sup>* (ds_db s) (ds_db (snd (rollback env remote x a u s)))"
proof -
  obtain r db where p: "prepare_rollback env x a u (ds_db s) = (r, db)" by fastforce
  have 1: "step\<^sup>*\<^sup>* (ds_db s) db" using prepare_steps [of "ds_db s" env x a u] p by simp
  have 2: "step\<^sup>*\<^sup>* db (ds_db (snd (execute_from_params env remote q u b 0 (s\<lparr>ds_db := db\<rparr>))))" for q b
    using executor_steps [OF assms, of "s\<lparr>ds_db := db\<rparr>"] by simp
  show ?thesis
  proof (cases "\<exists>q b i. r = Inr (PrepReady q b i)")
    case True
    then obtain q b i where "r = Inr (PrepReady q b i)" by blast
    then have "ds_db (snd (rollback env remote x a u s)) =
        ds_db (snd (execute_from_params env remote q u b 0 (s\<lparr>ds_db := db\<rparr>)))"
      using p by (simp add: rollback_def split_beta)
    then show ?thesis using rtranclp_trans [OF 1 2] by metis
  next
    case False
    then have "ds_db (snd (rollback env remote x a u s)) = db"
      using p by (auto simp: rollback_def split: sum.splits preparation.splits)
    then show ?thesis using 1 by simp
  qed
qed

lemma sample_sys_inv: "sys_inv approved_db" "sys_inv sample_db"
  using sample_estate_ok sample_db_ok by (simp_all add: sys_inv_def sample_estate_def db_of_def)

section \<open>Claims and what becomes of them\<close>

text \<open>A step that puts a claimed request back to approved, and any other step.\<close>

definition puts_back :: "row_id \<Rightarrow> cdb \<Rightarrow> cdb \<Rightarrow> bool" where
  "puts_back aid db db' \<longleftrightarrow> status_at aid db = Some Deploying \<and> status_at aid db' = Some Approved"

definition keeping_step :: "row_id \<Rightarrow> cdb \<Rightarrow> cdb \<Rightarrow> bool" where
  "keeping_step aid db db' \<longleftrightarrow> step db db' \<and> \<not> puts_back aid db db'"

lemma keeping_steps: "(keeping_step aid)\<^sup>*\<^sup>* db db' \<Longrightarrow> step\<^sup>*\<^sup>* db db'"
  by (induction rule: rtranclp_induct) (auto simp: keeping_step_def)

lemma step_status:
  assumes "step db db'" "apprs_ok db" "status_at aid db = Some st"
  shows "\<exists>st'. status_at aid db' = Some st' \<and> (st' = st \<or> legal_move st st')"
proof -
  obtain a where a: "get_by_id aid db = Some a" "a_status a = st" using assms(3) by (auto simp: status_at_def)
  obtain b where "get_by_id aid db' = Some b" "row_ok a b" using step_row [OF assms(1,2) a(1)] by blast
  then show ?thesis using a(2) by (auto simp: row_ok_def status_at_def)
qed

lemma never_approved:
  assumes "(keeping_step aid)\<^sup>*\<^sup>* db db'" "apprs_ok db" "status_at aid db = Some Deploying"
  shows "apprs_ok db' \<and> (\<exists>st \<in> {Deploying, Deployed, Failed, Cancelled}. status_at aid db' = Some st)"
  using assms(1)
proof (induction rule: rtranclp_induct)
  case (step db1 db2)
  then obtain st where st: "apprs_ok db1" "st \<in> {Deploying, Deployed, Failed, Cancelled}" "status_at aid db1 = Some st" by blast
  have s: "step db1 db2" "\<not> puts_back aid db1 db2" using step.hyps(2) by (simp_all add: keeping_step_def)
  obtain st' where st': "status_at aid db2 = Some st'" "st' = st \<or> legal_move st st'" using step_status [OF s(1) st(1,3)] by blast
  then have "st' \<in> {Deploying, Deployed, Failed, Cancelled}" using st s(2) by (auto simp: puts_back_def elim!: legal_moveE)
  then show ?case using st' step_ok [OF s(1) st(1)] by blast
qed (use assms(2,3) in simp)

text \<open>Only two transactions put a request back: that of a run which found the project busy or could not
  start, and the recovery when no record of the request runs or has ended.\<close>

lemma put_back_by:
  assumes "step db db'" "apprs_ok db" "puts_back aid db db'"
  shows "(\<exists>now f. db' = snd (transition now aid [Deploying] Approved f db))
    \<or> (\<exists>now a. db' = db\<lparr>db_logs := reopen_interrupted (db_logs db), db_apprs := recover_approvals now (db_logs db) (db_apprs db)\<rparr>
          \<and> get_by_id aid db = Some a \<and> \<not> has_log (db_logs db) ''ok'' a \<and> \<not> has_log (db_logs db) ''failed'' a
          \<and> \<not> has_running (db_logs db) a)"
proof -
  obtain a where a: "get_by_id aid db = Some a" "a_status a = Deploying" using assms(3) by (auto simp: puts_back_def status_at_def)
  have id: "a_id a = aid" using get_by_id_iff [OF assms(2)] a(1) by blast
  have same: "get_by_id aid db' \<noteq> Some a" using assms(3) a by (auto simp: puts_back_def status_at_def)
  have other: "get_by_id aid (snd (transition now j froms to f db)) = Some a" if "keeps_id f" "Deploying \<notin> set froms" for now j froms to f
    using that a by (simp add: transition_get)
  have moved: "\<exists>now f. db' = snd (transition now aid [Deploying] Approved f db)"
    if "db' = snd (transition now j [Deploying] target f db)" "keeps_id f" for now j target f
  proof -
    have j: "j = aid"
    proof (rule ccontr)
      assume "j \<noteq> aid"
      then have "get_by_id aid db' = Some a" using that a id by (simp add: transition_get)
      then show False using same by simp
    qed
    then have "get_by_id aid db' = Some (set_status now target f a)" using that a id by (simp add: transition_get)
    then have "a_status (set_status now target f a) = Approved" using assms(3) by (simp add: puts_back_def status_at_def)
    moreover have "a_status (set_status now target f a) = target" by (simp add: set_status_def)
    ultimately have "target = Approved" by simp
    then show ?thesis using that(1) j by blast
  qed
  show ?thesis using assms(1)
  proof cases
    case (st_approve st now i u)
    then show ?thesis using approve_apprs [of st now i u db] same a
        other [of "\<lambda>a. a\<lparr>a_approver := u_name u, a_approved_at := now\<rparr>" "[Pending]" now i Approved]
      by (auto simp: get_by_id_def)
  next
    case (st_reject st now i u nt)
    then show ?thesis using reject_apprs [of st now i u nt db] same a
        other [of "\<lambda>a. a\<lparr>a_approver := u_name u, a_note := nt, a_approved_at := now\<rparr>" "[Pending]" now i Rejected]
      by (auto simp: get_by_id_def)
  next
    case (st_cancel st now i u)
    then show ?thesis using cancel_apprs [of st now i u db] same a other [of no_fields "[Pending, Approved]" now i Cancelled]
      by (auto simp: get_by_id_def)
  next
    case (st_create c ts)
    then show ?thesis using create_row [OF a(1) assms(2)] same by simp
  next
    case (st_claim now i)
    then show ?thesis using other [of no_fields "[Approved]" now i Deploying] same by simp
  next
    case (st_advance now i rs k)
    then show ?thesis using moved [OF _ with_deploy_keeps] by blast
  next
    case (st_back now i rs)
    then show ?thesis using moved [of now i "outcome_status rs" no_fields] by simp
  next
    case (st_clear now i)
    then show ?thesis using same a by (auto simp: clear_schedule_def get_by_id_def ap.get_update)
  next
    case (st_converge now)
    have "status_at aid db' = Some (recovered_status (db_logs db) a)"
      using a recover_approvals_get [of aid now "db_logs db" "db_apprs db"] st_converge by (simp add: status_at_def get_by_id_def)
    then have "recovered_status (db_logs db) a = Approved" using assms(3) by (simp add: puts_back_def)
    then show ?thesis using st_converge a by (auto simp: recovered_status_def split: if_splits)
  qed (use same a in \<open>simp_all add: get_by_id_def\<close>)
qed





end
