(* ===== verification/Remote.thy ===== *)
theory Remote
  imports Deployers
begin

text \<open>
  Deployments that talk to a machine over SSH in several steps. The machine is a parameter: what
  it answers to a command, a streamed command, an upload or an HTTP request may depend on
  everything done to it before. The state of a computation is the list of these actions, oldest
  first, so that properties can speak of what was run and in which order. A computation ends
  with a value, an early return of the strategy, an exception (its text) or a cancellation. A call
  of an API (method, address, body) and a line of the log that is also the output are actions too.
\<close>

section \<open>Actions and answers\<close>

datatype action =
    Exec string
  | Stream string
  | Upload string string
  | Fetch string
  | Call string string string
  | Say string

text \<open>An answer on the left is the text of the exception that was raised instead.\<close>

record machine =
  mc_connect :: "string option"
  mc_exec :: "action list \<Rightarrow> string \<Rightarrow> string + (string \<times> string \<times> int)"
  mc_stream :: "action list \<Rightarrow> string \<Rightarrow> string + stream"
  mc_upload :: "action list \<Rightarrow> string \<Rightarrow> string \<Rightarrow> string option"
  mc_fetch :: "action list \<Rightarrow> string \<Rightarrow> string + (int \<times> string)"
  mc_cancelled :: "action list \<Rightarrow> bool"

datatype ('r, 'a) flow = Go 'a | Stop 'r | Crash string | Abort

type_synonym ('r, 'a) proc = "action list \<Rightarrow> ('r, 'a) flow \<times> action list"

definition ret :: "'a \<Rightarrow> ('r, 'a) proc" where
  "ret x tr = (Go x, tr)"

definition stop_with :: "'r \<Rightarrow> ('r, 'a) proc" where
  "stop_with r tr = (Stop r, tr)"

definition crash :: "string \<Rightarrow> ('r, 'a) proc" where
  "crash e tr = (Crash e, tr)"

definition andthen :: "('r, 'a) proc \<Rightarrow> ('a \<Rightarrow> ('r, 'b) proc) \<Rightarrow> ('r, 'b) proc" where
  "andthen p f tr =
     (case p tr of
        (Go x, tr') \<Rightarrow> f x tr'
      | (Stop r, tr') \<Rightarrow> (Stop r, tr')
      | (Crash e, tr') \<Rightarrow> (Crash e, tr')
      | (Abort, tr') \<Rightarrow> (Abort, tr'))"

section \<open>The primitives\<close>

text \<open>\<^verbatim>\<open>_exec_on\<close> and \<^verbatim>\<open>_exec_exit\<close>: both outputs are stripped.\<close>

definition exec_on :: "machine \<Rightarrow> string \<Rightarrow> ('r, string \<times> string \<times> int) proc" where
  "exec_on m cmd tr =
     (case mc_exec m tr cmd of
        Inl e \<Rightarrow> (Crash e, tr @ [Exec cmd])
      | Inr (o', e, c) \<Rightarrow> (Go (py_strip o', py_strip e, c), tr @ [Exec cmd]))"

text \<open>A command whose exceptions are caught.\<close>

definition exec_caught :: "machine \<Rightarrow> string \<Rightarrow> ('r, (string \<times> string \<times> int) option) proc" where
  "exec_caught m cmd tr =
     (case mc_exec m tr cmd of
        Inl _ \<Rightarrow> (Go None, tr @ [Exec cmd])
      | Inr (o', e, c) \<Rightarrow> (Go (Some (py_strip o', py_strip e, c)), tr @ [Exec cmd]))"

definition exec_stream :: "machine \<Rightarrow> string \<Rightarrow> ('r, string \<times> int) proc" where
  "exec_stream m cmd tr =
     (case mc_stream m tr cmd of
        Inl e \<Rightarrow> (Crash e, tr @ [Stream cmd])
      | Inr s \<Rightarrow> (case ssh_exec_stream s of
                   Inl _ \<Rightarrow> (Abort, tr @ [Stream cmd])
                 | Inr r \<Rightarrow> (Go r, tr @ [Stream cmd])))"

text \<open>\<open>None\<close> is a file written.\<close>

definition upload :: "machine \<Rightarrow> string \<Rightarrow> string \<Rightarrow> ('r, string option) proc" where
  "upload m path content tr = (Go (mc_upload m tr path content), tr @ [Upload path content])"

definition http_get :: "machine \<Rightarrow> string \<Rightarrow> ('r, int \<times> string) proc" where
  "http_get m url tr =
     (case mc_fetch m tr url of
        Inl e \<Rightarrow> (Crash e, tr @ [Fetch url])
      | Inr r \<Rightarrow> (Go r, tr @ [Fetch url]))"

definition check_cancelled :: "machine \<Rightarrow> ('r, unit) proc" where
  "check_cancelled m tr = (if mc_cancelled m tr then (Abort, tr) else (Go (), tr))"

text \<open>\<^verbatim>\<open>retry_idempotent\<close> around a computation with an exit status as its last
  component: \<open>left\<close> attempts are left, \<open>last\<close> is the result of the previous one.\<close>

fun retry_proc :: "('r, 'a \<times> int) proc \<Rightarrow> nat \<Rightarrow> ('a \<times> int) option \<Rightarrow> ('r, 'a \<times> int) proc" where
  "retry_proc p 0 prev = (case prev of None \<Rightarrow> crash ''retry_idempotent: attempts'' | Some r \<Rightarrow> ret r)"
| "retry_proc p (Suc left) prev =
     andthen p (\<lambda>r. if snd r = 0 then ret r else retry_proc p left (Some r))"

section \<open>Laws\<close>

lemma andthen_Go [simp]: "p tr = (Go x, tr') \<Longrightarrow> andthen p f tr = f x tr'"
  by (simp add: andthen_def)

lemma andthen_cases:
  assumes "andthen p f tr = (r, tr')"
  obtains x tr1 where "p tr = (Go x, tr1)" "f x tr1 = (r, tr')"
  | v where "p tr = (Stop v, tr')" "r = Stop v"
  | e where "p tr = (Crash e, tr')" "r = Crash e"
  | "p tr = (Abort, tr')" "r = Abort"
  using assms by (cases "p tr"; cases "fst (p tr)") (auto simp: andthen_def)

text \<open>A specification of a computation: its actions only add to the list, each added action
  satisfies \<open>P\<close>, its value \<open>Q\<close> and an early return \<open>R\<close>.\<close>

definition spec :: "(action \<Rightarrow> bool) \<Rightarrow> ('a \<Rightarrow> bool) \<Rightarrow> ('r \<Rightarrow> bool) \<Rightarrow> ('r, 'a) proc \<Rightarrow> bool" where
  "spec P Q R p \<longleftrightarrow> (\<forall>tr. \<exists>new. snd (p tr) = tr @ new \<and> list_all P new
     \<and> (\<forall>y. fst (p tr) = Go y \<longrightarrow> Q y) \<and> (\<forall>y. fst (p tr) = Stop y \<longrightarrow> R y))"

abbreviation acts :: "(action \<Rightarrow> bool) \<Rightarrow> ('r, 'a) proc \<Rightarrow> bool" where
  "acts P p \<equiv> spec P (\<lambda>_. True) (\<lambda>_. True) p"

lemma specD:
  assumes "spec P Q R p"
  obtains new where "snd (p tr) = tr @ new" "list_all P new" "\<And>y. fst (p tr) = Go y \<Longrightarrow> Q y" "\<And>y. fst (p tr) = Stop y \<Longrightarrow> R y"
  using assms unfolding spec_def by blast

lemma spec_new:
  assumes "spec P Q R p"
  shows "\<exists>new. snd (p tr) = tr @ new \<and> list_all P new"
  using assms unfolding spec_def by metis

lemma specI:
  assumes "\<And>tr. \<exists>new. snd (p tr) = tr @ new \<and> list_all P new
     \<and> (\<forall>y. fst (p tr) = Go y \<longrightarrow> Q y) \<and> (\<forall>y. fst (p tr) = Stop y \<longrightarrow> R y)"
  shows "spec P Q R p"
  using assms by (simp add: spec_def)

lemma spec_prims [simp]:
  "spec P Q R (ret x) \<longleftrightarrow> Q x" "spec P Q R (stop_with r) \<longleftrightarrow> R r" "spec P Q R (crash c)"
  by (simp_all add: spec_def ret_def stop_with_def crash_def)

lemma spec_exec [simp]: "P (Exec cmd) \<Longrightarrow> spec P (\<lambda>_. True) R (exec_on m cmd)"
    "P (Exec cmd) \<Longrightarrow> spec P (\<lambda>_. True) R (exec_caught m cmd)"
  by (auto simp: spec_def exec_on_def exec_caught_def split: sum.splits)

lemma spec_stream [simp]: "P (Stream cmd) \<Longrightarrow> spec P (\<lambda>_. True) R (exec_stream m cmd)"
  by (auto simp: spec_def exec_stream_def split: sum.splits)

lemma spec_upload [simp]: "P (Upload path content) \<Longrightarrow> spec P (\<lambda>_. True) R (upload m path content)"
  by (simp add: spec_def upload_def)

lemma spec_http [simp]: "P (Fetch url) \<Longrightarrow> spec P (\<lambda>_. True) R (http_get m url)"
  by (auto simp: spec_def http_get_def split: sum.splits)

lemma spec_check [simp]: "spec P (\<lambda>_. True) R (check_cancelled m)"
  by (simp add: spec_def check_cancelled_def)

lemma spec_andthen:
  assumes "spec P Q R p" "\<And>x. Q x \<Longrightarrow> spec P Q' R (f x)"
  shows "spec P Q' R (andthen p f)"
proof (rule specI)
  fix tr
  obtain new where n: "snd (p tr) = tr @ new" "list_all P new" "\<And>y. fst (p tr) = Go y \<Longrightarrow> Q y" "\<And>y. fst (p tr) = Stop y \<Longrightarrow> R y"
    using specD [OF assms(1), of tr] by blast
  show "\<exists>new. snd (andthen p f tr) = tr @ new \<and> list_all P new
     \<and> (\<forall>y. fst (andthen p f tr) = Go y \<longrightarrow> Q' y) \<and> (\<forall>y. fst (andthen p f tr) = Stop y \<longrightarrow> R y)"
  proof (cases "fst (p tr)")
    case (Go x)
    then have e: "andthen p f tr = f x (tr @ new)" using n(1) by (simp add: andthen_def split_beta)
    obtain new2 where "snd (f x (tr @ new)) = (tr @ new) @ new2" "list_all P new2"
        "\<And>y. fst (f x (tr @ new)) = Go y \<Longrightarrow> Q' y" "\<And>y. fst (f x (tr @ new)) = Stop y \<Longrightarrow> R y"
      using specD [OF assms(2) [OF n(3) [OF Go]], of "tr @ new"] by blast
    then show ?thesis unfolding e using n(2) by (intro exI [of _ "new @ new2"]) simp
  qed (use n in \<open>auto simp: andthen_def split_beta\<close>)
qed

lemma spec_weaken:
  assumes "spec P Q R p" "\<And>a. P a \<Longrightarrow> P' a" "\<And>x. Q x \<Longrightarrow> Q' x" "\<And>r. R r \<Longrightarrow> R' r"
  shows "spec P' Q' R' p"
  using assms unfolding spec_def by (metis list.pred_mono_strong)

text \<open>The first part only matters for its actions and early returns.\<close>

lemma spec_bind [intro]:
  assumes "spec P (\<lambda>_. True) R p" "\<And>x. spec P Q R (f x)"
  shows "spec P Q R (andthen p f)"
  using assms by (rule spec_andthen)

lemma spec_dead_first: "spec P (\<lambda>_. False) R p \<Longrightarrow> spec P Q R (andthen p f)"
  using spec_andthen [of P "\<lambda>_. False" R p Q f] by simp

lemma spec_retry: "spec P (\<lambda>_. True) R p \<Longrightarrow> spec P (\<lambda>_. True) R (retry_proc p n prev)"
  by (induction n arbitrary: prev) (auto split: option.splits)

text \<open>The retries of a computation that neither stops nor crashes are those of
  \<open>retry_idempotent\<close>.\<close>

lemma retry_proc_pure:
  assumes "\<And>k. p (tr k) = (Go (func k), tr (Suc k))"
  shows "fst (retry_proc p left prev (tr k)) =
    (case retry_loop func k left prev logged of
       None \<Rightarrow> Crash ''retry_idempotent: attempts'' | Some (r, _) \<Rightarrow> Go r)"
proof (induction left arbitrary: k prev logged)
  case 0
  then show ?case by (cases prev) (simp_all add: crash_def ret_def)
next
  case (Suc left)
  then show ?case by (simp add: assms ret_def Let_def)
qed

end
