(* ===== verification/InsecureRegistry.thy ===== *)
theory InsecureRegistry
  imports Remote Registry "HOL-Library.AList"
begin

text \<open>
  \<^verbatim>\<open>backend/deployers/registry_insecure.py\<close>: may the docker daemon of the target
  machine pull from a plain-HTTP registry, and the optional repair of its configuration. JSON,
  the membership of an address in a network and the guidance text are parameters.
\<close>

text \<open>What \<^verbatim>\<open>json.loads\<close> gives for a configuration file: no JSON, no object, or an object
  with the strings of its \<^verbatim>\<open>insecure-registries\<close> (\<open>None\<close>: absent or not a list).\<close>

datatype daemon_cfg = NotJson | NotObject | Object "string list option"

record daemon_env =
  dm_json :: "string \<Rightarrow> daemon_cfg"
  dm_dump :: "string \<Rightarrow> string list \<Rightarrow> string"
  dm_in_network :: "string \<Rightarrow> string \<Rightarrow> bool"
  dm_guidance :: "string \<Rightarrow> string \<Rightarrow> string"
  dm_not_json :: string
  dm_write_failed :: "string \<Rightarrow> string"
  dm_reload_failed :: "string \<Rightarrow> string"

record insecure_check =
  ic_ok :: bool
  ic_auto_fixed :: bool
  ic_detail :: string

definition daemon_dir :: string where
  "daemon_dir = ''/etc/docker''"

definition daemon_json :: string where
  "daemon_json = daemon_dir @ ''/daemon.json''"

definition daemon_backup :: string where
  "daemon_backup = daemon_json @ ''.cd-bak''"

definition daemon_marker :: string where
  "daemon_marker = ''===CDDAEMON:''"

definition dquoted :: "string \<Rightarrow> string" where
  "dquoted s = [dquote] @ s @ [dquote]"

definition dump_cmd :: string where
  "dump_cmd = ''for f in '' @ daemon_json @ '' '' @ daemon_dir @ ''/daemon.json.d/*.json; do [ -f '' @ dquoted ''$f''
     @ '' ] && { echo '' @ dquoted (daemon_marker @ ''$f'') @ ''; cat '' @ dquoted ''$f'' @ '' 2>/dev/null; }; done; exit 0''"

section \<open>Reading the configuration\<close>

text \<open>\<^verbatim>\<open>str.splitlines\<close>; the accumulator holds the current line reversed.\<close>

definition line_break :: "char \<Rightarrow> bool" where
  "line_break c = (c = newline \<or> c = carriage_return \<or> c = CHR 0x0B \<or> c = CHR 0x0C \<or> c = CHR 0x1C
     \<or> c = CHR 0x1D \<or> c = CHR 0x1E \<or> c = CHR 0x85)"

fun split_lines :: "string \<Rightarrow> string \<Rightarrow> string list" where
  "split_lines acc [] = (if acc = [] then [] else [rev acc])"
| "split_lines acc [c] = (if line_break c then [rev acc] else [rev (c # acc)])"
| "split_lines acc (c # d # s) =
     (if c = carriage_return \<and> d = newline then rev acc # split_lines [] s
      else if line_break c then rev acc # split_lines [] (d # s)
      else split_lines (c # acc) (d # s))"

text \<open>Sections that start with a marker line; a path that occurs twice keeps its first place and
  its last content.\<close>

fun parse_sections :: "string option \<Rightarrow> string list \<Rightarrow> string list \<Rightarrow> (string \<times> string) list \<Rightarrow> (string \<times> string) list" where
  "parse_sections cur buf [] files =
     (case cur of None \<Rightarrow> files | Some p \<Rightarrow> AList.update p (py_join [newline] buf) files)"
| "parse_sections cur buf (l # ls) files =
     (if starts_with daemon_marker l
      then parse_sections (Some (py_strip (drop (length daemon_marker) l))) [] ls
             (case cur of None \<Rightarrow> files | Some p \<Rightarrow> AList.update p (py_join [newline] buf) files)
      else case cur of None \<Rightarrow> parse_sections cur buf ls files
                     | Some _ \<Rightarrow> parse_sections cur (buf @ [l]) ls files)"

definition parse_daemon_configs :: "string \<Rightarrow> (string \<times> string) list" where
  "parse_daemon_configs dump = parse_sections None [] (split_lines [] dump) []"

text \<open>The host part of \<^verbatim>\<open>host:port\<close>, up to the last colon, without brackets.\<close>

definition strip_brackets :: "string \<Rightarrow> string" where
  "strip_brackets s = rev (dropWhile (\<lambda>c. c \<in> set ''[]'') (rev (dropWhile (\<lambda>c. c \<in> set ''[]'') s)))"

definition host_part :: "string \<Rightarrow> string" where
  "host_part r = (if CHR '':'' \<in> set r then strip_brackets (rev (tl (dropWhile (\<lambda>c. c \<noteq> CHR '':'') (rev r)))) else r)"

definition entry_matches :: "daemon_env \<Rightarrow> string \<Rightarrow> string \<Rightarrow> bool" where
  "entry_matches dm entry registry =
     (let e = py_lower (py_strip entry); r = py_lower (py_strip registry)
      in if e = [] \<or> r = [] then False
         else if e = r then True
         else if CHR ''/'' \<notin> set e then False
         else dm_in_network dm (host_part r) e)"

definition insecure_configured :: "daemon_env \<Rightarrow> (string \<times> string) list \<Rightarrow> string \<Rightarrow> bool" where
  "insecure_configured dm files registry =
     list_ex (\<lambda>(_, text). case dm_json dm text of
        Object (Some entries) \<Rightarrow> list_ex (\<lambda>e. entry_matches dm e registry) entries
      | _ \<Rightarrow> False) files"

definition merged_entries :: "daemon_env \<Rightarrow> string list option \<Rightarrow> string \<Rightarrow> string list" where
  "merged_entries dm entries registry =
     (let kept = (case entries of None \<Rightarrow> [] | Some es \<Rightarrow> es)
      in if list_ex (\<lambda>e. entry_matches dm e registry) kept then kept else kept @ [registry])"

text \<open>The new text of \<^verbatim>\<open>daemon.json\<close>; \<open>None\<close> when the old one is no JSON object.\<close>

definition merge_insecure_entry :: "daemon_env \<Rightarrow> string \<Rightarrow> string \<Rightarrow> string option" where
  "merge_insecure_entry dm text registry =
     (if py_strip text = [] then Some (dm_dump dm [] (merged_entries dm None registry) @ [newline])
      else case dm_json dm text of
             Object entries \<Rightarrow> Some (dm_dump dm text (merged_entries dm entries registry) @ [newline])
           | _ \<Rightarrow> None)"

definition plain_http_signature :: string where
  "plain_http_signature = ''server gave http response to https client''"

definition is_plain_http_registry_error :: "string \<Rightarrow> bool" where
  "is_plain_http_registry_error text = contains_sub plain_http_signature (py_lower text)"

section \<open>The check before a pull\<close>

definition write_cmd :: "string \<Rightarrow> string" where
  "write_cmd merged =
     ''mkdir -p '' @ daemon_dir @ ''; if [ -f '' @ daemon_json @ '' ]; then cp -p '' @ daemon_json @ '' '' @ daemon_backup
     @ ''; fi; printf %s '' @ sh_quote merged @ '' > '' @ daemon_json"

definition reload_cmd :: string where
  "reload_cmd = ''systemctl reload docker 2>&1 || systemctl restart docker 2>&1''"

definition blocked :: "daemon_env \<Rightarrow> string \<Rightarrow> string \<Rightarrow> bool \<Rightarrow> insecure_check" where
  "blocked dm registry reason fixed =
     \<lparr>ic_ok = False, ic_auto_fixed = fixed, ic_detail = dm_guidance dm registry reason\<rparr>"

definition repair_daemon :: "daemon_env \<Rightarrow> machine \<Rightarrow> string \<Rightarrow> string \<Rightarrow> ('r, insecure_check) proc" where
  "repair_daemon dm m registry merged =
     andthen (exec_on m (write_cmd merged)) (\<lambda>(out, err, ec).
       if ec \<noteq> 0 then ret (blocked dm registry (dm_write_failed dm (str_or err out)) False)
       else andthen (exec_on m reload_cmd) (\<lambda>(out2, err2, ec2).
         if ec2 \<noteq> 0 then ret (blocked dm registry (dm_reload_failed dm (str_or err2 out2)) True)
         else ret \<lparr>ic_ok = True, ic_auto_fixed = True, ic_detail = []\<rparr>))"

definition ensure_insecure_registry :: "daemon_env \<Rightarrow> machine \<Rightarrow> string \<Rightarrow> bool \<Rightarrow> ('r, insecure_check) proc" where
  "ensure_insecure_registry dm m registry allow_auto =
     andthen (exec_on m dump_cmd) (\<lambda>(out, _, _).
       let files = parse_daemon_configs out
       in if insecure_configured dm files registry
          then ret \<lparr>ic_ok = True, ic_auto_fixed = False, ic_detail = []\<rparr>
          else if \<not> allow_auto then ret (blocked dm registry [] False)
          else case merge_insecure_entry dm (case map_of files daemon_json of None \<Rightarrow> [] | Some t \<Rightarrow> t) registry of
                 None \<Rightarrow> ret (blocked dm registry (dm_not_json dm) False)
               | Some merged \<Rightarrow> repair_daemon dm m registry merged)"

section \<open>Laws\<close>

lemma spec_repair:
  "P (Exec (write_cmd merged)) \<Longrightarrow> P (Exec reload_cmd) \<Longrightarrow> spec P (\<lambda>_. True) R (repair_daemon dm m registry merged)"
  unfolding repair_daemon_def by (intro spec_bind) (auto split: prod.splits)

lemma spec_ensure:
  assumes "P (Exec dump_cmd)" "auto \<Longrightarrow> (\<forall>x. P (Exec (write_cmd x))) \<and> P (Exec reload_cmd)"
  shows "spec P (\<lambda>_. True) R (ensure_insecure_registry dm m registry auto)"
  unfolding ensure_insecure_registry_def using assms
  by (intro spec_bind) (auto simp: Let_def intro: spec_repair split: prod.splits option.splits)

text \<open>Without the permission to repair, the check only reads.\<close>

lemma check_only_reads: "acts (\<lambda>a. a = Exec dump_cmd) (ensure_insecure_registry dm m registry False)"
  by (rule spec_ensure) simp_all

lemma entry_matches_self: "py_strip r \<noteq> [] \<Longrightarrow> entry_matches dm r r"
  by (simp add: entry_matches_def Let_def)

section \<open>Properties\<close>

text \<open>The merged configuration allows the registry and keeps every entry that was there, in
  order; merging again changes nothing.\<close>

theorem merge_allows_and_keeps:
  assumes "py_strip registry \<noteq> []"
  shows "list_ex (\<lambda>e. entry_matches dm e registry) (merged_entries dm entries registry)
    \<and> (\<exists>more. merged_entries dm entries registry = (case entries of None \<Rightarrow> [] | Some es \<Rightarrow> es) @ more)
    \<and> merged_entries dm (Some (merged_entries dm entries registry)) registry = merged_entries dm entries registry"
  using entry_matches_self [OF assms] by (auto simp: merged_entries_def Let_def split: option.splits)

definition sample_daemon :: daemon_env where
  "sample_daemon = \<lparr>dm_json = (\<lambda>_. NotJson), dm_dump = (\<lambda>_ es. concat es), dm_in_network = (\<lambda>_ _. False),
     dm_guidance = (\<lambda>r _. r), dm_not_json = [], dm_write_failed = (\<lambda>e. e), dm_reload_failed = (\<lambda>e. e)\<rparr>"

theorem merge_allows_and_keeps_witness:
  "merged_entries sample_daemon (Some [''a:1'']) ''hub:5000'' = [''a:1'', ''hub:5000'']
   \<and> list_ex (\<lambda>e. entry_matches sample_daemon e ''hub:5000'') (merged_entries sample_daemon (Some [''a:1'']) ''hub:5000'')"
proof -
  have "py_strip ''hub:5000'' \<noteq> []" by code_simp
  from merge_allows_and_keeps [OF this, of sample_daemon "Some [''a:1'']"]
  have "list_ex (\<lambda>e. entry_matches sample_daemon e ''hub:5000'') (merged_entries sample_daemon (Some [''a:1'']) ''hub:5000'')"
    by blast
  moreover have "merged_entries sample_daemon (Some [''a:1'']) ''hub:5000'' = [''a:1'', ''hub:5000'']" by code_simp
  ultimately show ?thesis by blast
qed

end
