(* ===== verification/Compose.thy ===== *)
theory Compose
  imports InsecureRegistry
begin

text \<open>
  \<^verbatim>\<open>backend/deployers/compose.py\<close>: deployment with docker-compose. The remote mode is
  modelled phase by phase in the order of the code: the path, the YAML, the environment file, the
  registry (plain HTTP, login), the pull with its fallback to Docker Hub, the description of the
  pull, and the start with its verification. Progress messages are left out; the texts outside
  ASCII are parameters.
\<close>

record compose_env =
  ce_machine :: machine
  ce_settings :: settings
  ce_hints :: "string \<times> string"
  ce_daemon :: daemon_env
  ce_no_registry :: string
  ce_run_failed :: string
  ce_upload_failed :: string
  ce_success_mark :: string
  ce_failure_mark :: string

type_synonym 'a cproc = "(deploy_result, 'a) proc"

section \<open>Small steps\<close>

text \<open>\<^verbatim>\<open>_ssh_run\<close>: the output (or the error output), cut; never an exception.\<close>

definition ssh_run :: "compose_env \<Rightarrow> string \<Rightarrow> string cproc" where
  "ssh_run e cmd =
     andthen (exec_caught (ce_machine e) cmd) (\<lambda>r.
       ret (case r of None \<Rightarrow> ce_run_failed e
            | Some (out, err, _) \<Rightarrow> take (nat (log_truncate_chars (ce_settings e))) (str_or out err)))"

definition inspect_cmd :: "string \<Rightarrow> string \<Rightarrow> string" where
  "inspect_cmd img tag = ''docker image inspect '' @ sh_quote (img @ '':'' @ tag)"

definition exists_cmd :: "string \<Rightarrow> string \<Rightarrow> string" where
  "exists_cmd img tag = inspect_cmd img tag @ '' > /dev/null 2>&1 && echo '' @ apostrophed ''EXISTS''
     @ '' || echo '' @ apostrophed ''NOT_FOUND''"

definition image_exists :: "compose_env \<Rightarrow> string \<Rightarrow> string \<Rightarrow> bool cproc" where
  "image_exists e tag img =
     andthen (ssh_run e (exists_cmd img tag)) (\<lambda>out. ret (py_strip out = ''EXISTS''))"

definition manifest_cmd :: "string \<Rightarrow> string \<Rightarrow> string" where
  "manifest_cmd img tag = ''timeout 10 docker manifest inspect '' @ sh_quote (img @ '':'' @ tag)
     @ '' 2>&1 | grep -oE '' @ apostrophed ''sha256:[a-f0-9]{64}'' @ '' | head -1''"

definition remote_manifest_digest :: "compose_env \<Rightarrow> string \<Rightarrow> string \<Rightarrow> string cproc" where
  "remote_manifest_digest e tag img =
     andthen (ssh_run e (manifest_cmd img tag)) (\<lambda>out.
       let d = py_strip out in ret (if starts_with ''sha256:'' d \<and> length d = 71 then d else []))"

definition digests_cmd :: "string \<Rightarrow> string \<Rightarrow> string" where
  "digests_cmd img tag = inspect_cmd img tag @ '' --format '' @ apostrophed ''{{.RepoDigests}}'' @ '' 2>/dev/null''"

definition local_has_digest :: "compose_env \<Rightarrow> string \<Rightarrow> string \<Rightarrow> string \<Rightarrow> bool cproc" where
  "local_has_digest e tag img digest =
     andthen (ssh_run e (digests_cmd img tag)) (\<lambda>out. ret (contains_sub (''@'' @ digest) out))"

definition needs_pull :: "compose_env \<Rightarrow> string \<Rightarrow> string \<Rightarrow> bool cproc" where
  "needs_pull e tag img =
     andthen (image_exists e tag img) (\<lambda>here.
       if \<not> here then ret True
       else andthen (remote_manifest_digest e tag img) (\<lambda>remote.
         if remote = [] then ret True
         else andthen (local_has_digest e tag img remote) (\<lambda>same. ret (\<not> same))))"

section \<open>The path, the YAML and the environment file\<close>

definition path_cmd :: "target \<Rightarrow> string" where
  "path_cmd t = ''test -d '' @ sh_quote (tg_path t) @ '' && echo '' @ apostrophed ''OK''
     @ '' || echo '' @ apostrophed ''NOT_FOUND''"

definition verify_path :: "compose_env \<Rightarrow> target \<Rightarrow> unit cproc" where
  "verify_path e t =
     andthen (ssh_run e (path_cmd t)) (\<lambda>out.
       if py_strip out \<noteq> ''OK'' then stop_with (deploy_failed (''Deploy failed: path not found - '' @ tg_path t)) else ret ())"

definition render_compose :: "string \<Rightarrow> string \<Rightarrow> string \<Rightarrow> string \<Rightarrow> string \<Rightarrow> string" where
  "render_compose yaml img image_name tag project =
     py_replace ''{project}'' project (py_replace ''{tag}'' tag (py_replace ''{image_name}'' image_name
       (py_replace ''{image}'' img yaml)))"

definition mkdir_cmd :: "target \<Rightarrow> string" where
  "mkdir_cmd t = ''mkdir -p '' @ sh_quote (tg_path t)"

definition upload_file :: "compose_env \<Rightarrow> target \<Rightarrow> string \<Rightarrow> string option cproc" where
  "upload_file e t content =
     andthen (exec_caught (ce_machine e) (mkdir_cmd t)) (\<lambda>r.
       case r of None \<Rightarrow> ret (Some (ce_upload_failed e))
       | Some _ \<Rightarrow> andthen (upload (ce_machine e) (tg_path t @ ''/docker-compose.yml'') content) (\<lambda>u.
           ret (map_option (\<lambda>_. ce_upload_failed e) u)))"

definition upload_yaml :: "compose_env \<Rightarrow> target \<Rightarrow> string \<Rightarrow> string \<Rightarrow> string \<Rightarrow> string \<Rightarrow> unit cproc" where
  "upload_yaml e t img image_name project tag =
     (let yaml = or_empty (o_yaml (tg_options t))
      in if yaml = [] then ret ()
         else andthen (upload_file e t (render_compose yaml img image_name tag project)) (\<lambda>err.
           case err of None \<Rightarrow> ret () | Some x \<Rightarrow> stop_with (deploy_failed (''YAML upload failed: '' @ x))))"

definition env_file_of :: "target \<Rightarrow> string" where
  "env_file_of t = str_or (or_empty (o_env_file (tg_options t))) ''.env''"

definition env_flag :: "target \<Rightarrow> string" where
  "env_flag t = (let f = or_empty (o_env_file (tg_options t)) in if f = [] then [] else ''--env-file '' @ sh_quote f)"

definition env_payload :: "string \<Rightarrow> string \<Rightarrow> string" where
  "env_payload image_ref tag = ''IMAGE='' @ image_ref @ [newline] @ ''TAG='' @ tag @ [newline]"

definition rewrite_env_cmd :: "target \<Rightarrow> string \<Rightarrow> string \<Rightarrow> string" where
  "rewrite_env_cmd t tag image_ref =
     (let p = sh_quote (tg_path t); f = sh_quote (env_file_of t)
      in ''cd '' @ p @ '' && touch '' @ f @ '' && (grep -v -e '' @ apostrophed ''^IMAGE='' @ '' -e '' @ apostrophed ''^TAG=''
         @ '' '' @ f @ '' 2>/dev/null || true) > '' @ f @ ''.tmp && printf %s '' @ sh_quote (env_payload image_ref tag)
         @ '' >> '' @ f @ ''.tmp && mv '' @ f @ ''.tmp '' @ f)"

definition cat_env_cmd :: "target \<Rightarrow> string" where
  "cat_env_cmd t = ''cd '' @ sh_quote (tg_path t) @ '' && cat '' @ sh_quote (env_file_of t)"

definition write_env :: "compose_env \<Rightarrow> target \<Rightarrow> string \<Rightarrow> string \<Rightarrow> unit cproc" where
  "write_env e t image_name tag =
     andthen (ssh_run e (rewrite_env_cmd t tag image_name)) (\<lambda>_.
     andthen (exec_on (ce_machine e) (cat_env_cmd t)) (\<lambda>(out, _, _).
       if \<not> contains_sub image_name out \<or> \<not> contains_sub tag out
       then stop_with (deploy_failed (''.env write failed:'' @ [newline] @ out)) else ret ()))"

section \<open>The registry\<close>

definition has_creds :: "compose_env \<Rightarrow> bool" where
  "has_creds e = (registry_user (ce_settings e) \<noteq> [] \<and> registry_password (ce_settings e) \<noteq> [])"

definition is_private :: "string \<Rightarrow> string \<Rightarrow> bool" where
  "is_private registry image_name = (registry \<noteq> [] \<and> starts_with (registry @ ''/'') image_name)"

definition hub_image :: "string \<Rightarrow> string \<Rightarrow> string" where
  "hub_image registry image_name =
     (if is_private registry image_name then drop (length registry + 1) image_name else image_name)"

definition blocked_text :: "string \<Rightarrow> string \<Rightarrow> string" where
  "blocked_text registry detail = ''Registry '' @ registry @ '' is declared as plain HTTP by the Glue contract (registry_url ''
     @ ''starts with http://) and the target docker daemon does not allow it.'' @ [newline, newline] @ detail"

definition allow_plain_http :: "compose_env \<Rightarrow> string \<Rightarrow> string \<Rightarrow> unit cproc" where
  "allow_plain_http e registry image_name =
     (if is_private registry image_name \<and> registry_is_insecure (ce_hints e)
      then andthen (ensure_insecure_registry (ce_daemon e) (ce_machine e) registry (registry_insecure_auto (ce_settings e)))
             (\<lambda>check. if \<not> ic_ok check then stop_with (deploy_failed (blocked_text registry (ic_detail check))) else ret ())
      else ret ())"

definition login_cmd :: "compose_env \<Rightarrow> string \<Rightarrow> string" where
  "login_cmd e registry = ''echo '' @ sh_quote (registry_password (ce_settings e)) @ '' | docker login '' @ sh_quote registry
     @ '' -u '' @ sh_quote (registry_user (ce_settings e)) @ '' --password-stdin 2>&1''"

text \<open>A failed login is only reported.\<close>

definition login :: "compose_env \<Rightarrow> string \<Rightarrow> string \<Rightarrow> unit cproc" where
  "login e registry image_name =
     (if is_private registry image_name \<and> has_creds e
      then andthen (ssh_run e (login_cmd e registry)) (\<lambda>_. ret ()) else ret ())"

section \<open>The pull\<close>

definition pull_cmd :: "target \<Rightarrow> string \<Rightarrow> string" where
  "pull_cmd t short = ''cd '' @ sh_quote (tg_path t) @ '' && COLUMNS=512 timeout 600 docker-compose pull ''
     @ sh_quote short @ '' 2>&1''"

definition pull_if_needed :: "compose_env \<Rightarrow> target \<Rightarrow> string \<Rightarrow> string \<Rightarrow> string \<Rightarrow> string option cproc" where
  "pull_if_needed e t short tag img =
     andthen (needs_pull e tag img) (\<lambda>need.
       if need then andthen (exec_stream (ce_machine e) (pull_cmd t short)) (\<lambda>(out, _). ret (Some out)) else ret None)"

definition text_of :: "string option \<Rightarrow> string" where
  "text_of x = (case x of None \<Rightarrow> [] | Some s \<Rightarrow> s)"

definition hub_fallback :: "compose_env \<Rightarrow> target \<Rightarrow> string \<Rightarrow> string \<Rightarrow> string \<Rightarrow> string \<Rightarrow> string cproc" where
  "hub_fallback e t short tag dh pull_text =
     andthen (ssh_run e (rewrite_env_cmd t tag dh)) (\<lambda>_.
     andthen (pull_if_needed e t short tag dh) (\<lambda>p.
       let text = (case p of None \<Rightarrow> pull_text | Some x \<Rightarrow> pull_text @ [newline] @ x)
       in andthen (image_exists e tag dh) (\<lambda>ok.
         if ok then ret text
         else stop_with (deploy_failed (''Image pull failed (both private registry and Docker Hub):'' @ [newline, newline] @ text)))))"

text \<open>The image of the target service: pulled from the registry, else, unless the registry is a
  plain-HTTP one the daemon refuses, under its name on Docker Hub.\<close>

definition fetch_image :: "compose_env \<Rightarrow> target \<Rightarrow> string \<Rightarrow> string \<Rightarrow> string \<Rightarrow> string \<Rightarrow> string cproc" where
  "fetch_image e t registry short tag image_name =
     andthen (pull_if_needed e t short tag image_name) (\<lambda>p.
       let pull_text = text_of p
       in andthen (image_exists e tag image_name) (\<lambda>ok.
         if ok then ret pull_text
         else if is_private registry image_name \<and> is_plain_http_registry_error pull_text
         then stop_with (deploy_failed (''Image pull failed: registry '' @ registry
                @ '' is plain HTTP but not allowed by the target docker daemon (no Docker Hub fallback for this failure).''
                @ [newline, newline] @ pull_text @ [newline, newline] @ dm_guidance (ce_daemon e) registry []))
         else if is_private registry image_name
         then hub_fallback e t short tag (hub_image registry image_name) pull_text
         else stop_with (deploy_failed (''Image pull failed:'' @ [newline, newline] @ pull_text))))"

section \<open>The description of the pull\<close>

definition format_cmd :: "string \<Rightarrow> string \<Rightarrow> string" where
  "format_cmd field img = ''docker image inspect --format '' @ apostrophed (''{{index .'' @ field @ '' 0}}'') @ '' ''
     @ sh_quote img @ '' 2>/dev/null''"

text \<open>Digest and full name, both best effort: the first exception ends the attempt.\<close>

definition describe_image :: "compose_env \<Rightarrow> string \<Rightarrow> string \<Rightarrow> string \<Rightarrow> (string \<times> string) cproc" where
  "describe_image e tag dh image_name =
     andthen (image_exists e tag dh) (\<lambda>hub.
       let img = (if hub then dh else image_name)
       in andthen (exec_caught (ce_machine e) (format_cmd ''RepoDigests'' img)) (\<lambda>d.
         case d of None \<Rightarrow> ret ([], [])
         | Some (dig, _, _) \<Rightarrow>
             andthen (exec_caught (ce_machine e) (format_cmd ''RepoTags'' img)) (\<lambda>f.
               ret (py_strip dig, case f of None \<Rightarrow> [] | Some (full, _, _) \<Rightarrow> py_strip full))))"

definition summarize_pull :: "string \<Rightarrow> string \<Rightarrow> string \<Rightarrow> string" where
  "summarize_pull pull_text digest status =
     py_join [newline]
       ((if digest = [] then [] else [''Digest: '' @ digest]) @
        (if status = [] then [] else [''Status: Downloaded newer image for '' @ status]) @
        filter (\<lambda>l. py_strip l \<noteq> [] \<and> \<not> contains_sub ''digest:'' (py_lower l) \<and> \<not> contains_sub ''status:'' (py_lower l))
          (split_on newline pull_text))"

section \<open>Start and verification\<close>

definition version_cmd :: "target \<Rightarrow> string \<Rightarrow> string" where
  "version_cmd t short = ''cd '' @ sh_quote (tg_path t) @ '' && docker-compose ps -q 2>/dev/null | xargs docker inspect --format ''
     @ apostrophed ''{{.Name}} {{.Config.Image}}'' @ '' 2>/dev/null | grep -F -- '' @ sh_quote short"

definition ps_cmd :: "string \<Rightarrow> string" where
  "ps_cmd short = ''docker ps --format '' @ apostrophed ''{{.Names}} {{.Image}}'' @ '' 2>/dev/null | grep -F -- '' @ sh_quote short"

definition up_cmd :: "target \<Rightarrow> string \<Rightarrow> string" where
  "up_cmd t short = ''cd '' @ sh_quote (tg_path t) @ '' && docker-compose '' @ env_flag t
     @ '' up -d --force-recreate '' @ sh_quote short @ '' 2>&1''"

definition running_version :: "compose_env \<Rightarrow> target \<Rightarrow> string \<Rightarrow> string cproc" where
  "running_version e t short =
     andthen (ssh_run e (version_cmd t short)) (\<lambda>out.
       if py_strip out = [] then ssh_run e (ps_cmd short) else ret out)"

definition none_text :: "string \<Rightarrow> string" where
  "none_text s = str_or s ''(none)''"

definition up_words :: "string list" where
  "up_words = [''up'', ''starting'', ''started'', ''created'']"

definition verdict :: "compose_env \<Rightarrow> string \<Rightarrow> string \<Rightarrow> string \<Rightarrow> string \<Rightarrow> int \<Rightarrow> string \<Rightarrow> deploy_result" where
  "verdict e tag summary prior deploy_text up_ec running =
     (let nl2 = [newline, newline];
          head = ''Before version:'' @ [newline] @ none_text prior @ nl2 @ ''Deploy output:'' @ [newline] @ deploy_text @ nl2
            @ ''After version:''
      in if up_ec = 0 \<and> running \<noteq> [] \<and> contains_sub tag running
         then \<lparr>dr_status = ''ok'', dr_output = ''Pull output:'' @ [newline] @ summary @ [newline] @ ''---'' @ [newline] @ head
                 @ [newline] @ running @ nl2 @ ''Verification: '' @ ce_success_mark e @ '' Deploy succeeded!''\<rparr>
         else deploy_failed (head @
           (if py_strip running = []
            then '' (no running container)'' @ nl2 @ ''Verification: '' @ ce_failure_mark e @ '' Deploy failed! (container not started)''
            else if \<not> list_ex (\<lambda>w. contains_sub w (py_lower deploy_text)) up_words
            then [newline] @ none_text running @ nl2 @ ''Verification: '' @ ce_failure_mark e @ '' Deploy failed!''
            else [newline] @ running @ nl2 @ ''Verification: '' @ ce_failure_mark e @ '' Deploy failed! (version mismatch)'')))"

definition start_service :: "compose_env \<Rightarrow> target \<Rightarrow> string \<Rightarrow> string \<Rightarrow> string \<Rightarrow> deploy_result cproc" where
  "start_service e t short tag summary =
     andthen (ssh_run e (version_cmd t short)) (\<lambda>prior.
     andthen (retry_proc (exec_stream (ce_machine e) (up_cmd t short)) (nat (deploy_retry_attempts (ce_settings e))) None)
       (\<lambda>(deploy_text, up_ec).
     andthen (ssh_run e ''sleep 3'') (\<lambda>_.
     andthen (running_version e t short) (\<lambda>running.
       ret (verdict e tag summary prior deploy_text up_ec running)))))"

section \<open>The strategy\<close>

text \<open>Everything up to the image on the machine; the result is the registry and the pull output.\<close>

definition fetch_flow :: "compose_env \<Rightarrow> target \<Rightarrow> string \<Rightarrow> string \<Rightarrow> string \<Rightarrow> (string \<times> string) cproc" where
  "fetch_flow e t img project tag =
     (let image_name = fst (split_image_ref img)
      in andthen (verify_path e t) (\<lambda>_.
         andthen (upload_yaml e t img image_name project tag) (\<lambda>_.
         andthen (write_env e t image_name tag) (\<lambda>_.
           case registry_base_url (ce_hints e) of
             Inl _ \<Rightarrow> crash (ce_no_registry e)
           | Inr registry \<Rightarrow>
               andthen (allow_plain_http e registry image_name) (\<lambda>_.
               andthen (login e registry image_name) (\<lambda>_.
               andthen (fetch_image e t registry (last (split_on (CHR ''/'') project)) tag image_name) (\<lambda>pull_text.
                 ret (registry, pull_text))))))))"

definition remote_flow :: "compose_env \<Rightarrow> target \<Rightarrow> string \<Rightarrow> string \<Rightarrow> string \<Rightarrow> deploy_result cproc" where
  "remote_flow e t img project tag =
     (let image_name = fst (split_image_ref img)
      in andthen (fetch_flow e t img project tag) (\<lambda>(registry, pull_text).
         andthen (describe_image e tag (hub_image registry image_name) image_name) (\<lambda>(digest, status).
           start_service e t (last (split_on (CHR ''/'') project)) tag (summarize_pull pull_text digest status))))"

definition commands_flow :: "compose_env \<Rightarrow> string \<Rightarrow> deploy_result cproc" where
  "commands_flow e cmd =
     andthen (exec_stream (ce_machine e) cmd) (\<lambda>(out, code).
       ret \<lparr>dr_status = (if code = 0 then ''ok'' else ''failed''), dr_output = out\<rparr>)"

text \<open>The connection around a flow: exceptions become a failed result, a cancellation passes.\<close>

definition in_session :: "machine \<Rightarrow> deploy_result cproc \<Rightarrow> deploy_result result \<times> action list" where
  "in_session m p =
     (case mc_connect m of
        Some err \<Rightarrow> (Inr (deploy_failed err), [])
      | None \<Rightarrow>
          (case p [] of
             (Go r, tr) \<Rightarrow> (Inr r, tr)
           | (Stop r, tr) \<Rightarrow> (Inr r, tr)
           | (Crash err, tr) \<Rightarrow> (Inr (deploy_failed err), tr)
           | (Abort, tr) \<Rightarrow> (Inl DeployCancelled, tr)))"

definition compose_deploy :: "compose_env \<Rightarrow> target \<Rightarrow> string \<Rightarrow> string \<Rightarrow> string \<Rightarrow> deploy_result result \<times> action list" where
  "compose_deploy e t img project tag =
     (if tg_host t = [] then (Inr (deploy_failed ''Missing target host''), [])
      else case validate_tag tag of
             Inl x \<Rightarrow> (Inl x, [])
           | Inr _ \<Rightarrow>
               if tg_mode t = ''commands''
               then (let template = or_empty (o_commands (tg_options t))
                     in if template = [] then (Inr (deploy_failed ''Missing custom commands''), [])
                        else in_session (ce_machine e)
                               (commands_flow e (expand_template template img (fst (split_image_ref img)) project tag)))
               else if tg_path t = [] then (Inr (deploy_failed ''Missing compose path''), [])
               else in_session (ce_machine e) (remote_flow e t img project tag))"

definition down_cmd :: "string \<Rightarrow> string" where
  "down_cmd path = ''cd '' @ sh_quote path @ '' && docker-compose down''"

definition compose_stop :: "compose_env \<Rightarrow> string \<Rightarrow> bool \<times> string" where
  "compose_stop e path =
     (if path = [] then (False, ''Compose stop: missing target_path'')
      else case mc_connect (ce_machine e) of
             Some _ \<Rightarrow> (False, ''Stop service failed, please contact administrator'')
           | None \<Rightarrow>
               (case mc_exec (ce_machine e) [] (down_cmd path) of
                  Inl _ \<Rightarrow> (False, ''Stop service failed, please contact administrator'')
                | Inr (out, err, code) \<Rightarrow>
                    (code = 0, take (nat (log_truncate_chars (ce_settings e))) (str_or (py_strip out) (py_strip err)))))"

section \<open>Laws\<close>

lemma spec_run [simp]: "P (Exec cmd) \<Longrightarrow> spec P (\<lambda>_. True) R (ssh_run e cmd)"
  unfolding ssh_run_def by (intro spec_bind) auto

lemma spec_exists [simp]: "P (Exec (exists_cmd img tag)) \<Longrightarrow> spec P (\<lambda>_. True) R (image_exists e tag img)"
  unfolding image_exists_def by (intro spec_bind) auto

lemma ssh_run_go: "\<exists>out. ssh_run e cmd tr = (Go out, tr @ [Exec cmd])"
  by (auto simp: ssh_run_def andthen_def exec_caught_def ret_def split: sum.splits)

text \<open>What a machine answers to the question whether an image is there.\<close>

definition says_exists :: "compose_env \<Rightarrow> string \<Rightarrow> string \<Rightarrow> action list \<Rightarrow> bool" where
  "says_exists e tag img tr = (fst (image_exists e tag img tr) = Go True)"

lemma image_exists_run: "image_exists e tag img tr = (Go (says_exists e tag img tr), tr @ [Exec (exists_cmd img tag)])"
  using ssh_run_go [of e "exists_cmd img tag" tr]
  by (auto simp: says_exists_def image_exists_def ret_def)

lemma spec_needs_pull:
  "P (Exec (exists_cmd img tag)) \<Longrightarrow> P (Exec (manifest_cmd img tag)) \<Longrightarrow> P (Exec (digests_cmd img tag)) \<Longrightarrow>
   spec P (\<lambda>_. True) R (needs_pull e tag img)"
  unfolding needs_pull_def remote_manifest_digest_def local_has_digest_def
  by (auto intro!: spec_bind simp: Let_def)

lemma failed_not_ok [simp]: "dr_status (deploy_failed x) \<noteq> ''ok''"
  by (simp add: deploy_failed_def)

text \<open>An early return of the strategy is a failure.\<close>

abbreviation fails :: "(action \<Rightarrow> bool) \<Rightarrow> ('a \<Rightarrow> bool) \<Rightarrow> 'a cproc \<Rightarrow> bool" where
  "fails P Q p \<equiv> spec P Q (\<lambda>r. dr_status r \<noteq> ''ok'') p"

lemma fails_verify: "P (Exec (path_cmd t)) \<Longrightarrow> fails P (\<lambda>_. True) (verify_path e t)"
  unfolding verify_path_def by (auto intro!: spec_bind)

lemma fails_upload_yaml:
  "P (Exec (mkdir_cmd t)) \<Longrightarrow> (\<And>x y. P (Upload x y)) \<Longrightarrow> fails P (\<lambda>_. True) (upload_yaml e t img image_name project tag)"
  unfolding upload_yaml_def upload_file_def by (auto intro!: spec_bind simp: Let_def split: option.splits)

lemma fails_write_env:
  "P (Exec (rewrite_env_cmd t tag image_name)) \<Longrightarrow> P (Exec (cat_env_cmd t)) \<Longrightarrow>
   fails P (\<lambda>_. True) (write_env e t image_name tag)"
  unfolding write_env_def by (auto intro!: spec_bind split: prod.splits)

lemma fails_login: "P (Exec (login_cmd e registry)) \<Longrightarrow> fails P (\<lambda>_. True) (login e registry image_name)"
  unfolding login_def by (auto intro!: spec_bind)

lemma fails_allow:
  "P (Exec dump_cmd) \<Longrightarrow> (\<And>x. P (Exec (write_cmd x))) \<Longrightarrow> P (Exec reload_cmd) \<Longrightarrow>
   fails P (\<lambda>_. True) (allow_plain_http e registry image_name)"
  unfolding allow_plain_http_def by (auto intro!: spec_bind spec_ensure)

text \<open>Pulling streams the pull command only.\<close>

definition no_stream_but :: "string \<Rightarrow> action \<Rightarrow> bool" where
  "no_stream_but cmd a = (\<forall>c. a = Stream c \<longrightarrow> c = cmd)"

lemma no_stream_but_simps [simp]:
  "no_stream_but cmd (Exec c)" "no_stream_but cmd (Upload p x)" "no_stream_but cmd (Stream c) \<longleftrightarrow> c = cmd"
  by (auto simp: no_stream_but_def)

lemma spec_pull:
  "P (Exec (exists_cmd img tag)) \<Longrightarrow> P (Exec (manifest_cmd img tag)) \<Longrightarrow> P (Exec (digests_cmd img tag)) \<Longrightarrow>
   P (Stream (pull_cmd t short)) \<Longrightarrow> spec P (\<lambda>_. True) R (pull_if_needed e t short tag img)"
  unfolding pull_if_needed_def by (auto intro!: spec_bind spec_needs_pull split: prod.splits)

lemma fails_fetch:
  "fails (no_stream_but (pull_cmd t short)) (\<lambda>_. True) (fetch_image e t registry short tag image_name)"
  unfolding fetch_image_def hub_fallback_def
  by (auto simp: Let_def intro!: spec_bind spec_pull split: option.splits)

lemma pull_up_distinct: "pull_cmd t short \<noteq> up_cmd t short"
  by (simp add: pull_cmd_def up_cmd_def)

lemma fetch_ends_with_check:
  assumes "fetch_image e t registry short tag image_name tr = (Go x, tr')"
  shows "\<exists>pre img. tr' = pre @ [Exec (exists_cmd img tag)] \<and> says_exists e tag img pre \<and>
    (img = image_name \<or> is_private registry image_name \<and> img = hub_image registry image_name)"
  using assms unfolding fetch_image_def hub_fallback_def
  apply (auto elim!: andthen_cases simp: Let_def image_exists_run ret_def stop_with_def split: if_splits)
   apply (rule exI [of _ image_name], simp)
  apply (rule exI [of _ "hub_image registry image_name"], simp)
  done

text \<open>A run of a sequence that contains an action its first part never does passes its first
  part with a value.\<close>

lemma action_in_second:
  assumes "andthen p f tr = (r, tr')" "spec P Q R p" "\<not> P a" "a \<in> set tr'" "a \<notin> set tr"
  obtains x tr1 where "p tr = (Go x, tr1)" "f x tr1 = (r, tr')" "a \<notin> set tr1"
proof -
  obtain new where n: "snd (p tr) = tr @ new" "list_all P new" using spec_new [OF assms(2)] by blast
  then have "a \<notin> set (snd (p tr))" using assms(3,5) by (auto simp: list_all_iff)
  then have none: "a \<notin> set tr'" if "snd (p tr) = tr'" using that by simp
  show ?thesis using assms(1)
  proof (cases rule: andthen_cases)
    case (1 x tr1)
    then show ?thesis using that \<open>a \<notin> set (snd (p tr))\<close> by simp
  qed (use none assms(4) in simp_all)
qed

lemma fails_fetch_flow:
  "fails (no_stream_but (pull_cmd t (last (split_on (CHR ''/'') project)))) (\<lambda>_. True) (fetch_flow e t img project tag)"
  unfolding fetch_flow_def Let_def
  by (intro spec_bind fails_verify fails_upload_yaml fails_write_env no_stream_but_simps)
    (auto split: sum.splits intro!: spec_bind fails_fetch fails_allow fails_login)

lemma fetch_flow_ends:
  assumes "fetch_flow e t img project tag tr = (Go (registry, ptxt), tr')"
  shows "registry_base_url (ce_hints e) = Inr registry \<and> (\<exists>pre image. tr' = pre @ [Exec (exists_cmd image tag)] \<and>
    says_exists e tag image pre \<and> image \<in> {fst (split_image_ref img), hub_image registry (fst (split_image_ref img))})"
proof -
  let ?name = "fst (split_image_ref img)"
  have "registry_base_url (ce_hints e) = Inr registry \<and>
      (\<exists>tr0. fetch_image e t registry (last (split_on (CHR ''/'') project)) tag ?name tr0 = (Go ptxt, tr'))"
    using assms unfolding fetch_flow_def Let_def
    by (auto elim!: andthen_cases simp: ret_def crash_def split: sum.splits)
  then show ?thesis using fetch_ends_with_check by blast
qed

lemma in_session_trace:
  "snd (in_session m p) = (case mc_connect m of Some _ \<Rightarrow> [] | None \<Rightarrow> snd (p []))"
  by (auto simp: in_session_def split: option.splits prod.splits flow.splits)

lemma compose_remote_trace:
  assumes "a \<in> set (snd (compose_deploy e t img project tag))" "tg_mode t \<noteq> ''commands''"
  shows "snd (compose_deploy e t img project tag) = snd (remote_flow e t img project tag [])"
  using assms by (auto simp: compose_deploy_def in_session_trace split: if_splits sum.splits option.splits)

lemma rewrite_inject: "rewrite_env_cmd t tag a = rewrite_env_cmd t tag b \<longleftrightarrow> a = b"
  by (simp add: rewrite_env_cmd_def Let_def env_payload_def)

text \<open>No other command is one that rewrites the environment file.\<close>

lemma rewrite_distinct:
  "rewrite_env_cmd t tag x \<noteq> path_cmd t" "rewrite_env_cmd t tag x \<noteq> mkdir_cmd t" "rewrite_env_cmd t tag x \<noteq> cat_env_cmd t"
  "rewrite_env_cmd t tag x \<noteq> login_cmd e r" "rewrite_env_cmd t tag x \<noteq> dump_cmd" "rewrite_env_cmd t tag x \<noteq> write_cmd m"
  "rewrite_env_cmd t tag x \<noteq> reload_cmd" "rewrite_env_cmd t tag x \<noteq> exists_cmd i g" "rewrite_env_cmd t tag x \<noteq> manifest_cmd i g"
  "rewrite_env_cmd t tag x \<noteq> digests_cmd i g"
  by (simp_all add: rewrite_env_cmd_def path_cmd_def mkdir_cmd_def cat_env_cmd_def login_cmd_def dump_cmd_def write_cmd_def
      reload_cmd_def exists_cmd_def manifest_cmd_def digests_cmd_def inspect_cmd_def Let_def)

lemmas distinct_cmds [simp] = rewrite_distinct rewrite_distinct [symmetric] pull_up_distinct pull_up_distinct [symmetric]

text \<open>Nothing started, nothing taken from Docker Hub.\<close>

definition harmless :: "target \<Rightarrow> string \<Rightarrow> string \<Rightarrow> string \<Rightarrow> action \<Rightarrow> bool" where
  "harmless t short tag dh a = (a \<noteq> Stream (up_cmd t short) \<and> a \<noteq> Exec (rewrite_env_cmd t tag dh))"

lemma harmless_simps [simp]:
  "harmless t short tag dh (Exec c) \<longleftrightarrow> c \<noteq> rewrite_env_cmd t tag dh" "harmless t short tag dh (Upload p y)"
  "harmless t short tag dh (Stream c) \<longleftrightarrow> c \<noteq> up_cmd t short"
  by (auto simp: harmless_def)

lemma hub_image_other:
  assumes "is_private registry image_name"
  shows "rewrite_env_cmd t tag image_name \<noteq> rewrite_env_cmd t tag (hub_image registry image_name)"
proof -
  from assms have "registry \<noteq> []" "length registry < length image_name"
    by (auto simp: is_private_def starts_with_def dest!: arg_cong [where f = length] split: if_splits)
  then have "length (hub_image registry image_name) < length image_name"
    using assms by (simp add: hub_image_def)
  then show ?thesis by (auto simp: rewrite_inject)
qed

text \<open>What the pull of an image that is not on the machine gives: the text of the pull.\<close>

lemma needs_pull_absent:
  "\<not> says_exists e tag img tr \<Longrightarrow> needs_pull e tag img tr = (Go True, tr @ [Exec (exists_cmd img tag)])"
  by (simp add: needs_pull_def image_exists_run ret_def)

lemma pull_absent:
  assumes "\<And>pre. \<not> says_exists e tag img pre"
    and "\<And>pre s out code. mc_stream (ce_machine e) pre (pull_cmd t short) = Inr s \<Longrightarrow>
      ssh_exec_stream s = Inr (out, code) \<Longrightarrow> Q out"
  shows "spec (harmless t short tag dh) (\<lambda>p. Q (text_of p)) R (pull_if_needed e t short tag img)"
  unfolding spec_def pull_if_needed_def
  using assms needs_pull_absent [of e tag img]
  by (auto simp: andthen_def exec_stream_def ret_def text_of_def split: sum.splits)

lemma fetch_refused:
  assumes "is_private registry name" "\<And>pre. \<not> says_exists e tag name pre"
    and "\<And>pre s out code. mc_stream (ce_machine e) pre (pull_cmd t short) = Inr s \<Longrightarrow>
      ssh_exec_stream s = Inr (out, code) \<Longrightarrow> is_plain_http_registry_error out"
  shows "fails (harmless t short tag dh) (\<lambda>_. False) (fetch_image e t registry short tag name)"
  unfolding fetch_image_def Let_def
proof (rule spec_andthen [OF pull_absent [where Q = is_plain_http_registry_error, OF assms(2,3)]])
  fix p assume refused: "is_plain_http_registry_error (text_of p)"
  show "fails (harmless t short tag dh) (\<lambda>_. False) (andthen (image_exists e tag name) (\<lambda>ok.
      if ok then ret (text_of p)
      else if is_private registry name \<and> is_plain_http_registry_error (text_of p) then stop_with (deploy_failed (''Image pull failed: registry '' @ registry
                @ '' is plain HTTP but not allowed by the target docker daemon (no Docker Hub fallback for this failure).''
                @ [newline, newline] @ text_of p @ [newline, newline] @ dm_guidance (ce_daemon e) registry []))
      else if is_private registry name then hub_fallback e t short tag (hub_image registry name) (text_of p)
      else stop_with (deploy_failed (''Image pull failed:'' @ [newline, newline] @ text_of p))))"
    by (rule spec_andthen [where Q = Not]) (use assms(1,2) refused in \<open>auto simp: spec_def image_exists_run stop_with_def\<close>)
qed

lemma remote_dead:
  assumes "registry_base_url (ce_hints e) = Inr registry" "is_private registry (fst (split_image_ref img))"
    and "fails (harmless t short tag dh) (\<lambda>_. False) (fetch_image e t registry short tag (fst (split_image_ref img)))"
    and "short = last (split_on (CHR ''/'') project)" "dh = hub_image registry (fst (split_image_ref img))"
  shows "fails (harmless t short tag dh) (\<lambda>_. False) (remote_flow e t img project tag)"
  unfolding remote_flow_def Let_def
proof (rule spec_dead_first)
  show "fails (harmless t short tag dh) (\<lambda>_. False) (fetch_flow e t img project tag)"
    unfolding fetch_flow_def Let_def assms(1) sum.case
    using assms(3) hub_image_other [OF assms(2)] unfolding assms(4,5)
    by (intro spec_bind fails_verify fails_upload_yaml fails_write_env fails_allow fails_login spec_dead_first) auto
qed

text \<open>A machine whose registry speaks plain HTTP: a pull prints its signature. \<open>present\<close> says
  whether the image is there already.\<close>

definition sample_host :: "bool \<Rightarrow> machine" where
  "sample_host present = \<lparr>mc_connect = None,
     mc_exec = (\<lambda>_ cmd. Inr (if starts_with ''test'' cmd then ''OK'' else if starts_with ''docker image inspect'' cmd \<and> present
        then ''EXISTS'' else ''h/g/web:v1'', [], 0)),
     mc_stream = (\<lambda>_ _. Inr \<lparr>sm_polls = [\<lparr>po_cancel = False, po_out = Some plain_http_signature, po_err = None\<rparr>],
        sm_exit = Some 0, sm_residual = []\<rparr>),
     mc_upload = (\<lambda>_ _ _. None), mc_fetch = (\<lambda>_ _. Inl []), mc_cancelled = (\<lambda>_. False)\<rparr>"

definition sample_compose :: "bool \<Rightarrow> compose_env" where
  "sample_compose present = \<lparr>ce_machine = sample_host present, ce_settings = default_settings\<lparr>log_truncate_chars := 50\<rparr>,
     ce_hints = (''harbor'', ''h''), ce_daemon = sample_daemon, ce_no_registry = [], ce_run_failed = [], ce_upload_failed = [],
     ce_success_mark = [], ce_failure_mark = []\<rparr>"

section \<open>Properties\<close>

text \<open>In the remote mode the service is only (re)started after its image was seen on the
  machine: before the first start command the machine has answered that the image of the
  registry, or for a private one its namesake on Docker Hub, exists.\<close>

theorem start_needs_image:
  assumes "Stream (up_cmd t (last (split_on (CHR ''/'') project))) \<in> set (snd (compose_deploy e t img project tag))"
    and "tg_mode t \<noteq> ''commands''"
  shows "\<exists>registry pre post image. registry_base_url (ce_hints e) = Inr registry
    \<and> snd (compose_deploy e t img project tag) = pre @ Exec (exists_cmd image tag) # post
    \<and> Stream (up_cmd t (last (split_on (CHR ''/'') project))) \<notin> set pre
    \<and> says_exists e tag image pre
    \<and> image \<in> {fst (split_image_ref img), hub_image registry (fst (split_image_ref img))}"
proof -
  let ?short = "last (split_on (CHR ''/'') project)"
  let ?up = "Stream (up_cmd t ?short)"
  let ?rest = "\<lambda>(registry, pull_text). andthen (describe_image e tag (hub_image registry (fst (split_image_ref img)))
      (fst (split_image_ref img))) (\<lambda>(digest, status). start_service e t ?short tag (summarize_pull pull_text digest status))"
  obtain r tr where run: "remote_flow e t img project tag [] = (r, tr)" by fastforce
  then have tr: "snd (compose_deploy e t img project tag) = tr" using compose_remote_trace [OF assms] by simp
  have run1: "andthen (fetch_flow e t img project tag) ?rest [] = (r, tr)"
    using run by (simp add: remote_flow_def Let_def)
  have no: "\<not> no_stream_but (pull_cmd t ?short) ?up"
    using pull_up_distinct [of t ?short, symmetric] by simp
  have up: "?up \<in> set tr" "?up \<notin> set []" using assms(1) tr by simp_all
  obtain x tr1 where x: "fetch_flow e t img project tag [] = (Go x, tr1)" "?rest x tr1 = (r, tr)" "?up \<notin> set tr1"
    using run1 fails_fetch_flow no up by (rule action_in_second)
  obtain registry ptxt where p: "x = (registry, ptxt)" by (cases x)
  obtain pre image where pre: "registry_base_url (ce_hints e) = Inr registry" "tr1 = pre @ [Exec (exists_cmd image tag)]"
      "says_exists e tag image pre" "image \<in> {fst (split_image_ref img), hub_image registry (fst (split_image_ref img))}"
    using fetch_flow_ends x(1) unfolding p by blast
  have "acts (\<lambda>_. True) (?rest x)"
    unfolding p by (auto simp: start_service_def running_version_def describe_image_def Let_def
        intro!: spec_bind spec_retry split: option.splits prod.splits)
  then obtain post where "tr = tr1 @ post" using x(2) specD [of _ _ _ "?rest x" tr1] by (metis snd_conv)
  then show ?thesis unfolding tr using pre x(3) by auto
qed

definition remote_target :: target where
  "remote_target = sample_target\<lparr>tg_mode := ''remote'', tg_path := ''/a''\<rparr>"

theorem start_needs_image_witness:
  "\<exists>pre post image. snd (compose_deploy (sample_compose True) remote_target ''h/g/web:v1'' ''g/web'' ''v1'') =
     pre @ Exec (exists_cmd image ''v1'') # post \<and> says_exists (sample_compose True) ''v1'' image pre"
proof -
  have up: "Stream (up_cmd remote_target (last (split_on (CHR ''/'') ''g/web''))) \<in>
      set (snd (compose_deploy (sample_compose True) remote_target ''h/g/web:v1'' ''g/web'' ''v1''))" by code_simp
  have "tg_mode remote_target \<noteq> ''commands''" by code_simp
  from start_needs_image [OF up this] show ?thesis by blast
qed

text \<open>The verification of the version accepts a substring: after a start without an error, a
  running container whose description contains the tag anywhere verifies, so \<open>v1\<close> passes
  while \<open>v10\<close> is running.\<close>

theorem version_check_is_substring:
  "dr_status (verdict e ''v1'' summary prior deploy_text 0 ''/web hub.local/g/web:v10'') = ''ok''"
proof -
  have "contains_sub ''v1'' ''/web hub.local/g/web:v10''" by code_simp
  then show ?thesis by (simp add: verdict_def Let_def del: append.simps)
qed

text \<open>A refused plain-HTTP registry is never replaced by Docker Hub: when the pulls report its
  signature and the image is not on the machine, nothing is started, the environment file is
  never rewritten to the name on Docker Hub, and the deployment does not succeed.\<close>

theorem no_hub_fallback:
  assumes "registry_base_url (ce_hints e) = Inr registry" "is_private registry (fst (split_image_ref img))"
    and "tg_mode t \<noteq> ''commands''" "\<And>pre. \<not> says_exists e tag (fst (split_image_ref img)) pre"
    and "\<And>pre s out code. mc_stream (ce_machine e) pre (pull_cmd t (last (split_on (CHR ''/'') project))) = Inr s \<Longrightarrow>
      ssh_exec_stream s = Inr (out, code) \<Longrightarrow> is_plain_http_registry_error out"
  shows "Stream (up_cmd t (last (split_on (CHR ''/'') project))) \<notin> set (snd (compose_deploy e t img project tag))
    \<and> Exec (rewrite_env_cmd t tag (hub_image registry (fst (split_image_ref img)))) \<notin> set (snd (compose_deploy e t img project tag))
    \<and> (\<forall>r. fst (compose_deploy e t img project tag) = Inr r \<longrightarrow> dr_status r \<noteq> ''ok'')"
proof -
  let ?short = "last (split_on (CHR ''/'') project)"
  let ?name = "fst (split_image_ref img)"
  let ?P = "harmless t ?short tag (hub_image registry ?name)"
  have f: "fails ?P (\<lambda>_. False) (fetch_image e t registry ?short tag ?name)"
    using assms(2,4,5) by (rule fetch_refused)
  have "fails ?P (\<lambda>_. False) (remote_flow e t img project tag)"
    using assms(1,2) f by (rule remote_dead) simp_all
  then obtain x tr where x: "remote_flow e t img project tag [] = (x, tr)" "list_all ?P tr"
      "\<forall>y. x \<noteq> Go y" "\<forall>y. x = Stop y \<longrightarrow> dr_status y \<noteq> ''ok''"
    unfolding spec_def by (metis append_Nil prod.collapse)
  have tr: "set (snd (compose_deploy e t img project tag)) \<subseteq> set tr"
    using x(1) assms(3) by (auto simp: compose_deploy_def in_session_trace split: sum.splits option.splits if_splits)
  have "\<forall>r. fst (compose_deploy e t img project tag) = Inr r \<longrightarrow> dr_status r \<noteq> ''ok''"
    using x assms(3) by (cases x)
      (auto simp: compose_deploy_def in_session_def deploy_failed_def split: sum.splits option.splits if_splits)
  then show ?thesis using tr x(2) by (auto simp: list_all_iff harmless_def)
qed

text \<open>The hypotheses of the last property on the machine of the samples.\<close>

lemma sample_never_there: "\<not> says_exists (sample_compose False) ''v1'' ''h/g/web'' pre"
  by (simp add: says_exists_def image_exists_def ssh_run_def andthen_def exec_caught_def ret_def sample_compose_def
      sample_host_def exists_cmd_def inspect_cmd_def starts_with_def default_settings_def) code_simp

lemma sample_pull_refused:
  "mc_stream (ce_machine (sample_compose False)) pre c = Inr s \<Longrightarrow> ssh_exec_stream s = Inr (out, code) \<Longrightarrow>
   is_plain_http_registry_error out"
proof -
  have "case ssh_exec_stream \<lparr>sm_polls = [\<lparr>po_cancel = False, po_out = Some plain_http_signature, po_err = None\<rparr>],
      sm_exit = Some 0, sm_residual = []\<rparr> of Inl _ \<Rightarrow> True | Inr (out, code) \<Rightarrow> is_plain_http_registry_error out" by code_simp
  then show "mc_stream (ce_machine (sample_compose False)) pre c = Inr s \<Longrightarrow> ssh_exec_stream s = Inr (out, code) \<Longrightarrow>
      is_plain_http_registry_error out" by (simp add: sample_compose_def sample_host_def)
qed

theorem no_hub_fallback_witness:
  "Stream (up_cmd remote_target ''web'') \<notin>
     set (snd (compose_deploy (sample_compose False) remote_target ''h/g/web:v1'' ''g/web'' ''v1''))"
proof -
  have f: "fst (split_image_ref ''h/g/web:v1'') = ''h/g/web''" "last (split_on (CHR ''/'') ''g/web'') = ''web''"
    "registry_base_url (ce_hints (sample_compose False)) = Inr ''h''" "is_private ''h'' ''h/g/web''"
    "tg_mode remote_target \<noteq> ''commands''" by code_simp+
  show ?thesis
    using no_hub_fallback [of "sample_compose False" "''h''" "''h/g/web:v1''" remote_target "''v1''" "''g/web''"]
      sample_never_there sample_pull_refused unfolding f(1,2) using f(3-5) by blast
qed

end
