(* ===== verification/K8sUtils.thy ===== *)
theory K8sUtils
  imports Remote Registry
begin

text \<open>
  \<^verbatim>\<open>backend/deployers/k8s_utils.py\<close>: the pod listing with its filter, the reading of a
  pod line, the Deployment named by a manifest, its renaming, and the rendering of image
  placeholders. Manifests are values of a datatype; the YAML parser is a parameter.
\<close>

section \<open>Manifests\<close>

text \<open>The values of \<^verbatim>\<open>yaml.safe_load_all\<close>. \<open>YOther\<close> is any other scalar (a float, a
  date) with its truth value and text. Only string keys are ever looked up.\<close>

datatype yaml =
    YNone
  | YBool bool
  | YInt int
  | YStr string
  | YOther bool string
  | YSeq "yaml list"
  | YMap "(string \<times> yaml) list"

fun truthy :: "yaml \<Rightarrow> bool" where
  "truthy YNone = False"
| "truthy (YBool b) = b"
| "truthy (YInt i) = (i \<noteq> 0)"
| "truthy (YStr s) = (s \<noteq> [])"
| "truthy (YOther b _) = b"
| "truthy (YSeq xs) = (xs \<noteq> [])"
| "truthy (YMap m) = (m \<noteq> [])"

text \<open>\<open>ys_parse\<close> is the text of a YAML error or the documents, \<open>ys_show\<close> is
  \<^verbatim>\<open>str\<close> on values that are no strings, \<open>ys_bad_value\<close> the text of the error that a value of
  the wrong type raises.\<close>

record yaml_env =
  ys_parse :: "string \<Rightarrow> string + yaml list"
  ys_show :: "yaml \<Rightarrow> string"
  ys_bad_value :: string

definition py_str :: "yaml_env \<Rightarrow> yaml \<Rightarrow> string" where
  "py_str y v = (case v of YStr s \<Rightarrow> s | _ \<Rightarrow> ys_show y v)"

text \<open>\<^verbatim>\<open>str(v or "")\<close> of an entry.\<close>

definition text_entry :: "yaml_env \<Rightarrow> (string \<times> yaml) list \<Rightarrow> string \<Rightarrow> string" where
  "text_entry y m k = (case map_of m k of None \<Rightarrow> [] | Some v \<Rightarrow> if truthy v then py_str y v else [])"

fun first_deployment :: "yaml list \<Rightarrow> (string \<times> yaml) list option" where
  "first_deployment [] = None"
| "first_deployment (d # ds) =
     (case d of
        YMap m \<Rightarrow> if map_of m ''kind'' = Some (YStr ''Deployment'') then Some m else first_deployment ds
      | _ \<Rightarrow> first_deployment ds)"

text \<open>\<^verbatim>\<open>doc.get("metadata", {}).get("name", "")\<close>: metadata that is no mapping raises.\<close>

definition declared_name :: "yaml_env \<Rightarrow> (string \<times> yaml) list \<Rightarrow> string + yaml" where
  "declared_name y m =
     (case map_of m ''metadata'' of
        None \<Rightarrow> Inr (YStr [])
      | Some (YMap md) \<Rightarrow> Inr (case map_of md ''name'' of None \<Rightarrow> YStr [] | Some v \<Rightarrow> v)
      | Some _ \<Rightarrow> Inl (ys_bad_value y))"

definition get_deployment_name :: "yaml_env \<Rightarrow> string \<Rightarrow> string + yaml" where
  "get_deployment_name y content =
     (case ys_parse y content of
        Inl _ \<Rightarrow> Inr (YStr [])
      | Inr docs \<Rightarrow> (case first_deployment docs of None \<Rightarrow> Inr (YStr []) | Some m \<Rightarrow> declared_name y m))"

section \<open>Renaming a Deployment\<close>

definition kv_prefixes :: "string list" where
  "kv_prefixes = [''name:'', ''app:'', ''app.kubernetes.io/name:'', ''app.kubernetes.io/instance:'',
     ''app.kubernetes.io/part-of:'']"

definition value_of :: "string \<Rightarrow> string \<Rightarrow> string" where
  "value_of key line = py_strip (drop (length key) line)"

definition has_value :: "string \<Rightarrow> string \<Rightarrow> string \<Rightarrow> bool" where
  "has_value key line v = (starts_with key line \<and> value_of key line = v)"

text \<open>One line; \<open>old\<close> is the name as a string (\<open>None\<close>: it is no string), \<open>shown\<close> its text.\<close>

definition rename_line :: "string option \<Rightarrow> string \<Rightarrow> string \<Rightarrow> string \<Rightarrow> string" where
  "rename_line old shown new_name line =
     (let indent = takeWhile is_space line;
          stripped = py_strip line;
          item = starts_with ''- '' stripped;
          body = (if item then drop 2 stripped else stripped);
          head = indent @ (if item then ''- '' else [])
      in if has_value ''value:'' body ([dquote] @ shown @ [dquote]) then head @ ''value: '' @ [dquote] @ new_name @ [dquote]
         else if has_value ''name:'' body (shown @ ''-svc'') then head @ ''name: '' @ new_name @ ''-svc''
         else case old of
                None \<Rightarrow> line
              | Some o' \<Rightarrow> (case find (\<lambda>p. has_value p body o') kv_prefixes of
                             None \<Rightarrow> line | Some p \<Rightarrow> head @ p @ '' '' @ new_name))"

definition rename_deployment :: "yaml_env \<Rightarrow> string \<Rightarrow> string \<Rightarrow> string + (string \<times> yaml)" where
  "rename_deployment y content new_name =
     (case ys_parse y content of
        Inl _ \<Rightarrow> Inr (content, YStr [])
      | Inr docs \<Rightarrow>
          (case (case first_deployment docs of None \<Rightarrow> Inr (YStr []) | Some m \<Rightarrow> declared_name y m) of
             Inl e \<Rightarrow> Inl e
           | Inr old \<Rightarrow>
               if \<not> truthy old \<or> old = YStr new_name then Inr (content, old)
               else Inr (py_join [newline] (List.map (rename_line (case old of YStr s \<Rightarrow> Some s | _ \<Rightarrow> None) (py_str y old) new_name)
                      (split_on newline content)), old)))"

section \<open>Pods\<close>

definition re_special :: "char \<Rightarrow> bool" where
  "re_special c = (c \<in> set ''()[]{}?*+-|^$.&~# '' \<or> c = CHR 0x5C \<or> c \<in> {CHR 0x09, CHR 0x0A, CHR 0x0B, CHR 0x0C, CHR 0x0D})"

definition re_escape :: "string \<Rightarrow> string" where
  "re_escape s = concat (List.map (\<lambda>c. if re_special c then [CHR 0x5C, c] else [c]) s)"

definition pod_columns :: string where
  "pod_columns = ''-o custom-columns=NAME:.metadata.name,IMAGE:.spec.containers[*].image,STATUS:.status.phase,''
     @ ''REASON:.status.reason,DELETING:.metadata.deletionTimestamp --no-headers 2>/dev/null''"

definition pod_pattern :: "string \<Rightarrow> string" where
  "pod_pattern name = ''^'' @ re_escape name @ ''-[a-f0-9]''"

definition pods_cmd :: "string \<Rightarrow> string \<Rightarrow> string" where
  "pods_cmd name ns =
     ''kubectl get pods '' @ (if ns = [] then [] else ''-n '' @ sh_quote ns @ '' '') @ pod_columns
     @ (if name = [] then [] else '' | grep -E '' @ apostrophed (pod_pattern name))"

definition kubectl_pods :: "machine \<Rightarrow> string \<Rightarrow> string \<Rightarrow> ('r, string) proc" where
  "kubectl_pods m name ns = andthen (exec_on m (pods_cmd name ns)) (\<lambda>(o', e, _). ret (str_or o' e))"

text \<open>\<^verbatim>\<open>s.split()\<close>; the accumulator holds the current word reversed.\<close>

fun words_acc :: "string \<Rightarrow> string \<Rightarrow> string list" where
  "words_acc acc [] = (if acc = [] then [] else [rev acc])"
| "words_acc acc (c # s) =
     (if is_space c then (if acc = [] then words_acc [] s else rev acc # words_acc [] s) else words_acc (c # acc) s)"

definition py_words :: "string \<Rightarrow> string list" where
  "py_words s = words_acc [] s"

record pod =
  pod_name :: string
  pod_image :: string
  pod_status :: string
  pod_reason :: string

definition null_words :: "string list" where
  "null_words = [''<none>'', ''None'', ''null'', '''']"

definition parse_pod_line :: "string \<Rightarrow> pod option" where
  "parse_pod_line line =
     (let parts = py_words line; n = length parts
      in if n < 4 then None
         else let deleting = (if n > 4 then parts ! (n - 1) else []);
                  reason = parts ! (n - 2);
                  status = parts ! (n - 3);
                  image = (if n > 4 then py_join '' '' (take (n - 4) (drop 1 parts)) else [])
              in Some (if deleting \<noteq> [] \<and> deleting \<notin> set null_words
                       then \<lparr>pod_name = parts ! 0, pod_image = image, pod_status = ''Terminating'', pod_reason = deleting\<rparr>
                       else \<lparr>pod_name = parts ! 0, pod_image = image, pod_status = status,
                              pod_reason = (if reason \<in> set null_words then [] else reason)\<rparr>))"

text \<open>The pods of a listing by name, and the new ones of a later listing.\<close>

definition pod_names :: "string \<Rightarrow> string set" where
  "pod_names listing = set (List.map (\<lambda>l. hd (py_words l)) (filter (\<lambda>l. py_strip l \<noteq> []) (split_on newline listing)))"

definition new_pods :: "string \<Rightarrow> string \<Rightarrow> string" where
  "new_pods prior listing =
     (if py_strip listing = [] then listing
      else let ls = filter (\<lambda>l. py_strip l \<noteq> [] \<and> hd (py_words l) \<notin> pod_names prior) (split_on newline listing)
           in if ls = [] then listing else py_join [newline] ls)"

definition running_count :: "string \<Rightarrow> nat" where
  "running_count listing = length (filter (\<lambda>l. contains_sub ''Running'' l) (split_on newline listing))"

section \<open>Rendering\<close>

definition before_last :: "char \<Rightarrow> string \<Rightarrow> string" where
  "before_last c s = (if c \<in> set s then rev (tl (dropWhile (\<lambda>x. x \<noteq> c) (rev s))) else s)"

text \<open>The image and its name as a manifest will have them.\<close>

definition final_image_name :: "string \<Rightarrow> string \<Rightarrow> string" where
  "final_image_name reg img =
     (let full = before_last (CHR '':'') img;
          name = (if reg \<noteq> [] \<and> starts_with (reg @ ''/'') full then drop (length reg + 1) full else full)
      in if reg = [] then name else reg @ ''/'' @ name)"

definition render_k8s_yaml :: "string \<times> string \<Rightarrow> string \<Rightarrow> string \<Rightarrow> string \<Rightarrow> string result" where
  "render_k8s_yaml hints content img tag =
     (case registry_base_url hints of
        Inl e \<Rightarrow> Inl e
      | Inr reg \<Rightarrow>
          let name = final_image_name reg img;
              final = name @ '':'' @ tag;
              c1 = (if contains_sub ''{IMAGE}:{TAG}'' content then py_replace ''{IMAGE}:{TAG}'' final content else content)
          in Inr (py_replace ''{TAG}'' tag (py_replace ''{IMAGE_NAME}'' name (py_replace ''{IMAGE}'' final c1))))"

section \<open>Namespace flags\<close>

definition ns_flag :: "string \<Rightarrow> string" where
  "ns_flag ns = (if ns = [] then [] else '' -n '' @ sh_quote ns)"

definition ns_words :: "string \<Rightarrow> string list" where
  "ns_words ns = (if ns = [] then [] else [''-n'', ns])"

section \<open>Laws\<close>

lemma spec_pods [simp]: "P (Exec (pods_cmd name ns)) \<Longrightarrow> spec P (\<lambda>_. True) R (kubectl_pods m name ns)"
  unfolding kubectl_pods_def by (auto intro!: spec_bind split: prod.splits)

text \<open>How commands built from literals and quoted values split into words. The literals are
  evaluated character by character.\<close>

lemmas split_simps = split_quote so_far_def sh_safe_def is_upper_def is_lower_def is_digit_def quote_char_def dquote_def

lemma split_ns: "sh_split Bare (Some w) (ns_flag ns @ rest) =
    (if ns = [] then sh_split Bare (Some w) rest
     else map_option (\<lambda>ws. rev w # ''-n'' # ws) (sh_split Bare (Some (rev ns)) rest))"
  by (cases "sh_split Bare (Some (rev ns)) rest") (simp_all add: ns_flag_def split_simps)

lemma split_ns_end: "sh_split Bare (Some w) (ns_flag ns) = Some (rev w # ns_words ns)"
  using split_ns [of w ns "[]"] by (simp add: ns_words_def)

lemma digit_safe: "d < 10 \<Longrightarrow> sh_safe (digit_char d)"
  by (simp add: sh_safe_def)

lemma nat_str_safe: "list_all sh_safe (nat_str n)"
proof (induction n rule: nat_str.induct)
  case (1 n)
  then show ?case by (subst nat_str.simps) (auto simp: digit_safe)
qed

lemma split_nat: "sh_split Bare w (nat_str n @ rest) = sh_split Bare (Some (rev (nat_str n) @ so_far w)) rest"
  by (rule split_plain [OF nat_str_safe nat_str_nonempty])

end
