(* ===== verification/Kubectl.thy ===== *)
theory Kubectl
  imports K8sUtils DeployK8s
begin

text \<open>
  \<^verbatim>\<open>backend/deployers/k8s_kubectl.py\<close>: deployment of a manifest with
  \<^verbatim>\<open>kubectl apply\<close>, the native rollback and the stop. The cluster node is a machine of
  theory Remote; progress messages and the closing of the connection are left out, texts outside
  ASCII and the random file suffix are parameters.
\<close>

record kube_env =
  ku_machine :: machine
  ku_settings :: settings
  ku_hints :: "string \<times> string"
  ku_yaml :: yaml_env
  ku_token :: string
  ku_rollout_timeout :: nat
  ku_helm_timeout :: nat
  ku_no_registry :: string
  ku_current :: string
  ku_none :: string
  ku_start :: string
  ku_after :: string
  ku_deployed :: string
  ku_running :: string
  ku_ok :: string
  ku_bad :: string
  ku_success_mark :: string
  ku_failure_mark :: string
  ku_yaml_without :: "string \<Rightarrow> string"
  ku_set_image_needs :: "string \<Rightarrow> string"

type_synonym kresult = "bool \<times> string"
type_synonym 'a kproc = "(kresult, 'a) proc"

definition fail :: "string \<Rightarrow> 'a kproc" where
  "fail out = stop_with (False, out)"

definition cut :: "kube_env \<Rightarrow> string \<Rightarrow> string" where
  "cut e s = take (nat (log_truncate_chars (ku_settings e))) s"

definition nl2 :: string where
  "nl2 = [newline, newline]"

definition short_name :: "string \<Rightarrow> string" where
  "short_name project = last (split_on (CHR ''/'') project)"

definition is_url :: "string \<Rightarrow> bool" where
  "is_url path = starts_with ''http'' path"

section \<open>Commands\<close>

definition cat_cmd :: "string \<Rightarrow> string" where
  "cat_cmd path = ''cat '' @ sh_quote path"

definition apply_cmd :: "string \<Rightarrow> string \<Rightarrow> string" where
  "apply_cmd ns tmp = ''kubectl apply'' @ ns_flag ns @ '' -f '' @ sh_quote tmp"

definition restart_cmd :: "string \<Rightarrow> string \<Rightarrow> string" where
  "restart_cmd ns name = ''kubectl rollout restart deployment/'' @ sh_quote name @ ns_flag ns"

definition undo_cmd :: "string \<Rightarrow> string \<Rightarrow> string" where
  "undo_cmd ns name = ''kubectl rollout undo deployment/'' @ sh_quote name @ ns_flag ns"

definition rollout_cmd :: "nat \<Rightarrow> string \<Rightarrow> string \<Rightarrow> string" where
  "rollout_cmd secs ns name =
     ''kubectl rollout status deployment/'' @ sh_quote name @ ns_flag ns @ '' --timeout='' @ nat_str secs @ ''s''"

definition rm_cmd :: "string \<Rightarrow> string" where
  "rm_cmd tmp = ''rm -f '' @ sh_quote tmp"

definition delete_cmd :: "string \<Rightarrow> string \<Rightarrow> string \<Rightarrow> string" where
  "delete_cmd ns path project =
     (if path \<noteq> [] then ''kubectl delete'' @ ns_flag ns @ '' -f '' @ sh_quote path
      else ''kubectl delete deployment/'' @ sh_quote project @ ns_flag ns)"

definition tmp_file :: "string \<Rightarrow> string \<Rightarrow> string" where
  "tmp_file project token = ''/tmp/k8s-'' @ short_name project @ ''-'' @ token @ ''.yaml''"

section \<open>The namespace of a manifest\<close>

definition cluster_kinds :: "string list" where
  "cluster_kinds = [''Namespace'', ''ClusterRole'', ''ClusterRoleBinding'', ''CustomResourceDefinition'', ''Node'',
     ''PersistentVolume'', ''StorageClass'', ''MutatingWebhookConfiguration'', ''ValidatingWebhookConfiguration'',
     ''PriorityClass'', ''PodSecurityPolicy'']"

definition doc_namespace :: "yaml_env \<Rightarrow> (string \<times> yaml) list \<Rightarrow> string" where
  "doc_namespace y m =
     py_strip (text_entry y (case map_of m ''metadata'' of Some (YMap md) \<Rightarrow> md | _ \<Rightarrow> []) ''namespace'')"

definition conflicts :: "yaml_env \<Rightarrow> string \<Rightarrow> (string \<times> yaml) list \<Rightarrow> bool" where
  "conflicts y ns m = (ns \<noteq> [] \<and> doc_namespace y m \<noteq> [] \<and> text_entry y m ''kind'' \<notin> set cluster_kinds
     \<and> doc_namespace y m \<noteq> ns)"

definition mismatch_text :: "yaml_env \<Rightarrow> string \<Rightarrow> (string \<times> yaml) list \<Rightarrow> string" where
  "mismatch_text y ns m = ''Kubernetes namespace mismatch: request namespace ['' @ ns @ ''] but manifest resource [''
     @ str_or (text_entry y m ''kind'') ''Unknown'' @ ''] declares ['' @ doc_namespace y m @ ''].''"

text \<open>A conflict, or the first namespace that is declared.\<close>

fun check_namespaces :: "yaml_env \<Rightarrow> string \<Rightarrow> string \<Rightarrow> yaml list \<Rightarrow> string + string" where
  "check_namespaces y ns seen [] = Inr seen"
| "check_namespaces y ns seen (d # ds) =
     (case d of
        YMap m \<Rightarrow>
          if conflicts y ns m then Inl (mismatch_text y ns m)
          else check_namespaces y ns (str_or seen (doc_namespace y m)) ds
      | _ \<Rightarrow> check_namespaces y ns seen ds)"

section \<open>Deployment\<close>

definition before_text :: "kube_env \<Rightarrow> string \<Rightarrow> string" where
  "before_text e prior = (if py_strip prior \<noteq> [] then ku_current e @ [newline] @ prior else ku_current e @ ku_none e)"

text \<open>The pods before the deployment, and whether this is the first one.\<close>

definition first_look :: "kube_env \<Rightarrow> string \<Rightarrow> bool \<Rightarrow> string \<Rightarrow> (string \<times> bool) kproc" where
  "first_look e name mismatch ns =
     andthen (kubectl_pods (ku_machine e) name ns) (\<lambda>prior.
       if py_strip prior \<noteq> [] then ret (prior, False)
       else if mismatch then ret (prior, True)
       else andthen (kubectl_pods (ku_machine e) [] ns) (\<lambda>all_pods.
         if py_strip all_pods \<noteq> []
         then fail (before_text e prior @ nl2 @ ''Deploy failed: app ['' @ name @ ''] not found.'' @ [newline]
                @ ''Running Pods:'' @ [newline] @ py_strip all_pods)
         else ret (prior, True)))"

definition exec_pair :: "machine \<Rightarrow> string \<Rightarrow> ((string \<times> string) \<times> int) kproc" where
  "exec_pair m cmd = andthen (exec_on m cmd) (\<lambda>(o', er, c). ret ((o', er), c))"

definition nonempty :: "string list \<Rightarrow> string list" where
  "nonempty ss = filter (\<lambda>s. s \<noteq> []) ss"

definition after_step :: "kube_env \<Rightarrow> string \<Rightarrow> nat \<Rightarrow> (string \<times> string) \<times> int \<Rightarrow> string list kproc" where
  "after_step e prior n r =
     (case r of ((o', er), c) \<Rightarrow>
        if c \<noteq> 0 then fail (before_text e prior @ nl2 @ ''Step '' @ nat_str n @ '' failed (exit '' @ int_str c @ ''):''
               @ [newline] @ str_or o' er)
        else ret (nonempty [o', er]))"

text \<open>\<^verbatim>\<open>kubectl apply\<close> is retried; the restart, of an existing application, is not.\<close>

definition apply_steps :: "kube_env \<Rightarrow> string \<Rightarrow> string \<Rightarrow> string \<Rightarrow> string \<Rightarrow> bool \<Rightarrow> string list kproc" where
  "apply_steps e ns tmp name prior first =
     (let m = ku_machine e
      in andthen (check_cancelled m) (\<lambda>_.
         andthen (retry_proc (exec_pair m (apply_cmd ns tmp)) (nat (deploy_retry_attempts (ku_settings e))) None) (\<lambda>r.
         andthen (after_step e prior 1 r) (\<lambda>log1.
           if first then ret log1
           else andthen (check_cancelled m) (\<lambda>_.
                andthen (exec_pair m (restart_cmd ns name)) (\<lambda>r2.
                andthen (after_step e prior 2 r2) (\<lambda>log2. ret (log1 @ log2))))))))"

definition deploy_report :: "kube_env \<Rightarrow> string \<Rightarrow> string list \<Rightarrow> string \<Rightarrow> string \<Rightarrow> bool \<Rightarrow> string" where
  "deploy_report e prior log rollout later ok =
     before_text e prior @ nl2 @ ku_start e @ [newline] @ py_join [newline] log @ nl2 @ rollout @ nl2 @ ku_after e
     @ [newline] @ later
     @ (if ok then nl2 @ ku_deployed e @ nat_str (running_count later) @ ku_running e @ nl2 @ ku_ok e else nl2 @ ku_bad e)"

definition wait_rollout :: "kube_env \<Rightarrow> string \<Rightarrow> string \<Rightarrow> string \<Rightarrow> string \<Rightarrow> string list \<Rightarrow> kresult kproc" where
  "wait_rollout e ns tmp name prior log =
     (let m = ku_machine e
      in andthen (exec_caught m (rm_cmd tmp)) (\<lambda>_.
         andthen (check_cancelled m) (\<lambda>_.
         andthen (exec_on m (rollout_cmd (ku_rollout_timeout e) ns name)) (\<lambda>(ro, re, rc).
         andthen (kubectl_pods m name ns) (\<lambda>all_pods.
           ret (rc = 0, cut e (deploy_report e prior log (py_strip (str_or ro re)) (new_pods prior all_pods) (rc = 0))))))))"

definition deploy_name :: "yaml \<Rightarrow> string \<Rightarrow> string option" where
  "deploy_name declared short =
     (if truthy declared then (case declared of YStr s \<Rightarrow> Some s | _ \<Rightarrow> None) else Some short)"

definition upload_manifest :: "kube_env \<Rightarrow> string \<Rightarrow> string \<Rightarrow> unit kproc" where
  "upload_manifest e tmp content =
     andthen (upload (ku_machine e) tmp content) (\<lambda>u. case u of None \<Rightarrow> ret () | Some x \<Rightarrow> crash x)"

text \<open>After the checks: the manifest \<open>content\<close> in the namespace \<open>ns\<close>.\<close>

definition roll_out :: "kube_env \<Rightarrow> string \<Rightarrow> string \<Rightarrow> string \<Rightarrow> yaml \<Rightarrow> kresult kproc" where
  "roll_out e project ns content declared =
     (let short = short_name project; tmp = tmp_file project (ku_token e)
      in andthen (upload_manifest e tmp content) (\<lambda>_.
           case deploy_name declared short of
             None \<Rightarrow> crash (ys_bad_value (ku_yaml e))
           | Some name \<Rightarrow>
               andthen (first_look e name (truthy declared \<and> declared \<noteq> YStr short) ns) (\<lambda>(prior, first).
               andthen (apply_steps e ns tmp name prior first) (\<lambda>log.
                 wait_rollout e ns tmp name prior log))))"

definition apply_manifest :: "kube_env \<Rightarrow> k8s_req \<Rightarrow> string \<Rightarrow> string \<Rightarrow> string \<Rightarrow> kresult kproc" where
  "apply_manifest e q img project raw =
     (case render_k8s_yaml (ku_hints e) raw img (q_tag q) of
        Inl _ \<Rightarrow> crash (ku_no_registry e)
      | Inr content \<Rightarrow>
          (case ys_parse (ku_yaml e) content of
             Inl x \<Rightarrow> fail (''Invalid Kubernetes YAML: '' @ x)
           | Inr docs \<Rightarrow>
               (case check_namespaces (ku_yaml e) (py_strip (q_ns q)) [] docs of
                  Inl x \<Rightarrow> fail x
                | Inr manifest_ns \<Rightarrow>
                    (case get_deployment_name (ku_yaml e) content of
                       Inl x \<Rightarrow> crash x
                     | Inr declared \<Rightarrow> roll_out e project (str_or (py_strip (q_ns q)) manifest_ns) content declared))))"

definition read_manifest :: "kube_env \<Rightarrow> string \<Rightarrow> string kproc" where
  "read_manifest e path =
     andthen (exec_on (ku_machine e) (cat_cmd path)) (\<lambda>(o', er, c).
       if c \<noteq> 0 \<or> py_strip o' = []
       then fail (''Remote YAML is empty or unreadable: '' @ path @ [newline] @ er) else ret o')"

text \<open>The body under \<^verbatim>\<open>except Exception\<close>.\<close>

definition run_caught :: "kresult kproc \<Rightarrow> action list \<Rightarrow> kresult result \<times> action list" where
  "run_caught p tr =
     (case p tr of
        (Go r, tr') \<Rightarrow> (Inr r, tr')
      | (Stop r, tr') \<Rightarrow> (Inr r, tr')
      | (Crash x, tr') \<Rightarrow> (Inr (False, x), tr')
      | (Abort, tr') \<Rightarrow> (Inl DeployCancelled, tr'))"

text \<open>The download and the connection stand before the \<^verbatim>\<open>try\<close>: their exceptions leave.\<close>

definition kubectl_deploy :: "kube_env \<Rightarrow> k8s_req \<Rightarrow> string \<Rightarrow> string \<Rightarrow> kresult result \<times> action list" where
  "kubectl_deploy e q img project =
     (let m = ku_machine e;
          connected = (\<lambda>p tr. case mc_connect m of Some _ \<Rightarrow> (Inl OtherError, tr) | None \<Rightarrow> run_caught p tr)
      in if q_path q = [] then (Inr (False, ''kubectl mode requires YAML path or URL''), [])
         else if is_url (q_path q)
         then (case mc_fetch m [] (q_path q) of
                 Inl _ \<Rightarrow> (Inl OtherError, [Fetch (q_path q)])
               | Inr (status, body) \<Rightarrow>
                   if status \<noteq> 200 then (Inr (False, ''Failed to fetch remote YAML: '' @ q_path q), [Fetch (q_path q)])
                   else connected (apply_manifest e q img project body) [Fetch (q_path q)])
         else connected (andthen (read_manifest e (q_path q)) (apply_manifest e q img project)) [])"

section \<open>Native rollback and stop\<close>

definition rollback_lines :: "kube_env \<Rightarrow> string \<Rightarrow> string list \<Rightarrow> string \<Rightarrow> bool \<Rightarrow> string" where
  "rollback_lines e cmd outs later ok =
     py_join [newline] ([''Rollback command: '' @ cmd] @ nonempty outs
       @ [[newline] @ ''Pod status after rollback:'' @ [newline] @ str_or later ''(none)'',
          [newline] @ ''Rollback: '' @ (if ok then ku_success_mark e @ '' success'' else ku_failure_mark e @ '' failed'')])"

definition undo_flow :: "kube_env \<Rightarrow> k8s_req \<Rightarrow> string \<Rightarrow> string \<Rightarrow> kresult kproc" where
  "undo_flow e q project content =
     (let m = ku_machine e; ns = py_strip (q_ns q)
      in case get_deployment_name (ku_yaml e) content of
           Inl x \<Rightarrow> crash x
         | Inr declared \<Rightarrow>
             andthen (check_cancelled m) (\<lambda>_.
               case deploy_name declared (short_name project) of
                 None \<Rightarrow> crash (ys_bad_value (ku_yaml e))
               | Some name \<Rightarrow>
                   andthen (exec_on m (undo_cmd ns name)) (\<lambda>(o', er, c).
                   andthen (check_cancelled m) (\<lambda>_.
                   andthen (exec_on m (rollout_cmd (ku_rollout_timeout e) ns name)) (\<lambda>(ro, re, rc).
                   andthen (kubectl_pods m name ns) (\<lambda>later.
                     ret (c = 0 \<and> rc = 0,
                          cut e (rollback_lines e (undo_cmd ns name) [o', er, ro, re] later (c = 0 \<and> rc = 0)))))))))"

text \<open>The manifest only gives the name; when it cannot be read the project's short name is used.\<close>

definition rollback_manifest :: "kube_env \<Rightarrow> k8s_req \<Rightarrow> string \<Rightarrow> string kproc" where
  "rollback_manifest e q fetched =
     (if q_path q \<noteq> [] \<and> \<not> is_url (q_path q)
      then andthen (exec_caught (ku_machine e) (cat_cmd (q_path q))) (\<lambda>r.
             ret (case r of Some (o', _, c) \<Rightarrow> if c = 0 then o' else fetched | None \<Rightarrow> []))
      else ret fetched)"

definition kubectl_rollback :: "kube_env \<Rightarrow> k8s_req \<Rightarrow> string \<Rightarrow> kresult result \<times> action list" where
  "kubectl_rollback e q project =
     (let m = ku_machine e;
          url = q_path q \<noteq> [] \<and> is_url (q_path q);
          fetched = (if url then (case mc_fetch m [] (q_path q) of
                                    Inr (status, body) \<Rightarrow> if status = 200 then body else [] | Inl _ \<Rightarrow> []) else []);
          tr = (if url then [Fetch (q_path q)] else [])
      in case mc_connect m of
           Some x \<Rightarrow> (Inr (False, x), tr)
         | None \<Rightarrow> run_caught (andthen (rollback_manifest e q fetched) (undo_flow e q project)) tr)"

definition kubectl_stop :: "kube_env \<Rightarrow> string \<Rightarrow> string \<Rightarrow> string \<Rightarrow> kresult" where
  "kubectl_stop e k8s_ns path project =
     (let m = ku_machine e; refused = (False, ''Stop service failed, please contact administrator'')
      in case mc_connect m of
           Some _ \<Rightarrow> refused
         | None \<Rightarrow>
             (case mc_exec m [] (delete_cmd (py_strip k8s_ns) path project) of
                Inl _ \<Rightarrow> refused
              | Inr (o', er, c) \<Rightarrow>
                  (c = 0 \<or> contains_sub ''not found'' (py_lower (py_strip er)) \<or> contains_sub ''not found'' (py_lower (py_strip o')),
                   cut e (str_or (py_strip er) (py_strip o')))))"

text \<open>As the remote part of the deployment to Kubernetes, on the cluster's machine.\<close>

definition kubectl_remote :: "(cluster \<Rightarrow> kube_env) \<Rightarrow> k8s_remote" where
  "kubectl_remote at_cluster rb q img short cl =
     (case fst (if rb then kubectl_rollback (at_cluster cl) q short else kubectl_deploy (at_cluster cl) q img short) of
        Inl x \<Rightarrow> Inl x
      | Inr (ok, out) \<Rightarrow> Inr \<lparr>kr_success = ok, kr_output = out, kr_summary = []\<rparr>)"

section \<open>Laws\<close>

text \<open>The commands parse into exactly these words.\<close>

lemma split_rollout:
  "sh_split Bare None (rollout_cmd secs ns name) =
     Some ([''kubectl'', ''rollout'', ''status'', ''deployment/'' @ name] @ ns_words ns @ [''--timeout='' @ nat_str secs @ ''s''])"
  by (simp add: rollout_cmd_def split_simps split_ns split_nat ns_words_def)

lemma split_apply:
  "sh_split Bare None (apply_cmd ns tmp) = Some ([''kubectl'', ''apply''] @ ns_words ns @ [''-f'', tmp])"
  using split_quote [of None tmp "[]"] by (simp add: apply_cmd_def split_simps split_ns ns_words_def)

lemma split_restart:
  "sh_split Bare None (restart_cmd ns name) = Some ([''kubectl'', ''rollout'', ''restart'', ''deployment/'' @ name] @ ns_words ns)"
  by (simp add: restart_cmd_def split_simps split_ns_end)

lemma split_undo:
  "sh_split Bare None (undo_cmd ns name) = Some ([''kubectl'', ''rollout'', ''undo'', ''deployment/'' @ name] @ ns_words ns)"
  by (simp add: undo_cmd_def split_simps split_ns_end)

lemma split_delete:
  "sh_split Bare None (delete_cmd ns path project) =
     Some (if path \<noteq> [] then [''kubectl'', ''delete''] @ ns_words ns @ [''-f'', path]
           else [''kubectl'', ''delete'', ''deployment/'' @ project] @ ns_words ns)"
  using split_quote [of None path "[]"] by (simp add: delete_cmd_def split_simps split_ns split_ns_end ns_words_def)

lemma spec_pair [simp]: "P (Exec cmd) \<Longrightarrow> spec P (\<lambda>_. True) R (exec_pair m cmd)"
  unfolding exec_pair_def by (auto intro!: spec_bind split: prod.splits)

lemma fail_fails [simp]: "fail x tr = (Stop (False, x), tr)"
  by (simp add: fail_def stop_with_def)

text \<open>The last run of a retried computation gave the result.\<close>

lemma retry_last:
  assumes "retry_proc p n prev tr = (Go r, tr')" "snd r = 0" "\<And>x. prev = Some x \<Longrightarrow> snd x \<noteq> 0"
    and "\<And>t. \<exists>new. snd (p t) = t @ new"
  shows "\<exists>mid. p (tr @ mid) = (Go r, tr')"
  using assms(1,3)
proof (induction n arbitrary: prev tr)
  case 0
  then show ?case using assms(2) by (auto simp: ret_def crash_def split: option.splits)
next
  case (Suc n)
  obtain r1 tr1 where r1: "p tr = (Go r1, tr1)"
      "(if snd r1 = 0 then ret r1 else retry_proc p n (Some r1)) tr1 = (Go r, tr')"
    using Suc.prems(1) by (auto elim!: andthen_cases)
  obtain new where new: "tr1 = tr @ new" using assms(4) [of tr] r1(1) by auto
  show ?case
  proof (cases "snd r1 = 0")
    case True
    then show ?thesis using r1 by (intro exI [of _ "[]"]) (simp add: ret_def)
  next
    case False
    then have "\<exists>mid. p (tr1 @ mid) = (Go r, tr')" using r1(2) Suc.IH [of "Some r1" tr1] by simp
    then show ?thesis unfolding new by (metis append.assoc)
  qed
qed

text \<open>What the steps of a deployment that comes to its end have run.\<close>

definition exited0 :: "machine \<Rightarrow> action list \<Rightarrow> string \<Rightarrow> bool" where
  "exited0 m tr cmd = (\<exists>pre post o' er. tr = pre @ Exec cmd # post \<and> mc_exec m pre cmd = Inr (o', er, 0))"

lemma exited0_more: "exited0 m tr cmd \<Longrightarrow> exited0 m (tr @ rest) cmd"
  unfolding exited0_def by (metis append.assoc append_Cons)

lemma andthen_done: "andthen p f tr = (Go y, tr') \<longleftrightarrow> (\<exists>x tr1. p tr = (Go x, tr1) \<and> f x tr1 = (Go y, tr'))"
  by (auto simp: andthen_def split: prod.splits flow.splits)

lemma exec_grows: "exec_on m c tr = (x, tr') \<Longrightarrow> tr' = tr @ [Exec c]"
  by (auto simp: exec_on_def split: sum.splits)

lemma pods_grows: "kubectl_pods m name ns tr = (x, tr') \<Longrightarrow> tr' = tr @ [Exec (pods_cmd name ns)]"
  by (auto simp: kubectl_pods_def andthen_def exec_on_def ret_def split: sum.splits)

lemma exec_on_exit: "exec_on m cmd tr = (Go (o', er, 0), tr') \<Longrightarrow> exited0 m tr' cmd"
  by (auto simp: exec_on_def exited0_def split: sum.splits)

lemma exec_pair_exit: "exec_pair m cmd tr = (Go (oe, 0), tr') \<Longrightarrow> exited0 m tr' cmd"
  by (auto simp: exec_pair_def ret_def elim!: andthen_cases intro: exec_on_exit)

lemma after_step_go: "after_step e prior n r tr = (Go log, tr') \<Longrightarrow> snd r = 0 \<and> tr' = tr"
  by (auto simp: after_step_def ret_def split: prod.splits if_splits)

lemma grows:
  assumes "spec P Q R p" "p tr = (x, tr')"
  obtains new where "tr' = tr @ new"
  using specD [OF assms(1), of tr] assms(2) by auto

lemma check_go: "check_cancelled m tr = (Go x, tr') \<Longrightarrow> tr' = tr"
  by (auto simp: check_cancelled_def split: if_splits)

lemma exec_pair_grows: "\<exists>new. snd (exec_pair m cmd tr) = tr @ new"
proof -
  have "spec (\<lambda>_. True) (\<lambda>_. True) (\<lambda>_. True) (exec_pair m cmd)" by (rule spec_pair) simp
  then show ?thesis unfolding spec_def by blast
qed

lemma pair_exited:
  "exec_pair m cmd tr = (Go r, tr') \<Longrightarrow> snd r = 0 \<Longrightarrow> exited0 m tr' cmd"
  by (cases r) (auto intro: exec_pair_exit)

lemma apply_steps_exit:
  assumes "apply_steps e ns tmp name prior first tr = (Go log, tr')"
  shows "exited0 (ku_machine e) tr' (apply_cmd ns tmp) \<and> (\<not> first \<longrightarrow> exited0 (ku_machine e) tr' (restart_cmd ns name))"
proof -
  let ?m = "ku_machine e"
  obtain r tr1 log1 where r: "retry_proc (exec_pair ?m (apply_cmd ns tmp)) (nat (deploy_retry_attempts (ku_settings e))) None tr = (Go r, tr1)"
      "after_step e prior 1 r tr1 = (Go log1, tr1)" "snd r = 0"
      "(if first then ret log1
           else andthen (check_cancelled ?m) (\<lambda>_.
                andthen (exec_pair ?m (restart_cmd ns name)) (\<lambda>r2.
                andthen (after_step e prior 2 r2) (\<lambda>log2. ret (log1 @ log2))))) tr1 = (Go log, tr')"
    using assms unfolding apply_steps_def Let_def
    by (elim andthen_cases; simp?) (metis after_step_go check_go)
  obtain mid where "exec_pair ?m (apply_cmd ns tmp) (tr @ mid) = (Go r, tr1)"
    using retry_last [OF r(1,3)] exec_pair_grows by blast
  then have a: "exited0 ?m tr1 (apply_cmd ns tmp)" using r(3) by (rule pair_exited)
  show ?thesis
  proof (cases first)
    case True
    then show ?thesis using r(4) a by (simp add: ret_def)
  next
    case False
    then obtain r2 where r2: "exec_pair ?m (restart_cmd ns name) tr1 = (Go r2, tr')" "snd r2 = 0"
      using r(4) by (auto elim!: andthen_cases dest!: check_go after_step_go simp: ret_def)
    obtain new where "tr' = tr1 @ new" using exec_pair_grows r2(1) by (metis snd_conv)
    then show ?thesis using exited0_more [OF a] pair_exited [OF r2] by simp
  qed
qed

lemma wait_rollout_exit:
  assumes "wait_rollout e ns tmp name prior log tr = (Go (True, out), tr')"
  shows "exited0 (ku_machine e) tr' (rollout_cmd (ku_rollout_timeout e) ns name)"
proof -
  let ?m = "ku_machine e"
  obtain ro re tr1 tr2 later where r:
      "(exec_on ?m (rollout_cmd (ku_rollout_timeout e) ns name) tr1 :: (kresult, _) flow \<times> _) = (Go (ro, re, 0), tr2)"
      "(kubectl_pods ?m name ns tr2 :: (kresult, _) flow \<times> _) = (Go later, tr')"
    using assms unfolding wait_rollout_def Let_def by (auto elim!: andthen_cases simp: ret_def)
  obtain new where "tr' = tr2 @ new" by (rule grows [OF spec_pods [of "\<lambda>_. True" name ns "\<lambda>_. True" ?m, OF TrueI] r(2)])
  then show ?thesis using exited0_more [OF exec_on_exit [OF r(1)]] by simp
qed

lemma spec_wait: "spec (\<lambda>_. True) (\<lambda>_. True) (\<lambda>r. \<not> fst r) (wait_rollout e ns tmp name prior log)"
  unfolding wait_rollout_def Let_def by (auto intro!: spec_bind split: prod.splits)

text \<open>Every early return of a deployment is a failure.\<close>

lemma fail_spec [simp]: "spec P Q (\<lambda>r. \<not> fst r) (fail x)"
  by (simp add: fail_def)

lemma spec_after [simp]: "spec P (\<lambda>_. True) (\<lambda>r. \<not> fst r) (after_step e prior n r)"
  by (auto simp: after_step_def split: prod.splits)

lemma spec_first_look: "P (Exec (pods_cmd name ns)) \<Longrightarrow> P (Exec (pods_cmd [] ns)) \<Longrightarrow>
    spec P (\<lambda>_. True) (\<lambda>r. \<not> fst r) (first_look e name mismatch ns)"
  unfolding first_look_def by (auto intro!: spec_bind)

lemma spec_apply_steps:
  "P (Exec (apply_cmd ns tmp)) \<Longrightarrow> P (Exec (restart_cmd ns name)) \<Longrightarrow>
   spec P (\<lambda>_. True) (\<lambda>r. \<not> fst r) (apply_steps e ns tmp name prior first)"
  unfolding apply_steps_def Let_def by (auto intro!: spec_bind spec_retry)

lemma spec_upload_manifest: "P (Upload tmp content) \<Longrightarrow> spec P (\<lambda>_. True) R (upload_manifest e tmp content)"
  unfolding upload_manifest_def by (auto intro!: spec_bind split: option.splits)

lemma upload_manifest_done: "upload_manifest e tmp content tr = (Go u, tr') \<Longrightarrow> Upload tmp content \<in> set tr'"
  unfolding upload_manifest_def by (auto elim!: andthen_cases simp: upload_def crash_def ret_def split: option.splits if_splits)

lemma roll_out_exit:
  assumes "roll_out e project ns content declared tr = (x, tr')" "x = Go (True, out) \<or> x = Stop (True, out)"
  shows "\<exists>name. deploy_name declared (short_name project) = Some name
    \<and> Upload (tmp_file project (ku_token e)) content \<in> set tr' \<and> exited0 (ku_machine e) tr' (apply_cmd ns (tmp_file project (ku_token e)))
    \<and> exited0 (ku_machine e) tr' (rollout_cmd (ku_rollout_timeout e) ns name)"
proof -
  let ?tmp = "tmp_file project (ku_token e)"
  have no_stop: "spec (\<lambda>_. True) (\<lambda>_. True) (\<lambda>r. \<not> fst r) (roll_out e project ns content declared)"
    unfolding roll_out_def Let_def
    by (auto intro!: spec_bind spec_upload_manifest spec_first_look spec_apply_steps spec_wait split: option.splits)
  have "x \<noteq> Stop (True, out)"
    using specD [OF no_stop, of tr] assms(1) by (metis fst_conv)
  then have x: "x = Go (True, out)" using assms(2) by blast
  obtain name prior first tr0 tr1 tr2 log where r: "apply_steps e ns ?tmp name prior first tr1 = (Go log, tr2)"
      "wait_rollout e ns ?tmp name prior log tr2 = (Go (True, out), tr')"
      "deploy_name declared (short_name project) = Some name" "upload_manifest e ?tmp content tr = (Go (), tr0)"
      "first_look e name (truthy declared \<and> declared \<noteq> YStr (short_name project)) ns tr0 = (Go (prior, first), tr1)"
    using assms(1) unfolding x roll_out_def Let_def by (auto elim!: andthen_cases simp: crash_def split: option.splits)
  obtain a b c where new: "tr1 = tr0 @ a" "tr2 = tr1 @ b" "tr' = tr2 @ c"
    using grows [OF spec_first_look [of "\<lambda>_. True"] r(5)] grows [OF spec_apply_steps [of "\<lambda>_. True"] r(1)] grows [OF spec_wait r(2)]
    by (metis (full_types))
  have "Upload ?tmp content \<in> set tr'" using upload_manifest_done [OF r(4)] by (simp add: new)
  moreover have "exited0 (ku_machine e) tr' (apply_cmd ns ?tmp)" using apply_steps_exit [OF r(1)] exited0_more by (metis new(3))
  ultimately show ?thesis using wait_rollout_exit [OF r(2)] r(3) by blast
qed

text \<open>The only way to a success leads through the namespace check to \<open>roll_out\<close>.\<close>

text \<open>The namespace and the name of the deployment that a manifest, rendered from the text \<open>raw\<close> and uploaded, stands for.\<close>

definition rolls_out :: "kube_env \<Rightarrow> k8s_req \<Rightarrow> string \<Rightarrow> string \<Rightarrow> action list \<Rightarrow> string \<Rightarrow> string \<Rightarrow> bool" where
  "rolls_out e q img project tr ns name \<longleftrightarrow> (\<exists>raw content docs declared manifest_ns.
     render_k8s_yaml (ku_hints e) raw img (q_tag q) = Inr content \<and> ys_parse (ku_yaml e) content = Inr docs
     \<and> check_namespaces (ku_yaml e) (py_strip (q_ns q)) [] docs = Inr manifest_ns \<and> ns = str_or (py_strip (q_ns q)) manifest_ns
     \<and> get_deployment_name (ku_yaml e) content = Inr declared \<and> deploy_name declared (short_name project) = Some name
     \<and> Upload (tmp_file project (ku_token e)) content \<in> set tr)"

lemma rolls_out_ns: "rolls_out e q img project tr ns name \<Longrightarrow> py_strip (q_ns q) \<noteq> [] \<longrightarrow> ns = py_strip (q_ns q)"
  by (auto simp: rolls_out_def str_or_def)

lemma apply_manifest_success:
  assumes "apply_manifest e q img project raw tr = (x, tr')" "x = Go (True, out) \<or> x = Stop (True, out)"
  shows "\<exists>ns name. rolls_out e q img project tr' ns name
    \<and> exited0 (ku_machine e) tr' (apply_cmd ns (tmp_file project (ku_token e)))
    \<and> exited0 (ku_machine e) tr' (rollout_cmd (ku_rollout_timeout e) ns name)"
proof -
  obtain mns content declared docs where r: "roll_out e project (str_or (py_strip (q_ns q)) mns) content declared tr = (x, tr')"
      "render_k8s_yaml (ku_hints e) raw img (q_tag q) = Inr content" "ys_parse (ku_yaml e) content = Inr docs"
      "check_namespaces (ku_yaml e) (py_strip (q_ns q)) [] docs = Inr mns" "get_deployment_name (ku_yaml e) content = Inr declared"
    using assms unfolding apply_manifest_def by (auto simp: crash_def split: sum.splits)
  obtain name where n: "deploy_name declared (short_name project) = Some name"
      "Upload (tmp_file project (ku_token e)) content \<in> set tr'"
      "exited0 (ku_machine e) tr' (apply_cmd (str_or (py_strip (q_ns q)) mns) (tmp_file project (ku_token e)))"
      "exited0 (ku_machine e) tr' (rollout_cmd (ku_rollout_timeout e) (str_or (py_strip (q_ns q)) mns) name)"
    using roll_out_exit [OF r(1) assms(2)] by blast
  have "rolls_out e q img project tr' (str_or (py_strip (q_ns q)) mns) name"
    unfolding rolls_out_def using r(2-5) n(1,2) by blast
  with n(3,4) show ?thesis by blast
qed

lemma exec_on_no_stop [simp]: "exec_on m cmd tr \<noteq> (Stop r, tr')"
  by (auto simp: exec_on_def split: sum.splits)

lemma kubectl_deploy_success:
  assumes "fst (kubectl_deploy e q img project) = Inr (True, out)"
  shows "\<exists>ns name. rolls_out e q img project (snd (kubectl_deploy e q img project)) ns name
    \<and> exited0 (ku_machine e) (snd (kubectl_deploy e q img project)) (apply_cmd ns (tmp_file project (ku_token e)))
    \<and> exited0 (ku_machine e) (snd (kubectl_deploy e q img project)) (rollout_cmd (ku_rollout_timeout e) ns name)"
proof -
  obtain raw tr x where r: "apply_manifest e q img project raw tr = (x, snd (kubectl_deploy e q img project))"
      "x = Go (True, out) \<or> x = Stop (True, out)"
    using assms unfolding kubectl_deploy_def Let_def
    by (auto simp: run_caught_def read_manifest_def ret_def elim!: andthen_cases
        split: if_splits sum.splits prod.splits option.splits flow.splits)
  show ?thesis using apply_manifest_success [OF r] .
qed

text \<open>What a native rollback runs.\<close>

definition rollback_act :: "kube_env \<Rightarrow> k8s_req \<Rightarrow> action \<Rightarrow> bool" where
  "rollback_act e q a =
     (a = Fetch (q_path q) \<or> a = Exec (cat_cmd (q_path q)) \<or>
      (\<exists>name. a = Exec (undo_cmd (py_strip (q_ns q)) name) \<or> a = Exec (pods_cmd name (py_strip (q_ns q)))
         \<or> a = Exec (rollout_cmd (ku_rollout_timeout e) (py_strip (q_ns q)) name)))"

lemma rollback_acts [simp]:
  "rollback_act e q (Exec (undo_cmd (py_strip (q_ns q)) name))" "rollback_act e q (Exec (pods_cmd name (py_strip (q_ns q))))"
  "rollback_act e q (Exec (rollout_cmd (ku_rollout_timeout e) (py_strip (q_ns q)) name))"
  "rollback_act e q (Exec (cat_cmd (q_path q)))" "rollback_act e q (Fetch (q_path q))"
  by (auto simp: rollback_act_def)

lemma spec_undo: "spec (rollback_act e q) (\<lambda>_. True) (\<lambda>r. False) (undo_flow e q project content)"
  unfolding undo_flow_def Let_def by (auto intro!: spec_bind split: sum.splits option.splits prod.splits)

lemma spec_rollback_manifest: "spec (rollback_act e q) (\<lambda>_. True) (\<lambda>r. False) (rollback_manifest e q fetched)"
  unfolding rollback_manifest_def by (auto intro!: spec_bind)

lemma check_namespaces_none:
  "list_all (\<lambda>d. case d of YMap m \<Rightarrow> \<not> conflicts y ns m | _ \<Rightarrow> True) docs \<Longrightarrow>
   check_namespaces y ns seen docs =
     Inr (foldl (\<lambda>acc d. case d of YMap m \<Rightarrow> str_or acc (doc_namespace y m) | _ \<Rightarrow> acc) seen docs)"
  by (induction docs arbitrary: seen) (auto split: yaml.splits)

lemma check_namespaces_some:
  "YMap m \<in> set docs \<Longrightarrow> conflicts y ns m \<Longrightarrow>
   \<exists>m'. YMap m' \<in> set docs \<and> conflicts y ns m' \<and> check_namespaces y ns seen docs = Inl (mismatch_text y ns m')"
  by (induction docs arbitrary: seen) (fastforce split: yaml.splits)+

lemma run_caught_trace: "snd (run_caught p tr) = snd (p tr)"
  by (auto simp: run_caught_def split: prod.splits flow.splits)

lemma run_caught_acts:
  assumes "spec P Q R p" "list_all P tr"
  shows "list_all P (snd (run_caught p tr))"
  using specD [OF assms(1), of tr] assms(2)
  by (metis (mono_tags, lifting) run_caught_trace list_all_append)

text \<open>The part of the pattern in front of the first quote of a name.\<close>

lemma quote_body_plain: "quote_char \<notin> set s \<Longrightarrow> quote_body s = s"
  by (induction s) (auto simp: quote_body_def)

lemma split_apostrophed:
  "quote_char \<notin> set s \<Longrightarrow> sh_split Bare None (quote_char # s @ quote_char # rest) = sh_split Bare (Some (rev s)) rest"
  using split_quote_body [of "[]" s rest] by (simp add: quote_body_plain quote_char_def)

lemma re_escape_simps [simp]:
  "re_escape (a @ b) = re_escape a @ re_escape b" "re_escape (quote_char # b) = quote_char # re_escape b"
  "quote_char \<in> set (re_escape a) \<longleftrightarrow> quote_char \<in> set a"
  by (auto simp: re_escape_def re_special_def quote_char_def)

text \<open>A cluster of which every command succeeds, and a manifest with a namespace.\<close>

definition sample_manifest :: yaml where
  "sample_manifest = YMap [(''kind'', YStr ''Deployment''),
     (''metadata'', YMap [(''name'', YStr ''web''), (''namespace'', YStr ''prod'')])]"

definition sample_node :: machine where
  "sample_node = \<lparr>mc_connect = None, mc_exec = (\<lambda>_ _. Inr (''web-1'', [], 0)), mc_stream = (\<lambda>_ _. Inl []),
     mc_upload = (\<lambda>_ _ _. None), mc_fetch = (\<lambda>_ _. Inl []), mc_cancelled = (\<lambda>_. False)\<rparr>"

definition sample_kube :: kube_env where
  "sample_kube = \<lparr>ku_machine = sample_node, ku_settings = default_settings\<lparr>log_truncate_chars := 9\<rparr>,
     ku_hints = (''harbor'', ''h''), ku_yaml = \<lparr>ys_parse = (\<lambda>_. Inr [sample_manifest]), ys_show = (\<lambda>_. []), ys_bad_value = []\<rparr>,
     ku_token = ''0a'', ku_rollout_timeout = 9, ku_helm_timeout = 9, ku_no_registry = [], ku_current = [], ku_none = [],
     ku_start = [], ku_after = [], ku_deployed = [], ku_running = [], ku_ok = [], ku_bad = [], ku_success_mark = [],
     ku_failure_mark = [], ku_yaml_without = (\<lambda>p. p), ku_set_image_needs = (\<lambda>n. n)\<rparr>"

definition sample_req :: "string \<Rightarrow> k8s_req" where
  "sample_req ns = \<lparr>q_project = ''g/web'', q_tag = ''v1'', q_cd_type = ''kubectl'', q_cluster = 1, q_path = ''/m.yml'',
     q_api_url = [], q_ns = ns, q_note = [], q_scheduled = [], q_bot = 0, q_lang = ''en''\<rparr>"

definition sample_image :: k8s_image where
  "sample_image = \<lparr>ki_image = ''h/g/web:v1'', ki_key = ''g/web'', ki_short = ''web''\<rparr>"

definition sample_cluster :: cluster where
  "sample_cluster = \<lparr>cl_host = ''n'', cl_port = 22, cl_user = ''root'', cl_password = [], cl_key = []\<rparr>"

section \<open>Properties\<close>

text \<open>C33. A deployment to Kubernetes with kubectl is recorded as a success only if, on the machine
  of the cluster, the apply of the uploaded manifest and the wait for the rollout both ended with
  exit status 0, for the deployment that the manifest names (or else the project) and in the namespace of
  the request, or of the manifest when the request names none.\<close>

theorem kubectl_success:
  assumes "fst (deploy_k8s_core env (kubectl_remote at_cluster) u q ki cl False aid s) = KDone True i out"
  shows "\<exists>tr ns name. snd (kubectl_deploy (at_cluster cl) q (ki_image ki) (ki_short ki)) = tr
    \<and> rolls_out (at_cluster cl) q (ki_image ki) (ki_short ki) tr ns name
    \<and> exited0 (ku_machine (at_cluster cl)) tr (apply_cmd ns (tmp_file (ki_short ki) (ku_token (at_cluster cl))))
    \<and> exited0 (ku_machine (at_cluster cl)) tr (rollout_cmd (ku_rollout_timeout (at_cluster cl)) ns name)
    \<and> (py_strip (q_ns q) \<noteq> [] \<longrightarrow> ns = py_strip (q_ns q))"
proof -
  have "\<exists>out. fst (kubectl_deploy (at_cluster cl) q (ki_image ki) (ki_short ki)) = Inr (True, out)"
    using assms
    by (auto simp: deploy_k8s_core_def close_k8s_def kubectl_remote_def Let_def split: prod.splits sum.splits if_splits)
  then obtain said where "fst (kubectl_deploy (at_cluster cl) q (ki_image ki) (ki_short ki)) = Inr (True, said)" by blast
  from kubectl_deploy_success [OF this] show ?thesis using rolls_out_ns by blast
qed

theorem kubectl_success_witness:
  "\<exists>tr name. snd (kubectl_deploy sample_kube (sample_req []) ''h/g/web:v1'' ''web'') = tr \<and>
    exited0 sample_node tr (rollout_cmd 9 ''prod'' name)"
proof -
  let ?u = "\<lparr>u_name = ''bob'', u_role = [], u_perms = []\<rparr>"
  have "case kubectl_remote (\<lambda>_. sample_kube) False (sample_req ''prod'') ''h/g/web:v1'' ''web'' sample_cluster of
      Inr r \<Rightarrow> kr_success r | _ \<Rightarrow> False" by code_simp
  then obtain r where r: "kubectl_remote (\<lambda>_. sample_kube) False (sample_req ''prod'') ''h/g/web:v1'' ''web'' sample_cluster = Inr r"
      "kr_success r" by (auto split: sum.splits)
  have "isl (fst (begin_k8s sample_denv ?u (sample_req ''prod'') sample_image sample_cluster 0 sample_state)) = False" by code_simp
  then obtain i s1 where i: "begin_k8s sample_denv ?u (sample_req ''prod'') sample_image sample_cluster 0 sample_state = (Inr i, s1)"
    by (metis isl_def prod.collapse sumE)
  have "fst (deploy_k8s_core sample_denv (kubectl_remote (\<lambda>_. sample_kube)) ?u
      (sample_req ''prod'') sample_image sample_cluster False 0 sample_state) = KDone True i (kr_output r)"
    using i r by (simp add: deploy_k8s_core_def close_k8s_def Let_def sample_image_def)
  from kubectl_success [OF this]
  obtain ns name where r: "exited0 sample_node (snd (kubectl_deploy sample_kube (sample_req ''prod'') ''h/g/web:v1'' ''web''))
      (rollout_cmd 9 ns name)" "py_strip ''prod'' \<noteq> [] \<longrightarrow> ns = py_strip ''prod''"
    by (auto simp: sample_kube_def sample_req_def sample_image_def)
  have "snd (kubectl_deploy sample_kube (sample_req ''prod'') ''h/g/web:v1'' ''web'') =
      snd (kubectl_deploy sample_kube (sample_req []) ''h/g/web:v1'' ''web'')" "py_strip ''prod'' = ''prod''" by code_simp+
  then show ?thesis using r by auto
qed

text \<open>A manifest with a document that declares a namespace other than the requested one (and is
  of no cluster-wide kind) is refused before anything is uploaded or run.\<close>

theorem namespace_conflict_refused:
  assumes "render_k8s_yaml (ku_hints e) raw img (q_tag q) = Inr content" "ys_parse (ku_yaml e) content = Inr docs"
    and "YMap m \<in> set docs" "conflicts (ku_yaml e) (py_strip (q_ns q)) m"
  shows "\<exists>text. apply_manifest e q img project raw tr = (Stop (False, text), tr)"
  using check_namespaces_some [OF assms(3,4), of "[]"] assms(1,2) by (auto simp: apply_manifest_def)

theorem namespace_conflict_refused_witness:
  "\<exists>text. apply_manifest sample_kube (sample_req ''test'') ''h/g/web:v1'' ''web'' ''x'' [] = (Stop (False, text), [])"
proof -
  have f: "render_k8s_yaml (ku_hints sample_kube) ''x'' ''h/g/web:v1'' (q_tag (sample_req ''test'')) = Inr ''x''"
    "ys_parse (ku_yaml sample_kube) ''x'' = Inr [sample_manifest]" by code_simp+
  obtain m where m: "sample_manifest = YMap m" "conflicts (ku_yaml sample_kube) (py_strip (q_ns (sample_req ''test''))) m"
  proof -
    have "case sample_manifest of YMap m \<Rightarrow> conflicts (ku_yaml sample_kube) (py_strip (q_ns (sample_req ''test''))) m | _ \<Rightarrow> False"
      by code_simp
    then show ?thesis using that by (auto simp: sample_manifest_def)
  qed
  show ?thesis
    using namespace_conflict_refused [OF f, of m "''web''" "[]"] m by simp
qed

text \<open>The name that a manifest declares is escaped for the pattern but not for the shell: what
  follows a quote in it is read outside the quotes of the filter.\<close>

theorem pod_filter_unquoted:
  "quote_char \<notin> set a \<Longrightarrow>
   sh_split Bare None (apostrophed (pod_pattern (a @ quote_char # b)) @ rest) =
     sh_split Bare (Some (rev (CHR ''^'' # re_escape a))) (re_escape b @ ''-[a-f0-9]'' @ quote_char # rest)
   \<and> sh_split Bare None (apostrophed (pod_pattern a) @ rest) = sh_split Bare (Some (rev (pod_pattern a))) rest"
  using split_apostrophed [of "CHR ''^'' # re_escape a" "re_escape b @ ''-[a-f0-9]'' @ quote_char # rest"]
    split_apostrophed [of "pod_pattern a" rest]
  by (simp add: pod_pattern_def apostrophed_def quote_char_def [symmetric]) (simp add: quote_char_def)

theorem pod_filter_unquoted_witness:
  "sh_split Bare None (apostrophed (pod_pattern (''x'' @ quote_char # '';reboot'')) @ []) =
     sh_split Bare (Some (rev ''^x'')) ('';reboot'' @ ''-[a-f0-9]'' @ quote_char # [])"
proof -
  have "quote_char \<notin> set ''x''" "re_escape ''x'' = ''x''" "re_escape '';reboot'' = '';reboot''" by code_simp+
  then show ?thesis using pod_filter_unquoted [of "''x''" "'';reboot''" "[]"] by simp
qed

text \<open>A native rollback runs in the namespace of the request only: with an empty one, every
  command runs in the namespace of the context, whatever the manifest declares.\<close>

theorem rollback_in_request_namespace:
  "list_all (rollback_act e q) (snd (kubectl_rollback e q project))"
proof -
  have "spec (rollback_act e q) (\<lambda>_. True) (\<lambda>r. False) (andthen (rollback_manifest e q fetched) (undo_flow e q project))"
    for fetched using spec_rollback_manifest spec_undo by (rule spec_bind)
  from run_caught_acts [OF this] show ?thesis
    by (auto simp: kubectl_rollback_def Let_def split: option.splits)
qed

end
