(* ===== verification/K8sSsh.thy ===== *)
theory K8sSsh
  imports Compose Kubectl
begin

text \<open>
  \<^verbatim>\<open>backend/deployers/k8s.py\<close>: the strategy for a node of a cluster that is reached over
  SSH, with a manifest on the node (\<^verbatim>\<open>kubectl apply\<close>) or without one
  (\<^verbatim>\<open>kubectl set image\<close>).
\<close>

section \<open>Name and namespace of the manifest\<close>

text \<open>\<^verbatim>\<open>doc.get("metadata") or {}\<close>, which must be a mapping.\<close>

definition doc_identity :: "yaml_env \<Rightarrow> (string \<times> yaml) list \<Rightarrow> string + string \<times> string" where
  "doc_identity y m =
     (case (case map_of m ''metadata'' of Some v \<Rightarrow> if truthy v then v else YMap [] | None \<Rightarrow> YMap []) of
        YMap md \<Rightarrow> Inr (text_entry y md ''name'', text_entry y md ''namespace'')
      | _ \<Rightarrow> Inl (ys_bad_value y))"

text \<open>What the items of a list document iterate over.\<close>

definition list_items :: "yaml_env \<Rightarrow> (string \<times> yaml) list \<Rightarrow> string + yaml list" where
  "list_items y m =
     (case map_of m ''items'' of
        None \<Rightarrow> Inr []
      | Some v \<Rightarrow>
          if \<not> truthy v then Inr []
          else (case v of YSeq xs \<Rightarrow> Inr xs | YStr _ \<Rightarrow> Inr [] | YMap _ \<Rightarrow> Inr [] | _ \<Rightarrow> Inl (ys_bad_value y)))"

fun scan_docs :: "yaml_env \<Rightarrow> yaml list \<Rightarrow> string + string \<times> string" where
  "scan_docs y [] = Inr ([], [])"
| "scan_docs y (d # ds) =
     (case d of
        YMap m \<Rightarrow>
          if map_of m ''kind'' = Some (YStr ''Deployment'') then doc_identity y m
          else if map_of m ''kind'' = Some (YStr ''List'')
          then (case list_items y m of
                  Inl x \<Rightarrow> Inl x
                | Inr xs \<Rightarrow> (case first_deployment xs of Some i \<Rightarrow> doc_identity y i | None \<Rightarrow> scan_docs y ds))
          else scan_docs y ds
      | _ \<Rightarrow> scan_docs y ds)"

definition quiet_cat_cmd :: "string \<Rightarrow> string" where
  "quiet_cat_cmd path = ''cat '' @ sh_quote path @ '' 2>/dev/null''"

definition yaml_metadata :: "kube_env \<Rightarrow> string \<Rightarrow> (string \<times> string) cproc" where
  "yaml_metadata e path =
     andthen (exec_on (ku_machine e) (quiet_cat_cmd path)) (\<lambda>(out, _, _).
       if py_strip out = [] then ret ([], [])
       else case ys_parse (ku_yaml e) out of
              Inl _ \<Rightarrow> ret ([], [])
            | Inr docs \<Rightarrow> (case scan_docs (ku_yaml e) docs of Inl x \<Rightarrow> crash x | Inr r \<Rightarrow> ret r))"

section \<open>Deployment\<close>

definition get_deployment_cmd :: "string \<Rightarrow> string" where
  "get_deployment_cmd name = ''kubectl get deployment/'' @ sh_quote name @ ''  -o name 2>/dev/null''"

definition set_image_cmd :: "string \<Rightarrow> string \<Rightarrow> string \<Rightarrow> string" where
  "set_image_cmd name container img =
     py_strip (''kubectl set image deployment/'' @ sh_quote name @ '' '' @ sh_quote container @ ''='' @ sh_quote img @ '' '')"

definition k8s_ns_flag :: "string \<Rightarrow> string" where
  "k8s_ns_flag ns = (if ns = [] then [] else ''-n '' @ sh_quote ns)"

definition k8s_rollout_cmd :: "string \<Rightarrow> string \<Rightarrow> string" where
  "k8s_rollout_cmd name ns =
     py_strip (''kubectl rollout status deployment/'' @ sh_quote name @ '' '' @ k8s_ns_flag ns @ '' --timeout=120s'')"

text \<open>The Deployment and its namespace: from the manifest, or one that must exist.\<close>

definition find_deployment :: "kube_env \<Rightarrow> target \<Rightarrow> string \<Rightarrow> (string \<times> string) cproc" where
  "find_deployment e t project =
     (if tg_path t \<noteq> []
      then andthen (yaml_metadata e (tg_path t)) (\<lambda>(name, ns).
             if name = [] then stop_with (deploy_failed (ku_yaml_without e (tg_path t))) else ret (name, ns))
      else let name = (case o_deployment (tg_options t) of None \<Rightarrow> project | Some d \<Rightarrow> d)
           in andthen (exec_on (ku_machine e) (get_deployment_cmd name)) (\<lambda>(out, _, _).
                if py_strip out = [] then stop_with (deploy_failed (ku_set_image_needs e name)) else ret (name, [])))"

definition k8s_command :: "target \<Rightarrow> string \<Rightarrow> string \<Rightarrow> string \<Rightarrow> string" where
  "k8s_command t name img project =
     (if tg_path t \<noteq> [] then ''kubectl apply -f '' @ sh_quote (tg_path t)
      else set_image_cmd name (case o_container (tg_options t) of None \<Rightarrow> project | Some c \<Rightarrow> c) img)"

definition k8s_verdict :: "kube_env \<Rightarrow> string \<Rightarrow> string list \<Rightarrow> string \<Rightarrow> string \<Rightarrow> int \<Rightarrow> int \<Rightarrow> deploy_result" where
  "k8s_verdict e prior log rollout later ec rc =
     (let ok = (ec = 0 \<and> rc = 0 \<and> contains_sub ''successfully rolled out'' rollout)
      in \<lparr>dr_status = (if ok then ''ok'' else ''failed''), dr_output = cut e (deploy_report e prior log rollout later ok)\<rparr>)"

definition k8s_flow :: "kube_env \<Rightarrow> target \<Rightarrow> string \<Rightarrow> string \<Rightarrow> deploy_result cproc" where
  "k8s_flow e t img project =
     (let m = ku_machine e
      in andthen (find_deployment e t project) (\<lambda>(name, ns).
         andthen (kubectl_pods m name ns) (\<lambda>prior.
         andthen (exec_on m (k8s_command t name img project)) (\<lambda>(o', er, ec).
         andthen (exec_on m (k8s_rollout_cmd name ns)) (\<lambda>(ro, re, rc).
         andthen (kubectl_pods m name ns) (\<lambda>all_pods.
           ret (k8s_verdict e prior (nonempty [str_or o' er]) (py_strip (str_or ro re)) (new_pods prior all_pods) ec rc)))))))"

definition k8s_deploy :: "kube_env \<Rightarrow> target \<Rightarrow> string \<Rightarrow> string \<Rightarrow> deploy_result result \<times> action list" where
  "k8s_deploy e t img project =
     (if tg_host t = [] then (Inr (deploy_failed ''Missing K8s node host''), [])
      else in_session (ku_machine e) (k8s_flow e t img project))"

definition k8s_delete_cmd :: "string \<Rightarrow> string \<Rightarrow> string" where
  "k8s_delete_cmd ns project = ''kubectl delete deployment/'' @ sh_quote project @ ns_flag ns"

definition k8s_stop :: "kube_env \<Rightarrow> string \<Rightarrow> string \<Rightarrow> bool \<times> string" where
  "k8s_stop e k8s_ns project =
     (let m = ku_machine e; refused = (False, ''Stop service failed, please contact administrator'')
      in case mc_connect m of
           Some _ \<Rightarrow> refused
         | None \<Rightarrow>
             (case mc_exec m [] (k8s_delete_cmd (py_strip k8s_ns) project) of
                Inl _ \<Rightarrow> refused
              | Inr (o', er, c) \<Rightarrow>
                  (let out = cut e (str_or (py_strip er) (py_strip o'))
                   in if c \<noteq> 0 then (False, ''kubectl delete failed (exit '' @ int_str c @ ''): '' @ out) else (True, out))))"

section \<open>Laws\<close>

lemma in_session_done: "fst (in_session m p) = Inr r \<Longrightarrow> dr_status r = ''ok'' \<Longrightarrow>
    p [] = (Go r, snd (in_session m p)) \<or> p [] = (Stop r, snd (in_session m p))"
  by (auto simp: in_session_def deploy_failed_def split: option.splits prod.splits flow.splits)

lemma fails_find: "spec (\<lambda>_. True) (\<lambda>_. True) (\<lambda>r. dr_status r \<noteq> ''ok'') (find_deployment e t project)"
  unfolding find_deployment_def yaml_metadata_def Let_def
  by (auto intro!: spec_bind split: sum.splits prod.splits)

lemma fails_k8s_flow: "spec (\<lambda>_. True) (\<lambda>_. True) (\<lambda>r. dr_status r \<noteq> ''ok'') (k8s_flow e t img project)"
  unfolding k8s_flow_def Let_def by (auto intro!: spec_bind fails_find split: prod.splits)

lemma verdict_ok: "dr_status (k8s_verdict e prior log rollout later ec rc) = ''ok'' \<longleftrightarrow>
    ec = 0 \<and> rc = 0 \<and> contains_sub ''successfully rolled out'' rollout"
  by (simp add: k8s_verdict_def Let_def)

definition sample_up :: machine where
  "sample_up = sample_node\<lparr>mc_exec := (\<lambda>_ _. Inr (''deployment successfully rolled out'', [], 0))\<rparr>"

section \<open>Properties\<close>

text \<open>A deployment on a node succeeds only if the apply (or the change of the image) and the wait
  for the rollout ended with exit status 0.\<close>

theorem k8s_success:
  assumes "fst (k8s_deploy e t img project) = Inr r" "dr_status r = ''ok''"
  shows "\<exists>name ns. exited0 (ku_machine e) (snd (k8s_deploy e t img project)) (k8s_command t name img project)
    \<and> exited0 (ku_machine e) (snd (k8s_deploy e t img project)) (k8s_rollout_cmd name ns)"
proof -
  let ?m = "ku_machine e"
  let ?tr = "snd (k8s_deploy e t img project)"
  have d: "k8s_deploy e t img project = in_session ?m (k8s_flow e t img project)"
    using assms by (auto simp: k8s_deploy_def deploy_failed_def split: if_splits)
  have "fst (k8s_flow e t img project []) \<noteq> Stop r"
    using specD [OF fails_k8s_flow, of e t img project "[]"] assms(2) by metis
  then have "k8s_flow e t img project [] = (Go r, ?tr)"
    using in_session_done [of ?m "k8s_flow e t img project" r] assms unfolding d by auto
  then obtain name ns prior tr1 o1 e1 ec tr2 ro re rc tr3 all_pods where r:
      "(exec_on ?m (k8s_command t name img project) tr1 :: (deploy_result, _) flow \<times> _) = (Go (o1, e1, ec), tr2)"
      "(exec_on ?m (k8s_rollout_cmd name ns) tr2 :: (deploy_result, _) flow \<times> _) = (Go (ro, re, rc), tr3)"
      "(kubectl_pods ?m name ns tr3 :: (deploy_result, _) flow \<times> _) = (Go all_pods, ?tr)"
      "r = k8s_verdict e prior (nonempty [str_or o1 e1]) (py_strip (str_or ro re)) (new_pods prior all_pods) ec rc"
    unfolding k8s_flow_def Let_def by (fastforce simp: andthen_done ret_def split_beta)
  have z: "ec = 0" "rc = 0" using assms(2) unfolding r(4) verdict_ok by simp_all
  have "exited0 ?m tr2 (k8s_command t name img project)" "exited0 ?m tr3 (k8s_rollout_cmd name ns)"
    using r(1,2) unfolding z by (auto intro: exec_on_exit)
  moreover have "?tr = tr3 @ [Exec (pods_cmd name ns)]" "tr3 = tr2 @ [Exec (k8s_rollout_cmd name ns)]"
    using pods_grows [OF r(3)] exec_grows [OF r(2)] .
  ultimately show ?thesis using exited0_more by metis
qed

theorem k8s_success_witness:
  "\<exists>name ns. exited0 sample_up (snd (k8s_deploy (sample_kube\<lparr>ku_machine := sample_up\<rparr>) sample_target ''h/g/web:v1'' ''g/web''))
     (k8s_rollout_cmd name ns)"
proof -
  have "case fst (k8s_deploy (sample_kube\<lparr>ku_machine := sample_up\<rparr>) sample_target ''h/g/web:v1'' ''g/web'') of
      Inr r \<Rightarrow> dr_status r = ''ok'' | _ \<Rightarrow> False" by code_simp
  then obtain r where "fst (k8s_deploy (sample_kube\<lparr>ku_machine := sample_up\<rparr>) sample_target ''h/g/web:v1'' ''g/web'') = Inr r"
      "dr_status r = ''ok''" by (auto split: sum.splits)
  from k8s_success [OF this] show ?thesis by (auto simp: sample_kube_def)
qed

text \<open>With a manifest on the node the requested image plays no part: whatever image is asked for,
  the same commands run and the deployment ends the same way.\<close>

theorem manifest_ignores_image:
  "tg_path t \<noteq> [] \<Longrightarrow> k8s_deploy e t img project = k8s_deploy e t img' project"
  unfolding k8s_deploy_def k8s_flow_def k8s_command_def by simp

theorem manifest_ignores_image_witness:
  "fst (k8s_deploy sample_kube sample_target ''h/g/web:v1'' ''g/web'') = fst (k8s_deploy sample_kube sample_target ''h/g/web:v2'' ''g/web'')"
  using manifest_ignores_image [of sample_target sample_kube "''h/g/web:v1''" "''g/web''" "''h/g/web:v2''"]
  by (simp add: sample_target_def)

end
