(* ===== verification/Helm.thy ===== *)
theory Helm
  imports Kubectl
begin

text \<open>
  \<^verbatim>\<open>backend/deployers/k8s_helm.py\<close>: installation or upgrade of a chart, the native
  rollback and the uninstall, with the environment and the machine of theory Kubectl.
\<close>

section \<open>Commands\<close>

definition helm_list_cmd :: "string \<Rightarrow> string" where
  "helm_list_cmd ns = ''helm list -q'' @ ns_flag ns"

definition helm_upgrade_cmd :: "nat \<Rightarrow> string \<Rightarrow> string \<Rightarrow> string \<Rightarrow> string \<Rightarrow> string \<Rightarrow> string" where
  "helm_upgrade_cmd secs ns release chart tag repo =
     ''helm upgrade --install '' @ sh_quote release @ '' '' @ sh_quote chart @ '' --set image.tag='' @ sh_quote tag
     @ '' --set image.repository='' @ sh_quote repo @ ns_flag ns @ '' --wait --timeout '' @ nat_str secs @ ''s''"

definition helm_status_cmd :: "string \<Rightarrow> string \<Rightarrow> string" where
  "helm_status_cmd ns release = ''helm status '' @ sh_quote release @ ns_flag ns"

definition helm_rollback_cmd :: "nat \<Rightarrow> string \<Rightarrow> string \<Rightarrow> string" where
  "helm_rollback_cmd secs ns release =
     ''helm rollback '' @ sh_quote release @ ns_flag ns @ '' --wait --timeout '' @ nat_str secs @ ''s''"

definition helm_uninstall_cmd :: "string \<Rightarrow> string \<Rightarrow> string" where
  "helm_uninstall_cmd ns release = ''helm uninstall '' @ sh_quote release @ ns_flag ns"

section \<open>Deployment, rollback and stop\<close>

definition status_text_of :: "string \<times> string \<times> int \<Rightarrow> string" where
  "status_text_of r =
     (case r of (o', er, c) \<Rightarrow>
        if c \<noteq> 0 then (if er \<noteq> [] then ''(helm status unavailable: '' @ er @ '')'' else ''(helm status unavailable)'') else o')"

definition pod_status :: "string \<Rightarrow> string" where
  "pod_status later = nl2 @ ''Pod status:'' @ [newline] @ str_or later ''(none)''"

definition helm_result :: "kube_env \<Rightarrow> string \<times> string \<times> int \<Rightarrow> string \<Rightarrow> string \<Rightarrow> kresult" where
  "helm_result e r later status =
     (case r of (o', er, c) \<Rightarrow>
        if c \<noteq> 0 then (False, cut e (''Helm upgrade failed (exit '' @ int_str c @ ''):'' @ [newline] @ str_or er o'
               @ pod_status later @ nl2 @ status))
        else (True, cut e (status @ pod_status later)))"

definition check_list :: "kube_env \<Rightarrow> string \<Rightarrow> string kproc" where
  "check_list e ns =
     andthen (exec_on (ku_machine e) (helm_list_cmd ns)) (\<lambda>(o', er, c).
       if c \<noteq> 0 then fail (''helm list failed (exit '' @ int_str c @ ''):'' @ [newline] @ str_or er ''no output'') else ret o')"

definition helm_flow :: "kube_env \<Rightarrow> k8s_req \<Rightarrow> string \<Rightarrow> string \<Rightarrow> kresult kproc" where
  "helm_flow e q img project =
     (let m = ku_machine e; release = short_name project; ns = q_ns q
      in andthen (check_list e ns) (\<lambda>_.
         andthen (kubectl_pods m release []) (\<lambda>_.
         andthen (check_cancelled m) (\<lambda>_.
         andthen (exec_on m (helm_upgrade_cmd (ku_helm_timeout e) ns release (q_path q) (q_tag q) (fst (split_image_ref img)))) (\<lambda>r.
         andthen (kubectl_pods m release []) (\<lambda>later.
         andthen (exec_on m (helm_status_cmd ns release)) (\<lambda>status.
           ret (helm_result e r later (status_text_of status)))))))))"

text \<open>The connection is opened under the \<^verbatim>\<open>try\<close>.\<close>

definition in_try :: "machine \<Rightarrow> kresult kproc \<Rightarrow> kresult result \<times> action list" where
  "in_try m p = (case mc_connect m of Some x \<Rightarrow> (Inr (False, x), []) | None \<Rightarrow> run_caught p [])"

definition helm_deploy :: "kube_env \<Rightarrow> k8s_req \<Rightarrow> string \<Rightarrow> string \<Rightarrow> kresult result \<times> action list" where
  "helm_deploy e q img project =
     (if q_path q = [] then (Inr (False, ''Helm deploy requires a chart path or repo reference''), [])
      else in_try (ku_machine e) (helm_flow e q img project))"

definition helm_rollback_flow :: "kube_env \<Rightarrow> k8s_req \<Rightarrow> string \<Rightarrow> kresult kproc" where
  "helm_rollback_flow e q project =
     (let m = ku_machine e; release = short_name project; cmd = helm_rollback_cmd (ku_helm_timeout e) (q_ns q) release
      in andthen (check_list e (q_ns q)) (\<lambda>_.
         andthen (check_cancelled m) (\<lambda>_.
         andthen (exec_on m cmd) (\<lambda>(o', er, c).
         andthen (kubectl_pods m release []) (\<lambda>later.
           ret (c = 0, cut e (''Rollback command: '' @ cmd @ nl2 @ str_or o' er @ pod_status later @ nl2 @ ''Rollback: ''
                  @ (if c = 0 then ku_success_mark e @ '' success'' else ku_failure_mark e @ '' failed''))))))))"

definition helm_rollback :: "kube_env \<Rightarrow> k8s_req \<Rightarrow> string \<Rightarrow> kresult result \<times> action list" where
  "helm_rollback e q project = in_try (ku_machine e) (helm_rollback_flow e q project)"

definition helm_stop_flow :: "kube_env \<Rightarrow> string \<Rightarrow> string \<Rightarrow> kresult kproc" where
  "helm_stop_flow e ns project =
     (let m = ku_machine e
      in andthen (exec_on m (helm_list_cmd ns)) (\<lambda>(_, er, c).
         if c \<noteq> 0 then fail (''helm list failed: '' @ str_or er ''unknown error'')
         else andthen (exec_on m (helm_uninstall_cmd ns (short_name project))) (\<lambda>(o2, e2, c2).
                ret (c2 = 0, cut e (str_or o2 e2)))))"

definition helm_stop :: "kube_env \<Rightarrow> string \<Rightarrow> string \<Rightarrow> kresult \<times> action list" where
  "helm_stop e ns project =
     (let refused = (False, ''Stop service failed, please contact administrator'')
      in case mc_connect (ku_machine e) of
           Some _ \<Rightarrow> (refused, [])
         | None \<Rightarrow>
             (case helm_stop_flow e ns project [] of
                (Go r, tr) \<Rightarrow> (r, tr) | (Stop r, tr) \<Rightarrow> (r, tr) | (_, tr) \<Rightarrow> (refused, tr)))"

text \<open>As the remote part of the deployment to Kubernetes: the sub-mode of the request. ArgoCD
  and FluxCD are the parameter \<open>other\<close>.\<close>

definition helm_remote :: "(cluster \<Rightarrow> kube_env) \<Rightarrow> k8s_remote" where
  "helm_remote at_cluster rb q img short cl =
     (case fst (if rb then helm_rollback (at_cluster cl) q short else helm_deploy (at_cluster cl) q img short) of
        Inl x \<Rightarrow> Inl x
      | Inr (ok, out) \<Rightarrow> Inr \<lparr>kr_success = ok, kr_output = out, kr_summary = []\<rparr>)"

definition sub_remote :: "(cluster \<Rightarrow> kube_env) \<Rightarrow> k8s_remote \<Rightarrow> k8s_remote" where
  "sub_remote at_cluster other rb q img short cl =
     (if q_cd_type q = ''kubectl'' then kubectl_remote at_cluster rb q img short cl
      else if q_cd_type q = ''helm'' then helm_remote at_cluster rb q img short cl
      else other rb q img short cl)"

section \<open>Laws\<close>

lemma split_upgrade:
  "sh_split Bare None (helm_upgrade_cmd secs ns release chart tag repo) =
     Some ([''helm'', ''upgrade'', ''--install'', release, chart, ''--set'', ''image.tag='' @ tag, ''--set'',
       ''image.repository='' @ repo] @ ns_words ns @ [''--wait'', ''--timeout'', nat_str secs @ ''s''])"
  by (simp add: helm_upgrade_cmd_def split_simps split_ns split_nat ns_words_def)

lemma spec_check_list: "P (Exec (helm_list_cmd ns)) \<Longrightarrow> spec P (\<lambda>_. True) (\<lambda>r. \<not> fst r) (check_list e ns)"
  unfolding check_list_def by (auto intro!: spec_bind)

section \<open>Properties\<close>

text \<open>The command that Helm is started with parses into exactly the intended argument vector,
  whatever the release, chart, tag, repository and namespace hold.\<close>

theorem helm_argv:
  "sh_split Bare None (helm_upgrade_cmd secs ns release chart tag repo) =
     Some ([''helm'', ''upgrade'', ''--install'', release, chart, ''--set'', ''image.tag='' @ tag, ''--set'',
       ''image.repository='' @ repo] @ (if ns = [] then [] else [''-n'', ns]) @ [''--wait'', ''--timeout'', nat_str secs @ ''s''])"
  by (simp add: split_upgrade ns_words_def)

text \<open>Only these actions are taken by a Helm deployment and rollback: the pods are listed without
  a namespace, whatever the request says.\<close>

definition helm_act :: "kube_env \<Rightarrow> k8s_req \<Rightarrow> string \<Rightarrow> string \<Rightarrow> action \<Rightarrow> bool" where
  "helm_act e q img project a =
     (let release = short_name project
      in a \<in> {Exec (helm_list_cmd (q_ns q)), Exec (pods_cmd release []), Exec (helm_status_cmd (q_ns q) release),
        Exec (helm_rollback_cmd (ku_helm_timeout e) (q_ns q) release),
        Exec (helm_upgrade_cmd (ku_helm_timeout e) (q_ns q) release (q_path q) (q_tag q) (fst (split_image_ref img)))})"

lemma spec_helm: "spec (helm_act e q img project) (\<lambda>_. True) (\<lambda>r. \<not> fst r) (helm_flow e q img project)"
  unfolding helm_flow_def Let_def
  by (intro spec_bind spec_check_list spec_pods spec_exec spec_check)
    (simp_all add: helm_act_def Let_def)

lemma spec_helm_rollback: "spec (helm_act e q img project) (\<lambda>_. True) (\<lambda>r. \<not> fst r) (helm_rollback_flow e q project)"
  unfolding helm_rollback_flow_def Let_def
  by (intro spec_bind spec_check_list spec_pods spec_exec spec_check)
    (auto simp: helm_act_def Let_def intro!: spec_bind split: prod.splits)

lemma helm_acts:
  "list_all (helm_act e q img project) (snd (helm_deploy e q img project))"
  "list_all (helm_act e q img project) (snd (helm_rollback e q project))"
  using run_caught_acts [OF spec_helm [of e q img project], of "[]"]
    run_caught_acts [OF spec_helm_rollback [of e q img project], of "[]"]
  by (auto simp: helm_deploy_def helm_rollback_def in_try_def split: option.splits)

text \<open>Only the listing of pods starts with \<^verbatim>\<open>kubectl\<close>, and it names no namespace.\<close>

lemma helm_act_pods: "helm_act e q img project (Exec (pods_cmd name ns)) \<Longrightarrow> pods_cmd name ns = pods_cmd (short_name project) []"
  by (auto simp: helm_act_def Let_def pods_cmd_def helm_list_cmd_def helm_status_cmd_def helm_rollback_cmd_def helm_upgrade_cmd_def)

text \<open>A Helm deployment is a success only if the upgrade command ended with exit status 0 on
  the machine; the pods are always looked up without the requested namespace.\<close>

theorem helm_success:
  assumes "fst (helm_deploy e q img project) = Inr (True, out)"
  shows "exited0 (ku_machine e) (snd (helm_deploy e q img project))
      (helm_upgrade_cmd (ku_helm_timeout e) (q_ns q) (short_name project) (q_path q) (q_tag q) (fst (split_image_ref img)))
    \<and> (\<forall>name ns. Exec (pods_cmd name ns) \<in> set (snd (helm_deploy e q img project)) \<longrightarrow>
           pods_cmd name ns = pods_cmd (short_name project) [])"
proof -
  let ?m = "ku_machine e"
  let ?tr = "snd (helm_deploy e q img project)"
  let ?cmd = "helm_upgrade_cmd (ku_helm_timeout e) (q_ns q) (short_name project) (q_path q) (q_tag q) (fst (split_image_ref img))"
  have "fst (helm_flow e q img project []) \<noteq> Stop (True, out)"
    using specD [OF spec_helm, of e q img project "[]"] by (metis fst_conv)
  then have "helm_flow e q img project [] = (Go (True, out), ?tr)"
    using assms by (auto simp: helm_deploy_def in_try_def run_caught_def split: if_splits option.splits prod.splits flow.splits)
  then obtain r later status tr1 tr2 tr3 where r:
      "(exec_on ?m ?cmd tr1 :: (kresult, _) flow \<times> _) = (Go r, tr2)"
      "(kubectl_pods ?m (short_name project) [] tr2 :: (kresult, _) flow \<times> _) = (Go later, tr3)"
      "(exec_on ?m (helm_status_cmd (q_ns q) (short_name project)) tr3 :: (kresult, _) flow \<times> _) = (Go status, ?tr)"
      "helm_result e r later (status_text_of status) = (True, out)"
    unfolding helm_flow_def Let_def by (fastforce simp: andthen_done ret_def)
  have "\<exists>o' er. r = (o', er, 0)" using r(4) by (auto simp: helm_result_def split: prod.splits if_splits)
  then have "exited0 ?m tr2 ?cmd" using r(1) by (auto intro: exec_on_exit)
  moreover have "?tr = tr2 @ [Exec (pods_cmd (short_name project) []), Exec (helm_status_cmd (q_ns q) (short_name project))]"
    using pods_grows [OF r(2)] exec_grows [OF r(3)] by simp
  ultimately have "exited0 ?m ?tr ?cmd" using exited0_more by metis
  then show ?thesis using helm_acts(1) [of e q img project] helm_act_pods by (auto simp: list_all_iff)
qed

theorem helm_success_witness:
  "exited0 sample_node (snd (helm_deploy sample_kube (sample_req ''prod'') ''h/g/web:v1'' ''web''))
     (helm_upgrade_cmd 9 ''prod'' ''web'' ''/m.yml'' ''v1'' ''h/g/web'')"
proof -
  have "case fst (helm_deploy sample_kube (sample_req ''prod'') ''h/g/web:v1'' ''web'') of Inr (b, _) \<Rightarrow> b | _ \<Rightarrow> False" by code_simp
  then obtain out where "fst (helm_deploy sample_kube (sample_req ''prod'') ''h/g/web:v1'' ''web'') = Inr (True, out)"
    by (auto split: sum.splits)
  moreover have "ku_machine sample_kube = sample_node" "ku_helm_timeout sample_kube = 9" "q_ns (sample_req ''prod'') = ''prod''"
      "q_path (sample_req ''prod'') = ''/m.yml''" "q_tag (sample_req ''prod'') = ''v1''"
    by (simp_all add: sample_kube_def sample_req_def)
  moreover have "fst (split_image_ref ''h/g/web:v1'') = ''h/g/web''" "short_name ''web'' = ''web''" by code_simp+
  ultimately show ?thesis using helm_success [of sample_kube "sample_req ''prod''" "''h/g/web:v1''" "''web''" out] by simp
qed

end
