(* ===== verification/Oidc.thy ===== *)
theory Oidc
  imports Auth
begin

text \<open>
  \<^verbatim>\<open>backend/oidc.py\<close> and \<^verbatim>\<open>backend/routers/oidc.py\<close>: the sign-on through the
  identity provider. Discovery and keys are cached; the id_token is checked for its signature and
  its claims; the callback compares the state of the cookie, exchanges the code, admits the
  identity and creates a session. Base64 and JSON decoding, the RSA verification, the answers of
  the provider and the fresh random values are parameters; times are whole seconds.
\<close>

section \<open>JSON values\<close>

text \<open>Whole numbers and the special floats by value, other floats by their \<^verbatim>\<open>repr\<close>.\<close>

datatype num = Fin int | PosInf | NegInf | NaN

datatype json =
    JNull
  | JBool bool
  | JNum num
  | JReal string
  | JStr string
  | JList "json list"
  | JObj "(string \<times> json) list"

fun jtruthy :: "json \<Rightarrow> bool" where
  "jtruthy JNull = False"
| "jtruthy (JBool b) = b"
| "jtruthy (JNum n) = (n \<noteq> Fin 0)"
| "jtruthy (JReal s) = (s \<notin> {''0.0'', ''-0.0''})"
| "jtruthy (JStr s) = (s \<noteq> [])"
| "jtruthy (JList xs) = (xs \<noteq> [])"
| "jtruthy (JObj m) = (m \<noteq> [])"

text \<open>\<^verbatim>\<open>x.get(k)\<close>, where an absent key is \<^verbatim>\<open>None\<close>.\<close>

definition jget :: "(string \<times> json) list \<Rightarrow> string \<Rightarrow> json" where
  "jget m k = (case map_of m k of None \<Rightarrow> JNull | Some v \<Rightarrow> v)"

text \<open>\<^verbatim>\<open>a < b\<close> on floats: comparisons with a NaN are false.\<close>

fun num_less :: "num \<Rightarrow> num \<Rightarrow> bool" where
  "num_less NaN _ = False"
| "num_less _ NaN = False"
| "num_less _ NegInf = False"
| "num_less NegInf _ = True"
| "num_less PosInf _ = False"
| "num_less _ PosInf = True"
| "num_less (Fin a) (Fin b) = (a < b)"

fun num_minus :: "num \<Rightarrow> int \<Rightarrow> num" where
  "num_minus (Fin a) b = Fin (a - b)"
| "num_minus x _ = x"

section \<open>Errors and answers\<close>

text \<open>An \<open>OidcError\<close> with its status code, error key and the mark of an invalid grant, or an
  exception of another class.\<close>

datatype oidc_fail = OidcError nat "string option" bool | OidcCrash

definition oerr :: oidc_fail where
  "oerr = OidcError 502 None False"

datatype web = Unreachable | Reply int "json option"

record 'a ttl =
  tc_value :: "'a option"
  tc_expires :: epoch

definition ttl_get :: "epoch \<Rightarrow> 'a ttl \<Rightarrow> 'a option" where
  "ttl_get now c = (case tc_value c of None \<Rightarrow> None | Some v \<Rightarrow> if now < tc_expires c then Some v else None)"

definition ttl_set :: "int \<Rightarrow> epoch \<Rightarrow> 'a \<Rightarrow> 'a ttl \<Rightarrow> 'a ttl" where
  "ttl_set t now v c = \<lparr>tc_value = Some v, tc_expires = now + t\<rparr>"

definition ttl_clear :: "'a ttl \<Rightarrow> 'a ttl" where
  "ttl_clear c = \<lparr>tc_value = None, tc_expires = 0\<rparr>"

interpretation tc: ttl_cache ttl_get "ttl_set t" "\<lambda>c. map_option (\<lambda>v. (v, tc_expires c - t)) (tc_value c)" t for t
  by unfold_locales (auto simp: ttl_get_def ttl_set_def split: option.splits if_splits)

record sso_env =
  so_settings :: settings
  so_scopes :: string
  so_now :: epoch
  so_discovery :: web
  so_jwks :: "bool \<Rightarrow> string \<Rightarrow> web"
  so_token :: "string \<Rightarrow> string \<Rightarrow> web"
  so_show :: "json \<Rightarrow> string"
  so_float :: "string \<Rightarrow> num option"
  so_bytes :: "string \<Rightarrow> string option"
  so_json :: "string \<Rightarrow> json option"
  so_verify :: "string \<Rightarrow> string \<Rightarrow> string \<Rightarrow> string \<Rightarrow> bool option"

record sso_cache =
  sc_discovery :: "(string \<times> json) list ttl"
  sc_jwks :: "json list ttl"

definition jstr :: "sso_env \<Rightarrow> json \<Rightarrow> string" where
  "jstr e v = (case v of JStr s \<Rightarrow> s | _ \<Rightarrow> so_show e v)"

text \<open>\<^verbatim>\<open>str(v or "")\<close>.\<close>

definition jtext :: "sso_env \<Rightarrow> json \<Rightarrow> string" where
  "jtext e v = (if jtruthy v then jstr e v else [])"

section \<open>Discovery and keys\<close>

definition reset_caches :: "sso_cache \<Rightarrow> sso_cache" where
  "reset_caches c = \<lparr>sc_discovery = ttl_clear (sc_discovery c), sc_jwks = ttl_clear (sc_jwks c)\<rparr>"

definition check_discovery :: "sso_env \<Rightarrow> (string \<times> json) list \<Rightarrow> bool" where
  "check_discovery e d =
     (rstrip_char (CHR ''/'') (jtext e (jget d ''issuer'')) = oidc_issuer (so_settings e)
      \<and> list_all (\<lambda>k. jtruthy (jget d k)) [''authorization_endpoint'', ''token_endpoint'', ''jwks_uri'']
      \<and> (case jget d ''id_token_signing_alg_values_supported'' of
           JList algs \<Rightarrow> algs = [] \<or> JStr ''RS256'' \<in> set algs | _ \<Rightarrow> True))"

definition fetch_discovery :: "sso_env \<Rightarrow> oidc_fail + (string \<times> json) list" where
  "fetch_discovery e =
     (case so_discovery e of
        Reply code (Some (JObj d)) \<Rightarrow> if code = 200 \<and> check_discovery e d then Inr d else Inl oerr
      | _ \<Rightarrow> Inl oerr)"

definition discovery :: "sso_env \<Rightarrow> sso_cache \<Rightarrow> (oidc_fail + (string \<times> json) list) \<times> sso_cache" where
  "discovery e c =
     (case ttl_get (so_now e) (sc_discovery c) of
        Some d \<Rightarrow> (Inr d, c)
      | None \<Rightarrow> (case fetch_discovery e of
                  Inl x \<Rightarrow> (Inl x, c)
                | Inr d \<Rightarrow> (Inr d, c\<lparr>sc_discovery := ttl_set 3600 (so_now e) d (sc_discovery c)\<rparr>)))"

definition fetch_jwks :: "sso_env \<Rightarrow> bool \<Rightarrow> sso_cache \<Rightarrow> (oidc_fail + json list) \<times> sso_cache" where
  "fetch_jwks e again c =
     (case discovery e c of
        (Inl x, c') \<Rightarrow> (Inl x, c')
      | (Inr d, c') \<Rightarrow>
          (case so_jwks e again (jstr e (jget d ''jwks_uri'')) of
             Reply code (Some (JObj m)) \<Rightarrow>
               (case jget m ''keys'' of
                  JList ks \<Rightarrow> (if code = 200 \<and> ks \<noteq> [] then Inr ks else Inl oerr, c')
                | _ \<Rightarrow> (Inl oerr, c'))
           | _ \<Rightarrow> (Inl oerr, c')))"

definition jwks :: "sso_env \<Rightarrow> bool \<Rightarrow> sso_cache \<Rightarrow> (oidc_fail + json list) \<times> sso_cache" where
  "jwks e force c =
     (case (if force then None else ttl_get (so_now e) (sc_jwks c)) of
        Some ks \<Rightarrow> (Inr ks, c)
      | None \<Rightarrow>
          (case fetch_jwks e force c of
             (Inl x, c') \<Rightarrow> (Inl x, c')
           | (Inr ks, c') \<Rightarrow> (Inr ks, c'\<lparr>sc_jwks := ttl_set 3600 (so_now e) ks (sc_jwks c')\<rparr>)))"

text \<open>The first RSA key with the identifier; an entry that is no object raises.\<close>

fun pick_key :: "json \<Rightarrow> json list \<Rightarrow> oidc_fail + (string \<times> json) list option" where
  "pick_key kid [] = Inr None"
| "pick_key kid (k # ks) =
     (case k of
        JObj m \<Rightarrow> if jget m ''kid'' = kid \<and> jget m ''kty'' = JStr ''RSA'' then Inr (Some m) else pick_key kid ks
      | _ \<Rightarrow> Inl OidcCrash)"

definition find_key :: "sso_env \<Rightarrow> json \<Rightarrow> sso_cache \<Rightarrow> (oidc_fail + (string \<times> json) list option) \<times> sso_cache" where
  "find_key e kid c =
     (case jwks e False c of
        (Inl x, c1) \<Rightarrow> (Inl x, c1)
      | (Inr ks, c1) \<Rightarrow>
          (case pick_key kid ks of
             Inl x \<Rightarrow> (Inl x, c1)
           | Inr (Some k) \<Rightarrow> (Inr (Some k), c1)
           | Inr None \<Rightarrow>
               (case jwks e True c1 of
                  (Inl x, c2) \<Rightarrow> (Inl x, c2)
                | (Inr ks2, c2) \<Rightarrow> (pick_key kid ks2, c2))))"

section \<open>The authorization request and the exchange\<close>

definition hex_char :: "nat \<Rightarrow> char" where
  "hex_char n = (if n < 10 then digit_char n else char_of (n + 55))"

text \<open>\<^verbatim>\<open>urllib.parse.quote_plus\<close> on bytes.\<close>

definition quote_plus :: "string \<Rightarrow> string" where
  "quote_plus s = concat (List.map (\<lambda>c. if is_upper c \<or> is_lower c \<or> is_digit c \<or> c \<in> set ''_.-~'' then [c]
     else if c = CHR '' '' then ''+'' else [CHR ''%'', hex_char (of_char c div 16), hex_char (of_char c mod 16)]) s)"

definition urlencode :: "(string \<times> string) list \<Rightarrow> string" where
  "urlencode ps = py_join ''&'' (List.map (\<lambda>(k, v). quote_plus k @ ''='' @ quote_plus v) ps)"

definition authorize_url :: "sso_env \<Rightarrow> string \<Rightarrow> string \<Rightarrow> sso_cache \<Rightarrow> (oidc_fail + string) \<times> sso_cache" where
  "authorize_url e state nonce c =
     (case discovery e c of
        (Inl x, c') \<Rightarrow> (Inl x, c')
      | (Inr d, c') \<Rightarrow>
          (Inr (jstr e (jget d ''authorization_endpoint'') @ ''?'' @
             urlencode [(''response_type'', ''code''), (''client_id'', oidc_client_id (so_settings e)),
               (''redirect_uri'', oidc_redirect_uri (so_settings e)), (''scope'', so_scopes e),
               (''state'', state), (''nonce'', nonce)]), c'))"

definition token_failure :: "sso_env \<Rightarrow> int \<Rightarrow> json option \<Rightarrow> oidc_fail" where
  "token_failure e code body =
     (case (case body of None \<Rightarrow> Some [] | Some b \<Rightarrow> if \<not> jtruthy b then Some []
              else (case b of JObj m \<Rightarrow> Some (jtext e (jget m ''error'')) | _ \<Rightarrow> None)) of
        None \<Rightarrow> OidcCrash
      | Some err \<Rightarrow>
          if err = ''invalid_grant'' then OidcError 400 None True
          else if code = 400 \<or> code = 401 then oerr
          else OidcError 502 (Some ''errors.sso_upstream_error'') False)"

text \<open>The result is the id_token of the answer.\<close>

definition exchange_code :: "sso_env \<Rightarrow> string \<Rightarrow> sso_cache \<Rightarrow> (oidc_fail + json) \<times> sso_cache" where
  "exchange_code e code c =
     (case discovery e c of
        (Inl x, c') \<Rightarrow> (Inl x, c')
      | (Inr d, c') \<Rightarrow>
          (case so_token e (jstr e (jget d ''token_endpoint'')) code of
             Unreachable \<Rightarrow> (Inl oerr, c')
           | Reply status body \<Rightarrow>
               if status = 200
               then (case body of
                       Some (JObj m) \<Rightarrow> (if jtruthy (jget m ''id_token'') then Inr (jget m ''id_token'') else Inl oerr, c')
                     | _ \<Rightarrow> (Inl oerr, c'))
               else (Inl (token_failure e status body), c')))"

section \<open>The id token\<close>

definition verify_signature ::
  "sso_env \<Rightarrow> (string \<times> json) list \<Rightarrow> string \<Rightarrow> string \<Rightarrow> sso_cache \<Rightarrow> (oidc_fail + unit) \<times> sso_cache" where
  "verify_signature e header signature input c =
     (if jget header ''alg'' \<noteq> JStr ''RS256'' then (Inl oerr, c)
      else let kid = jget header ''kid''
           in case (if jtruthy kid then find_key e kid c else (Inr None, c)) of
                (Inl x, c') \<Rightarrow> (Inl x, c')
              | (Inr None, c') \<Rightarrow> (Inl oerr, c')
              | (Inr (Some key), c') \<Rightarrow>
                  (case (jget key ''n'', jget key ''e'') of
                     (JStr n, JStr ex) \<Rightarrow>
                       (if so_verify e n ex signature input = Some True then Inr () else Inl oerr, c')
                   | _ \<Rightarrow> (Inl oerr, c')))"

text \<open>\<^verbatim>\<open>float(v)\<close>; \<open>None\<close> is a \<^verbatim>\<open>TypeError\<close> or \<^verbatim>\<open>ValueError\<close>.\<close>

definition to_float :: "sso_env \<Rightarrow> json \<Rightarrow> num option" where
  "to_float e v =
     (case v of
        JNum n \<Rightarrow> Some n
      | JBool b \<Rightarrow> Some (Fin (if b then 1 else 0))
      | JReal s \<Rightarrow> so_float e s
      | JStr s \<Rightarrow> so_float e s
      | _ \<Rightarrow> None)"

text \<open>The audiences; \<open>None\<close> is a value that cannot be iterated.\<close>

definition audiences :: "json \<Rightarrow> json list option" where
  "audiences aud =
     (case aud of
        JStr s \<Rightarrow> Some [JStr s]
      | JList xs \<Rightarrow> Some xs
      | JObj m \<Rightarrow> Some (List.map (\<lambda>(k, _). JStr k) m)
      | _ \<Rightarrow> if jtruthy aud then None else Some [])"

definition claimed_user :: "sso_env \<Rightarrow> (string \<times> json) list \<Rightarrow> string" where
  "claimed_user e claims =
     py_lower (py_strip (if jtruthy (jget claims ''preferred_username'') then jstr e (jget claims ''preferred_username'')
       else jtext e (jget claims ''sub'')))"

definition time_valid :: "sso_env \<Rightarrow> (string \<times> json) list \<Rightarrow> bool" where
  "time_valid e claims =
     (case (case map_of claims ''exp'' of None \<Rightarrow> None | Some x \<Rightarrow> to_float e x,
            case map_of claims ''iat'' of None \<Rightarrow> Some (Fin (so_now e)) | Some i \<Rightarrow> to_float e i) of
        (Some x, Some i) \<Rightarrow>
          \<not> num_less x (Fin (so_now e - oidc_id_token_max_skew (so_settings e)))
          \<and> \<not> num_less (Fin (so_now e)) (num_minus i (oidc_id_token_max_skew (so_settings e)))
      | _ \<Rightarrow> False)"

definition verify_claims :: "sso_env \<Rightarrow> (string \<times> json) list \<Rightarrow> string \<Rightarrow> oidc_fail + string" where
  "verify_claims e claims nonce =
     (if rstrip_char (CHR ''/'') (jtext e (jget claims ''iss'')) \<noteq> oidc_issuer (so_settings e) then Inl oerr
      else case audiences (jget claims ''aud'') of
             None \<Rightarrow> Inl OidcCrash
           | Some auds \<Rightarrow>
               if JStr (oidc_client_id (so_settings e)) \<notin> set auds then Inl oerr
               else if \<not> time_valid e claims then Inl oerr
               else if nonce = [] \<or> jtext e (jget claims ''nonce'') \<noteq> nonce then Inl oerr
               else if claimed_user e claims = [] then Inl oerr
               else Inr (claimed_user e claims))"

definition verify_id_token ::
  "sso_env \<Rightarrow> json \<Rightarrow> string \<Rightarrow> sso_cache \<Rightarrow> (oidc_fail + string) \<times> sso_cache" where
  "verify_id_token e token nonce c =
     (case (if jtruthy token then token else JStr []) of
        JStr t \<Rightarrow>
          (case split_on (CHR ''.'') t of
             [h, p, sg] \<Rightarrow>
               (case (map_option (so_json e) (so_bytes e h), map_option (so_json e) (so_bytes e p), so_bytes e sg) of
                  (Some (Some (JObj header)), Some (Some (JObj claims)), Some signature) \<Rightarrow>
                    (case verify_signature e header signature (h @ ''.'' @ p) c of
                       (Inl x, c') \<Rightarrow> (Inl x, c')
                     | (Inr _, c') \<Rightarrow> (verify_claims e claims nonce, c'))
                | _ \<Rightarrow> (Inl oerr, c))
           | _ \<Rightarrow> (Inl oerr, c))
      | _ \<Rightarrow> (Inl OidcCrash, c))"

end
