(* ===== verification/Argocd.thy ===== *)
theory Argocd
  imports Helm Oidc
begin

text \<open>
  \<^verbatim>\<open>backend/deployers/k8s_argocd.py\<close>: deployment through the API of Argo CD (find the
  application, change its image, synchronise, poll), the native rollback to the previous entry of
  its history, and the stop. The API, JSON, \<^verbatim>\<open>str\<close> of a value and the texts of the messages
  are parameters; an answer may depend on all calls made before. The ids of history entries are
  numbers.
\<close>

record argo_env =
  ag_machine :: machine
  ag_call :: "action list \<Rightarrow> string \<Rightarrow> string \<Rightarrow> string \<Rightarrow> (int \<times> string) option"
  ag_json :: "string \<Rightarrow> json option"
  ag_show :: "json \<Rightarrow> string"
  ag_dump :: "json \<Rightarrow> string"
  ag_msg :: "string \<Rightarrow> string list \<Rightarrow> string"
  ag_host :: string

type_synonym 'a aproc = "(k8s_result, 'a) proc"

section \<open>Calls, messages and values\<close>

definition api_call :: "argo_env \<Rightarrow> string \<Rightarrow> string \<Rightarrow> string \<Rightarrow> (int \<times> string) aproc" where
  "api_call e m url body tr =
     (case ag_call e tr m url body of
        None \<Rightarrow> (Crash [], tr @ [Call m url body])
      | Some r \<Rightarrow> (Go r, tr @ [Call m url body]))"

definition say :: "string \<Rightarrow> unit aproc" where
  "say msg tr = (Go (), tr @ [Say msg])"

definition said :: "action list \<Rightarrow> string" where
  "said tr = py_join [newline] (List.map_filter (\<lambda>a. case a of Say m \<Rightarrow> Some m | _ \<Rightarrow> None) tr)"

definition plain_result :: "bool \<Rightarrow> string \<Rightarrow> k8s_result" where
  "plain_result ok out = \<lparr>kr_success = ok, kr_output = out, kr_summary = []\<rparr>"

text \<open>The end with the messages so far as the output.\<close>

definition quit_with :: "bool \<Rightarrow> string \<Rightarrow> 'a aproc" where
  "quit_with ok summary tr = (Stop \<lparr>kr_success = ok, kr_output = said tr, kr_summary = summary\<rparr>, tr)"

definition say_fail :: "string \<Rightarrow> 'a aproc" where
  "say_fail msg = andthen (say msg) (\<lambda>_. stop_with (plain_result False msg))"

definition or_crash :: "'a option \<Rightarrow> 'a aproc" where
  "or_crash x = (case x of None \<Rightarrow> crash [] | Some v \<Rightarrow> ret v)"

text \<open>\<^verbatim>\<open>x.get(k, d)\<close>, and a chain of them with \<^verbatim>\<open>{}\<close> in between; \<open>None\<close> is
  an \<^verbatim>\<open>AttributeError\<close>.\<close>

fun getd :: "json \<Rightarrow> string \<Rightarrow> json \<Rightarrow> json option" where
  "getd (JObj m) k d = Some (case map_of m k of None \<Rightarrow> d | Some v \<Rightarrow> v)"
| "getd _ _ _ = None"

fun dig :: "json \<Rightarrow> string list \<Rightarrow> json \<Rightarrow> json option" where
  "dig j [] d = Some j"
| "dig j [k] d = getd j k d"
| "dig j (k # ks) d = Option.bind (getd j k (JObj [])) (\<lambda>v. dig v ks d)"

text \<open>Iteration: a list, the characters or the keys; anything else raises.\<close>

fun jiter :: "json \<Rightarrow> json list option" where
  "jiter (JList xs) = Some xs"
| "jiter (JStr s) = Some (List.map (\<lambda>c. JStr [c]) s)"
| "jiter (JObj m) = Some (List.map (\<lambda>(k, _). JStr k) m)"
| "jiter _ = None"

fun jput :: "string \<Rightarrow> json \<Rightarrow> (string \<times> json) list \<Rightarrow> (string \<times> json) list" where
  "jput k v [] = [(k, v)]"
| "jput k v ((k', v') # m) = (if k' = k then (k, v) # m else (k', v') # jput k v m)"

definition shown :: "argo_env \<Rightarrow> json \<Rightarrow> string" where
  "shown e v = (case v of JStr s \<Rightarrow> s | _ \<Rightarrow> ag_show e v)"

section \<open>Finding the application\<close>

definition argo_base :: "argo_env \<Rightarrow> k8s_req \<Rightarrow> string" where
  "argo_base e q = str_or (q_api_url q) (''https://'' @ ag_host e)"

definition app_url :: "string \<Rightarrow> string \<Rightarrow> string" where
  "app_url base name = base @ ''/api/v1/applications/'' @ name"

text \<open>The name of the first application whose specification matches.\<close>

fun find_app :: "argo_env \<Rightarrow> (string \<Rightarrow> bool) \<Rightarrow> json list \<Rightarrow> json option option" where
  "find_app e p [] = Some None"
| "find_app e p (a # as) =
     Option.bind (dig a [''metadata'', ''name''] (JStr [])) (\<lambda>name.
     Option.bind (getd a ''spec'' (JObj [])) (\<lambda>spec.
       if p (shown e spec) then Some (Some name) else find_app e p as))"

definition get_fail :: "argo_env \<Rightarrow> int \<times> string \<Rightarrow> 'a aproc" where
  "get_fail e r = say_fail (ag_msg e ''argocd_get_fail'' [int_str (fst r), take 200 (snd r)])"

text \<open>The application of the name, or the first that matches, with the text of its answer.\<close>

definition discover_app :: "argo_env \<Rightarrow> string \<Rightarrow> string \<Rightarrow> (string \<Rightarrow> bool) \<Rightarrow> (string \<times> string) aproc" where
  "discover_app e base app p =
     andthen (api_call e ''GET'' (app_url base app) []) (\<lambda>r.
       if fst r = 200 then ret (app, snd r)
       else andthen (say (ag_msg e ''argocd_searching'' [])) (\<lambda>_.
            andthen (api_call e ''GET'' (base @ ''/api/v1/applications'') []) (\<lambda>l.
              if fst l \<noteq> 200 then get_fail e r
              else andthen (or_crash (Option.bind (ag_json e (snd l)) (\<lambda>j.
                     Option.bind (getd j ''items'' (JList [])) (\<lambda>i. Option.bind (jiter i) (find_app e p))))) (\<lambda>found.
                     case found of
                       None \<Rightarrow> get_fail e r
                     | Some n \<Rightarrow>
                         if \<not> jtruthy n then get_fail e r
                         else andthen (say (ag_msg e ''argocd_name_diff'' [shown e n])) (\<lambda>_.
                              andthen (api_call e ''GET'' (app_url base (shown e n)) []) (\<lambda>r2.
                                if fst r2 = 200 then ret (shown e n, snd r2) else get_fail e r2))))))"

section \<open>Polling\<close>

text \<open>Health, synchronisation and revision of an application.\<close>

definition read_status :: "json \<Rightarrow> (json \<times> json \<times> json) option" where
  "read_status a =
     Option.bind (dig a [''status'', ''health'', ''status''] (JStr [])) (\<lambda>h.
     Option.bind (dig a [''status'', ''sync'', ''status''] (JStr [])) (\<lambda>s.
     Option.bind (dig a [''status'', ''sync'', ''revision''] JNull) (\<lambda>r.
       if jtruthy r then Some (h, s, r)
       else map_option (\<lambda>r2. (h, s, if jtruthy r2 then r2 else JStr []))
              (dig a [''status'', ''operationState'', ''operation'', ''sync'', ''revision''] JNull))))"

definition unknown :: "argo_env \<Rightarrow> json \<Rightarrow> string" where
  "unknown e v = (if jtruthy v then shown e v else ''Unknown'')"

definition in_sync :: "json \<Rightarrow> json \<Rightarrow> bool" where
  "in_sync h s = (h = JStr ''Healthy'' \<and> s = JStr ''Synced'')"

text \<open>The rounds left, the number of the next one, and what was read last; \<open>hold\<close> tells why an
  application in sync is not yet accepted.\<close>

fun poll_app ::
  "argo_env \<Rightarrow> string \<Rightarrow> (json \<Rightarrow> string option) \<Rightarrow> nat \<Rightarrow> nat \<Rightarrow> json \<times> json \<times> json \<Rightarrow> (bool \<times> json \<times> json \<times> json) aproc" where
  "poll_app e url hold i 0 seen = andthen (say (ag_msg e ''argocd_timeout'' [])) (\<lambda>_. ret (False, seen))"
| "poll_app e url hold i (Suc left) seen =
     andthen (check_cancelled (ag_machine e)) (\<lambda>_.
     andthen (api_call e ''GET'' url []) (\<lambda>r.
       if fst r \<noteq> 200
       then andthen (say (ag_msg e ''argocd_poll_fail'' [int_str (fst r), take 200 (snd r)])) (\<lambda>_.
              poll_app e url hold (Suc i) left seen)
       else andthen (or_crash (Option.bind (ag_json e (snd r)) read_status)) (\<lambda>(h, s, v).
            andthen (say (ag_msg e ''argocd_wait'' [nat_str i, ''30'', unknown e h, unknown e s])) (\<lambda>_.
              if \<not> in_sync h s then poll_app e url hold (Suc i) left (h, s, v)
              else case hold v of
                     Some msg \<Rightarrow> andthen (say msg) (\<lambda>_. poll_app e url hold (Suc i) left (h, s, v))
                   | None \<Rightarrow> andthen (say (ag_msg e ''argocd_healthy'' [shown e s])) (\<lambda>_. ret (True, h, s, v))))))"

section \<open>Deployment\<close>

definition tag_parameter :: "string \<Rightarrow> json" where
  "tag_parameter tag = JObj [(''name'', JStr ''image.tag''), (''value'', JStr tag)]"

text \<open>The Helm parameters with the tag set; \<open>None\<close>: an entry that is no object.\<close>

fun set_tag :: "string \<Rightarrow> json list \<Rightarrow> json list option" where
  "set_tag tag [] = Some [tag_parameter tag]"
| "set_tag tag (p # ps) =
     (case p of
        JObj m \<Rightarrow> if jget m ''name'' = JStr ''image.tag'' then Some (JObj (jput ''value'' (JStr tag) m) # ps)
                  else map_option ((#) p) (set_tag tag ps)
      | _ \<Rightarrow> None)"

definition in_source :: "json \<Rightarrow> json" where
  "in_source x = JObj [(''spec'', JObj [(''source'', x)])]"

definition image_patch :: "json \<Rightarrow> string \<Rightarrow> string \<Rightarrow> string \<Rightarrow> json option" where
  "image_patch app name repo tag =
     Option.bind (dig app [''spec'', ''source'', ''helm'', ''parameters''] (JList [])) (\<lambda>params.
     Option.bind (dig app [''spec'', ''source'', ''kustomize''] (JObj [])) (\<lambda>kustomize.
       if jtruthy kustomize
       then Some (in_source (JObj [(''kustomize'', JObj [(''images'', JList [JObj [(''name'', JStr name),
              (''newName'', JStr repo), (''newTag'', JStr (str_or tag ''latest''))]])])]))
       else case params of
              JList ps \<Rightarrow> map_option (\<lambda>ps'. in_source (JObj [(''helm'', JObj [(''parameters'', JList ps')])]))
                            (set_tag (str_or tag ''latest'') ps)
            | _ \<Rightarrow> None))"

text \<open>A change through the API, with its messages before and after.\<close>

definition api_step :: "argo_env \<Rightarrow> string \<Rightarrow> string \<Rightarrow> string \<Rightarrow> string \<Rightarrow> unit aproc" where
  "api_step e what m url body =
     andthen (say (ag_msg e what [])) (\<lambda>_.
     andthen (api_call e m url body) (\<lambda>r.
       if fst r \<noteq> 200
       then andthen (say (ag_msg e (what @ ''_fail'') [int_str (fst r), take 200 (snd r)])) (\<lambda>_. quit_with False [])
       else say (ag_msg e (what @ ''_ok'') [])))"

text \<open>The wait, and before it the change of the image and the synchronisation.\<close>

definition argo_wait :: "argo_env \<Rightarrow> string \<Rightarrow> k8s_result aproc" where
  "argo_wait e url =
     andthen (poll_app e url (\<lambda>_. None) 1 30 (JStr [], JStr [], JStr [])) (\<lambda>(ok, h, s, v).
       if ok then quit_with True []
       else andthen (say (''[argocd] Sync status='' @ unknown e s @ ''; health='' @ unknown e h @ ''; revision='' @ unknown e v)) (\<lambda>_.
            quit_with False []))"

definition argo_change :: "argo_env \<Rightarrow> string \<Rightarrow> string \<Rightarrow> json \<Rightarrow> k8s_result aproc" where
  "argo_change e base app patch =
     andthen (api_step e ''argocd_update'' ''PUT'' (app_url base app) (ag_dump e patch)) (\<lambda>_.
     andthen (api_step e ''argocd_sync'' ''POST'' (app_url base app @ ''/sync'') (ag_dump e (JObj []))) (\<lambda>_.
       argo_wait e (app_url base app)))"

definition argo_prepare :: "argo_env \<Rightarrow> string \<Rightarrow> string \<Rightarrow> string \<Rightarrow> string \<Rightarrow> json aproc" where
  "argo_prepare e app repo tag answer =
     andthen (or_crash (ag_json e answer)) (\<lambda>a.
     andthen (say (ag_msg e ''argocd_prepare'' [])) (\<lambda>_. or_crash (image_patch a app repo tag)))"

definition argo_flow :: "argo_env \<Rightarrow> k8s_req \<Rightarrow> string \<Rightarrow> string \<Rightarrow> k8s_result aproc" where
  "argo_flow e q img project =
     (let base = argo_base e q; repo = fst (split_image_ref img); tag = snd (split_image_ref img)
      in andthen (say (ag_msg e ''argocd_connecting'' [])) (\<lambda>_.
         andthen (discover_app e base (short_name project) (\<lambda>spec. contains_sub repo spec \<or> contains_sub project spec)) (\<lambda>(app, answer).
         andthen (argo_prepare e app repo tag answer) (argo_change e base app))))"

text \<open>\<^verbatim>\<open>except Exception\<close>: the fixed message is the output; a cancellation leaves.\<close>

definition argo_caught :: "argo_env \<Rightarrow> string \<Rightarrow> k8s_result aproc \<Rightarrow> k8s_result result \<times> action list" where
  "argo_caught e key p =
     (case p [] of
        (Go r, tr) \<Rightarrow> (Inr r, tr)
      | (Stop r, tr) \<Rightarrow> (Inr r, tr)
      | (Crash _, tr) \<Rightarrow> (Inr (plain_result False (ag_msg e key [])), tr @ [Say (ag_msg e key [])])
      | (Abort, tr) \<Rightarrow> (Inl DeployCancelled, tr))"

definition argocd_deploy :: "argo_env \<Rightarrow> k8s_req \<Rightarrow> string \<Rightarrow> string \<Rightarrow> k8s_result result \<times> action list" where
  "argocd_deploy e q img project = argo_caught e ''argocd_deploy_error'' (argo_flow e q img project)"

section \<open>Rollback and stop\<close>

fun id_of :: "json \<Rightarrow> int option" where
  "id_of (JNum (Fin i)) = Some i"
| "id_of (JBool b) = Some (if b then 1 else 0)"
| "id_of _ = None"

text \<open>The history in the order of its ids.\<close>

definition sort_history :: "json \<Rightarrow> json list option" where
  "sort_history h =
     Option.bind (if jtruthy h then jiter h else Some []) (\<lambda>hs.
     Option.bind (those (List.map (\<lambda>x. getd x ''id'' (JNum (Fin 0))) hs)) (\<lambda>ids.
       if length hs < 2 then Some hs
       else if list_all (\<lambda>i. id_of i \<noteq> None) ids
       then Some (List.map snd (sort_key fst (zip (List.map (the \<circ> id_of) ids) hs))) else None))"

definition entry_of_history :: "json \<Rightarrow> json \<times> json" where
  "entry_of_history h = (case h of JObj m \<Rightarrow> (jget m ''id'', case map_of m ''revision'' of None \<Rightarrow> JStr [] | Some r \<Rightarrow> r)
     | _ \<Rightarrow> (JNull, JStr []))"

definition still_there :: "argo_env \<Rightarrow> json \<Rightarrow> json \<Rightarrow> string option" where
  "still_there e prev r =
     (if jtruthy prev \<and> jtruthy r \<and> r = prev
      then Some (''[argocd] Rollback is Healthy/Synced but still on previous revision '' @ shown e prev
             @ ''; current revision is '' @ shown e r @ ''; waiting for the app to move away'')
      else None)"

definition argo_history :: "argo_env \<Rightarrow> string \<Rightarrow> json list aproc" where
  "argo_history e answer =
     or_crash (Option.bind (ag_json e answer) (\<lambda>a. Option.bind (dig a [''status'', ''history''] (JList [])) sort_history))"

definition argo_go_back :: "argo_env \<Rightarrow> string \<Rightarrow> string \<Rightarrow> json list \<Rightarrow> k8s_result aproc" where
  "argo_go_back e base app hs =
     (if length hs < 2 then say_fail (ag_msg e ''argocd_no_prev_version'' [])
      else let (i, prev) = entry_of_history (hs ! (length hs - 2))
           in andthen (check_cancelled (ag_machine e)) (\<lambda>_.
              andthen (api_call e ''POST'' (app_url base app @ ''/rollback'') (ag_dump e (JObj [(''id'', i)]))) (\<lambda>r.
                if fst r \<noteq> 200
                then andthen (say (ag_msg e ''argocd_rollback_failed'' [int_str (fst r), take 200 (snd r)])) (\<lambda>_. quit_with False [])
                else andthen (poll_app e (app_url base app) (still_there e prev) 1 30 (JStr [], JStr [], JStr [])) (\<lambda>polled.
                       quit_with (fst polled) (if fst polled then ag_msg e ''argocd_rollback_to'' [shown e i, shown e prev] else [])))))"

definition argo_rollback_flow :: "argo_env \<Rightarrow> k8s_req \<Rightarrow> string \<Rightarrow> k8s_result aproc" where
  "argo_rollback_flow e q project =
     (let base = argo_base e q; short = short_name project
      in andthen (discover_app e base short (\<lambda>spec. contains_sub project spec \<or> contains_sub short spec)) (\<lambda>(app, answer).
         andthen (argo_history e answer) (argo_go_back e base app)))"

definition argocd_rollback :: "argo_env \<Rightarrow> k8s_req \<Rightarrow> string \<Rightarrow> k8s_result result \<times> action list" where
  "argocd_rollback e q project = argo_caught e ''argocd_rollback_error'' (argo_rollback_flow e q project)"

definition argocd_stop :: "argo_env \<Rightarrow> k8s_req \<Rightarrow> string \<Rightarrow> kresult \<times> action list" where
  "argocd_stop e q project =
     (let app = short_name project; url = app_url (argo_base e q) app; tr = [Call ''DELETE'' url []]
      in case ag_call e [] ''DELETE'' url [] of
           None \<Rightarrow> ((False, ''Stop service failed, please contact administrator''), tr)
         | Some r \<Rightarrow>
             if fst r \<in> {200, 204} then ((True, ''ArgoCD application '' @ app @ '' deleted''), tr)
             else ((False, ''Delete failed: '' @ int_str (fst r) @ '' '' @ take 200 (snd r)), tr))"

definition argocd_remote :: "(cluster \<Rightarrow> argo_env) \<Rightarrow> k8s_remote" where
  "argocd_remote at_cluster rb q img short cl =
     fst (if rb then argocd_rollback (at_cluster cl) q short else argocd_deploy (at_cluster cl) q img short)"

section \<open>Laws\<close>

lemma spec_call [simp]: "P (Call m url body) \<Longrightarrow> spec P (\<lambda>_. True) R (api_call e m url body)"
  by (auto simp: spec_def api_call_def split: option.splits)

lemma spec_say [simp]: "P (Say msg) \<Longrightarrow> spec P (\<lambda>_. True) R (say msg)"
  by (simp add: spec_def say_def)

lemma spec_or_crash [simp]: "spec P (\<lambda>_. True) R (or_crash x)"
  by (auto simp: or_crash_def split: option.splits)

lemma spec_quit: "(\<And>out. R \<lparr>kr_success = ok, kr_output = out, kr_summary = summary\<rparr>) \<Longrightarrow> spec P Q R (quit_with ok summary)"
  by (simp add: spec_def quit_with_def)

text \<open>The parts before the end: they only add to the actions, and an early return is no success.\<close>

abbreviation no_success :: "'a aproc \<Rightarrow> bool" where
  "no_success p \<equiv> spec (\<lambda>_. True) (\<lambda>_. True) (\<lambda>r. \<not> kr_success r) p"

lemma fail_parts [simp]:
  "no_success (say_fail msg)" "no_success (get_fail e r)" "no_success (quit_with False s)"
  by (auto simp: say_fail_def get_fail_def plain_result_def intro!: spec_bind spec_quit)

lemma discover_no_success: "no_success (discover_app e base app p)"
  unfolding discover_app_def by (auto intro!: spec_bind split: option.splits)

lemma step_no_success: "no_success (api_step e what m url body)"
  unfolding api_step_def by (auto intro!: spec_bind)

lemma poll_no_success: "no_success (poll_app e url hold i n seen)"
  by (induction n arbitrary: i seen) (auto intro!: spec_bind split: option.splits)

lemma Stop_no_success: "no_success p \<Longrightarrow> p tr = (Stop r, tr') \<Longrightarrow> \<not> kr_success r"
  unfolding spec_def by (metis fst_conv)

lemma success_passes:
  assumes "andthen p f tr = (Stop r, tr')" "kr_success r" "no_success p"
  obtains x new where "p tr = (Go x, tr @ new)" "f x (tr @ new) = (Stop r, tr')"
  using assms(1)
proof (cases rule: andthen_cases)
  case (1 x tr1)
  moreover obtain new where "tr1 = tr @ new" using spec_new [OF assms(3), of tr] 1(1) by auto
  ultimately show ?thesis using that by blast
qed (use assms(2) Stop_no_success [OF assms(3)] in auto)

text \<open>The \<open>k\<close>-th action is a call, and what was answered to it.\<close>

definition answered :: "argo_env \<Rightarrow> action list \<Rightarrow> nat \<Rightarrow> string \<Rightarrow> string \<Rightarrow> string \<Rightarrow> string \<Rightarrow> bool" where
  "answered e tr k m url body out \<longleftrightarrow>
     k < length tr \<and> tr ! k = Call m url body \<and> ag_call e (take k tr) m url body = Some (200, out)"

lemma answered_more: "answered e tr k m url body out \<Longrightarrow> answered e (tr @ new) k m url body out"
  by (simp add: answered_def nth_append)

lemma call_answered:
  "api_call e m url body tr = (Go (200, out), tr') \<Longrightarrow> answered e tr' (length tr) m url body out"
  by (auto simp: api_call_def answered_def split: option.splits)

lemma step_answered:
  assumes "api_step e what m url body tr = (Go x, tr')"
  shows "\<exists>k out. length tr \<le> k \<and> answered e tr' k m url body out"
proof -
  let ?f = "\<lambda>r. if fst r \<noteq> 200
       then andthen (say (ag_msg e (what @ ''_fail'') [int_str (fst r), take 200 (snd r)])) (\<lambda>_. quit_with False [])
       else say (ag_msg e (what @ ''_ok'') [])"
  have "andthen (api_call e m url body) ?f (tr @ [Say (ag_msg e what [])]) = (Go x, tr')"
    using assms by (simp add: api_step_def say_def)
  then obtain r tr1 where r: "api_call e m url body (tr @ [Say (ag_msg e what [])]) = (Go r, tr1)" "?f r tr1 = (Go x, tr')"
    by (rule andthen_cases) auto
  have ok: "fst r = 200" using r(2) by (auto simp: andthen_def say_def quit_with_def split: if_splits)
  then have "answered e tr1 (Suc (length tr)) m url body (snd r)"
    using call_answered [of e m url body "tr @ [Say (ag_msg e what [])]" "snd r" tr1] r(1) by (metis length_append_singleton prod.collapse)
  moreover have "tr' = tr1 @ [Say (ag_msg e (what @ ''_ok'') [])]" using r(2) ok by (simp add: say_def)
  ultimately show ?thesis using answered_more by (metis le_SucI order_refl)
qed

text \<open>What is accepted was answered, and says that the application is in sync.\<close>

definition accepted :: "argo_env \<Rightarrow> action list \<Rightarrow> nat \<Rightarrow> string \<Rightarrow> json \<Rightarrow> bool" where
  "accepted e tr k url v \<longleftrightarrow> (\<exists>out a. answered e tr k ''GET'' url [] out \<and> ag_json e out = Some a
     \<and> read_status a = Some (JStr ''Healthy'', JStr ''Synced'', v))"

lemma accepted_more: "accepted e tr k url v \<Longrightarrow> accepted e (tr @ new) k url v"
  using answered_more unfolding accepted_def by blast

lemma poll_accepted:
  "poll_app e url hold i n seen tr = (Go (True, h, s, v), tr') \<Longrightarrow>
   hold v = None \<and> (\<exists>k \<ge> length tr. accepted e tr' k url v)"
proof (induction n arbitrary: i seen tr)
  case 0
  then show ?case by (simp add: andthen_def say_def ret_def)
next
  case (Suc n)
  from Suc.prems obtain r tr1 where r: "api_call e ''GET'' url [] tr = (Go r, tr1)"
      "(if fst r \<noteq> 200
       then andthen (say (ag_msg e ''argocd_poll_fail'' [int_str (fst r), take 200 (snd r)])) (\<lambda>_. poll_app e url hold (Suc i) n seen)
       else andthen (or_crash (Option.bind (ag_json e (snd r)) read_status)) (\<lambda>(h, s, v).
            andthen (say (ag_msg e ''argocd_wait'' [nat_str i, ''30'', unknown e h, unknown e s])) (\<lambda>_.
              if \<not> in_sync h s then poll_app e url hold (Suc i) n (h, s, v)
              else case hold v of
                     Some msg \<Rightarrow> andthen (say msg) (\<lambda>_. poll_app e url hold (Suc i) n (h, s, v))
                   | None \<Rightarrow> andthen (say (ag_msg e ''argocd_healthy'' [shown e s])) (\<lambda>_. ret (True, h, s, v))))) tr1
       = (Go (True, h, s, v), tr')"
    by (auto simp: check_cancelled_def elim!: andthen_cases split: if_splits)
  have tr1: "tr1 = tr @ [Call ''GET'' url []]" using r(1) by (auto simp: api_call_def split: option.splits)
  show ?case
  proof (cases "fst r = 200")
    case False
    then have "poll_app e url hold (Suc i) n seen (tr1 @ [Say (ag_msg e ''argocd_poll_fail'' [int_str (fst r), take 200 (snd r)])])
        = (Go (True, h, s, v), tr')" using r(2) by (simp add: say_def)
    moreover have "length tr \<le> length (tr1 @ [x])" for x using tr1 by simp
    ultimately show ?thesis using Suc.IH by (meson order_trans)
  next
    case True
    obtain a h' s' v' where a: "ag_json e (snd r) = Some a" "read_status a = Some (h', s', v')"
      using r(2) True by (auto simp: or_crash_def crash_def andthen_def split: option.splits bind_splits)
    let ?tr2 = "tr1 @ [Say (ag_msg e ''argocd_wait'' [nat_str i, ''30'', unknown e h', unknown e s'])]"
    have c: "(if \<not> in_sync h' s' then poll_app e url hold (Suc i) n (h', s', v')
              else case hold v' of
                     Some msg \<Rightarrow> andthen (say msg) (\<lambda>_. poll_app e url hold (Suc i) n (h', s', v'))
                   | None \<Rightarrow> andthen (say (ag_msg e ''argocd_healthy'' [shown e s'])) (\<lambda>_. ret (True, h', s', v'))) ?tr2
        = (Go (True, h, s, v), tr')"
      using r(2) True a by (simp add: or_crash_def ret_def say_def)
    show ?thesis
    proof (cases "in_sync h' s' \<and> hold v' = None")
      case True
      then have e: "v' = v" "h' = JStr ''Healthy''" "s' = JStr ''Synced''" "tr' = ?tr2 @ [Say (ag_msg e ''argocd_healthy'' [shown e s'])]"
        using c by (auto simp: say_def ret_def in_sync_def)
      have "answered e tr1 (length tr) ''GET'' url [] (snd r)"
        using call_answered r(1) \<open>fst r = 200\<close> by (metis prod.collapse)
      then have "accepted e tr1 (length tr) url v" unfolding accepted_def using a e by blast
      then show ?thesis using True e accepted_more by (metis order_refl)
    next
      case False
      then obtain j seen' tr3 where "poll_app e url hold j n seen' tr3 = (Go (True, h, s, v), tr')" "length tr \<le> length tr3"
        using c tr1 by (auto simp: say_def split: if_splits option.splits)
      from Suc.IH [OF this(1)] this(2) show ?thesis by (meson order_trans)
    qed
  qed
qed

lemma caught_success:
  assumes "fst (argo_caught e key p) = Inr r" "kr_success r"
  obtains "p [] = (Go r, snd (argo_caught e key p))" | "p [] = (Stop r, snd (argo_caught e key p))"
  using assms by (cases "p []"; cases "fst (p [])") (auto simp: argo_caught_def plain_result_def)

lemma bind_crash_no_go: "(or_crash x) tr = (Go v, tr') \<Longrightarrow> x = Some v \<and> tr' = tr"
  by (auto simp: or_crash_def ret_def crash_def split: option.splits)

abbreviation stops :: "'a aproc \<Rightarrow> bool" where
  "stops p \<equiv> spec (\<lambda>_. True) (\<lambda>_. False) (\<lambda>_. True) p"

lemma no_success_stops: "no_success p \<Longrightarrow> (\<And>x. stops (f x)) \<Longrightarrow> stops (andthen p f)"
  by (rule spec_bind, erule spec_weaken) auto

lemma prepare_no_success: "no_success (argo_prepare e app repo tag answer)"
  unfolding argo_prepare_def by (intro spec_bind) simp_all

lemma history_no_success: "no_success (argo_history e answer)"
  unfolding argo_history_def by simp

lemma quit_stops: "stops (quit_with ok s)" "stops (say_fail msg)"
  by (auto simp: say_fail_def intro!: spec_quit)

lemma say_quit_stops: "stops (andthen (say m) (\<lambda>_. quit_with False []))"
  by (rule spec_bind [OF spec_say]) (simp_all add: quit_stops)

lemma wait_stops: "stops (argo_wait e url)"
  unfolding argo_wait_def by (rule no_success_stops [OF poll_no_success]) (simp add: split_beta quit_stops say_quit_stops)

lemma change_stops: "stops (argo_change e base app patch)"
  unfolding argo_change_def by (intro no_success_stops step_no_success wait_stops)

lemma go_back_stops: "stops (argo_go_back e base app hs)"
proof (cases "length hs < 2")
  case False
  obtain i prev where h: "entry_of_history (hs ! (length hs - 2)) = (i, prev)" by fastforce
  have p: "stops (andthen (poll_app e u h n l s) (\<lambda>x. quit_with (fst x) (if fst x then m else [])))" for u h n l s m
    by (rule no_success_stops [OF poll_no_success]) (simp add: split_beta quit_stops)
  show ?thesis unfolding argo_go_back_def using False
    by (simp add: h) (rule spec_bind [OF spec_check], rule spec_bind [OF spec_call], simp_all add: say_quit_stops p)
qed (simp add: argo_go_back_def quit_stops)

lemma flow_stops: "stops (argo_flow e q img project)" "stops (argo_rollback_flow e q project)"
proof -
  have "stops (andthen (discover_app e b n m) (\<lambda>(app, answer). andthen (argo_prepare e app repo tag answer) (argo_change e b' app)))"
    for b n m repo tag b'
    by (rule no_success_stops [OF discover_no_success]) (simp add: split_beta no_success_stops [OF prepare_no_success] change_stops)
  then show "stops (argo_flow e q img project)" unfolding argo_flow_def Let_def
    by (rule spec_bind [OF spec_say, rotated]) simp_all
  show "stops (argo_rollback_flow e q project)" unfolding argo_rollback_flow_def Let_def
    by (rule no_success_stops [OF discover_no_success]) (simp add: split_beta no_success_stops [OF history_no_success] go_back_stops)
qed

lemma caught_Stop:
  assumes "fst (argo_caught e key p) = Inr r" "kr_success r" "spec (\<lambda>_. True) (\<lambda>_. False) (\<lambda>_. True) p"
  shows "p [] = (Stop r, snd (argo_caught e key p))"
  using assms(1,2)
proof (rule caught_success)
  assume "p [] = (Go r, snd (argo_caught e key p))"
  then show ?thesis using assms(3) unfolding spec_def by (metis fst_conv)
qed

lemma wait_success:
  assumes "argo_wait e url tr = (Stop r, tr')" "kr_success r"
  shows "\<exists>k v. length tr \<le> k \<and> accepted e tr' k url v \<and> (\<exists>n. tr' = tr @ n)"
proof -
  let ?fin = "(\<lambda>(ok, h, s, v). if ok then quit_with True []
       else andthen (say (''[argocd] Sync status='' @ unknown e s @ ''; health='' @ unknown e h @ ''; revision='' @ unknown e v)) (\<lambda>_.
            quit_with False [])) :: bool \<times> json \<times> json \<times> json \<Rightarrow> k8s_result aproc"
  have "andthen (poll_app e url (\<lambda>_. None) 1 30 (JStr [], JStr [], JStr [])) ?fin tr = (Stop r, tr')"
    using assms(1) by (simp add: argo_wait_def)
  then obtain x n where x: "poll_app e url (\<lambda>_. None) 1 30 (JStr [], JStr [], JStr []) tr = (Go x, tr @ n)"
      "?fin x (tr @ n) = (Stop r, tr')"
    by (rule success_passes [OF _ assms(2) poll_no_success])
  obtain ok h s v where y: "x = (ok, h, s, v)" by (cases x)
  have "ok" "tr' = tr @ n"
    using x(2) assms(2) unfolding y by (auto simp: quit_with_def say_def split: if_splits)
  then have "poll_app e url (\<lambda>_. None) 1 30 (JStr [], JStr [], JStr []) tr = (Go (True, h, s, v), tr')"
    using x(1) unfolding y by simp
  from poll_accepted [OF this] show ?thesis using \<open>tr' = tr @ n\<close> by blast
qed

text \<open>A change that ends as a success.\<close>

lemma change_success:
  assumes "argo_change e base app patch tr = (Stop r, tr')" "kr_success r"
  shows "\<exists>i j k out out' v. i < j \<and> j < k
    \<and> answered e tr' i ''PUT'' (app_url base app) (ag_dump e patch) out
    \<and> answered e tr' j ''POST'' (app_url base app @ ''/sync'') (ag_dump e (JObj [])) out'
    \<and> accepted e tr' k (app_url base app) v"
proof -
  let ?url = "app_url base app"
  let ?put = "api_step e ''argocd_update'' ''PUT'' ?url (ag_dump e patch)"
  let ?sync = "api_step e ''argocd_sync'' ''POST'' (?url @ ''/sync'') (ag_dump e (JObj []))"
  have "andthen ?put (\<lambda>_. andthen ?sync (\<lambda>_. argo_wait e ?url)) tr = (Stop r, tr')"
    using assms(1) by (simp add: argo_change_def)
  then obtain x1 n1 where 1: "?put tr = (Go x1, tr @ n1)" "andthen ?sync (\<lambda>_. argo_wait e ?url) (tr @ n1) = (Stop r, tr')"
    by (rule success_passes [OF _ assms(2) step_no_success])
  from 1(2) obtain x2 n2 where 2: "?sync (tr @ n1) = (Go x2, (tr @ n1) @ n2)" "argo_wait e ?url ((tr @ n1) @ n2) = (Stop r, tr')"
    by (rule success_passes [OF _ assms(2) step_no_success])
  obtain k v where k: "length ((tr @ n1) @ n2) \<le> k" "accepted e tr' k ?url v" "\<exists>n. tr' = ((tr @ n1) @ n2) @ n"
    using wait_success [OF 2(2) assms(2)] by blast
  obtain i o1 where i: "answered e (tr @ n1) i ''PUT'' ?url (ag_dump e patch) o1"
    using step_answered [OF 1(1)] by blast
  obtain j o2 where j: "length (tr @ n1) \<le> j" "answered e ((tr @ n1) @ n2) j ''POST'' (?url @ ''/sync'') (ag_dump e (JObj [])) o2"
    using step_answered [OF 2(1)] by blast
  have "i < j" "j < k" using i j k(1) unfolding answered_def by linarith+
  then show ?thesis using answered_more [OF answered_more [OF i]] answered_more [OF j(2)] k(2,3) by blast
qed

lemma prepare_patch: "argo_prepare e app repo tag answer tr = (Go patch, tr') \<Longrightarrow> \<exists>a. image_patch a app repo tag = Some patch"
  unfolding argo_prepare_def by (auto elim!: andthen_cases simp: say_def dest!: bind_crash_no_go)

lemma flow_changes:
  assumes "argo_flow e q img project [] = (Stop r, tr')" "kr_success r"
  shows "\<exists>app a patch tr. image_patch a app (fst (split_image_ref img)) (snd (split_image_ref img)) = Some patch
    \<and> argo_change e (argo_base e q) app patch tr = (Stop r, tr')"
proof -
  let ?repo = "fst (split_image_ref img)" and ?tag = "snd (split_image_ref img)"
  let ?find = "discover_app e (argo_base e q) (short_name project) (\<lambda>spec. contains_sub ?repo spec \<or> contains_sub project spec)"
  let ?rest = "\<lambda>x. andthen (argo_prepare e (fst x) ?repo ?tag (snd x)) (argo_change e (argo_base e q) (fst x))"
  have "andthen ?find ?rest [Say (ag_msg e ''argocd_connecting'' [])] = (Stop r, tr')"
    using assms(1) by (simp add: argo_flow_def Let_def say_def case_prod_beta')
  then obtain x n1 where "?rest x ([Say (ag_msg e ''argocd_connecting'' [])] @ n1) = (Stop r, tr')"
    by (rule success_passes [OF _ assms(2) discover_no_success])
  then obtain patch n where "argo_prepare e (fst x) ?repo ?tag (snd x) ([Say (ag_msg e ''argocd_connecting'' [])] @ n1)
        = (Go patch, ([Say (ag_msg e ''argocd_connecting'' [])] @ n1) @ n)"
      "argo_change e (argo_base e q) (fst x) patch (([Say (ag_msg e ''argocd_connecting'' [])] @ n1) @ n) = (Stop r, tr')"
    by (rule success_passes [OF _ assms(2) prepare_no_success])
  then show ?thesis using prepare_patch by metis
qed

lemma say_fails: "say_fail msg tr = (Stop r, tr') \<Longrightarrow> \<not> kr_success r"
  using Stop_no_success [OF fail_parts(1)] .

text \<open>A return to the previous entry that ends as a success.\<close>

lemma go_back_success:
  assumes "argo_go_back e base app hs tr = (Stop r, tr')" "kr_success r" "entry_of_history (hs ! (length hs - 2)) = (i, prev)"
  shows "2 \<le> length hs \<and> (\<exists>j k out v. j < k
    \<and> answered e tr' j ''POST'' (app_url base app @ ''/rollback'') (ag_dump e (JObj [(''id'', i)])) out
    \<and> accepted e tr' k (app_url base app) v \<and> \<not> (jtruthy prev \<and> v = prev))"
proof -
  let ?url = "app_url base app"
  let ?call = "api_call e ''POST'' (?url @ ''/rollback'') (ag_dump e (JObj [(''id'', i)]))"
  let ?poll = "poll_app e ?url (still_there e prev) 1 30 (JStr [], JStr [], JStr [])"
  let ?fin = "(\<lambda>x. quit_with (fst x) (if fst x then ag_msg e ''argocd_rollback_to'' [shown e i, shown e prev] else []))
    :: bool \<times> json \<times> json \<times> json \<Rightarrow> k8s_result aproc"
  let ?after = "\<lambda>c. if fst c \<noteq> 200
      then andthen (say (ag_msg e ''argocd_rollback_failed'' [int_str (fst c), take 200 (snd c)])) (\<lambda>_. quit_with False [])
      else andthen ?poll ?fin"
  have len: "2 \<le> length hs"
  proof (rule ccontr)
    assume "\<not> 2 \<le> length hs"
    then have "(say_fail (ag_msg e ''argocd_no_prev_version'' []) :: k8s_result aproc) tr = (Stop r, tr')" using assms(1) by (simp add: argo_go_back_def)
    then show False using say_fails assms(2) by blast
  qed
  have "andthen (check_cancelled (ag_machine e)) (\<lambda>_. andthen ?call ?after) tr = (Stop r, tr')"
    using assms(1,3) len by (simp add: argo_go_back_def)
  then obtain u n0 where "andthen ?call ?after (tr @ n0) = (Stop r, tr')"
    by (rule success_passes [OF _ assms(2) spec_check])
  then obtain c n1 where 1: "?call (tr @ n0) = (Go c, (tr @ n0) @ n1)" "?after c ((tr @ n0) @ n1) = (Stop r, tr')"
    by (rule success_passes [OF _ assms(2) spec_call]) simp_all
  have c: "fst c = 200"
    using 1(2) assms(2) by (auto simp: say_def quit_with_def split: if_splits)
  have "andthen ?poll ?fin ((tr @ n0) @ n1) = (Stop r, tr')" using 1(2) c by simp
  then obtain x n2 where 2: "?poll ((tr @ n0) @ n1) = (Go x, ((tr @ n0) @ n1) @ n2)" "?fin x (((tr @ n0) @ n1) @ n2) = (Stop r, tr')"
    by (rule success_passes [OF _ assms(2) poll_no_success])
  obtain ok h s v where y: "x = (ok, h, s, v)" by (cases x)
  have "ok" and tr': "tr' = ((tr @ n0) @ n1) @ n2" using 2(2) assms(2) unfolding y by (auto simp: quit_with_def)
  then have "?poll ((tr @ n0) @ n1) = (Go (True, h, s, v), tr')" using 2(1) unfolding y by simp
  then obtain k where k: "still_there e prev v = None" "length ((tr @ n0) @ n1) \<le> k" "accepted e tr' k ?url v"
    using poll_accepted by blast
  have j: "answered e ((tr @ n0) @ n1) (length (tr @ n0)) ''POST'' (?url @ ''/rollback'') (ag_dump e (JObj [(''id'', i)])) (snd c)"
    using call_answered [of e _ _ _ "tr @ n0" "snd c"] 1(1) c by (metis prod.collapse)
  then have "length (tr @ n0) < k" using k(2) unfolding answered_def by linarith
  moreover have "\<not> (jtruthy prev \<and> v = prev)" using k(1) by (auto simp: still_there_def split: if_splits)
  ultimately show ?thesis using len k(3) answered_more [OF j, of n2] unfolding tr' by blast
qed

lemma rollback_goes_back:
  assumes "argo_rollback_flow e q project [] = (Stop r, tr')" "kr_success r"
  shows "\<exists>app hs tr. argo_go_back e (argo_base e q) app hs tr = (Stop r, tr')"
proof -
  let ?find = "discover_app e (argo_base e q) (short_name project) (\<lambda>spec. contains_sub project spec \<or> contains_sub (short_name project) spec)"
  let ?rest = "\<lambda>x. andthen (argo_history e (snd x)) (argo_go_back e (argo_base e q) (fst x))"
  have "andthen ?find ?rest [] = (Stop r, tr')"
    using assms(1) by (simp add: argo_rollback_flow_def Let_def case_prod_beta')
  then obtain x n1 where "?rest x ([] @ n1) = (Stop r, tr')"
    by (rule success_passes [OF _ assms(2) discover_no_success])
  then obtain hs n where "argo_go_back e (argo_base e q) (fst x) hs (([] @ n1) @ n) = (Stop r, tr')"
    by (rule success_passes [OF _ assms(2) history_no_success])
  then show ?thesis by metis
qed

section \<open>Properties\<close>

text \<open>A deployment through Argo CD is reported as a success only if the API accepted the change of
  the image and the synchronisation and answered afterwards that the application is healthy and
  in sync; the change names the image repository and the tag. The revision is not looked at.\<close>

theorem argocd_success:
  assumes "fst (argocd_deploy e q img project) = Inr r" "kr_success r"
  shows "\<exists>app a patch i j k out out' v.
    image_patch a app (fst (split_image_ref img)) (snd (split_image_ref img)) = Some patch
    \<and> i < j \<and> j < k
    \<and> answered e (snd (argocd_deploy e q img project)) i ''PUT'' (app_url (argo_base e q) app) (ag_dump e patch) out
    \<and> answered e (snd (argocd_deploy e q img project)) j ''POST'' (app_url (argo_base e q) app @ ''/sync'') (ag_dump e (JObj [])) out'
    \<and> accepted e (snd (argocd_deploy e q img project)) k (app_url (argo_base e q) app) v"
proof -
  have "argo_flow e q img project [] = (Stop r, snd (argocd_deploy e q img project))"
    using caught_Stop [OF assms(1) [unfolded argocd_deploy_def] assms(2) flow_stops(1)] unfolding argocd_deploy_def .
  from flow_changes [OF this assms(2)] obtain app a patch tr where c:
      "image_patch a app (fst (split_image_ref img)) (snd (split_image_ref img)) = Some patch"
      "argo_change e (argo_base e q) app patch tr = (Stop r, snd (argocd_deploy e q img project))" by (elim exE conjE)
  from change_success [OF c(2) assms(2)] show ?thesis using c(1) by metis
qed

text \<open>An API that accepts every call. Its application is healthy and in sync at revision \<open>b\<close>; after
  a \<^verbatim>\<open>POST\<close> it is at the revision \<open>later\<close>. Its history is \<open>a\<close>, \<open>b\<close>.\<close>

definition sample_app :: "string \<Rightarrow> json" where
  "sample_app revision = JObj [(''status'', JObj [(''health'', JObj [(''status'', JStr ''Healthy'')]),
     (''sync'', JObj [(''status'', JStr ''Synced''), (''revision'', JStr revision)]),
     (''history'', JList [JObj [(''id'', JNum (Fin 2)), (''revision'', JStr ''b'')],
        JObj [(''id'', JNum (Fin 1)), (''revision'', JStr ''a'')]])])]"

fun is_post :: "action \<Rightarrow> bool" where
  "is_post (Call m url body) = (m = ''POST'')"
| "is_post _ = False"

definition sample_argo :: "string \<Rightarrow> argo_env" where
  "sample_argo later = \<lparr>ag_machine = sample_node, ag_call = (\<lambda>tr m url body. Some (200, if list_ex is_post tr then later else ''b'')),
     ag_json = (\<lambda>t. Some (sample_app t)), ag_show = (\<lambda>_. []), ag_dump = (\<lambda>_. []), ag_msg = (\<lambda>k _. []), ag_host = ''h''\<rparr>"

lemma sample_deploy_ok: "case fst (argocd_deploy (sample_argo ''b'') (sample_req []) ''r/w:v2'' ''w'') of Inr r \<Rightarrow> kr_success r | _ \<Rightarrow> False"
  by code_simp

text \<open>The application of this API never changes.\<close>

theorem argocd_success_witness:
  "\<exists>app patch i out. answered (sample_argo ''b'') (snd (argocd_deploy (sample_argo ''b'') (sample_req []) ''r/w:v2'' ''w'')) i ''PUT''
     (app_url (argo_base (sample_argo ''b'') (sample_req [])) app) patch out"
proof -
  obtain r where r: "fst (argocd_deploy (sample_argo ''b'') (sample_req []) ''r/w:v2'' ''w'') = Inr r" "kr_success r"
    using sample_deploy_ok by (auto split: sum.splits)
  from argocd_success [OF r] show ?thesis by blast
qed

text \<open>A rollback through Argo CD is a success only if the API accepted it and answered afterwards
  that the application is healthy and in sync at a revision other than the one the rollback goes
  back to: an application that reports exactly this revision is never accepted.\<close>

theorem rollback_refuses_target:
  assumes "fst (argocd_rollback e q project) = Inr r" "kr_success r"
  shows "\<exists>app hs i prev j k out v. entry_of_history (hs ! (length hs - 2)) = (i, prev) \<and> 2 \<le> length hs \<and> j < k
    \<and> answered e (snd (argocd_rollback e q project)) j ''POST'' (app_url (argo_base e q) app @ ''/rollback'')
        (ag_dump e (JObj [(''id'', i)])) out
    \<and> accepted e (snd (argocd_rollback e q project)) k (app_url (argo_base e q) app) v
    \<and> \<not> (jtruthy prev \<and> v = prev)"
proof -
  have "argo_rollback_flow e q project [] = (Stop r, snd (argocd_rollback e q project))"
    using caught_Stop [OF assms(1) [unfolded argocd_rollback_def] assms(2) flow_stops(2)] unfolding argocd_rollback_def .
  from rollback_goes_back [OF this assms(2)] obtain app hs tr where
    g: "argo_go_back e (argo_base e q) app hs tr = (Stop r, snd (argocd_rollback e q project))" by (elim exE)
  obtain i prev where h: "entry_of_history (hs ! (length hs - 2)) = (i, prev)" by fastforce
  from go_back_success [OF g assms(2) h] show ?thesis using h by metis
qed

lemma sample_rollback_ok: "case fst (argocd_rollback (sample_argo ''b'') (sample_req []) ''w'') of Inr r \<Rightarrow> kr_success r | _ \<Rightarrow> False"
  by code_simp

text \<open>An API that ignores the rollback passes for a success; one that goes back to the previous
  revision fails.\<close>

theorem rollback_refuses_target_witness:
  "(\<exists>app k v. accepted (sample_argo ''b'') (snd (argocd_rollback (sample_argo ''b'') (sample_req []) ''w'')) k
      (app_url (argo_base (sample_argo ''b'') (sample_req [])) app) v)
   \<and> (case fst (argocd_rollback (sample_argo ''a'') (sample_req []) ''w'') of Inr r \<Rightarrow> \<not> kr_success r | _ \<Rightarrow> False)"
proof
  obtain r where r: "fst (argocd_rollback (sample_argo ''b'') (sample_req []) ''w'') = Inr r" "kr_success r"
    using sample_rollback_ok by (auto split: sum.splits)
  from rollback_refuses_target [OF r] show "\<exists>app k v. accepted (sample_argo ''b'')
      (snd (argocd_rollback (sample_argo ''b'') (sample_req []) ''w'')) k
      (app_url (argo_base (sample_argo ''b'') (sample_req [])) app) v" by blast
  show "case fst (argocd_rollback (sample_argo ''a'') (sample_req []) ''w'') of Inr r \<Rightarrow> \<not> kr_success r | _ \<Rightarrow> False" by code_simp
qed

end
