(* ===== verification/Fluxcd.thy ===== *)
theory Fluxcd
  imports Argocd
begin

text \<open>
  \<^verbatim>\<open>backend/deployers/k8s_fluxcd.py\<close>: deployment through a resource of Flux CD (find it,
  patch its image, ask for a reconciliation, wait for a reaction, wait for the rollout) and the
  stop; then all sub-modes of Kubernetes together. JSON and texts outside ASCII are parameters;
  progress messages are left out.
\<close>

record flux_env =
  fx_kube :: kube_env
  fx_ns :: string
  fx_json :: "string \<Rightarrow> string + json"
  fx_dump :: "json \<Rightarrow> string"
  fx_bad_value :: string
  fx_updated :: string
  fx_pods_now :: string
  fx_no_deployment :: string

abbreviation fx_machine :: "flux_env \<Rightarrow> machine" where
  "fx_machine e \<equiv> ku_machine (fx_kube e)"

section \<open>Commands\<close>

text \<open>\<^verbatim>\<open>_ssh_cmd\<close>: the output or, when it is empty, the error output.\<close>

definition cmd_out :: "machine \<Rightarrow> string \<Rightarrow> string kproc" where
  "cmd_out m cmd = andthen (exec_on m cmd) (\<lambda>(o', er, _). ret (str_or o' er))"

definition flux_get :: "flux_env \<Rightarrow> string \<Rightarrow> string \<Rightarrow> string \<Rightarrow> string" where
  "flux_get e kind name how =
     ''kubectl get '' @ sh_quote kind @ '' '' @ sh_quote name @ '' -n '' @ sh_quote (fx_ns e) @ '' -o '' @ how @ '' 2>/dev/null''"

definition flux_list :: "flux_env \<Rightarrow> string \<Rightarrow> string" where
  "flux_list e kind = ''kubectl get '' @ sh_quote kind @ '' -n '' @ sh_quote (fx_ns e)
     @ '' -o custom-columns=NAME:.metadata.name --no-headers 2>/dev/null''"

definition flux_patch_cmd :: "flux_env \<Rightarrow> string \<Rightarrow> string \<Rightarrow> string \<Rightarrow> string" where
  "flux_patch_cmd e kind name data =
     ''kubectl patch '' @ sh_quote kind @ '' '' @ sh_quote name @ '' -n '' @ sh_quote (fx_ns e)
     @ '' --type=merge -p '' @ sh_quote data"

definition annotate_cmd :: "flux_env \<Rightarrow> string \<Rightarrow> string \<Rightarrow> string" where
  "annotate_cmd e kind name =
     ''kubectl annotate '' @ sh_quote kind @ '' '' @ sh_quote name @ '' -n '' @ sh_quote (fx_ns e)
     @ '' reconcile.fluxcd.io/requestedAt='' @ [dquote] @ ''$(date -u +%Y-%m-%dT%H:%M:%SZ)'' @ [dquote] @ '' --overwrite''"

definition ready_path :: string where
  "ready_path = concat (List.map (\<lambda>(sep, x). sep @ ''{.status.conditions[?(@.type=='' @ [dquote] @ ''Ready'' @ [dquote] @ '')].'' @ x @ ''}'')
     [([], ''status''), (''|'', ''reason''), (''|'', ''message'')])"

definition name_filter :: "string \<Rightarrow> string" where
  "name_filter pat = ''kubectl get deploy -o name 2>/dev/null | grep -E '' @ sh_quote pat @ '' | head -1 | cut -d'' @ apostrophed ''/'' @ '' -f2''"

definition find_deploy_cmd :: "string \<Rightarrow> string" where
  "find_deploy_cmd name = name_filter (''^'' @ re_escape name @ ''-'') @ '' || '' @ name_filter (re_escape name)"

definition suspend_cmd :: "flux_env \<Rightarrow> string \<Rightarrow> string \<Rightarrow> string" where
  "suspend_cmd e kind name = ''flux suspend '' @ sh_quote kind @ '' '' @ sh_quote name @ '' -n '' @ sh_quote (fx_ns e)"

section \<open>Finding the resource\<close>

definition flux_kinds :: "string list" where
  "flux_kinds = [''helmrelease'', ''kustomization'']"

fun exact_kind :: "flux_env \<Rightarrow> string \<Rightarrow> string list \<Rightarrow> string option kproc" where
  "exact_kind e name [] = ret None"
| "exact_kind e name (k # ks) =
     andthen (cmd_out (fx_machine e) (flux_get e k name ''name'')) (\<lambda>r. if r \<noteq> [] then ret (Some k) else exact_kind e name ks)"

fun search_names :: "flux_env \<Rightarrow> string \<Rightarrow> string \<Rightarrow> string \<Rightarrow> string list \<Rightarrow> string option kproc" where
  "search_names e project img kind [] = ret None"
| "search_names e project img kind (l # ls) =
     (let name = py_strip l
      in if name = [] then search_names e project img kind ls
         else andthen (cmd_out (fx_machine e) (flux_get e kind name ''yaml'')) (\<lambda>spec.
                if (img \<noteq> [] \<and> contains_sub img spec) \<or> contains_sub project spec then ret (Some name)
                else search_names e project img kind ls))"

fun search_kinds :: "flux_env \<Rightarrow> string \<Rightarrow> string \<Rightarrow> string list \<Rightarrow> (string \<times> string) kproc" where
  "search_kinds e project img [] = ret (project, [])"
| "search_kinds e project img (k # ks) =
     andthen (cmd_out (fx_machine e) (flux_list e k)) (\<lambda>r.
       if r = [] then search_kinds e project img ks
       else andthen (search_names e project img k (split_on newline r)) (\<lambda>found.
              case found of Some name \<Rightarrow> ret (name, k) | None \<Rightarrow> search_kinds e project img ks))"

text \<open>The name and the kind; an empty kind is no resource.\<close>

definition discover_flux :: "flux_env \<Rightarrow> string \<Rightarrow> string \<Rightarrow> (string \<times> string) kproc" where
  "discover_flux e project img =
     andthen (exact_kind e project flux_kinds) (\<lambda>k.
       case k of Some kind \<Rightarrow> ret (project, kind) | None \<Rightarrow> search_kinds e project img flux_kinds)"

text \<open>The error that a resource reports, if any.\<close>

definition flux_error :: "flux_env \<Rightarrow> string \<Rightarrow> string \<Rightarrow> string option kproc" where
  "flux_error e name kind =
     (if kind \<notin> set flux_kinds then ret None
      else andthen (cmd_out (fx_machine e) (flux_get e kind name (''jsonpath='' @ sh_quote ready_path))) (\<lambda>raw.
        let (status, rest) = partition_at (CHR ''|'') raw; (reason, message) = partition_at (CHR ''|'') rest
        in ret (if CHR ''|'' \<notin> set raw then None
                else if status = ''False'' \<and> reason \<noteq> [] \<and> reason \<noteq> ''Progressing''
                then Some (''['' @ kind @ ''] '' @ reason @ (if message \<noteq> [] then '': '' @ message else [])) else None)))"

section \<open>The patch\<close>

text \<open>The images of the resource with the new tag; other entries stay. \<open>None\<close>: an entry that is
  no object.\<close>

fun image_entries :: "json list \<Rightarrow> (string \<times> json) list list option" where
  "image_entries [] = Some []"
| "image_entries (x # xs) =
     (case (if jtruthy x then x else JObj []) of
        JObj m \<Rightarrow> map_option ((#) m) (image_entries xs)
      | _ \<Rightarrow> None)"

definition put_tag :: "string \<Rightarrow> string \<Rightarrow> (string \<times> json) list list \<Rightarrow> (string \<times> json) list list" where
  "put_tag img tag ms =
     (let patched = List.map (\<lambda>m. if jget m ''name'' = JStr img then jput ''newTag'' (JStr tag) m else m) ms
      in if \<exists>m \<in> set ms. jget m ''name'' = JStr img then patched
         else patched @ [[(''name'', JStr img), (''newTag'', JStr tag)]])"

definition build_flux_image_patch :: "string \<Rightarrow> string \<Rightarrow> json \<Rightarrow> json option" where
  "build_flux_image_patch img tag existing =
     Option.bind (if jtruthy existing then jiter existing else Some []) (\<lambda>items.
     map_option (\<lambda>ms. JObj [(''spec'', JObj [(''images'', JList (List.map JObj (put_tag img tag ms)))])]) (image_entries items))"

definition helm_patch :: "string \<Rightarrow> json" where
  "helm_patch tag = JObj [(''spec'', JObj [(''values'', JObj [(''image'', JObj [(''tag'', JStr tag)])])])]"

definition path_patch :: "string \<Rightarrow> json" where
  "path_patch path = JObj [(''spec'', JObj [(''path'', JStr path)])]"

definition flux_path :: "flux_env \<Rightarrow> k8s_req \<Rightarrow> string \<Rightarrow> string \<Rightarrow> unit kproc" where
  "flux_path e q name kind =
     (if q_path q \<noteq> [] \<and> kind = ''kustomization''
      then andthen (exec_on (fx_machine e) (flux_patch_cmd e kind name (fx_dump e (path_patch (q_path q))))) (\<lambda>(o', er, c).
             if c \<noteq> 0 then fail (''Flux path patch failed:'' @ [newline] @ str_or (str_or er o') (''exit code '' @ int_str c)) else ret ())
      else ret ())"

text \<open>The body of the patch; the images of a kustomization are read first.\<close>

definition flux_data :: "flux_env \<Rightarrow> string \<Rightarrow> string \<Rightarrow> string \<Rightarrow> string \<Rightarrow> json kproc" where
  "flux_data e tag img name kind =
     (if kind = ''helmrelease'' then ret (helm_patch tag)
      else andthen (exec_on (fx_machine e) (flux_get e kind name ''json'')) (\<lambda>(o', er, c).
        if c \<noteq> 0 \<or> o' = []
        then fail (''Unable to read Flux resource before patch; deployment stopped to avoid overwriting spec.images.''
               @ [newline] @ str_or er o')
        else case fx_json e o' of
               Inl x \<Rightarrow> fail (''Invalid Flux resource JSON; deployment stopped to avoid overwriting spec.images: '' @ x)
             | Inr j \<Rightarrow>
                 (case Option.bind (dig j [''spec'', ''images''] (JList [])) (build_flux_image_patch img tag) of
                    None \<Rightarrow> crash (fx_bad_value e)
                  | Some p \<Rightarrow> ret p)))"

definition flux_patch :: "flux_env \<Rightarrow> string \<Rightarrow> string \<Rightarrow> string \<Rightarrow> string \<Rightarrow> unit kproc" where
  "flux_patch e tag img name kind =
     andthen (flux_data e tag img name kind) (\<lambda>data.
     andthen (exec_on (fx_machine e) (flux_patch_cmd e kind name (fx_dump e data))) (\<lambda>(o', er, c).
       if c \<noteq> 0 then fail (''Flux patch failed:'' @ [newline] @ str_or er o') else ret ()))"

section \<open>The reaction and the rollout\<close>

definition flux_failed :: "flux_env \<Rightarrow> string \<Rightarrow> string \<Rightarrow> 'a kproc" where
  "flux_failed e prior x =
     fail (before_text (fx_kube e) prior @ nl2 @ ''Deploy started:'' @ [newline] @ ''Image updated, Flux reconcile triggered''
       @ nl2 @ ''Flux deploy failed: '' @ x)"

definition or_flux_error :: "flux_env \<Rightarrow> string \<Rightarrow> string \<Rightarrow> string \<Rightarrow> unit kproc" where
  "or_flux_error e prior name kind =
     andthen (flux_error e name kind) (\<lambda>x. case x of None \<Rightarrow> ret () | Some t \<Rightarrow> flux_failed e prior t)"

definition reacted :: "string \<Rightarrow> string \<Rightarrow> bool" where
  "reacted prior later =
     (\<not> pod_names later \<subseteq> pod_names prior \<or> list_ex (contains_sub ''Terminating'') (split_on newline later))"

text \<open>The rounds left of nine; from the fourth one on the resource is asked for an error.\<close>

fun await_reaction :: "flux_env \<Rightarrow> string \<Rightarrow> string \<Rightarrow> string \<Rightarrow> nat \<Rightarrow> nat \<Rightarrow> bool kproc" where
  "await_reaction e prior name kind i 0 = ret False"
| "await_reaction e prior name kind i (Suc left) =
     andthen (check_cancelled (fx_machine e)) (\<lambda>_.
     andthen (if 3 \<le> i then or_flux_error e prior name kind else ret ()) (\<lambda>_.
     andthen (kubectl_pods (fx_machine e) name []) (\<lambda>later.
       if reacted prior later then ret True else await_reaction e prior name kind (Suc i) left)))"

definition flux_reconcile :: "flux_env \<Rightarrow> string \<Rightarrow> string \<Rightarrow> string \<Rightarrow> unit kproc" where
  "flux_reconcile e prior name kind =
     andthen (exec_on (fx_machine e) (annotate_cmd e kind name)) (\<lambda>_.
     andthen (await_reaction e prior name kind 0 9) (\<lambda>done.
       if done then ret () else or_flux_error e prior name kind))"

definition flux_report :: "flux_env \<Rightarrow> string \<Rightarrow> string \<Rightarrow> string \<Rightarrow> bool \<Rightarrow> string" where
  "flux_report e prior rollout later ok =
     (let k = fx_kube e
      in before_text k prior @ nl2 @ ku_start k @ [newline] @ fx_updated e @ nl2 @ rollout @ nl2 @ ku_after k @ [newline] @ later
         @ (if ok then nl2 @ ku_deployed k @ nat_str (running_count later) @ ku_running k @ nl2 @ ku_ok k else nl2 @ ku_bad k))"

definition flux_confirm :: "flux_env \<Rightarrow> string \<Rightarrow> string \<Rightarrow> kresult kproc" where
  "flux_confirm e prior name =
     (let m = fx_machine e; k = fx_kube e
      in andthen (cmd_out m (find_deploy_cmd name)) (\<lambda>deploy.
           if deploy \<noteq> []
           then andthen (exec_on m (rollout_cmd (ku_rollout_timeout k) [] deploy)) (\<lambda>(ro, re, rc).
                andthen (kubectl_pods m name []) (\<lambda>later.
                  ret (rc = 0, cut k (flux_report e prior (py_strip (str_or ro re)) later (rc = 0)))))
           else andthen (kubectl_pods m name []) (\<lambda>later.
                  ret (False, cut k (before_text k prior @ nl2 @ ku_start k @ [newline] @ fx_updated e @ nl2 @ ku_after k @ [newline]
                    @ str_or later (fx_pods_now e) @ nl2 @ fx_no_deployment e)))))"

section \<open>Deployment and stop\<close>

definition flux_flow :: "flux_env \<Rightarrow> k8s_req \<Rightarrow> string \<Rightarrow> string \<Rightarrow> kresult kproc" where
  "flux_flow e q img project =
     (let repo = fst (split_image_ref img)
      in andthen (discover_flux e (short_name project) repo) (\<lambda>(name, kind).
           if kind = [] then fail (''No Flux resource (HelmRelease/Kustomization) referencing image ['' @ repo
               @ ''] found in flux-system namespace.'')
           else andthen (kubectl_pods (fx_machine e) name []) (\<lambda>prior.
                andthen (flux_path e q name kind) (\<lambda>_.
                andthen (flux_patch e (q_tag q) repo name kind) (\<lambda>_.
                andthen (flux_reconcile e prior name kind) (\<lambda>_.
                  flux_confirm e prior name))))))"

definition flux_deploy :: "flux_env \<Rightarrow> k8s_req \<Rightarrow> string \<Rightarrow> string \<Rightarrow> kresult result \<times> action list" where
  "flux_deploy e q img project = in_try (fx_machine e) (flux_flow e q img project)"

definition flux_stop_flow :: "flux_env \<Rightarrow> string \<Rightarrow> kresult kproc" where
  "flux_stop_flow e project =
     andthen (discover_flux e (short_name project) []) (\<lambda>(name, kind).
       if kind = [] then fail (''Flux resource not found: '' @ project)
       else andthen (exec_on (fx_machine e) (suspend_cmd e kind name)) (\<lambda>(o', er, c).
              ret (c = 0, cut (fx_kube e) (str_or er o'))))"

definition flux_stop :: "flux_env \<Rightarrow> string \<Rightarrow> kresult \<times> action list" where
  "flux_stop e project =
     (let refused = (False, ''Stop service failed, please contact administrator'')
      in case mc_connect (fx_machine e) of
           Some _ \<Rightarrow> (refused, [])
         | None \<Rightarrow>
             (case flux_stop_flow e project [] of
                (Go r, tr) \<Rightarrow> (r, tr) | (Stop r, tr) \<Rightarrow> (r, tr) | (_, tr) \<Rightarrow> (refused, tr)))"

text \<open>A native rollback is not supported: the base class raises.\<close>

definition flux_remote :: "(cluster \<Rightarrow> flux_env) \<Rightarrow> k8s_remote" where
  "flux_remote at_cluster rb q img short cl =
     (if rb then Inl OtherError
      else case fst (flux_deploy (at_cluster cl) q img short) of
             Inl x \<Rightarrow> Inl x
           | Inr (ok, out) \<Rightarrow> Inr (plain_result ok out))"

text \<open>All sub-modes; the registry knows no other.\<close>

definition cluster_remote :: "(cluster \<Rightarrow> flux_env) \<Rightarrow> (cluster \<Rightarrow> argo_env) \<Rightarrow> k8s_remote" where
  "cluster_remote flux argo =
     sub_remote (\<lambda>cl. fx_kube (flux cl)) (\<lambda>rb q img short cl.
       if q_cd_type q = ''argocd'' then argocd_remote argo rb q img short cl
       else if q_cd_type q = ''fluxcd'' then flux_remote flux rb q img short cl
       else Inl OtherError)"

section \<open>Laws\<close>

text \<open>No early return of the parts is a success.\<close>

abbreviation no_luck :: "'a kproc \<Rightarrow> bool" where
  "no_luck p \<equiv> spec (\<lambda>_. True) (\<lambda>_. True) (\<lambda>r. \<not> fst r) p"

lemma fail_no_luck [simp]: "no_luck (fail x)" "no_luck (flux_failed e prior x)"
  by (simp_all add: fail_def flux_failed_def)

lemma out_no_luck [simp]: "no_luck (cmd_out m cmd)"
  unfolding cmd_out_def by (rule spec_bind [OF spec_exec(1)]) (simp_all add: split_beta)

lemma pods_no_luck [simp]: "no_luck (kubectl_pods m name ns)"
  by (rule spec_pods) simp

lemma exact_no_luck: "no_luck (exact_kind e name ks)"
  by (induction ks) (auto intro: spec_bind)

lemma names_no_luck: "no_luck (search_names e project img kind ls)"
  by (induction ls) (auto simp: Let_def intro!: spec_bind)

lemma kinds_no_luck: "no_luck (search_kinds e project img ks)"
  by (induction ks) (auto intro!: spec_bind names_no_luck split: option.splits)

lemma discover_no_luck: "no_luck (discover_flux e project img)"
  unfolding discover_flux_def
  by (rule spec_bind [OF exact_no_luck]) (simp add: kinds_no_luck split: option.splits)

lemma error_no_luck: "no_luck (flux_error e name kind)"
  unfolding flux_error_def by (auto simp: Let_def split_beta intro!: spec_bind)

lemma or_error_no_luck: "no_luck (or_flux_error e prior name kind)"
  unfolding or_flux_error_def by (rule spec_bind [OF error_no_luck]) (simp split: option.splits)

lemma path_no_luck: "no_luck (flux_path e q name kind)"
  unfolding flux_path_def by (auto simp: split_beta intro!: spec_bind)

lemma data_no_luck: "no_luck (flux_data e tag img name kind)"
  unfolding flux_data_def by (auto simp: split_beta intro!: spec_bind split: sum.splits option.splits)

lemma patch_no_luck: "no_luck (flux_patch e tag img name kind)"
  unfolding flux_patch_def
  by (rule spec_bind [OF data_no_luck], rule spec_bind [OF spec_exec(1)]) (simp_all add: split_beta)

lemma await_no_luck: "no_luck (await_reaction e prior name kind i n)"
proof (induction n arbitrary: i)
  case (Suc n)
  have "no_luck (if 3 \<le> i then or_flux_error e prior name kind else ret ())" by (simp add: or_error_no_luck)
  moreover have "no_luck (andthen (kubectl_pods (fx_machine e) name []) (\<lambda>later.
      if reacted prior later then ret True else await_reaction e prior name kind (Suc i) n))"
    by (rule spec_bind [OF pods_no_luck]) (simp add: Suc.IH)
  ultimately show ?case by (simp add: spec_bind [OF spec_check] spec_bind)
qed simp

lemma reconcile_no_luck: "no_luck (flux_reconcile e prior name kind)"
  unfolding flux_reconcile_def
  by (rule spec_bind [OF spec_exec(1)], simp, rule spec_bind [OF await_no_luck]) (simp add: or_error_no_luck)

lemma confirm_no_luck: "no_luck (flux_confirm e prior name)"
proof -
  have "no_luck (andthen (kubectl_pods (fx_machine e) name []) (\<lambda>later. ret (f later)))" for f :: "string \<Rightarrow> kresult"
    by (rule spec_bind [OF pods_no_luck]) simp
  then show ?thesis unfolding flux_confirm_def Let_def
    by (intro spec_bind [OF out_no_luck]) (auto simp: split_beta intro!: spec_bind [OF spec_exec(1)])
qed

lemma flow_no_luck: "no_luck (flux_flow e q img project)"
  unfolding flux_flow_def Let_def
  by (rule spec_bind [OF discover_no_luck])
    (auto simp: split_beta intro!: spec_bind [OF pods_no_luck] spec_bind [OF path_no_luck] spec_bind [OF patch_no_luck]
      spec_bind [OF reconcile_no_luck] confirm_no_luck)

lemma luck_grows: "no_luck p \<Longrightarrow> p tr = (x, tr') \<Longrightarrow> \<exists>new. tr' = tr @ new"
  using spec_new by (metis snd_conv)

text \<open>What a resource found is.\<close>

lemma exact_kind_in: "exact_kind e name ks tr = (Go (Some k), tr') \<Longrightarrow> k \<in> set ks"
  by (induction ks arbitrary: tr) (simp add: ret_def, fastforce simp: ret_def elim!: andthen_cases split: if_splits)

lemma search_kind_in: "search_kinds e project img ks tr = (Go (name, k), tr') \<Longrightarrow> k \<noteq> [] \<Longrightarrow> k \<in> set ks"
  by (induction ks arbitrary: tr) (simp add: ret_def, fastforce simp: ret_def elim!: andthen_cases split: if_splits option.splits)

lemma discover_kind: "discover_flux e project img tr = (Go (name, k), tr') \<Longrightarrow> k \<noteq> [] \<Longrightarrow> k \<in> set flux_kinds"
  unfolding discover_flux_def
  by (auto simp: ret_def elim!: andthen_cases split: option.splits dest: exact_kind_in search_kind_in)

text \<open>What the patch is.\<close>

definition flux_payload :: "string \<Rightarrow> string \<Rightarrow> string \<Rightarrow> json \<Rightarrow> bool" where
  "flux_payload tag img kind data \<longleftrightarrow>
     (if kind = ''helmrelease'' then data = helm_patch tag else \<exists>existing. build_flux_image_patch img tag existing = Some data)"

lemma flux_data_payload: "flux_data e tag img name kind tr = (Go data, tr') \<Longrightarrow> flux_payload tag img kind data"
  unfolding flux_data_def flux_payload_def
  by (auto simp: ret_def fail_def stop_with_def crash_def elim!: andthen_cases
      split: if_splits sum.splits option.splits bind_splits)

lemma flux_patch_exit:
  assumes "flux_patch e tag img name kind tr = (Go u, tr')"
  shows "\<exists>data. flux_payload tag img kind data \<and> exited0 (fx_machine e) tr' (flux_patch_cmd e kind name (fx_dump e data))"
proof -
  obtain data tr1 o' er c where d: "flux_data e tag img name kind tr = (Go data, tr1)"
      "(exec_on (fx_machine e) (flux_patch_cmd e kind name (fx_dump e data)) tr1 :: (kresult, _) flow \<times> _) = (Go (o', er, c), tr')" "c = 0"
    using assms unfolding flux_patch_def
    by (auto simp: andthen_done ret_def fail_def stop_with_def split: if_splits)
  then show ?thesis using flux_data_payload exec_on_exit by metis
qed

lemma flux_confirm_exit:
  assumes "flux_confirm e prior name tr = (Go (True, out), tr')"
  shows "\<exists>dep. dep \<noteq> [] \<and> exited0 (fx_machine e) tr' (rollout_cmd (ku_rollout_timeout (fx_kube e)) [] dep)"
proof -
  obtain dep tr1 ro re rc tr2 later where d: "dep \<noteq> []"
      "(exec_on (fx_machine e) (rollout_cmd (ku_rollout_timeout (fx_kube e)) [] dep) tr1 :: (kresult, _) flow \<times> _) = (Go (ro, re, rc), tr2)"
      "(kubectl_pods (fx_machine e) name [] tr2 :: (kresult, _) flow \<times> _) = (Go later, tr')" "rc = 0"
    using assms unfolding flux_confirm_def Let_def
    by (auto simp: andthen_done ret_def split: if_splits)
  then show ?thesis using exec_on_exit pods_grows exited0_more by metis
qed

section \<open>Properties\<close>

text \<open>A deployment through Flux CD is reported as a success only if the patch of a resource of
  Flux, with the tag, and the wait for the rollout of some deployment both ended with exit
  status 0; the deployment is looked for in the namespace of the context. Whether Flux reacted to
  the patch does not matter.\<close>

theorem flux_success:
  assumes "fst (flux_deploy e q img project) = Inr (True, out)"
  shows "\<exists>name kind data dep. kind \<in> set flux_kinds \<and> flux_payload (q_tag q) (fst (split_image_ref img)) kind data \<and> dep \<noteq> []
    \<and> exited0 (fx_machine e) (snd (flux_deploy e q img project)) (flux_patch_cmd e kind name (fx_dump e data))
    \<and> exited0 (fx_machine e) (snd (flux_deploy e q img project)) (rollout_cmd (ku_rollout_timeout (fx_kube e)) [] dep)"
proof -
  let ?tr = "snd (flux_deploy e q img project)" and ?repo = "fst (split_image_ref img)"
  have "fst (flux_flow e q img project []) \<noteq> Stop (True, out)"
    using flow_no_luck unfolding spec_def by (metis fst_conv)
  then have "flux_flow e q img project [] = (Go (True, out), ?tr)"
    using assms by (auto simp: flux_deploy_def in_try_def run_caught_def split: if_splits option.splits prod.splits flow.splits)
  then obtain name kind prior tr1 tr2 tr3 tr4 tr5 u where r:
      "discover_flux e (short_name project) ?repo [] = (Go (name, kind), tr1)" "kind \<noteq> []"
      "(flux_path e q name kind) tr2 = (Go (), tr3)"
      "flux_patch e (q_tag q) ?repo name kind tr3 = (Go (), tr4)"
      "flux_reconcile e prior name kind tr4 = (Go u, tr5)" "flux_confirm e prior name tr5 = (Go (True, out), ?tr)"
    unfolding flux_flow_def Let_def by (auto simp: andthen_done fail_def stop_with_def split: if_splits)
  obtain data where d: "flux_payload (q_tag q) ?repo kind data" "exited0 (fx_machine e) tr4 (flux_patch_cmd e kind name (fx_dump e data))"
    using flux_patch_exit [OF r(4)] by blast
  obtain dep where "dep \<noteq> []" "exited0 (fx_machine e) ?tr (rollout_cmd (ku_rollout_timeout (fx_kube e)) [] dep)"
    using flux_confirm_exit [OF r(6)] by blast
  moreover obtain n1 n2 where "tr5 = tr4 @ n1" "?tr = tr5 @ n2"
    using luck_grows [OF reconcile_no_luck r(5)] luck_grows [OF confirm_no_luck r(6)] by blast
  then have "exited0 (fx_machine e) ?tr (flux_patch_cmd e kind name (fx_dump e data))" using d(2) exited0_more by metis
  ultimately show ?thesis using discover_kind [OF r(1,2)] d(1) by blast
qed

text \<open>A node on which every command succeeds with the same answer: no pod ever changes.\<close>

definition sample_flux :: flux_env where
  "sample_flux = \<lparr>fx_kube = sample_kube, fx_ns = ''f'', fx_json = (\<lambda>_. Inl []), fx_dump = (\<lambda>_. ''{}''), fx_bad_value = [],
     fx_updated = [], fx_pods_now = [], fx_no_deployment = []\<rparr>"

theorem flux_success_witness:
  "\<exists>name data dep. exited0 sample_node (snd (flux_deploy sample_flux (sample_req []) ''r/w:v1'' ''w'')) (flux_patch_cmd sample_flux ''helmrelease'' name ''{}'')
     \<or> exited0 sample_node (snd (flux_deploy sample_flux (sample_req []) ''r/w:v1'' ''w'')) (flux_patch_cmd sample_flux ''kustomization'' name ''{}'')"
proof -
  have "case fst (flux_deploy sample_flux (sample_req []) ''r/w:v1'' ''w'') of Inr (b, _) \<Rightarrow> b | _ \<Rightarrow> False" by code_simp
  then obtain out where "fst (flux_deploy sample_flux (sample_req []) ''r/w:v1'' ''w'') = Inr (True, out)"
    by (auto split: sum.splits)
  from flux_success [OF this] show ?thesis by (auto simp: sample_flux_def sample_kube_def flux_kinds_def)
qed

lemma jget_jput: "jget (jput k v m) k' = (if k' = k then v else jget m k')"
  by (induction k v m rule: jput.induct) (auto simp: jget_def)

text \<open>The patch of the images of a Flux resource keeps every override of another image as it is, has
  an entry for the image, and every entry for the image has the tag.\<close>

theorem flux_images_kept:
  "filter (\<lambda>m. jget m ''name'' \<noteq> JStr img) (put_tag img tag ms) = filter (\<lambda>m. jget m ''name'' \<noteq> JStr img) ms
   \<and> filter (\<lambda>m. jget m ''name'' = JStr img \<and> jget m ''newTag'' \<noteq> JStr tag) (put_tag img tag ms) = []
   \<and> filter (\<lambda>m. jget m ''name'' = JStr img) (put_tag img tag ms) \<noteq> []"
proof -
  let ?f = "\<lambda>m. if jget m ''name'' = JStr img then jput ''newTag'' (JStr tag) m else m"
  have "filter (\<lambda>m. jget m ''name'' \<noteq> JStr img) (List.map ?f ms) = filter (\<lambda>m. jget m ''name'' \<noteq> JStr img) ms"
    by (induction ms) (simp_all add: jget_jput)
  moreover have "filter (\<lambda>m. jget m ''name'' = JStr img \<and> jget m ''newTag'' \<noteq> JStr tag) (List.map ?f ms) = []"
    by (induction ms) (simp_all add: jget_jput)
  moreover have "jget [(''name'', JStr img), (''newTag'', JStr tag)] ''name'' = JStr img"
      "jget [(''name'', JStr img), (''newTag'', JStr tag)] ''newTag'' = JStr tag" by (simp_all add: jget_def)
  moreover have "\<exists>m\<in>set ms. jget m ''name'' = JStr img \<Longrightarrow> filter (\<lambda>m. jget m ''name'' = JStr img) (List.map ?f ms) \<noteq> []"
    by (induction ms) (auto simp: jget_jput)
  ultimately show ?thesis by (simp add: put_tag_def Let_def)
qed

end
