(* ===== verification/Sso.thy ===== *)
theory Sso
  imports Oidc
begin

text \<open>
  \<^verbatim>\<open>backend/routers/oidc.py\<close>: the start of the sign-on and its callback. A reply is
  what the browser gets; every reply but a redirect to the provider and an exception clears the
  state cookie. The parameters of the login page other than the list of missing settings are left
  out.
\<close>

section \<open>Requests and replies\<close>

datatype reply =
    ToLogin string "string list"
  | ToProvider string string
  | ToStart
  | ToHome string
  | JsonError nat
  | Raised exc

record login_req =
  lr_browser :: bool
  lr_cookie :: "string option"
  lr_code :: string
  lr_state :: string
  lr_error :: string
  lr_retry :: string

record login_env =
  le_sso :: sso_env
  le_auth :: auth_env
  le_state :: string
  le_nonce :: string
  le_token :: string

record login_state =
  ls_auth :: auth_state
  ls_cache :: sso_cache

definition key_or :: "string option \<Rightarrow> string \<Rightarrow> string" where
  "key_or k d = (case k of None \<Rightarrow> d | Some x \<Rightarrow> if x = [] then d else x)"

definition nav_fail :: "bool \<Rightarrow> string \<Rightarrow> reply \<Rightarrow> reply" where
  "nav_fail browser key otherwise = (if browser then ToLogin key [] else otherwise)"

definition json_error :: "bool \<Rightarrow> nat \<Rightarrow> string \<Rightarrow> reply" where
  "json_error browser status key = nav_fail browser key (JsonError status)"

definition check_config :: "settings \<Rightarrow> bool \<Rightarrow> reply option" where
  "check_config st browser =
     (let missing = oidc_missing_settings st
      in if missing \<noteq> [] \<and> browser then Some (ToLogin ''errors.oidc_not_configured'' missing)
         else if \<not> oidc_ready st then Some (Raised (AppException 503 (Some ''errors.oidc_not_configured'')))
         else None)"

text \<open>The gate of every request, before the sign-on.\<close>

definition login_gate :: "auth_env \<Rightarrow> bool \<Rightarrow> auth_state \<Rightarrow> reply option \<times> auth_state" where
  "login_gate env browser s =
     (case cd_deploy_gate (ae_settings env) (ae_now env) (ae_contract env) (as_contract s) (as_schema s) of
        (r, cc, sc) \<Rightarrow>
          (case r of
             Inr _ \<Rightarrow> None
           | Inl e \<Rightarrow> Some (if is_app_exception e
                            then nav_fail browser (key_or (error_key e) ''errors.service_unavailable'') (Raised e)
                            else Raised e),
           s\<lparr>as_contract := cc, as_schema := sc\<rparr>))"

fun raised_by :: "oidc_fail \<Rightarrow> exc" where
  "raised_by (OidcError c k _) = AppException c k"
| "raised_by OidcCrash = OtherError"

section \<open>Start\<close>

definition start_login :: "login_env \<Rightarrow> bool \<Rightarrow> login_state \<Rightarrow> reply \<times> login_state" where
  "start_login env browser s =
     (case check_config (so_settings (le_sso env)) browser of
        Some r \<Rightarrow> (r, s)
      | None \<Rightarrow>
          (case login_gate (le_auth env) browser (ls_auth s) of
             (Some r, a) \<Rightarrow> (r, s\<lparr>ls_auth := a\<rparr>)
           | (None, a) \<Rightarrow>
               (case authorize_url (le_sso env) (le_state env) (le_nonce env) (ls_cache s) of
                  (Inr url, c) \<Rightarrow> (ToProvider url (le_state env @ ''.'' @ le_nonce env), \<lparr>ls_auth = a, ls_cache = c\<rparr>)
                | (Inl (OidcError st k g), c) \<Rightarrow>
                    (nav_fail browser (key_or k ''errors.sso_unavailable'') (Raised (AppException st k)),
                     \<lparr>ls_auth = a, ls_cache = c\<rparr>)
                | (Inl OidcCrash, c) \<Rightarrow> (Raised OtherError, \<lparr>ls_auth = a, ls_cache = c\<rparr>))))"

section \<open>Callback\<close>

text \<open>The exchange and the verification, under one \<^verbatim>\<open>try\<close>.\<close>

definition redeem :: "sso_env \<Rightarrow> string \<Rightarrow> string \<Rightarrow> sso_cache \<Rightarrow> (oidc_fail + string) \<times> sso_cache" where
  "redeem e code nonce c =
     (case exchange_code e code c of
        (Inl x, c') \<Rightarrow> (Inl x, c')
      | (Inr token, c') \<Rightarrow> verify_id_token e token nonce c')"

definition redeem_failed :: "login_req \<Rightarrow> oidc_fail \<Rightarrow> reply" where
  "redeem_failed q x =
     (case x of
        OidcCrash \<Rightarrow> Raised OtherError
      | OidcError _ k invalid_grant \<Rightarrow>
          if invalid_grant \<and> lr_retry q = [] then ToStart
          else json_error (lr_browser q) (if invalid_grant then 400 else 502)
                 (if invalid_grant then ''errors.sso_state_invalid'' else key_or k ''errors.sso_unavailable''))"

text \<open>The admission of the account and its session.\<close>

definition admit :: "login_env \<Rightarrow> login_req \<Rightarrow> string \<Rightarrow> auth_state \<Rightarrow> reply \<times> auth_state" where
  "admit env q username s =
     (let e = le_auth env
      in case get_identity (ae_settings e) (ae_glue e) (ae_times e) False username (as_caches s) of
           (Inl x, c) \<Rightarrow>
             (if \<not> is_app_exception (glue_exc x) then Raised (glue_exc x)
              else if status_code (glue_exc x) \<in> {401, 403}
              then ToLogin (key_or (error_key (glue_exc x)) ''errors.identity_unavailable'') []
              else json_error (lr_browser q) 502 (key_or (error_key (glue_exc x)) ''errors.sso_unavailable''),
              s\<lparr>as_caches := c\<rparr>)
         | (Inr i, c) \<Rightarrow>
             if identity_disabled i then (ToLogin ''errors.user_disabled'' [], s\<lparr>as_caches := c\<rparr>)
             else if \<not> has_system (ae_settings e) (i_systems i) ''cd'' then (ToLogin ''errors.no_cd_access'' [], s\<lparr>as_caches := c\<rparr>)
             else (ToHome (le_token env),
                   s\<lparr>as_caches := c, as_sessions := create_session (ae_settings e) (ae_hash e) (ae_now e) (le_token env)
                       (i_username i) (as_sessions s)\<rparr>))"

definition check_callback :: "login_req \<Rightarrow> reply option" where
  "check_callback q =
     (let expected = fst (partition_at (CHR ''.'') (or_empty (lr_cookie q)))
      in if lr_error q \<noteq> [] then Some (json_error (lr_browser q) 400 ''errors.sso_denied'')
         else if lr_code q = [] \<or> lr_state q = [] then Some (json_error (lr_browser q) 400 ''errors.sso_state_invalid'')
         else if expected = [] \<or> lr_state q \<noteq> expected then Some (json_error (lr_browser q) 400 ''errors.sso_state_invalid'')
         else None)"

definition callback :: "login_env \<Rightarrow> login_req \<Rightarrow> login_state \<Rightarrow> reply \<times> login_state" where
  "callback env q s =
     (case check_config (so_settings (le_sso env)) (lr_browser q) of
        Some r \<Rightarrow> (r, s)
      | None \<Rightarrow>
          (case login_gate (le_auth env) (lr_browser q) (ls_auth s) of
             (Some r, a) \<Rightarrow> (r, s\<lparr>ls_auth := a\<rparr>)
           | (None, a) \<Rightarrow>
               (case check_callback q of
                  Some r \<Rightarrow> (r, s\<lparr>ls_auth := a\<rparr>)
                | None \<Rightarrow>
                    (case redeem (le_sso env) (lr_code q) (snd (partition_at (CHR ''.'') (or_empty (lr_cookie q)))) (ls_cache s) of
                       (Inl x, c) \<Rightarrow> (redeem_failed q x, \<lparr>ls_auth = a, ls_cache = c\<rparr>)
                     | (Inr username, c) \<Rightarrow>
                         (case admit env q username a of (r, a') \<Rightarrow> (r, \<lparr>ls_auth = a', ls_cache = c\<rparr>))))))"

section \<open>Laws\<close>

lemma verify_claims_Inr:
  assumes "verify_claims e claims nonce = Inr u"
  shows "rstrip_char (CHR ''/'') (jtext e (jget claims ''iss'')) = oidc_issuer (so_settings e)
    \<and> (\<exists>auds. audiences (jget claims ''aud'') = Some auds \<and> JStr (oidc_client_id (so_settings e)) \<in> set auds)
    \<and> time_valid e claims \<and> nonce \<noteq> [] \<and> jtext e (jget claims ''nonce'') = nonce \<and> u = claimed_user e claims \<and> u \<noteq> []"
  using assms by (auto simp: verify_claims_def split: option.splits if_splits)

text \<open>Where keys come from: a list in a cache comes from the sets \<open>D\<close> (discovery documents) and
  \<open>K\<close> (lists of keys) of earlier calls; a list fetched now is the answer at the
  \<^verbatim>\<open>jwks_uri\<close> of a discovery document, which is an earlier one or the present answer of the
  issuer.\<close>

definition cached_from :: "(string \<times> json) list set \<Rightarrow> json list set \<Rightarrow> sso_cache \<Rightarrow> bool" where
  "cached_from D K c \<longleftrightarrow> set_option (tc_value (sc_discovery c)) \<subseteq> D \<and> set_option (tc_value (sc_jwks c)) \<subseteq> K"

definition provider_documents :: "sso_env \<Rightarrow> (string \<times> json) list set \<Rightarrow> (string \<times> json) list set" where
  "provider_documents e D = D \<union> {d. so_discovery e = Reply 200 (Some (JObj d)) \<and> check_discovery e d}"

definition key_lists :: "sso_env \<Rightarrow> (string \<times> json) list set \<Rightarrow> json list set \<Rightarrow> json list set" where
  "key_lists e D K = K \<union> {ks. ks \<noteq> [] \<and> (\<exists>d again m. d \<in> provider_documents e D
     \<and> so_jwks e again (jstr e (jget d ''jwks_uri'')) = Reply 200 (Some (JObj m)) \<and> jget m ''keys'' = JList ks)}"

text \<open>A token that is accepted: its three parts, the header with algorithm and identifier of a key, and the
  signature by the RSA key of one of the lists that has this identifier.\<close>

definition signed_claims :: "json list set \<Rightarrow> sso_env \<Rightarrow> string \<Rightarrow> (string \<times> json) list \<Rightarrow> bool" where
  "signed_claims published e t claims \<longleftrightarrow>
     (\<exists>h p sg b bh header signature ks key n ex. t = h @ ''.'' @ p @ ''.'' @ sg
        \<and> so_bytes e h = Some bh \<and> so_json e bh = Some (JObj header) \<and> jget header ''alg'' = JStr ''RS256''
        \<and> so_bytes e p = Some b \<and> so_json e b = Some (JObj claims)
        \<and> ks \<in> published \<and> JObj key \<in> set ks \<and> jget key ''kid'' = jget header ''kid'' \<and> jget key ''kty'' = JStr ''RSA''
        \<and> jget key ''n'' = JStr n \<and> jget key ''e'' = JStr ex
        \<and> so_bytes e sg = Some signature \<and> so_verify e n ex signature (h @ ''.'' @ p) = Some True)"

lemma pick_key_Some: "pick_key kid ks = Inr (Some m) \<Longrightarrow> JObj m \<in> set ks \<and> jget m ''kid'' = kid \<and> jget m ''kty'' = JStr ''RSA''"
  by (induction ks) (auto split: json.splits if_splits)

lemma discovery_from:
  assumes "discovery e c = (r, c')" "cached_from D K c"
  shows "cached_from (provider_documents e D) K c' \<and> (\<forall>d. r = Inr d \<longrightarrow> d \<in> provider_documents e D)"
  using assms
  by (auto simp: discovery_def fetch_discovery_def cached_from_def provider_documents_def ttl_get_def ttl_set_def
      split: option.splits sum.splits web.splits json.splits if_splits)

lemma documents_again [simp]: "provider_documents e (provider_documents e D) = provider_documents e D"
  by (auto simp: provider_documents_def)

lemma key_lists_mono: "K \<subseteq> K' \<Longrightarrow> K' \<subseteq> key_lists e D K \<Longrightarrow> key_lists e (provider_documents e D) K' = key_lists e D K"
  by (auto simp: key_lists_def)

lemma fetch_jwks_from:
  assumes "fetch_jwks e again c = (r, c')" "cached_from D K c"
  shows "cached_from (provider_documents e D) K c' \<and> (\<forall>ks. r = Inr ks \<longrightarrow> ks \<in> key_lists e D K)"
proof -
  obtain rd cd where d: "discovery e c = (rd, cd)" by fastforce
  from discovery_from [OF d assms(2)] show ?thesis
    using assms(1) d by (auto simp: fetch_jwks_def key_lists_def split: sum.splits web.splits option.splits json.splits if_splits)
qed

lemma jwks_from:
  assumes "jwks e force c = (r, c')" "cached_from D K c"
  shows "cached_from (provider_documents e D) (key_lists e D K) c' \<and> (\<forall>ks. r = Inr ks \<longrightarrow> ks \<in> key_lists e D K)"
proof -
  have sub: "D \<subseteq> provider_documents e D" "K \<subseteq> key_lists e D K" by (auto simp: provider_documents_def key_lists_def)
  obtain rf cf where f: "fetch_jwks e force c = (rf, cf)" by fastforce
  from fetch_jwks_from [OF f assms(2)] show ?thesis
    using assms f sub by (auto simp: jwks_def cached_from_def ttl_get_def ttl_set_def split: option.splits sum.splits if_splits)
qed

lemma find_key_from:
  assumes "find_key e kid c = (r, c')" "cached_from D K c"
  shows "cached_from (provider_documents e D) (key_lists e D K) c'
    \<and> (\<forall>m. r = Inr (Some m) \<longrightarrow> (\<exists>ks \<in> key_lists e D K. JObj m \<in> set ks \<and> jget m ''kid'' = kid \<and> jget m ''kty'' = JStr ''RSA''))"
proof -
  obtain r1 c1 where j1: "jwks e False c = (r1, c1)" by fastforce
  note f1 = jwks_from [OF j1 assms(2)]
  obtain r2 c2 where j2: "jwks e True c1 = (r2, c2)" by fastforce
  have same: "key_lists e (provider_documents e D) (key_lists e D K) = key_lists e D K" by (rule key_lists_mono) (auto simp: key_lists_def)
  note f2 = jwks_from [OF j2 conjunct1 [OF f1], unfolded same documents_again]
  show ?thesis using assms(1) f1 f2 j1 j2 by (auto simp: find_key_def split: sum.splits option.splits dest!: pick_key_Some)
qed

lemma verify_signature_from:
  assumes "verify_signature e header signature input c = (r, c')" "cached_from D K c"
  shows "cached_from (provider_documents e D) (key_lists e D K) c'
    \<and> (r = Inr () \<longrightarrow> jget header ''alg'' = JStr ''RS256'' \<and> (\<exists>ks m n ex. ks \<in> key_lists e D K \<and> JObj m \<in> set ks
        \<and> jget m ''kid'' = jget header ''kid'' \<and> jget m ''kty'' = JStr ''RSA'' \<and> jget m ''n'' = JStr n \<and> jget m ''e'' = JStr ex
        \<and> so_verify e n ex signature input = Some True))"
proof -
  have keep: "cached_from (provider_documents e D) (key_lists e D K) c" using assms(2) by (auto simp: cached_from_def provider_documents_def key_lists_def)
  obtain rk ck where k: "find_key e (jget header ''kid'') c = (rk, ck)" by fastforce
  note f = find_key_from [OF k assms(2)]
  show ?thesis
  proof (cases "jget header ''alg'' = JStr ''RS256'' \<and> jtruthy (jget header ''kid'')")
    case False
    then show ?thesis using assms(1) keep by (auto simp: verify_signature_def Let_def split: if_splits)
  next
    case True
    then show ?thesis using assms(1) f k
      by (cases rk; cases "projr rk") (auto simp: verify_signature_def Let_def split: if_splits json.splits)
  qed
qed

lemma py_join_Cons: "xs \<noteq> [] \<Longrightarrow> py_join sep (x # xs) = x @ sep @ py_join sep xs"
  by (cases xs) simp_all

lemma split_three: "split_on (CHR ''.'') t = [h, p, sg] \<Longrightarrow> t = h @ ''.'' @ p @ ''.'' @ sg"
  using join_split [of "CHR ''.''" t] by simp

lemma verify_id_token_from:
  assumes "verify_id_token e token nonce c = (r, c')" "cached_from D K c"
  shows "cached_from (provider_documents e D) (key_lists e D K) c'
    \<and> (\<forall>u. r = Inr u \<longrightarrow> (\<exists>t claims. token = JStr t \<and> signed_claims (key_lists e D K) e t claims \<and> verify_claims e claims nonce = Inr u))"
proof -
  have keep: "cached_from (provider_documents e D) (key_lists e D K) c" using assms(2) by (auto simp: cached_from_def provider_documents_def key_lists_def)
  show ?thesis
    using assms(1) keep unfolding verify_id_token_def signed_claims_def
    by (auto split: if_splits json.splits list.splits option.splits prod.splits sum.splits
        dest!: verify_signature_from [OF _ assms(2)] split_three) blast+
qed

lemma partition_parts:
  assumes "partition_at c s = (a, b)" "b \<noteq> []" shows "s = a @ c # b"
proof (cases "c \<in> set s")
  case True
  then obtain xs ys where "s = xs @ c # ys" "c \<notin> set xs" using split_list_first by metis
  then show ?thesis using assms partition_at_append by fastforce
qed (use assms partition_at_no_sep in fastforce)

lemma cached_grow: "cached_from D K c \<Longrightarrow> cached_from (provider_documents e D) (key_lists e D K) c"
  by (auto simp: cached_from_def provider_documents_def key_lists_def)

lemma exchange_code_from:
  assumes "exchange_code e code c = (r, c')" "cached_from D K c"
  shows "cached_from (provider_documents e D) K c'"
proof -
  obtain rd cd where d: "discovery e c = (rd, cd)" by fastforce
  have "c' = cd" using assms(1) d by (auto simp: exchange_code_def split: sum.splits web.splits option.splits json.splits if_splits)
  then show ?thesis using discovery_from [OF d assms(2)] by simp
qed

lemma key_lists_documents [simp]: "key_lists e (provider_documents e D) K = key_lists e D K"
  by (simp add: key_lists_def)

lemma redeem_from:
  assumes "redeem e code nonce c = (r, c')" "cached_from D K c"
  shows "cached_from (provider_documents e D) (key_lists e D K) c'
    \<and> (\<forall>u. r = Inr u \<longrightarrow> (\<exists>t claims. signed_claims (key_lists e D K) e t claims \<and> verify_claims e claims nonce = Inr u))"
proof -
  obtain rx cx where x: "exchange_code e code c = (rx, cx)" by fastforce
  note cx = exchange_code_from [OF x assms(2)]
  show ?thesis
  proof (cases rx)
    case (Inl f)
    then show ?thesis using assms(1) x cached_grow [OF cx, of e] by (auto simp: redeem_def)
  next
    case (Inr token)
    then have "verify_id_token e token nonce cx = (r, c')" using assms(1) x by (simp add: redeem_def)
    from verify_id_token_from [OF this cx] show ?thesis unfolding documents_again key_lists_documents by fast
  qed
qed

lemma admit_other:
  assumes "admit env q u s = (r, s')" "\<nexists>tok. r = ToHome tok"
  shows "as_sessions s' = as_sessions s"
  using assms by (auto simp: admit_def Let_def split: prod.splits sum.splits if_splits)

lemma admit_home:
  assumes "admit env q u s = (ToHome tok, s')"
  shows "tok = le_token env \<and> (\<exists>i c. get_identity (ae_settings (le_auth env)) (ae_glue (le_auth env)) (ae_times (le_auth env))
      False u (as_caches s) = (Inr i, c) \<and> \<not> identity_disabled i \<and> has_system (ae_settings (le_auth env)) (i_systems i) ''cd''
    \<and> as_sessions s' = create_session (ae_settings (le_auth env)) (ae_hash (le_auth env)) (ae_now (le_auth env)) tok
        (i_username i) (as_sessions s))"
  using assms
  by (auto simp: admit_def Let_def json_error_def nav_fail_def split: prod.splits sum.splits if_splits)

lemma no_home [simp]:
  "check_config st b \<noteq> Some (ToHome t)" "fst (login_gate e b a) \<noteq> Some (ToHome t)" "check_callback q \<noteq> Some (ToHome t)"
  "redeem_failed q x \<noteq> ToHome t"
  by (auto simp: check_config_def login_gate_def check_callback_def redeem_failed_def json_error_def nav_fail_def Let_def
      split: prod.splits sum.splits if_splits oidc_fail.splits)

text \<open>A gate that passed passes again.\<close>

lemma gate_again:
  assumes "cd_deploy_gate st now ans c sc = (Inr (), c', sc')"
  shows "fst (cd_deploy_gate st now ans c' sc') = Inr ()"
proof -
  obtain i c1 where r: "resolve_contract_state st now ans c = (Inr i, c1)" "is_enabled i"
      "ensure_tables st now ans c1 sc = (Inr (), c', sc')" "cd_missing_tables (sc_tables sc') = []"
    using assms by (auto simp: cd_deploy_gate_def split: prod.splits sum.splits if_splits)
  obtain c2 where c2: "resolve_contract_state st now ans c1 = (Inr i, c2)" using resolve_contract_again [OF r(1)] by blast
  have e: "sc_ensured sc'" "c' = c1 \<or> c' = c2"
    using r(2,3) c2 by (auto simp: ensure_tables_def split: if_splits)
  obtain c3 where "resolve_contract_state st now ans c' = (Inr i, c3)"
    using e(2) c2 resolve_contract_again [OF c2] by blast
  then show ?thesis using r(2,4) e(1) by (simp add: cd_deploy_gate_def ensure_tables_def)
qed

lemma login_gate_again: "login_gate e b a = (None, a') \<Longrightarrow> fst (login_gate e b a') = None"
  by (auto simp: login_gate_def dest!: gate_again split: prod.splits sum.splits if_splits)

lemma login_gate_None: "login_gate e b a = (r, a') \<Longrightarrow> r = None \<Longrightarrow> \<exists>a''. login_gate e b a' = (None, a'')"
  using login_gate_again [of e b a a'] by (metis prod.collapse)

lemma discovery_again: "discovery e c = (Inr d, c') \<Longrightarrow> discovery e c' = (Inr d, c')"
  by (auto simp: discovery_def ttl_get_def ttl_set_def split: option.splits sum.splits if_splits)

section \<open>Properties\<close>

text \<open>C7. A sign-on creates a session only for a request that carries the state of the cookie set at
  its start, with an id token that is signed by an RSA key of the provider (the one of the header's
  identifier, in a list that the \<^verbatim>\<open>jwks_uri\<close> of the issuer's discovery document gave, now or
  earlier), names this client and this issuer, is valid now and carries the nonce of the same cookie; the
  session is that of the identity of the token's account, which is enabled and entitled to CD. Every other
  answer, and the start of a sign-on, leaves the sessions as they are; and the caches are filled from the
  provider only.\<close>

theorem login_sound:
  assumes "callback env q s = (r, s')" "cached_from D K (ls_cache s)" "e = le_sso env"
  shows "(case r of
        ToHome tok \<Rightarrow> \<exists>nonce t claims i c auds. or_empty (lr_cookie q) = lr_state q @ CHR ''.'' # nonce \<and> lr_state q \<noteq> [] \<and> nonce \<noteq> []
          \<and> signed_claims (key_lists e D K) e t claims \<and> jtext e (jget claims ''nonce'') = nonce
          \<and> rstrip_char (CHR ''/'') (jtext e (jget claims ''iss'')) = oidc_issuer (so_settings e)
          \<and> audiences (jget claims ''aud'') = Some auds \<and> JStr (oidc_client_id (so_settings e)) \<in> set auds
          \<and> time_valid e claims
          \<and> get_identity (ae_settings (le_auth env)) (ae_glue (le_auth env)) (ae_times (le_auth env)) False
              (claimed_user e claims) (as_caches (ls_auth s)) = (Inr i, c)
          \<and> \<not> identity_disabled i \<and> has_system (ae_settings (le_auth env)) (i_systems i) ''cd''
          \<and> as_sessions (ls_auth s') = create_session (ae_settings (le_auth env)) (ae_hash (le_auth env)) (ae_now (le_auth env))
              tok (i_username i) (as_sessions (ls_auth s))
      | _ \<Rightarrow> as_sessions (ls_auth s') = as_sessions (ls_auth s))
    \<and> as_sessions (ls_auth (snd (start_login env b s))) = as_sessions (ls_auth s)
    \<and> cached_from (provider_documents e D) (key_lists e D K) (ls_cache s')"
proof -
  have gate: "as_sessions a = as_sessions (ls_auth s) \<and> as_caches a = as_caches (ls_auth s)"
    if "login_gate (le_auth env) browser (ls_auth s) = (x, a)" for browser x a
    using that by (auto simp: login_gate_def split: prod.splits)
  have start: "as_sessions (ls_auth (snd (start_login env b s))) = as_sessions (ls_auth s)"
    using gate by (auto simp: start_login_def split: option.splits prod.splits sum.splits oidc_fail.splits)
  have caches: "cached_from (provider_documents e D) (key_lists e D K) (ls_cache s')"
    using assms(1) cached_grow [OF assms(2), of e] redeem_from [OF _ assms(2), of e]
    by (auto simp: callback_def assms(3) split: option.splits prod.splits sum.splits)
  show ?thesis
  proof (cases "\<exists>tok. r = ToHome tok")
    case False
    then have "as_sessions (ls_auth s') = as_sessions (ls_auth s)"
      using assms(1) gate by (auto simp: callback_def dest!: admit_other split: option.splits prod.splits sum.splits)
    then show ?thesis using False start caches by (auto split: reply.split)
  next
    case True
    then obtain tok where tok: "r = ToHome tok" by blast
    obtain a u c2 a2 where r: "login_gate (le_auth env) (lr_browser q) (ls_auth s) = (None, a)" "check_callback q = None"
        "redeem e (lr_code q) (snd (partition_at (CHR ''.'') (or_empty (lr_cookie q)))) (ls_cache s) = (Inr u, c2)"
        "admit env q u a = (ToHome tok, a2)" "ls_auth s' = a2"
      using assms(1) unfolding callback_def tok assms(3)
      by (auto split: option.splits prod.splits sum.splits simp: no_home) (metis fst_conv no_home(2))+
    let ?nonce = "snd (partition_at (CHR ''.'') (or_empty (lr_cookie q)))"
    obtain t claims where t: "signed_claims (key_lists e D K) e t claims" "verify_claims e claims ?nonce = Inr u"
      using redeem_from [OF r(3) assms(2)] by blast
    note v = verify_claims_Inr [OF t(2)]
    have st: "fst (partition_at (CHR ''.'') (or_empty (lr_cookie q))) = lr_state q" "lr_state q \<noteq> []"
      using r(2) by (auto simp: check_callback_def Let_def split: if_splits)
    have "or_empty (lr_cookie q) = lr_state q @ CHR ''.'' # ?nonce"
      using partition_parts [of "CHR ''.''" "or_empty (lr_cookie q)" "lr_state q" ?nonce] st(1) v by (metis prod.collapse)
    moreover obtain i c where "get_identity (ae_settings (le_auth env)) (ae_glue (le_auth env)) (ae_times (le_auth env))
          False (claimed_user e claims) (as_caches a) = (Inr i, c)" "\<not> identity_disabled i"
        "has_system (ae_settings (le_auth env)) (i_systems i) ''cd''"
        "as_sessions (ls_auth s') = create_session (ae_settings (le_auth env)) (ae_hash (le_auth env)) (ae_now (le_auth env))
          tok (i_username i) (as_sessions a)"
      using admit_home [OF r(4)] v unfolding r(5) by blast
    ultimately have "\<exists>nonce t claims i c auds. or_empty (lr_cookie q) = lr_state q @ CHR ''.'' # nonce \<and> lr_state q \<noteq> [] \<and> nonce \<noteq> []
          \<and> signed_claims (key_lists e D K) e t claims \<and> jtext e (jget claims ''nonce'') = nonce
          \<and> rstrip_char (CHR ''/'') (jtext e (jget claims ''iss'')) = oidc_issuer (so_settings e)
          \<and> audiences (jget claims ''aud'') = Some auds \<and> JStr (oidc_client_id (so_settings e)) \<in> set auds
          \<and> time_valid e claims
          \<and> get_identity (ae_settings (le_auth env)) (ae_glue (le_auth env)) (ae_times (le_auth env)) False
              (claimed_user e claims) (as_caches (ls_auth s)) = (Inr i, c)
          \<and> \<not> identity_disabled i \<and> has_system (ae_settings (le_auth env)) (i_systems i) ''cd''
          \<and> as_sessions (ls_auth s') = create_session (ae_settings (le_auth env)) (ae_hash (le_auth env)) (ae_now (le_auth env))
              tok (i_username i) (as_sessions (ls_auth s))"
      using v t(1) st(2) gate [OF r(1)] by metis
    then show ?thesis using start caches tok by simp
  qed
qed

text \<open>A provider of which every token is good, and one that refuses every code.\<close>

definition sample_provider :: "web \<Rightarrow> sso_env" where
  "sample_provider token_answer = \<lparr>so_settings = sample_settings\<lparr>oidc_issuer := ''https://idp'', oidc_client_secret := ''x'',
       oidc_redirect_uri := ''/cb''\<rparr>,
     so_scopes = ''openid'', so_now = 1000,
     so_discovery = Reply 200 (Some (JObj [(''issuer'', JStr ''https://idp/''), (''authorization_endpoint'', JStr ''/authorize''),
       (''token_endpoint'', JStr ''/token''), (''jwks_uri'', JStr ''/keys'')])),
     so_jwks = (\<lambda>_ _. Reply 200 (Some (JObj [(''keys'', JList [JObj [(''kid'', JStr ''k''), (''kty'', JStr ''RSA''),
       (''n'', JStr ''n''), (''e'', JStr ''e'')]])]))),
     so_token = (\<lambda>_ _. token_answer), so_show = (\<lambda>_. []), so_float = (\<lambda>_. None), so_bytes = Some,
     so_json = (\<lambda>x. if x = ''h'' then Some (JObj [(''alg'', JStr ''RS256''), (''kid'', JStr ''k'')])
       else Some (JObj [(''iss'', JStr ''https://idp''), (''aud'', JStr ''cd''), (''exp'', JNum (Fin 2000)), (''nonce'', JStr ''n1''),
         (''sub'', JStr ''bob'')])),
     so_verify = (\<lambda>_ _ _ _. Some True)\<rparr>"

definition sample_login :: "web \<Rightarrow> login_env" where
  "sample_login token_answer = \<lparr>le_sso = sample_provider token_answer, le_auth = sample_env 1000, le_state = ''s1'',
     le_nonce = ''n1'', le_token = ''tok2''\<rparr>"

definition sample_start :: login_state where
  "sample_start = \<lparr>ls_auth = sample_auth, ls_cache = \<lparr>sc_discovery = \<lparr>tc_value = None, tc_expires = 0\<rparr>,
     sc_jwks = \<lparr>tc_value = None, tc_expires = 0\<rparr>\<rparr>\<rparr>"

definition good_answer :: web where
  "good_answer = Reply 200 (Some (JObj [(''id_token'', JStr ''h.p.s'')]))"

definition refused_answer :: web where
  "refused_answer = Reply 400 (Some (JObj [(''error'', JStr ''invalid_grant'')]))"

definition sample_callback :: login_req where
  "sample_callback = \<lparr>lr_browser = True, lr_cookie = Some ''s1.n1'', lr_code = ''c'', lr_state = ''s1'', lr_error = [], lr_retry = []\<rparr>"

lemmas redeem_simps = redeem_def exchange_code_def discovery_def fetch_discovery_def check_discovery_def ttl_get_def ttl_set_def
  verify_id_token_def verify_signature_def find_key_def jwks_def fetch_jwks_def verify_claims_def time_valid_def to_float_def
  audiences_def claimed_user_def jget_def jtext_def jstr_def sample_login_def sample_provider_def sample_start_def good_answer_def
  sample_settings_def default_settings_def rstrip_char_def py_strip_def py_lstrip_def py_rstrip_def py_lower_def lower_char_def
  is_space_def is_upper_def

lemma sample_login_gate:
  "\<exists>a. login_gate (le_auth (sample_login w)) True (ls_auth sample_start) = (None, a) \<and> as_caches a = empty_caches"
proof -
  obtain cc sc where "cd_deploy_gate sample_settings 1000 enabled_answer empty_contract_cache
     \<lparr>sc_ensured = True, sc_tables = cd_required_tables\<rparr> = (Inr (), cc, sc)"
    using sample_gate [of 1000] by auto
  then show ?thesis
    by (simp add: login_gate_def sample_login_def sample_env_def sample_start_def sample_auth_def)
qed

theorem login_sound_witness:
  "\<exists>t claims. signed_claims (key_lists (le_sso (sample_login good_answer)) {} {}) (le_sso (sample_login good_answer)) t claims \<and>
     fst (callback (sample_login good_answer) sample_callback sample_start) = ToHome ''tok2''"
proof -
  obtain a where g: "login_gate (le_auth (sample_login good_answer)) True (ls_auth sample_start) = (None, a)"
      "as_caches a = empty_caches"
    using sample_login_gate by blast
  have k: "check_config (so_settings (le_sso (sample_login good_answer))) True = None" "check_callback sample_callback = None"
    by (simp_all add: check_config_def oidc_missing_settings_def oidc_ready_def redeem_simps check_callback_def
        sample_callback_def partition_at_def)
  obtain c where r: "redeem (le_sso (sample_login good_answer)) ''c'' ''n1'' (ls_cache sample_start) = (Inr ''bob'', c)"
    by (simp add: redeem_simps)
  have "has_system sample_settings (Some ''cd'') ''cd''"
    by (simp add: has_system_def py_strip_def py_lstrip_def py_rstrip_def is_space_def)
  then have "fst (admit (sample_login good_answer) sample_callback ''bob'' a) = ToHome ''tok2''"
    using g(2) by (simp add: admit_def Let_def sample_login_def sample_env_def sample_first_call identity_disabled_def)
  then have "fst (callback (sample_login good_answer) sample_callback sample_start) = ToHome ''tok2''"
    using g k r by (simp add: callback_def split_beta)
      (simp add: sample_callback_def partition_at_def split_beta)
  then obtain s' where cb: "callback (sample_login good_answer) sample_callback sample_start = (ToHome ''tok2'', s')"
    by (metis prod.collapse)
  have "cached_from {} {} (ls_cache sample_start)" by (simp add: cached_from_def sample_start_def)
  from login_sound [OF cb this refl, of True] show ?thesis unfolding cb fst_conv reply.case by blast
qed

text \<open>One attempt of a browser: start, the provider's redirect with a code and the same state, and
  the callback. The provider redirects to the registered address, so the callback has no
  \<^verbatim>\<open>retry\<close>.\<close>

definition attempt :: "login_env \<Rightarrow> string \<Rightarrow> login_state \<Rightarrow> reply \<times> login_state" where
  "attempt env code s =
     (case start_login env True s of
        (ToProvider url cookie, s1) \<Rightarrow>
          callback env \<lparr>lr_browser = True, lr_cookie = Some cookie, lr_code = code, lr_state = le_state env, lr_error = [],
            lr_retry = []\<rparr> s1
      | r \<Rightarrow> r)"

definition open_for :: "login_env \<Rightarrow> login_state \<Rightarrow> bool" where
  "open_for env s \<longleftrightarrow> (\<exists>a d c. login_gate (le_auth env) True (ls_auth s) = (None, a) \<and> discovery (le_sso env) (ls_cache s) = (Inr d, c))"

lemma attempt_refused:
  assumes "open_for env s" "oidc_ready (so_settings (le_sso env))" "code \<noteq> []"
    and "le_state env \<noteq> []" "CHR ''.'' \<notin> set (le_state env)"
    and "\<And>endpoint. so_token (le_sso env) endpoint code = refused_answer"
  shows "fst (attempt env code s) = ToStart \<and> open_for env (snd (attempt env code s))"
proof -
  obtain a d c where o: "login_gate (le_auth env) True (ls_auth s) = (None, a)" "discovery (le_sso env) (ls_cache s) = (Inr d, c)"
    using assms(1) by (auto simp: open_for_def)
  obtain a2 where a2: "login_gate (le_auth env) True a = (None, a2)" using login_gate_None [OF o(1)] by blast
  obtain a3 where a3: "login_gate (le_auth env) True a2 = (None, a3)" using login_gate_None [OF a2] by blast
  have c: "discovery (le_sso env) c = (Inr d, c)" using discovery_again [OF o(2)] .
  have m: "check_config (so_settings (le_sso env)) True = None"
    using assms(2) by (simp add: check_config_def oidc_ready_def)
  have "token_failure (le_sso env) 400 (Some (JObj [(''error'', JStr ''invalid_grant'')])) = OidcError 400 None True"
    by (simp add: token_failure_def jtext_def jget_def jstr_def)
  then have r: "redeem (le_sso env) code nonce c = (Inl (OidcError 400 None True), c)" for nonce
    using assms(6) c by (simp add: redeem_def exchange_code_def refused_answer_def)
  have "attempt env code s = (ToStart, \<lparr>ls_auth = a2, ls_cache = c\<rparr>)"
    using o a2 m r assms(3-5)
    by (simp add: attempt_def start_login_def authorize_url_def callback_def check_callback_def partition_at_append Let_def
        redeem_failed_def)
  then show ?thesis using a3 c by (simp add: open_for_def)
qed

text \<open>The silent restart has no bound: as long as the provider answers \<^verbatim>\<open>invalid_grant\<close>,
  every attempt of a browser ends in a redirect to the start, however many there were.\<close>

theorem restart_unbounded:
  assumes "open_for env s" "oidc_ready (so_settings (le_sso env))" "code \<noteq> []"
    and "le_state env \<noteq> []" "CHR ''.'' \<notin> set (le_state env)"
    and "\<And>endpoint. so_token (le_sso env) endpoint code = refused_answer"
  shows "fst (attempt env code (((\<lambda>s. snd (attempt env code s)) ^^ n) s)) = ToStart"
proof -
  have "open_for env (((\<lambda>s. snd (attempt env code s)) ^^ n) s)"
    by (induction n) (use assms(1) attempt_refused [OF _ assms(2-6)] in auto)
  then show ?thesis using attempt_refused [OF _ assms(2-6)] by blast
qed

theorem restart_unbounded_witness:
  "fst (attempt (sample_login refused_answer) ''c''
     (((\<lambda>s. snd (attempt (sample_login refused_answer) ''c'' s)) ^^ 1000) sample_start)) = ToStart"
proof (rule restart_unbounded)
  have g: "\<exists>a. login_gate (le_auth (sample_login refused_answer)) True (ls_auth sample_start) = (None, a)"
    using sample_login_gate by blast
  have d: "\<not> isl (fst (discovery (le_sso (sample_login refused_answer)) (ls_cache sample_start)))"
    by (simp add: redeem_simps)
  show "open_for (sample_login refused_answer) sample_start"
    unfolding open_for_def using g d by (metis isl_def prod.collapse sum.collapse(2))
  show "oidc_ready (so_settings (le_sso (sample_login refused_answer)))"
    by (simp add: oidc_missing_settings_def oidc_ready_def redeem_simps)
qed (simp_all add: sample_login_def sample_provider_def)

text \<open>An expiry time that is no number never expires: no comparison with it holds.\<close>

lemma nan_never_expires:
  "map_of claims ''exp'' = Some (JNum NaN) \<Longrightarrow> map_of claims ''iat'' = None \<Longrightarrow> 0 \<le> oidc_id_token_max_skew (so_settings e)
   \<Longrightarrow> time_valid e claims"
  by (simp add: time_valid_def to_float_def)

end
