(* ===== verification/Measures.thy ===== *)
theory Measures
  imports K8sUtils Oidc
begin

text \<open>
  Numbers read from text the way Python reads them (\<^verbatim>\<open>int\<close>, \<^verbatim>\<open>float\<close> and the two
  tolerant readers of \<^verbatim>\<open>backend/routers/custom_monitors.py\<close>). A finite float is its exact
  decimal value; rounding to binary and overflow of floats are left out. Texts are ASCII.
\<close>

datatype fval = Dec int nat | Inf bool | Nan

section \<open>Reading\<close>

text \<open>Digits, with single underscores between them.\<close>

fun digit_part :: "string \<Rightarrow> bool" where
  "digit_part [] = False"
| "digit_part [c] = is_digit c"
| "digit_part (c # d # s) = (is_digit c \<and> (if d = CHR ''_'' then digit_part s else digit_part (d # s)))"

definition digits_value :: "string \<Rightarrow> nat" where
  "digits_value s = nat_of_digits (filter is_digit s)"

text \<open>The sign and the rest.\<close>

definition split_sign :: "string \<Rightarrow> bool \<times> string" where
  "split_sign s = (case s of c # t \<Rightarrow> if c = CHR ''-'' then (True, t) else if c = CHR ''+'' then (False, t) else (False, s)
     | [] \<Rightarrow> (False, []))"

definition signed :: "bool \<Rightarrow> nat \<Rightarrow> int" where
  "signed neg n = (if neg then - int n else int n)"

definition py_int :: "string \<Rightarrow> int option" where
  "py_int s =
     (let (neg, t) = split_sign (py_strip s)
      in if digit_part t then Some (signed neg (digits_value t)) else None)"

definition exponent_of :: "string \<Rightarrow> int option" where
  "exponent_of s =
     (let (neg, t) = split_sign s in if digit_part t then Some (signed neg (digits_value t)) else None)"

text \<open>An unsigned decimal: the digits, their number after the point, the exponent.\<close>

definition read_decimal :: "string \<Rightarrow> (nat \<times> nat \<times> int) option" where
  "read_decimal s =
     (let low = List.map lower_char s; (mant, ex) = partition_at (CHR ''e'') low;
          (ip, fp) = partition_at (CHR ''.'') mant;
          ok = (if CHR ''.'' \<in> set mant then (ip \<noteq> [] \<or> fp \<noteq> []) \<and> (ip = [] \<or> digit_part ip) \<and> (fp = [] \<or> digit_part fp)
                else digit_part ip)
      in if \<not> ok then None
         else map_option (\<lambda>x. (nat_of_digits (filter is_digit (ip @ fp)), length (filter is_digit fp), x))
                (if CHR ''e'' \<in> set low then exponent_of ex else Some 0))"

definition scaled :: "bool \<Rightarrow> nat \<times> nat \<times> int \<Rightarrow> fval" where
  "scaled neg d =
     (case d of (m, k, x) \<Rightarrow>
        if 0 \<le> x then Dec (signed neg (m * 10 ^ nat x)) k else Dec (signed neg m) (k + nat (- x)))"

definition py_float :: "string \<Rightarrow> fval option" where
  "py_float s =
     (let (neg, t) = split_sign (py_strip s); low = List.map lower_char t
      in if low = ''inf'' \<or> low = ''infinity'' then Some (Inf neg)
         else if low = ''nan'' then Some Nan
         else map_option (scaled neg) (read_decimal t))"

section \<open>Using\<close>

text \<open>\<open>at_least v t\<close> is \<^verbatim>\<open>v >= t\<close>, \<open>above v n d\<close> is \<^verbatim>\<open>v > n / d\<close>.\<close>

definition at_least :: "fval \<Rightarrow> int \<Rightarrow> bool" where
  "at_least v t = (case v of Dec m k \<Rightarrow> t * 10 ^ k \<le> m | Inf neg \<Rightarrow> \<not> neg | Nan \<Rightarrow> False)"

definition above :: "fval \<Rightarrow> int \<Rightarrow> nat \<Rightarrow> bool" where
  "above v n d = (case v of Dec m k \<Rightarrow> n * 10 ^ k < m * int d | Inf neg \<Rightarrow> \<not> neg | Nan \<Rightarrow> False)"

definition trunc_div :: "int \<Rightarrow> int \<Rightarrow> int" where
  "trunc_div a b = (if 0 \<le> a then a div b else - (- a div b))"

text \<open>\<^verbatim>\<open>int(v * n / d)\<close>; \<open>None\<close> raises.\<close>

definition whole :: "fval \<Rightarrow> nat \<Rightarrow> nat \<Rightarrow> int option" where
  "whole v n d = (case v of Dec m k \<Rightarrow> Some (trunc_div (m * int n) (10 ^ k * int d)) | _ \<Rightarrow> None)"

text \<open>\<^verbatim>\<open>round(v / c * 100)\<close>, halves to even; \<open>None\<close> raises.\<close>

definition round_div :: "int \<Rightarrow> int \<Rightarrow> int" where
  "round_div a b =
     (let q = a div b; r = a mod b
      in if 2 * r < b \<or> 2 * r = b \<and> even q then q else q + 1)"

definition percent_of :: "fval \<Rightarrow> int \<Rightarrow> int option" where
  "percent_of v c =
     (case v of
        Dec m k \<Rightarrow> if c = 0 then None else Some (round_div (100 * m * sgn c) (10 ^ k * \<bar>c\<bar>))
      | _ \<Rightarrow> None)"

section \<open>Tolerant readers\<close>

definition is_unit_char :: "char \<Rightarrow> bool" where
  "is_unit_char c = (lower_char c \<in> {CHR ''k'', CHR ''m'', CHR ''g'', CHR ''t'', CHR ''p''})"

definition is_b :: "char \<Rightarrow> bool" where
  "is_b c = (lower_char c = CHR ''b'')"

definition is_i :: "char \<Rightarrow> bool" where
  "is_i c = (lower_char c = CHR ''i'')"

text \<open>The reversed text without the longest unit at its end.\<close>

fun drop_unit :: "string \<Rightarrow> string" where
  "drop_unit (b # i # u # s) =
     (if is_b b \<and> is_i i \<and> is_unit_char u then s
      else if (is_b b \<or> is_i b) \<and> is_unit_char i then u # s
      else if is_unit_char b \<or> is_b b then i # u # s else b # i # u # s)"
| "drop_unit [b, u] = (if (is_b b \<or> is_i b) \<and> is_unit_char u then [] else if is_unit_char b \<or> is_b b then [u] else [b, u])"
| "drop_unit [b] = (if is_unit_char b \<or> is_b b then [] else [b])"
| "drop_unit [] = []"

definition strip_unit :: "string \<Rightarrow> string" where
  "strip_unit s =
     (case rev s of
        c # t \<Rightarrow> if c = newline then rev (c # drop_unit t) else rev (drop_unit (c # t))
      | [] \<Rightarrow> [])"

definition try_float :: "string \<Rightarrow> fval option" where
  "try_float s =
     (let t = py_strip s
      in if t = [] then None else py_float (strip_unit (filter (\<lambda>c. c \<noteq> CHR '','') (rstrip_char (CHR ''%'') t))))"

text \<open>The first number in a line: a sign, digits, a point and digits.\<close>

definition take_number :: "string \<Rightarrow> string option" where
  "take_number s =
     (let (neg, t) = split_sign s; sign = take (length s - length t) s; ip = takeWhile is_digit t; rest = dropWhile is_digit t
      in if ip = [] then None
         else Some (sign @ ip @ (case rest of c # r \<Rightarrow> if c = CHR ''.'' then c # takeWhile is_digit r else [] | [] \<Rightarrow> [])))"

fun find_number :: "string \<Rightarrow> string option" where
  "find_number [] = None"
| "find_number (c # s) = (case take_number (c # s) of Some n \<Rightarrow> Some n | None \<Rightarrow> find_number s)"

fun first_number :: "string list \<Rightarrow> fval option" where
  "first_number [] = None"
| "first_number (l # ls) =
     (case Option.bind (find_number (py_strip l)) py_float of Some v \<Rightarrow> Some v | None \<Rightarrow> first_number ls)"

text \<open>The whole text, or the first number of the last line that has one.\<close>

definition parse_number :: "string \<Rightarrow> fval option" where
  "parse_number raw =
     (if raw = [] then None
      else case py_float (py_strip raw) of
             Some v \<Rightarrow> Some v
           | None \<Rightarrow> first_number (rev (split_on newline (py_strip raw))))"

section \<open>Laws\<close>

text \<open>Units are dropped, not converted: the same number with any unit is the same value.\<close>

lemma samples:
  "try_float ''20G'' = Some (Dec 20 0)" "try_float ''1.5GiB'' = Some (Dec 15 1)" "try_float ''1,234 %'' = Some (Dec 1234 0)"
  "py_float '' -1_0.5e-1 '' = Some (Dec (- 105) 2)" "py_float ''1__0'' = None" "parse_number ''load: 0.5 x'' = Some (Dec 5 1)"
  "percent_of (Dec 5 1) 4 = Some 12" "percent_of (Dec 54 2) 4 = Some 14"
  by code_simp+

end
