(* ===== verification/Alerts.thy ===== *)
theory Alerts
  imports Notify Dlock Contract
begin

text \<open>
  \<^verbatim>\<open>backend/services/alert_service.py\<close>: the periodic check of the alert rules. The
  memory of the checker are the times of the last alert and of the first excess per rule, server
  and entity. What the collector measured and the texts outside ASCII are parameters; one check of
  a rule takes no time.
\<close>

section \<open>Rules, measurements and memory\<close>

record alert_rule =
  ar_id :: row_id
  ar_resource :: string
  ar_target :: string
  ar_bot :: int
  ar_cooldown :: int
  ar_duration :: int
  ar_template :: string
  ar_threshold :: int
  ar_servers :: string
  ar_enabled :: bool

record measurement =
  me_name :: string
  me_value :: int
  me_resource :: string
  me_sub_type :: string
  me_unit :: string
  me_raw :: string
  me_entity :: string
  me_metric :: string

record alert_state =
  al_cooldowns :: "string \<Rightarrow> epoch option"
  al_durations :: "string \<Rightarrow> epoch option"
  al_posts :: "string list"

record alert_env =
  av_hook :: hook_env
  av_rich :: "string \<Rightarrow> string result"
  av_bots :: "int \<Rightarrow> (string \<times> string) option"
  av_servers :: "server list"
  av_time_text :: string
  av_default :: "string \<Rightarrow> string \<Rightarrow> string"
  av_zh_resources :: "(string \<times> string) list"
  av_zh_types :: "(string \<times> string) list"
  av_collect :: "alert_rule \<Rightarrow> server \<Rightarrow> measurement list result"

section \<open>Cooldown and duration\<close>

definition track_prefix :: "row_id \<Rightarrow> row_id \<Rightarrow> string" where
  "track_prefix rule srv = nat_str rule @ ''_'' @ nat_str srv @ ''_''"

definition track_key :: "row_id \<Rightarrow> row_id \<Rightarrow> string \<Rightarrow> string" where
  "track_key rule srv entity = track_prefix rule srv @ entity"

text \<open>Entries older than a day are dropped.\<close>

definition purge :: "epoch \<Rightarrow> (string \<Rightarrow> epoch option) \<Rightarrow> string \<Rightarrow> epoch option" where
  "purge now m k = (case m k of None \<Rightarrow> None | Some t \<Rightarrow> if 86400 < now - t then None else Some t)"

definition in_cooldown :: "epoch \<Rightarrow> string \<Rightarrow> int \<Rightarrow> alert_state \<Rightarrow> bool" where
  "in_cooldown now k minutes s =
     (now - (case al_cooldowns s k of None \<Rightarrow> 0 | Some t \<Rightarrow> t) < minutes * 60)"

definition set_cooldown :: "epoch \<Rightarrow> string \<Rightarrow> alert_state \<Rightarrow> alert_state" where
  "set_cooldown now k s = s\<lparr>al_cooldowns := purge now ((al_cooldowns s)(k \<mapsto> now))\<rparr>"

definition mark_exceeded :: "epoch \<Rightarrow> string \<Rightarrow> alert_state \<Rightarrow> alert_state" where
  "mark_exceeded now k s =
     s\<lparr>al_durations := purge now (if al_durations s k = None then (al_durations s)(k \<mapsto> now) else al_durations s)\<rparr>"

definition exceeded_seconds :: "epoch \<Rightarrow> string \<Rightarrow> alert_state \<Rightarrow> int" where
  "exceeded_seconds now k s =
     (case al_durations s k of None \<Rightarrow> 0 | Some t \<Rightarrow> if t = 0 then 0 else now - t)"

definition clear_duration :: "string \<Rightarrow> alert_state \<Rightarrow> alert_state" where
  "clear_duration k s = s\<lparr>al_durations := (al_durations s)(k := None)\<rparr>"

definition clear_server :: "row_id \<Rightarrow> row_id \<Rightarrow> alert_state \<Rightarrow> alert_state" where
  "clear_server rule srv s =
     (let s1 = clear_duration (track_key rule srv []) s
      in s1\<lparr>al_durations := (\<lambda>k. if starts_with (track_prefix rule srv) k then None else al_durations s1 k)\<rparr>)"

section \<open>The message\<close>

definition en_resources :: "(string \<times> string) list" where
  "en_resources = [(''cpu'', ''CPU''), (''memory'', ''Memory''), (''disk'', ''Disk''), (''pod_cpu'', ''Pod CPU''),
     (''pod_memory'', ''Pod Memory''), (''docker_cpu'', ''Container CPU''), (''docker_memory'', ''Container Memory''),
     (''process_cpu'', ''Process CPU''), (''process_memory'', ''Process Memory'')]"

definition en_types :: "(string \<times> string) list" where
  "en_types = [(''pod'', ''Pod''), (''docker'', ''Container''), (''process'', ''Process'')]"

definition label_in :: "(string \<times> string) list \<Rightarrow> string \<Rightarrow> string" where
  "label_in names x = (case map_of names x of None \<Rightarrow> x | Some l \<Rightarrow> l)"

definition resource_name :: "alert_env \<Rightarrow> string \<Rightarrow> measurement \<Rightarrow> string" where
  "resource_name env lang r =
     (if starts_with ''custom_'' (me_resource r) then me_name r
      else label_in (if lang = ''zh'' then av_zh_resources env else en_resources) (me_resource r))"

definition alert_fields :: "alert_env \<Rightarrow> alert_rule \<Rightarrow> server \<Rightarrow> measurement \<Rightarrow> string \<Rightarrow> (string \<times> string) list" where
  "alert_fields env rule srv r lang =
     [(''time'', av_time_text env), (''server'', s_name srv), (''host'', s_host srv),
      (''resource_name'', resource_name env lang r), (''value'', int_str (me_value r)),
      (''threshold'', int_str (ar_threshold rule)), (''name'', me_name r),
      (''type_name'', label_in (if lang = ''zh'' then av_zh_types env else en_types) (me_sub_type r)),
      (''resource'', resource_name env lang r), (''unit'', me_unit r), (''raw'', me_raw r),
      (''entity'', me_entity r), (''metric'', me_metric r)]"

definition alert_template :: "alert_env \<Rightarrow> alert_rule \<Rightarrow> string \<Rightarrow> string" where
  "alert_template env rule lang = str_or (py_strip (ar_template rule)) (av_default env (ar_target rule) lang)"

definition send_alert ::
  "alert_env \<Rightarrow> alert_rule \<Rightarrow> server \<Rightarrow> measurement \<Rightarrow> string \<times> string \<Rightarrow> string \<Rightarrow> alert_state \<Rightarrow> unit result \<times> alert_state" where
  "send_alert env rule srv r hook lang s =
     (case py_format (av_rich env) (alert_fields env rule srv r lang) (alert_template env rule lang) of
        Inl e \<Rightarrow> (Inl e, s)
      | Inr msg \<Rightarrow>
          (case send_webhook (av_hook env) (fst hook) msg (snd hook) of
             Inl e \<Rightarrow> (Inl e, s)
           | Inr (_, None) \<Rightarrow> (Inr (), s)
           | Inr (_, Some to) \<Rightarrow> (Inr (), s\<lparr>al_posts := al_posts s @ [msg]\<rparr>)))"

section \<open>Checking\<close>

text \<open>A step that may raise, and a loop over it; the memory keeps what was done before.\<close>

definition seq :: "unit result \<times> 's \<Rightarrow> ('s \<Rightarrow> unit result \<times> 's) \<Rightarrow> unit result \<times> 's" where
  "seq r f = (case r of (Inl e, s) \<Rightarrow> (Inl e, s) | (Inr _, s) \<Rightarrow> f s)"

fun each :: "('a \<Rightarrow> 's \<Rightarrow> unit result \<times> 's) \<Rightarrow> 'a list \<Rightarrow> 's \<Rightarrow> unit result \<times> 's" where
  "each f [] s = (Inr (), s)"
| "each f (x # xs) s = seq (f x s) (each f xs)"

definition check_result ::
  "alert_env \<Rightarrow> epoch \<Rightarrow> alert_rule \<Rightarrow> server \<Rightarrow> string \<times> string \<Rightarrow> measurement \<Rightarrow> alert_state \<Rightarrow> unit result \<times> alert_state" where
  "check_result env now rule srv hook r s =
     (let k = track_key (ar_id rule) (s_id srv) (me_entity r);
          s1 = mark_exceeded now k s;
          required = ar_duration rule * 60
      in if 0 < required \<and> exceeded_seconds now k s1 < required then (Inr (), s1)
         else if in_cooldown now k (ar_cooldown rule) s1 then (Inr (), s1)
         else each (send_alert env rule srv r hook) [''zh'', ''en''] (clear_duration k (set_cooldown now k s1)))"

definition check_server ::
  "alert_env \<Rightarrow> epoch \<Rightarrow> alert_rule \<Rightarrow> string \<times> string \<Rightarrow> server \<Rightarrow> alert_state \<Rightarrow> unit result \<times> alert_state" where
  "check_server env now rule hook srv s =
     (case av_collect env rule srv of
        Inl _ \<Rightarrow> (Inr (), s)
      | Inr [] \<Rightarrow> (Inr (), clear_server (ar_id rule) (s_id srv) s)
      | Inr rs \<Rightarrow> each (check_result env now rule srv hook) rs s)"

text \<open>The servers that a list of ids names; \<open>None\<close>: ids were given and none is a number.\<close>

definition servers_named :: "string \<Rightarrow> server list \<Rightarrow> server list option" where
  "servers_named given servers =
     (let ids_text = py_strip given
      in if ids_text = [] then Some (filter (\<lambda>s. s_type s \<in> {''ssh'', ''docker''}) servers)
         else let ids = List.map nat_of_digits (List.map py_strip (filter (\<lambda>x. py_isdigit (py_strip x)) (split_on (CHR '','') ids_text)))
              in if ids = [] then None else Some (filter (\<lambda>s. s_id s \<in> set ids) servers))"

definition check_one :: "alert_env \<Rightarrow> epoch \<Rightarrow> alert_rule \<Rightarrow> alert_state \<Rightarrow> unit result \<times> alert_state" where
  "check_one env now rule s =
     (if ar_resource rule = [] \<or> ar_bot rule = 0 then (Inr (), s)
      else case servers_named (ar_servers rule) (av_servers env) of
             None \<Rightarrow> (Inr (), s)
           | Some servers \<Rightarrow>
               (case av_bots env (ar_bot rule) of
                  None \<Rightarrow> (Inr (), s)
                | Some hook \<Rightarrow> each (check_server env now rule hook) servers s))"

definition check_all_rules :: "alert_env \<Rightarrow> epoch \<Rightarrow> alert_rule list \<Rightarrow> alert_state \<Rightarrow> unit result \<times> alert_state" where
  "check_all_rules env now rules s = each (check_one env now) (filter ar_enabled rules) s"

text \<open>One turn of the background thread: another instance may hold the lock; an exception ends
  the turn only.\<close>

definition alert_turn ::
  "row_counting \<Rightarrow> alert_env \<Rightarrow> string \<Rightarrow> epoch \<Rightarrow> int \<Rightarrow> alert_rule list \<Rightarrow> config \<times> alert_state \<Rightarrow> config \<times> alert_state" where
  "alert_turn drv env inst now interval rules cs =
     (case acquire drv inst now ''alert_check'' (max (interval * 3) 90) (fst cs) of
        (False, cfg) \<Rightarrow> (cfg, snd cs)
      | (True, cfg) \<Rightarrow> (cfg, snd (check_all_rules env now rules (snd cs))))"

text \<open>What the collector answers for a server: nothing when the connection fails, otherwise what it
  measured or the exception of the measurement.\<close>

definition collect_over ::
  "(server \<Rightarrow> bool) \<Rightarrow> (alert_rule \<Rightarrow> server \<Rightarrow> measurement list result) \<Rightarrow> alert_rule \<Rightarrow> server \<Rightarrow> measurement list result" where
  "collect_over reachable probe rule srv = (if reachable srv then probe rule srv else Inr [])"

section \<open>Laws\<close>

lemma seq_simps [simp]: "seq (Inl e, s) f = (Inl e, s)" "seq (Inr u, s) f = f s"
  by (simp_all add: seq_def)

lemma seq_snd: "snd (seq r f) = (case fst r of Inl _ \<Rightarrow> snd r | Inr _ \<Rightarrow> snd (f (snd r)))"
  by (auto simp: seq_def split: prod.splits sum.splits)

text \<open>What every step keeps, a loop keeps, exceptions included.\<close>

lemma each_keeps:
  assumes "\<And>x s. x \<in> set xs \<Longrightarrow> P s \<Longrightarrow> P (snd (f x s))" "P s"
  shows "P (snd (each f xs s))"
  using assms by (induction xs arbitrary: s) (auto simp: seq_snd split: sum.splits)

lemma check_one_keeps:
  assumes "\<And>srv r b s. P s \<Longrightarrow> P (snd (check_result env now rule srv b r s))"
    and "\<And>(srv :: server) s. P s \<Longrightarrow> P (clear_server (ar_id rule) (s_id srv) s)" "P s"
  shows "P (snd (check_one env now rule s))"
proof -
  have r: "P (snd (each (check_result env now rule srv b) rs s))" if "P s" for b srv rs s
    by (rule each_keeps [where P = P]) (simp_all add: assms(1) that)
  have "P (snd (check_server env now rule b srv s))" if "P s" for b srv s
    using that assms(2) r [OF that, of srv b] by (auto simp: check_server_def simp del: each.simps split: sum.splits list.splits)
  then show ?thesis using assms(3) each_keeps [of _ P "check_server env now rule b" for b]
    by (auto simp: check_one_def split: option.splits)
qed

text \<open>The keys of a rule and a server are exactly those with their prefix.\<close>

lemma digits_before:
  assumes "a @ c # x = b @ c # (y :: string)" "c \<notin> set a" "c \<notin> set b"
  shows "a = b \<and> x = y"
proof -
  have "(a, x) = partition_at c (b @ c # y)"
    unfolding assms(1) [symmetric] using partition_at_append [OF assms(2)] by (rule sym)
  also have "\<dots> = (b, y)" using assms(3) by (rule partition_at_append)
  finally show ?thesis by simp
qed

lemma underscore_no_digit: "CHR ''_'' \<notin> set (nat_str n)"
  using nat_str_all_digit [of n] by (auto simp: list_all_iff is_digit_def)

lemma prefix_of_key:
  "starts_with (track_prefix r v) (track_key r' v' e) \<longleftrightarrow> r = r' \<and> v = v'"
proof
  assume "starts_with (track_prefix r v) (track_key r' v' e)"
  then obtain rest where "track_key r' v' e = track_prefix r v @ rest" unfolding starts_with_iff by blast
  then have e: "nat_str r @ CHR ''_'' # (nat_str v @ CHR ''_'' # rest) = nat_str r' @ CHR ''_'' # (nat_str v' @ CHR ''_'' # e)"
    unfolding track_prefix_def track_key_def append_assoc append_Cons append_Nil by (rule sym)
  have 1: "nat_str r = nat_str r' \<and> nat_str v @ CHR ''_'' # rest = nat_str v' @ CHR ''_'' # e"
    using e underscore_no_digit underscore_no_digit by (rule digits_before)
  have "nat_str v = nat_str v' \<and> rest = e"
    using conjunct2 [OF 1] underscore_no_digit underscore_no_digit by (rule digits_before)
  moreover have "nat_str r = nat_str r'" using 1 ..
  ultimately show "r = r' \<and> v = v'" by (metis nat_of_digits_nat_str)
qed (simp add: track_key_def)

lemma track_key_inject: "track_key r v e = track_key r' v' e' \<longleftrightarrow> r = r' \<and> v = v' \<and> e = e'"
proof
  assume k: "track_key r v e = track_key r' v' e'"
  have "starts_with (track_prefix r v) (track_key r v e)" by (simp add: track_key_def)
  then have "r = r' \<and> v = v'" using prefix_of_key k by metis
  then show "r = r' \<and> v = v' \<and> e = e'" using k by (simp add: track_key_def)
qed simp

lemma purge_recent: "purge now m k = Some t \<Longrightarrow> now - t \<le> 86400 \<and> m k = Some t"
  by (auto simp: purge_def split: option.splits if_splits)

lemma exceeded_at_most_a_day: "exceeded_seconds now k (mark_exceeded now k s) \<le> 86400"
  by (auto simp: exceeded_seconds_def mark_exceeded_def split: option.splits dest!: purge_recent)

lemma send_alert_memory:
  "al_cooldowns (snd (send_alert env rule srv r b lang s)) = al_cooldowns s"
  "al_durations (snd (send_alert env rule srv r b lang s)) = al_durations s"
  by (auto simp: send_alert_def split: sum.splits option.splits prod.splits)

lemma send_both_memory:
  "al_cooldowns (snd (each (send_alert env rule srv r b) ls s)) = al_cooldowns s"
  "al_durations (snd (each (send_alert env rule srv r b) ls s)) = al_durations s"
  by (induction ls arbitrary: s) (auto simp: seq_snd send_alert_memory split: sum.splits)

text \<open>Whether a result leads to an alert.\<close>

definition fires :: "epoch \<Rightarrow> alert_rule \<Rightarrow> server \<Rightarrow> measurement \<Rightarrow> alert_state \<Rightarrow> bool" where
  "fires now rule srv r s =
     (let k = track_key (ar_id rule) (s_id srv) (me_entity r); s1 = mark_exceeded now k s
      in \<not> (0 < ar_duration rule * 60 \<and> exceeded_seconds now k s1 < ar_duration rule * 60)
         \<and> \<not> in_cooldown now k (ar_cooldown rule) s1)"

lemma stays_quiet: "\<not> fires now rule srv r s \<Longrightarrow>
    check_result env now rule srv b r s = (Inr (), mark_exceeded now (track_key (ar_id rule) (s_id srv) (me_entity r)) s)"
  by (auto simp: fires_def check_result_def Let_def)

lemma fires_run: "fires now rule srv r s \<Longrightarrow>
    check_result env now rule srv b r s = each (send_alert env rule srv r b) [''zh'', ''en'']
      (let k = track_key (ar_id rule) (s_id srv) (me_entity r) in clear_duration k (set_cooldown now k (mark_exceeded now k s)))"
  by (auto simp: fires_def check_result_def Let_def)

lemma mark_cooldowns [simp]: "al_cooldowns (mark_exceeded now k s) = al_cooldowns s" "al_posts (mark_exceeded now k s) = al_posts s"
  by (simp_all add: mark_exceeded_def)

lemma clear_cooldowns [simp]:
  "al_cooldowns (clear_duration k s) = al_cooldowns s" "al_cooldowns (clear_server r v s) = al_cooldowns s"
  "al_posts (clear_server r v s) = al_posts s"
  by (simp_all add: clear_duration_def clear_server_def Let_def)

text \<open>The memory over time: any results of any rules, any clearing, and time passing.\<close>

inductive memory_run :: "epoch \<Rightarrow> alert_state \<Rightarrow> epoch \<Rightarrow> alert_state \<Rightarrow> bool" for t :: epoch and s :: alert_state where
  stay: "memory_run t s t s"
| wait: "memory_run t s t1 s1 \<Longrightarrow> t1 \<le> t2 \<Longrightarrow> memory_run t s t2 s1"
| result: "memory_run t s t1 s1 \<Longrightarrow> memory_run t s t1 (snd (check_result env t1 rule srv b r s1))"
| clear: "memory_run t s t1 s1 \<Longrightarrow> memory_run t s t1 (clear_server rid sid s1)"

lemma memory_run_time: "memory_run t s t1 s1 \<Longrightarrow> t \<le> t1"
  by (induction rule: memory_run.induct) auto

text \<open>Every turn of the checker is such a run.\<close>

lemma turn_is_run:
  assumes "memory_run t s t1 s1" "t1 \<le> now"
  shows "memory_run t s now (snd (check_all_rules env now rules s1))"
  unfolding check_all_rules_def
proof (rule each_keeps)
  show "memory_run t s now s1" using assms by (rule memory_run.wait)
  fix rule s2 assume r: "memory_run t s now s2"
  show "memory_run t s now (snd (check_one env now rule s2))"
    by (rule check_one_keeps [where P = "memory_run t s now"]) (simp_all add: memory_run.result memory_run.clear r)
qed

definition remembered :: "string \<Rightarrow> epoch \<Rightarrow> epoch \<Rightarrow> alert_state \<Rightarrow> bool" where
  "remembered k t now s \<longleftrightarrow> (\<exists>l \<ge> t. al_cooldowns s k = Some l) \<or> 86400 < now - t"

lemma check_result_cooldowns:
  "al_cooldowns (snd (check_result env now rule srv b r s)) =
     (if fires now rule srv r s then purge now ((al_cooldowns s)(track_key (ar_id rule) (s_id srv) (me_entity r) \<mapsto> now))
      else al_cooldowns s)"
  using stays_quiet [of now rule srv r s env b] fires_run [of now rule srv r s env b]
  by (simp add: send_both_memory Let_def set_cooldown_def del: each.simps)

lemma run_remembers: "memory_run t s t1 s1 \<Longrightarrow> remembered k t t s \<Longrightarrow> remembered k t t1 s1"
proof (induction rule: memory_run.induct)
  case (result t1 s1 env rule srv b r)
  then show ?case using memory_run_time [OF result.hyps]
    by (auto simp: remembered_def check_result_cooldowns purge_def)
qed (auto simp: remembered_def)

section \<open>Properties\<close>

text \<open>Alerts keep their distance: between two alerts of a rule for the same server and entity lies
  at least the cooldown of the rule, or a day if that is shorter, whatever was checked in
  between.\<close>

theorem cooldown_respected:
  assumes "fires t rule srv r s" "memory_run t (snd (check_result env t rule srv b r s)) t' s'"
    and "fires t' rule srv r' s'" "me_entity r' = me_entity r"
  shows "min (ar_cooldown rule * 60) 86400 \<le> t' - t"
proof -
  let ?k = "track_key (ar_id rule) (s_id srv) (me_entity r)"
  have "remembered ?k t t (snd (check_result env t rule srv b r s))"
    using assms(1) by (simp add: remembered_def check_result_cooldowns purge_def)
  then have "remembered ?k t t' s'" using run_remembers [OF assms(2)] by blast
  moreover have "\<not> in_cooldown t' ?k (ar_cooldown rule) (mark_exceeded t' ?k s')"
    using assms(3,4) by (simp add: fires_def Let_def)
  ultimately show ?thesis by (auto simp: remembered_def in_cooldown_def)
qed

definition sample_alert_rule :: alert_rule where
  "sample_alert_rule = \<lparr>ar_id = 1, ar_resource = ''docker_cpu'', ar_target = ''docker'', ar_bot = 1, ar_cooldown = 5,
     ar_duration = 0, ar_template = ''{host} {value}'', ar_threshold = 80, ar_servers = [], ar_enabled = True\<rparr>"

definition sample_web :: server where
  "sample_web = \<lparr>s_id = 2, s_name = ''web'', s_host = ''10.0.0.2'', s_port = 22, s_user = ''root'', s_type = ''ssh'',
     s_password = [], s_key = [], s_tags = []\<rparr>"

definition sample_result :: "string \<Rightarrow> measurement" where
  "sample_result name = \<lparr>me_name = name, me_value = 91, me_resource = ''docker_cpu'', me_sub_type = ''docker'', me_unit = [],
     me_raw = [], me_entity = [], me_metric = []\<rparr>"

definition sample_alert_env :: alert_env where
  "sample_alert_env = \<lparr>av_hook = sample_hook, av_rich = (\<lambda>_. Inl ValueError), av_bots = (\<lambda>_. Some ([], [])),
     av_servers = [sample_web], av_time_text = [], av_default = (\<lambda>_ _. []), av_zh_resources = [], av_zh_types = [],
     av_collect = (\<lambda>_ _. Inr [sample_result ''a'', sample_result ''b''])\<rparr>"

definition fresh_memory :: alert_state where
  "fresh_memory = \<lparr>al_cooldowns = (\<lambda>_. None), al_durations = (\<lambda>_. None), al_posts = []\<rparr>"

lemma sample_fires:
  "86400 \<le> now \<Longrightarrow> fires now sample_alert_rule sample_web (sample_result n) fresh_memory"
  by (simp add: fires_def in_cooldown_def fresh_memory_def sample_alert_rule_def)

text \<open>Five minutes later the rule may alert again.\<close>

theorem cooldown_respected_witness:
  "\<exists>s. fires 90300 sample_alert_rule sample_web (sample_result ''b'') s \<and>
     al_cooldowns s (track_key 1 2 []) = Some 90000 \<and> min (5 * 60) 86400 \<le> 90300 - (90000 :: int)"
proof -
  let ?s = "snd (check_result sample_alert_env 90000 sample_alert_rule sample_web ([], []) (sample_result ''a'') fresh_memory)"
  have f: "fires 90000 sample_alert_rule sample_web (sample_result ''a'') fresh_memory" by (simp add: sample_fires)
  have c: "al_cooldowns ?s (track_key 1 2 []) = Some 90000"
    using f by (simp add: check_result_cooldowns purge_def sample_alert_rule_def sample_web_def sample_result_def)
  have e: "me_entity (sample_result n) = []" for n by (simp add: sample_result_def)
  have g: "fires 90300 sample_alert_rule sample_web (sample_result ''b'') ?s"
    unfolding fires_def Let_def in_cooldown_def mark_cooldowns e
    using c by (simp add: sample_alert_rule_def sample_web_def)
  have "memory_run 90000 ?s 90300 ?s" using memory_run.wait [OF memory_run.stay] by simp
  then show ?thesis using cooldown_respected [OF f _ g] c g by (auto simp: e sample_alert_rule_def)
qed

text \<open>Results without an entity label share one key per rule and server: once a container has
  alerted, every other container of the server is silent in the same turn.\<close>

theorem one_alert_per_key:
  assumes "fires now rule srv r s" "0 < ar_cooldown rule" "me_entity r' = me_entity r"
  shows "\<not> fires now rule srv r' (snd (check_result env now rule srv b r s))"
  using cooldown_respected [OF assms(1) memory_run.stay, of r' env b] assms(2,3) by auto

text \<open>A lost connection counts as no excess: it drops the memory of the first excess, so a rule
  with a duration does not alert at the next turn, however long the excess has lasted.\<close>

theorem lost_connection_restarts:
  assumes "\<not> reachable srv" "av_collect env = collect_over reachable probe" "0 < ar_duration rule"
  shows "\<not> fires t' rule srv r (snd (check_server env now rule b srv s))"
proof -
  have "al_durations (snd (check_server env now rule b srv s)) (track_key (ar_id rule) (s_id srv) (me_entity r)) = None"
    using assms(1,2) by (simp add: check_server_def collect_over_def clear_server_def Let_def prefix_of_key)
  then show ?thesis using assms(3)
    by (auto simp: fires_def Let_def mark_exceeded_def exceeded_seconds_def purge_def)
qed

theorem lost_connection_restarts_witness:
  "\<not> fires 90000 (sample_alert_rule\<lparr>ar_duration := 5\<rparr>) sample_web (sample_result ''a'')
     fresh_memory \<and>
   fires 90000 (sample_alert_rule\<lparr>ar_duration := 5\<rparr>) sample_web (sample_result ''a'')
     (fresh_memory\<lparr>al_durations := [track_key 1 2 [] \<mapsto> 80000]\<rparr>)"
proof -
  let ?m = "fresh_memory\<lparr>al_durations := [track_key 1 2 [] \<mapsto> 80000]\<rparr>"
  let ?e = "sample_alert_env\<lparr>av_collect := collect_over (\<lambda>_. False) (\<lambda>_ _. Inr [])\<rparr>"
  have "snd (check_server ?e 90000 (sample_alert_rule\<lparr>ar_duration := 5\<rparr>) ([], []) sample_web ?m) =
      fresh_memory"
    by (simp add: fun_eq_iff check_server_def collect_over_def clear_server_def clear_duration_def Let_def
        sample_alert_rule_def sample_web_def fresh_memory_def)
  moreover have "fires 90000 (sample_alert_rule\<lparr>ar_duration := 5\<rparr>) sample_web (sample_result ''a'') ?m"
    by (simp add: fires_def Let_def in_cooldown_def mark_exceeded_def exceeded_seconds_def purge_def fresh_memory_def
        sample_alert_rule_def sample_web_def sample_result_def)
  moreover have "\<not> fires 90000 (sample_alert_rule\<lparr>ar_duration := 5\<rparr>) sample_web (sample_result ''a'')
      (snd (check_server ?e 90000 (sample_alert_rule\<lparr>ar_duration := 5\<rparr>) ([], []) sample_web ?m))"
    by (rule lost_connection_restarts [where reachable = "\<lambda>_. False" and probe = "\<lambda>_ _. Inr []"])
      (simp_all add: sample_alert_rule_def)
  ultimately show ?thesis by simp
qed

text \<open>A template that cannot be formatted mutes its rule: the alert counts as sent, the cooldown
  runs, and the exception ends the turn.\<close>

theorem bad_template_mutes:
  assumes "fires now rule srv r s"
    and "py_format (av_rich env) (alert_fields env rule srv r ''zh'') (alert_template env rule ''zh'') = Inl x"
  shows "fst (check_result env now rule srv b r s) = Inl x
    \<and> al_posts (snd (check_result env now rule srv b r s)) = al_posts s
    \<and> al_cooldowns (snd (check_result env now rule srv b r s)) (track_key (ar_id rule) (s_id srv) (me_entity r)) = Some now"
  using assms by (simp add: fires_run send_alert_def Let_def set_cooldown_def clear_duration_def purge_def)

text \<open>A rule that asks for an excess of more than a day never alerts: the memory of the first
  excess is dropped after a day.\<close>

theorem day_long_rule_is_mute:
  assumes "1440 < ar_duration rule"
  shows "al_posts (snd (check_one env now rule s)) = al_posts s"
proof -
  have "\<not> fires now rule srv r s" for srv r s
    using assms exceeded_at_most_a_day [of now _ s] unfolding fires_def Let_def by (smt (verit))
  then have "al_posts (snd (check_result env now rule srv b r s)) = al_posts s" for srv b r s
    using stays_quiet by simp
  then show ?thesis using check_one_keeps [of "\<lambda>s'. al_posts s' = al_posts s" env now rule s] by simp
qed

end
