(* ===== verification/CustomMonitors.thy ===== *)
theory CustomMonitors
  imports Measures Alerts
begin

text \<open>
  \<^verbatim>\<open>backend/routers/custom_monitors.py\<close>: the readers of a command's output (CSV, columns,
  pairs, JSON, a single number), the filter of commands, the definitions of monitors and their
  metrics in the database, and the trial run. The guess of \<^verbatim>\<open>csv.Sniffer\<close>, JSON and
  \<^verbatim>\<open>str\<close> of values are parameters. The row an item comes from is not copied into it.
\<close>

section \<open>Definitions and items\<close>

record metric =
  mt_id :: row_id
  mt_monitor :: row_id
  mt_name :: string
  mt_field :: string
  mt_unit :: string
  mt_sort :: int

record monitor =
  cm_id :: row_id
  cm_name :: string
  cm_command :: string
  cm_format :: string
  cm_about :: string
  cm_servers :: string
  cm_enabled :: bool

record item =
  it_metric :: string
  it_field :: string
  it_value :: "fval option"
  it_raw :: string
  it_unit :: string
  it_label :: string

record reader =
  rd_sniff :: "string \<Rightarrow> char option"
  rd_json :: "string \<Rightarrow> json option"
  rd_str :: "json \<Rightarrow> string"
  rd_num :: "fval \<Rightarrow> string"
  rd_list :: "string list \<Rightarrow> string"

section \<open>The filter of commands\<close>

definition danger_keywords :: "string list" where
  "danger_keywords = [''rm -rf'', ''mkfs'', ''shutdown'', ''reboot'', ''dd if='', ''truncate -s'', ''cat > /dev/'',
     ''echo > /dev/'', ''chmod 777 /'', ''chown -R'']"

definition validate_monitor_command :: "string \<Rightarrow> unit result" where
  "validate_monitor_command cmd =
     (if list_ex (\<lambda>k. contains_sub k (py_lower cmd)) danger_keywords
      then Inl (ValidationError (Some ''errors.dangerous_command'')) else Inr ())"

section \<open>CSV\<close>

text \<open>The reader of the \<^verbatim>\<open>csv\<close> module with its default dialect: the field and the fields so
  far are reversed; \<open>None\<close> is a carriage return inside a line.\<close>

datatype csv_state = StartRecord | StartField | InField | InQuoted | QuoteInQuoted | EatNewline

definition return_char :: char where
  "return_char = CHR 0x0D"

fun csv_record :: "csv_state \<Rightarrow> string \<Rightarrow> string list \<Rightarrow> string list" where
  "csv_record StartRecord f fs = []"
| "csv_record EatNewline f fs = rev fs"
| "csv_record _ f fs = rev (rev f # fs)"

fun csv_go :: "char \<Rightarrow> csv_state \<Rightarrow> string \<Rightarrow> string list \<Rightarrow> string \<Rightarrow> string list list option" where
  "csv_go d st f fs [] = Some (if st = StartRecord then [] else [csv_record st f fs])"
| "csv_go d st f fs (c # s) =
     (if c = newline
      then if st = InQuoted then csv_go d InQuoted (c # f) fs s
           else map_option ((#) (csv_record st f fs)) (csv_go d StartRecord [] [] s)
      else case st of
             InQuoted \<Rightarrow> if c = dquote then csv_go d QuoteInQuoted f fs s else csv_go d InQuoted (c # f) fs s
           | EatNewline \<Rightarrow> if c = return_char then csv_go d EatNewline f fs s else None
           | _ \<Rightarrow>
               if c = return_char then csv_go d EatNewline [] (rev (csv_record st f fs)) s
               else if st = QuoteInQuoted \<and> c = dquote then csv_go d InQuoted (c # f) fs s
               else if st \<noteq> QuoteInQuoted \<and> st \<noteq> InField \<and> c = dquote then csv_go d InQuoted [] fs s
               else if c = d then csv_go d StartField [] (rev f # fs) s
               else csv_go d InField (c # f) fs s)"

text \<open>The rows of \<^verbatim>\<open>csv.DictReader\<close>: columns that are missing and values without a
  column (under the key \<^verbatim>\<open>None\<close>).\<close>

datatype cell = Text string | Missing | Extra "string list"

type_synonym csv_row = "(string option \<times> cell) list"

fun dict_put :: "'k \<Rightarrow> 'v \<Rightarrow> ('k \<times> 'v) list \<Rightarrow> ('k \<times> 'v) list" where
  "dict_put k v [] = [(k, v)]"
| "dict_put k v ((k', v') # m) = (if k' = k then (k, v) # m else (k', v') # dict_put k v m)"

definition dict_of :: "('k \<times> 'v) list \<Rightarrow> ('k \<times> 'v) list" where
  "dict_of ps = fold (\<lambda>(k, v) m. dict_put k v m) ps []"

definition dict_row :: "string list \<Rightarrow> string list \<Rightarrow> csv_row" where
  "dict_row names values =
     (let d = dict_of (List.map (\<lambda>(n, v). (Some n, Text v)) (zip names values))
      in if length names < length values then dict_put None (Extra (drop (length names) values)) d
         else fold (\<lambda>n m. dict_put (Some n) Missing m) (drop (length values) names) d)"

definition csv_rows :: "char \<Rightarrow> string \<Rightarrow> csv_row list option" where
  "csv_rows d s =
     map_option (\<lambda>rs. case rs of [] \<Rightarrow> [] | names # values \<Rightarrow> List.map (dict_row names) (filter (\<lambda>v. v \<noteq> []) values))
       (csv_go d StartRecord [] [] s)"

text \<open>Columns separated by blanks; a row with one value more starts with its label.\<close>

definition column_row :: "string list \<Rightarrow> string list \<Rightarrow> csv_row" where
  "column_row names values =
     (if length values = length names + 1
      then dict_of ((Some [], Text (hd values)) # List.map (\<lambda>(n, v). (Some n, Text v)) (zip names (tl values)))
      else dict_of (List.map (\<lambda>(n, v). (Some n, Text v)) (zip names values)))"

definition column_rows :: "string \<Rightarrow> csv_row list" where
  "column_rows s =
     (case List.map py_words (filter (\<lambda>l. py_strip l \<noteq> []) (split_on newline s)) of
        names # values \<Rightarrow> List.map (column_row names) values
      | [] \<Rightarrow> [])"

text \<open>The row with its texts stripped, and its label.\<close>

definition strip_row :: "csv_row \<Rightarrow> csv_row" where
  "strip_row r = List.map (\<lambda>(k, v). (k, case v of Text s \<Rightarrow> Text (py_strip s) | _ \<Rightarrow> v)) r"

definition cell_text :: "reader \<Rightarrow> cell \<Rightarrow> string" where
  "cell_text rd v = (case v of Text s \<Rightarrow> s | Missing \<Rightarrow> [] | Extra xs \<Rightarrow> rd_list rd xs)"

definition label_of_row :: "reader \<Rightarrow> csv_row \<Rightarrow> string" where
  "label_of_row rd r =
     (let own = (case map_of r (Some []) of Some v \<Rightarrow> cell_text rd v | None \<Rightarrow> []);
          rest = filter (\<lambda>(k, _). k \<noteq> Some []) r
      in if own \<noteq> [] then own else case rest of [] \<Rightarrow> [] | (_, v) # _ \<Rightarrow> cell_text rd v)"

definition row_items :: "reader \<Rightarrow> metric list \<Rightarrow> csv_row \<Rightarrow> item list" where
  "row_items rd ms row =
     (let r = strip_row row; label = label_of_row rd r
      in List.map (\<lambda>m. let fk = py_strip (mt_field m);
                          raw = (case map_of r (Some fk) of Some v \<Rightarrow> cell_text rd v | None \<Rightarrow> [])
                      in \<lparr>it_metric = mt_name m, it_field = fk, it_value = try_float raw, it_raw = raw,
                          it_unit = mt_unit m, it_label = label\<rparr>)
           (filter (\<lambda>m. py_strip (mt_field m) \<noteq> []) ms))"

text \<open>\<open>None\<close>: the reader of the module raises.\<close>

definition csv_items :: "reader \<Rightarrow> string \<Rightarrow> metric list \<Rightarrow> item list option" where
  "csv_items rd raw ms =
     (let s = py_strip raw
      in if s = [] then Some []
         else map_option (\<lambda>rs. concat (List.map (row_items rd ms) rs))
                (case rd_sniff rd (take 4096 s) of Some d \<Rightarrow> csv_rows d s | None \<Rightarrow> Some (column_rows s)))"

section \<open>Pairs, JSON and a single number\<close>

definition kv_line :: "string \<Rightarrow> (string \<times> string) option" where
  "kv_line l =
     (let s = py_strip l; k = takeWhile (\<lambda>c. c \<noteq> CHR ''='' \<and> c \<noteq> CHR '':'') s; rest = drop (length k) s
      in if k = [] \<or> rest = [] then None else Some (py_strip k, py_strip (tl rest)))"

definition kv_map :: "string \<Rightarrow> (string \<times> string) list" where
  "kv_map raw = dict_of (List.map_filter kv_line (split_on newline (py_strip raw)))"

definition parse_kv :: "string \<Rightarrow> metric list \<Rightarrow> item list" where
  "parse_kv raw ms =
     List.map_filter (\<lambda>m. let fk = py_strip (mt_field m)
        in if fk = [] then None
           else map_option (\<lambda>v. \<lparr>it_metric = mt_name m, it_field = fk, it_value = try_float v, it_raw = v,
                  it_unit = mt_unit m, it_label = []\<rparr>) (map_of (kv_map raw) fk)) ms"

fun json_at :: "json \<Rightarrow> string list \<Rightarrow> json" where
  "json_at v [] = v"
| "json_at v (k # ks) =
     (case v of JObj m \<Rightarrow> (case map_of m k of Some x \<Rightarrow> json_at x ks | None \<Rightarrow> JNull) | _ \<Rightarrow> JNull)"

definition json_text :: "reader \<Rightarrow> json \<Rightarrow> string" where
  "json_text rd v = (case v of JStr s \<Rightarrow> s | JReal s \<Rightarrow> s | _ \<Rightarrow> rd_str rd v)"

definition object_items :: "reader \<Rightarrow> metric list \<Rightarrow> json \<Rightarrow> item list" where
  "object_items rd ms v =
     (case v of
        JObj m \<Rightarrow>
          List.map_filter (\<lambda>d. let fk = py_strip (mt_field d); x = json_at v (split_on (CHR ''.'') fk)
            in if fk = [] \<or> x = JNull then None
               else Some \<lparr>it_metric = mt_name d, it_field = fk, it_value = try_float (json_text rd x), it_raw = json_text rd x,
                      it_unit = mt_unit d, it_label = (case m of [] \<Rightarrow> [] | (_, y) # _ \<Rightarrow> json_text rd y)\<rparr>) ms
      | _ \<Rightarrow> [])"

definition parse_json :: "reader \<Rightarrow> string \<Rightarrow> metric list \<Rightarrow> item list" where
  "parse_json rd raw ms =
     (case rd_json rd raw of
        None \<Rightarrow> []
      | Some (JList xs) \<Rightarrow> concat (List.map (object_items rd ms) xs)
      | Some v \<Rightarrow> object_items rd ms v)"

definition single_item :: "reader \<Rightarrow> string \<Rightarrow> metric list \<Rightarrow> item list" where
  "single_item rd raw ms =
     (case parse_number raw of
        None \<Rightarrow> []
      | Some v \<Rightarrow> [\<lparr>it_metric = str_or (case ms of [] \<Rightarrow> [] | m # _ \<Rightarrow> mt_name m) ''value'', it_field = [], it_value = Some v,
          it_raw = rd_num rd v, it_unit = (case ms of [] \<Rightarrow> [] | m # _ \<Rightarrow> mt_unit m), it_label = []\<rparr>])"

definition parse_auto :: "reader \<Rightarrow> string \<Rightarrow> metric list \<Rightarrow> item list option" where
  "parse_auto rd raw ms =
     (if ms \<noteq> [] \<and> py_strip (mt_field (hd ms)) \<noteq> []
      then map_option (\<lambda>r. if r \<noteq> [] then r else single_item rd raw ms) (csv_items rd raw ms)
      else Some (single_item rd raw ms))"

definition parse_output :: "reader \<Rightarrow> string \<Rightarrow> string \<Rightarrow> metric list \<Rightarrow> item list option" where
  "parse_output rd raw format ms =
     (let fmt = py_lower (py_strip (str_or format ''auto''))
      in if py_strip raw = [] then Some []
         else if fmt = ''csv'' then csv_items rd raw ms
         else if fmt = ''kv'' then Some (parse_kv raw ms)
         else if fmt = ''json'' then Some (parse_json rd raw ms)
         else parse_auto rd raw ms)"

section \<open>The definitions in the database\<close>

record monitor_db =
  md_monitors :: "monitor table"
  md_metrics :: "metric table"

text \<open>A metric of a request, cleaned; one without a name or a key is left out.\<close>

definition named_metric :: "metric \<Rightarrow> bool" where
  "named_metric m = (py_strip (mt_name m) \<noteq> [] \<and> py_strip (mt_field m) \<noteq> [])"

definition clean_metric :: "row_id \<Rightarrow> metric \<Rightarrow> metric" where
  "clean_metric mid m = m\<lparr>mt_monitor := mid, mt_name := py_strip (mt_name m), mt_field := py_strip (mt_field m),
     mt_unit := py_strip (mt_unit m)\<rparr>"

definition insert_metric :: "row_id \<Rightarrow> metric \<Rightarrow> metric table \<Rightarrow> metric table" where
  "insert_metric mid m t =
     (if named_metric m then fst (t_insert (\<lambda>i r. r\<lparr>mt_id := i\<rparr>) (clean_metric mid m) t) else t)"

definition save_metrics :: "row_id \<Rightarrow> metric list \<Rightarrow> metric table \<Rightarrow> metric table" where
  "save_metrics mid defs t = fold (insert_metric mid) defs (fst (t_delete (\<lambda>r. mt_monitor r = mid) t))"

text \<open>Rows are kept in the order of their ids, so the stable sort orders by both.\<close>

definition load_metrics :: "row_id \<Rightarrow> metric table \<Rightarrow> metric list" where
  "load_metrics mid t = sort_key mt_sort (t_where (\<lambda>r. mt_monitor r = mid) t)"

definition create_monitor :: "monitor \<Rightarrow> metric list \<Rightarrow> monitor_db \<Rightarrow> unit result \<times> monitor_db" where
  "create_monitor req defs db =
     (case validate_monitor_command (cm_command req) of
        Inl e \<Rightarrow> (Inl e, db)
      | Inr _ \<Rightarrow>
          (case t_insert (\<lambda>i r. r\<lparr>cm_id := i\<rparr>) req (md_monitors db) of
             (t, i) \<Rightarrow> (Inr (), \<lparr>md_monitors = t,
                         md_metrics = (if defs = [] then md_metrics db else save_metrics i defs (md_metrics db))\<rparr>)))"

definition update_monitor :: "row_id \<Rightarrow> monitor \<Rightarrow> metric list \<Rightarrow> monitor_db \<Rightarrow> unit result \<times> monitor_db" where
  "update_monitor mid req defs db =
     (case validate_monitor_command (cm_command req) of
        Inl e \<Rightarrow> (Inl e, db)
      | Inr _ \<Rightarrow>
          if t_get cm_id mid (md_monitors db) = None then (Inl (NotFoundError (Some ''errors.monitor_not_found'')), db)
          else (Inr (), \<lparr>md_monitors = fst (t_update (\<lambda>r. cm_id r = mid) (\<lambda>r. req\<lparr>cm_id := cm_id r\<rparr>) (md_monitors db)),
                  md_metrics = save_metrics mid defs (md_metrics db)\<rparr>))"

definition delete_monitor :: "row_id \<Rightarrow> monitor_db \<Rightarrow> monitor_db" where
  "delete_monitor mid db = \<lparr>md_monitors = fst (t_delete (\<lambda>r. cm_id r = mid) (md_monitors db)),
     md_metrics = fst (t_delete (\<lambda>r. mt_monitor r = mid) (md_metrics db))\<rparr>"

section \<open>The trial run\<close>

record diagnosis =
  dg_headers :: "string list"
  dg_keys :: "string list"
  dg_matched :: "string list"
  dg_unmatched :: "string list"
  dg_hint :: bool

definition diagnose_parse :: "reader \<Rightarrow> string \<Rightarrow> metric list \<Rightarrow> diagnosis option" where
  "diagnose_parse rd raw ms =
     (let s = py_strip raw; ls = split_on newline s
      in if ms = [] \<or> s = [] \<or> length ls < 2 then None
         else let headers = (case rd_sniff rd (take 4096 s) of
                               Some d \<Rightarrow> List.map py_strip (split_on d (hd ls))
                             | None \<Rightarrow> py_words (hd ls));
                  keys = filter (\<lambda>k. k \<noteq> []) (List.map (\<lambda>m. py_strip (mt_field m)) ms);
                  unmatched = filter (\<lambda>k. k \<notin> set headers) keys
              in Some \<lparr>dg_headers = headers, dg_keys = keys, dg_matched = filter (\<lambda>h. h \<in> set keys) headers,
                       dg_unmatched = unmatched, dg_hint = (unmatched \<noteq> [] \<and> length unmatched = length keys)\<rparr>)"

record trial =
  tl_server :: row_id
  tl_output :: string
  tl_items :: "item list"
  tl_failed :: bool
  tl_diagnosis :: "diagnosis option"

text \<open>\<open>run\<close> is the output of the command on a server; \<open>None\<close>: no connection or an exception.\<close>

definition try_on :: "reader \<Rightarrow> (server \<Rightarrow> string \<Rightarrow> string option) \<Rightarrow> monitor \<Rightarrow> metric list \<Rightarrow> server \<Rightarrow> trial" where
  "try_on rd run m ms s =
     (let failed = \<lparr>tl_server = s_id s, tl_output = [], tl_items = [], tl_failed = True, tl_diagnosis = None\<rparr>
      in case run s (cm_command m) of
           None \<Rightarrow> failed
         | Some raw \<Rightarrow>
             (let out = py_strip raw
              in case parse_output rd out (cm_format m) ms of
                   None \<Rightarrow> failed
                 | Some found \<Rightarrow>
                     \<lparr>tl_server = s_id s, tl_output = out, tl_items = found, tl_failed = False,
                      tl_diagnosis = (if found = [] \<and> out \<noteq> [] \<and> ms \<noteq> [] then diagnose_parse rd out ms else None)\<rparr>))"

definition try_monitor :: "reader \<Rightarrow> (server \<Rightarrow> string \<Rightarrow> string option) \<Rightarrow> server list \<Rightarrow> row_id \<Rightarrow> monitor_db \<Rightarrow> trial list option" where
  "try_monitor rd run servers mid db =
     map_option (\<lambda>m. List.map (try_on rd run m (load_metrics mid (md_metrics db)))
         (case servers_named (cm_servers m) servers of None \<Rightarrow> [] | Some ss \<Rightarrow> ss))
       (t_get cm_id mid (md_monitors db))"

section \<open>Laws\<close>

text \<open>Rows with the ids from \<open>i\<close> on.\<close>

fun number_from :: "row_id \<Rightarrow> metric list \<Rightarrow> metric list" where
  "number_from i [] = []"
| "number_from i (m # ms) = m\<lparr>mt_id := i\<rparr> # number_from (Suc i) ms"

lemma number_ids: "r \<in> set (number_from i ms) \<Longrightarrow> i \<le> mt_id r \<and> mt_id r < i + length ms"
  by (induction i ms rule: number_from.induct) auto

lemma number_owner: "list_all (\<lambda>m. mt_monitor m = mid) ms \<Longrightarrow> list_all (\<lambda>m. mt_monitor m = mid) (number_from i ms)"
  by (induction i ms rule: number_from.induct) auto

definition wanted_metrics :: "row_id \<Rightarrow> metric list \<Rightarrow> metric list" where
  "wanted_metrics mid defs = List.map (clean_metric mid) (filter named_metric defs)"

lemma fold_insert_metrics:
  "fold (insert_metric mid) defs t =
     t\<lparr>rows := rows t @ number_from (next_id t) (wanted_metrics mid defs),
       next_id := next_id t + length (wanted_metrics mid defs)\<rparr>"
  by (induction defs arbitrary: t) (simp_all add: wanted_metrics_def insert_metric_def t_insert_def)

lemma save_metrics_rows:
  "rows (save_metrics mid defs t) =
     filter (\<lambda>r. mt_monitor r \<noteq> mid) (rows t) @ number_from (next_id t) (wanted_metrics mid defs)"
  by (simp add: save_metrics_def fold_insert_metrics t_delete_def)

lemma wanted_owner: "list_all (\<lambda>m. mt_monitor m = mid) (wanted_metrics mid defs)"
  by (induction defs) (auto simp: wanted_metrics_def clean_metric_def)

lemma save_metrics_of:
  "t_where (\<lambda>r. mt_monitor r = mid) (save_metrics mid defs t) = number_from (next_id t) (wanted_metrics mid defs)"
  "other \<noteq> mid \<Longrightarrow> t_where (\<lambda>r. mt_monitor r = other) (save_metrics mid defs t) = t_where (\<lambda>r. mt_monitor r = other) t"
proof -
  have own: "list_all (\<lambda>m. mt_monitor m = mid) (number_from (next_id t) (wanted_metrics mid defs))"
    by (rule number_owner [OF wanted_owner])
  then have "filter (\<lambda>r. mt_monitor r = mid) (number_from (next_id t) (wanted_metrics mid defs))
      = number_from (next_id t) (wanted_metrics mid defs)" by (auto simp: list_all_iff filter_id_conv)
  then show "t_where (\<lambda>r. mt_monitor r = mid) (save_metrics mid defs t) = number_from (next_id t) (wanted_metrics mid defs)"
    by (simp add: t_where_def save_metrics_rows)
  assume "other \<noteq> mid"
  then have "filter (\<lambda>r. mt_monitor r = other) (number_from (next_id t) (wanted_metrics mid defs)) = []"
    "filter (\<lambda>r. mt_monitor r = other) (filter (\<lambda>r. mt_monitor r \<noteq> mid) (rows t)) = filter (\<lambda>r. mt_monitor r = other) (rows t)"
    using own by (auto simp: list_all_iff filter_empty_conv intro: filter_cong)
  then show "t_where (\<lambda>r. mt_monitor r = other) (save_metrics mid defs t) = t_where (\<lambda>r. mt_monitor r = other) t"
    by (simp add: t_where_def save_metrics_rows)
qed

text \<open>An item for a key: what a reader yields for one of the metrics.\<close>

definition item_of :: "metric list \<Rightarrow> item \<Rightarrow> bool" where
  "item_of ms x \<longleftrightarrow> it_field x \<noteq> [] \<and> it_value x = try_float (it_raw x)
     \<and> (\<exists>m \<in> set ms. it_field x = py_strip (mt_field m) \<and> it_metric x = mt_name m \<and> it_unit x = mt_unit m)"

lemma row_item_of: "x \<in> set (row_items rd ms r) \<Longrightarrow> item_of ms x"
  by (auto simp: row_items_def item_of_def Let_def)

lemma csv_item_of: "csv_items rd raw ms = Some found \<Longrightarrow> x \<in> set found \<Longrightarrow> item_of ms x"
  by (auto simp: csv_items_def Let_def row_item_of split: if_splits option.splits)

lemma kv_item_of: "x \<in> set (parse_kv raw ms) \<Longrightarrow> item_of ms x"
  by (auto simp: parse_kv_def item_of_def Let_def List.map_filter_def split: if_splits)

lemma object_item_of: "x \<in> set (object_items rd ms v) \<Longrightarrow> item_of ms x"
  by (auto simp: object_items_def item_of_def Let_def List.map_filter_def split: json.splits if_splits)

lemma json_item_of:
  assumes "x \<in> set (parse_json rd raw ms)"
  shows "item_of ms x"
proof (cases "rd_json rd raw")
  case (Some v)
  then show ?thesis using assms by (cases v) (auto simp: parse_json_def intro: object_item_of)
qed (use assms in \<open>simp add: parse_json_def\<close>)

section \<open>Properties\<close>

text \<open>The keyword for a recursive change of owners never refuses a command: the filter decides
  exactly as it would without it, because the command is compared in lower case.\<close>

theorem chown_never_refused:
  "validate_monitor_command cmd =
     (if list_ex (\<lambda>k. contains_sub k (py_lower cmd)) (butlast danger_keywords)
      then Inl (ValidationError (Some ''errors.dangerous_command'')) else Inr ())"
proof -
  have "\<not> is_upper c" if "c \<in> set (py_lower cmd)" for c using that by (auto simp: py_lower_def)
  moreover have "is_upper (CHR ''R'')" "CHR ''R'' \<in> set ''chown -R''" by code_simp+
  ultimately have "\<not> contains_sub ''chown -R'' (py_lower cmd)" using contains_sub_chars by blast
  then show ?thesis unfolding validate_monitor_command_def danger_keywords_def by simp
qed

text \<open>Every item that is read from an output belongs to a metric of the monitor and holds the number
  its text stands for, whatever the format and the output; the only other result is the single
  number of the automatic format.\<close>

theorem items_belong:
  assumes "parse_output rd raw format ms = Some found" "x \<in> set found"
  shows "item_of ms x \<or> (found = [x] \<and> it_field x = [] \<and> it_value x = parse_number raw \<and> it_value x \<noteq> None)"
proof -
  have single: "found = [x] \<and> it_field x = [] \<and> it_value x = parse_number raw \<and> it_value x \<noteq> None" if "found = single_item rd raw ms"
    using that assms(2) by (auto simp: single_item_def split: option.splits)
  have "item_of ms x \<or> found = single_item rd raw ms"
    using assms csv_item_of kv_item_of json_item_of
    by (fastforce simp: parse_output_def parse_auto_def Let_def split: if_splits)
  then show ?thesis using single by blast
qed

definition sample_metric :: metric where
  "sample_metric = \<lparr>mt_id = 7, mt_monitor = 3, mt_name = ''used'', mt_field = ''b'', mt_unit = ''G'', mt_sort = 0\<rparr>"

definition sample_reader :: reader where
  "sample_reader = \<lparr>rd_sniff = (\<lambda>s. if CHR '','' \<in> set s then Some (CHR '','') else None), rd_json = (\<lambda>_. None), rd_str = (\<lambda>_. []),
     rd_num = (\<lambda>_. []), rd_list = (\<lambda>_. [])\<rparr>"

definition sample_csv :: "string \<Rightarrow> string" where
  "sample_csv gap = ''a,'' @ gap @ ''b'' @ [newline] @ ''x,20G''"

lemma sample_items: "parse_output sample_reader (sample_csv []) ''csv'' [sample_metric] =
    Some [\<lparr>it_metric = ''used'', it_field = ''b'', it_value = Some (Dec 20 0), it_raw = ''20G'', it_unit = ''G'', it_label = ''x''\<rparr>]"
  by code_simp

theorem items_belong_witness:
  "item_of [sample_metric] \<lparr>it_metric = ''used'', it_field = ''b'', it_value = Some (Dec 20 0), it_raw = ''20G'', it_unit = ''G'', it_label = ''x''\<rparr>"
  using items_belong [OF sample_items, of "\<lparr>it_metric = ''used'', it_field = ''b'', it_value = Some (Dec 20 0), it_raw = ''20G'', it_unit = ''G'', it_label = ''x''\<rparr>"]
  by simp

text \<open>A blank before the name of a column hides the column from the reader, not from the diagnosis.\<close>

lemma padded_header_lost:
  "parse_output sample_reader (sample_csv '' '') ''csv'' [sample_metric] =
    Some [\<lparr>it_metric = ''used'', it_field = ''b'', it_value = None, it_raw = [], it_unit = ''G'', it_label = ''x''\<rparr>]"
  "map_option dg_matched (diagnose_parse sample_reader (sample_csv '' '') [sample_metric]) = Some [''b'']"
  by code_simp+

text \<open>An update replaces the metrics of the monitor by those of the request, cleaned and in their
  order, each under an id that no metric had before, also where the request names the id of an
  existing one; the metrics of other monitors stay.\<close>

theorem metrics_replaced:
  assumes "update_monitor mid req defs db = (Inr (), db')" "wf_table mt_id (md_metrics db)"
  shows "t_where (\<lambda>r. mt_monitor r = mid) (md_metrics db') = number_from (next_id (md_metrics db)) (wanted_metrics mid defs)
    \<and> (\<forall>r \<in> set (rows (md_metrics db)). \<forall>r' \<in> set (t_where (\<lambda>r. mt_monitor r = mid) (md_metrics db')). mt_id r < mt_id r')
    \<and> (\<forall>other. other \<noteq> mid \<longrightarrow> t_where (\<lambda>r. mt_monitor r = other) (md_metrics db') = t_where (\<lambda>r. mt_monitor r = other) (md_metrics db))"
proof -
  have db': "md_metrics db' = save_metrics mid defs (md_metrics db)"
    using assms(1) by (auto simp: update_monitor_def split: sum.splits if_splits)
  have old: "mt_id r < next_id (md_metrics db)" if "r \<in> set (rows (md_metrics db))" for r
    using assms(2) that by (simp add: wf_table_def)
  have new: "next_id (md_metrics db) \<le> mt_id r" if "r \<in> set (number_from (next_id (md_metrics db)) (wanted_metrics mid defs))" for r
    using number_ids [OF that] by blast
  show ?thesis unfolding db' save_metrics_of(1)
    using old new save_metrics_of(2) by (meson order_less_le_trans)
qed

definition sample_monitors :: monitor_db where
  "sample_monitors = \<lparr>md_monitors = \<lparr>rows = [\<lparr>cm_id = 3, cm_name = ''m'', cm_command = ''df'', cm_format = ''csv'', cm_about = [],
     cm_servers = [], cm_enabled = True\<rparr>], next_id = 4\<rparr>, md_metrics = \<lparr>rows = [sample_metric], next_id = 8\<rparr>\<rparr>"

definition sample_monitor :: monitor where
  "sample_monitor = \<lparr>cm_id = 0, cm_name = ''m'', cm_command = ''df'', cm_format = ''csv'', cm_about = [], cm_servers = [], cm_enabled = True\<rparr>"

lemma sample_update: "update_monitor 3 sample_monitor [sample_metric] sample_monitors =
    (Inr (), snd (update_monitor 3 sample_monitor [sample_metric] sample_monitors))"
proof -
  have "validate_monitor_command ''df'' = Inr ()" by code_simp
  then show ?thesis by (simp add: update_monitor_def sample_monitor_def sample_monitors_def t_get_def)
qed

theorem metrics_replaced_witness:
  "t_where (\<lambda>r. mt_monitor r = 3) (md_metrics (snd (update_monitor 3 sample_monitor [sample_metric] sample_monitors))) =
     [sample_metric\<lparr>mt_id := 8\<rparr>]"
proof -
  have "wf_table mt_id (md_metrics sample_monitors)"
    by (simp add: wf_table_def sample_monitors_def sample_metric_def)
  moreover have "next_id (md_metrics sample_monitors) = 8" by (simp add: sample_monitors_def)
  moreover have "wanted_metrics 3 [sample_metric] = [sample_metric]" by code_simp
  ultimately show ?thesis using metrics_replaced [OF sample_update] by simp
qed

end
