(* ===== verification/Monitor.thy ===== *)
theory Monitor
  imports CustomMonitors Contract
begin

text \<open>
  \<^verbatim>\<open>backend/services/monitor_utils.py\<close> and \<^verbatim>\<open>backend/routers/monitor.py\<close>: the cache
  of monitoring answers, the reader of the system summary, and the routes for servers, nodes,
  pods, containers and processes. What a server answers to a command is a parameter; one request
  takes no time, and the answers to its commands do not depend on one another.
\<close>

section \<open>The system summary\<close>

record sysinfo =
  si_cores :: string
  si_seconds :: nat
  si_since :: string
  si_load :: string
  si_mem_used :: string
  si_mem_total :: string
  si_mem_percent :: string
  si_disk_used :: string
  si_disk_total :: string
  si_disk_percent :: string
  si_os :: string
  si_docker :: string

definition no_sysinfo :: sysinfo where
  "no_sysinfo = \<lparr>si_cores = ''?'', si_seconds = 0, si_since = [], si_load = [], si_mem_used = [], si_mem_total = [],
     si_mem_percent = [], si_disk_used = [], si_disk_total = [], si_disk_percent = [], si_os = [], si_docker = ''N/A''\<rparr>"

definition markers :: "(string \<times> string) list" where
  "markers = [(''---CPU_CORES---'', ''cpu_cores''), (''---UPTIME---'', ''uptime''), (''---LOAD---'', ''load''), (''---MEM---'', ''mem''),
     (''---DISK---'', ''disk''), (''---OS---'', ''os''), (''---DOCKER---'', ''docker'')]"

text \<open>The two parts of a text around a slash; \<open>d\<close> is the second one when there is no slash.\<close>

definition slash_parts :: "string \<Rightarrow> string \<Rightarrow> string \<times> string" where
  "slash_parts d s = (if CHR ''/'' \<in> set s then (hd (split_on (CHR ''/'') s), split_on (CHR ''/'') s ! 1) else (s, d))"

definition read_section :: "string \<Rightarrow> string \<Rightarrow> sysinfo \<Rightarrow> sysinfo" where
  "read_section section line r =
     (let parts = py_words line
      in if section = ''cpu_cores'' then r\<lparr>si_cores := line\<rparr>
         else if section = ''uptime''
         then if CHR '':'' \<in> set line \<and> CHR ''-'' \<notin> set line then r\<lparr>si_since := line\<rparr>
              else if py_isdigit line then r\<lparr>si_seconds := nat_of_digits line\<rparr> else r
         else if section = ''load'' then r\<lparr>si_load := line\<rparr>
         else if section = ''mem''
         then if length parts < 2 then r
              else let (used, total) = slash_parts ''?'' (parts ! 0)
                   in r\<lparr>si_mem_used := used, si_mem_total := total, si_mem_percent := parts ! 1\<rparr>
         else if section = ''disk''
         then if length parts < 2 then r
              else let (used, total) = slash_parts ''?'' (parts ! 1)
                   in r\<lparr>si_disk_percent := parts ! 0, si_disk_used := used, si_disk_total := total\<rparr>
         else if section = ''os'' then r\<lparr>si_os := line\<rparr>
         else r\<lparr>si_docker := line\<rparr>)"

text \<open>A section ends with its first line that is not empty.\<close>

definition ssh_step :: "string \<Rightarrow> string option \<times> sysinfo \<Rightarrow> string option \<times> sysinfo" where
  "ssh_step raw st =
     (let line = py_strip raw
      in case map_of markers line of
           Some section \<Rightarrow> (Some section, snd st)
         | None \<Rightarrow>
             (case fst st of
                None \<Rightarrow> st
              | Some section \<Rightarrow> if line = [] then st else (None, read_section section line (snd st))))"

definition ssh_test :: "string \<Rightarrow> sysinfo" where
  "ssh_test out = (if out = [] then no_sysinfo else snd (fold ssh_step (split_on newline out) (None, no_sysinfo)))"

section \<open>The cache\<close>

type_synonym 'a mcache = "string \<Rightarrow> (epoch \<times> 'a) option"

definition cache_ttl :: "(string \<times> int) list \<Rightarrow> string \<Rightarrow> int" where
  "cache_ttl ttls key = (case map_of ttls (hd (split_on (CHR '':'') key)) of None \<Rightarrow> 30 | Some t \<Rightarrow> t)"

definition cache_get :: "(string \<times> int) list \<Rightarrow> epoch \<Rightarrow> string \<Rightarrow> 'a mcache \<Rightarrow> 'a option \<times> 'a mcache" where
  "cache_get ttls now key c =
     (case c key of
        None \<Rightarrow> (None, c)
      | Some (ts, v) \<Rightarrow> if cache_ttl ttls key < now - ts then (None, c(key := None)) else (Some v, c))"

definition cache_set :: "epoch \<Rightarrow> string \<Rightarrow> 'a \<Rightarrow> 'a mcache \<Rightarrow> 'a mcache" where
  "cache_set now key v c = c(key \<mapsto> (now, v))"

definition clear_server_cache :: "'a mcache \<Rightarrow> 'a mcache" where
  "clear_server_cache c =
     (\<lambda>k. if list_ex (\<lambda>p. starts_with p k) [''servers:'', ''system:'', ''docker:'', ''nodes:'', ''pods:''] then None else c k)"

interpretation mc: ttl_cache "\<lambda>now c. fst (cache_get ttls now key c)" "\<lambda>now v c. cache_set now key v c"
    "\<lambda>c. map_option prod.swap (c key)" "cache_ttl ttls key + 1" for ttls key
  by unfold_locales (auto simp: cache_get_def cache_set_def split: option.splits if_splits)

section \<open>Answers\<close>

record node_row =
  nd_name :: string
  nd_cpu :: string
  nd_cpu_percent :: string
  nd_memory :: string
  nd_memory_percent :: string
  nd_capacity :: "string \<times> string \<times> string"

record pod_row =
  pr_ns :: string
  pr_name :: string
  pr_cpu :: string
  pr_memory :: string
  pr_status :: string
  pr_restarts :: string
  pr_node :: string

datatype response =
    Probed string string bool bool bool
  | Nodes "node_row list"
  | Pods "string list" "pod_row list"
  | PodDetail string string string string string
  | Containers "string list list"
  | System sysinfo "string list list"

datatype failure = NoRoute | NoAuth | NoProtocol | NoIdea

record monitor_env =
  mv_enabled :: bool
  mv_ttls :: "(string \<times> int) list"
  mv_now :: epoch
  mv_servers :: "server list"
  mv_connect :: "server \<Rightarrow> failure option"
  mv_out :: "server \<Rightarrow> string \<Rightarrow> failure + string"
  mv_script :: string

definition run_cmd :: "monitor_env \<Rightarrow> server \<Rightarrow> string \<Rightarrow> failure + string" where
  "run_cmd e s cmd = (case mv_connect e s of Some f \<Rightarrow> Inl f | None \<Rightarrow> mv_out e s cmd)"

text \<open>A route behind the cache: \<open>f\<close> asks the server.\<close>

definition cached_route ::
  "monitor_env \<Rightarrow> string \<Rightarrow> row_id \<Rightarrow> (server \<Rightarrow> response result) \<Rightarrow> response mcache \<Rightarrow> response result \<times> response mcache" where
  "cached_route e key sid f c =
     (if \<not> mv_enabled e then (Inl (ValidationError (Some ''errors.monitoring_disabled'')), c)
      else case cache_get (mv_ttls e) (mv_now e) key c of
             (Some v, c') \<Rightarrow> (Inr v, c')
           | (None, c') \<Rightarrow>
               (case List.find (\<lambda>s. s_id s = sid) (mv_servers e) of
                  None \<Rightarrow> (Inl (NotFoundError (Some ''errors.server_not_found'')), c')
                | Some s \<Rightarrow>
                    (case f s of
                       Inl x \<Rightarrow> (Inl x, c')
                     | Inr v \<Rightarrow> (Inr v, cache_set (mv_now e) key v c'))))"

definition ssh_failed :: exc where
  "ssh_failed = ServiceUnavailableError (Some ''errors.ssh_connect_failed'')"

text \<open>Every exception becomes the same error; \<open>None\<close> is an exception of the reader.\<close>

definition asked :: "(failure + response option) \<Rightarrow> response result" where
  "asked r = (case r of Inr (Some v) \<Rightarrow> Inr v | _ \<Rightarrow> Inl ssh_failed)"

definition bind_out :: "(failure + 'a) \<Rightarrow> ('a \<Rightarrow> failure + 'b) \<Rightarrow> failure + 'b" where
  "bind_out r f = (case r of Inl x \<Rightarrow> Inl x | Inr v \<Rightarrow> f v)"

section \<open>Servers\<close>

definition guess_monitor_type :: "server \<Rightarrow> string" where
  "guess_monitor_type s =
     (let t = py_lower (s_type s);
          tags = List.map (\<lambda>x. py_lower (py_strip x)) (filter (\<lambda>x. py_strip x \<noteq> []) (split_on (CHR '','') (s_tags s)))
      in if t \<in> {''k8s'', ''argocd'', ''fluxcd''} then ''k8s''
         else if t \<in> {''docker'', ''ssh''} then t
         else if list_ex (\<lambda>x. x \<in> {''k8s'', ''kubernetes''}) tags then ''k8s''
         else if ''docker'' \<in> set tags then ''docker'' else ''ssh'')"

definition prometheus_cmd :: string where
  "prometheus_cmd = ''kubectl get pods -A --no-headers 2>/dev/null | grep -i prometheus | grep -i running | head -1''"

definition metrics_cmd :: string where
  "metrics_cmd = ''kubectl top nodes --no-headers 2>/dev/null | head -1''"

definition docker_cmd :: string where
  "docker_cmd = ''docker ps --format '' @ apostrophed ''ok'' @ '' 2>/dev/null | head -1''"

definition available :: "bool \<Rightarrow> string" where
  "available ok = (if ok then ''available'' else ''unavailable'')"

definition probe_server :: "monitor_env \<Rightarrow> server \<Rightarrow> response" where
  "probe_server e s =
     (let t = guess_monitor_type s; failed = Probed ''error'' t False False True
      in if t = ''k8s''
         then (case run_cmd e s prometheus_cmd of
                 Inl _ \<Rightarrow> failed
               | Inr p \<Rightarrow>
                   (case run_cmd e s metrics_cmd of
                      Inl _ \<Rightarrow> Probed ''error'' t (p \<noteq> []) False True
                    | Inr m \<Rightarrow> Probed (available (p \<noteq> [] \<or> py_strip m \<noteq> [])) t (p \<noteq> []) (py_strip m \<noteq> []) False))
         else (case run_cmd e s (if t = ''docker'' then docker_cmd else ''which top 2>/dev/null'') of
                 Inl _ \<Rightarrow> failed
               | Inr r \<Rightarrow> Probed (available (r \<noteq> [])) t False False False))"

definition server_key :: "string \<Rightarrow> row_id \<Rightarrow> string" where
  "server_key what sid = what @ '':'' @ nat_str sid"

definition probe_monitor_server :: "monitor_env \<Rightarrow> row_id \<Rightarrow> response mcache \<Rightarrow> response result \<times> response mcache" where
  "probe_monitor_server e sid = cached_route e (server_key ''servers'' sid) sid (\<lambda>s. Inr (probe_server e s))"

text \<open>The list: what was probed, or unknown.\<close>

fun list_entries :: "monitor_env \<Rightarrow> server list \<Rightarrow> response mcache \<Rightarrow> (server \<times> response) list \<times> response mcache" where
  "list_entries e [] c = ([], c)"
| "list_entries e (s # ss) c =
     (case cache_get (mv_ttls e) (mv_now e) (server_key ''servers'' (s_id s)) c of
        (v, c1) \<Rightarrow>
          (case list_entries e ss c1 of
             (es, c2) \<Rightarrow> ((s, case v of Some r \<Rightarrow> r | None \<Rightarrow> Probed ''unknown'' (guess_monitor_type s) False False False) # es, c2)))"

section \<open>Nodes and pods\<close>

definition top_lines :: "string \<Rightarrow> string list list" where
  "top_lines out = (if out = [] then [] else List.map py_words (split_on newline (py_strip out)))"

definition parse_kubectl_top :: "string \<Rightarrow> node_row list" where
  "parse_kubectl_top out =
     List.map_filter (\<lambda>p. if 5 \<le> length p then Some \<lparr>nd_name = p ! 0, nd_cpu = p ! 1, nd_cpu_percent = p ! 2, nd_memory = p ! 3,
         nd_memory_percent = p ! 4, nd_capacity = (''?'', ''?'', ''?'')\<rparr>
       else if 3 \<le> length p then Some \<lparr>nd_name = p ! 0, nd_cpu = p ! 1, nd_cpu_percent = [], nd_memory = p ! 2,
         nd_memory_percent = [], nd_capacity = (''?'', ''?'', ''?'')\<rparr>
       else None) (top_lines out)"

definition capacity_cmd :: string where
  "capacity_cmd = ''kubectl get nodes -o custom-columns=NAME:.metadata.name,CPU:.status.capacity.cpu,MEMORY:.status.capacity.memory,PODS:.status.capacity.pods --no-headers 2>/dev/null''"

definition capacities :: "string \<Rightarrow> (string \<times> string \<times> string \<times> string) list" where
  "capacities out =
     dict_of (List.map_filter (\<lambda>p. if 3 \<le> length p then Some (p ! 0, p ! 1, p ! 2, if 3 < length p then p ! 3 else ''?'') else None) (top_lines out))"

definition with_capacity :: "string \<Rightarrow> node_row \<Rightarrow> node_row" where
  "with_capacity out n = (case map_of (capacities out) (nd_name n) of None \<Rightarrow> n | Some c \<Rightarrow> n\<lparr>nd_capacity := c\<rparr>)"

definition get_nodes :: "monitor_env \<Rightarrow> row_id \<Rightarrow> response mcache \<Rightarrow> response result \<times> response mcache" where
  "get_nodes e sid = cached_route e (server_key ''nodes'' sid) sid (\<lambda>s. asked (
     bind_out (run_cmd e s ''kubectl top nodes --no-headers 2>/dev/null'') (\<lambda>usage.
     bind_out (run_cmd e s capacity_cmd) (\<lambda>cap.
       Inr (Some (Nodes (List.map (with_capacity cap) (parse_kubectl_top usage))))))))"

definition namespace_args :: "string \<Rightarrow> string" where
  "namespace_args ns = (if ns \<noteq> [] then ''-n '' @ sh_quote ns else ''--all-namespaces'')"

definition top_pods_cmd :: "string \<Rightarrow> string" where
  "top_pods_cmd ns = ''kubectl top pods '' @ namespace_args ns @ '' --no-headers 2>/dev/null''"

definition pod_status_cmd :: "string \<Rightarrow> string" where
  "pod_status_cmd ns = ''kubectl get pods '' @ namespace_args ns @ '' -o custom-columns=NAMESPACE:.metadata.namespace,NAME:.metadata.name,STATUS:.status.phase,RESTARTS:.status.containerStatuses[*].restartCount,NODE:.spec.nodeName --no-headers 2>/dev/null''"

definition top_pods :: "string \<Rightarrow> string \<Rightarrow> pod_row list" where
  "top_pods ns out =
     List.map_filter (\<lambda>p.
       if ns \<noteq> [] \<and> 3 \<le> length p then Some \<lparr>pr_ns = ns, pr_name = p ! 0, pr_cpu = p ! 1, pr_memory = p ! 2,
         pr_status = ''?'', pr_restarts = ''0'', pr_node = ''?''\<rparr>
       else if ns = [] \<and> 4 \<le> length p then Some \<lparr>pr_ns = p ! 0, pr_name = p ! 1, pr_cpu = p ! 2, pr_memory = p ! 3,
         pr_status = ''?'', pr_restarts = ''0'', pr_node = ''?''\<rparr>
       else None) (top_lines out)"

definition pod_key :: "string \<Rightarrow> string \<Rightarrow> string" where
  "pod_key ns name = ns @ ''/'' @ name"

definition no_brackets :: "string \<Rightarrow> string" where
  "no_brackets s = filter (\<lambda>c. c \<noteq> CHR ''['' \<and> c \<noteq> CHR '']'') s"

text \<open>Status, restarts and node of each pod; \<open>None\<close>: an index out of range.\<close>

definition status_line :: "string \<Rightarrow> string list \<Rightarrow> (string \<times> string \<times> string \<times> string) option option" where
  "status_line ns p =
     (if length p < 4 then Some None
      else if ns \<noteq> [] then Some (Some (pod_key ns (p ! 0), p ! 1, no_brackets (p ! 2), p ! 3))
      else if length p < 5 then None else Some (Some (pod_key (p ! 0) (p ! 1), p ! 2, no_brackets (p ! 3), p ! 4)))"

definition status_map :: "string \<Rightarrow> string \<Rightarrow> (string \<times> string \<times> string \<times> string) list option" where
  "status_map ns out = map_option (\<lambda>xs. dict_of (List.map_filter (\<lambda>x. x) xs)) (those (List.map (status_line ns) (top_lines out)))"

definition with_status :: "(string \<times> string \<times> string \<times> string) list \<Rightarrow> pod_row \<Rightarrow> pod_row" where
  "with_status m p =
     (case map_of m (pod_key (pr_ns p) (pr_name p)) of
        None \<Rightarrow> p
      | Some (st, rs, nd) \<Rightarrow> p\<lparr>pr_status := st, pr_restarts := rs, pr_node := nd\<rparr>)"

definition pods_of :: "string \<Rightarrow> string \<Rightarrow> string \<Rightarrow> pod_row list option" where
  "pods_of ns usage status = map_option (\<lambda>m. List.map (with_status m) (top_pods ns usage)) (status_map ns status)"

definition get_pods :: "monitor_env \<Rightarrow> row_id \<Rightarrow> string \<Rightarrow> response mcache \<Rightarrow> response result \<times> response mcache" where
  "get_pods e sid ns = cached_route e (server_key ''pods'' sid @ '':'' @ ns) sid (\<lambda>s. asked (
     bind_out (run_cmd e s ''kubectl get ns -o custom-columns=NAME:.metadata.name --no-headers 2>/dev/null'') (\<lambda>names.
     bind_out (run_cmd e s (top_pods_cmd ns)) (\<lambda>usage.
     bind_out (run_cmd e s (pod_status_cmd ns)) (\<lambda>status.
       Inr (map_option (Pods (filter (\<lambda>n. n \<noteq> []) (List.map py_strip (split_on newline names)))) (pods_of ns usage status)))))))"

definition get_pod_detail :: "monitor_env \<Rightarrow> row_id \<Rightarrow> string \<Rightarrow> string \<Rightarrow> response mcache \<Rightarrow> response result \<times> response mcache" where
  "get_pod_detail e sid ns name = cached_route e (server_key ''pod_detail'' sid @ '':'' @ ns @ '':'' @ name) sid (\<lambda>s. asked (
     bind_out (run_cmd e s (''kubectl describe pod '' @ sh_quote name @ '' -n '' @ sh_quote ns @ '' 2>/dev/null | tail -30'')) (\<lambda>about.
     bind_out (run_cmd e s (''kubectl logs '' @ sh_quote name @ '' -n '' @ sh_quote ns @ '' --tail=20 2>/dev/null'')) (\<lambda>logs.
     bind_out (run_cmd e s (''kubectl top pod '' @ sh_quote name @ '' -n '' @ sh_quote ns @ '' --no-headers 2>/dev/null'')) (\<lambda>usage.
       Inr (Some (PodDetail name ns usage about logs)))))))"

section \<open>Containers and processes\<close>

definition bar_lines :: "string \<Rightarrow> string list list" where
  "bar_lines out = (if out = [] then [] else List.map (split_on (CHR ''|'')) (split_on newline (py_strip out)))"

definition docker_stats_cmd :: string where
  "docker_stats_cmd = ''docker stats --no-stream --format ''
     @ apostrophed ''{{.Name}}|{{.CPUPerc}}|{{.MemUsage}}|{{.MemPerc}}|{{.NetIO}}|{{.BlockIO}}'' @ '' 2>/dev/null''"

text \<open>Name, CPU, memory, its share, network and disk traffic.\<close>

definition container_row :: "string list \<Rightarrow> string list" where
  "container_row p = take 4 p @ [if 4 < length p then p ! 4 else ''?'', if 5 < length p then p ! 5 else ''?'']"

definition get_docker_containers :: "monitor_env \<Rightarrow> row_id \<Rightarrow> response mcache \<Rightarrow> response result \<times> response mcache" where
  "get_docker_containers e sid = cached_route e (server_key ''docker'' sid) sid (\<lambda>s. asked (
     bind_out (run_cmd e s docker_stats_cmd) (\<lambda>out.
       Inr (Some (Containers (List.map container_row (filter (\<lambda>p. 4 \<le> length p) (bar_lines out))))))))"

definition processes_cmd :: "string \<Rightarrow> string" where
  "processes_cmd n = ''ps aux --sort=-%cpu --no-headers 2>/dev/null | head -'' @ n @ '' | awk ''
     @ apostrophed (''{print $2'' @ [dquote] @ ''|'' @ [dquote] @ ''$3'' @ [dquote] @ ''|'' @ [dquote] @ ''$4'' @ [dquote] @ ''|'' @ [dquote] @ ''$11}'')"

definition get_system_info :: "monitor_env \<Rightarrow> row_id \<Rightarrow> response mcache \<Rightarrow> response result \<times> response mcache" where
  "get_system_info e sid = cached_route e (server_key ''system'' sid) sid (\<lambda>s. asked (
     bind_out (run_cmd e s (mv_script e)) (\<lambda>out.
     bind_out (run_cmd e s (processes_cmd ''5'')) (\<lambda>usage.
       Inr (Some (System (ssh_test out) (List.map (take 4) (filter (\<lambda>p. 4 \<le> length p) (bar_lines usage)))))))))"

section \<open>Laws\<close>

lemma dict_put_keys: "fst ` set (dict_put k v m) = insert k (fst ` set m)"
  by (induction k v m rule: dict_put.induct) auto

lemma dict_of_keys: "fst ` set (dict_of ps) = fst ` set ps"
proof -
  have "fst ` set (fold (\<lambda>(k, v) m. dict_put k v m) ps m) = fst ` set ps \<union> fst ` set m" for m :: "('a \<times> 'b) list"
    by (induction ps arbitrary: m) (simp_all add: dict_put_keys split_beta)
  then show ?thesis by (simp add: dict_of_def)
qed

lemma those_in: "those xs = Some ys \<Longrightarrow> y \<in> set ys \<Longrightarrow> Some y \<in> set xs"
  by (induction xs arbitrary: ys) (auto split: option.splits)

text \<open>A key of the map of states stems from a line.\<close>

lemma status_map_line:
  assumes "status_map ns out = Some m" "map_of m k = Some v"
  shows "\<exists>p \<in> set (top_lines out). 4 \<le> length p \<and> k = (if ns \<noteq> [] then pod_key ns (p ! 0) else pod_key (p ! 0) (p ! 1))"
proof -
  obtain xs where xs: "those (List.map (status_line ns) (top_lines out)) = Some xs" "m = dict_of (List.map_filter (\<lambda>x. x) xs)"
    using assms(1) by (auto simp: status_map_def)
  have "k \<in> fst ` set m" using map_of_SomeD [OF assms(2)] by force
  then obtain y where y: "Some y \<in> set xs" "fst y = k"
    unfolding xs(2) dict_of_keys by (auto simp: List.map_filter_def)
  then have "Some (Some y) \<in> set (List.map (status_line ns) (top_lines out))" using those_in [OF xs(1)] by blast
  then obtain p where "p \<in> set (top_lines out)" "status_line ns p = Some (Some y)" by auto
  then show ?thesis using y(2) by (intro bexI [of _ p]) (auto simp: status_line_def split: if_splits)
qed

lemma top_pods_fresh: "p \<in> set (top_pods ns out) \<Longrightarrow> pr_status p = ''?'' \<and> pr_node p = ''?'' \<and> pr_restarts p = ''0''"
  by (auto simp: top_pods_def List.map_filter_def split: if_splits)

lemma top_pods_ns: "p \<in> set (top_pods ns out) \<Longrightarrow> ns \<noteq> [] \<Longrightarrow> pr_ns p = ns"
  by (auto simp: top_pods_def List.map_filter_def split: if_splits)

text \<open>Outside the section of the uptime a step leaves it alone.\<close>

lemma step_uptime:
  assumes "fst st \<noteq> Some ''uptime''" "py_strip l \<noteq> ''---UPTIME---''"
  shows "fst (ssh_step l st) \<noteq> Some ''uptime'' \<and> si_seconds (snd (ssh_step l st)) = si_seconds (snd st)
    \<and> si_since (snd (ssh_step l st)) = si_since (snd st)"
proof (cases "map_of markers (py_strip l)")
  case None
  have "si_seconds (read_section x line r) = si_seconds r \<and> si_since (read_section x line r) = si_since r" if "x \<noteq> ''uptime''" for x line r
    using that by (simp add: read_section_def Let_def split: prod.splits)
  then show ?thesis using assms(1) None by (auto simp: ssh_step_def Let_def split: option.splits)
next
  case (Some x)
  then show ?thesis using assms(2) by (auto simp: ssh_step_def Let_def markers_def split: if_splits)
qed

lemma fold_uptime:
  "fst st \<noteq> Some ''uptime'' \<Longrightarrow> (\<forall>l \<in> set ls. py_strip l \<noteq> ''---UPTIME---'') \<Longrightarrow>
   fst (fold ssh_step ls st) \<noteq> Some ''uptime'' \<and> si_seconds (snd (fold ssh_step ls st)) = si_seconds (snd st)
    \<and> si_since (snd (fold ssh_step ls st)) = si_since (snd st)"
proof (induction ls arbitrary: st)
  case (Cons l ls)
  have "fst (ssh_step l st) \<noteq> Some ''uptime''" "si_seconds (snd (ssh_step l st)) = si_seconds (snd st)"
    "si_since (snd (ssh_step l st)) = si_since (snd st)"
    using step_uptime [OF Cons.prems(1)] Cons.prems(2) by simp_all
  then show ?case using Cons.IH [of "ssh_step l st"] Cons.prems(2) by simp
qed simp

section \<open>Properties\<close>

text \<open>An answer of a monitoring route is either one that was stored no longer ago than the time to
  live of its kind, or what the server answered just now, which is stored.\<close>

theorem cached_is_recent:
  assumes "cached_route e key sid f c = (Inr v, c')"
  shows "(\<exists>ts. c key = Some (ts, v) \<and> mv_now e - ts \<le> cache_ttl (mv_ttls e) key)
    \<or> (\<exists>s. List.find (\<lambda>s. s_id s = sid) (mv_servers e) = Some s \<and> f s = Inr v \<and> c' key = Some (mv_now e, v))"
  using assms by (auto simp: cached_route_def cache_get_def cache_set_def split: if_splits option.splits prod.splits sum.splits)

definition sample_monitor_env :: monitor_env where
  "sample_monitor_env = \<lparr>mv_enabled = True, mv_ttls = [(''nodes'', 30)], mv_now = 120, mv_servers = [], mv_connect = (\<lambda>_. None),
     mv_out = (\<lambda>_ _. Inr []), mv_script = []\<rparr>"

theorem cached_is_recent_witness:
  "cache_set 100 ''nodes:1'' (Nodes []) (\<lambda>_. None) ''nodes:1'' = Some (100, Nodes []) \<and> mv_now sample_monitor_env - 100 \<le> 30"
proof -
  have ttl: "cache_ttl [(''nodes'', 30)] ''nodes:1'' = 30" by code_simp
  then have "cached_route sample_monitor_env ''nodes:1'' 1 (\<lambda>_. Inl ssh_failed) (cache_set 100 ''nodes:1'' (Nodes []) (\<lambda>_. None))
      = (Inr (Nodes []), cache_set 100 ''nodes:1'' (Nodes []) (\<lambda>_. None))"
    by (simp add: cached_route_def sample_monitor_env_def cache_get_def cache_set_def)
  from cached_is_recent [OF this] show ?thesis using ttl by (auto simp: sample_monitor_env_def cache_set_def)
qed

text \<open>With a namespace filter the state of the pods is lost: the listing starts with the namespace,
  which is taken for the name, so no pod but one that is called like its namespace has a state.\<close>

theorem namespace_hides_status:
  assumes "pods_of ns usage status = Some pods" "p \<in> set pods" "pr_name p \<noteq> ns" "ns \<noteq> []"
    and "list_all (\<lambda>l. l ! 0 = ns) (top_lines status)"
  shows "pr_status p = ''?'' \<and> pr_node p = ''?'' \<and> pr_restarts p = ''0''"
proof -
  obtain m q where m: "status_map ns status = Some m" "q \<in> set (top_pods ns usage)" "p = with_status m q"
    using assms(1,2) by (auto simp: pods_of_def)
  have names: "pr_ns p = pr_ns q" "pr_name p = pr_name q" by (auto simp: m(3) with_status_def split: option.splits prod.splits)
  have "map_of m (pod_key (pr_ns q) (pr_name q)) = None"
  proof (rule ccontr)
    assume "map_of m (pod_key (pr_ns q) (pr_name q)) \<noteq> None"
    then obtain v where "map_of m (pod_key (pr_ns q) (pr_name q)) = Some v" by blast
    from status_map_line [OF m(1) this] obtain l where "l \<in> set (top_lines status)"
        "pod_key (pr_ns q) (pr_name q) = pod_key ns (l ! 0)" using assms(4) by auto
    then show False using assms(3,5) top_pods_ns [OF m(2) assms(4)] names by (simp add: pod_key_def list_all_iff)
  qed
  then show ?thesis using top_pods_fresh [OF m(2)] by (simp add: m(3) with_status_def)
qed

theorem namespace_hides_status_witness:
  "pods_of ''prod'' ''web 5m 9Mi'' ''prod web Running [0] n1'' =
     Some [\<lparr>pr_ns = ''prod'', pr_name = ''web'', pr_cpu = ''5m'', pr_memory = ''9Mi'', pr_status = ''?'', pr_restarts = ''0'', pr_node = ''?''\<rparr>]"
proof -
  have "map_option (List.map (\<lambda>p. (pr_ns p, pr_name p, pr_cpu p, pr_memory p))) (pods_of ''prod'' ''web 5m 9Mi'' ''prod web Running [0] n1'') =
      Some [(''prod'', ''web'', ''5m'', ''9Mi'')]" by code_simp
  then obtain p where p: "pods_of ''prod'' ''web 5m 9Mi'' ''prod web Running [0] n1'' = Some [p]"
      "(pr_ns p, pr_name p, pr_cpu p, pr_memory p) = (''prod'', ''web'', ''5m'', ''9Mi'')" by auto
  have "list_all (\<lambda>l. l ! 0 = ''prod'') (top_lines ''prod web Running [0] n1'')" by code_simp
  then have "pr_status p = ''?'' \<and> pr_node p = ''?'' \<and> pr_restarts p = ''0''"
    using namespace_hides_status [OF p(1), of p] p(2) by simp
  then show ?thesis using p by (cases p) simp
qed

text \<open>The uptime is never known: its section ends with the first line, which is the date of the
  start; this line has a colon and a dash, and only one without a dash is taken.\<close>

theorem uptime_lost:
  assumes "\<forall>l \<in> set (pre @ post). py_strip l \<noteq> ''---UPTIME---''" "CHR ''-'' \<in> set (py_strip date)" "map_of markers (py_strip date) = None"
  shows "si_seconds (snd (fold ssh_step (pre @ ''---UPTIME---'' # date # post) (None, no_sysinfo))) = 0
    \<and> si_since (snd (fold ssh_step (pre @ ''---UPTIME---'' # date # post) (None, no_sysinfo))) = []"
proof -
  let ?a = "fold ssh_step pre (None, no_sysinfo)"
  have a: "si_seconds (snd ?a) = 0" "si_since (snd ?a) = []"
    using fold_uptime [of "(None, no_sysinfo)" pre] assms(1) by (auto simp: no_sysinfo_def)
  have m: "ssh_step ''---UPTIME---'' ?a = (Some ''uptime'', snd ?a)"
  proof -
    have "py_strip ''---UPTIME---'' = ''---UPTIME---''" "map_of markers ''---UPTIME---'' = Some ''uptime''" by code_simp+
    then show ?thesis by (simp add: ssh_step_def)
  qed
  have "\<not> is_digit (CHR ''-'')" by code_simp
  then have "\<not> py_isdigit (py_strip date)" using assms(2) by (auto simp: py_isdigit_def list_all_iff)
  moreover have "py_strip date \<noteq> []" using assms(2) by auto
  ultimately have d: "ssh_step date (Some ''uptime'', snd ?a) = (None, snd ?a)"
    using assms(2,3) by (simp add: ssh_step_def read_section_def Let_def)
  have "fold ssh_step (pre @ ''---UPTIME---'' # date # post) (None, no_sysinfo) = fold ssh_step post (None, snd ?a)"
    by (simp add: m d)
  then show ?thesis using fold_uptime [of "(None, snd ?a)" post] assms(1) a by auto
qed

text \<open>A change of a server drops its cached answers, except the details of pods.\<close>

lemma clear_keeps_details:
  "what \<in> {''servers'', ''system'', ''docker'', ''nodes''} \<Longrightarrow> clear_server_cache c (server_key what sid) = None"
  "clear_server_cache c (server_key ''pods'' sid @ rest) = None"
  "clear_server_cache c (server_key ''pod_detail'' sid @ rest) = c (server_key ''pod_detail'' sid @ rest)"
  by (auto simp: clear_server_cache_def server_key_def starts_with_def)

end
