(* ===== verification/Sse.thy ===== *)
theory Sse
  imports Deployers
begin

text \<open>
  The event stream of a deployment, which three routers write in the same way
  (\<^verbatim>\<open>backend/routers/deploy.py\<close>, \<^verbatim>\<open>k8s_deploy.py\<close> and
  \<^verbatim>\<open>approvals.py\<close>), and its reader in the page
  (\<^verbatim>\<open>frontend/src/composables/useSseStream.js\<close>). What a run says is a list of messages, in
  which \<open>None\<close> is a wait of 30 seconds without one; \<open>True\<close> selects the form with numbers of the
  cluster and approval routes. A message may be a key for the page to translate, which
  \<^verbatim>\<open>backend/deploy_log.py\<close> builds. \<^verbatim>\<open>json.dumps\<close>, and
  \<^verbatim>\<open>JSON.parse\<close> with the translation of the page (\<open>None\<close> when it throws), are
  parameters; the marks before an error text are left out.
\<close>

section \<open>Writing\<close>

definition data_text :: "string \<Rightarrow> string" where
  "data_text m = concat (List.map (\<lambda>c. if c = newline then newline # ''data: '' else [c]) m)"

text \<open>The message \<^verbatim>\<open>S(key, ...)\<close>.\<close>

definition status_payload :: "string \<Rightarrow> (string \<times> string) list \<Rightarrow> (string \<times> string) list" where
  "status_payload key args = (''key'', key) # args"

definition status_message :: "((string \<times> string) list \<Rightarrow> string) \<Rightarrow> string \<Rightarrow> (string \<times> string) list \<Rightarrow> string" where
  "status_message dumps key args = ''STATUS:'' @ dumps (status_payload key args)"

definition event_end :: string where
  "event_end = [newline, newline]"

definition retry_line :: string where
  "retry_line = ''retry: 3000'' @ [newline]"

definition head_lines :: "nat option \<Rightarrow> string" where
  "head_lines n = (case n of None \<Rightarrow> [] | Some i \<Rightarrow> ''id: '' @ nat_str i @ [newline] @ retry_line)"

definition log_event :: "nat option \<Rightarrow> string \<Rightarrow> string" where
  "log_event n m = head_lines n @ ''data: '' @ data_text m @ event_end"

definition control_event :: "bool \<Rightarrow> string \<Rightarrow> string" where
  "control_event numbered m = (if numbered then retry_line else []) @ ''data: '' @ m @ event_end"

fun log_events :: "bool \<Rightarrow> nat \<Rightarrow> string option list \<Rightarrow> string list" where
  "log_events numbered n [] = []"
| "log_events numbered n (None # ms) = control_event numbered ''.'' # log_events numbered n ms"
| "log_events numbered n (Some m # ms) =
     log_event (if numbered then Some (Suc n) else None) m # log_events numbered (Suc n) ms"

text \<open>How the background thread ended: with the mark of success, or an error text.\<close>

definition last_event :: "bool \<Rightarrow> string + bool \<Rightarrow> string" where
  "last_event numbered r =
     control_event numbered (case r of Inr ok \<Rightarrow> ''END:'' @ (if ok then ''true'' else ''false'') | Inl e \<Rightarrow> ''ERROR:'' @ e)"

definition event_stream :: "bool \<Rightarrow> string option list \<Rightarrow> string + bool \<Rightarrow> string" where
  "event_stream numbered ms r = concat (log_events numbered 0 ms) @ last_event numbered r"

definition error_stream :: "string \<Rightarrow> string" where
  "error_stream m = retry_line @ ''data: ERROR:'' @ m @ event_end"

definition pending_event :: "string \<Rightarrow> string" where
  "pending_event m = retry_line @ ''data: PENDING:'' @ m @ event_end"

section \<open>Reading\<close>

definition block_data :: "string \<Rightarrow> string" where
  "block_data block = py_join [newline] (List.map (drop 6) (filter (starts_with ''data: '') (split_on newline block)))"

datatype stream_verdict = Ended bool | Broke | Waiting string

lemma split_once_shorter: "split_once sep s = Some (a, b) \<Longrightarrow> sep \<noteq> [] \<Longrightarrow> length b < length s"
  by (drule split_once_sound) simp

text \<open>What the page shows for a message that is no control event.\<close>

definition shown_line :: "(string \<Rightarrow> string option) \<Rightarrow> string \<Rightarrow> string" where
  "shown_line tr m =
     (if starts_with ''STATUS:'' m then (case tr (drop 7 m) of Some text \<Rightarrow> text | None \<Rightarrow> drop 7 m) else m)"

text \<open>The lines shown and the verdict; a stream that just stops is a failure.\<close>

function read_stream :: "(string \<Rightarrow> string option) \<Rightarrow> string \<Rightarrow> string list \<times> stream_verdict" where
  "read_stream tr s =
     (case split_once event_end s of
        None \<Rightarrow> ([], Ended False)
      | Some (block, rest) \<Rightarrow>
          let m = block_data block
          in if starts_with ''ERROR:'' m then ([drop 6 m], Broke)
             else if starts_with ''END:'' m then ([], Ended (hd (split_on (CHR '':'') (drop 4 m)) = ''true''))
             else if starts_with ''PENDING:'' m then ([], Waiting (hd (split_on (CHR '':'') (drop 8 m))))
             else if m = [] \<or> m = ''.'' then read_stream tr rest
             else (case read_stream tr rest of (shown, v) \<Rightarrow> (shown_line tr m # shown, v)))"
  by pat_completeness auto

termination
  by (relation "measure (\<lambda>p. length (snd p))") (auto simp: event_end_def dest: split_once_shorter)

lemmas [simp del] = read_stream.simps

section \<open>Blocks\<close>

lemma split_data: "split_on newline (data_text m) = hd (split_on newline m) # List.map ((@) ''data: '') (tl (split_on newline m))"
proof (induction m)
  case (Cons c m)
  show ?case
  proof (cases "c = newline")
    case True
    have no: "newline \<notin> set ''data: ''" by (simp add: newline_def)
    have ap: "split_on newline (p @ x) = (p @ hd (split_on newline x)) # tl (split_on newline x)" if "newline \<notin> set p" for p x
      using that by (induction p) (auto simp: list.case_eq_if split: list.splits)
    have "split_on newline (data_text (c # m)) = [] # split_on newline (''data: '' @ data_text m)"
      using True by (simp add: data_text_def)
    also have "\<dots> = [] # (''data: '' @ hd (split_on newline (data_text m))) # tl (split_on newline (data_text m))"
      by (simp only: ap [OF no])
    finally show ?thesis using True Cons by (cases "split_on newline m") simp_all
  next
    case False
    then show ?thesis using Cons by (cases "split_on newline m") (simp_all add: data_text_def)
  qed
qed (simp add: data_text_def)

fun single_breaks :: "string \<Rightarrow> bool" where
  "single_breaks [] = True"
| "single_breaks [c] = (c \<noteq> newline)"
| "single_breaks (c # d # cs) = (\<not> (c = newline \<and> d = newline) \<and> single_breaks (d # cs))"

lemma single_breaks_other: "c \<noteq> newline \<Longrightarrow> single_breaks (c # cs) = single_breaks cs"
  by (cases cs) simp_all

lemma single_breaks_pieces: "[] \<notin> set (tl (split_on newline s)) \<Longrightarrow> single_breaks s"
proof (induction s)
  case (Cons c cs)
  obtain y ys where y: "split_on newline cs = y # ys" by (cases "split_on newline cs") simp_all
  show ?case
  proof (cases "c = newline")
    case True
    then have "y \<noteq> []" "[] \<notin> set ys" using Cons.prems y by auto
    then obtain d ds where "cs = d # ds" "d \<noteq> newline" using y by (cases cs) (auto split: if_splits)
    then show ?thesis using True Cons.IH y \<open>[] \<notin> set ys\<close> by simp
  next
    case False
    then show ?thesis using Cons y by (simp add: single_breaks_other)
  qed
qed simp

lemma first_block: "single_breaks s \<Longrightarrow> split_once event_end (s @ event_end @ rest) = Some (s, rest)"
proof (induction s rule: single_breaks.induct)
  case 1
  then show ?case by (simp add: event_end_def starts_with_def)
next
  case (2 c)
  then show ?case by (simp add: event_end_def starts_with_def)
next
  case (3 c d cs)
  then show ?case by (simp add: event_end_def starts_with_def)
qed

text \<open>A block made of lines that are not empty.\<close>

definition next_message :: "(string \<Rightarrow> string option) \<Rightarrow> string \<Rightarrow> string list \<times> stream_verdict \<Rightarrow> string list \<times> stream_verdict" where
  "next_message tr m later =
     (if starts_with ''ERROR:'' m then ([drop 6 m], Broke)
      else if starts_with ''END:'' m then ([], Ended (hd (split_on (CHR '':'') (drop 4 m)) = ''true''))
      else if starts_with ''PENDING:'' m then ([], Waiting (hd (split_on (CHR '':'') (drop 8 m))))
      else if m = [] \<or> m = ''.'' then later
      else (case later of (shown, v) \<Rightarrow> (shown_line tr m # shown, v)))"

lemma read_block:
  assumes "[] \<notin> set (tl (split_on newline block))"
  shows "read_stream tr (block @ event_end @ rest) = next_message tr (block_data block) (read_stream tr rest)"
  unfolding read_stream.simps [of tr "block @ event_end @ rest"] first_block [OF single_breaks_pieces [OF assms]]
  by (simp add: next_message_def Let_def)

definition head_names :: "nat option \<Rightarrow> string list" where
  "head_names n = (case n of None \<Rightarrow> [] | Some i \<Rightarrow> [''id: '' @ nat_str i, ''retry: 3000''])"

lemma split_head: "newline \<notin> set a \<Longrightarrow> split_on newline (a @ newline # s) = a # split_on newline s"
  by (rule split_on_append_sep)

lemma nat_str_line: "newline \<notin> set (''id: '' @ nat_str i)"
proof -
  have "\<not> is_digit newline" "newline \<notin> set ''id: ''" by (simp_all add: is_digit_def newline_def)
  then show ?thesis using nat_str_all_digit [of i] by (auto simp: list_all_iff)
qed

lemma log_lines: "split_on newline (head_lines n @ ''data: '' @ data_text m) = head_names n @ List.map ((@) ''data: '') (split_on newline m)"
proof -
  have no: "newline \<notin> set ''data: ''" "newline \<notin> set ''retry: 3000''" by (simp_all add: newline_def)
  have ap: "split_on newline (p @ x) = (p @ hd (split_on newline x)) # tl (split_on newline x)" if "newline \<notin> set p" for p x
    using that by (induction p) (auto simp: list.case_eq_if split: list.splits)
  have body: "split_on newline (''data: '' @ data_text m) = List.map ((@) ''data: '') (split_on newline m)"
    unfolding ap [OF no(1)] split_data by (cases "split_on newline m") simp_all
  show ?thesis
  proof (cases n)
    case (Some i)
    have "head_lines n @ ''data: '' @ data_text m = (''id: '' @ nat_str i) @ newline # (''retry: 3000'' @ newline # (''data: '' @ data_text m))"
      by (simp add: Some head_lines_def retry_line_def)
    then show ?thesis by (simp only: split_head [OF nat_str_line] split_head [OF no(2)] body) (simp add: Some head_names_def)
  qed (simp add: head_lines_def head_names_def body del: append_Cons)
qed

lemma log_block:
  "block_data (head_lines n @ ''data: '' @ data_text m) = m"
  "[] \<notin> set (tl (split_on newline (head_lines n @ ''data: '' @ data_text m)))"
proof -
  have "filter (starts_with ''data: '') (head_names n) = []"
    by (simp add: head_names_def starts_with_def split: option.splits)
  moreover have "filter (starts_with ''data: '') (List.map ((@) ''data: '') xs) = List.map ((@) ''data: '') xs" for xs
    by (simp add: filter_id_conv starts_with_def)
  moreover have "List.map (drop 6) (List.map ((@) ''data: '') xs) = xs" for xs by (simp add: comp_def)
  ultimately show "block_data (head_lines n @ ''data: '' @ data_text m) = m"
    unfolding block_data_def log_lines filter_append by (simp only: append_Nil join_split)
  show "[] \<notin> set (tl (split_on newline (head_lines n @ ''data: '' @ data_text m)))"
    unfolding log_lines by (auto simp: head_names_def split: option.splits dest: list.set_sel(2) [rotated])
qed

definition reserved :: "string \<Rightarrow> bool" where
  "reserved m = (starts_with ''ERROR:'' m \<or> starts_with ''END:'' m \<or> starts_with ''PENDING:'' m)"

definition visible_messages :: "string option list \<Rightarrow> string list" where
  "visible_messages ms = filter (\<lambda>m. m \<noteq> [] \<and> m \<noteq> ''.'') (List.map_filter (\<lambda>m. m) ms)"

lemma read_log_event: "read_stream tr (log_event n m @ rest) = next_message tr m (read_stream tr rest)"
proof -
  have "log_event n m @ rest = (head_lines n @ ''data: '' @ data_text m) @ event_end @ rest"
    by (simp only: log_event_def append_assoc)
  then show ?thesis by (simp only: read_block [OF log_block(2)] log_block(1))
qed

lemma read_log:
  "\<not> reserved m \<Longrightarrow> read_stream tr (log_event n m @ rest) =
     (if m = [] \<or> m = ''.'' then read_stream tr rest else (case read_stream tr rest of (shown, v) \<Rightarrow> (shown_line tr m # shown, v)))"
  unfolding read_log_event by (simp add: next_message_def reserved_def)

lemma control_block:
  assumes "newline \<notin> set m"
  shows "block_data ((if numbered then retry_line else []) @ ''data: '' @ m) = m"
    "[] \<notin> set (tl (split_on newline ((if numbered then retry_line else []) @ ''data: '' @ m)))"
proof -
  have no: "newline \<notin> set (''data: '' @ m)" "newline \<notin> set ''retry: 3000''" using assms by (simp_all add: newline_def)
  have "(if numbered then retry_line else []) @ ''data: '' @ m = (if numbered then ''retry: 3000'' @ newline # (''data: '' @ m) else ''data: '' @ m)"
    by (simp add: retry_line_def)
  then have lines: "split_on newline ((if numbered then retry_line else []) @ ''data: '' @ m)
      = (if numbered then [''retry: 3000'', ''data: '' @ m] else [''data: '' @ m])"
    by (simp only: split_head [OF no(2)] split_on_no_sep [OF no(1)] if_distrib [of "split_on newline"])
  show "block_data ((if numbered then retry_line else []) @ ''data: '' @ m) = m"
    unfolding block_data_def lines by (simp add: starts_with_def)
  show "[] \<notin> set (tl (split_on newline ((if numbered then retry_line else []) @ ''data: '' @ m)))"
    unfolding lines by simp
qed

lemma read_control:
  assumes "newline \<notin> set m"
  shows "read_stream tr (control_event numbered m @ rest) = next_message tr m (read_stream tr rest)"
proof -
  have "control_event numbered m @ rest = ((if numbered then retry_line else []) @ ''data: '' @ m) @ event_end @ rest"
    by (simp only: control_event_def append_assoc)
  then show ?thesis by (simp only: read_block [OF control_block(2) [OF assms]] control_block(1) [OF assms])
qed

lemma wait_line: "newline \<notin> set ''.''" "newline \<notin> set (''END:'' @ (if ok then ''true'' else ''false''))"
  by (simp_all add: newline_def)

lemma read_wait: "read_stream tr (control_event numbered ''.'' @ rest) = read_stream tr rest"
  unfolding read_control [OF wait_line(1)] by (simp add: next_message_def starts_with_def)

lemma read_end: "read_stream tr (control_event numbered (''END:'' @ (if ok then ''true'' else ''false'')) @ rest) = ([], Ended ok)"
  unfolding read_control [OF wait_line(2)] by (simp add: next_message_def starts_with_def)

lemma read_logs:
  "\<forall>m. Some m \<in> set ms \<longrightarrow> \<not> reserved m \<Longrightarrow>
   read_stream tr (concat (log_events numbered n ms) @ rest) =
     (case read_stream tr rest of (shown, v) \<Rightarrow> (List.map (shown_line tr) (visible_messages ms) @ shown, v))"
proof (induction numbered n ms rule: log_events.induct)
  case (1 numbered n)
  then show ?case by (simp add: visible_messages_def List.map_filter_def)
next
  case (2 numbered n ms)
  then show ?case by (simp add: read_wait visible_messages_def List.map_filter_def)
next
  case (3 numbered n m ms)
  have "\<not> reserved m" using "3.prems" by simp
  then show ?case using 3 by (simp add: read_log visible_messages_def List.map_filter_def split: prod.splits)
qed

lemma log_events_append: "\<exists>k. log_events numbered n (xs @ ys) = log_events numbered n xs @ log_events numbered k ys"
  by (induction numbered n xs rule: log_events.induct) auto

section \<open>Properties\<close>


text \<open>A page that knows one key.\<close>

definition sample_dumps :: "(string \<times> string) list \<Rightarrow> string" where
  "sample_dumps p = concat (List.map (\<lambda>(k, v). k @ ''='' @ v @ '';'') p)"

definition sample_tr :: "string \<Rightarrow> string option" where
  "sample_tr s = (if starts_with ''key='' s then Some (''t('' @ s @ '')'') else None)"


text \<open>A line of output forges the verdict: once a machine prints a line that begins like the last
  event, the page takes the run for ended with success, whatever the run does afterwards and
  however it ends.\<close>

theorem verdict_forgeable:
  assumes "\<forall>m. Some m \<in> set pre \<longrightarrow> \<not> reserved m"
  shows "read_stream tr (event_stream numbered (pre @ Some ''END:true'' # ms) r) = (List.map (shown_line tr) (visible_messages pre), Ended True)"
proof -
  obtain k where "log_events numbered 0 (pre @ Some ''END:true'' # ms) = log_events numbered 0 pre @ log_events numbered k (Some ''END:true'' # ms)"
    using log_events_append by blast
  then obtain i rest where "event_stream numbered (pre @ Some ''END:true'' # ms) r =
      concat (log_events numbered 0 pre) @ log_event i ''END:true'' @ rest"
    by (simp add: event_stream_def)
  moreover have "read_stream tr (log_event i ''END:true'' @ t) = ([], Ended True)" for t
    unfolding read_log_event by (simp add: next_message_def starts_with_def)
  ultimately show ?thesis using read_logs [OF assms, of tr numbered 0] by simp
qed

theorem verdict_forgeable_witness:
  "read_stream tr (event_stream False [Some ''pull'', Some ''END:true'', Some ''no space left''] (Inr False)) = ([''pull''], Ended True)"
proof -
  have "visible_messages [Some ''pull''] = [''pull'']" by code_simp
  then show ?thesis using verdict_forgeable [of "[Some ''pull'']" tr False "[Some ''no space left'']" "Inr False"]
    by (simp add: reserved_def starts_with_def shown_line_def)
qed

end
