(* ===== verification/DeployRoutes.thy ===== *)
theory DeployRoutes
  imports Sse Approvals Executor Measures
begin

text \<open>
  The routes that deploy, cancel and stop (\<^verbatim>\<open>backend/routers/deploy.py\<close> and
  \<^verbatim>\<open>backend/routers/k8s_deploy.py\<close>): permissions, tag, the approval gate, then the run
  of theory Deploy or DeployK8s, as one answer or as the event stream of theory Sse, and the check
  before a deployment to a cluster. What a run says, the stop of each deployer, YAML and the network
  are parameters.
\<close>

section \<open>Deployment\<close>

datatype 'o route_reply = Refused exc | Awaiting row_id bool | Ran 'o

definition wrong_deploy_api :: exc where
  "wrong_deploy_api = ValidationError (Some ''errors.wrong_deploy_api'')"

definition guarded :: "unit result list \<Rightarrow> exc option" where
  "guarded checks = (case List.find (\<lambda>c. case c of Inl _ \<Rightarrow> True | Inr _ \<Rightarrow> False) checks of Some (Inl e) \<Rightarrow> Some e | _ \<Rightarrow> None)"

definition tag_check :: "string \<Rightarrow> unit result" where
  "tag_check tag = (case validate_tag tag of Inl _ \<Rightarrow> Inl deploy_validation | Inr _ \<Rightarrow> Inr ())"

definition perm_check :: "settings \<Rightarrow> string \<Rightarrow> user \<Rightarrow> unit result" where
  "perm_check st perm u = (case require_perm st perm u of Inl e \<Rightarrow> Inl e | Inr _ \<Rightarrow> Inr ())"

text \<open>A request carries neither a type of rollback nor an approval.\<close>

definition request_args :: "exec_args \<Rightarrow> exec_args" where
  "request_args a = a\<lparr>x_rbtype := ''manual'', x_approval := 0\<rparr>"

definition deploy_gate_args :: "user \<Rightarrow> exec_args \<Rightarrow> string \<Rightarrow> gate_args" where
  "deploy_gate_args u a sched =
     \<lparr>ga_project = x_project a, ga_tag = x_tag a, ga_type = x_type a, ga_server_ids = x_server_ids a,
      ga_params = ssh_params (request_args a), ga_requester = u_name u, ga_rollback = False, ga_scheduled = sched\<rparr>"

definition behind_gate ::
  "denv \<Rightarrow> unit result list \<Rightarrow> gate_args \<Rightarrow> (dstate \<Rightarrow> 'o route_reply \<times> dstate) \<Rightarrow> dstate \<Rightarrow> 'o route_reply \<times> dstate" where
  "behind_gate env checks g run s =
     (case guarded checks of
        Some e \<Rightarrow> (Refused e, s)
      | None \<Rightarrow>
          (case gate_deploy (de_jobs env) (de_hints env) (de_ts env) g (ds_db s) of
             (Inl e, db) \<Rightarrow> (Refused e, s\<lparr>ds_db := db\<rparr>)
           | (Inr (Some r), db) \<Rightarrow> (Awaiting (gr_approval r) (gr_scheduled r), s\<lparr>ds_db := db\<rparr>)
           | (Inr None, db) \<Rightarrow> run (s\<lparr>ds_db := db\<rparr>)))"

definition ssh_checks :: "denv \<Rightarrow> user \<Rightarrow> exec_args \<Rightarrow> unit result list" where
  "ssh_checks env u a =
     [perm_check (de_settings env) ''cd.deploy-manage'' u,
      if starts_with ''k8s/'' (x_type a) then Inl wrong_deploy_api else Inr (),
      enforce_deploy_perm (de_settings env) u (x_type a) [], tag_check (x_tag a)]"

text \<open>Exceptions of the parameters are answered as a failed validation.\<close>

definition validation_answer :: "exec_outcome \<Rightarrow> exec_outcome route_reply" where
  "validation_answer r =
     (case r of XRaised e \<Rightarrow> Refused (if is_value_error e \<or> e = TypeError then deploy_validation else e) | _ \<Rightarrow> Ran r)"

definition deploy :: "denv \<Rightarrow> user \<Rightarrow> exec_args \<Rightarrow> string \<Rightarrow> dstate \<Rightarrow> exec_outcome route_reply \<times> dstate" where
  "deploy env u a sched =
     behind_gate env (ssh_checks env u a) (deploy_gate_args u a sched)
       (\<lambda>s. case execute env (Some u) (request_args a) s of (r, s') \<Rightarrow> (validation_answer r, s'))"

text \<open>The same as a stream: refusals before the stream are errors, the answer of the gate and of the
  run are events. \<open>said\<close> is what the run says.\<close>

definition pending_stream :: "row_id \<Rightarrow> bool \<Rightarrow> string" where
  "pending_stream aid timed = pending_event (nat_str aid @ '':'' @ (if timed then ''1'' else ''0''))"

definition run_verdict :: "(exc \<Rightarrow> string) \<Rightarrow> exec_outcome \<Rightarrow> string + bool" where
  "run_verdict text r =
     (case r of
        XRaised e \<Rightarrow> Inl ((if is_value_error e then ''Deploy parameter error: '' else []) @ text e)
      | XDone ok _ _ \<Rightarrow> Inr ok
      | XCancelled _ _ \<Rightarrow> Inr False)"

definition deploy_stream ::
  "denv \<Rightarrow> string \<Rightarrow> string option list \<Rightarrow> user \<Rightarrow> exec_args \<Rightarrow> string \<Rightarrow> dstate \<Rightarrow> string result \<times> dstate" where
  "deploy_stream env wrong said u a sched s =
     (if perm_check (de_settings env) ''cd.deploy-manage'' u = Inr () \<and> starts_with ''k8s/'' (x_type a)
      then (Inr (error_stream wrong), s)
      else case behind_gate env (ssh_checks env u a) (deploy_gate_args u a sched)
             (\<lambda>s. case execute env (Some u) (request_args a) s of (r, s') \<Rightarrow> (Ran r, s')) s of
             (Refused e, s') \<Rightarrow> (Inl e, s')
           | (Awaiting aid timed, s') \<Rightarrow> (Inr (pending_stream aid timed), s')
           | (Ran r, s') \<Rightarrow> (Inr (event_stream False said (run_verdict (de_exc_text env) r)), s'))"

section \<open>Deployment to a cluster\<close>

definition k8s_checks :: "denv \<Rightarrow> user \<Rightarrow> k8s_req \<Rightarrow> unit result list" where
  "k8s_checks env u q =
     [perm_check (de_settings env) ''cd.deploy.k8s'' u, enforce_deploy_perm (de_settings env) u ''k8s'' (q_cd_type q),
      tag_check (q_tag q)]"

definition int_text :: "int \<Rightarrow> string" where
  "int_text n = (if n < 0 then ''-'' @ nat_str (nat (- n)) else nat_str (nat n))"

definition k8s_gate_args :: "user \<Rightarrow> k8s_req \<Rightarrow> gate_args" where
  "k8s_gate_args u q =
     \<lparr>ga_project = q_project q, ga_tag = q_tag q, ga_type = ''k8s/'' @ q_cd_type q,
      ga_server_ids = (if q_cluster q = 0 then [] else int_text (q_cluster q)), ga_params = k8s_params q,
      ga_requester = u_name u, ga_rollback = False, ga_scheduled = q_scheduled q\<rparr>"

definition resolve_k8s :: "denv \<Rightarrow> k8s_req \<Rightarrow> cdb \<Rightarrow> (k8s_image \<times> cluster) result" where
  "resolve_k8s env q db =
     and_then (resolve_image (de_jobs env) (de_hints env) q) (\<lambda>ki.
     and_then (resolve_cluster (de_keys env) (db_servers db) q) (\<lambda>cl. Inr (ki, cl)))"

text \<open>The run with its notification, which a cancelled run does not send.\<close>

definition run_k8s :: "denv \<Rightarrow> k8s_remote \<Rightarrow> user \<Rightarrow> k8s_req \<Rightarrow> dstate \<Rightarrow> k8s_outcome route_reply \<times> dstate" where
  "run_k8s env remote u q s =
     (case resolve_k8s env q (ds_db s) of
        Inl e \<Rightarrow> (Refused e, s)
      | Inr (ki, cl) \<Rightarrow>
          (case deploy_k8s_core env remote u q ki cl False 0 s of
             (KRaised e, s') \<Rightarrow> (Refused e, s')
           | (KCancelled i, s') \<Rightarrow> (Ran (KCancelled i), s')
           | (KDone ok i out, s') \<Rightarrow>
               (case notify_k8s env q ki cl ok of Inl e \<Rightarrow> (Refused e, s') | Inr _ \<Rightarrow> (Ran (KDone ok i out), s'))))"

definition deploy_k8s :: "denv \<Rightarrow> k8s_remote \<Rightarrow> user \<Rightarrow> k8s_req \<Rightarrow> dstate \<Rightarrow> k8s_outcome route_reply \<times> dstate" where
  "deploy_k8s env remote u q = behind_gate env (k8s_checks env u q) (k8s_gate_args u q) (run_k8s env remote u q)"

text \<open>In the stream the notification is sent after the mark of the end: when it fails, the verdict is
  that of the run if the reader was quicker, else an error.\<close>

definition stream_k8s :: "denv \<Rightarrow> k8s_remote \<Rightarrow> bool \<Rightarrow> string option list \<Rightarrow> user \<Rightarrow> k8s_req \<Rightarrow> dstate \<Rightarrow> string route_reply \<times> dstate" where
  "stream_k8s env remote quick said u q s =
     (case resolve_k8s env q (ds_db s) of
        Inl e \<Rightarrow> if is_app_exception e then (Ran (error_stream (de_exc_text env e)), s) else (Refused e, s)
      | Inr (ki, cl) \<Rightarrow>
          (case deploy_k8s_core env remote u q ki cl False 0 s of
             (KRaised e, s') \<Rightarrow> (Ran (event_stream True said (Inl (de_exc_text env e))), s')
           | (KCancelled i, s') \<Rightarrow> (Ran (event_stream True said (Inr False)), s')
           | (KDone ok i out, s') \<Rightarrow>
               (Ran (event_stream True said
                  (case notify_k8s env q ki cl ok of
                     Inl e \<Rightarrow> if quick then Inr ok else Inl (de_exc_text env e)
                   | Inr _ \<Rightarrow> Inr ok)), s')))"

definition deploy_k8s_stream ::
  "denv \<Rightarrow> k8s_remote \<Rightarrow> bool \<Rightarrow> string option list \<Rightarrow> user \<Rightarrow> k8s_req \<Rightarrow> dstate \<Rightarrow> string route_reply \<times> dstate" where
  "deploy_k8s_stream env remote quick said u q s =
     (case behind_gate env (k8s_checks env u q) (k8s_gate_args u q) (stream_k8s env remote quick said u q) s of
        (Awaiting aid timed, s') \<Rightarrow> (Ran (pending_stream aid timed), s')
      | (r, s') \<Rightarrow> (r, s'))"

section \<open>Cancelling and stopping\<close>

definition running_record :: "int \<Rightarrow> string \<Rightarrow> dlog table \<Rightarrow> dlog option" where
  "running_record i project t =
     (if i \<noteq> 0 then t_last (\<lambda>r. int (d_id r) = i \<and> d_status r = ''running'') t
      else t_last (\<lambda>r. d_project r = project \<and> d_status r = ''running'') t)"

definition cancel_perm :: "settings \<Rightarrow> user \<Rightarrow> string \<Rightarrow> unit result" where
  "cancel_perm st u ty0 =
     (let ty = str_or ty0 ''ssh''
      in if starts_with ''k8s/'' ty then enforce_deploy_perm st u ''k8s'' (drop 4 ty) else enforce_deploy_perm st u ty [])"

definition deploy_cancel :: "denv \<Rightarrow> user \<Rightarrow> int \<Rightarrow> string \<Rightarrow> dstate \<Rightarrow> bool result \<times> dstate" where
  "deploy_cancel env u i project s =
     (if i = 0 \<and> project = [] then (Inl deploy_validation, s)
      else case running_record i project (logs s) of
             None \<Rightarrow> (Inr False, s)
           | Some r \<Rightarrow>
               (case cancel_perm (de_settings env) u (d_type r) of
                  Inl e \<Rightarrow> (Inl e, s)
                | Inr _ \<Rightarrow>
                    (case mark_deploy_cancelled (d_id r) (ds_reg s) (logs s) of
                       (ok, m, t) \<Rightarrow> (Inr ok, (set_logs t s)\<lparr>ds_reg := m\<rparr>))))"

definition first_id :: "exc \<Rightarrow> string \<Rightarrow> int result" where
  "first_id missing ids =
     (if ids = [] then Inl missing
      else case py_int (hd (split_on (CHR '','') ids)) of None \<Rightarrow> Inl missing | Some i \<Rightarrow> Inr i)"

definition stored_target :: "keyring \<Rightarrow> exc \<Rightarrow> server table \<Rightarrow> int \<Rightarrow> cluster result" where
  "stored_target k missing t i =
     (case (if i < 0 then None else t_get s_id (nat i) t) of
        None \<Rightarrow> Inl missing
      | Some srv \<Rightarrow>
          let wrap = map_sum (\<lambda>e. if e = DecryptError then undecryptable else e) id
          in and_then (wrap (decrypt_strict k (s_password srv))) (\<lambda>pwd.
             and_then (wrap (decrypt_strict k (s_key srv))) (\<lambda>key.
             Inr \<lparr>cl_host = s_host srv, cl_port = s_port srv, cl_user = s_user srv, cl_password = pwd, cl_key = key\<rparr>)))"

definition stop ::
  "denv \<Rightarrow> (string \<Rightarrow> cluster \<Rightarrow> bool \<times> string) \<Rightarrow> user \<Rightarrow> string \<Rightarrow> string \<Rightarrow> cdb \<Rightarrow> (bool \<times> string) result" where
  "stop env stopper u ty ids db =
     and_then (perm_check (de_settings env) ''cd.deploy-manage'' u) (\<lambda>_.
     if starts_with ''k8s/'' ty then Inl wrong_deploy_api
     else and_then (enforce_deploy_perm (de_settings env) u ty []) (\<lambda>_.
          and_then (first_id (ValidationError (Some ''errors.select_server'')) ids) (\<lambda>i.
          and_then (stored_target (de_keys env) (NotFoundError (Some ''errors.server_not_found'')) (db_servers db) i) (\<lambda>cl.
          if \<not> is_registered ty then Inl (ValidationError (Some ''errors.unsupported_deploy_type'')) else Inr (stopper ty cl)))))"

definition stop_k8s ::
  "denv \<Rightarrow> (string \<Rightarrow> cluster \<Rightarrow> bool \<times> string) \<Rightarrow> user \<Rightarrow> string \<Rightarrow> string \<Rightarrow> cdb \<Rightarrow> (bool \<times> string) result" where
  "stop_k8s env stopper u cd_type ids db =
     and_then (perm_check (de_settings env) ''cd.deploy.k8s'' u) (\<lambda>_.
     and_then (enforce_deploy_perm (de_settings env) u ''k8s'' cd_type) (\<lambda>_.
     and_then (first_id (ValidationError (Some ''errors.select_cluster'')) ids) (\<lambda>i.
     and_then (stored_target (de_keys env) (NotFoundError (Some ''errors.cluster_not_found'')) (db_servers db) i) (\<lambda>cl.
     if \<not> is_registered (''k8s/'' @ cd_type) then Inl (ValidationError (Some ''errors.unsupported_cd_type''))
     else Inr (stopper (''k8s/'' @ cd_type) cl)))))"

section \<open>The check before a deployment to a cluster\<close>

text \<open>The outside of the check: whether a literal address is loopback or link-local, what an address
  serves, whether a node can be reached and what it answers to a command (\<open>None\<close> raises), the Flux
  resource of a project, the name of the first Deployment in a YAML text, and the status of an
  application of Argo CD.\<close>

record check_env =
  ce_ip :: "string \<Rightarrow> bool option"
  ce_web :: "string \<Rightarrow> string option"
  ce_connect :: "cluster \<Rightarrow> bool"
  ce_exec :: "cluster \<Rightarrow> string \<Rightarrow> (string \<times> int) option"
  ce_flux :: "cluster \<Rightarrow> string \<Rightarrow> string \<times> string"
  ce_yaml_name :: "string \<Rightarrow> string"
  ce_argo :: "string \<Rightarrow> string \<Rightarrow> nat option"

record check_info =
  ck_exists :: bool
  ck_yaml :: string
  ck_project :: string
  ck_warning :: string

definition validate_url :: "(string \<Rightarrow> bool option) \<Rightarrow> string \<Rightarrow> unit result" where
  "validate_url ip url =
     (if py_lower (takeWhile (\<lambda>c. c \<noteq> CHR '':'') url) \<notin> {''http'', ''https''} then Inl (ValidationError (Some ''errors.invalid_url''))
      else case url_hostname url of
             Inl e \<Rightarrow> Inl e
           | Inr h \<Rightarrow> if ip h = Some True then Inl (ValidationError (Some ''errors.invalid_url'')) else Inr ())"

definition is_web :: "string \<Rightarrow> bool" where
  "is_web path = (starts_with ''http://'' path \<or> starts_with ''https://'' path)"

definition read_yaml :: "check_env \<Rightarrow> string \<Rightarrow> cluster option \<Rightarrow> string result" where
  "read_yaml ce path node =
     (if is_web path
      then (case validate_url (ce_ip ce) path of
              Inl e \<Rightarrow> if is_app_exception e then Inl e else Inr []
            | Inr _ \<Rightarrow> Inr (case ce_web ce path of None \<Rightarrow> [] | Some t \<Rightarrow> t))
      else case node of
             None \<Rightarrow> Inr []
           | Some cl \<Rightarrow> Inr (case ce_exec ce cl (''cat '' @ sh_quote path @ '' 2>/dev/null'') of
               Some (out, ec) \<Rightarrow> if ec = 0 then out else [] | None \<Rightarrow> []))"

definition deployment_exists :: "check_env \<Rightarrow> cluster \<Rightarrow> string \<Rightarrow> string \<Rightarrow> bool" where
  "deployment_exists ce cl name ns =
     (case ce_exec ce cl (''kubectl get deployment/'' @ sh_quote name @ '' '' @ (if ns = [] then [] else ''-n '' @ sh_quote ns)
              @ '' -o name 2>/dev/null'') of
        Some (out, ec) \<Rightarrow> ec = 0 \<and> out \<noteq> [] | None \<Rightarrow> False)"

definition name_warning :: "string \<Rightarrow> string \<Rightarrow> bool \<Rightarrow> string" where
  "name_warning project yaml exists_now =
     (if contains_sub (py_lower project) (py_lower yaml) \<or> contains_sub (py_lower yaml) (py_lower project) then ''warning_soft''
      else if exists_now then ''warning_severe_existing'' else ''warning_severe_new'')"

text \<open>An \<^verbatim>\<open>AppException\<close> is as good as no answer; anything else escapes.\<close>

definition or_default :: "'a \<Rightarrow> 'a result \<Rightarrow> 'a result" where
  "or_default d r = (case r of Inl e \<Rightarrow> if is_app_exception e then Inr d else Inl e | Inr v \<Rightarrow> Inr v)"

definition reached :: "denv \<Rightarrow> check_env \<Rightarrow> k8s_req \<Rightarrow> cdb \<Rightarrow> cluster result" where
  "reached env ce q db =
     and_then (resolve_cluster (de_keys env) (db_servers db) q) (\<lambda>cl. if ce_connect ce cl then Inr cl else Inl OtherError)"

definition named :: "check_info \<Rightarrow> string \<Rightarrow> bool result \<Rightarrow> check_info result" where
  "named base name there =
     (let r = base\<lparr>ck_yaml := name\<rparr>
      in if name = ck_project base then Inr r
         else and_then there (\<lambda>b. Inr (r\<lparr>ck_exists := b, ck_warning := name_warning (ck_project base) name b\<rparr>)))"

definition on_node :: "denv \<Rightarrow> check_env \<Rightarrow> k8s_req \<Rightarrow> string \<Rightarrow> cdb \<Rightarrow> bool result" where
  "on_node env ce q name db =
     or_default False (and_then (reached env ce q db) (\<lambda>cl. Inr (deployment_exists ce cl name (q_ns q))))"

definition in_argo :: "denv \<Rightarrow> check_env \<Rightarrow> k8s_req \<Rightarrow> string \<Rightarrow> cdb \<Rightarrow> bool" where
  "in_argo env ce q name db =
     (q_api_url q \<noteq> [] \<and> (case resolve_cluster (de_keys env) (db_servers db) q of
        Inl _ \<Rightarrow> False
      | Inr cl \<Rightarrow> ce_argo ce (rstrip_char (CHR ''/'') (q_api_url q) @ ''/api/v1/applications/'' @ name) (cl_password cl) = Some 200))"

definition flux_check :: "denv \<Rightarrow> check_env \<Rightarrow> k8s_req \<Rightarrow> check_info \<Rightarrow> cdb \<Rightarrow> check_info result" where
  "flux_check env ce q base db =
     (case or_default ([], []) (and_then (reached env ce q db) (\<lambda>cl. Inr (ce_flux ce cl (ck_project base)))) of
        Inl e \<Rightarrow> Inl e
      | Inr (name, kind) \<Rightarrow> if kind = [] then Inr base else named base name (on_node env ce q name db))"

definition plain_templates :: "string \<Rightarrow> string" where
  "plain_templates s =
     py_replace ''{TAG}'' ''dummy'' (py_replace ''{IMAGE}'' ''dummy'' (py_replace ''{IMAGE_NAME}'' ''dummy''
       (py_replace ''{IMAGE}:{TAG}'' ''dummy:dummy'' s)))"

definition yaml_check :: "denv \<Rightarrow> check_env \<Rightarrow> k8s_req \<Rightarrow> check_info \<Rightarrow> cdb \<Rightarrow> check_info result" where
  "yaml_check env ce q base db =
     and_then (or_default [] (and_then (if is_web (q_path q) then Inr None else and_then (reached env ce q db) (\<lambda>cl. Inr (Some cl)))
       (\<lambda>node. read_yaml ce (q_path q) node))) (\<lambda>content.
       let name = ce_yaml_name ce (plain_templates content)
       in if content = [] \<or> name = [] then Inr base
          else named base name (if q_cd_type q = ''argocd'' then Inr (in_argo env ce q name db) else on_node env ce q name db))"

definition deploy_k8s_check :: "denv \<Rightarrow> check_env \<Rightarrow> user \<Rightarrow> k8s_req \<Rightarrow> cdb \<Rightarrow> check_info result" where
  "deploy_k8s_check env ce u q db =
     and_then (perm_check (de_settings env) ''cd.deploy.k8s'' u) (\<lambda>_.
     and_then (enforce_deploy_perm (de_settings env) u ''k8s'' (q_cd_type q)) (\<lambda>_.
     let base = \<lparr>ck_exists = False, ck_yaml = [], ck_project = last (split_on (CHR ''/'') (q_project q)), ck_warning = []\<rparr>
     in if q_path q = [] \<or> q_cd_type q = ''helm''
        then (if q_cd_type q = ''fluxcd'' then flux_check env ce q base db else Inr base)
        else yaml_check env ce q base db))"

section \<open>Laws\<close>

text \<open>The gate lets a request through: it raises nothing, and neither an approval nor a time is asked for.\<close>

definition let_through :: "gate_args \<Rightarrow> cdb \<Rightarrow> bool" where
  "let_through g db \<longleftrightarrow> \<not> gate_raises db g \<and> asks_approval db g None \<and> parse_scheduled_at (ga_scheduled g) = Inr []"

text \<open>Nothing ran: every record is one from before or a pending one. (A run leaves a record that is not
  pending, whatever its outcome.)\<close>

definition nothing_ran :: "dstate \<Rightarrow> dstate \<Rightarrow> bool" where
  "nothing_ran s s' \<longleftrightarrow> (\<forall>r \<in> set (rows (logs s')). r \<in> set (rows (logs s)) \<or> d_status r = ''pending'')"

text \<open>What a route may do: change anything only when allowed, and answer with a run or leave a record of one
  only when, moreover, it was let through.\<close>

definition obeys :: "dstate \<Rightarrow> bool \<Rightarrow> bool \<Rightarrow> bool \<Rightarrow> dstate \<Rightarrow> bool" where
  "obeys s allowed through did_run s' \<longleftrightarrow> (s' \<noteq> s \<longrightarrow> allowed) \<and> (did_run \<or> \<not> nothing_ran s s' \<longrightarrow> allowed \<and> through)"

lemma nothing_ran_refl [simp]: "nothing_ran s s"
  by (simp add: nothing_ran_def)

lemma obeys_refl [simp]: "\<not> did_run \<Longrightarrow> obeys s allowed through did_run s"
  by (simp add: obeys_def)

lemma guarded_None: "guarded cs = None \<Longrightarrow> c \<in> set cs \<Longrightarrow> c = Inr ()"
proof (induction cs)
  case (Cons x xs)
  then show ?case by (cases x) (auto simp: guarded_def)
qed simp

lemma gate_leaves:
  assumes "gate_deploy js hints ts g (ds_db s) = (Inr (Some gr), db)"
  shows "nothing_ran s (s\<lparr>ds_db := db\<rparr>)"
  using opened_records [OF assms] by (auto simp: nothing_ran_def logs_def)

text \<open>What is behind the gate is reached only through the checks and the gate.\<close>

lemma behind_gate_cases:
  assumes "apprs_ok (ds_db s)" "lock_inv (logs s)"
  obtains (closed) e where "behind_gate env checks g run s = (Refused e, s)"
  | (opened) aid timed s' where "behind_gate env checks g run s = (Awaiting aid timed, s')"
      "\<forall>c \<in> set checks. c = Inr ()" "nothing_ran s s'"
  | (passed) "behind_gate env checks g run s = run s" "\<forall>c \<in> set checks. c = Inr ()" "let_through g (ds_db s)"
proof (cases "guarded checks")
  case (Some e)
  then show ?thesis using closed by (simp add: behind_gate_def)
next
  case None
  then have ok: "\<forall>c \<in> set checks. c = Inr ()" using guarded_None by blast
  obtain r db where gate: "gate_deploy (de_jobs env) (de_hints env) (de_ts env) g (ds_db s) = (r, db)" by fastforce
  note out = gate_outcome [OF assms(1) assms(2) [unfolded logs_def] gate]
  show ?thesis
  proof (cases r)
    case (Inl e)
    then show ?thesis using closed None gate out by (simp add: behind_gate_def)
  next
    case (Inr x)
    show ?thesis
    proof (cases x)
      case None
      then have "db = ds_db s" "let_through g (ds_db s)" using out Inr by (auto simp: let_through_def)
      then show ?thesis using passed \<open>guarded checks = None\<close> gate Inr None ok by (simp add: behind_gate_def)
    next
      case (Some gr)
      then show ?thesis using opened \<open>guarded checks = None\<close> gate Inr ok gate_leaves [of "de_jobs env"] by (simp add: behind_gate_def)
    qed
  qed
qed

lemma behind_gate_obeys:
  assumes "apprs_ok (ds_db s)" "lock_inv (logs s)" "(\<forall>c \<in> set checks. c = Inr ()) \<Longrightarrow> allowed"
  shows "obeys s allowed (let_through g (ds_db s)) (\<exists>x. fst (behind_gate env checks g run s) = Ran x) (snd (behind_gate env checks g run s))"
  using assms(1,2) by (rule behind_gate_cases [where env = env and checks = checks and g = g and run = run])
    (use assms(3) in \<open>auto simp: obeys_def\<close>)

lemma tag_check_Inr: "tag_check tag = Inr () \<longleftrightarrow> tag_re tag"
  by (auto simp: tag_check_def validate_tag_def split: sum.splits)

lemma perm_check_Inr: "perm_check st perm u = Inr () \<longleftrightarrow> require_perm st perm u = Inr u"
  by (auto simp: perm_check_def require_perm_def split: sum.splits if_splits)

section \<open>The four routes\<close>

definition may_deploy :: "denv \<Rightarrow> user \<Rightarrow> exec_args \<Rightarrow> bool" where
  "may_deploy env u a \<longleftrightarrow> require_perm (de_settings env) ''cd.deploy-manage'' u = Inr u \<and> \<not> starts_with ''k8s/'' (x_type a)
     \<and> enforce_deploy_perm (de_settings env) u (x_type a) [] = Inr () \<and> tag_re (x_tag a)"

definition may_deploy_k8s :: "denv \<Rightarrow> user \<Rightarrow> k8s_req \<Rightarrow> bool" where
  "may_deploy_k8s env u q \<longleftrightarrow> require_perm (de_settings env) ''cd.deploy.k8s'' u = Inr u
     \<and> enforce_deploy_perm (de_settings env) u ''k8s'' (q_cd_type q) = Inr () \<and> tag_re (q_tag q)"

lemma ssh_checks_ok: "(\<forall>c \<in> set (ssh_checks env u a). c = Inr ()) \<longleftrightarrow> may_deploy env u a"
  by (auto simp: ssh_checks_def may_deploy_def perm_check_Inr tag_check_Inr split: if_splits)

lemma k8s_checks_ok: "(\<forall>c \<in> set (k8s_checks env u q). c = Inr ()) \<longleftrightarrow> may_deploy_k8s env u q"
  by (auto simp: k8s_checks_def may_deploy_k8s_def perm_check_Inr tag_check_Inr)

lemma deploy_obeys:
  assumes "apprs_ok (ds_db s)" "lock_inv (logs s)"
  shows "obeys s (may_deploy env u a) (let_through (deploy_gate_args u a sched) (ds_db s))
    (\<exists>x. fst (deploy env u a sched s) = Ran x) (snd (deploy env u a sched s))"
  unfolding deploy_def using assms by (rule behind_gate_obeys) (simp add: ssh_checks_ok)

lemma deploy_k8s_obeys:
  assumes "apprs_ok (ds_db s)" "lock_inv (logs s)"
  shows "obeys s (may_deploy_k8s env u q) (let_through (k8s_gate_args u q) (ds_db s))
    (\<exists>x. fst (deploy_k8s env remote u q s) = Ran x) (snd (deploy_k8s env remote u q s))"
  unfolding deploy_k8s_def using assms by (rule behind_gate_obeys) (simp add: k8s_checks_ok)

lemma deploy_stream_obeys:
  assumes "apprs_ok (ds_db s)" "lock_inv (logs s)"
  shows "obeys s (may_deploy env u a) (let_through (deploy_gate_args u a sched) (ds_db s))
    (\<exists>x. fst (deploy_stream env wrong said u a sched s) = Inr x \<and> x \<noteq> error_stream wrong \<and> (\<forall>aid timed. x \<noteq> pending_stream aid timed))
    (snd (deploy_stream env wrong said u a sched s))"
proof (cases "perm_check (de_settings env) ''cd.deploy-manage'' u = Inr () \<and> starts_with ''k8s/'' (x_type a)")
  case True
  then show ?thesis by (simp add: deploy_stream_def)
next
  case False
  show ?thesis
    using assms
    by (rule behind_gate_cases [where env = env and checks = "ssh_checks env u a" and g = "deploy_gate_args u a sched"
          and run = "\<lambda>s. case execute env (Some u) (request_args a) s of (r, s') \<Rightarrow> (Ran r, s')"])
      (use False in \<open>auto simp: deploy_stream_def ssh_checks_ok obeys_def split: prod.splits\<close>)
qed

lemma deploy_k8s_stream_obeys:
  assumes "apprs_ok (ds_db s)" "lock_inv (logs s)"
  shows "obeys s (may_deploy_k8s env u q) (let_through (k8s_gate_args u q) (ds_db s))
    (\<exists>x. fst (deploy_k8s_stream env remote quick said u q s) = Ran x \<and> (\<forall>aid timed. x \<noteq> pending_stream aid timed))
    (snd (deploy_k8s_stream env remote quick said u q s))"
  using assms
  by (rule behind_gate_cases [where env = env and checks = "k8s_checks env u q" and g = "k8s_gate_args u q"
        and run = "stream_k8s env remote quick said u q"])
    (auto simp: deploy_k8s_stream_def k8s_checks_ok obeys_def split: prod.splits route_reply.splits)

section \<open>Properties\<close>

text \<open>The record that a request names, and that the caller may end.\<close>

definition cancellable :: "denv \<Rightarrow> user \<Rightarrow> int \<Rightarrow> string \<Rightarrow> dlog \<Rightarrow> bool" where
  "cancellable env u i project l \<longleftrightarrow> d_status l = ''running''
     \<and> (if i \<noteq> 0 then int (d_id l) = i else project \<noteq> [] \<and> d_project l = project)
     \<and> cancel_perm (de_settings env) u (d_type l) = Inr ()"

lemma running_record_iff:
  assumes "lock_inv t" "i \<noteq> 0 \<or> project \<noteq> []"
  shows "running_record i project t = Some l \<longleftrightarrow> l \<in> set (rows t) \<and> d_status l = ''running''
    \<and> (if i \<noteq> 0 then int (d_id l) = i else project \<noteq> [] \<and> d_project l = project)"
proof -
  let ?P = "\<lambda>r. (if i \<noteq> 0 then int (d_id r) = i else d_project r = project) \<and> d_status r = ''running''"
  have rec: "running_record i project t = t_last ?P t" by (simp add: running_record_def)
  have uniq: "x = y" if "x \<in> set (rows t)" "y \<in> set (rows t)" "?P x" "?P y" for x y
  proof (cases "i \<noteq> 0")
    case True
    then have "d_id x = d_id y" using that by simp
    then show ?thesis using dl.key_inj [OF lock_invD(1) [OF assms(1)]] that(1,2) by blast
  next
    case False
    then show ?thesis using running_unique [OF assms(1) that(1,2)] that(3,4) by simp
  qed
  have "t_last ?P t = Some l" if l: "l \<in> set (rows t)" "?P l"
  proof -
    obtain x where x: "t_last ?P t = Some x" using l t_last_None_iff [of ?P t] by (cases "t_last ?P t") blast+
    then have "x = l" using uniq [OF _ l(1) _ l(2)] t_last_SomeD [OF x] by blast
    then show ?thesis using x by simp
  qed
  then have "t_last ?P t = Some l \<longleftrightarrow> l \<in> set (rows t) \<and> ?P l" using t_last_SomeD [of ?P t l] by argo
  then show ?thesis unfolding rec using assms(2) by (simp split: if_split) blast
qed

text \<open>C19. A cancellation succeeds exactly when a running record is named, by its number or else by its
  project, and the caller may deploy its type. Then it ends this record, which frees its project, keeps all
  the others, and raises the record's event; otherwise it changes nothing.\<close>

theorem cancel_checked:
  assumes "lock_inv (logs s)" "deploy_cancel env u i project s = (r, s')"
  shows "(r = Inr True \<longleftrightarrow> (\<exists>l \<in> set (rows (logs s)). cancellable env u i project l))
    \<and> (r \<noteq> Inr True \<longrightarrow> s' = s)
    \<and> (\<forall>l \<in> set (rows (logs s)). cancellable env u i project l \<longrightarrow>
          rows (logs s') = List.map (\<lambda>x. if x = l then l\<lparr>d_status := ''terminated'', d_lock := None\<rparr> else x) (rows (logs s))
        \<and> holder (d_project l) (logs s') = None \<and> ds_reg s' = cancel_event (d_id l) (ds_reg s) \<and> rest_of s' = rest_of s)"
proof (cases "i = 0 \<and> project = []")
  case True
  then show ?thesis using assms(2) by (auto simp: deploy_cancel_def cancellable_def)
next
  case False
  then have named: "i \<noteq> 0 \<or> project \<noteq> []" by simp
  note iff = running_record_iff [OF assms(1) named]
  show ?thesis
  proof (cases "running_record i project (logs s)")
    case None
    then have "\<not> cancellable env u i project l" if "l \<in> set (rows (logs s))" for l using that iff [of l] by (auto simp: cancellable_def)
    moreover have "r = Inr False \<and> s' = s" using assms(2) None named by (auto simp: deploy_cancel_def)
    ultimately show ?thesis by blast
  next
    case (Some l)
    have l: "l \<in> set (rows (logs s))" "d_status l = ''running''" using Some iff by blast+
    have only: "x = l" if "x \<in> set (rows (logs s))" "cancellable env u i project x" for x
      using that iff [of x] Some by (auto simp: cancellable_def)
    have can: "cancellable env u i project l \<longleftrightarrow> cancel_perm (de_settings env) u (d_type l) = Inr ()"
      using Some iff [of l] by (auto simp: cancellable_def)
    show ?thesis
    proof (cases "cancel_perm (de_settings env) u (d_type l)")
      case (Inl e)
      then have "r = Inl e \<and> s' = s" using assms(2) Some named by (auto simp: deploy_cancel_def)
      then show ?thesis using only can Inl by auto
    next
      case (Inr x)
      let ?P = "\<lambda>r. d_id r = d_id l \<and> d_status r = ''running''" and ?f = "\<lambda>r. r\<lparr>d_status := ''terminated'', d_lock := None\<rparr>"
      have same: "?P y \<longleftrightarrow> y = l" if "y \<in> set (rows (logs s))" for y
        using dl.key_inj [OF lock_invD(1) [OF assms(1)]] that l by auto
      have "snd (t_update ?P ?f (logs s)) = length (filter (\<lambda>y. y = l) (rows (logs s)))"
        unfolding t_update_def using same by (auto intro!: arg_cong [of _ _ length] filter_cong)
      then have pos: "0 < snd (t_update ?P ?f (logs s))" using l(1) by (auto simp: filter_empty_conv)
      have out: "r = Inr True" "logs s' = fst (t_update ?P ?f (logs s))" "ds_reg s' = cancel_event (d_id l) (ds_reg s)" "rest_of s' = rest_of s"
        using assms(2) Some Inr named pos by (auto simp: deploy_cancel_def mark_deploy_cancelled_def split_beta)
      have rows: "rows (logs s') = List.map (\<lambda>x. if x = l then ?f l else x) (rows (logs s))"
        unfolding out(2) using same by auto
      have "find_running_deploy (d_project l) (logs s) = Some l" using find_running_iff [OF assms(1)] l by simp
      then have "holder (d_project l) (logs s') = None"
        unfolding out(2) holder_def using find_running_release [OF _ _ _ assms(1), of ?f ?P "d_project l"] l(2) by simp
      then have ended: "rows (logs s') = List.map (\<lambda>x. if x = l then ?f l else x) (rows (logs s))
        \<and> holder (d_project l) (logs s') = None \<and> ds_reg s' = cancel_event (d_id l) (ds_reg s) \<and> rest_of s' = rest_of s"
        using rows out(3,4) by blast
      have yes: "cancellable env u i project l" using can Inr by simp
      show ?thesis
      proof (intro conjI impI ballI)
        show "r = Inr True \<longleftrightarrow> (\<exists>l \<in> set (rows (logs s)). cancellable env u i project l)" using out(1) yes l(1) by blast
      qed (use out(1) ended only in blast)+
    qed
  qed
qed

text \<open>Cancelling the running deployment of the sample table.\<close>

theorem cancel_checked_witness:
  "\<exists>s'. deploy_cancel sample_denv carol 0 ''web'' (set_logs sample_table sample_state) = (Inr True, s')
     \<and> rows (logs s') = [sample_running\<lparr>d_status := ''terminated'', d_lock := None\<rparr>, rows sample_table ! 1] \<and> holder ''web'' (logs s') = None"
proof -
  let ?s = "set_logs sample_table sample_state"
  obtain r s' where c: "deploy_cancel sample_denv carol 0 ''web'' ?s = (r, s')" by fastforce
  have inv: "lock_inv (logs ?s)" using sample_table_inv by simp
  obtain q where q: "rows sample_table = [sample_running, q]" "q \<noteq> sample_running" by (simp add: sample_simps)
  have "cancel_perm (de_settings sample_denv) carol (d_type sample_running) = Inr ()" by code_simp
  then have can: "cancellable sample_denv carol 0 ''web'' sample_running" by (simp add: cancellable_def sample_simps)
  have p: "d_project sample_running = ''web''" by (simp add: sample_simps)
  note o = cancel_checked [OF inv c]
  have mem: "sample_running \<in> set (rows (logs ?s))" by (simp add: sample_table_def)
  have "r = Inr True" using o can mem by blast
  moreover note mp [OF bspec [OF conjunct2 [OF conjunct2 [OF o]] mem] can]
  ultimately show ?thesis using c q p by simp
qed

text \<open>The check of addresses against requests to the machine itself knows literal addresses only.\<close>

lemma localhost_passes:
  assumes "ip ''localhost'' = None"
  shows "validate_url ip ''http://localhost:8080/app.yaml'' = Inr ()"
proof -
  have "url_hostname ''http://localhost:8080/app.yaml'' = Inr ''localhost''" by code_simp
  moreover have "py_lower (takeWhile (\<lambda>c. c \<noteq> CHR '':'') ''http://localhost:8080/app.yaml'') = ''http''" by code_simp
  ultimately show ?thesis using assms by (simp add: validate_url_def)
qed

end
