(* ===== verification/Servers.thy ===== *)
theory Servers
  imports Monitor DeployRoutes
begin

text \<open>
  \<^verbatim>\<open>backend/routers/servers.py\<close> and \<^verbatim>\<open>tags.py\<close> with
  \<^verbatim>\<open>trust_ssh_host\<close> of \<^verbatim>\<open>backend/deployers/base.py\<close>: the stored servers with their
  credentials, which leave the backend only masked, the probe of their ports, and the test and trust of a
  connection. The network (the key a host shows, whether a login works) is a parameter; temporary
  files and the texts of replies are left out.
\<close>

section \<open>The table\<close>

text \<open>A row with the column that only these routes read.\<close>

record server_row = server +
  sv_auth :: string

record server_req =
  sr_name :: string
  sr_host :: string
  sr_port :: int
  sr_user :: string
  sr_auth :: string
  sr_password :: string
  sr_key :: string
  sr_type :: string
  sr_tags :: string

record servers_state =
  sv_table :: "server_row table"
  sv_cache :: "(string \<times> bool) list mcache"

definition mask :: string where
  "mask = ''***''"

definition row_assign :: "row_id \<Rightarrow> server_row \<Rightarrow> server_row" where
  "row_assign i r = r\<lparr>s_id := i\<rparr>"

interpretation servers: row_key "s_id :: server_row \<Rightarrow> row_id" row_assign
  by unfold_locales (simp add: row_assign_def)

definition manage_servers :: "settings \<Rightarrow> user \<Rightarrow> unit result" where
  "manage_servers st u = perm_check st ''cd.server-manage'' u"

definition server_exists :: exc where
  "server_exists = ConflictError (Some ''errors.server_exists'')"

definition server_not_found :: exc where
  "server_not_found = NotFoundError (Some ''errors.server_not_found'')"

section \<open>Listing\<close>

record listed_server =
  ls_row :: server_row
  ls_password :: bool
  ls_key :: bool

definition masked :: "string \<Rightarrow> string" where
  "masked v = (if v \<noteq> [] then mask else [])"

definition listed :: "server_row \<Rightarrow> listed_server" where
  "listed r = \<lparr>ls_row = r\<lparr>s_password := masked (s_password r), s_key := masked (s_key r)\<rparr>,
     ls_password = (s_password r \<noteq> []), ls_key = (s_key r \<noteq> [])\<rparr>"

definition list_servers :: "server_row table \<Rightarrow> listed_server list" where
  "list_servers t = List.map listed (sort_key s_name (rows t))"

definition list_tags :: "server_row table \<Rightarrow> string list" where
  "list_tags t = sort (remdups (concat (List.map (\<lambda>r. parse_csv (s_tags r)) (t_where (\<lambda>r. s_tags r \<noteq> []) t))))"

section \<open>Changes\<close>

definition of_request :: "server_req \<Rightarrow> string \<Rightarrow> string \<Rightarrow> server_row \<Rightarrow> server_row" where
  "of_request q password key r =
     r\<lparr>s_name := sr_name q, s_host := sr_host q, s_port := sr_port q, s_user := sr_user q, s_type := sr_type q,
       s_password := password, s_key := key, s_tags := sr_tags q, sv_auth := sr_auth q\<rparr>"

definition blank_row :: server_row where
  "blank_row = \<lparr>s_id = 0, s_name = [], s_host = [], s_port = 22, s_user = [], s_type = [], s_password = [], s_key = [],
     s_tags = [], sv_auth = []\<rparr>"

definition stored :: "server_row table \<Rightarrow> servers_state \<Rightarrow> servers_state" where
  "stored t s = \<lparr>sv_table = t, sv_cache = clear_server_cache (sv_cache s)\<rparr>"

definition add_server :: "settings \<Rightarrow> keyring \<Rightarrow> user \<Rightarrow> server_req \<Rightarrow> servers_state \<Rightarrow> unit result \<times> servers_state" where
  "add_server st k u q s =
     (case manage_servers st u of
        Inl e \<Rightarrow> (Inl e, s)
      | Inr _ \<Rightarrow>
          if list_ex (\<lambda>r. s_name r = sr_name q) (rows (sv_table s)) then (Inl server_exists, s)
          else (Inr (), stored (fst (t_insert row_assign
            (of_request q (encrypt k (sr_password q)) (encrypt k (sr_key q)) blank_row) (sv_table s))) s))"

text \<open>A mask or nothing keeps the password, a mask the key; the method decides which one goes.\<close>

definition new_password :: "keyring \<Rightarrow> server_req \<Rightarrow> string \<Rightarrow> string" where
  "new_password k q old =
     (if sr_auth q = ''key'' then []
      else if sr_password q \<noteq> [] \<and> sr_password q \<noteq> mask then encrypt k (sr_password q) else old)"

definition new_key :: "keyring \<Rightarrow> server_req \<Rightarrow> string \<Rightarrow> string" where
  "new_key k q old =
     (if sr_auth q = ''password'' then []
      else if sr_key q \<noteq> [] \<and> sr_key q \<noteq> mask then encrypt k (sr_key q)
      else if sr_key q = [] then [] else old)"

definition update_server :: "settings \<Rightarrow> keyring \<Rightarrow> user \<Rightarrow> row_id \<Rightarrow> server_req \<Rightarrow> servers_state \<Rightarrow> unit result \<times> servers_state" where
  "update_server st k u i q s =
     (case manage_servers st u of
        Inl e \<Rightarrow> (Inl e, s)
      | Inr _ \<Rightarrow>
          (case t_get s_id i (sv_table s) of
             None \<Rightarrow> (Inl server_not_found, s)
           | Some old \<Rightarrow>
               if list_ex (\<lambda>r. s_id r \<noteq> i \<and> s_name r = sr_name q) (rows (sv_table s)) then (Inl server_exists, s)
               else (Inr (), stored (fst (t_update (\<lambda>r. s_id r = i)
                 (of_request q (new_password k q (s_password old)) (new_key k q (s_key old))) (sv_table s))) s)))"

definition delete_server :: "settings \<Rightarrow> user \<Rightarrow> row_id \<Rightarrow> servers_state \<Rightarrow> unit result \<times> servers_state" where
  "delete_server st u i s =
     (case manage_servers st u of
        Inl e \<Rightarrow> (Inl e, s)
      | Inr _ \<Rightarrow> (Inr (), stored (fst (t_delete (\<lambda>r. s_id r = i) (sv_table s))) s))"

section \<open>State of the ports\<close>

definition status_cache_key :: string where
  "status_cache_key = ''servers:status''"

definition check_servers_status ::
  "(string \<times> int) list \<Rightarrow> epoch \<Rightarrow> (string \<Rightarrow> int \<Rightarrow> bool) \<Rightarrow> servers_state \<Rightarrow> (string \<times> bool) list \<times> servers_state" where
  "check_servers_status ttls now online s =
     (case cache_get ttls now status_cache_key (sv_cache s) of
        (Some v, c) \<Rightarrow> (v, s\<lparr>sv_cache := c\<rparr>)
      | (None, c) \<Rightarrow>
          let v = List.map (\<lambda>r. (nat_str (s_id r), online (s_host r) (s_port r))) (rows (sv_table s))
          in (v, s\<lparr>sv_cache := cache_set now status_cache_key v c\<rparr>))"

section \<open>Testing and trusting\<close>

text \<open>The key (its type and bytes) a host shows, whether the file can be written, and what a login with
  credentials gives.\<close>

datatype login_answer = LoggedIn | BadCredentials | Unreached | BadProtocol

type_synonym known_hosts = "string \<times> string \<Rightarrow> string option"

record ssh_net =
  sn_key :: "string \<Rightarrow> int \<Rightarrow> (string \<times> string) option"
  sn_save :: bool
  sn_login :: "known_hosts \<Rightarrow> cluster \<Rightarrow> login_answer"
  sn_finger :: "string \<Rightarrow> string"

definition port_name :: "string \<Rightarrow> int \<Rightarrow> string" where
  "port_name host port = ''['' @ host @ '']:'' @ int_text port"

definition add_host_key :: "string \<Rightarrow> int \<Rightarrow> string \<times> string \<Rightarrow> known_hosts \<Rightarrow> known_hosts" where
  "add_host_key host port key known = known((host, fst key) \<mapsto> snd key, (port_name host port, fst key) \<mapsto> snd key)"

text \<open>The fingerprint and the answer of the login, which is only a warning.\<close>

definition trust_ssh_host :: "ssh_net \<Rightarrow> cluster \<Rightarrow> known_hosts \<Rightarrow> (string \<times> login_answer) option \<times> known_hosts" where
  "trust_ssh_host net c known =
     (case sn_key net (cl_host c) (cl_port c) of
        None \<Rightarrow> (None, known)
      | Some key \<Rightarrow>
          if \<not> sn_save net then (None, known)
          else let known' = add_host_key (cl_host c) (cl_port c) key known
               in (Some (sn_finger net (snd key),
                     if cl_key c \<noteq> [] \<or> cl_password c \<noteq> [] then sn_login net known' c else LoggedIn), known'))"

definition given_or_stored :: "keyring \<Rightarrow> string \<Rightarrow> string \<Rightarrow> string result" where
  "given_or_stored k given old = (if given \<noteq> [] \<and> given \<noteq> mask then Inr given else if old \<noteq> [] then decrypt k old else Inr [])"

definition by_method :: "string \<Rightarrow> string \<times> string \<Rightarrow> string \<times> string" where
  "by_method auth c = (if auth = ''password'' then (fst c, []) else if auth = ''key'' then ([], snd c) else c)"

text \<open>What a test presents, and to whom.\<close>

definition test_target :: "keyring \<Rightarrow> int \<Rightarrow> server_req \<Rightarrow> server_row table \<Rightarrow> cluster result" where
  "test_target k sid q t =
     and_then (case (if sid \<le> 0 then None else t_get s_id (nat sid) t) of
         None \<Rightarrow> Inr (sr_password q, sr_key q)
       | Some r \<Rightarrow> and_then (given_or_stored k (sr_password q) (s_password r)) (\<lambda>p.
                   and_then (given_or_stored k (sr_key q) (s_key r)) (\<lambda>key. Inr (p, key)))) (\<lambda>c.
     Inr \<lparr>cl_host = sr_host q, cl_port = sr_port q, cl_user = sr_user q, cl_password = fst (by_method (sr_auth q) c),
          cl_key = snd (by_method (sr_auth q) c)\<rparr>)"

definition test_server_connection ::
  "settings \<Rightarrow> ssh_net \<Rightarrow> keyring \<Rightarrow> user \<Rightarrow> bool \<Rightarrow> int \<Rightarrow> server_req \<Rightarrow> server_row table \<Rightarrow> known_hosts
     \<Rightarrow> bool result \<times> known_hosts" where
  "test_server_connection st net k u trust sid q t known =
     (case and_then (manage_servers st u) (\<lambda>_. test_target k sid q t) of
        Inl e \<Rightarrow> (Inl e, known)
      | Inr c \<Rightarrow>
          if trust then (case trust_ssh_host net c known of (r, known') \<Rightarrow> (Inr (r \<noteq> None), known'))
          else (Inr (sn_login net known c = LoggedIn), known))"

definition trust_existing_server ::
  "settings \<Rightarrow> ssh_net \<Rightarrow> keyring \<Rightarrow> user \<Rightarrow> row_id \<Rightarrow> server_row table \<Rightarrow> known_hosts \<Rightarrow> bool result \<times> known_hosts" where
  "trust_existing_server st net k u i t known =
     (case and_then (manage_servers st u) (\<lambda>_.
        case t_get s_id i t of
          None \<Rightarrow> Inl server_not_found
        | Some r \<Rightarrow>
            and_then (given_or_stored k [] (s_password r)) (\<lambda>p.
            and_then (given_or_stored k [] (s_key r)) (\<lambda>key.
            let c = by_method (py_lower (str_or (sv_auth r) ''password'')) (p, key)
            in Inr \<lparr>cl_host = s_host r, cl_port = s_port r, cl_user = s_user r, cl_password = fst c, cl_key = snd c\<rparr>))) of
        Inl e \<Rightarrow> (Inl e, known)
      | Inr c \<Rightarrow> (case trust_ssh_host net c known of (r, known') \<Rightarrow> (Inr (r \<noteq> None), known')))"

section \<open>Laws\<close>

lemma sort_key_map: "sort_key f (List.map g xs) = List.map g (sort_key (\<lambda>x. f (g x)) xs)"
proof (induction xs)
  case (Cons x xs)
  have ins: "insort_key f (g y) (List.map g ys) = List.map g (insort_key (\<lambda>x. f (g x)) y ys)" for y ys
    by (induction ys) auto
  show ?case using Cons by (simp add: ins)
qed simp

text \<open>What a row keeps when its credentials are hidden.\<close>

definition veiled :: "server_row \<Rightarrow> server_row" where
  "veiled r = r\<lparr>s_password := masked (s_password r), s_key := masked (s_key r)\<rparr>"

lemma listed_veiled: "listed r = listed (veiled r)"
  by (simp add: listed_def veiled_def masked_def mask_def)

lemma tags_are_environments: "set (list_tags t) = set (envs_of (List.map server.truncate (rows t)))"
  by (auto simp: list_tags_def envs_of_def t_where_def server.truncate_def)

section \<open>Properties\<close>

text \<open>C30. The list of servers does not depend on a stored credential but for its presence: two tables
  that agree up to the credentials are listed alike.\<close>

theorem credentials_hidden:
  assumes "List.map veiled (rows t) = List.map veiled (rows t')"
  shows "list_servers t = list_servers t'"
proof -
  have same: "list_servers t = List.map listed (sort_key s_name (List.map veiled (rows t)))" for t
  proof -
    have "sort_key s_name (List.map veiled (rows t)) = List.map veiled (sort_key s_name (rows t))"
      by (simp add: sort_key_map veiled_def)
    then show ?thesis unfolding list_servers_def using listed_veiled by simp
  qed
  show ?thesis unfolding same [of t] same [of t'] assms ..
qed

text \<open>Editing a server with masked credentials keeps the credential of the chosen method and drops the
  other one, takes the other fields from the request, and leaves every other server alone.\<close>

theorem edit_keeps_credentials:
  assumes "update_server st k u i q s = (Inr (), s')" "wf_table s_id (sv_table s)" "t_get s_id i (sv_table s) = Some old"
    and "sr_auth q = ''password'' \<and> sr_password q \<in> {[], mask} \<or> sr_auth q = ''key'' \<and> sr_key q = mask"
  shows "t_get s_id i (sv_table s') = Some (of_request q
      (if sr_auth q = ''password'' then s_password old else []) (if sr_auth q = ''key'' then s_key old else []) old)
    \<and> (\<forall>j. j \<noteq> i \<longrightarrow> t_get s_id j (sv_table s') = t_get s_id j (sv_table s))
    \<and> sv_cache s' status_cache_key = None"
proof -
  have s': "s' = stored (fst (t_update (\<lambda>r. s_id r = i)
      (of_request q (new_password k q (s_password old)) (new_key k q (s_key old))) (sv_table s))) s"
    using assms(1,3) by (auto simp: update_server_def split: sum.splits if_splits)
  have get: "t_get s_id j (sv_table s') = map_option (\<lambda>r. if s_id r = i
      then of_request q (new_password k q (s_password old)) (new_key k q (s_key old)) r else r) (t_get s_id j (sv_table s))" for j
    unfolding s' stored_def by (simp add: t_get_def find_map_if of_request_def)
  have "s_id old = i" using t_get_SomeD [OF assms(3)] by simp
  moreover have "t_get s_id j (sv_table s') = t_get s_id j (sv_table s)" if "j \<noteq> i" for j
    unfolding get using that by (cases "t_get s_id j (sv_table s)") (auto dest: t_get_SomeD)
  moreover have "sv_cache s' status_cache_key = None"
    by (simp add: s' stored_def clear_server_cache_def status_cache_key_def starts_with_def)
  ultimately show ?thesis using assms(3,4) unfolding get
    by (auto simp: new_password_def new_key_def mask_def)
qed

text \<open>Who may manage servers can make the backend present the stored password of a server to any
  address: the test takes the address from the request and the masked credential from the table.\<close>

theorem credentials_follow_request:
  assumes "manage_servers st u = Inr ()" "t_get s_id i t = Some r" "0 < i" "s_password r \<noteq> []"
    and "decrypt k (s_password r) = Inr secret" "sr_auth q = ''password''" "sr_password q = mask" "sr_key q \<noteq> mask" "sr_key q \<noteq> []"
  shows "\<exists>c. test_target k (int i) q t = Inr c \<and> cl_password c = secret \<and> cl_host c = sr_host q \<and> cl_port c = sr_port q
    \<and> test_server_connection st net k u False (int i) q t known = (Inr (sn_login net known c = LoggedIn), known)"
  using assms by (auto simp: test_server_connection_def test_target_def given_or_stored_def by_method_def and_then_def)

text \<open>Trusting a host on one port trusts its key on the default port as well.\<close>

lemma trust_spreads:
  "sn_key net (cl_host c) (cl_port c) = Some (ty, key) \<Longrightarrow> sn_save net
    \<Longrightarrow> snd (trust_ssh_host net c known) (cl_host c, ty) = Some key"
  by (simp add: trust_ssh_host_def add_host_key_def Let_def)

text \<open>An emptied key: the change drops it, the test before it still uses the stored one.\<close>

lemma cleared_key_tested:
  assumes "sr_key q = []" "s_key r \<noteq> []" "decrypt k (s_key r) = Inr secret" "sr_auth q = ''key''" "t_get s_id i t = Some r" "0 < i"
    and "s_password r = []"
  shows "new_key k q (s_key r) = [] \<and> map_sum id cl_key (test_target k (int i) q t) = Inr secret"
  using assms by (auto simp: new_key_def test_target_def given_or_stored_def by_method_def)

section \<open>A sample\<close>

definition sample_row :: server_row where
  "sample_row = of_request \<lparr>sr_name = ''a'', sr_host = ''10.0.0.1'', sr_port = 22, sr_user = ''root'', sr_auth = ''password'',
     sr_password = [], sr_key = [], sr_type = ''ssh'', sr_tags = ''prod''\<rparr> ''enc:terces'' [] (blank_row\<lparr>s_id := 1\<rparr>)"

definition sample_edit :: server_req where
  "sample_edit = \<lparr>sr_name = ''b'', sr_host = ''203.0.113.9'', sr_port = 2222, sr_user = ''root'', sr_auth = ''password'',
     sr_password = mask, sr_key = ''k'', sr_type = ''ssh'', sr_tags = []\<rparr>"

definition sample_servers_state :: servers_state where
  "sample_servers_state = \<lparr>sv_table = \<lparr>rows = [sample_row], next_id = 2\<rparr>, sv_cache = (\<lambda>_. None)\<rparr>"

definition keeper :: user where
  "keeper = \<lparr>u_name = ''kim'', u_role = ''dev'', u_perms = [''cd.server-manage'']\<rparr>"

lemma sample_row_simps [simp]:
  "s_id sample_row = 1" "s_name sample_row = ''a''" "s_password sample_row = ''enc:terces''" "s_key sample_row = []"
  by (simp_all add: sample_row_def of_request_def blank_row_def)

lemma keeper_may: "manage_servers default_settings keeper = Inr ()"
  by code_simp

theorem credentials_hidden_witness:
  "list_servers \<lparr>rows = [sample_row], next_id = 2\<rparr> = list_servers \<lparr>rows = [sample_row\<lparr>s_password := ''enc:x''\<rparr>], next_id = 2\<rparr>"
  by (rule credentials_hidden) (simp add: veiled_def masked_def)

theorem edit_keeps_credentials_witness:
  "\<exists>s'. update_server default_settings sample_keyring keeper 1 sample_edit sample_servers_state = (Inr (), s')
     \<and> map_option s_password (t_get s_id 1 (sv_table s')) = Some ''enc:terces''"
proof -
  have wf: "wf_table s_id (sv_table sample_servers_state)" by (simp add: sample_servers_state_def wf_table_def)
  have old: "t_get s_id 1 (sv_table sample_servers_state) = Some sample_row" by (simp add: sample_servers_state_def t_get_def)
  obtain s' where u: "update_server default_settings sample_keyring keeper 1 sample_edit sample_servers_state = (Inr (), s')"
    using keeper_may old by (simp add: update_server_def sample_servers_state_def)
  have m: "sr_auth sample_edit = ''password'' \<and> sr_password sample_edit \<in> {[], mask} \<or> sr_auth sample_edit = ''key'' \<and> sr_key sample_edit = mask"
    by (simp add: sample_edit_def)
  from edit_keeps_credentials [OF u wf old m] u show ?thesis by (simp add: of_request_def sample_edit_def)
qed

theorem credentials_follow_request_witness:
  "\<exists>c. test_target sample_keyring 1 sample_edit (sv_table sample_servers_state) = Inr c \<and> cl_password c = ''secret'' \<and> cl_host c = ''203.0.113.9''"
proof -
  have d: "decrypt sample_keyring ''enc:terces'' = Inr ''secret''" by code_simp
  have old: "t_get s_id 1 (sv_table sample_servers_state) = Some sample_row" by (simp add: sample_servers_state_def t_get_def)
  have q: "sr_auth sample_edit = ''password''" "sr_password sample_edit = mask" "sr_key sample_edit \<noteq> mask" "sr_key sample_edit \<noteq> []"
    by (simp_all add: sample_edit_def mask_def)
  show ?thesis using credentials_follow_request [OF keeper_may old _ _ _ q, of sample_keyring "''secret''"] d
    by (simp add: sample_edit_def) blast
qed

end
