(* ===== verification/Edges.thy ===== *)
theory Edges
  imports Deployers
begin

text \<open>
  The two edges of the process: \<^verbatim>\<open>backend/net.py\<close>, which puts one address family
  first in every resolved list, and \<^verbatim>\<open>backend/access_log.py\<close>, which masks sensitive
  parameters in the access log. The resolver is a parameter; loggers and filters are left out.
\<close>

section \<open>Families of addresses\<close>

datatype family = IPv4 | IPv6 | OtherFamily

record net_state =
  ns_installed :: bool
  ns_preferred :: string

definition order_infos :: "string \<Rightarrow> bool \<Rightarrow> (family \<times> 'a) list \<Rightarrow> (family \<times> 'a) list" where
  "order_infos preferred fixed infos =
     (if preferred = ''auto'' \<or> fixed \<or> length infos < 2 then infos
      else let want = (if preferred = ''ipv4'' then IPv4 else IPv6)
           in sort_key (\<lambda>r. if fst r = want then (0::nat) else 1) infos)"

text \<open>Whether the order is in force, and the state.\<close>

definition install_ip_family :: "string \<Rightarrow> string option \<Rightarrow> net_state \<Rightarrow> bool \<times> net_state" where
  "install_ip_family configured given s =
     (if ns_installed s then (True, s)
      else let fam0 = str_or (py_lower (py_strip (case given of None \<Rightarrow> configured | Some f \<Rightarrow> f))) ''auto'';
               fam = (if fam0 \<in> {''ipv4'', ''ipv6'', ''auto''} then fam0 else ''auto'')
           in if fam = ''auto'' then (False, s\<lparr>ns_preferred := fam\<rparr>) else (True, \<lparr>ns_installed = True, ns_preferred = fam\<rparr>))"

text \<open>What a lookup of the process gives: the replacement only once it is installed.\<close>

definition resolved :: "net_state \<Rightarrow> bool \<Rightarrow> (family \<times> 'a) list \<Rightarrow> (family \<times> 'a) list" where
  "resolved s fixed infos = (if ns_installed s then order_infos (ns_preferred s) fixed infos else infos)"

section \<open>The access log\<close>

definition log_mask :: string where
  "log_mask = ''<masked>''"

definition sensitive_keys :: "string list" where
  "sensitive_keys = [''code'', ''state'', ''nonce'', ''token'', ''id_token'', ''access_token'', ''refresh_token'', ''code_verifier'', ''session'']"

definition masked_path :: "string \<Rightarrow> bool" where
  "masked_path p = (starts_with ''/api/auth/oidc/'' p \<or> starts_with ''/ws/terminal'' p)"

text \<open>A piece of the query: its key, and its value if it has one.\<close>

definition is_sensitive :: "string \<Rightarrow> bool" where
  "is_sensitive key = (py_lower (py_strip key) \<in> set sensitive_keys)"

definition mask_chunk :: "string \<Rightarrow> string" where
  "mask_chunk c =
     (case split_once ''='' c of
        Some (key, _) \<Rightarrow> if is_sensitive key then key @ ''='' @ log_mask else c
      | None \<Rightarrow> c)"

definition mask_query :: "string \<Rightarrow> string" where
  "mask_query p =
     (case split_once ''?'' p of
        None \<Rightarrow> p
      | Some (base, query) \<Rightarrow>
          if \<not> masked_path base then p
          else base @ ''?'' @ py_join ''&'' (List.map mask_chunk (split_on (CHR ''&'') query)))"

section \<open>Laws\<close>

lemma sort_two:
  "sort_key (\<lambda>r. if P r then (0::nat) else 1) xs = filter P xs @ filter (\<lambda>r. \<not> P r) xs"
proof (induction xs)
  case (Cons x xs)
  let ?f = "\<lambda>r. if P r then (0::nat) else 1"
  have zero: "insort_key ?f x (as @ bs) = x # as @ bs" if "P x" for as bs using that by (cases "as @ bs") auto
  have one: "insort_key ?f x (as @ bs) = as @ insort_key ?f x bs" if "\<not> P x" "\<forall>a \<in> set as. P a" for as bs
    using that by (induction as) auto
  have hd: "insort_key ?f x bs = x # bs" if "\<not> P x" "\<forall>b \<in> set bs. \<not> P b" for bs using that by (cases bs) auto
  show ?case using Cons zero one [of "filter P xs"] hd [of "filter (\<lambda>r. \<not> P r) xs"] by (cases "P x") auto
qed simp

lemma split_once_char: "split_once [c] s = (if c \<in> set s then Some (takeWhile (\<lambda>x. x \<noteq> c) s, tl (dropWhile (\<lambda>x. x \<noteq> c) s)) else None)"
  by (induction s) (auto simp: starts_with_def)

lemma split_once_first: "c \<notin> set a \<Longrightarrow> split_once [c] (a @ c # b) = Some (a, b)"
  by (induction a) (auto simp: starts_with_def)

lemma mask_chunk_key:
  "is_sensitive key \<Longrightarrow> CHR ''='' \<notin> set key \<Longrightarrow> mask_chunk (key @ ''='' @ v) = key @ ''='' @ log_mask"
  by (simp add: mask_chunk_def split_once_first)

lemma mask_chunk_twice: "mask_chunk (mask_chunk c) = mask_chunk c"
proof (cases "split_once ''='' c")
  case (Some kv)
  obtain key v where kv: "kv = (key, v)" by (rule prod.exhaust)
  have "CHR ''='' \<notin> set key" using Some kv by (auto simp: split_once_char dest: set_takeWhileD split: if_splits)
  then have "is_sensitive key \<Longrightarrow> mask_chunk (key @ ''='' @ log_mask) = key @ ''='' @ log_mask" by (rule mask_chunk_key [rotated])
  moreover have "mask_chunk c = (if is_sensitive key then key @ ''='' @ log_mask else c)" using Some kv by (simp add: mask_chunk_def)
  ultimately show ?thesis by presburger
qed (simp add: mask_chunk_def)

lemma mask_chunk_keeps: "CHR ''&'' \<notin> set c \<Longrightarrow> CHR ''&'' \<notin> set (mask_chunk c)"
  by (auto simp: mask_chunk_def split_once_char log_mask_def dest: set_takeWhileD split: if_splits)

lemma mask_query_form:
  assumes "CHR ''?'' \<notin> set base" "masked_path base" "cs \<noteq> []" "\<forall>c \<in> set cs. CHR ''&'' \<notin> set c"
  shows "mask_query (base @ ''?'' @ py_join ''&'' cs) = base @ ''?'' @ py_join ''&'' (List.map mask_chunk cs)"
proof -
  have "split_once ''?'' (base @ ''?'' @ py_join ''&'' cs) = Some (base, py_join ''&'' cs)"
    using assms(1) by (simp add: split_once_first)
  then show ?thesis using assms by (simp add: mask_query_def split_on_join)
qed

section \<open>Properties\<close>

text \<open>The reordering of addresses is the stable partition: the preferred family first, both parts in
  the order of the resolver, nothing added or lost.\<close>

theorem addresses_partitioned:
  "order_infos preferred fixed infos =
     (if preferred = ''auto'' \<or> fixed then infos
      else let want = (if preferred = ''ipv4'' then IPv4 else IPv6)
           in filter (\<lambda>r. fst r = want) infos @ filter (\<lambda>r. fst r \<noteq> want) infos)"
proof (cases "length infos < 2")
  case True
  then have "infos = [] \<or> (\<exists>x. infos = [x])" by (cases infos; cases "tl infos") auto
  then show ?thesis by (auto simp: order_infos_def Let_def)
next
  case False
  then show ?thesis by (simp add: order_infos_def Let_def sort_two)
qed

text \<open>C32. On the addresses of the sign-on and of the terminal the logged line holds a fixed mask in the place of
  the value of every sensitive parameter, so it does not depend on that value, while every other part of the
  query is kept as it is; masking a masked line changes nothing. The line of any other route, or of an address
  without a query, is logged as it is.\<close>

theorem log_hides_secrets:
  assumes "CHR ''?'' \<notin> set base" "is_sensitive key" "set key \<inter> set ''=&'' = {}" "CHR ''&'' \<notin> set v"
    and "\<forall>c \<in> set (as @ bs). CHR ''&'' \<notin> set c"
    and "line = mask_query (base @ ''?'' @ py_join ''&'' (as @ [key @ ''='' @ v] @ bs))"
  shows "(masked_path base \<longrightarrow>
        line = base @ ''?'' @ py_join ''&'' (List.map mask_chunk as @ [key @ ''='' @ log_mask] @ List.map mask_chunk bs)
      \<and> mask_query line = line)
    \<and> (\<not> masked_path base \<longrightarrow> line = base @ ''?'' @ py_join ''&'' (as @ [key @ ''='' @ v] @ bs))
    \<and> (\<forall>c. \<not> is_sensitive (takeWhile (\<lambda>x. x \<noteq> CHR ''='') c) \<longrightarrow> mask_chunk c = c)
    \<and> mask_query base = base"
proof -
  let ?cs = "as @ [key @ ''='' @ v] @ bs"
  have eq: "CHR ''='' \<notin> set key" and am: "CHR ''&'' \<notin> set key" using assms(3) by auto
  have ok: "\<forall>c \<in> set ?cs. CHR ''&'' \<notin> set c" using assms(4,5) am by auto
  have chunk: "mask_chunk (key @ ''='' @ v) = key @ ''='' @ log_mask" using assms(2) eq by (rule mask_chunk_key)
  have "line = base @ ''?'' @ py_join ''&'' (List.map mask_chunk as @ [key @ ''='' @ log_mask] @ List.map mask_chunk bs)
      \<and> mask_query line = line" if masked: "masked_path base"
  proof -
    have line: "line = base @ ''?'' @ py_join ''&'' (List.map mask_chunk ?cs)"
      unfolding assms(6) using assms(1) masked ok by (intro mask_query_form) auto
    have "mask_query (base @ ''?'' @ py_join ''&'' (List.map mask_chunk ?cs))
        = base @ ''?'' @ py_join ''&'' (List.map mask_chunk (List.map mask_chunk ?cs))"
      using assms(1) masked ok by (intro mask_query_form) (auto simp: mask_chunk_keeps)
    moreover have "List.map mask_chunk (List.map mask_chunk ?cs) = List.map mask_chunk ?cs" by (simp add: mask_chunk_twice)
    ultimately have "mask_query line = line" by (simp only: line)
    then show ?thesis using line chunk by simp
  qed
  moreover have "line = base @ ''?'' @ py_join ''&'' ?cs" if "\<not> masked_path base"
    unfolding assms(6) mask_query_def using assms(1) that by (simp add: split_once_first)
  moreover have "mask_chunk c = c" if "\<not> is_sensitive (takeWhile (\<lambda>x. x \<noteq> CHR ''='') c)" for c
    using that by (simp add: mask_chunk_def split_once_char)
  moreover have "mask_query base = base" using assms(1) by (simp add: mask_query_def split_once_char)
  ultimately show ?thesis by blast
qed

theorem log_hides_secrets_witness:
  "mask_query ''/api/auth/oidc/callback?code=abc&x=1'' = ''/api/auth/oidc/callback?code=<masked>&x=1''
   \<and> mask_query ''/api/other?code=abc&x=1'' = ''/api/other?code=abc&x=1''"
proof -
  have s: "is_sensitive ''code''" "masked_path ''/api/auth/oidc/callback''" "\<not> masked_path ''/api/other''" "mask_chunk ''x=1'' = ''x=1''"
    by code_simp+
  then show ?thesis
    using log_hides_secrets [of "''/api/auth/oidc/callback''" "''code''" "''abc''" "[]" "[''x=1'']", OF _ s(1) _ _ _ refl]
      log_hides_secrets [of "''/api/other''" "''code''" "''abc''" "[]" "[''x=1'']", OF _ s(1) _ _ _ refl]
    by (simp add: log_mask_def)
qed

text \<open>Another route with a token in its address is logged as it is.\<close>

lemma webhook_token_logged: "mask_query ''/api/webhooks/receive/s3cret'' = ''/api/webhooks/receive/s3cret''"
  by code_simp

end
