(* ===== verification/RegistrySync.thy ===== *)
theory RegistrySync
  imports Registry Dlock Measures "HOL-Library.Option_ord"
begin

text \<open>
  \<^verbatim>\<open>backend/services/registry_service.py\<close> with the Harbor client of
  \<^verbatim>\<open>backend/services/harbor_client.py\<close>: the cache of the image registry in two tables, its
  synchronisation, the queries and the scan reports. The projects of the CI and the answers of the
  registry endpoints are parameters, and so is \<^verbatim>\<open>datetime.fromisoformat\<close> (as the text in UTC
  that the code prints); counts in reports are whole numbers.
\<close>

section \<open>What the registry lists\<close>

record artifact_info =
  ai_tag :: string
  ai_digest :: string
  ai_size :: int
  ai_push :: string
  ai_pull :: string
  ai_status :: string
  ai_severity :: string
  ai_vulns :: "int list"

text \<open>A tag of the Harbor endpoint: its bare name or an object.\<close>

datatype harbor_tag = HName string | HObject artifact_info

definition bare_artifact :: "string \<Rightarrow> string \<Rightarrow> int \<Rightarrow> artifact_info" where
  "bare_artifact t d n = \<lparr>ai_tag = t, ai_digest = d, ai_size = n, ai_push = [], ai_pull = [], ai_status = [], ai_severity = [],
     ai_vulns = [0, 0, 0, 0, 0]\<rparr>"

fun harbor_artifact :: "harbor_tag \<Rightarrow> artifact_info" where
  "harbor_artifact (HName t) = bare_artifact t [] 0"
| "harbor_artifact (HObject a) = a"

definition harbor_artifacts :: "harbor_tag tag_answer \<Rightarrow> registry_error + artifact_info list" where
  "harbor_artifacts a =
     (case provider_get a of
        Inl e \<Rightarrow> Inl e
      | Inr (TList ts) \<Rightarrow> Inr (filter (\<lambda>x. ai_tag x \<noteq> []) (List.map harbor_artifact ts))
      | Inr _ \<Rightarrow> Inr [])"

record registry_env =
  re_hints :: "string \<times> string"
  re_projects :: "(string \<times> string \<times> string) list option"
  re_harbor :: "string \<Rightarrow> harbor_tag tag_answer"
  re_tags :: "string \<Rightarrow> nat \<Rightarrow> tag_object tag_answer"
  re_broken :: "string \<Rightarrow> bool"
  re_iso :: "string \<Rightarrow> string option"
  re_now :: string

definition provider_artifacts :: "registry_env \<Rightarrow> string \<Rightarrow> registry_error + artifact_info list" where
  "provider_artifacts e repo =
     (if get_registry_provider (re_hints e) = ''registry''
      then map_sum id (List.map (\<lambda>t. bare_artifact (to_name t) (to_digest t) (to_size t))) (list_artifacts (re_tags e repo))
      else harbor_artifacts (re_harbor e repo))"

section \<open>The tables\<close>

record repository =
  rp_id :: row_id
  rp_project :: string
  rp_name :: string

record artifact =
  at_id :: row_id
  at_repo :: row_id
  at_tag :: string
  at_digest :: string
  at_size :: int
  at_push :: "string option"
  at_pull :: "string option"
  at_status :: string
  at_severity :: string
  at_vulns :: "int list"
  at_sync :: string

record registry_db =
  rg_repos :: "repository table"
  rg_arts :: "artifact table"

text \<open>An empty or blank time is NULL; what cannot be parsed is cut down textually.\<close>

definition to_mysql_dt :: "(string \<Rightarrow> string option) \<Rightarrow> string \<Rightarrow> string option" where
  "to_mysql_dt utc s =
     (if s = [] then None
      else case utc (concat (List.map (\<lambda>c. if c = CHR ''Z'' then ''+00:00'' else [c]) s)) of
             Some d \<Rightarrow> Some d
           | None \<Rightarrow>
               let t = takeWhile (\<lambda>c. c \<noteq> CHR ''.'') (filter (\<lambda>c. c \<noteq> CHR ''Z'') (replace_char (CHR ''T'') (CHR '' '') s))
               in if py_strip t = [] then None else Some t)"

definition mapped_repo :: "string \<times> string \<times> string \<Rightarrow> string" where
  "mapped_repo p = py_strip (str_or (fst (snd p)) (snd (snd p)))"

definition get_ci_repos :: "registry_env \<Rightarrow> (string \<times> string) list option" where
  "get_ci_repos e =
     map_option (\<lambda>ps. List.map (\<lambda>p. (fst p, mapped_repo p)) (filter (\<lambda>p. mapped_repo p \<noteq> []) ps)) (re_projects e)"

section \<open>Synchronisation of a repository\<close>

definition repo_record :: "string \<Rightarrow> string \<Rightarrow> repository table \<Rightarrow> repository table \<times> row_id" where
  "repo_record project repo t =
     (case t_first (\<lambda>r. rp_project r = project \<and> rp_name r = repo) t of
        Some r \<Rightarrow> (t, rp_id r)
      | None \<Rightarrow> t_insert (\<lambda>i r. r\<lparr>rp_id := i\<rparr>) \<lparr>rp_id = 0, rp_project = project, rp_name = repo\<rparr> t)"

definition refreshed :: "registry_env \<Rightarrow> artifact_info \<Rightarrow> artifact \<Rightarrow> artifact" where
  "refreshed e a r = r\<lparr>at_size := ai_size a, at_push := to_mysql_dt (re_iso e) (ai_push a), at_pull := to_mysql_dt (re_iso e) (ai_pull a),
     at_status := ai_status a, at_severity := ai_severity a, at_vulns := ai_vulns a, at_sync := re_now e\<rparr>"

definition artifact_row :: "registry_env \<Rightarrow> row_id \<Rightarrow> artifact_info \<Rightarrow> artifact" where
  "artifact_row e rid a = refreshed e a \<lparr>at_id = 0, at_repo = rid, at_tag = ai_tag a, at_digest = ai_digest a, at_size = 0,
     at_push = None, at_pull = None, at_status = [], at_severity = [], at_vulns = [], at_sync = []\<rparr>"

definition upsert_artifact :: "registry_env \<Rightarrow> row_id \<Rightarrow> artifact_info \<Rightarrow> artifact table \<Rightarrow> artifact table" where
  "upsert_artifact e rid a t =
     (case t_first (\<lambda>r. at_repo r = rid \<and> at_tag r = ai_tag a \<and> at_digest r = ai_digest a) t of
        Some r \<Rightarrow> fst (t_update (\<lambda>x. at_id x = at_id r) (refreshed e a) t)
      | None \<Rightarrow> fst (t_insert (\<lambda>i x. x\<lparr>at_id := i\<rparr>) (artifact_row e rid a) t))"

definition store_artifacts :: "registry_env \<Rightarrow> row_id \<Rightarrow> artifact_info list \<Rightarrow> artifact table \<Rightarrow> artifact table" where
  "store_artifacts e rid found t =
     (let t1 = fold (upsert_artifact e rid) found t
      in if found = [] then t1
         else fst (t_delete (\<lambda>r. at_repo r = rid \<and> at_tag r \<notin> set (List.map ai_tag found)) t1))"

definition sync_repo :: "registry_env \<Rightarrow> string \<Rightarrow> string \<Rightarrow> registry_db \<Rightarrow> (registry_error + int) \<times> registry_db" where
  "sync_repo e project repo db =
     (if re_broken e repo then (Inr 0, db)
      else case provider_artifacts e repo of
             Inl x \<Rightarrow> (Inl x, db)
           | Inr raw \<Rightarrow>
               (case repo_record project repo (rg_repos db) of
                  (repos, rid) \<Rightarrow>
                    let found = filter (\<lambda>a. ai_tag a \<noteq> []) raw
                    in (Inr (int (length found)),
                        \<lparr>rg_repos = repos, rg_arts = store_artifacts e rid found (rg_arts db)\<rparr>)))"

section \<open>Synchronisation of all repositories\<close>

datatype sync_reply = Synced int | SyncFailed string

definition sync_error :: "registry_error \<Rightarrow> sync_reply" where
  "sync_error x = SyncFailed (case x of Unavailable \<Rightarrow> ''errors.harbor_unavailable''
     | PermissionDenied \<Rightarrow> ''errors.registry_permission_denied'')"

definition ci_unavailable :: sync_reply where
  "ci_unavailable = SyncFailed ''errors.ci_service_unavailable''"

text \<open>The repositories one after the other, up to the first that cannot be listed.\<close>

fun sync_each :: "registry_env \<Rightarrow> (string \<times> string) list \<Rightarrow> int \<Rightarrow> registry_db \<Rightarrow> sync_reply \<times> registry_db" where
  "sync_each e [] n0 db = (Synced n0, db)"
| "sync_each e ((project, repo) # rs) n0 db =
     (case sync_repo e project repo db of
        (Inl x, db1) \<Rightarrow> (sync_error x, db1)
      | (Inr n, db1) \<Rightarrow> sync_each e rs (n0 + n) db1)"

definition drop_repo :: "row_id \<Rightarrow> registry_db \<Rightarrow> registry_db" where
  "drop_repo i db =
     \<lparr>rg_repos = fst (t_delete (\<lambda>r. rp_id r = i) (rg_repos db)), rg_arts = fst (t_delete (\<lambda>a. at_repo a = i) (rg_arts db))\<rparr>"

definition drop_unmapped :: "(string \<times> string) list \<Rightarrow> registry_db \<Rightarrow> registry_db" where
  "drop_unmapped mapped db =
     fold (\<lambda>r d. if (rp_project r, rp_name r) \<in> set mapped then d else drop_repo (rp_id r) d) (rows (rg_repos db)) db"

definition no_artifacts :: "registry_db \<Rightarrow> repository \<Rightarrow> bool" where
  "no_artifacts db r = (\<not> list_ex (\<lambda>a. at_repo a = rp_id r) (rows (rg_arts db)))"

definition drop_empty :: "(repository \<Rightarrow> bool) \<Rightarrow> registry_db \<Rightarrow> registry_db" where
  "drop_empty among db = db\<lparr>rg_repos := fst (t_delete (\<lambda>r. no_artifacts db r \<and> among r) (rg_repos db))\<rparr>"

definition sync_all :: "registry_env \<Rightarrow> registry_db \<Rightarrow> sync_reply \<times> registry_db" where
  "sync_all e db =
     (case get_ci_repos e of
        None \<Rightarrow> (ci_unavailable, db)
      | Some rs \<Rightarrow> sync_each e rs 0 (drop_empty (\<lambda>_. True) (drop_unmapped rs db)))"

definition asked_for :: "string \<Rightarrow> (string \<times> string) list \<Rightarrow> (string \<times> string) list" where
  "asked_for project rs = filter (\<lambda>(p, r). p = project \<or> r = project \<or> starts_with (project @ ''/'') r) rs"

definition sync_for_project :: "registry_env \<Rightarrow> string \<Rightarrow> registry_db \<Rightarrow> sync_reply \<times> registry_db" where
  "sync_for_project e project db =
     (case get_ci_repos e of
        None \<Rightarrow> (ci_unavailable, db)
      | Some rs \<Rightarrow>
          let matched = asked_for project rs
          in if matched = [] then (SyncFailed [], db)
             else sync_each e matched 0
               (drop_empty (\<lambda>r. rp_project r = project \<or> rp_name r \<in> snd ` set matched) db))"

section \<open>The background thread\<close>

definition get_sync_interval :: "int \<Rightarrow> config \<Rightarrow> int" where
  "get_sync_interval fallback cfg =
     (case Option.bind (map_of cfg ''registry_sync_interval'') py_int of Some n \<Rightarrow> n | None \<Rightarrow> fallback)"

text \<open>One turn: only the holder of the distributed lock synchronises.\<close>

definition sync_turn :: "row_counting \<Rightarrow> string \<Rightarrow> epoch \<Rightarrow> int \<Rightarrow> registry_env \<Rightarrow> config \<times> registry_db \<Rightarrow> sync_reply option \<times> config \<times> registry_db" where
  "sync_turn drv inst now interval e s =
     (case acquire drv inst now ''registry_sync'' (max (interval * 180) 120) (fst s) of
        (False, cfg) \<Rightarrow> (None, cfg, snd s)
      | (True, cfg) \<Rightarrow> (case sync_all e (snd s) of (r, db) \<Rightarrow> (Some r, cfg, db)))"

section \<open>Queries\<close>

definition newest :: "'a::linorder list \<Rightarrow> 'a option" where
  "newest xs = (if xs = [] then None else Some (fold max (tl xs) (hd xs)))"

record repository_view =
  vw_repo :: repository
  vw_tags :: nat
  vw_latest :: string

definition artifacts_of :: "row_id \<Rightarrow> registry_db \<Rightarrow> artifact list" where
  "artifacts_of rid db = t_where (\<lambda>a. at_repo a = rid) (rg_arts db)"

definition repository_entry :: "registry_db \<Rightarrow> repository \<Rightarrow> repository_view" where
  "repository_entry db r =
     (let arts = artifacts_of (rp_id r) db
      in \<lparr>vw_repo = r, vw_tags = length arts,
          vw_latest = (case newest (List.map_filter at_push arts) of Some t \<Rightarrow> t | None \<Rightarrow> [])\<rparr>)"

definition get_repositories :: "registry_env \<Rightarrow> registry_db \<Rightarrow> repository_view list \<times> string" where
  "get_repositories e db =
     (case get_ci_repos e of
        None \<Rightarrow> ([], [])
      | Some mapped \<Rightarrow>
          (List.map (repository_entry db)
             (filter (\<lambda>r. (rp_project r, rp_name r) \<in> set mapped) (sort_key rp_project (sort_key rp_name (rows (rg_repos db))))),
           case newest (List.map at_sync (rows (rg_arts db))) of Some t \<Rightarrow> t | None \<Rightarrow> []))"

text \<open>Newest first, the rows without a time last; the size is in hundredths of a MiB.\<close>

definition get_artifacts :: "row_id \<Rightarrow> int \<Rightarrow> int \<Rightarrow> registry_db \<Rightarrow> artifact page result" where
  "get_artifacts rid page page_size db =
     (let arts = artifacts_of rid db;
          listed = (if t_get rp_id rid (rg_repos db) = None then [] else rev (sort_key at_push (rev arts)))
      in items (page_slice page page_size listed) (int (length arts)) page page_size)"

definition size_mb :: "int \<Rightarrow> int" where
  "size_mb bytes = round_div (bytes * 100) 1048576"

section \<open>Scan reports\<close>

definition as_count :: "json \<Rightarrow> int option" where
  "as_count v = (case v of JNum (Fin n) \<Rightarrow> Some n | JBool b \<Rightarrow> Some (if b then 1 else 0) | _ \<Rightarrow> None)"

definition first_of :: "(string \<times> json) list \<Rightarrow> string list \<Rightarrow> json \<Rightarrow> json" where
  "first_of m ks v = (case List.find (\<lambda>k. map_of m k \<noteq> None) ks of Some k \<Rightarrow> jget m k | None \<Rightarrow> v)"

record summary =
  su_counts :: "int list"
  su_total :: int
  su_fixable :: json

text \<open>Counts under either spelling, or of the inner summary; \<open>None\<close> raises.\<close>

definition norm_summary :: "json \<Rightarrow> summary option" where
  "norm_summary v =
     (case v of
        JObj m \<Rightarrow>
          (case (if jtruthy (jget m ''summary'') then jget m ''summary'' else JObj []) of
             JObj inner \<Rightarrow>
               Option.bind (those (List.map (\<lambda>(low, cap). as_count (first_of m [low, cap] (first_of inner [cap] (JNum (Fin 0)))))
                   [(''critical'', ''Critical''), (''high'', ''High''), (''medium'', ''Medium''), (''low'', ''Low'')])) (\<lambda>cs.
               map_option (\<lambda>n. \<lparr>su_counts = cs, su_total = n, su_fixable = first_of m [''fixable''] (JNum (Fin 0))\<rparr>)
                 (as_count (first_of m [''total''] (JNum (Fin (sum_list cs))))))
           | _ \<Rightarrow> None)
      | _ \<Rightarrow> None)"

datatype report_answer = RpError nat | RpDown | RpJson json

fun harbor_get_report :: "report_answer \<Rightarrow> registry_error + json" where
  "harbor_get_report (RpError c) =
     (if c = 401 \<or> c = 403 then Inl PermissionDenied else if c = 404 then Inr (JList []) else Inl Unavailable)"
| "harbor_get_report RpDown = Inl Unavailable"
| "harbor_get_report (RpJson v) = Inr v"

text \<open>Harbor's \<^verbatim>\<open>get_scan_report\<close>: the errors of the endpoint are caught, they are no report.\<close>

definition provider_report :: "registry_env \<Rightarrow> report_answer \<Rightarrow> registry_error + (string \<times> json) list option" where
  "provider_report e a =
     (if get_registry_provider (re_hints e) = ''registry'' then Inr None
      else case harbor_get_report a of
             Inr (JObj m) \<Rightarrow> Inr (if m = [] then None else Some m)
           | _ \<Rightarrow> Inr None)"

datatype report =
    NoReport string
  | Live "(string \<times> json) list" summary string string
  | Stored summary string string string bool

definition stored_summary :: "artifact \<Rightarrow> summary" where
  "stored_summary a = \<lparr>su_counts = take 4 (at_vulns a), su_total = sum_list (take 4 (at_vulns a)), su_fixable = JNum (Fin (at_vulns a ! 4))\<rparr>"

definition joined :: "row_id \<Rightarrow> string \<Rightarrow> registry_db \<Rightarrow> (artifact \<times> repository) option" where
  "joined rid tag db =
     Option.bind (t_get rp_id rid (rg_repos db)) (\<lambda>r.
       map_option (\<lambda>a. (a, r)) (t_first (\<lambda>a. at_repo a = rid \<and> at_tag a = tag) (rg_arts db)))"

definition str_of :: "json \<Rightarrow> string" where
  "str_of v = (case v of JStr s \<Rightarrow> s | _ \<Rightarrow> [])"

text \<open>The answer of the registry where it has data, else what the table holds.\<close>

definition live_report :: "artifact \<Rightarrow> (string \<times> json) list \<Rightarrow> report option" where
  "live_report a m =
     (let given = (if jtruthy (jget m ''summary'') then jget m ''summary'' else JObj [])
      in case (if given = JObj [] then None else norm_summary given) of
           None \<Rightarrow> None
         | Some s \<Rightarrow>
             if jtruthy (jget m ''vulnerabilities'') \<or> 0 < su_total s
             then Some (Live m (if 0 < su_total s then s else stored_summary a)
               (str_or (at_status a) (str_of (jget m ''scan_status''))) (str_or (at_severity a) (str_of (jget m ''severity''))))
             else None)"

definition get_scan_report :: "registry_env \<Rightarrow> (string \<Rightarrow> string \<Rightarrow> report_answer) \<Rightarrow> row_id \<Rightarrow> string \<Rightarrow> registry_db \<Rightarrow> report" where
  "get_scan_report e ask rid tag db =
     (if \<not> cap_scan (registry_capabilities (re_hints e)) then NoReport ''errors.scan_unsupported''
      else case joined rid tag db of
             None \<Rightarrow> NoReport []
           | Some (a, r) \<Rightarrow>
               let stored = Stored (stored_summary a) (at_status a) (at_severity a) (at_digest a)
               in (case provider_report e (ask (rp_name r) tag) of
                     Inl x \<Rightarrow> stored (x = Unavailable)
                   | Inr answer \<Rightarrow> (case Option.bind answer (live_report a) of Some l \<Rightarrow> l | None \<Rightarrow> stored False)))"

text \<open>The order to scan again: whether it was accepted, or the error key.\<close>

definition trigger_scan :: "registry_env \<Rightarrow> (string \<Rightarrow> string \<Rightarrow> report_answer) \<Rightarrow> row_id \<Rightarrow> string \<Rightarrow> registry_db \<Rightarrow> string + unit" where
  "trigger_scan e ask rid tag db =
     (if \<not> cap_scan (registry_capabilities (re_hints e)) then Inl ''errors.scan_unsupported''
      else case joined rid tag db of
             None \<Rightarrow> Inl ''errors.scan_trigger_failed''
           | Some (a, r) \<Rightarrow> (case ask (rp_name r) tag of RpJson _ \<Rightarrow> Inr () | _ \<Rightarrow> Inl ''errors.scan_trigger_failed''))"

section \<open>Laws of the tables\<close>

type_synonym artifact_key = "row_id \<times> string \<times> string"

definition key_of :: "artifact \<Rightarrow> artifact_key" where
  "key_of a = (at_repo a, at_tag a, at_digest a)"

definition stored_keys :: "artifact table \<Rightarrow> artifact_key set" where
  "stored_keys t = key_of ` set (rows t)"

lemma refreshed_same [simp]:
  "key_of (refreshed e a r) = key_of r" "at_id (refreshed e a r) = at_id r" "at_repo (refreshed e a r) = at_repo r"
  "at_tag (refreshed e a r) = at_tag r" "key_of (x\<lparr>at_id := i\<rparr>) = key_of x"
  "key_of (artifact_row e rid a) = (rid, ai_tag a, ai_digest a)"
  by (simp_all add: refreshed_def key_of_def artifact_row_def)

interpretation arts: row_key at_id "\<lambda>i x. x\<lparr>at_id := i\<rparr>"
  by unfold_locales simp

interpretation repos: row_key rp_id "\<lambda>i x. x\<lparr>rp_id := i\<rparr>"
  by unfold_locales simp

lemma find_key: "t_first (\<lambda>r. at_repo r = rid \<and> at_tag r = tag \<and> at_digest r = dg) t = Some r \<Longrightarrow>
    r \<in> set (rows t) \<and> key_of r = (rid, tag, dg)"
  using find_SomeD [of "\<lambda>r. at_repo r = rid \<and> at_tag r = tag \<and> at_digest r = dg" "rows t" r] by (simp add: t_first_def key_of_def)

lemma update_keys: "key_of ` set (List.map (\<lambda>x. if P x then refreshed e a x else x) xs) = key_of ` set xs"
  by (induction xs) auto

lemma upsert_keys: "stored_keys (upsert_artifact e rid a t) = insert (rid, ai_tag a, ai_digest a) (stored_keys t)"
proof (cases "t_first (\<lambda>r. at_repo r = rid \<and> at_tag r = ai_tag a \<and> at_digest r = ai_digest a) t")
  case (Some r)
  have "(rid, ai_tag a, ai_digest a) \<in> stored_keys t" using find_key [OF Some] by (metis imageI stored_keys_def)
  then have "insert (rid, ai_tag a, ai_digest a) (stored_keys t) = stored_keys t" by blast
  then show ?thesis using Some by (simp only: upsert_artifact_def stored_keys_def option.case rows_update update_keys)
next
  case None
  then show ?thesis by (simp add: upsert_artifact_def stored_keys_def)
qed

lemma upsert_wf: "wf_table at_id t \<Longrightarrow> wf_table at_id (upsert_artifact e rid a t)"
  by (auto simp: upsert_artifact_def intro: arts.wf_update arts.wf_insert split: option.splits)

lemma upsert_repo: "filter (\<lambda>r. at_repo r = other) (rows (upsert_artifact e rid a t)) = filter (\<lambda>r. at_repo r = other) (rows t)"
  if "other \<noteq> rid" "wf_table at_id t" for other
proof (cases "t_first (\<lambda>r. at_repo r = rid \<and> at_tag r = ai_tag a \<and> at_digest r = ai_digest a) t")
  case (Some r)
  have r: "r \<in> set (rows t)" "at_repo r = rid" using find_key [OF Some] by (auto simp: key_of_def)
  have "at_repo x = rid" if "x \<in> set (rows t)" "at_id x = at_id r" for x
    using arts.get_eq_iff [OF \<open>wf_table at_id t\<close>] that r by (metis option.inject)
  then have "filter (\<lambda>r. at_repo r = other) (List.map (\<lambda>x. if at_id x = at_id r then refreshed e a x else x) xs) =
      filter (\<lambda>r. at_repo r = other) xs" if "set xs \<subseteq> set (rows t)" for xs
    using that \<open>other \<noteq> rid\<close> by (induction xs) auto
  then show ?thesis using Some by (simp add: upsert_artifact_def)
next
  case None
  then show ?thesis using that(1) by (simp add: upsert_artifact_def artifact_row_def refreshed_def)
qed

text \<open>The first row of which the key satisfies a condition stays the first and stays as it is,
  unless its own key is stored.\<close>

lemma upsert_first:
  assumes "t_first (\<lambda>r. P (key_of r)) t = Some x" "key_of x \<noteq> (rid, ai_tag a, ai_digest a)" "wf_table at_id t"
  shows "t_first (\<lambda>r. P (key_of r)) (upsert_artifact e rid a t) = Some x"
proof (cases "t_first (\<lambda>r. at_repo r = rid \<and> at_tag r = ai_tag a \<and> at_digest r = ai_digest a) t")
  case (Some r)
  have r: "r \<in> set (rows t)" "key_of r = (rid, ai_tag a, ai_digest a)" using find_key [OF Some] by auto
  have x: "x \<in> set (rows t)" using assms(1) find_SomeD [of _ "rows t" x] by (auto simp: t_first_def)
  have "at_id x \<noteq> at_id r" using arts.get_eq_iff [OF assms(3)] x r assms(2) by (metis option.inject)
  moreover have "List.find (\<lambda>r. P (key_of r)) (List.map (\<lambda>y. if at_id y = at_id r then refreshed e a y else y) xs) =
      map_option (\<lambda>y. if at_id y = at_id r then refreshed e a y else y) (List.find (\<lambda>r. P (key_of r)) xs)" for xs
    by (induction xs) auto
  ultimately show ?thesis using Some assms(1) by (simp add: upsert_artifact_def t_first_def)
next
  case None
  then show ?thesis using assms(1) by (simp add: upsert_artifact_def t_first_def find_append)
qed

lemma store_wf: "wf_table at_id t \<Longrightarrow> wf_table at_id (fold (upsert_artifact e rid) found t)"
  by (induction found arbitrary: t) (simp_all add: upsert_wf)

lemma fold_upsert_keys:
  "stored_keys (fold (upsert_artifact e rid) found t) = stored_keys t \<union> (\<lambda>a. (rid, ai_tag a, ai_digest a)) ` set found"
  by (induction found arbitrary: t) (auto simp: upsert_keys)

lemma fold_upsert_repo:
  "other \<noteq> rid \<Longrightarrow> wf_table at_id t \<Longrightarrow>
   filter (\<lambda>r. at_repo r = other) (rows (fold (upsert_artifact e rid) found t)) = filter (\<lambda>r. at_repo r = other) (rows t)"
  by (induction found arbitrary: t) (simp_all add: upsert_repo upsert_wf)

lemma fold_upsert_first:
  "t_first (\<lambda>r. P (key_of r)) t = Some x \<Longrightarrow> key_of x \<notin> (\<lambda>a. (rid, ai_tag a, ai_digest a)) ` set found \<Longrightarrow> wf_table at_id t \<Longrightarrow>
   t_first (\<lambda>r. P (key_of r)) (fold (upsert_artifact e rid) found t) = Some x"
  by (induction found arbitrary: t) (simp_all add: upsert_first upsert_wf)

lemma store_keys:
  "stored_keys (store_artifacts e rid found t) =
     {k \<in> stored_keys t \<union> (\<lambda>a. (rid, ai_tag a, ai_digest a)) ` set found.
        found \<noteq> [] \<longrightarrow> fst k = rid \<longrightarrow> fst (snd k) \<in> ai_tag ` set found}"
proof -
  have "stored_keys (fst (t_delete (\<lambda>r. at_repo r = rid \<and> at_tag r \<notin> T) u)) = {k \<in> stored_keys u. fst k = rid \<longrightarrow> fst (snd k) \<in> T}" for T u
    by (auto simp: stored_keys_def key_of_def)
  then show ?thesis by (auto simp: store_artifacts_def Let_def fold_upsert_keys)
qed

lemma store_repo:
  assumes "other \<noteq> rid" "wf_table at_id t"
  shows "filter (\<lambda>r. at_repo r = other) (rows (store_artifacts e rid found t)) = filter (\<lambda>r. at_repo r = other) (rows t)"
proof -
  have del: "filter (\<lambda>r. at_repo r = other) (rows (fst (t_delete (\<lambda>r. at_repo r = rid \<and> Q r) u))) = filter (\<lambda>r. at_repo r = other) (rows u)" for Q u
    using assms(1) by (auto intro: filter_cong)
  show ?thesis
    by (cases "found = []") (simp_all only: store_artifacts_def Let_def simp_thms if_True if_False del fold_upsert_repo [OF assms])
qed

text \<open>The row of a key. What a listed artifact brings is in its row, with the time of the synchronisation,
  and a row that was there keeps its id.\<close>

definition row_at :: "artifact_key \<Rightarrow> artifact table \<Rightarrow> artifact option" where
  "row_at k t = List.find (\<lambda>r. key_of r = k) (rows t)"

definition carries :: "registry_env \<Rightarrow> artifact_info \<Rightarrow> artifact \<Rightarrow> bool" where
  "carries e a r \<longleftrightarrow> at_size r = ai_size a \<and> at_push r = to_mysql_dt (re_iso e) (ai_push a)
     \<and> at_pull r = to_mysql_dt (re_iso e) (ai_pull a) \<and> at_status r = ai_status a \<and> at_severity r = ai_severity a
     \<and> at_vulns r = ai_vulns a \<and> at_sync r = re_now e"

definition stored_from :: "registry_env \<Rightarrow> artifact_info \<Rightarrow> artifact option \<Rightarrow> artifact option \<Rightarrow> bool" where
  "stored_from e a before after \<longleftrightarrow>
     (\<exists>r. after = Some r \<and> carries e a r \<and> (\<forall>old. before = Some old \<longrightarrow> at_id r = at_id old))"

text \<open>The artifact listed under a key: the last one, when the registry lists the key twice.\<close>

definition listed_at :: "row_id \<Rightarrow> artifact_info list \<Rightarrow> artifact_key \<Rightarrow> artifact_info option" where
  "listed_at rid found k = List.find (\<lambda>a. (rid, ai_tag a, ai_digest a) = k) (rev found)"

lemma first_row_at: "t_first (\<lambda>r. at_repo r = rid \<and> at_tag r = tag \<and> at_digest r = dg) t = row_at (rid, tag, dg) t"
  by (simp add: t_first_def row_at_def key_of_def)

lemma row_atD: "row_at k t = Some r \<Longrightarrow> r \<in> set (rows t) \<and> key_of r = k"
  using find_SomeD by (fastforce simp: row_at_def)

lemma find_refreshed:
  "List.find (\<lambda>r. key_of r = k) (List.map (\<lambda>x. if P x then refreshed e a x else x) xs) =
   map_option (\<lambda>x. if P x then refreshed e a x else x) (List.find (\<lambda>r. key_of r = k) xs)"
  by (induction xs) auto

lemma carries_refreshed [simp]: "carries e a (refreshed e a r)"
  by (simp add: carries_def refreshed_def)

lemma carries_id [simp]: "carries e a (r\<lparr>at_id := i\<rparr>) = carries e a r"
  by (simp add: carries_def)

lemma upsert_row_at:
  assumes "wf_table at_id t"
  shows "k \<noteq> (rid, ai_tag a, ai_digest a) \<Longrightarrow> row_at k (upsert_artifact e rid a t) = row_at k t"
    and "stored_from e a (row_at (rid, ai_tag a, ai_digest a) t) (row_at (rid, ai_tag a, ai_digest a) (upsert_artifact e rid a t))"
proof -
  let ?key = "(rid, ai_tag a, ai_digest a)"
  have both: "(k \<noteq> ?key \<longrightarrow> row_at k (upsert_artifact e rid a t) = row_at k t)
    \<and> stored_from e a (row_at ?key t) (row_at ?key (upsert_artifact e rid a t))"
  proof (cases "row_at ?key t")
    case (Some r)
    have up: "row_at j (upsert_artifact e rid a t) = map_option (\<lambda>x. if at_id x = at_id r then refreshed e a x else x) (row_at j t)" for j
      using Some by (simp add: upsert_artifact_def first_row_at) (simp add: row_at_def find_refreshed)
    have "at_id x \<noteq> at_id r" if "row_at k t = Some x" "k \<noteq> ?key" for x
      using arts.key_inj [OF assms] row_atD [OF Some] row_atD [OF that(1)] that(2) by metis
    then show ?thesis using Some by (cases "row_at k t") (auto simp: up stored_from_def)
  next
    case None
    have "key_of (artifact_row e rid a\<lparr>at_id := next_id t\<rparr>) = ?key" by (simp add: artifact_row_def key_of_def refreshed_def)
    moreover have "rows (upsert_artifact e rid a t) = rows t @ [artifact_row e rid a\<lparr>at_id := next_id t\<rparr>]"
      using None by (simp add: upsert_artifact_def first_row_at)
    ultimately show ?thesis using None
      by (auto simp: row_at_def find_append stored_from_def artifact_row_def split: option.splits)
  qed
  then show "k \<noteq> ?key \<Longrightarrow> row_at k (upsert_artifact e rid a t) = row_at k t"
    and "stored_from e a (row_at ?key t) (row_at ?key (upsert_artifact e rid a t))" by simp_all
qed

lemma stored_again: "stored_from e b x y \<Longrightarrow> stored_from e a y z \<Longrightarrow> stored_from e a x z"
  by (auto simp: stored_from_def)

lemma fold_row_at:
  assumes "wf_table at_id t"
  shows "case listed_at rid found k of
      Some a \<Rightarrow> stored_from e a (row_at k t) (row_at k (fold (upsert_artifact e rid) found t))
    | None \<Rightarrow> row_at k (fold (upsert_artifact e rid) found t) = row_at k t"
proof (induction found rule: rev_induct)
  case (snoc a found)
  let ?t = "fold (upsert_artifact e rid) found t"
  have wf: "wf_table at_id ?t" using store_wf [OF assms] .
  show ?case
  proof (cases "(rid, ai_tag a, ai_digest a) = k")
    case True
    then have "stored_from e a (row_at k ?t) (row_at k (fold (upsert_artifact e rid) (found @ [a]) t))"
      using upsert_row_at(2) [OF wf] by auto
    then have "stored_from e a (row_at k t) (row_at k (fold (upsert_artifact e rid) (found @ [a]) t))"
      using snoc.IH by (auto split: option.splits intro: stored_again)
    then show ?thesis using True by (simp add: listed_at_def)
  next
    case False
    then show ?thesis using snoc.IH upsert_row_at(1) [OF wf, of k rid a e] by (simp add: listed_at_def split: option.splits)
  qed
qed (simp add: listed_at_def)

lemma find_filter_key:
  "List.find (\<lambda>r. key_of r = k) (filter (\<lambda>r. at_repo r = rid \<longrightarrow> at_tag r \<in> T) xs) =
   (if fst k = rid \<and> fst (snd k) \<notin> T then None else List.find (\<lambda>r. key_of r = k) xs)"
  by (induction xs) (auto simp: key_of_def)

lemma listed_tag: "listed_at rid found k = Some a \<Longrightarrow> fst (snd k) \<in> ai_tag ` set found \<and> found \<noteq> []"
  using find_SomeD by (fastforce simp: listed_at_def)

text \<open>What becomes of every key: it is stored when listed, dropped when its tag is no longer listed, and else kept.\<close>

definition mirrored :: "registry_env \<Rightarrow> row_id \<Rightarrow> artifact_info list \<Rightarrow> artifact table \<Rightarrow> artifact table \<Rightarrow> bool" where
  "mirrored e rid found t t' \<longleftrightarrow> (\<forall>k. case listed_at rid found k of
       Some a \<Rightarrow> stored_from e a (row_at k t) (row_at k t')
     | None \<Rightarrow> row_at k t' = (if found \<noteq> [] \<and> fst k = rid \<and> fst (snd k) \<notin> ai_tag ` set found then None else row_at k t))"

lemma store_mirrored:
  assumes "wf_table at_id t"
  shows "mirrored e rid found t (store_artifacts e rid found t)"
  unfolding mirrored_def
proof
  fix k
  have "row_at k (store_artifacts e rid found t) =
      (if found \<noteq> [] \<and> fst k = rid \<and> fst (snd k) \<notin> ai_tag ` set found then None else row_at k (fold (upsert_artifact e rid) found t))"
    by (simp add: store_artifacts_def Let_def) (simp add: row_at_def find_filter_key)
  then show "case listed_at rid found k of
       Some a \<Rightarrow> stored_from e a (row_at k t) (row_at k (store_artifacts e rid found t))
     | None \<Rightarrow> row_at k (store_artifacts e rid found t) =
         (if found \<noteq> [] \<and> fst k = rid \<and> fst (snd k) \<notin> ai_tag ` set found then None else row_at k t)"
    using fold_row_at [OF assms, where rid = rid and found = found and k = k and e = e] listed_tag [of rid found k] by (auto split: option.splits)
qed

text \<open>No key gets a second row.\<close>

lemma upsert_distinct:
  assumes "distinct (List.map key_of (rows t))"
  shows "distinct (List.map key_of (rows (upsert_artifact e rid a t)))"
proof (cases "row_at (rid, ai_tag a, ai_digest a) t")
  case (Some r)
  have "List.map key_of (List.map (\<lambda>x. if P x then refreshed e a x else x) xs) = List.map key_of xs" for P xs by simp
  then show ?thesis using assms Some by (simp only: upsert_artifact_def first_row_at option.case rows_update)
next
  case None
  then have "(rid, ai_tag a, ai_digest a) \<notin> key_of ` set (rows t)" by (auto simp: row_at_def find_None_iff)
  then show ?thesis using assms None
    by (auto simp: upsert_artifact_def first_row_at artifact_row_def) (auto simp: key_of_def refreshed_def)
qed

lemma store_distinct:
  assumes "distinct (List.map key_of (rows t))"
  shows "distinct (List.map key_of (rows (store_artifacts e rid found t)))"
proof -
  have "distinct (List.map key_of (rows (fold (upsert_artifact e rid) found t)))"
    using assms by (induction found arbitrary: t) (simp_all add: upsert_distinct)
  then show ?thesis using assms by (simp add: store_artifacts_def Let_def distinct_map_filter)
qed

text \<open>The record of a repository is the one that was there, or a new one at the end.\<close>

lemma repo_record_first:
  "case t_first (\<lambda>r. rp_project r = project \<and> rp_name r = repo) t of
     Some r \<Rightarrow> repo_record project repo t = (t, rp_id r)
   | None \<Rightarrow> rows (fst (repo_record project repo t)) = rows t @ [\<lparr>rp_id = snd (repo_record project repo t), rp_project = project, rp_name = repo\<rparr>]"
  by (auto simp: repo_record_def split: option.splits)

text \<open>What a synchronisation stores.\<close>

lemma sync_repo_of:
  assumes "sync_repo e project repo db = (Inr n, db')" "\<not> re_broken e repo"
  shows "\<exists>raw. provider_artifacts e repo = Inr raw
    \<and> rg_arts db' = store_artifacts e (snd (repo_record project repo (rg_repos db))) (filter (\<lambda>a. ai_tag a \<noteq> []) raw) (rg_arts db)
    \<and> rg_repos db' = fst (repo_record project repo (rg_repos db))"
  using assms by (auto simp: sync_repo_def Let_def split: sum.splits prod.splits)

section \<open>Properties\<close>

text \<open>C22. A synchronisation that the registry answered stores under the record of this project and
  repository (the one that was there, or one new record) what was listed, and counts it. A listed tag and digest has a row with
  the listed size, times, scan status, severity and vulnerabilities and the time of the synchronisation,
  in the old row when there was one. A tag of the repository that is not listed any more loses its rows,
  unless nothing at all was listed. Every other row, also the one of an older digest of a listed
  tag, is as it was, and no tag and digest gets a second row.\<close>

theorem sync_mirrors:
  assumes "sync_repo e project repo db = (Inr n, db')" "\<not> re_broken e repo" "wf_table at_id (rg_arts db)"
    and "distinct (List.map key_of (rows (rg_arts db)))"
    and "provider_artifacts e repo = Inr raw" "found = filter (\<lambda>a. ai_tag a \<noteq> []) raw"
  shows "n = int (length found)
    \<and> (\<exists>rec. t_first (\<lambda>r. rp_project r = project \<and> rp_name r = repo) (rg_repos db') = Some rec
      \<and> (rg_repos db' = rg_repos db \<or> rows (rg_repos db') = rows (rg_repos db) @ [rec])
      \<and> mirrored e (rp_id rec) found (rg_arts db) (rg_arts db')
      \<and> (\<forall>other. other \<noteq> rp_id rec \<longrightarrow> artifacts_of other db' = artifacts_of other db))
    \<and> distinct (List.map key_of (rows (rg_arts db')))"
proof -
  let ?rid = "snd (repo_record project repo (rg_repos db))"
  have db': "rg_arts db' = store_artifacts e ?rid found (rg_arts db)" "rg_repos db' = fst (repo_record project repo (rg_repos db))"
    using sync_repo_of [OF assms(1,2)] assms(5,6) by auto
  have n: "n = int (length found)" using assms(1,2,5,6) by (auto simp: sync_repo_def Let_def split: prod.splits)
  obtain rec where rec: "t_first (\<lambda>r. rp_project r = project \<and> rp_name r = repo) (rg_repos db') = Some rec" "rp_id rec = ?rid"
      "rg_repos db' = rg_repos db \<or> rows (rg_repos db') = rows (rg_repos db) @ [rec]"
    using repo_record_first [of project repo "rg_repos db"]
    by (cases "t_first (\<lambda>r. rp_project r = project \<and> rp_name r = repo) (rg_repos db)")
      (auto simp: db'(2) t_first_def find_append)
  have "artifacts_of other db' = artifacts_of other db" if "other \<noteq> ?rid" for other
    using store_repo [OF that assms(3)] by (simp add: artifacts_of_def t_where_def db')
  then show ?thesis
    using n rec store_mirrored [OF assms(3)] store_distinct [OF assms(4)] db'(1) by auto
qed

text \<open>When a tag is pushed again, the row of its old digest stays beside the new one, and the scan
  report of the tag goes on showing the old row.\<close>

theorem stale_digest_stays:
  assumes "sync_repo e project repo db = (Inr n, db')" "\<not> re_broken e repo" "wf_table at_id (rg_arts db)" "wf_table rp_id (rg_repos db)"
    and "t_first (\<lambda>r. rp_project r = project \<and> rp_name r = repo) (rg_repos db) = Some r"
    and "joined (rp_id r) tag db = Some (old, r)"
    and "provider_artifacts e repo = Inr raw" "a \<in> set raw" "ai_tag a = tag" "tag \<noteq> []"
    and "\<forall>x \<in> set raw. ai_tag x = tag \<longrightarrow> ai_digest x \<noteq> at_digest old"
  shows "joined (rp_id r) tag db' = Some (old, r)
    \<and> (\<exists>new \<in> set (artifacts_of (rp_id r) db'). at_tag new = tag \<and> at_digest new = ai_digest a \<and> at_digest new \<noteq> at_digest old)"
proof
  let ?rid = "rp_id r" and ?found = "filter (\<lambda>a. ai_tag a \<noteq> []) raw"
  have rec: "repo_record project repo (rg_repos db) = (rg_repos db, ?rid)" using assms(5) by (simp add: repo_record_def)
  then have db': "rg_arts db' = store_artifacts e ?rid ?found (rg_arts db)" "rg_repos db' = rg_repos db"
    using sync_repo_of [OF assms(1,2)] assms(7) by auto
  have a: "a \<in> set ?found" using assms(8-10) by simp
  define P where "P k \<longleftrightarrow> fst k = ?rid \<and> fst (snd k) = tag" for k :: artifact_key
  have P: "(\<lambda>x. at_repo x = ?rid \<and> at_tag x = tag) = (\<lambda>x. P (key_of x))" by (auto simp: P_def key_of_def)
  have old: "t_first (\<lambda>x. P (key_of x)) (rg_arts db) = Some old" using assms(6) by (auto simp: joined_def P bind_eq_Some_conv)
  then have pk: "P (key_of old)" using find_SomeD [of _ "rows (rg_arts db)" old] by (auto simp: t_first_def)
  then have fresh: "key_of old \<notin> (\<lambda>a. (?rid, ai_tag a, ai_digest a)) ` set ?found"
    using assms(11) by (auto simp: key_of_def P_def)
  have "List.find (\<lambda>x. P (key_of x)) (filter (\<lambda>x. \<not> (at_repo x = ?rid \<and> at_tag x \<notin> T)) xs) = List.find (\<lambda>x. P (key_of x)) xs"
    if "tag \<in> T" for T xs
    using that by (induction xs) (auto simp: P_def key_of_def)
  moreover have "tag \<in> ai_tag ` set ?found" "?found \<noteq> []" using a assms(9) by (auto simp: filter_empty_conv)
  ultimately have "t_first (\<lambda>x. P (key_of x)) (rg_arts db') = Some old"
    using fold_upsert_first [OF old fresh assms(3)] by (simp add: db' store_artifacts_def Let_def t_first_def)
  then show "joined ?rid tag db' = Some (old, r)"
    using assms(6) by (auto simp: joined_def P db'(2) bind_eq_Some_conv)
  have "(?rid, ai_tag a, ai_digest a) \<in> stored_keys (rg_arts db')" unfolding db' store_keys using a by auto
  then show "\<exists>new \<in> set (artifacts_of ?rid db'). at_tag new = tag \<and> at_digest new = ai_digest a \<and> at_digest new \<noteq> at_digest old"
    using assms(8,9,11) by (fastforce simp: stored_keys_def key_of_def artifacts_of_def t_where_def)
qed

text \<open>A report out of the table is never marked as such because the registry could not be reached.\<close>

theorem outage_not_reported: "get_scan_report e ask rid tag db = Stored s st sv d w \<Longrightarrow> \<not> w"
proof -
  assume stored: "get_scan_report e ask rid tag db = Stored s st sv d w"
  have live: "live_report a m \<noteq> Some (Stored s st sv d w)" for a m
    by (auto simp: live_report_def Let_def split: option.splits if_splits)
  show "\<not> w"
  proof (cases "joined rid tag db")
    case (Some p)
    have "\<exists>answer. provider_report e a = Inr answer" for a
      by (auto simp: provider_report_def split: sum.split json.split)
    then obtain answer where "provider_report e (ask (rp_name (snd p)) tag) = Inr answer" by blast
    then show ?thesis using stored live Some
      by (cases p) (auto simp: get_scan_report_def Let_def bind_eq_Some_conv split: if_splits option.splits)
  qed (use stored in \<open>simp add: get_scan_report_def split: if_splits\<close>)
qed

text \<open>A registry that answers but lists no mapping empties the cache.\<close>

lemma drop_all:
  "rows (rg_repos (fold (\<lambda>r d. drop_repo (rp_id r) d) rs db)) = filter (\<lambda>r. rp_id r \<notin> rp_id ` set rs) (rows (rg_repos db))"
  "rows (rg_arts (fold (\<lambda>r d. drop_repo (rp_id r) d) rs db)) = filter (\<lambda>a. at_repo a \<notin> rp_id ` set rs) (rows (rg_arts db))"
  by (induction rs arbitrary: db) (auto simp: drop_repo_def intro: filter_cong)

lemma no_projects_empty:
  assumes "re_projects e = Some []" "\<forall>a \<in> set (rows (rg_arts db)). at_repo a \<in> rp_id ` set (rows (rg_repos db))"
  shows "fst (sync_all e db) = Synced 0 \<and> rows (rg_repos (snd (sync_all e db))) = [] \<and> rows (rg_arts (snd (sync_all e db))) = []"
proof -
  have "get_ci_repos e = Some []" using assms(1) by (simp add: get_ci_repos_def)
  moreover have "drop_unmapped [] db = fold (\<lambda>r d. drop_repo (rp_id r) d) (rows (rg_repos db)) db" by (simp add: drop_unmapped_def)
  ultimately show ?thesis using assms(2) by (auto simp: sync_all_def drop_empty_def drop_all filter_empty_conv)
qed

section \<open>Witnesses\<close>

definition sample_image :: "string \<Rightarrow> string \<Rightarrow> artifact_info" where
  "sample_image t d = \<lparr>ai_tag = t, ai_digest = d, ai_size = 5, ai_push = [], ai_pull = [], ai_status = [], ai_severity = [],
     ai_vulns = [0, 0, 0, 0, 0]\<rparr>"

definition sample_registry :: registry_env where
  "sample_registry = \<lparr>re_hints = ([], []), re_projects = Some [(''web'', ''team/web'', [])],
     re_harbor = (\<lambda>_. TList [HObject (sample_image ''v1'' ''d2'')]), re_tags = (\<lambda>_ _. TDown), re_broken = (\<lambda>_. False),
     re_iso = (\<lambda>_. None), re_now = ''2026-01-02 00:00:00''\<rparr>"

definition sample_row :: artifact where
  "sample_row = \<lparr>at_id = 7, at_repo = 4, at_tag = ''v1'', at_digest = ''d1'', at_size = 5, at_push = None, at_pull = None,
     at_status = [], at_severity = [], at_vulns = [1, 0, 0, 0, 0], at_sync = ''2026-01-01 00:00:00''\<rparr>"

definition sample_repo :: repository where
  "sample_repo = \<lparr>rp_id = 4, rp_project = ''web'', rp_name = ''team/web''\<rparr>"

definition sample_cache :: registry_db where
  "sample_cache = \<lparr>rg_repos = \<lparr>rows = [sample_repo], next_id = 5\<rparr>, rg_arts = \<lparr>rows = [sample_row], next_id = 8\<rparr>\<rparr>"

lemma sample_artifacts: "provider_artifacts sample_registry ''team/web'' = Inr [sample_image ''v1'' ''d2'']"
  by code_simp

lemma sample_wf: "wf_table at_id (rg_arts sample_cache)" "wf_table rp_id (rg_repos sample_cache)"
  by (simp_all add: wf_table_def sample_cache_def sample_row_def sample_repo_def)

lemma sample_sync:
  "sync_repo sample_registry ''web'' ''team/web'' sample_cache = (Inr 1, snd (sync_repo sample_registry ''web'' ''team/web'' sample_cache))"
  "\<not> re_broken sample_registry ''team/web''"
  by code_simp+

theorem sync_mirrors_witness:
  "let db' = snd (sync_repo sample_registry ''web'' ''team/web'' sample_cache)
   in \<exists>rid r. row_at (rid, ''v1'', ''d2'') (rg_arts db') = Some r \<and> at_size r = 5 \<and> at_sync r = re_now sample_registry
     \<and> row_at (4, ''v1'', ''d1'') (rg_arts db') = Some sample_row"
proof -
  let ?found = "[sample_image ''v1'' ''d2'']" and ?db = "snd (sync_repo sample_registry ''web'' ''team/web'' sample_cache)"
  have found: "?found = filter (\<lambda>a. ai_tag a \<noteq> []) ?found" by (simp add: sample_image_def)
  have keys: "distinct (List.map key_of (rows (rg_arts sample_cache)))" by (simp add: sample_cache_def)
  obtain rec :: repository where m: "mirrored sample_registry (rp_id rec) ?found (rg_arts sample_cache) (rg_arts ?db)"
    using sync_mirrors [OF sample_sync sample_wf(1) keys sample_artifacts found] by blast
  have "stored_from sample_registry (sample_image ''v1'' ''d2'') (row_at (rp_id rec, ''v1'', ''d2'') (rg_arts sample_cache)) (row_at (rp_id rec, ''v1'', ''d2'') (rg_arts ?db))"
    using spec [OF m [unfolded mirrored_def], of "(rp_id rec, ''v1'', ''d2'')"] by (simp add: listed_at_def sample_image_def)
  moreover have "row_at (4, ''v1'', ''d1'') (rg_arts ?db) = Some sample_row"
    using spec [OF m [unfolded mirrored_def], of "(4, ''v1'', ''d1'')"] by (simp add: listed_at_def sample_image_def row_at_def sample_cache_def sample_row_def key_of_def)
  ultimately show ?thesis by (auto simp: stored_from_def carries_def sample_image_def)
qed

theorem stale_digest_stays_witness:
  "joined 4 ''v1'' (snd (sync_repo sample_registry ''web'' ''team/web'' sample_cache)) = Some (sample_row, sample_repo)"
proof -
  have ids: "rp_id sample_repo = 4" by (simp add: sample_repo_def)
  have first: "t_first (\<lambda>r. rp_project r = ''web'' \<and> rp_name r = ''team/web'') (rg_repos sample_cache) = Some sample_repo"
    by (simp add: t_first_def sample_cache_def sample_repo_def)
  have old: "joined (rp_id sample_repo) ''v1'' sample_cache = Some (sample_row, sample_repo)"
    unfolding ids by (simp add: joined_def t_get_def t_first_def sample_cache_def sample_repo_def sample_row_def)
  have new: "sample_image ''v1'' ''d2'' \<in> set [sample_image ''v1'' ''d2'']" "ai_tag (sample_image ''v1'' ''d2'') = ''v1''" "''v1'' \<noteq> []"
    by (simp_all add: sample_image_def)
  have "\<forall>x \<in> set [sample_image ''v1'' ''d2'']. ai_tag x = ''v1'' \<longrightarrow> ai_digest x \<noteq> at_digest sample_row"
    by (simp add: sample_image_def sample_row_def)
  from stale_digest_stays [OF sample_sync sample_wf first old sample_artifacts new this] show ?thesis by (simp add: ids)
qed

theorem outage_not_reported_witness:
  "case get_scan_report sample_registry (\<lambda>_ _. RpDown) 4 ''v1'' sample_cache of Stored s _ _ _ w \<Rightarrow> su_total s = 1 \<and> \<not> w | _ \<Rightarrow> False"
proof -
  have r: "get_scan_report sample_registry (\<lambda>_ _. RpDown) 4 ''v1'' sample_cache = Stored (stored_summary sample_row) [] [] ''d1'' False"
    by code_simp
  from outage_not_reported [OF this] show ?thesis unfolding r report.case by (simp add: stored_summary_def sample_row_def)
qed

end
