(* ===== verification/Webhooks.thy ===== *)
theory Webhooks
  imports RegistrySync DeployRoutes
begin

text \<open>
  \<^verbatim>\<open>backend/routers/webhooks.py\<close>: the configured webhooks with their encrypted tokens, the
  reception of an event with its delivery to a bot, and the routes that manage both. A request that
  raises leaves the tables as they were, since the connection rolls back. Parsing and printing of JSON,
  the text of a value, the decoding of the body and the new token are parameters; \<open>we_sqlite\<close>
  says which database holds the tables.
\<close>

section \<open>The tables\<close>

record webhook =
  wh_id :: row_id
  wh_name :: string
  wh_token :: string
  wh_bot :: int
  wh_enabled :: bool
  wh_created :: string

record event =
  ev_id :: row_id
  ev_hook :: row_id
  ev_payload :: string
  ev_received :: string
  ev_forwarded :: bool
  ev_at :: string

record hooks_db =
  hd_hooks :: "webhook table"
  hd_events :: "event table"

record wenv =
  we_settings :: settings
  we_sqlite :: bool
  we_keys :: keyring
  we_notify :: notify_env
  we_json :: "string \<Rightarrow> json option"
  we_text :: "json \<Rightarrow> string"
  we_dump :: "json \<Rightarrow> string"
  we_utf8 :: "string \<Rightarrow> string option"
  we_now :: string

definition hook_assign :: "row_id \<Rightarrow> webhook \<Rightarrow> webhook" where
  "hook_assign i w = w\<lparr>wh_id := i\<rparr>"

definition event_assign :: "row_id \<Rightarrow> event \<Rightarrow> event" where
  "event_assign i v = v\<lparr>ev_id := i\<rparr>"

interpretation hooks: row_key wh_id hook_assign by unfold_locales (simp add: hook_assign_def)

interpretation events: row_key ev_id event_assign by unfold_locales (simp add: event_assign_def)

section \<open>Tokens\<close>

text \<open>A stored token that is no ciphertext is unusable.\<close>

definition decrypt_webhook_token :: "keyring \<Rightarrow> string \<Rightarrow> string" where
  "decrypt_webhook_token k stored =
     (if stored = [] \<or> \<not> starts_with encrypt_prefix stored then []
      else case decrypt k stored of Inl _ \<Rightarrow> [] | Inr s \<Rightarrow> s)"

definition is_ascii :: "string \<Rightarrow> bool" where
  "is_ascii s = list_all (\<lambda>c. py_ord c < 128) s"

text \<open>The comparison in constant time takes ASCII only.\<close>

fun find_by_token :: "keyring \<Rightarrow> string \<Rightarrow> webhook list \<Rightarrow> webhook option result" where
  "find_by_token k plain [] = Inr None"
| "find_by_token k plain (w # ws) =
     (let c = decrypt_webhook_token k (wh_token w)
      in if c = [] then find_by_token k plain ws
         else if \<not> is_ascii c \<or> \<not> is_ascii plain then Inl TypeError
         else if c = plain then Inr (Some w)
         else find_by_token k plain ws)"

definition find_enabled_webhook :: "keyring \<Rightarrow> string \<Rightarrow> webhook table \<Rightarrow> webhook option result" where
  "find_enabled_webhook k plain t = find_by_token k plain (t_where wh_enabled t)"

section \<open>The message\<close>

definition event_field :: "wenv \<Rightarrow> (string \<times> json) list \<Rightarrow> string \<Rightarrow> string" where
  "event_field e m key = we_text e (first_of m [key] (JStr []))"

definition event_fields :: "wenv \<Rightarrow> (string \<times> json) list \<Rightarrow> (string \<times> string) list" where
  "event_fields e m =
     (''time'', we_text e (first_of m [''built_at'', ''time''] (JStr [])))
       # List.map (\<lambda>key. (key, event_field e m key)) [''project'', ''tag'', ''status'', ''image'', ''target'', ''mode'']"

definition plain_message :: "wenv \<Rightarrow> (string \<times> json) list \<Rightarrow> string" where
  "plain_message e m =
     (let parts = List.map (\<lambda>key. key @ '': '' @ we_text e (jget m key))
            (filter (\<lambda>key. jtruthy (jget m key)) [''project'', ''tag'', ''image'', ''status'', ''built_at''])
      in if parts \<noteq> [] then py_join [newline] parts else we_dump e (JObj m))"

text \<open>A payload that is no object has no \<^verbatim>\<open>get\<close>. A missing key or index of the template falls back
  to the plain message.\<close>

definition format_event_message :: "wenv \<Rightarrow> json \<Rightarrow> string \<Rightarrow> string result" where
  "format_event_message e v template =
     (case v of
        JObj m \<Rightarrow>
          (if py_strip template = [] then Inr (plain_message e m)
           else case py_format (ne_rich (we_notify e)) (event_fields e m) (py_strip template) of
                  Inl x \<Rightarrow> if x = OtherError then Inr (plain_message e m) else Inl x
                | Inr s \<Rightarrow> Inr s)
      | _ \<Rightarrow> Inl OtherError)"

definition payload_json :: "wenv \<Rightarrow> string \<Rightarrow> json" where
  "payload_json e s = (case we_json e s of Some v \<Rightarrow> v | None \<Rightarrow> JObj [])"

section \<open>Reception\<close>

definition max_body_bytes :: nat where
  "max_body_bytes = 1024 * 1024"

definition webhook_not_found :: exc where
  "webhook_not_found = NotFoundError (Some ''errors.webhook_not_found'')"

definition find_bot :: "wenv \<Rightarrow> int \<Rightarrow> bot option" where
  "find_bot e i = List.find (\<lambda>b. int (b_id b) = i) (ne_bots (we_notify e))"

text \<open>Whether the message of an event was delivered to a bot, and where it was posted.\<close>

definition deliver :: "wenv \<Rightarrow> string \<Rightarrow> bot \<Rightarrow> string \<Rightarrow> (bool \<times> string option) result" where
  "deliver e bot_type b payload =
     and_then (format_event_message e (payload_json e payload) (b_template b)) (\<lambda>msg.
       send_webhook (ne_hook (we_notify e)) (b_url b) msg bot_type)"

definition mark_event :: "row_id \<Rightarrow> bool \<Rightarrow> string \<Rightarrow> event table \<Rightarrow> event table" where
  "mark_event i sent now t = fst (t_update (\<lambda>v. ev_id v = i) (\<lambda>v. v\<lparr>ev_forwarded := sent, ev_at := now\<rparr>) t)"

definition record_event :: "wenv \<Rightarrow> webhook \<Rightarrow> string \<Rightarrow> hooks_db \<Rightarrow> unit result \<times> hooks_db" where
  "record_event e w payload db =
     (case t_insert event_assign \<lparr>ev_id = 0, ev_hook = wh_id w, ev_payload = payload, ev_received = we_now e,
             ev_forwarded = False, ev_at = []\<rparr> (hd_events db) of
        (t, i) \<Rightarrow>
          (case (if wh_bot w = 0 then None else find_bot e (wh_bot w)) of
             None \<Rightarrow> (Inr (), db\<lparr>hd_events := t\<rparr>)
           | Some b \<Rightarrow>
               (case deliver e (b_type b) b payload of
                  Inl x \<Rightarrow> (Inl x, db)
                | Inr (sent, _) \<Rightarrow> (Inr (), db\<lparr>hd_events := mark_event i sent (we_now e) t\<rparr>))))"

text \<open>\<open>gate\<close> is the answer of the deployment gate.\<close>

definition receive_webhook :: "wenv \<Rightarrow> unit result \<Rightarrow> string \<Rightarrow> string \<Rightarrow> hooks_db \<Rightarrow> unit result \<times> hooks_db" where
  "receive_webhook e gate token body db =
     (case and_then gate (\<lambda>_. find_enabled_webhook (we_keys e) token (hd_hooks db)) of
        Inl x \<Rightarrow> (Inl x, db)
      | Inr None \<Rightarrow> (Inl webhook_not_found, db)
      | Inr (Some w) \<Rightarrow>
          if max_body_bytes < length body then (Inl (ValidationError (Some ''errors.webhook_payload_too_large'')), db)
          else (case (if body = [] then Some (open_brace # [close_brace]) else we_utf8 e body) of
                  None \<Rightarrow> (Inl ValueError, db)
                | Some payload \<Rightarrow> record_event e w payload db))"

section \<open>Management\<close>

definition manage_hooks :: "wenv \<Rightarrow> user \<Rightarrow> unit result" where
  "manage_hooks e u = perm_check (we_settings e) ''cd.notification-manage'' u"

definition list_webhooks :: "wenv \<Rightarrow> hooks_db \<Rightarrow> webhook list" where
  "list_webhooks e db =
     List.map (\<lambda>w. w\<lparr>wh_token := decrypt_webhook_token (we_keys e) (wh_token w)\<rparr>)
       (rev (sort_key wh_created (rev (rows (hd_hooks db)))))"

text \<open>The violation of a unique column is caught as the one of MySQL only.\<close>

definition create_webhook :: "wenv \<Rightarrow> user \<Rightarrow> string \<Rightarrow> string \<Rightarrow> int \<Rightarrow> hooks_db \<Rightarrow> string result \<times> hooks_db" where
  "create_webhook e u fresh name bid db =
     (case manage_hooks e u of
        Inl x \<Rightarrow> (Inl x, db)
      | Inr _ \<Rightarrow>
          let stored = encrypt (we_keys e) fresh
          in if list_ex (\<lambda>w. wh_name w = name \<or> wh_token w = stored) (rows (hd_hooks db))
             then (Inl (if we_sqlite e then DatabaseError (Some ''errors.webhook_create_failed'')
                        else ConflictError (Some ''errors.webhook_already_exists'')), db)
             else (Inr fresh, db\<lparr>hd_hooks := fst (t_insert hook_assign
               \<lparr>wh_id = 0, wh_name = name, wh_token = stored, wh_bot = bid, wh_enabled = True, wh_created = we_now e\<rparr> (hd_hooks db))\<rparr>))"

definition delete_webhook :: "wenv \<Rightarrow> user \<Rightarrow> row_id \<Rightarrow> hooks_db \<Rightarrow> unit result \<times> hooks_db" where
  "delete_webhook e u i db =
     (case manage_hooks e u of
        Inl x \<Rightarrow> (Inl x, db)
      | Inr _ \<Rightarrow> (Inr (), \<lparr>hd_hooks = fst (t_delete (\<lambda>w. wh_id w = i) (hd_hooks db)),
                           hd_events = fst (t_delete (\<lambda>v. ev_hook v = i) (hd_events db))\<rparr>))"

text \<open>MySQL counts the rows that change, SQLite the rows that are found.\<close>

definition update_webhook :: "wenv \<Rightarrow> user \<Rightarrow> row_id \<Rightarrow> string \<Rightarrow> int \<Rightarrow> hooks_db \<Rightarrow> unit result \<times> hooks_db" where
  "update_webhook e u i name bid db =
     (case manage_hooks e u of
        Inl x \<Rightarrow> (Inl x, db)
      | Inr _ \<Rightarrow>
          let hit = t_where (\<lambda>w. wh_id w = i) (hd_hooks db);
              counted = filter (\<lambda>w. we_sqlite e \<or> wh_name w \<noteq> name \<or> wh_bot w \<noteq> bid) hit
          in if hit \<noteq> [] \<and> list_ex (\<lambda>w. wh_id w \<noteq> i \<and> wh_name w = name) (rows (hd_hooks db))
             then (Inl (if we_sqlite e then OtherError else ConflictError (Some ''errors.webhook_already_exists'')), db)
             else if counted = [] then (Inl webhook_not_found, db)
             else (Inr (), db\<lparr>hd_hooks := fst (t_update (\<lambda>w. wh_id w = i) (\<lambda>w. w\<lparr>wh_name := name, wh_bot := bid\<rparr>) (hd_hooks db))\<rparr>))"

definition toggle_webhook :: "wenv \<Rightarrow> user \<Rightarrow> row_id \<Rightarrow> hooks_db \<Rightarrow> bool result \<times> hooks_db" where
  "toggle_webhook e u i db =
     (case manage_hooks e u of
        Inl x \<Rightarrow> (Inl x, db)
      | Inr _ \<Rightarrow>
          (case t_get wh_id i (hd_hooks db) of
             None \<Rightarrow> (Inl webhook_not_found, db)
           | Some w \<Rightarrow> (Inr (\<not> wh_enabled w),
               db\<lparr>hd_hooks := fst (t_update (\<lambda>x. wh_id x = i) (\<lambda>x. x\<lparr>wh_enabled := \<not> wh_enabled w\<rparr>) (hd_hooks db))\<rparr>)))"

definition list_events :: "row_id \<Rightarrow> int \<Rightarrow> int \<Rightarrow> hooks_db \<Rightarrow> event page" where
  "list_events i page page_size db =
     paginate page page_size (rev (sort_key ev_received (rev (t_where (\<lambda>v. ev_hook v = i) (hd_events db)))))"

definition delete_event :: "wenv \<Rightarrow> user \<Rightarrow> row_id \<Rightarrow> hooks_db \<Rightarrow> unit result \<times> hooks_db" where
  "delete_event e u i db =
     (case manage_hooks e u of
        Inl x \<Rightarrow> (Inl x, db)
      | Inr _ \<Rightarrow> (Inr (), db\<lparr>hd_events := fst (t_delete (\<lambda>v. ev_id v = i) (hd_events db))\<rparr>))"

text \<open>Forwarding by hand hands no type of the bot on.\<close>

definition forward_event :: "wenv \<Rightarrow> row_id \<Rightarrow> int \<Rightarrow> hooks_db \<Rightarrow> unit result \<times> hooks_db" where
  "forward_event e i bid db =
     (case t_get ev_id i (hd_events db) of
        None \<Rightarrow> (Inl (NotFoundError (Some ''errors.webhook_event_not_found'')), db)
      | Some v \<Rightarrow>
          (case find_bot e bid of
             None \<Rightarrow> (Inl (NotFoundError (Some ''errors.bot_not_found'')), db)
           | Some b \<Rightarrow>
               (case deliver e [] b (ev_payload v) of
                  Inl x \<Rightarrow> (Inl x, db)
                | Inr (sent, _) \<Rightarrow>
                    if sent then (Inr (), db\<lparr>hd_events := mark_event i True (we_now e) (hd_events db)\<rparr>)
                    else (Inl (DatabaseError (Some ''errors.webhook_forward_failed'')), db))))"

section \<open>Laws\<close>

lemma find_by_token_Some:
  "find_by_token k plain ws = Inr (Some w) \<Longrightarrow> w \<in> set ws \<and> decrypt_webhook_token k (wh_token w) = plain \<and> plain \<noteq> []"
  by (induction ws) (auto simp: Let_def split: if_splits)

lemma find_enabled_Some:
  assumes "find_enabled_webhook k plain t = Inr (Some w)"
  shows "w \<in> set (rows t) \<and> wh_enabled w \<and> decrypt_webhook_token k (wh_token w) = plain \<and> plain \<noteq> []"
  using find_by_token_Some [of k plain "t_where wh_enabled t" w] assms by (auto simp: find_enabled_webhook_def t_where_def)

lemma mark_new_event:
  assumes "wf_table ev_id t" "ev_id v = next_id t"
  shows "rows (mark_event (next_id t) sent now (t\<lparr>rows := rows t @ [v], next_id := Suc (next_id t)\<rparr>))
    = rows t @ [v\<lparr>ev_forwarded := sent, ev_at := now\<rparr>]"
proof -
  have "ev_id x \<noteq> next_id t" if "x \<in> set (rows t)" for x using that assms(1) by (auto simp: wf_table_def)
  then have "List.map (\<lambda>x. if ev_id x = next_id t then x\<lparr>ev_forwarded := sent, ev_at := now\<rparr> else x) (rows t) = rows t"
    by (simp add: map_idI)
  then show ?thesis using assms(2) by (simp add: mark_event_def)
qed

text \<open>The bot took the message of a payload.\<close>

definition taken_by :: "wenv \<Rightarrow> bot \<Rightarrow> string \<Rightarrow> bool" where
  "taken_by e b payload \<longleftrightarrow> (\<exists>msg p. format_event_message e (payload_json e payload) (b_template b) = Inr msg
     \<and> send_webhook (ne_hook (we_notify e)) (b_url b) msg (b_type b) = Inr (True, p))"

lemma deliver_sent: "deliver e (b_type b) b payload = Inr (sent, p) \<Longrightarrow> sent = taken_by e b payload"
  by (auto simp: deliver_def taken_by_def and_then_def split: sum.splits)

text \<open>Whether an event of a webhook with this payload ends as forwarded.\<close>

definition forwarded_to_bot :: "wenv \<Rightarrow> webhook \<Rightarrow> string \<Rightarrow> bool" where
  "forwarded_to_bot e w payload \<longleftrightarrow> wh_bot w \<noteq> 0 \<and> (\<exists>b. find_bot e (wh_bot w) = Some b \<and> taken_by e b payload)"

lemma record_event_refused:
  assumes "record_event e w payload db = (Inl x, db')" shows "db' = db"
proof (cases "if wh_bot w = 0 then None else find_bot e (wh_bot w)")
  case None
  then show ?thesis using assms by (simp add: record_event_def split_beta)
next
  case (Some b)
  then show ?thesis using assms by (auto simp: record_event_def split_beta split: sum.splits)
qed

text \<open>What is stored when an event is recorded.\<close>

lemma record_event_rows:
  assumes "record_event e w payload db = (Inr (), db')" "wf_table ev_id (hd_events db)"
  shows "hd_hooks db' = hd_hooks db \<and> (\<exists>v. rows (hd_events db') = rows (hd_events db) @ [v] \<and> ev_hook v = wh_id w \<and> ev_payload v = payload
    \<and> (ev_forwarded v \<longleftrightarrow> forwarded_to_bot e w payload))"
proof (cases "if wh_bot w = 0 then None else find_bot e (wh_bot w)")
  case None
  then show ?thesis using assms(1)
    by (auto simp: record_event_def t_insert_def event_assign_def forwarded_to_bot_def split: if_splits)
next
  case (Some b)
  then obtain sent p where d: "deliver e (b_type b) b payload = Inr (sent, p)"
    using assms(1) by (auto simp: record_event_def t_insert_def split: sum.splits)
  then show ?thesis using Some assms deliver_sent [OF d]
    by (auto simp: record_event_def t_insert_def event_assign_def mark_new_event forwarded_to_bot_def split: if_splits)
qed

section \<open>Properties\<close>

text \<open>C25. A reception that is acknowledged has passed the gate, carries the token of an enabled webhook
  whose stored token is a ciphertext, and appends exactly one event with the decoded body as its payload,
  marked as forwarded exactly when the bot of the webhook took the message made of that payload; one that
  is refused changes nothing.\<close>

theorem receive_sound:
  assumes "receive_webhook e gate token body db = (r, db')" "wf_table ev_id (hd_events db)"
  shows "case r of
      Inl _ \<Rightarrow> db' = db
    | Inr _ \<Rightarrow> gate = Inr () \<and> length body \<le> max_body_bytes \<and> hd_hooks db' = hd_hooks db
        \<and> (\<exists>w v. w \<in> set (rows (hd_hooks db)) \<and> wh_enabled w \<and> decrypt_webhook_token (we_keys e) (wh_token w) = token \<and> token \<noteq> []
             \<and> rows (hd_events db') = rows (hd_events db) @ [v] \<and> ev_hook v = wh_id w
             \<and> (if body = [] then ev_payload v = open_brace # [close_brace] else we_utf8 e body = Some (ev_payload v))
             \<and> (ev_forwarded v \<longleftrightarrow> forwarded_to_bot e w (ev_payload v)))"
proof (cases r)
  case (Inl x)
  then show ?thesis using assms(1) by (auto simp: receive_webhook_def dest: record_event_refused split: sum.splits option.splits if_splits)
next
  case (Inr y)
  then obtain w payload where w: "gate = Inr ()" "find_enabled_webhook (we_keys e) token (hd_hooks db) = Inr (Some w)" "length body \<le> max_body_bytes"
    "record_event e w payload db = (Inr (), db')"
    "(if body = [] then Some (open_brace # [close_brace]) else we_utf8 e body) = Some payload"
    using assms(1) by (auto simp: receive_webhook_def not_less split: sum.splits option.splits if_splits)
  then show ?thesis using Inr find_enabled_Some [OF w(2)] record_event_rows [OF w(4) assms(2)] by (auto split: if_splits)
qed

text \<open>An event for a webhook with a bot is lost when its payload is legal JSON but no object: the
  request fails and nothing is recorded.\<close>

theorem array_event_lost:
  assumes "find_enabled_webhook (we_keys e) token (hd_hooks db) = Inr (Some w)" "wh_bot w \<noteq> 0" "find_bot e (wh_bot w) = Some b"
    and "body \<noteq> []" "length body \<le> max_body_bytes" "we_utf8 e body = Some payload" "we_json e payload = Some (JList vs)"
  shows "receive_webhook e (Inr ()) token body db = (Inl OtherError, db)"
proof -
  have "deliver e (b_type b) b payload = Inl OtherError"
    using assms(7) by (simp add: deliver_def payload_json_def format_event_message_def)
  then show ?thesis using assms by (simp add: receive_webhook_def record_event_def t_insert_def)
qed

text \<open>Saving a webhook without a change is answered as if it did not exist when the tables are on MySQL.\<close>

lemma unchanged_is_missing:
  assumes "\<not> we_sqlite e" "manage_hooks e u = Inr ()" "\<forall>w \<in> set (rows (hd_hooks db)). wh_id w = i \<longrightarrow> wh_name w = name \<and> wh_bot w = bid"
    and "\<forall>w \<in> set (rows (hd_hooks db)). wh_id w \<noteq> i \<longrightarrow> wh_name w \<noteq> name"
  shows "update_webhook e u i name bid db = (Inl webhook_not_found, db)"
  using assms by (auto simp: update_webhook_def t_where_def Let_def list_ex_iff filter_empty_conv)

section \<open>A sample\<close>

definition sample_wenv :: wenv where
  "sample_wenv = \<lparr>we_settings = default_settings, we_sqlite = True, we_keys = sample_keyring, we_notify = sample_notify,
     we_json = (\<lambda>s. if s = ''[1]'' then Some (JList [JNum (Fin 1)]) else Some (JObj [(''project'', JStr ''web'')])),
     we_text = (\<lambda>v. case v of JStr s \<Rightarrow> s | _ \<Rightarrow> []), we_dump = (\<lambda>_. []), we_utf8 = Some, we_now = ''2026-01-01 00:00:00''\<rparr>"

definition sample_webhook :: webhook where
  "sample_webhook = \<lparr>wh_id = 1, wh_name = ''ci'', wh_token = ''enc:terces'', wh_bot = 1, wh_enabled = True, wh_created = []\<rparr>"

definition sample_hooks_db :: hooks_db where
  "sample_hooks_db = \<lparr>hd_hooks = \<lparr>rows = [sample_webhook], next_id = 2\<rparr>, hd_events = empty_table\<rparr>"

lemma sample_found: "find_enabled_webhook (we_keys sample_wenv) ''secret'' (hd_hooks sample_hooks_db) = Inr (Some sample_webhook)"
proof -
  have "decrypt_webhook_token sample_keyring ''enc:terces'' = ''secret''" "is_ascii ''secret''" by code_simp+
  then show ?thesis
    by (simp add: find_enabled_webhook_def t_where_def sample_hooks_db_def sample_webhook_def sample_wenv_def)
qed

theorem receive_sound_witness:
  "\<exists>v. rows (hd_events (snd (receive_webhook sample_wenv (Inr ()) ''secret'' ''x'' sample_hooks_db))) = [v] \<and> ev_hook v = 1 \<and> ev_payload v = ''x''"
proof -
  have "find_bot sample_wenv 1 = Some (hd (ne_bots sample_notify))" by (simp add: find_bot_def sample_wenv_def sample_notify_def)
  moreover have "deliver sample_wenv (b_type (hd (ne_bots sample_notify))) (hd (ne_bots sample_notify)) ''x'' = Inr (True, Some ''https://example.com/h'')"
    by code_simp
  ultimately have "fst (record_event sample_wenv sample_webhook ''x'' sample_hooks_db) = Inr ()"
    by (simp add: record_event_def t_insert_def sample_webhook_def)
  then have r: "fst (receive_webhook sample_wenv (Inr ()) ''secret'' ''x'' sample_hooks_db) = Inr ()"
    using sample_found by (simp add: receive_webhook_def max_body_bytes_def sample_wenv_def)
  have wf: "wf_table ev_id (hd_events sample_hooks_db)" by (simp add: sample_hooks_db_def)
  have none: "rows (hd_events sample_hooks_db) = []" "\<And>w. w \<in> set (rows (hd_hooks sample_hooks_db)) \<Longrightarrow> wh_id w = 1"
    "we_utf8 sample_wenv = Some"
    by (simp_all add: sample_hooks_db_def empty_table_def sample_webhook_def sample_wenv_def)
  show ?thesis using receive_sound [OF prod.collapse [symmetric] wf, of sample_wenv "Inr ()" "''secret''" "''x''"] none
    unfolding r by auto
qed

theorem array_event_lost_witness:
  "receive_webhook sample_wenv (Inr ()) ''secret'' ''[1]'' sample_hooks_db = (Inl OtherError, sample_hooks_db)"
proof (rule array_event_lost [OF sample_found])
  show "wh_bot sample_webhook \<noteq> 0" by (simp add: sample_webhook_def)
  show "find_bot sample_wenv (wh_bot sample_webhook) = Some (hd (ne_bots sample_notify))"
    by (simp add: find_bot_def sample_wenv_def sample_notify_def sample_webhook_def)
  show "we_utf8 sample_wenv ''[1]'' = Some ''[1]''" "we_json sample_wenv ''[1]'' = Some (JList [JNum (Fin 1)])"
    by (simp_all add: sample_wenv_def)
qed (simp_all add: max_body_bytes_def)

end
