(* ===== verification/ApprovalRoutes.thy ===== *)
theory ApprovalRoutes
  imports DeployRoutes Execution Rollback
begin

text \<open>
  \<^verbatim>\<open>backend/routers/approvals.py\<close>: who sees which request, the execution of an approved
  request with and without a stream, the rules with their validation, and the two rollback routes.
  Approving, rejecting, cancelling and the counter only hand their arguments to the service. The role
  and user lists of the identity service are parameters, \<open>None\<close> when they cannot be read.
\<close>

section \<open>Requests\<close>

definition is_manager :: "settings \<Rightarrow> user \<Rightarrow> bool" where
  "is_manager st u =
     (if u_role u = super_admin_role st then True else ''*'' \<in> set (u_perms u) \<or> ''cd.deploy.approve'' \<in> set (u_perms u))"

record request_view =
  av_request :: approval
  av_can_approve :: bool
  av_can_cancel :: bool
  av_can_execute :: bool

definition enrich :: "settings \<Rightarrow> rule list \<Rightarrow> user \<Rightarrow> approval \<Rightarrow> request_view" where
  "enrich st rules u a =
     \<lparr>av_request = a, av_can_approve = can_approve st (match_rule rules (a_project a)) u,
      av_can_cancel = can_cancel st a u, av_can_execute = can_execute a u\<rparr>"

definition asked_requester :: "settings \<Rightarrow> bool \<Rightarrow> user \<Rightarrow> string" where
  "asked_requester st mine u = (if mine then u_name u else if is_manager st u then [] else u_name u)"

definition list_requests ::
  "settings \<Rightarrow> string \<Rightarrow> string \<Rightarrow> string \<Rightarrow> bool \<Rightarrow> bool \<Rightarrow> int \<Rightarrow> int \<Rightarrow> user \<Rightarrow> cdb \<Rightarrow> request_view page" where
  "list_requests st status project kind active mine page page_size u db =
     (let p = list_approvals status project (asked_requester st mine u) kind page page_size active db
      in \<lparr>p_items = List.map (enrich st (list_all_rules (db_rules db)) u) (p_items p), p_total = p_total p, p_page = p_page p,
          p_size = p_size p, p_total_pages = p_total_pages p\<rparr>)"

definition get_approval :: "settings \<Rightarrow> row_id \<Rightarrow> user \<Rightarrow> cdb \<Rightarrow> request_view result" where
  "get_approval st aid u db =
     (case get_by_id aid db of
        None \<Rightarrow> Inl approval_not_found
      | Some a \<Rightarrow>
          if \<not> is_manager st u \<and> a_requester a \<noteq> u_name u then Inl approval_not_found
          else Inr (enrich st (list_all_rules (db_rules db)) u a))"

section \<open>Execution\<close>

text \<open>An exception after the claim: the request has failed, its record frees the project.\<close>

definition abandoned :: "xenv \<Rightarrow> row_id \<Rightarrow> estate \<Rightarrow> estate" where
  "abandoned x aid s =
     (let db' = advance x aid Failed no_fields (db_of s)
      in set_db (db'\<lparr>db_logs := reset_pending_deploy_record aid (db_logs db')\<rparr>) s)"

definition run_claimed :: "xenv \<Rightarrow> row_id \<Rightarrow> user \<Rightarrow> estate \<Rightarrow> run_result result \<times> estate" where
  "run_claimed x aid u s =
     (case run_approval x aid u s of
        (Inl e, s') \<Rightarrow> (Inl e, abandoned x aid s')
      | (Inr r, s') \<Rightarrow> (Inr r, s'))"

definition execute_approval :: "xenv \<Rightarrow> row_id \<Rightarrow> user \<Rightarrow> estate \<Rightarrow> run_result result \<times> estate" where
  "execute_approval x aid u s =
     (case claim_for_execution x aid (u_name u) s of
        (Inl e, s1) \<Rightarrow> (Inl e, s1)
      | (Inr (_, exec_user), s1) \<Rightarrow> run_claimed x aid exec_user s1)"

text \<open>A busy run has said nothing, so its output is sent as a message.\<close>

definition result_stream :: "string option list \<Rightarrow> run_result \<Rightarrow> string" where
  "result_stream said r =
     event_stream True (said @ (if rr_status r = RunBusy \<and> rr_output r \<noteq> [] then [Some (rr_output r)] else []))
       (Inr (rr_status r = RunOk))"

definition execute_approval_stream ::
  "xenv \<Rightarrow> string option list \<Rightarrow> row_id \<Rightarrow> user \<Rightarrow> estate \<Rightarrow> string result \<times> estate" where
  "execute_approval_stream x said aid u s =
     (case claim_for_execution x aid (u_name u) s of
        (Inl e, s1) \<Rightarrow> (if is_app_exception e then Inr (error_stream (de_exc_text (xe_d x) e)) else Inl e, s1)
      | (Inr (_, exec_user), s1) \<Rightarrow>
          (case run_claimed x aid exec_user s1 of
             (Inl e, s2) \<Rightarrow> (Inr (event_stream True said (Inl (de_exc_text (xe_d x) e))), s2)
           | (Inr r, s2) \<Rightarrow> (Inr (result_stream said r), s2)))"

section \<open>Rules\<close>

record rule_request =
  rq_enabled :: bool
  rq_envs :: string
  rq_role :: string
  rq_approvers :: string
  rq_bot :: int
  rq_rollback :: bool

record rbac =
  rb_roles :: "string list option"
  rb_users :: "string list option"

definition comma_list :: "string \<Rightarrow> string" where
  "comma_list s = py_join '','' (parse_csv s)"

definition rule_reference :: "string \<Rightarrow> exc" where
  "rule_reference key = ValidationError (Some key)"

definition validate_rule_via_glue :: "rbac \<Rightarrow> string \<Rightarrow> string list \<Rightarrow> unit result" where
  "validate_rule_via_glue rb role approvers =
     (if role \<noteq> [] \<and> (case rb_roles rb of None \<Rightarrow> False | Some rs \<Rightarrow> role \<notin> set rs)
      then Inl (rule_reference ''errors.rule_role_not_found'')
      else if approvers \<noteq> [] \<and> (case rb_users rb of None \<Rightarrow> False
             | Some us \<Rightarrow> list_ex (\<lambda>a. py_lower a \<notin> set (List.map py_lower us)) approvers)
      then Inl (rule_reference ''errors.rule_approver_not_found'')
      else Inr ())"

definition validate_rule :: "rbac \<Rightarrow> string \<Rightarrow> rule_request \<Rightarrow> unit result" where
  "validate_rule rb project q =
     (if py_strip project = [] \<or> 255 < length (py_strip project) \<or> 255 < length (comma_list (rq_envs q))
        \<or> 1024 < length (comma_list (rq_approvers q))
      then Inl deploy_validation
      else validate_rule_via_glue rb (py_strip (rq_role q)) (parse_csv (rq_approvers q)))"

definition saved_rule :: "rule_request \<Rightarrow> rule \<Rightarrow> rule" where
  "saved_rule q r = r\<lparr>r_enabled := rq_enabled q, r_envs := comma_list (rq_envs q), r_role := py_strip (rq_role q),
     r_approvers := comma_list (rq_approvers q), r_bot := rq_bot q, r_rollback := rq_rollback q\<rparr>"

definition blank_rule :: "string \<Rightarrow> rule" where
  "blank_rule project = \<lparr>r_id = 0, r_project = project, r_enabled = False, r_envs = [], r_role = [], r_approvers = [],
     r_bot = 0, r_rollback = True\<rparr>"

definition upsert_rule :: "settings \<Rightarrow> rbac \<Rightarrow> user \<Rightarrow> string \<Rightarrow> rule_request \<Rightarrow> rule table \<Rightarrow> rule table result" where
  "upsert_rule st rb u project0 q t =
     and_then (perm_check st ''cd.deploy.approve'' u) (\<lambda>_.
     and_then (validate_rule rb project0 q) (\<lambda>_.
     let project = py_strip project0
     in Inr (if t_first (\<lambda>r. r_project r = project) t \<noteq> None
             then fst (t_update (\<lambda>r. r_project r = project) (saved_rule q) t)
             else fst (t_insert rule_assign (saved_rule q (blank_rule project)) t))))"

definition delete_rule :: "settings \<Rightarrow> user \<Rightarrow> string \<Rightarrow> rule table \<Rightarrow> rule table result" where
  "delete_rule st u project t =
     and_then (perm_check st ''cd.deploy.approve'' u) (\<lambda>_. Inr (fst (t_delete (\<lambda>r. r_project r = project) t)))"

definition list_rules :: "settings \<Rightarrow> user \<Rightarrow> rule table \<Rightarrow> rule list result" where
  "list_rules st u t = and_then (perm_check st ''cd.deploy.approve'' u) (\<lambda>_. Inr (sort_key r_project (rows t)))"

definition list_roles :: "settings \<Rightarrow> rbac \<Rightarrow> user \<Rightarrow> string list result" where
  "list_roles st rb u =
     and_then (perm_check st ''cd.deploy.approve'' u) (\<lambda>_.
     case rb_roles rb of None \<Rightarrow> Inl (ServiceUnavailableError (Some ''errors.ci_service_unavailable'')) | Some rs \<Rightarrow> Inr rs)"

section \<open>Rollback\<close>

definition rollback_deploy ::
  "denv \<Rightarrow> k8s_remote \<Rightarrow> rollback_texts \<Rightarrow> rollback_args \<Rightarrow> user \<Rightarrow> dstate \<Rightarrow> rollback_answer result \<times> dstate" where
  "rollback_deploy env remote x a u s =
     (case perm_check (de_settings env) ''cd.deploy-manage'' u of
        Inl e \<Rightarrow> (Inl e, s)
      | Inr _ \<Rightarrow> if ra_project a = [] then (Inl deploy_validation, s) else rollback env remote x a u s)"

definition rollback_deploy_stream ::
  "denv \<Rightarrow> k8s_remote \<Rightarrow> rollback_texts \<Rightarrow> string \<Rightarrow> string option list \<Rightarrow> rollback_args \<Rightarrow> user \<Rightarrow> dstate
     \<Rightarrow> string result \<times> dstate" where
  "rollback_deploy_stream env remote x no_project said a u s =
     (case perm_check (de_settings env) ''cd.deploy-manage'' u of
        Inl e \<Rightarrow> (Inl e, s)
      | Inr _ \<Rightarrow>
          if ra_project a = [] then (Inr (error_stream no_project), s)
          else (case prepare_rollback env x a u (ds_db s) of
             (Inl e, db) \<Rightarrow> (if is_app_exception e then Inr (error_stream (de_exc_text env e)) else Inl e, s\<lparr>ds_db := db\<rparr>)
           | (Inr (PrepPending aid src), db) \<Rightarrow> (Inr (pending_event (nat_str aid)), s\<lparr>ds_db := db\<rparr>)
           | (Inr (PrepReady p native src), db) \<Rightarrow>
               (case execute_from_params env remote p u native 0 (s\<lparr>ds_db := db\<rparr>) of
                  (r, s') \<Rightarrow> (Inr (result_stream said r), s'))))"

section \<open>Laws\<close>

lemma set_py_strip: "set (py_strip s) \<subseteq> set s"
  by (auto simp: py_strip_def py_lstrip_def py_rstrip_def dest!: set_dropWhileD)

lemma parse_csv_no_comma: "x \<in> set (parse_csv s) \<Longrightarrow> CHR '','' \<notin> set x"
  using set_py_strip split_on_members_no_sep by (fastforce simp: parse_csv_def)

lemma comma_list_parses: "parse_csv (comma_list s) = parse_csv s"
proof (cases "parse_csv s = []")
  case False
  then have "split_on (CHR '','') (comma_list s) = parse_csv s"
    by (simp add: comma_list_def split_on_join parse_csv_no_comma)
  moreover have "filter (\<lambda>x. py_strip x \<noteq> []) (parse_csv s) = parse_csv s" "List.map py_strip (parse_csv s) = parse_csv s"
    by (simp_all add: filter_id_conv parse_csv_members map_idI)
  ultimately show ?thesis unfolding parse_csv_def [of "comma_list s"] by simp
qed (simp add: comma_list_def)

lemma find_map_keep: "(\<And>x. P (f x) = P x) \<Longrightarrow> List.find P (List.map f xs) = map_option f (List.find P xs)"
  by (induction xs) auto

definition rule_names :: "string \<Rightarrow> rule \<Rightarrow> bool" where
  "rule_names p r = (p \<in> set (parse_csv (r_project r)))"

lemma get_rule_find: "get_rule t p = (case List.find (rule_names p) (rows t) of Some r \<Rightarrow> Some r | None \<Rightarrow> List.find (rule_names ''*'') (rows t))"
  unfolding get_rule_def list_all_rules_def match_rule_find rule_names_def ..

text \<open>The rows after a rule is saved.\<close>

lemma upsert_rows:
  assumes "upsert_rule st rb u project q t = Inr t'" "p = py_strip project"
  shows "p \<noteq> []" "rows t' = (if \<exists>r \<in> set (rows t). r_project r = p
      then List.map (\<lambda>r. if r_project r = p then saved_rule q r else r) (rows t)
      else rows t @ [rule_assign (next_id t) (saved_rule q (blank_rule p))])"
proof -
  have v: "validate_rule rb project q = Inr ()" and t: "t' = (if t_first (\<lambda>r. r_project r = p) t \<noteq> None
      then fst (t_update (\<lambda>r. r_project r = p) (saved_rule q) t) else fst (t_insert rule_assign (saved_rule q (blank_rule p)) t))"
    using assms by (auto simp: upsert_rule_def Let_def)
  show "p \<noteq> []" using v assms(2) by (auto simp: validate_rule_def split: if_splits)
  have "t_first (\<lambda>r. r_project r = p) t \<noteq> None \<longleftrightarrow> (\<exists>r \<in> set (rows t). r_project r = p)"
    by (auto simp: t_first_def find_None_iff)
  then show "rows t' = (if \<exists>r \<in> set (rows t). r_project r = p
      then List.map (\<lambda>r. if r_project r = p then saved_rule q r else r) (rows t)
      else rows t @ [rule_assign (next_id t) (saved_rule q (blank_rule p))])"
    unfolding t by simp
qed

definition sample_rule_request :: rule_request where
  "sample_rule_request = \<lparr>rq_enabled = True, rq_envs = ''prod'', rq_role = [], rq_approvers = '' amy , bob,'', rq_bot = 0, rq_rollback = True\<rparr>"

definition dora :: user where
  "dora = \<lparr>u_name = ''dora'', u_role = ''dev'', u_perms = [''cd.deploy.approve'']\<rparr>"

section \<open>What the routes start\<close>

text \<open>The request of a rollback that the gate is asked about: the parameters of the source record.\<close>

definition rollback_request :: "rollback_texts \<Rightarrow> rollback_args \<Rightarrow> user \<Rightarrow> cdb \<Rightarrow> gate_args \<Rightarrow> bool" where
  "rollback_request x a u db g \<longleftrightarrow> (\<exists>mode src p. rollback_mode a (db_logs db) = Inr mode
     \<and> rollback_source a mode (db_logs db) = Some src \<and> load_snapshot (d_params src) = Inr p
     \<and> g = rollback_gate_args a u src (rollback_params x a (mode \<in> set native_types) (d_id src) p))"

definition may_roll_back :: "denv \<Rightarrow> user \<Rightarrow> rollback_args \<Rightarrow> bool" where
  "may_roll_back env u a \<longleftrightarrow> require_perm (de_settings env) ''cd.deploy-manage'' u = Inr u \<and> ra_project a \<noteq> []
     \<and> (ra_tag a = [] \<or> tag_re (ra_tag a))"

lemma prepare_rollback_cases:
  assumes "apprs_ok (ds_db s)" "lock_inv (logs s)"
  obtains (failed) e where "prepare_rollback env x a u (ds_db s) = (Inl e, ds_db s)"
  | (opened) aid src db where "prepare_rollback env x a u (ds_db s) = (Inr (PrepPending aid src), db)" "ra_tag a = [] \<or> tag_re (ra_tag a)"
      "nothing_ran s (s\<lparr>ds_db := db\<rparr>)"
  | (ready) p native src where "prepare_rollback env x a u (ds_db s) = (Inr (PrepReady p native src), ds_db s)"
      "ra_tag a = [] \<or> tag_re (ra_tag a)" "\<exists>g. rollback_request x a u (ds_db s) g \<and> let_through g (ds_db s)"
proof -
  obtain r db where prep: "prepare_rollback env x a u (ds_db s) = (r, db)" by fastforce
  show ?thesis
  proof (cases r)
    case (Inl e)
    have same: "db' = ds_db s" if "gate_deploy js h ts g (ds_db s) = (Inl e', db')" for js h ts g e' db'
      using gate_outcome [OF assms(1) assms(2) [unfolded logs_def] that] by auto
    have "db = ds_db s"
      using prep Inl
      by (auto simp: prepare_rollback_def Let_def dest: same split: sum.splits if_splits option.splits prod.splits)
    then show ?thesis using failed prep Inl by simp
  next
    case (Inr q)
    then have "prepare_rollback env x a u (ds_db s) = (Inr q, db)" using prep by simp
    then obtain mode src p0 out where c: "rollback_mode a (db_logs (ds_db s)) = Inr mode" "ra_tag a = [] \<or> tag_re (ra_tag a)"
        "rollback_source a mode (db_logs (ds_db s)) = Some src" "load_snapshot (d_params src) = Inr p0"
        "gate_deploy (de_jobs env) (de_hints env) (de_ts env)
           (rollback_gate_args a u src (rollback_params x a (mode \<in> set native_types) (d_id src) p0)) (ds_db s) = (Inr out, db)"
        "q = (case out of Some g \<Rightarrow> PrepPending (gr_approval g) (d_id src)
           | None \<Rightarrow> PrepReady (rollback_params x a (mode \<in> set native_types) (d_id src) p0) (mode \<in> set native_types \<and> ra_tag a = []) (d_id src))"
      by (rule prepare_cases) blast
    note gate = gate_outcome [OF assms(1) assms(2) [unfolded logs_def] c(5)]
    show ?thesis
    proof (cases out)
      case None
      then have "db = ds_db s" "let_through (rollback_gate_args a u src (rollback_params x a (mode \<in> set native_types) (d_id src) p0)) (ds_db s)"
        using gate by (auto simp: let_through_def)
      moreover have "rollback_request x a u (ds_db s) (rollback_gate_args a u src (rollback_params x a (mode \<in> set native_types) (d_id src) p0))"
        using c by (auto simp: rollback_request_def)
      ultimately show ?thesis using ready prep Inr c(2,6) None by auto
    next
      case (Some g)
      then show ?thesis using opened prep Inr c(2,6) gate_leaves c(5) by simp
    qed
  qed
qed

lemma rollback_deploy_obeys:
  assumes "apprs_ok (ds_db s)" "lock_inv (logs s)"
  shows "obeys s (may_roll_back env u a) (\<exists>g. rollback_request x a u (ds_db s) g \<and> let_through g (ds_db s))
    (\<exists>r src. fst (rollback_deploy env remote x a u s) = Inr (RollbackRan r src)) (snd (rollback_deploy env remote x a u s))"
proof (cases "perm_check (de_settings env) ''cd.deploy-manage'' u = Inr () \<and> ra_project a \<noteq> []")
  case False
  then show ?thesis by (auto simp: rollback_deploy_def split: sum.splits)
next
  case True
  then have p: "require_perm (de_settings env) ''cd.deploy-manage'' u = Inr u" "ra_project a \<noteq> []" by (simp_all add: perm_check_Inr)
  show ?thesis
    using assms by (rule prepare_rollback_cases [where env = env and x = x and a = a and u = u])
      (use True p in \<open>auto simp: rollback_deploy_def rollback_def may_roll_back_def obeys_def split: prod.splits\<close>)
qed

lemma rollback_stream_obeys:
  assumes "apprs_ok (ds_db s)" "lock_inv (logs s)"
  shows "obeys s (may_roll_back env u a) (\<exists>g. rollback_request x a u (ds_db s) g \<and> let_through g (ds_db s))
    (\<exists>y. fst (rollback_deploy_stream env remote x w said a u s) = Inr y \<and> (\<forall>e. y \<noteq> error_stream e) \<and> (\<forall>m. y \<noteq> pending_event m))
    (snd (rollback_deploy_stream env remote x w said a u s))"
proof (cases "perm_check (de_settings env) ''cd.deploy-manage'' u = Inr () \<and> ra_project a \<noteq> []")
  case False
  then show ?thesis by (auto simp: rollback_deploy_stream_def obeys_def split: sum.splits)
next
  case True
  then have p: "require_perm (de_settings env) ''cd.deploy-manage'' u = Inr u" "ra_project a \<noteq> []" by (simp_all add: perm_check_Inr)
  show ?thesis
    using assms by (rule prepare_rollback_cases [where env = env and x = x and a = a and u = u])
      (use True p in \<open>auto simp: rollback_deploy_stream_def may_roll_back_def obeys_def split: prod.splits\<close>)
qed

text \<open>Who may execute which request.\<close>

definition may_execute :: "xenv \<Rightarrow> row_id \<Rightarrow> user \<Rightarrow> estate \<Rightarrow> bool" where
  "may_execute x aid u s \<longleftrightarrow> (\<exists>a p v c. get_by_id aid (db_of s) = Some a \<and> a_requester a = u_name u \<and> a_status a = Approved
     \<and> load_user_context (de_settings (xe_d x)) (xe_glue x) (xe_times x) (a_requester a) (es_caches s) = (Inr v, c)
     \<and> load_snapshot (a_params a) = Inr p \<and> enforce_execute_perm (de_settings (xe_d x)) p v = Inr ())"

lemma claim_cases:
  obtains (failed) e s1 where "claim_for_execution x aid (u_name u) s = (Inl e, s1)" "es_d s1 = es_d s"
  | (claimed) a v s1 where "claim_for_execution x aid (u_name u) s = (Inr (a, v), s1)" "may_execute x aid u s"
proof -
  obtain r s1 where c: "claim_for_execution x aid (u_name u) s = (r, s1)" by fastforce
  show ?thesis
  proof (cases r)
    case (Inl e)
    have same: "set_db (snd (transition (xe_now x) aid [Approved] Deploying no_fields (db_of s))) (s\<lparr>es_caches := k\<rparr>) = s\<lparr>es_caches := k\<rparr>"
      if "\<not> fst (transition (xe_now x) aid [Approved] Deploying no_fields (db_of s))" for k
      using transition_fail_id [OF that] by (simp add: set_db_def db_of_def)
    have "es_d s1 = es_d s"
      using c Inl same by (auto simp: claim_for_execution_def Let_def split_beta split: option.splits if_splits sum.splits prod.splits)
    then show ?thesis using failed c Inl by simp
  next
    case (Inr q)
    obtain a v where q: "q = (a, v)" by (rule prod.exhaust)
    then have cl: "claim_for_execution x aid (u_name u) s = (Inr (a, v), s1)" using c Inr by simp
    then have "may_execute x aid u s" by (rule execution_hit) (auto simp: may_execute_def)
    then show ?thesis using claimed cl by blast
  qed
qed

lemma execute_approval_obeys:
  "obeys (es_d s) (may_execute x aid u s) True (\<exists>r. fst (execute_approval x aid u s) = Inr r) (es_d (snd (execute_approval x aid u s)))"
  by (rule claim_cases [of x aid u s]) (auto simp: execute_approval_def obeys_def split: prod.splits sum.splits)

lemma execute_stream_obeys:
  "obeys (es_d s) (may_execute x aid u s) True
     (\<exists>y. fst (execute_approval_stream x said aid u s) = Inr y \<and> (\<forall>e. y \<noteq> error_stream e)) (es_d (snd (execute_approval_stream x said aid u s)))"
  by (rule claim_cases [of x aid u s]) (auto simp: execute_approval_stream_def obeys_def split: prod.splits sum.splits)

section \<open>Properties\<close>

text \<open>C18. No route starts a deployment without its checks. The four routes that deploy, with and
  without a stream, change something only for a caller with the permissions of the route and of the type and a
  legal tag, and answer with a run or leave a record of one only if, moreover, the gate lets the request
  through: nothing in it raises, and neither an approval nor a time is asked for. The two rollback routes need the
  permission, a project and a legal tag, and their gate is asked about the parameters of the source record. The
  two routes that execute a request need the requester himself, the approved status and the requester's
  present permission.\<close>

theorem routes_obey_gate:
  assumes "apprs_ok (ds_db s)" "lock_inv (logs s)"
  shows "obeys s (may_deploy env u a) (let_through (deploy_gate_args u a sched) (ds_db s))
        (\<exists>y. fst (deploy env u a sched s) = Ran y) (snd (deploy env u a sched s))
    \<and> obeys s (may_deploy env u a) (let_through (deploy_gate_args u a sched) (ds_db s))
        (\<exists>y. fst (deploy_stream env wrong said u a sched s) = Inr y \<and> y \<noteq> error_stream wrong \<and> (\<forall>aid timed. y \<noteq> pending_stream aid timed))
        (snd (deploy_stream env wrong said u a sched s))
    \<and> obeys s (may_deploy_k8s env u q) (let_through (k8s_gate_args u q) (ds_db s))
        (\<exists>y. fst (deploy_k8s env remote u q s) = Ran y) (snd (deploy_k8s env remote u q s))
    \<and> obeys s (may_deploy_k8s env u q) (let_through (k8s_gate_args u q) (ds_db s))
        (\<exists>y. fst (deploy_k8s_stream env remote quick said u q s) = Ran y \<and> (\<forall>aid timed. y \<noteq> pending_stream aid timed))
        (snd (deploy_k8s_stream env remote quick said u q s))
    \<and> obeys s (may_roll_back env u b) (\<exists>g. rollback_request x b u (ds_db s) g \<and> let_through g (ds_db s))
        (\<exists>r src. fst (rollback_deploy env remote x b u s) = Inr (RollbackRan r src)) (snd (rollback_deploy env remote x b u s))
    \<and> obeys s (may_roll_back env u b) (\<exists>g. rollback_request x b u (ds_db s) g \<and> let_through g (ds_db s))
        (\<exists>y. fst (rollback_deploy_stream env remote x wrong said b u s) = Inr y \<and> (\<forall>e. y \<noteq> error_stream e) \<and> (\<forall>m. y \<noteq> pending_event m))
        (snd (rollback_deploy_stream env remote x wrong said b u s))
    \<and> obeys (es_d t) (may_execute z aid u t) True (\<exists>r. fst (execute_approval z aid u t) = Inr r) (es_d (snd (execute_approval z aid u t)))
    \<and> obeys (es_d t) (may_execute z aid u t) True
        (\<exists>y. fst (execute_approval_stream z said aid u t) = Inr y \<and> (\<forall>e. y \<noteq> error_stream e)) (es_d (snd (execute_approval_stream z said aid u t)))"
  by (intro conjI deploy_obeys deploy_stream_obeys deploy_k8s_obeys deploy_k8s_stream_obeys rollback_deploy_obeys rollback_stream_obeys
      execute_approval_obeys execute_stream_obeys assms)

text \<open>A deployment with a time only opens a request.\<close>

theorem routes_obey_gate_witness:
  "(\<forall>x. fst (deploy sample_denv carol sample_exec ''2030-01-01 10:00'' sample_state) \<noteq> Ran x)
   \<and> nothing_ran sample_state (snd (deploy sample_denv carol sample_exec ''2030-01-01 10:00'' sample_state))"
proof -
  have "parse_scheduled_at ''2030-01-01 10:00'' \<noteq> Inr []" by code_simp
  then have t: "\<not> let_through (deploy_gate_args carol sample_exec ''2030-01-01 10:00'') (ds_db sample_state)"
    by (simp add: let_through_def deploy_gate_args_def)
  have ok: "apprs_ok (ds_db sample_state)" by (simp add: sample_state_def apprs_ok_def wf_table_def empty_table_def)
  show ?thesis
    using conjunct1 [OF routes_obey_gate [OF ok sample_state_inv, of sample_denv carol sample_exec "''2030-01-01 10:00''"]] t
    unfolding obeys_def by blast
qed

text \<open>The first rule that names a project, after a rule is saved.\<close>

lemma upsert_find:
  assumes "upsert_rule st rb u project q t = Inr t'" "p = py_strip project"
  shows "List.find (rule_names o1) (rows t') = (case List.find (rule_names o1) (rows t) of
      Some r \<Rightarrow> Some (if r_project r = p then saved_rule q r else r)
    | None \<Rightarrow> if o1 \<in> set (parse_csv p) then Some (rule_assign (next_id t) (saved_rule q (blank_rule p))) else None)"
proof -
  let ?f = "\<lambda>r. if r_project r = p then saved_rule q r else r"
  note after = upsert_rows(2) [OF assms]
  have keep: "rule_names o1 (?f r) = rule_names o1 r" for r by (simp add: rule_names_def saved_rule_def)
  have new: "rule_names o1 (rule_assign i (saved_rule q (blank_rule p))) = (o1 \<in> set (parse_csv p))" for i
    by (simp add: rule_names_def saved_rule_def blank_rule_def rule_assign_def)
  have found: "List.find (rule_names o1) (List.map ?f (rows t)) = map_option ?f (List.find (rule_names o1) (rows t))"
    by (rule find_map_keep) (rule keep)
  show ?thesis
  proof (cases "\<exists>r \<in> set (rows t). r_project r = p")
    case True
    then have "o1 \<in> set (parse_csv p) \<Longrightarrow> List.find (rule_names o1) (rows t) \<noteq> None" by (auto simp: find_None_iff rule_names_def)
    then show ?thesis unfolding after if_P [OF True] found by (auto split: option.split)
  next
    case False
    then show ?thesis unfolding after if_not_P [OF False] find_append using new
      by (auto dest: find_SomeD split: option.split)
  qed
qed

text \<open>C24. A saved rule decides on every project that its text names, unless an older rule names the project
  too, which then goes on deciding; a rule with the wildcard decides also on the projects that no rule names,
  unless an older wildcard does; and no other project gets another rule. The text of a rule may name
  several projects, or the wildcard among them.\<close>

theorem rule_takes_effect:
  assumes "upsert_rule st rb u project q t = Inr t'" "p = py_strip project"
    and "saved = (\<lambda>r. if r_project r = p then saved_rule q r else r)" "new = rule_assign (next_id t) (saved_rule q (blank_rule p))"
  shows "(o1 \<in> set (parse_csv p) \<longrightarrow>
        get_rule t' o1 = Some (case List.find (rule_names o1) (rows t) of Some r \<Rightarrow> saved r | None \<Rightarrow> new))
    \<and> (o1 \<notin> set (parse_csv p) \<and> ''*'' \<in> set (parse_csv p) \<longrightarrow>
        get_rule t' o1 = Some (case List.find (rule_names o1) (rows t) of
            Some r \<Rightarrow> r
          | None \<Rightarrow> (case List.find (rule_names ''*'') (rows t) of Some r \<Rightarrow> saved r | None \<Rightarrow> new)))
    \<and> (o1 \<notin> set (parse_csv p) \<and> ''*'' \<notin> set (parse_csv p) \<longrightarrow> get_rule t' o1 = get_rule t o1)"
proof -
  have other: "r_project r \<noteq> p" if "List.find (rule_names o2) (rows t) = Some r" "o2 \<notin> set (parse_csv p)" for o2 r
    using find_SomeD [OF that(1)] that(2) by (auto simp: rule_names_def)
  note f = upsert_find [OF assms(1,2)]
  show ?thesis
    unfolding get_rule_find f assms(3,4) using other by (auto split: option.splits)
qed

text \<open>A rule for two projects that no rule names decides on both.\<close>

theorem rule_takes_effect_witness:
  "\<exists>t' r. upsert_rule default_settings \<lparr>rb_roles = None, rb_users = None\<rparr> dora '' api,ui '' sample_rule_request sample_rules = Inr t'
     \<and> get_rule t' ''ui'' = Some r \<and> r_approvers r = ''amy,bob'' \<and> get_rule t' ''web'' = get_rule sample_rules ''web''"
proof -
  let ?t' = "fst (t_insert rule_assign (saved_rule sample_rule_request (blank_rule ''api,ui'')) sample_rules)"
  have p: "py_strip '' api,ui '' = ''api,ui''" "parse_csv ''api,ui'' = [''api'', ''ui'']" by code_simp+
  have "validate_rule \<lparr>rb_roles = None, rb_users = None\<rparr> '' api,ui '' sample_rule_request = Inr ()"
    "perm_check default_settings ''cd.deploy.approve'' dora = Inr ()" by code_simp+
  then have u: "upsert_rule default_settings \<lparr>rb_roles = None, rb_users = None\<rparr> dora '' api,ui '' sample_rule_request sample_rules = Inr ?t'"
    by (simp add: upsert_rule_def p t_first_def sample_rules_def)
  have "List.find (rule_names ''ui'') (rows sample_rules) = None" by code_simp
  moreover have "r_approvers (rule_assign i (saved_rule sample_rule_request r)) = ''amy,bob''" for i r
  proof -
    have "comma_list (rq_approvers sample_rule_request) = ''amy,bob''" by code_simp
    then show ?thesis by (simp add: saved_rule_def rule_assign_def)
  qed
  ultimately show ?thesis
    using u rule_takes_effect [OF u p(1) [symmetric] refl refl, of "''ui''"] rule_takes_effect [OF u p(1) [symmetric] refl refl, of "''web''"]
    by (simp add: p(2))
qed

lemma requests_seen:
  assumes "\<not> is_manager st u" "u_name u \<noteq> []"
    and "v \<in> set (p_items (list_requests st status project kind active mine page page_size u db))"
  shows "a_requester (av_request v) = u_name u"
proof -
  have who: "asked_requester st mine u = u_name u" using assms(1) by (simp add: asked_requester_def)
  obtain a where a: "a \<in> set (p_items (list_approvals status project (u_name u) kind page page_size active db))" "av_request v = a"
    using assms(3) unfolding list_requests_def who by (auto simp: enrich_def Let_def)
  then have "a \<in> set (list_order active (t_where (list_filter status project (u_name u) kind active) (db_apprs db)))"
    by (auto simp: list_approvals_def paginate_def page_slice_def Let_def dest!: in_set_takeD in_set_dropD)
  then show ?thesis using a(2) assms(2) by (auto simp: list_order_def t_where_def list_filter_def split: if_splits)
qed

text \<open>C23. A caller who is no manager sees own requests only, in the list and one by one.\<close>

theorem requests_private:
  assumes "\<not> is_manager st u" "u_name u \<noteq> []"
  shows "(\<forall>v \<in> set (p_items (list_requests st status project kind active mine page page_size u db)).
      a_requester (av_request v) = u_name u)
    \<and> (\<forall>aid v. get_approval st aid u db = Inr v \<longrightarrow> a_requester (av_request v) = u_name u)"
  using requests_seen [OF assms] assms(1) by (auto simp: get_approval_def enrich_def split: option.splits if_splits)

theorem requests_private_witness:
  "(\<lambda>v. a_requester (av_request v)) ` set (p_items (list_requests default_settings [] [] [] False False 1 20 amy sample_db)) \<subseteq> {''amy''}"
proof -
  have "\<not> is_manager default_settings amy" "u_name amy = ''amy''" by code_simp+
  then have "\<forall>v \<in> set (p_items (list_requests default_settings [] [] [] False False 1 20 amy sample_db)). a_requester (av_request v) = ''amy''"
    using requests_private [of default_settings amy] by (simp only: not_Cons_self2 list.distinct refl) blast
  then show ?thesis by blast
qed

text \<open>Who may approve a request only because the rule names the person or the role can neither list
  nor open it.\<close>

theorem approver_blind:
  assumes "get_by_id aid db = Some a" "get_rule (db_rules db) (a_project a) = Some r" "u_name u \<in> set (parse_csv (r_approvers r))"
    and "\<not> is_manager st u" "u_name u \<noteq> []" "a_requester a \<noteq> u_name u"
  shows "can_approve st (Some r) u \<and> get_approval st aid u db = Inl approval_not_found
    \<and> (\<forall>v \<in> set (p_items (list_requests st status project kind active mine page page_size u db)). av_request v \<noteq> a)"
  using requests_seen [OF assms(4,5)] assms by (auto simp: can_approve_def get_approval_def)

theorem approver_blind_witness:
  "can_approve default_settings (get_rule sample_rules ''web'') amy
   \<and> get_approval default_settings 1 amy sample_db = Inl approval_not_found"
proof -
  have "\<not> is_manager default_settings amy" "u_name amy \<in> set (parse_csv (r_approvers (hd (rows sample_rules))))" "u_name amy \<noteq> []"
    "a_requester sample_approval \<noteq> u_name amy" by code_simp+
  moreover have "get_by_id 1 sample_db = Some sample_approval" by (simp add: get_by_id_def t_get_def sample_db_def sample_approval_def)
  moreover have "get_rule (db_rules sample_db) (a_project sample_approval) = Some (hd (rows sample_rules))"
    using sample_get_rule by (simp add: sample_db_def sample_approval_def)
  ultimately show ?thesis using approver_blind [of 1 sample_db sample_approval "hd (rows sample_rules)" amy default_settings]
    sample_get_rule by auto
qed

text \<open>The validation of approvers ignores case, the authority does not.\<close>

lemma approver_case:
  "validate_rule_via_glue \<lparr>rb_roles = None, rb_users = Some [''amy'']\<rparr> [] [''Amy''] = Inr ()
   \<and> \<not> can_approve default_settings (Some ((hd (rows sample_rules))\<lparr>r_approvers := ''Amy''\<rparr>)) amy"
  by code_simp

end
