(* ===== verification/CiClient.thy ===== *)
theory CiClient
  imports Oidc Deployers
begin

text \<open>
  \<^verbatim>\<open>backend/services/ci_client.py\<close>: the client of the CI service with its token (a fixed
  one, or a login that is renewed before it ends), the repeated request after a refusal, the classification
  of failures, the unwrapping of answers and the list of refs with its memory of a missing route. The
  answers of the service are parameters, numbered over the life of the client, and so is the text of a
  JSON value; times are whole seconds, and the query parameters of an address are left out.
\<close>

section \<open>Answers and failures\<close>

datatype http_answer = Answered json | NotJson | HttpFailed nat "json option" | NetFailed

text \<open>A \<^verbatim>\<open>CiClientError\<close> with the status and the message of the service, or an exception
  that escapes as it is.\<close>

datatype ci_error = CiClientError "nat option" "json option" | Escaped

record ci_conf =
  cc_base :: string
  cc_fixed :: "string option"
  cc_now :: int
  cc_login :: "nat \<Rightarrow> http_answer"
  cc_text :: "json \<Rightarrow> string"
  cc_ask :: "nat \<Rightarrow> string \<Rightarrow> string \<Rightarrow> http_answer"

record ci_state =
  ci_token :: "string option"
  ci_expiry :: int
  ci_logins :: nat
  ci_requests :: nat
  ci_refs_missing :: int

definition is_static :: "ci_conf \<Rightarrow> bool" where
  "is_static c = (case cc_fixed c of None \<Rightarrow> False | Some t \<Rightarrow> t \<noteq> [])"

definition new_client :: "ci_conf \<Rightarrow> ci_state" where
  "new_client c = \<lparr>ci_token = (if is_static c then cc_fixed c else None), ci_expiry = 0, ci_logins = 0, ci_requests = 0,
     ci_refs_missing = 0\<rparr>"

definition plain_error :: ci_error where
  "plain_error = CiClientError None None"

section \<open>The token\<close>

text \<open>A login whose answer is no object escapes, every other failure is classified.\<close>

definition ci_login :: "ci_conf \<Rightarrow> http_answer \<Rightarrow> ci_error + string" where
  "ci_login c a =
     (case a of
        Answered (JObj m) \<Rightarrow>
          (case jget m ''token'' of
             JStr t \<Rightarrow> if t = [] then Inl plain_error else Inr t
           | v \<Rightarrow> if jtruthy v then Inr (cc_text c v) else Inl plain_error)
      | Answered _ \<Rightarrow> Inl Escaped
      | _ \<Rightarrow> Inl plain_error)"

definition token_fresh :: "ci_conf \<Rightarrow> ci_state \<Rightarrow> bool" where
  "token_fresh c s = (is_static c \<or> ci_token s \<noteq> None \<and> cc_now c < ci_expiry s - 60)"

definition ensure_token :: "ci_conf \<Rightarrow> ci_state \<Rightarrow> (ci_error + unit) \<times> ci_state" where
  "ensure_token c s =
     (if token_fresh c s then (Inr (), s)
      else case ci_login c (cc_login c (ci_logins s)) of
             Inl e \<Rightarrow> (Inl e, s\<lparr>ci_logins := Suc (ci_logins s)\<rparr>)
           | Inr t \<Rightarrow> (Inr (), s\<lparr>ci_logins := Suc (ci_logins s), ci_token := Some t, ci_expiry := cc_now c + 86400\<rparr>))"

definition force_relogin :: "ci_conf \<Rightarrow> ci_state \<Rightarrow> (ci_error + unit) \<times> ci_state" where
  "force_relogin c s =
     (if is_static c then (Inl plain_error, s) else ensure_token c (s\<lparr>ci_token := None\<rparr>))"

definition auth_header :: "ci_state \<Rightarrow> string" where
  "auth_header s = ''Bearer '' @ (case ci_token s of Some t \<Rightarrow> t | None \<Rightarrow> ''None'')"

section \<open>Requests\<close>

definition send :: "ci_conf \<Rightarrow> string \<Rightarrow> ci_state \<Rightarrow> http_answer \<times> ci_state" where
  "send c url s = (cc_ask c (ci_requests s) url (auth_header s), s\<lparr>ci_requests := Suc (ci_requests s)\<rparr>)"

definition error_message :: "json option \<Rightarrow> json option" where
  "error_message body =
     (case body of
        Some (JObj m) \<Rightarrow>
          (let v = (if jtruthy (jget m ''message'') then jget m ''message'' else jget m ''detail'')
           in if v = JNull then None else Some v)
      | _ \<Rightarrow> None)"

text \<open>After a 401 the request is sent once more with a new token, outside the handlers.\<close>

definition again :: "ci_conf \<Rightarrow> string \<Rightarrow> ci_state \<Rightarrow> (ci_error + json) \<times> ci_state" where
  "again c url s =
     (case force_relogin c s of
        (Inl e, s1) \<Rightarrow> (Inl e, s1)
      | (Inr _, s1) \<Rightarrow>
          (case send c url s1 of
             (Answered v, s2) \<Rightarrow> (Inr v, s2)
           | (_, s2) \<Rightarrow> (Inl Escaped, s2)))"

definition get_json :: "ci_conf \<Rightarrow> string \<Rightarrow> ci_state \<Rightarrow> (ci_error + json) \<times> ci_state" where
  "get_json c url s =
     (case ensure_token c s of
        (Inl e, s1) \<Rightarrow> (Inl e, s1)
      | (Inr _, s1) \<Rightarrow>
          (case send c url s1 of
             (Answered v, s2) \<Rightarrow> (Inr v, s2)
           | (HttpFailed n body, s2) \<Rightarrow>
               if n = 401 then again c url s2 else (Inl (CiClientError (Some n) (error_message body)), s2)
           | (_, s2) \<Rightarrow> (Inl plain_error, s2)))"

text \<open>A post classifies the errors of the protocol only, without the status.\<close>

definition post_json :: "ci_conf \<Rightarrow> string \<Rightarrow> ci_state \<Rightarrow> (ci_error + json) \<times> ci_state" where
  "post_json c url s =
     (case ensure_token c s of
        (Inl e, s1) \<Rightarrow> (Inl e, s1)
      | (Inr _, s1) \<Rightarrow>
          (case send c url s1 of
             (Answered v, s2) \<Rightarrow> (Inr v, s2)
           | (HttpFailed n body, s2) \<Rightarrow> if n = 401 then again c url s2 else (Inl plain_error, s2)
           | (_, s2) \<Rightarrow> (Inl Escaped, s2)))"

section \<open>Addresses and answers\<close>

definition api_url :: "ci_conf \<Rightarrow> string \<Rightarrow> (string \<times> string) list \<Rightarrow> string" where
  "api_url c template args =
     rstrip_char (CHR ''/'') (cc_base c) @ fold (\<lambda>(k, v) t. py_replace ([CHR 0x7B] @ k @ [CHR 0x7D]) v t) args template"

definition unwrap :: "json \<Rightarrow> json" where
  "unwrap v = (case v of JObj m \<Rightarrow> (case map_of m ''data'' of Some d \<Rightarrow> d | None \<Rightarrow> v) | _ \<Rightarrow> v)"

definition unwrap_object :: "json \<Rightarrow> json" where
  "unwrap_object v = (case v of JObj m \<Rightarrow> (case map_of m ''data'' of Some (JObj d) \<Rightarrow> JObj d | _ \<Rightarrow> v) | _ \<Rightarrow> v)"

definition unwrap_list :: "string \<Rightarrow> json \<Rightarrow> json list" where
  "unwrap_list key v =
     (case v of
        JObj m \<Rightarrow> (case jget m key of JList xs \<Rightarrow> xs | _ \<Rightarrow> [])
      | JList xs \<Rightarrow> xs
      | _ \<Rightarrow> [])"

definition ci_answered :: "(json \<Rightarrow> 'a) \<Rightarrow> (ci_error + json) \<times> ci_state \<Rightarrow> (ci_error + 'a) \<times> ci_state" where
  "ci_answered f r = (map_sum id f (fst r), snd r)"

definition braces :: "string \<Rightarrow> string" where
  "braces s = [CHR 0x7B] @ s @ [CHR 0x7D]"

definition build_path :: "string \<Rightarrow> string" where
  "build_path rest = ''/api/build/'' @ braces ''path'' @ rest"

definition get_projects :: "ci_conf \<Rightarrow> ci_state \<Rightarrow> (ci_error + json) \<times> ci_state" where
  "get_projects c s = ci_answered unwrap (get_json c (api_url c ''/api/build/projects'' []) s)"

definition get_tags :: "ci_conf \<Rightarrow> string \<Rightarrow> ci_state \<Rightarrow> (ci_error + json) \<times> ci_state" where
  "get_tags c project s = ci_answered unwrap (get_json c (api_url c (build_path ''/tags'') [(''path'', project)]) s)"

definition get_builds :: "ci_conf \<Rightarrow> string \<Rightarrow> ci_state \<Rightarrow> (ci_error + json) \<times> ci_state" where
  "get_builds c project s = ci_answered unwrap_object (get_json c (api_url c (build_path ''/pipelines'') [(''path'', project)]) s)"

definition get_variables :: "ci_conf \<Rightarrow> string \<Rightarrow> ci_state \<Rightarrow> (ci_error + json) \<times> ci_state" where
  "get_variables c project s = ci_answered unwrap (get_json c (api_url c (build_path ''/variables'') [(''path'', project)]) s)"

definition get_branches :: "ci_conf \<Rightarrow> string \<Rightarrow> ci_state \<Rightarrow> (ci_error + json) \<times> ci_state" where
  "get_branches c project s = ci_answered unwrap (get_json c (api_url c (build_path ''/branches'') [(''path'', project)]) s)"

definition get_service_contract :: "ci_conf \<Rightarrow> string \<Rightarrow> ci_state \<Rightarrow> (ci_error + json) \<times> ci_state" where
  "get_service_contract c service s =
     ci_answered unwrap_object (get_json c (api_url c (''/api/integration/services/'' @ braces ''service'') [(''service'', service)]) s)"

definition trigger_build :: "ci_conf \<Rightarrow> string \<Rightarrow> ci_state \<Rightarrow> (ci_error + json) \<times> ci_state" where
  "trigger_build c project s = post_json c (api_url c (build_path ''/trigger'') [(''path'', project)]) s"

definition pipeline_action :: "ci_conf \<Rightarrow> string \<Rightarrow> string \<Rightarrow> string \<Rightarrow> ci_state \<Rightarrow> (ci_error + json) \<times> ci_state" where
  "pipeline_action c act project bid s =
     post_json c (api_url c (build_path (''/pipelines/'' @ braces ''id'' @ ''/'' @ act)) [(''path'', project), (''id'', bid)]) s"

definition ci_list_users :: "ci_conf \<Rightarrow> ci_state \<Rightarrow> (ci_error + json list) \<times> ci_state" where
  "ci_list_users c s = ci_answered (unwrap_list ''users'') (get_json c (api_url c ''/api/rbac/users'' []) s)"

definition ci_list_roles :: "ci_conf \<Rightarrow> ci_state \<Rightarrow> (ci_error + json list) \<times> ci_state" where
  "ci_list_roles c s = ci_answered (unwrap_list ''roles'') (get_json c (api_url c ''/api/rbac/roles'' []) s)"

section \<open>Refs\<close>

text \<open>\<open>text\<close> is \<^verbatim>\<open>str\<close> of a number or truth value.\<close>

definition as_str_list :: "(json \<Rightarrow> string) \<Rightarrow> json \<Rightarrow> string list" where
  "as_str_list str v =
     (case v of
        JList xs \<Rightarrow> filter (\<lambda>s. s \<noteq> []) (List.map (\<lambda>x. case x of
            JStr s \<Rightarrow> py_strip s | JNum _ \<Rightarrow> py_strip (str x) | JReal _ \<Rightarrow> py_strip (str x) | JBool _ \<Rightarrow> py_strip (str x) | _ \<Rightarrow> []) xs)
      | _ \<Rightarrow> [])"

record refs =
  rf_branches :: "string list"
  rf_tags :: "string list"

definition normalize_refs :: "(json \<Rightarrow> string) \<Rightarrow> json \<Rightarrow> refs" where
  "normalize_refs str v =
     (case unwrap_object v of
        JObj m \<Rightarrow> \<lparr>rf_branches = as_str_list str (jget m ''branches''), rf_tags = as_str_list str (jget m ''tags'')\<rparr>
      | _ \<Rightarrow> \<lparr>rf_branches = [], rf_tags = []\<rparr>)"

definition refs_missing_ttl :: int where
  "refs_missing_ttl = 300"

definition refs_url :: "ci_conf \<Rightarrow> string \<Rightarrow> string" where
  "refs_url c project = api_url c (''/api/git/'' @ braces ''path'' @ ''/refs'') [(''path'', project)]"

definition branches_only :: "ci_conf \<Rightarrow> (json \<Rightarrow> string) \<Rightarrow> string \<Rightarrow> ci_state \<Rightarrow> (ci_error + refs) \<times> ci_state" where
  "branches_only c str project s =
     ci_answered (\<lambda>v. \<lparr>rf_branches = as_str_list str v, rf_tags = []\<rparr>) (get_branches c project s)"

definition get_refs :: "ci_conf \<Rightarrow> (json \<Rightarrow> string) \<Rightarrow> string \<Rightarrow> ci_state \<Rightarrow> (ci_error + refs) \<times> ci_state" where
  "get_refs c str project s =
     (if cc_now c < ci_refs_missing s then branches_only c str project s
      else case get_json c (refs_url c project) s of
             (Inr v, s1) \<Rightarrow> (Inr (normalize_refs str v), s1)
           | (Inl e, s1) \<Rightarrow>
               (case e of
                  CiClientError (Some n) _ \<Rightarrow>
                    if n = 404 \<or> n = 405 then branches_only c str project (s1\<lparr>ci_refs_missing := cc_now c + refs_missing_ttl\<rparr>)
                    else (Inl e, s1)
                | _ \<Rightarrow> (Inl e, s1)))"

section \<open>Laws\<close>

definition token_inv :: "ci_conf \<Rightarrow> ci_state \<Rightarrow> bool" where
  "token_inv c s \<longleftrightarrow> (is_static c \<longrightarrow> ci_token s = cc_fixed c)"

lemma ensure_token_cases:
  assumes "ensure_token c s = (r, s')"
  obtains "s' = s" "r = Inr ()" "token_fresh c s"
    | e where "r = Inl e" "s' = s\<lparr>ci_logins := Suc (ci_logins s)\<rparr>" "\<not> is_static c"
    | t where "r = Inr ()" "s' = s\<lparr>ci_logins := Suc (ci_logins s), ci_token := Some t, ci_expiry := cc_now c + 86400\<rparr>" "\<not> is_static c"
  using assms by (auto simp: ensure_token_def token_fresh_def split: if_splits sum.splits)

lemma ensure_token_counts:
  "ensure_token c s = (r, s') \<Longrightarrow> ci_requests s' = ci_requests s \<and> ci_logins s' \<le> Suc (ci_logins s) \<and> (token_inv c s \<longrightarrow> token_inv c s')
    \<and> (r = Inr () \<longrightarrow> token_fresh c s') \<and> ci_refs_missing s' = ci_refs_missing s"
  by (erule ensure_token_cases) (auto simp: token_inv_def token_fresh_def)

lemma relogin_counts:
  "force_relogin c s = (r, s') \<Longrightarrow> ci_requests s' = ci_requests s \<and> ci_logins s' \<le> Suc (ci_logins s) \<and> (token_inv c s \<longrightarrow> token_inv c s')
    \<and> (r = Inr () \<longrightarrow> token_fresh c s' \<and> \<not> is_static c) \<and> ci_refs_missing s' = ci_refs_missing s"
  using ensure_token_counts [of c "s\<lparr>ci_token := None\<rparr>" r s'] by (auto simp: force_relogin_def token_inv_def split: if_splits)

lemma again_counts:
  assumes "again c url s = (r, s')"
  shows "ci_requests s' \<le> Suc (ci_requests s) \<and> ci_logins s' \<le> Suc (ci_logins s) \<and> (token_inv c s \<longrightarrow> token_inv c s')"
proof (cases "force_relogin c s")
  case (Pair q s1)
  then show ?thesis using assms relogin_counts [OF Pair]
    by (cases q) (auto simp: again_def send_def token_inv_def split: http_answer.splits)
qed

lemma get_json_counts:
  assumes "get_json c url s = (r, s')"
  shows "ci_requests s' \<le> ci_requests s + 2 \<and> ci_logins s' \<le> ci_logins s + 2 \<and> (token_inv c s \<longrightarrow> token_inv c s')"
proof (cases "ensure_token c s")
  case (Pair q s1)
  let ?s2 = "s1\<lparr>ci_requests := Suc (ci_requests s1)\<rparr>"
  have one: "ci_requests s1 = ci_requests s" "ci_logins s1 \<le> Suc (ci_logins s)" "token_inv c s \<Longrightarrow> token_inv c ?s2"
    using ensure_token_counts [OF Pair] by (auto simp: token_inv_def)
  consider "s' = s1" | "s' = ?s2" | "again c url ?s2 = (r, s')"
    using assms Pair by (cases q) (auto simp: get_json_def send_def split: http_answer.splits if_splits)
  then show ?thesis
  proof cases
    case 3
    then show ?thesis using again_counts [OF 3] one by auto
  qed (use one in \<open>auto simp: token_inv_def\<close>)
qed

lemma as_str_list_clean: "x \<in> set (as_str_list str v) \<Longrightarrow> x \<noteq> [] \<and> py_strip x = x"
  by (auto simp: as_str_list_def split: json.splits)

section \<open>Properties\<close>

text \<open>A call for refs sends at most four requests and logs in at most four times, whatever the service
  answers, and keeps a fixed token.\<close>

theorem refs_bounded:
  assumes "get_refs c str project s = (r, s')"
  shows "ci_requests s' \<le> ci_requests s + 4 \<and> ci_logins s' \<le> ci_logins s + 4 \<and> (token_inv c s \<longrightarrow> token_inv c s')"
proof -
  have only: "ci_requests s' \<le> ci_requests s + 2 \<and> ci_logins s' \<le> ci_logins s + 2 \<and> (token_inv c s \<longrightarrow> token_inv c s')"
    if "branches_only c str project s = (r, s')" for s
    using that get_json_counts [of c "api_url c (build_path ''/branches'') [(''path'', project)]" s]
    by (cases "get_json c (api_url c (build_path ''/branches'') [(''path'', project)]) s")
       (auto simp: branches_only_def ci_answered_def get_branches_def)
  show ?thesis
  proof (cases "get_json c (refs_url c project) s")
    case (Pair q s1)
    note one = get_json_counts [OF Pair]
    consider "branches_only c str project s = (r, s')" | "s' = s1"
      | "branches_only c str project (s1\<lparr>ci_refs_missing := cc_now c + refs_missing_ttl\<rparr>) = (r, s')"
      using assms Pair by (cases q) (auto simp: get_refs_def split: if_splits ci_error.splits option.splits)
    then show ?thesis
    proof cases
      case 1
      then show ?thesis using only [OF 1] by auto
    next
      case 2
      then show ?thesis using one by auto
    next
      case 3
      then show ?thesis using only [OF 3] one by (auto simp: token_inv_def)
    qed
  qed
qed

text \<open>C31. The candidates for a build are always two lists of stripped, non-empty texts, whatever the
  service answers.\<close>

theorem refs_clean:
  assumes "get_refs c str project s = (Inr rf, s')" "x \<in> set (rf_branches rf) \<union> set (rf_tags rf)"
  shows "x \<noteq> [] \<and> py_strip x = x"
proof -
  have only: "x \<in> set (rf_branches rf) \<union> set (rf_tags rf) \<Longrightarrow> branches_only c str project s = (Inr rf, s') \<Longrightarrow> x \<noteq> [] \<and> py_strip x = x" for s
    using as_str_list_clean [of x str]
    by (cases "fst (get_branches c project s)") (auto simp: branches_only_def ci_answered_def)
  have norm: "x \<in> set (rf_branches (normalize_refs str v)) \<union> set (rf_tags (normalize_refs str v)) \<Longrightarrow> x \<noteq> [] \<and> py_strip x = x" for v
    using as_str_list_clean [of x str] by (auto simp: normalize_refs_def split: json.splits)
  show ?thesis
  proof (cases "get_json c (refs_url c project) s")
    case (Pair q s1)
    then show ?thesis using assms only [OF assms(2)] norm
      by (cases q) (auto simp: get_refs_def split: if_splits ci_error.splits option.splits)
  qed
qed

text \<open>A request that is refused twice does not end in the error of the client: the second failure
  escapes the handlers.\<close>

theorem second_refusal_escapes:
  assumes "\<not> is_static c" "token_fresh c s" "cc_ask c (ci_requests s) url (auth_header s) = HttpFailed 401 body"
    and "ci_login c (cc_login c (ci_logins s)) = Inr t" "cc_ask c (Suc (ci_requests s)) url (''Bearer '' @ t) = HttpFailed n body'"
  shows "fst (get_json c url s) = Inl Escaped"
  using assms by (simp add: get_json_def ensure_token_def send_def again_def force_relogin_def token_fresh_def auth_header_def)

text \<open>A missing route is remembered: for five minutes only the branches are asked for.\<close>

lemma refs_remembered:
  "cc_now c' < ci_refs_missing s \<Longrightarrow> get_refs c' str project s = branches_only c' str project s"
  by (simp add: get_refs_def)

section \<open>A sample\<close>

definition sample_ci :: ci_conf where
  "sample_ci = \<lparr>cc_base = ''http://ci/'', cc_fixed = None, cc_now = 1000, cc_login = (\<lambda>_. Answered (JObj [(''token'', JStr ''t2'')])),
     cc_text = (\<lambda>_. []), cc_ask = (\<lambda>n url h. if contains_sub ''refs'' url then HttpFailed (if h = ''Bearer t1'' then 401 else 403) None
       else Answered (JList [JStr '' main '', JStr [], JNull]))\<rparr>"

definition sample_ci_state :: ci_state where
  "sample_ci_state = \<lparr>ci_token = Some ''t1'', ci_expiry = 5000, ci_logins = 0, ci_requests = 0, ci_refs_missing = 2000\<rparr>"

lemma sample_refs: "\<exists>s'. get_refs sample_ci (\<lambda>_. []) ''web'' sample_ci_state = (Inr \<lparr>rf_branches = [''main''], rf_tags = []\<rparr>, s')"
proof -
  have "fst (get_refs sample_ci (\<lambda>_. []) ''web'' sample_ci_state) = Inr \<lparr>rf_branches = [''main''], rf_tags = []\<rparr>" by code_simp
  then show ?thesis by (metis prod.collapse)
qed

theorem refs_bounded_witness:
  "ci_requests (snd (get_refs sample_ci (\<lambda>_. []) ''web'' sample_ci_state)) \<le> 4"
  using refs_bounded [of sample_ci "\<lambda>_. []" "''web''" sample_ci_state] by (simp add: sample_ci_state_def prod_eq_iff)

theorem refs_clean_witness:
  "py_strip ''main'' = ''main'' \<and> (\<exists>s'. get_refs sample_ci (\<lambda>_. []) ''web'' sample_ci_state = (Inr \<lparr>rf_branches = [''main''], rf_tags = []\<rparr>, s'))"
  using sample_refs refs_clean [of sample_ci "\<lambda>_. []" "''web''" sample_ci_state "\<lparr>rf_branches = [''main''], rf_tags = []\<rparr>" _ "''main''"]
  by fastforce

theorem second_refusal_escapes_witness:
  "fst (get_json sample_ci ''http://ci/refs'' sample_ci_state) = Inl Escaped"
proof (rule second_refusal_escapes [where t = "''t2''" and n = 403 and body = None and body' = None])
  show "\<not> is_static sample_ci" "token_fresh sample_ci sample_ci_state" by code_simp+
  show "ci_login sample_ci (cc_login sample_ci (ci_logins sample_ci_state)) = Inr ''t2''" by code_simp
  show "cc_ask sample_ci (ci_requests sample_ci_state) ''http://ci/refs'' (auth_header sample_ci_state) = HttpFailed 401 None" by code_simp
  show "cc_ask sample_ci (Suc (ci_requests sample_ci_state)) ''http://ci/refs'' (''Bearer '' @ ''t2'') = HttpFailed 403 None" by code_simp
qed

end
