(* ===== verification/Collector.thy ===== *)
theory Collector
  imports Monitor Deploy
begin

text \<open>
  \<^verbatim>\<open>backend/services/alert_collector.py\<close>: what the alert checker measures on a server, by
  the resource of the rule. What the server answers to a command is a parameter; the outputs are
  read with the readers of theories Measures, Monitor and CustomMonitors.
\<close>

record collect_env =
  co_keys :: keyring
  co_connect :: "target \<Rightarrow> bool"
  co_out :: "server \<Rightarrow> string \<Rightarrow> string option"
  co_script :: string
  co_reader :: reader
  co_db :: monitor_db

definition measured :: "string \<Rightarrow> string \<Rightarrow> string \<Rightarrow> int \<Rightarrow> measurement" where
  "measured name resource sub v = \<lparr>me_name = name, me_value = v, me_resource = resource, me_sub_type = sub, me_unit = [],
     me_raw = [], me_entity = [], me_metric = []\<rparr>"

text \<open>A value that is reported when it reaches the threshold; \<open>None\<close> raises.\<close>

definition over :: "int \<Rightarrow> fval \<Rightarrow> (int \<Rightarrow> measurement) \<Rightarrow> measurement list option" where
  "over threshold v f = (if at_least v threshold then map_option (\<lambda>n. [f n]) (whole v 1 1) else Some [])"

section \<open>The system\<close>

definition cpu_over :: "int \<Rightarrow> sysinfo \<Rightarrow> measurement list option" where
  "cpu_over threshold info =
     (if si_load info = [] then Some []
      else Option.bind (py_float (hd (py_words (si_load info)))) (\<lambda>load.
           map_option (\<lambda>pct. if threshold \<le> pct then [measured [] ''cpu'' [] pct] else [])
             (percent_of load (case py_int (si_cores info) of Some n \<Rightarrow> n | None \<Rightarrow> 1))))"

definition memory_over :: "int \<Rightarrow> sysinfo \<Rightarrow> measurement list option" where
  "memory_over threshold info =
     over threshold (case py_float (rstrip_char (CHR ''%'') (si_mem_percent info)) of Some v \<Rightarrow> v | None \<Rightarrow> Dec 0 0)
       (measured [] ''memory'' [])"

definition disk_over :: "int \<Rightarrow> sysinfo \<Rightarrow> measurement list option" where
  "disk_over threshold info =
     (let pct = (case py_int (rstrip_char (CHR ''%'') (si_disk_percent info)) of Some n \<Rightarrow> n | None \<Rightarrow> 0)
      in Some (if threshold \<le> pct then [measured [] ''disk'' [] pct] else []))"

section \<open>Containers, pods and processes\<close>

text \<open>The rows of an output, until one raises.\<close>

definition all_rows :: "('a \<Rightarrow> measurement list option) \<Rightarrow> 'a list \<Rightarrow> measurement list option" where
  "all_rows f xs = map_option concat (those (List.map f xs))"

text \<open>A row of which both numbers can be read.\<close>

definition both :: "string \<Rightarrow> string \<Rightarrow> (fval \<Rightarrow> fval \<Rightarrow> measurement list option) \<Rightarrow> measurement list option" where
  "both cpu mem f = (case (py_float cpu, py_float mem) of (Some c, Some m) \<Rightarrow> f c m | _ \<Rightarrow> Some [])"

definition docker_over :: "string \<Rightarrow> int \<Rightarrow> string list \<Rightarrow> measurement list option" where
  "docker_over resource threshold p =
     (if length p < 3 then Some []
      else both (rstrip_char (CHR ''%'') (p ! 1)) (rstrip_char (CHR ''%'') (p ! 2)) (\<lambda>c m.
        if resource = ''docker_cpu'' then over threshold c (measured (p ! 0) resource ''docker'')
        else if resource = ''docker_memory'' then over threshold m (measured (p ! 0) resource ''docker'') else Some []))"

definition rstrip_chars :: "string \<Rightarrow> string \<Rightarrow> string" where
  "rstrip_chars cs s = rev (dropWhile (\<lambda>x. x \<in> set cs) (rev s))"

text \<open>The thresholds of pods are estimates: a core is 1000 millicores, a node has 8192 MiB.\<close>

definition pod_over :: "string \<Rightarrow> int \<Rightarrow> string list \<Rightarrow> measurement list option" where
  "pod_over resource threshold p =
     (if length p < 4 then Some []
      else both (rstrip_chars ''m'' (p ! 2)) (rstrip_chars ''Mi'' (p ! 3)) (\<lambda>c m.
        let found = measured (p ! 0 @ ''/'' @ p ! 1) resource ''pod''
        in if resource = ''pod_cpu'' then (if above c (threshold * 10) 1 then map_option (\<lambda>n. [found n]) (whole c 1 10) else Some [])
           else if resource = ''pod_memory''
           then (if above m (8192 * threshold) 100 then map_option (\<lambda>n. [found n]) (whole m 100 8192) else Some [])
           else Some []))"

definition process_over :: "string \<Rightarrow> int \<Rightarrow> string list \<Rightarrow> measurement list option" where
  "process_over resource threshold p =
     (if length p < 3 then Some []
      else both (p ! 1) (p ! 2) (\<lambda>c m.
        let found = measured ((if 3 < length p then p ! 3 else p ! 0) @ ''('' @ p ! 0 @ '')'') resource ''process''
        in if resource = ''process_cpu'' then over threshold c found
           else if resource = ''process_memory'' then over threshold m found else Some []))"

section \<open>Custom monitors\<close>

definition custom_name :: "monitor \<Rightarrow> item \<Rightarrow> string" where
  "custom_name m x = cm_name m @ (if it_label x \<noteq> [] then ''['' @ it_label x @ '']'' else [])
     @ (if it_metric x \<noteq> [] then '' '' @ it_metric x else [])"

text \<open>Whether an item is of the metric that the rule names.\<close>

definition of_metric :: "metric list \<Rightarrow> int option \<Rightarrow> item \<Rightarrow> bool" where
  "of_metric ms wanted x =
     (case wanted of
        None \<Rightarrow> True
      | Some k \<Rightarrow> (case filter (\<lambda>m. int (mt_id m) = k) ms of [] \<Rightarrow> False | m # _ \<Rightarrow> it_field x = mt_field m))"

definition item_over :: "int \<Rightarrow> string \<Rightarrow> monitor \<Rightarrow> metric list \<Rightarrow> int option \<Rightarrow> item \<Rightarrow> measurement list option" where
  "item_over threshold resource m ms wanted x =
     (case it_value x of
        None \<Rightarrow> Some []
      | Some v \<Rightarrow>
          if \<not> of_metric ms wanted x then Some []
          else over threshold v (\<lambda>n. \<lparr>me_name = custom_name m x, me_value = n, me_resource = resource, me_sub_type = ''custom'',
                 me_unit = it_unit x, me_raw = it_raw x, me_entity = it_label x, me_metric = it_metric x\<rparr>))"

text \<open>The monitor and the metric of a resource; the inner \<open>None\<close> raises.\<close>

definition custom_ids :: "string \<Rightarrow> (int \<times> int option option) option" where
  "custom_ids resource =
     (let parts = split_on (CHR ''_'') resource
      in map_option (\<lambda>mid. (mid, if 2 < length parts then map_option Some (py_int (parts ! 2)) else Some None)) (py_int (parts ! 1)))"

definition custom_over :: "collect_env \<Rightarrow> int \<Rightarrow> string \<Rightarrow> server \<Rightarrow> measurement list option" where
  "custom_over e threshold resource s =
     (case custom_ids resource of
        None \<Rightarrow> Some []
      | Some (_, None) \<Rightarrow> None
      | Some (mid, Some wanted) \<Rightarrow>
          (case List.find (\<lambda>r. int (cm_id r) = mid \<and> cm_enabled r) (rows (md_monitors (co_db e))) of
             None \<Rightarrow> Some []
           | Some m \<Rightarrow>
               (let ms = load_metrics (cm_id m) (md_metrics (co_db e))
                in Option.bind (co_out e s (cm_command m)) (\<lambda>out.
                   Option.bind (parse_output (co_reader e) (py_strip out) (cm_format m) ms)
                     (all_rows (item_over threshold resource m ms wanted))))))"

section \<open>Collecting\<close>

definition probe_rule :: "collect_env \<Rightarrow> alert_rule \<Rightarrow> server \<Rightarrow> measurement list option" where
  "probe_rule e rule s =
     (let resource = py_lower (ar_resource rule); t = ar_threshold rule
      in if resource \<in> {''cpu'', ''memory'', ''disk''}
         then Option.bind (co_out e s (co_script e)) (\<lambda>out.
                (if resource = ''cpu'' then cpu_over else if resource = ''memory'' then memory_over else disk_over) t (ssh_test out))
         else if starts_with ''docker_'' resource
         then Option.bind (co_out e s (''docker stats --no-stream --format '' @ apostrophed ''{{.Name}}|{{.CPUPerc}}|{{.MemPerc}}'' @ '' 2>/dev/null''))
                (\<lambda>out. all_rows (docker_over resource t) (bar_lines out))
         else if starts_with ''pod_'' resource
         then Option.bind (co_out e s ''kubectl top pods --all-namespaces --no-headers 2>/dev/null'')
                (\<lambda>out. all_rows (pod_over resource t) (top_lines out))
         else if starts_with ''process_'' resource
         then Option.bind (co_out e s (processes_cmd ''10'')) (\<lambda>out. all_rows (process_over resource t) (bar_lines out))
         else if starts_with ''custom_'' resource then custom_over e t resource s
         else Some [])"

definition reachable_by :: "collect_env \<Rightarrow> server \<Rightarrow> bool" where
  "reachable_by e s = (case build_target (co_keys e) s of Inl _ \<Rightarrow> False | Inr (_, t) \<Rightarrow> co_connect e t)"

definition collect_alert_metrics :: "collect_env \<Rightarrow> alert_rule \<Rightarrow> server \<Rightarrow> measurement list result" where
  "collect_alert_metrics e =
     collect_over (reachable_by e) (\<lambda>rule s. case probe_rule e rule s of None \<Rightarrow> Inl OtherError | Some ms \<Rightarrow> Inr ms)"

section \<open>Laws\<close>

lemma those_all_Nil: "(\<And>x. x \<in> set xs \<Longrightarrow> f x = Some []) \<Longrightarrow> all_rows f xs = Some []"
proof -
  assume a: "\<And>x. x \<in> set xs \<Longrightarrow> f x = Some []"
  have "those (List.map f xs) = Some (List.map (\<lambda>_. []) xs)" using a by (induction xs) auto
  then show ?thesis by (simp add: all_rows_def)
qed

text \<open>Without the metric that a rule names nothing is measured, whatever the server answers.\<close>

lemma no_metric_no_result:
  assumes "custom_ids resource = Some (int mid, Some (Some k))"
    and "\<And>m. m \<in> set (t_where (\<lambda>r. mt_monitor r = mid) (md_metrics (co_db e))) \<Longrightarrow> int (mt_id m) \<noteq> k"
  shows "custom_over e t resource s \<in> {None, Some []}"
proof (cases "List.find (\<lambda>r. int (cm_id r) = int mid \<and> cm_enabled r) (rows (md_monitors (co_db e)))")
  case (Some m)
  let ?ms = "load_metrics (cm_id m) (md_metrics (co_db e))"
  have "cm_id m = mid" using find_SomeD [OF Some] by simp
  then have "filter (\<lambda>m. int (mt_id m) = k) ?ms = []" using assms(2) by (auto simp: filter_empty_conv load_metrics_def)
  then have "item_over t resource m ?ms (Some k) x = Some []" for x
    by (simp add: item_over_def of_metric_def split: option.splits)
  then have n: "all_rows (item_over t resource m ?ms (Some k)) = (\<lambda>_. Some [])" by (simp add: those_all_Nil fun_eq_iff)
  have "custom_over e t resource s = Option.bind (co_out e s (cm_command m)) (\<lambda>out.
      Option.bind (parse_output (co_reader e) (py_strip out) (cm_format m) ?ms) (\<lambda>xs. Some []))"
    unfolding custom_over_def assms(1) using Some by (simp add: n Let_def)
  then show ?thesis by (auto split: bind_splits)
qed (simp add: custom_over_def assms(1))

lemma digits_are_part: "list_all is_digit s \<Longrightarrow> s \<noteq> [] \<Longrightarrow> digit_part s"
proof (induction s rule: digit_part.induct)
  case (3 c d s)
  have "\<not> is_digit (CHR ''_'')" by code_simp
  then have "d \<noteq> CHR ''_''" using "3.prems" by auto
  then show ?case using 3 by simp
qed simp_all

lemma py_int_nat_str: "py_int (nat_str n) = Some (int n)"
proof -
  have d: "list_all is_digit (nat_str n)" by (rule nat_str_all_digit)
  have "\<not> is_digit (CHR ''-'')" "\<not> is_digit (CHR ''+'')" by code_simp+
  moreover have "is_digit (hd (nat_str n))" using d by (cases "nat_str n") simp_all
  ultimately have sg: "split_sign (nat_str n) = (False, nat_str n)" by (auto simp: split_sign_def split: list.splits)
  have "\<not> is_space c" if "is_digit c" for c using that by (auto simp: is_digit_def is_space_def Let_def)
  then have st: "py_strip (nat_str n) = nat_str n"
    using d by (intro py_strip_fix) (auto simp: list_all_iff)
  have "filter is_digit (nat_str n) = nat_str n" using d by (simp add: list_all_iff filter_id_conv)
  then show ?thesis using digits_are_part [OF d] by (simp add: py_int_def st sg digits_value_def signed_def)
qed

definition metric_resource :: "row_id \<Rightarrow> row_id \<Rightarrow> string" where
  "metric_resource mid k = ''custom_'' @ nat_str mid @ ''_'' @ nat_str k"

lemma metric_resource_ids: "custom_ids (metric_resource mid k) = Some (int mid, Some (Some (int k)))"
proof -
  have no: "CHR ''_'' \<notin> set ''custom''" by simp
  have "split_on (CHR ''_'') (''custom'' @ CHR ''_'' # (nat_str mid @ CHR ''_'' # nat_str k)) = [''custom'', nat_str mid, nat_str k]"
    unfolding split_on_append_sep [OF no] split_on_append_sep [OF underscore_no_digit] split_on_no_sep [OF underscore_no_digit]
    by (rule refl)
  then show ?thesis by (simp add: custom_ids_def metric_resource_def py_int_nat_str Let_def)
qed

lemma metric_resource_probe: "py_lower (ar_resource rule) = metric_resource mid k \<Longrightarrow>
    probe_rule e rule s = custom_over e (ar_threshold rule) (metric_resource mid k) s"
  by (simp add: probe_rule_def Let_def) (simp add: metric_resource_def starts_with_def)

text \<open>A rule of which every server yields nothing or fails sends nothing.\<close>

lemma silent_rule:
  assumes "\<And>s. av_collect env rule s = Inr [] \<or> (\<exists>x. av_collect env rule s = Inl x)"
  shows "al_posts (snd (check_one env now rule st)) = al_posts st"
proof -
  have "al_posts (snd (check_server env now rule b s st)) = al_posts st" for b s st
    using assms [of s] by (auto simp: check_server_def)
  then have "al_posts (snd (each (check_server env now rule b) ss st)) = al_posts st" for b ss
    using each_keeps [of ss "\<lambda>x. al_posts x = al_posts st" "check_server env now rule b" st] by simp
  then show ?thesis by (auto simp: check_one_def split: option.splits)
qed

section \<open>Properties\<close>

text \<open>An update of a custom monitor silences every alert rule on one of its metrics: the metrics get
  new ids, the rule keeps the old one, finds no result, and never alerts again, whatever the
  servers answer.\<close>

theorem update_silences_rules:
  assumes "update_monitor mid req defs db = (Inr (), db')" "wf_table mt_id (md_metrics db)"
    and "m \<in> set (rows (md_metrics db))" "py_lower (ar_resource rule) = metric_resource mid (mt_id m)"
    and "co_db e = db'" "av_collect env = collect_alert_metrics e"
  shows "al_posts (snd (check_one env now rule st)) = al_posts st"
proof (rule silent_rule)
  fix s
  have upd: "md_metrics db' = save_metrics mid defs (md_metrics db)"
    using assms(1) by (auto simp: update_monitor_def split: sum.splits if_splits)
  have "mt_id m < next_id (md_metrics db)" using assms(2,3) by (simp add: wf_table_def)
  then have "int (mt_id r) \<noteq> int (mt_id m)" if "r \<in> set (t_where (\<lambda>r. mt_monitor r = mid) (md_metrics (co_db e)))" for r
    using number_ids that unfolding assms(5) upd save_metrics_of(1) by fastforce
  then have "custom_over e (ar_threshold rule) (metric_resource mid (mt_id m)) s \<in> {None, Some []}"
    using no_metric_no_result [OF metric_resource_ids] by blast
  then show "av_collect env rule s = Inr [] \<or> (\<exists>x. av_collect env rule s = Inl x)"
    unfolding assms(6) collect_alert_metrics_def collect_over_def metric_resource_probe [OF assms(4)] by auto
qed

text \<open>Before the update the rule measures an excess on the server, after it nothing.\<close>

definition sample_collect :: "monitor_db \<Rightarrow> collect_env" where
  "sample_collect db = \<lparr>co_keys = sample_keyring, co_connect = (\<lambda>_. True), co_out = (\<lambda>_ _. Some (sample_csv [])), co_script = [],
     co_reader = sample_reader, co_db = db\<rparr>"

definition sample_custom_rule :: alert_rule where
  "sample_custom_rule = sample_alert_rule\<lparr>ar_resource := ''custom_3_7'', ar_threshold := 20\<rparr>"

theorem update_silences_rules_witness:
  "(case collect_alert_metrics (sample_collect sample_monitors) sample_custom_rule sample_web of Inr ms \<Rightarrow> List.map me_value ms = [20] | _ \<Rightarrow> False)
   \<and> al_posts (snd (check_one (sample_alert_env\<lparr>av_collect := collect_alert_metrics
        (sample_collect (snd (update_monitor 3 sample_monitor [sample_metric] sample_monitors)))\<rparr>) 90000 sample_custom_rule fresh_memory)) = []"
proof
  show "case collect_alert_metrics (sample_collect sample_monitors) sample_custom_rule sample_web of
      Inr ms \<Rightarrow> List.map me_value ms = [20] | _ \<Rightarrow> False" by code_simp
  have "wf_table mt_id (md_metrics sample_monitors)" "sample_metric \<in> set (rows (md_metrics sample_monitors))"
    by (simp_all add: wf_table_def sample_monitors_def sample_metric_def)
  moreover have "py_lower (ar_resource sample_custom_rule) = metric_resource 3 (mt_id sample_metric)" by code_simp
  ultimately show "al_posts (snd (check_one (sample_alert_env\<lparr>av_collect := collect_alert_metrics
        (sample_collect (snd (update_monitor 3 sample_monitor [sample_metric] sample_monitors)))\<rparr>) 90000 sample_custom_rule fresh_memory)) = []"
    using update_silences_rules [OF sample_update, of sample_metric sample_custom_rule "sample_collect (snd (update_monitor 3 sample_monitor [sample_metric] sample_monitors))"]
    by (simp add: sample_collect_def fresh_memory_def)
qed

end
