(* ===== verification/Admin.thy ===== *)
theory Admin
  imports CiClient RegistrySync DeployRoutes Collector
begin

text \<open>
  The remaining routes over tables and services: the bots (\<^verbatim>\<open>backend/routers/bots.py\<close>), the
  alert rules with the resources they may name (\<^verbatim>\<open>alerts.py\<close>), the read-only contract of
  the deployment records (\<^verbatim>\<open>logs.py\<close>), the registry routes (\<^verbatim>\<open>registry.py\<close>)
  and the build routes (\<^verbatim>\<open>ci_build.py\<close>). A request that raises leaves its table as it was.
\<close>

section \<open>Bots\<close>

record bot_row = bot +
  bo_name :: string

record bot_req =
  bq_name :: string
  bq_type :: string
  bq_url :: string
  bq_template :: string

definition bot_assign :: "row_id \<Rightarrow> bot_row \<Rightarrow> bot_row" where
  "bot_assign i b = b\<lparr>b_id := i\<rparr>"

definition list_bots :: "bot_row table \<Rightarrow> bot_row list" where
  "list_bots t = sort_key bo_name (rows t)"

definition add_bot :: "settings \<Rightarrow> bool \<Rightarrow> user \<Rightarrow> bot_req \<Rightarrow> bot_row table \<Rightarrow> unit result \<times> bot_row table" where
  "add_bot st sqlite u q t =
     (case perm_check st ''cd.notification-manage'' u of
        Inl e \<Rightarrow> (Inl e, t)
      | Inr _ \<Rightarrow>
          if list_ex (\<lambda>b. bo_name b = bq_name q) (rows t)
          then (Inl (if sqlite then DatabaseError (Some ''errors.bot_add_failed'') else ConflictError (Some ''errors.bot_already_exists'')), t)
          else (Inr (), fst (t_insert bot_assign
            \<lparr>b_id = 0, b_type = bq_type q, b_url = bq_url q, b_template = bq_template q, bo_name = bq_name q\<rparr> t)))"

definition delete_bot :: "settings \<Rightarrow> user \<Rightarrow> row_id \<Rightarrow> bot_row table \<Rightarrow> unit result \<times> bot_row table" where
  "delete_bot st u i t =
     (case perm_check st ''cd.notification-manage'' u of
        Inl e \<Rightarrow> (Inl e, t)
      | Inr _ \<Rightarrow> (Inr (), fst (t_delete (\<lambda>b. b_id b = i) t)))"

section \<open>Alert rules\<close>

record alert_row = alert_rule +
  al_name :: string
  al_created :: string

definition alert_assign :: "row_id \<Rightarrow> alert_row \<Rightarrow> alert_row" where
  "alert_assign i r = r\<lparr>ar_id := i\<rparr>"

definition list_alerts :: "alert_row table \<Rightarrow> alert_row list" where
  "list_alerts t = rev (sort_key al_created (rev (rows t)))"

text \<open>The request as a row; the time is the one of the database.\<close>

definition create_alert :: "settings \<Rightarrow> string \<Rightarrow> user \<Rightarrow> alert_row \<Rightarrow> alert_row table \<Rightarrow> unit result \<times> alert_row table" where
  "create_alert st now u q t =
     (case perm_check st ''cd.monitor.alert'' u of
        Inl e \<Rightarrow> (Inl e, t)
      | Inr _ \<Rightarrow> (Inr (), fst (t_insert alert_assign (q\<lparr>al_created := now\<rparr>) t)))"

definition update_alert :: "settings \<Rightarrow> user \<Rightarrow> row_id \<Rightarrow> alert_row \<Rightarrow> alert_row table \<Rightarrow> unit result \<times> alert_row table" where
  "update_alert st u i q t =
     (case perm_check st ''cd.monitor.alert'' u of
        Inl e \<Rightarrow> (Inl e, t)
      | Inr _ \<Rightarrow>
          if t_get ar_id i t = None then (Inl (NotFoundError (Some ''errors.alert_not_found'')), t)
          else (Inr (), fst (t_update (\<lambda>r. ar_id r = i) (\<lambda>r. q\<lparr>ar_id := i, al_created := al_created r\<rparr>) t)))"

definition delete_alert :: "settings \<Rightarrow> user \<Rightarrow> row_id \<Rightarrow> alert_row table \<Rightarrow> unit result \<times> alert_row table" where
  "delete_alert st u i t =
     (case perm_check st ''cd.monitor.alert'' u of
        Inl e \<Rightarrow> (Inl e, t)
      | Inr _ \<Rightarrow> (Inr (), fst (t_delete (\<lambda>r. ar_id r = i) t)))"

text \<open>The resources an alert rule may name: the fixed ones, and for every enabled monitor itself and its
  metrics.\<close>

definition fixed_resources :: "string list" where
  "fixed_resources = [''cpu'', ''memory'', ''disk'', ''pod_cpu'', ''pod_memory'', ''docker_cpu'', ''docker_memory'', ''process_cpu'',
     ''process_memory'']"

record resource_group =
  rs_value :: string
  rs_name :: string
  rs_children :: "(string \<times> string) list"

definition monitor_value :: "row_id \<Rightarrow> string" where
  "monitor_value i = ''custom_'' @ nat_str i"

definition metrics_of :: "row_id \<Rightarrow> monitor_db \<Rightarrow> metric list" where
  "metrics_of i db = sort_key mt_sort (sort_key mt_id (t_where (\<lambda>m. mt_monitor m = i) (md_metrics db)))"

definition list_resource_types :: "monitor_db \<Rightarrow> string list \<times> resource_group list" where
  "list_resource_types db =
     (fixed_resources,
      List.map (\<lambda>r. \<lparr>rs_value = monitor_value (cm_id r), rs_name = cm_name r,
          rs_children = List.map (\<lambda>m. (metric_resource (cm_id r) (mt_id m), mt_name m)) (metrics_of (cm_id r) db)\<rparr>)
        (sort_key cm_name (t_where cm_enabled (md_monitors db))))"

section \<open>The contract of deployment records\<close>

record log_query =
  lq_project :: string
  lq_status :: string
  lq_type :: string
  lq_from :: string
  lq_to :: string
  lq_page :: int
  lq_size :: int

text \<open>The pattern ends in \<^verbatim>\<open>$\<close>, which also matches before a final line feed.\<close>

definition date_re :: "string \<Rightarrow> bool" where
  "date_re s0 =
     (let s = (if length s0 = 11 \<and> last s0 = newline then butlast s0 else s0)
      in length s = 10 \<and> s ! 4 = CHR ''-'' \<and> s ! 7 = CHR ''-''
         \<and> list_all is_digit (take 4 s @ take 2 (drop 5 s) @ drop 8 s))"

text \<open>\<open>since\<close> is the day thirty days ago.\<close>

definition log_wanted :: "string \<Rightarrow> log_query \<Rightarrow> dlog \<Rightarrow> bool" where
  "log_wanted since q r =
     ((lq_project q = [] \<or> sql_like (''%'' @ lq_project q @ ''%'') (d_project r))
      \<and> (lq_status q = [] \<or> d_status r = lq_status q) \<and> (lq_type q = [] \<or> d_type r = lq_type q)
      \<and> (if lq_from q \<noteq> [] \<or> lq_to q \<noteq> []
         then (lq_from q = [] \<or> lq_from q \<le> d_created r) \<and> (lq_to q = [] \<or> d_created r \<le> lq_to q @ '' 23:59:59'')
         else since \<le> d_created r))"

definition integration_deploy_logs ::
  "settings \<Rightarrow> string option \<Rightarrow> unit result \<Rightarrow> string \<Rightarrow> log_query \<Rightarrow> dlog table \<Rightarrow> dlog page result" where
  "integration_deploy_logs st bearer gate since q t =
     and_then (verify_inbound_api_token st bearer) (\<lambda>_.
     and_then gate (\<lambda>_.
     if list_ex (\<lambda>v. v \<noteq> [] \<and> \<not> date_re v) [lq_from q, lq_to q] then Inl (ValidationError None)
     else let p = clamp_page (lq_page q); n = clamp_size (lq_size q);
              found = rev (t_where (log_wanted since q) t); tot = int (length found)
          in Inr \<lparr>p_items = page_slice p n found, p_total = tot, p_page = p, p_size = n, p_total_pages = (tot + n - 1) div n\<rparr>))"

section \<open>Registry routes\<close>

definition registry_perm :: "settings \<Rightarrow> user \<Rightarrow> unit result" where
  "registry_perm st u = perm_check st ''cd.image-registry'' u"

definition scan_report_route ::
  "settings \<Rightarrow> registry_env \<Rightarrow> (string \<Rightarrow> string \<Rightarrow> report_answer) \<Rightarrow> user \<Rightarrow> row_id \<Rightarrow> string \<Rightarrow> registry_db \<Rightarrow> report result" where
  "scan_report_route st e ask u rid tag db =
     and_then (registry_perm st u) (\<lambda>_.
     case get_scan_report e ask rid tag db of
       NoReport key \<Rightarrow> Inl (NotFoundError (Some (str_or key ''errors.scan_report_error'')))
     | r \<Rightarrow> Inr r)"

definition trigger_scan_route ::
  "settings \<Rightarrow> registry_env \<Rightarrow> (string \<Rightarrow> string \<Rightarrow> report_answer) \<Rightarrow> user \<Rightarrow> row_id \<Rightarrow> string \<Rightarrow> registry_db \<Rightarrow> unit result" where
  "trigger_scan_route st e ask u rid tag db =
     and_then (registry_perm st u) (\<lambda>_. map_sum (\<lambda>key. ValidationError (Some key)) id (trigger_scan e ask rid tag db))"

definition trigger_sync_route :: "settings \<Rightarrow> registry_env \<Rightarrow> user \<Rightarrow> string \<Rightarrow> registry_db \<Rightarrow> sync_reply result \<times> registry_db" where
  "trigger_sync_route st e u project db =
     (case registry_perm st u of
        Inl x \<Rightarrow> (Inl x, db)
      | Inr _ \<Rightarrow> (case (if project \<noteq> [] then sync_for_project e project db else sync_all e db) of (r, db') \<Rightarrow> (Inr r, db')))"

text \<open>The interval that is stored; zero switches the thread off.\<close>

definition update_sync_config :: "settings \<Rightarrow> user \<Rightarrow> int \<Rightarrow> config \<Rightarrow> int result \<times> config" where
  "update_sync_config st u interval cfg =
     (case registry_perm st u of
        Inl x \<Rightarrow> (Inl x, cfg)
      | Inr _ \<Rightarrow>
          if interval < 0 then (Inl (ValidationError (Some ''errors.negative_interval'')), cfg)
          else (Inr interval, (''registry_sync_interval'', int_text interval) # filter (\<lambda>kv. fst kv \<noteq> ''registry_sync_interval'') cfg))"

section \<open>Build routes\<close>

text \<open>The error of the client becomes the error of the route, what escapes the client stays what it is.\<close>

definition ci_reply :: "string \<Rightarrow> (ci_error + 'a) \<Rightarrow> 'a result" where
  "ci_reply key r =
     (case r of
        Inr v \<Rightarrow> Inr v
      | Inl (CiClientError _ _) \<Rightarrow> Inl (ServiceUnavailableError (Some key))
      | Inl Escaped \<Rightarrow> Inl OtherError)"

definition ci_route ::
  "settings \<Rightarrow> string \<Rightarrow> string \<Rightarrow> user \<Rightarrow> (ci_state \<Rightarrow> (ci_error + 'a) \<times> ci_state) \<Rightarrow> ci_state \<Rightarrow> 'a result \<times> ci_state" where
  "ci_route st perm key u call s =
     (case perm_check st perm u of
        Inl e \<Rightarrow> (Inl e, s)
      | Inr _ \<Rightarrow> (case call s of (r, s') \<Rightarrow> (ci_reply key r, s')))"

definition unavailable_key :: string where
  "unavailable_key = ''errors.ci_service_unavailable''"

definition refs_route :: "settings \<Rightarrow> ci_conf \<Rightarrow> (json \<Rightarrow> string) \<Rightarrow> user \<Rightarrow> string \<Rightarrow> ci_state \<Rightarrow> refs result \<times> ci_state" where
  "refs_route st c str u project = ci_route st ''cd.build-manage'' unavailable_key u (get_refs c str project)"

definition variables_route :: "settings \<Rightarrow> ci_conf \<Rightarrow> user \<Rightarrow> string \<Rightarrow> ci_state \<Rightarrow> json result \<times> ci_state" where
  "variables_route st c u project = ci_route st ''cd.build-manage'' unavailable_key u (get_variables c project)"

definition branches_route :: "settings \<Rightarrow> ci_conf \<Rightarrow> user \<Rightarrow> string \<Rightarrow> ci_state \<Rightarrow> json result \<times> ci_state" where
  "branches_route st c u project = ci_route st ''cd.build-manage'' unavailable_key u (get_branches c project)"

text \<open>Here every exception becomes the error of the route.\<close>

definition builds_route :: "settings \<Rightarrow> ci_conf \<Rightarrow> user \<Rightarrow> string \<Rightarrow> ci_state \<Rightarrow> json result \<times> ci_state" where
  "builds_route st c u project s =
     (case ci_route st ''cd.build-manage'' unavailable_key u (get_builds c project) s of
        (Inl OtherError, s') \<Rightarrow> (Inl (ServiceUnavailableError (Some unavailable_key)), s')
      | out \<Rightarrow> out)"

text \<open>An order drops the cached projects once it is accepted.\<close>

definition ci_order ::
  "settings \<Rightarrow> string \<Rightarrow> user \<Rightarrow> (ci_state \<Rightarrow> (ci_error + json) \<times> ci_state) \<Rightarrow> ci_state \<times> job list cache1 \<Rightarrow> json result \<times> ci_state \<times> job list cache1" where
  "ci_order st key u call s =
     (case ci_route st ''ci.trigger'' key u call (fst s) of
        (Inr v, s') \<Rightarrow> (Inr v, s', invalidate_projects_cache (snd s))
      | (Inl e, s') \<Rightarrow> (Inl e, s', snd s))"

definition trigger_build_route ::
  "settings \<Rightarrow> ci_conf \<Rightarrow> user \<Rightarrow> string \<Rightarrow> ci_state \<times> job list cache1 \<Rightarrow> json result \<times> ci_state \<times> job list cache1" where
  "trigger_build_route st c u project = ci_order st ''errors.ci_trigger_failed'' u (trigger_build c project)"

definition retry_route ::
  "settings \<Rightarrow> ci_conf \<Rightarrow> user \<Rightarrow> string \<Rightarrow> string \<Rightarrow> ci_state \<times> job list cache1 \<Rightarrow> json result \<times> ci_state \<times> job list cache1" where
  "retry_route st c u project bid = ci_order st ''errors.ci_retry_failed'' u (pipeline_action c ''retry'' project bid)"

definition cancel_route ::
  "settings \<Rightarrow> ci_conf \<Rightarrow> user \<Rightarrow> string \<Rightarrow> string \<Rightarrow> ci_state \<times> job list cache1 \<Rightarrow> json result \<times> ci_state \<times> job list cache1" where
  "cancel_route st c u project bid = ci_order st ''errors.ci_cancel_failed'' u (pipeline_action c ''cancel'' project bid)"

section \<open>Properties\<close>

text \<open>Every resource offered under a monitor is understood by the collector: it reads back as the
  monitor, which is enabled, and one of its metrics.\<close>

theorem resources_read_back:
  assumes "g \<in> set (snd (list_resource_types db))" "(v, name) \<in> set (rs_children g)"
  shows "\<exists>r \<in> set (rows (md_monitors db)). \<exists>m \<in> set (rows (md_metrics db)). cm_enabled r \<and> mt_monitor m = cm_id r \<and> name = mt_name m
    \<and> rs_value g = monitor_value (cm_id r) \<and> custom_ids v = Some (int (cm_id r), Some (Some (int (mt_id m))))"
proof -
  obtain r where r: "r \<in> set (rows (md_monitors db))" "cm_enabled r" "rs_value g = monitor_value (cm_id r)"
    "rs_children g = List.map (\<lambda>m. (metric_resource (cm_id r) (mt_id m), mt_name m)) (metrics_of (cm_id r) db)"
    using assms(1) by (auto simp: list_resource_types_def t_where_def)
  obtain m where "m \<in> set (metrics_of (cm_id r) db)" "v = metric_resource (cm_id r) (mt_id m)" "name = mt_name m"
    using assms(2) r(4) by auto
  then show ?thesis using r metric_resource_ids
    by (intro bexI [of _ r] bexI [of _ m]) (auto simp: metrics_of_def t_where_def)
qed

text \<open>The contract gives a caller with the token at most a hundred records, each within the filters,
  newest first, with the true number of records found.\<close>

theorem contract_within_filters:
  assumes "integration_deploy_logs st bearer gate since q t = Inr p" "wf_table d_id t"
  shows "cd_api_token st \<noteq> [] \<and> or_empty bearer = cd_api_token st \<and> gate = Inr () \<and> length (p_items p) \<le> 100
    \<and> set (p_items p) \<subseteq> {r \<in> set (rows t). log_wanted since q r}
    \<and> sorted_wrt (>) (List.map d_id (p_items p)) \<and> p_total p = int (length (filter (log_wanted since q) (rows t)))"
proof -
  let ?found = "rev (t_where (log_wanted since q) t)"
  have auth: "verify_inbound_api_token st bearer = Inr ()" "gate = Inr ()"
    and p: "p_items p = page_slice (clamp_page (lq_page q)) (clamp_size (lq_size q)) ?found" "p_total p = int (length ?found)"
    using assms(1) by (auto simp: integration_deploy_logs_def Let_def split: if_splits)
  have "sorted_wrt (<) (List.map d_id (filter (log_wanted since q) (rows t)))"
    using assms(2) by (simp add: wf_table_def sorted_wrt_map sorted_wrt_filter)
  then have "sorted_wrt (>) (List.map d_id ?found)" by (simp add: t_where_def rev_map [symmetric] sorted_wrt_rev)
  then have "sorted_wrt (>) (List.map d_id (p_items p))"
    unfolding p(1) page_slice_def by (simp add: take_map [symmetric] drop_map [symmetric] sorted_wrt_take sorted_wrt_drop)
  moreover have "length (p_items p) \<le> 100"
    unfolding p(1) using length_page_slice [of "clamp_size (lq_size q)" "clamp_page (lq_page q)" ?found] clamp_size_bounds [of "lq_size q"]
    by linarith
  moreover have "set (p_items p) \<subseteq> {r \<in> set (rows t). log_wanted since q r}"
    unfolding p(1) page_slice_def by (auto simp: t_where_def dest!: in_set_takeD in_set_dropD)
  ultimately show ?thesis using auth p(2)
    by (auto simp: verify_inbound_api_token_def t_where_def Let_def split: if_splits)
qed

section \<open>A sample\<close>

definition sample_query :: log_query where
  "sample_query = \<lparr>lq_project = ''we'', lq_status = [], lq_type = [], lq_from = [], lq_to = [], lq_page = 0, lq_size = 500\<rparr>"

lemma sample_contract:
  "\<exists>p. integration_deploy_logs (default_settings\<lparr>cd_api_token := ''t''\<rparr>) (Some ''t'') (Inr ()) [] sample_query sample_table = Inr p"
proof -
  have "verify_inbound_api_token (default_settings\<lparr>cd_api_token := ''t''\<rparr>) (Some ''t'') = Inr ()" by code_simp
  then show ?thesis by (simp add: integration_deploy_logs_def sample_query_def Let_def)
qed

theorem resources_read_back_witness:
  "list_ex (\<lambda>g. list_ex (\<lambda>c. custom_ids (fst c) = Some (3, Some (Some 7))) (rs_children g)) (snd (list_resource_types sample_monitors))"
proof -
  have "snd (list_resource_types sample_monitors) \<noteq> []" "rs_children (hd (snd (list_resource_types sample_monitors))) = [(''custom_3_7'', mt_name sample_metric)]"
    by code_simp+
  moreover have "\<forall>r \<in> set (rows (md_monitors sample_monitors)). cm_id r = 3" "\<forall>m \<in> set (rows (md_metrics sample_monitors)). mt_id m = 7"
    by code_simp+
  ultimately show ?thesis
    using resources_read_back [of "hd (snd (list_resource_types sample_monitors))" sample_monitors "''custom_3_7''" "mt_name sample_metric"]
    by (cases "snd (list_resource_types sample_monitors)") auto
qed

theorem contract_within_filters_witness:
  "\<exists>p. integration_deploy_logs (default_settings\<lparr>cd_api_token := ''t''\<rparr>) (Some ''t'') (Inr ()) [] sample_query sample_table = Inr p
     \<and> length (p_items p) \<le> 100"
proof -
  have "wf_table d_id sample_table" by (simp add: wf_table_def sample_simps)
  then show ?thesis using sample_contract contract_within_filters by blast
qed

end
