(* ===== verification/Status.thy ===== *)
theory Status
  imports Contract DeployRun Deployers
begin

text \<open>
  \<^verbatim>\<open>main.py\<close>: the answers to exceptions, the headers put on every response, the public
  status with its probe of the contract and its cache, and the metrics. Texts for people are left out, the
  wiring of routers and the static files are the framework's; the answer of the contract endpoint, the
  reachability of the database and the result of listing its tables are parameters.
\<close>

section \<open>Answers to exceptions and headers\<close>

record error_body =
  eb_code :: nat
  eb_key :: "string option"

definition app_exception_handler :: "exc \<Rightarrow> error_body" where
  "app_exception_handler e = \<lparr>eb_code = status_code e, eb_key = error_key e\<rparr>"

definition unhandled_body :: error_body where
  "unhandled_body = \<lparr>eb_code = 500, eb_key = Some ''errors.internal_error''\<rparr>"

definition error_response :: "exc \<Rightarrow> error_body" where
  "error_response e = (if is_app_exception e then app_exception_handler e else unhandled_body)"

text \<open>A source of the content policy stands in single quotes.\<close>

definition quoted :: "string \<Rightarrow> string" where
  "quoted s = [CHR 0x27] @ s @ [CHR 0x27]"

definition content_policy :: string where
  "content_policy =
     ''default-src '' @ quoted ''self'' @ ''; script-src '' @ quoted ''self'' @ ''; style-src '' @ quoted ''self'' @ '' '' @
     quoted ''unsafe-inline'' @ ''; img-src '' @ quoted ''self'' @ '' data:; font-src '' @ quoted ''self'' @
     ''; connect-src '' @ quoted ''self'' @ '' ws: wss:; object-src '' @ quoted ''none'' @ ''; base-uri '' @ quoted ''self'' @
     ''; form-action '' @ quoted ''self'' @ ''; frame-ancestors '' @ quoted ''none''"

definition security_headers :: "(string \<times> string) list" where
  "security_headers =
     [(''X-Content-Type-Options'', ''nosniff''), (''X-Frame-Options'', ''DENY''), (''Referrer-Policy'', ''no-referrer''),
      (''Content-Security-Policy'', content_policy)]"

text \<open>A header that is there already stays; names are compared without case.\<close>

definition set_default :: "string \<times> string \<Rightarrow> (string \<times> string) list \<Rightarrow> (string \<times> string) list" where
  "set_default h hs = (if list_ex (\<lambda>x. py_lower (fst x) = py_lower (fst h)) hs then hs else hs @ [h])"

definition add_security_headers :: "(string \<times> string) list \<Rightarrow> (string \<times> string) list" where
  "add_security_headers hs = fold set_default security_headers hs"

section \<open>The probe of the contract\<close>

text \<open>The body of an answer with code 200: no object, or its two fields, each of which may be missing.\<close>

datatype probe_answer = NoAnswer | OtherCode nat | NoObject | Fields "raw option" "raw option"

record probe =
  pb_code :: "nat option"
  pb_enabled :: "bool option"
  pb_provision :: "string option"

definition probe_contract :: "probe_answer \<Rightarrow> probe" where
  "probe_contract a =
     (case a of
        NoAnswer \<Rightarrow> \<lparr>pb_code = None, pb_enabled = None, pb_provision = None\<rparr>
      | OtherCode n \<Rightarrow> \<lparr>pb_code = Some n, pb_enabled = None, pb_provision = None\<rparr>
      | NoObject \<Rightarrow> \<lparr>pb_code = Some 200, pb_enabled = None, pb_provision = None\<rparr>
      | Fields en pr \<Rightarrow>
          \<lparr>pb_code = Some 200,
           pb_enabled = Some (py_lower (py_strip (case en of None \<Rightarrow> [] | Some r \<Rightarrow> raw_str r)) \<notin> {[], ''0'', ''false'', ''none''}),
           pb_provision = Some (if py_lower (py_strip (case pr of None \<Rightarrow> [] | Some r \<Rightarrow> str_or_blank r)) = ''manual''
             then ''manual'' else ''auto'')\<rparr>)"

section \<open>The status\<close>

record facts =
  fa_db :: bool
  fa_oidc_missing :: "string list"
  fa_url :: bool
  fa_token :: bool
  fa_probe :: probe_answer
  fa_tables :: "string list option"

text \<open>What the endpoint said, if it was asked, and whether the tables are complete, if that is known.\<close>

definition contract_of :: "facts \<Rightarrow> probe" where
  "contract_of f = (if fa_url f \<and> fa_token f then probe_contract (fa_probe f)
     else \<lparr>pb_code = None, pb_enabled = None, pb_provision = None\<rparr>)"

definition tables_of :: "facts \<Rightarrow> bool option" where
  "tables_of f =
     (if pb_code (contract_of f) = Some 200 \<and> pb_enabled (contract_of f) = Some True
      then map_option (\<lambda>ts. cd_missing_tables ts = []) (fa_tables f) else None)"

definition status_of :: "facts \<Rightarrow> string \<times> string" where
  "status_of f =
     (let p = contract_of f
      in if \<not> fa_db f then (''db_error'', ''db'')
         else if fa_oidc_missing f \<noteq> [] then (''misconfigured'', ''oidc'')
         else if \<not> fa_url f then (''misconfigured'', ''api_url'')
         else if \<not> fa_token f then (''misconfigured'', ''api_token'')
         else if pb_code p \<noteq> Some 200
         then (if pb_code p \<in> {Some 401, Some 403} then (''misconfigured'', ''token_invalid'')
               else if pb_code p \<in> {Some 404, Some 405} then (''unreachable'', ''glue_old'')
               else (''unreachable'', ''unreachable''))
         else if pb_enabled p = None then (''unreachable'', ''unreachable'')
         else if pb_enabled p = Some False then (''stopped'', ''not_enabled'')
         else if tables_of f = Some False then (''not_deployed'', ''not_deployed'')
         else (''running'', ''ok''))"

definition status_ttl :: int where
  "status_ttl = 10"

text \<open>One answer of the status route, with the cache.\<close>

definition status_detail :: "epoch \<Rightarrow> facts \<Rightarrow> (string \<times> string) cache1 \<Rightarrow> (string \<times> string) \<times> (string \<times> string) cache1" where
  "status_detail now f c =
     (case cache_lookup status_ttl now c of
        Some s \<Rightarrow> (s, c)
      | None \<Rightarrow> (status_of f, cache_store now (status_of f) c))"

section \<open>Metrics\<close>

definition replace_one :: "char \<Rightarrow> string \<Rightarrow> string \<Rightarrow> string" where
  "replace_one c w s = concat (List.map (\<lambda>x. if x = c then w else [x]) s)"

definition backslash :: char where "backslash = CHR 0x5C"

definition escape_label :: "string \<Rightarrow> string" where
  "escape_label s =
     replace_one newline [backslash, CHR ''n'']
       (replace_one dquote [backslash, dquote] (replace_one backslash [backslash, backslash] s))"

definition status_counts :: "dlog table \<Rightarrow> (string \<times> nat) list" where
  "status_counts t = List.map (\<lambda>s. (s, length (filter (\<lambda>r. d_status r = s) (rows t)))) (sort (remdups (List.map d_status (rows t))))"

definition label_line :: "string \<Rightarrow> string \<Rightarrow> string \<Rightarrow> string \<Rightarrow> string" where
  "label_line name key v n = name @ [CHR 0x7B] @ key @ ''='' @ [dquote] @ escape_label v @ [dquote, CHR 0x7D, CHR 0x20] @ n"

text \<open>\<open>None\<close>: the database is not available, and only the process reports.\<close>

definition metrics :: "nat \<Rightarrow> string \<Rightarrow> dlog table option \<Rightarrow> string list" where
  "metrics uptime version logs =
     [''# HELP cd_uptime_seconds Service process uptime in seconds.'', ''# TYPE cd_uptime_seconds gauge'',
      ''cd_uptime_seconds '' @ nat_str uptime, ''# HELP cd_info Service version information.'', ''# TYPE cd_info gauge'',
      label_line ''cd_info'' ''version'' version ''1'']
     @ (case logs of
          None \<Rightarrow> []
        | Some t \<Rightarrow>
            List.map (\<lambda>(s, n). label_line ''cd_deploys_total'' ''status'' (str_or s ''unknown'') (nat_str n)) (status_counts t)
            @ [''# HELP cd_active_deploys Currently running deploys.'', ''# TYPE cd_active_deploys gauge'',
               ''cd_active_deploys '' @ nat_str (case map_of (status_counts t) ''running'' of None \<Rightarrow> 0 | Some n \<Rightarrow> n)])"

section \<open>Laws\<close>

text \<open>What a reader of the metrics does with a label.\<close>

fun unescape_label :: "string \<Rightarrow> string" where
  "unescape_label (a # b # s) =
     (if a = backslash then (if b = CHR ''n'' then newline else b) # unescape_label s else a # unescape_label (b # s))"
| "unescape_label s = s"

definition escape_char :: "char \<Rightarrow> string" where
  "escape_char c = (if c = backslash then [backslash, backslash] else if c = dquote then [backslash, dquote]
     else if c = newline then [backslash, CHR ''n''] else [c])"

lemma replace_one_append [simp]: "replace_one c w (a @ b) = replace_one c w a @ replace_one c w b"
  by (simp add: replace_one_def)

lemma escape_by_char: "escape_label s = concat (List.map escape_char s)"
proof (induction s)
  case (Cons c s)
  have "escape_label (c # s) = escape_label [c] @ escape_label s"
    unfolding escape_label_def by (simp flip: replace_one_append)
  moreover have "escape_label [c] = escape_char c"
    by (simp add: escape_label_def escape_char_def replace_one_def backslash_def dquote_def newline_def)
  ultimately show ?case using Cons by simp
qed (simp add: escape_label_def replace_one_def)

lemma running_count: "map_of (status_counts t) ''running'' = (if list_ex (\<lambda>r. d_status r = ''running'') (rows t)
    then Some (length (filter (\<lambda>r. d_status r = ''running'') (rows t))) else None)"
  unfolding status_counts_def map_of_map_restrict by (auto simp: restrict_map_def list_ex_iff image_iff dest: sym)

section \<open>Properties\<close>

text \<open>A label of the metrics never breaks its line or its quotes, and its reader gets the value back.\<close>

theorem label_roundtrip:
  "unescape_label (escape_label s) = s \<and> newline \<notin> set (escape_label s)"
proof -
  have "unescape_label (escape_char c @ r) = c # unescape_label r" for c r
  proof (cases r)
    case Nil
    then show ?thesis by (simp add: escape_char_def backslash_def dquote_def newline_def)
  qed (simp add: escape_char_def backslash_def dquote_def newline_def)
  then have "unescape_label (escape_label s) = s"
    unfolding escape_by_char by (induction s) simp_all
  moreover have "newline \<notin> set (escape_label s)"
    unfolding escape_by_char by (auto simp: escape_char_def backslash_def dquote_def newline_def split: if_splits)
  ultimately show ?thesis ..
qed

text \<open>The status agrees with the gate: on the same well-formed answer, with the sign-on configured and
  the tables listed, it says running exactly when the gate lets requests pass.\<close>

theorem status_agrees_with_gate:
  assumes "fa_db f" "fa_oidc_missing f = []" "fa_url f" "fa_token f" "fa_probe f = Fields (Some (rc_enabled r)) (Some (rc_provision r))"
    and "fa_tables f = Some (sc_tables sc)" "sc_ensured sc" "ci_api_url st \<noteq> []" "ci_api_token st \<noteq> []"
    and "cc_state c = None" "cc_down_until c \<le> now"
  shows "fst (status_of f) = ''running'' \<longleftrightarrow> fst (cd_deploy_gate st now (CAnswer r) c sc) = Inr ()"
proof -
  have "resolve_contract_state st now (CAnswer r) c = (Inr \<lparr>is_enabled = fst (normalize_contract (rc_enabled r) (rc_provision r)),
      is_provision = snd (normalize_contract (rc_enabled r) (rc_provision r)), is_row_exists = True,
      is_registry_type = normalize_registry_type (rc_registry_type r), is_registry_url = normalize_registry_url (rc_registry_url r)\<rparr>,
      snd (resolve_contract_state st now (CAnswer r) c))"
    using assms(8-11) by (simp add: resolve_contract_state_def fetch_contract_http_def cache_lookup_def split_beta)
  then obtain i c' where i: "resolve_contract_state st now (CAnswer r) c = (Inr i, c')"
      "is_enabled i = fst (normalize_contract (rc_enabled r) (rc_provision r))" by force
  have "fst (cd_deploy_gate st now (CAnswer r) c sc) = Inr () \<longleftrightarrow> is_enabled i \<and> cd_missing_tables (sc_tables sc) = []"
    using assms(7) i(1) by (simp add: cd_deploy_gate_def ensure_tables_def)
  moreover have "pb_enabled (contract_of f) = Some (is_enabled i)" "pb_code (contract_of f) = Some 200"
    using assms(3-5) i(2) by (simp_all add: contract_of_def probe_contract_def normalize_contract_def)
  ultimately show ?thesis using assms(1-4,6) by (auto simp: status_of_def tables_of_def Let_def)
qed

text \<open>An answer without the field is a stopped service for the status, and no answer for the gate.\<close>

lemma missing_field_is_stopped:
  assumes "fa_db f" "fa_oidc_missing f = []" "fa_url f" "fa_token f" "fa_probe f = Fields None pr"
    and "cc_state c = None" "cc_down_until c \<le> now" "ci_api_url st \<noteq> []" "ci_api_token st \<noteq> []"
  shows "status_of f = (''stopped'', ''not_enabled'') \<and> fst (cd_deploy_gate st now CMisshaped c sc) = Inl contract_unreachable"
  using assms by (simp add: status_of_def contract_of_def probe_contract_def cd_deploy_gate_def resolve_contract_state_def
      fetch_contract_http_def cache_lookup_def Let_def)

text \<open>When the tables cannot be listed the status says running.\<close>

lemma unknown_tables_run:
  assumes "fa_db f" "fa_oidc_missing f = []" "fa_url f" "fa_token f" "fa_probe f = Fields (Some (RInt 1)) pr" "fa_tables f = None"
  shows "status_of f = (''running'', ''ok'')"
proof -
  have "py_lower (py_strip (raw_str (RInt 1))) \<notin> {[], ''0'', ''false'', ''none''}" by code_simp
  then show ?thesis using assms by (simp add: status_of_def tables_of_def contract_of_def probe_contract_def Let_def)
qed

theorem status_agrees_with_gate_witness:
  "fst (cd_deploy_gate (default_settings\<lparr>ci_api_url := ''u'', ci_api_token := ''t''\<rparr>) 5
      (CAnswer \<lparr>rc_enabled = RInt 1, rc_provision = RNone, rc_registry_type = RNone, rc_registry_url = RNone\<rparr>)
      empty_contract_cache \<lparr>sc_ensured = True, sc_tables = cd_required_tables\<rparr>) = Inr ()"
proof -
  define f where "f = \<lparr>fa_db = True, fa_oidc_missing = [], fa_url = True, fa_token = True,
    fa_probe = Fields (Some (RInt 1)) (Some RNone), fa_tables = Some cd_required_tables\<rparr>"
  have "fst (status_of f) = ''running''" unfolding f_def by code_simp
  then show ?thesis
    using status_agrees_with_gate [of f "\<lparr>rc_enabled = RInt 1, rc_provision = RNone, rc_registry_type = RNone, rc_registry_url = RNone\<rparr>"
      "\<lparr>sc_ensured = True, sc_tables = cd_required_tables\<rparr>" "default_settings\<lparr>ci_api_url := ''u'', ci_api_token := ''t''\<rparr>"
      empty_contract_cache 5]
    by (simp add: f_def empty_contract_cache_def)
qed

end
