(* ===== verification/Patterns.thy ===== *)
theory Patterns
  imports Prelude
begin

text \<open>
  The part of the regular expressions of Python that \<^verbatim>\<open>backend/routers/terminal.py\<close>
  uses: single characters of a class, a class repeated any number of times, and the boundary of a word. A
  pattern is a sequence of these; the matcher tries them from left to right and goes back where a repetition
  took too much. Its meaning is \<open>denotes\<close>, which splits the matched text instead.
\<close>

section \<open>The matcher\<close>

datatype rx_item = One "char \<Rightarrow> bool" | Many "char \<Rightarrow> bool" | Edge

type_synonym pattern = "rx_item list"

text \<open>The classes over the characters 0 to 255: letters and digits of Latin-1 belong to a word.\<close>

definition is_word :: "char \<Rightarrow> bool" where
  "is_word c = (is_digit c \<or> is_upper c \<or> is_lower c \<or> c = CHR ''_''
     \<or> py_ord c \<in> {170, 178, 179, 181, 185, 186, 188, 189, 190}
     \<or> (192 \<le> py_ord c \<and> py_ord c \<noteq> 215 \<and> py_ord c \<noteq> 247))"

definition any_char :: "char \<Rightarrow> bool" where
  "any_char c = (c \<noteq> CHR 0x0A)"

text \<open>Whether a word begins or ends between the character before and the rest.\<close>

definition wordy :: "char option \<Rightarrow> bool" where
  "wordy b = (case b of None \<Rightarrow> False | Some c \<Rightarrow> is_word c)"

definition first_char :: "string \<Rightarrow> char option" where
  "first_char s = (case s of [] \<Rightarrow> None | c # _ \<Rightarrow> Some c)"

lemma first_char_simps [simp]: "first_char [] = None" "first_char (c # s) = Some c"
  by (simp_all add: first_char_def)

fun fits :: "pattern \<Rightarrow> char option \<Rightarrow> string \<Rightarrow> bool" where
  "fits [] b s = True"
| "fits (One p # q) b s = (case s of [] \<Rightarrow> False | c # r \<Rightarrow> p c \<and> fits q (Some c) r)"
| "fits (Edge # q) b s = (wordy b \<noteq> wordy (first_char s) \<and> fits q b s)"
| "fits (Many p # q) b s = (fits q b s \<or> (case s of [] \<Rightarrow> False | c # r \<Rightarrow> p c \<and> fits (Many p # q) (Some c) r))"

text \<open>\<^verbatim>\<open>re.search\<close>: somewhere in the text.\<close>

fun search_from :: "pattern \<Rightarrow> char option \<Rightarrow> string \<Rightarrow> bool" where
  "search_from q b [] = fits q b []"
| "search_from q b (c # s) = (fits q b (c # s) \<or> search_from q (Some c) s)"

definition re_search :: "pattern \<Rightarrow> string \<Rightarrow> bool" where
  "re_search q s = search_from q None s"

section \<open>Its meaning\<close>

text \<open>The text \<open>m\<close>, between the character before and the one behind, is one the pattern stands for.\<close>

fun denotes :: "pattern \<Rightarrow> char option \<Rightarrow> string \<Rightarrow> char option \<Rightarrow> bool" where
  "denotes [] b m a \<longleftrightarrow> m = []"
| "denotes (One p # q) b m a \<longleftrightarrow> (\<exists>c r. m = c # r \<and> p c \<and> denotes q (Some c) r a)"
| "denotes (Edge # q) b m a \<longleftrightarrow> wordy b \<noteq> wordy (if m = [] then a else first_char m) \<and> denotes q b m a"
| "denotes (Many p # q) b m a \<longleftrightarrow>
     (\<exists>u v. m = u @ v \<and> list_all p u \<and> denotes q (if u = [] then b else Some (last u)) v a)"

lemma ex_split: "(\<exists>u r. c # s = u @ r \<and> P u r) \<longleftrightarrow> P [] (c # s) \<or> (\<exists>u r. s = u @ r \<and> P (c # u) r)"
proof
  assume "\<exists>u r. c # s = u @ r \<and> P u r"
  then obtain u r where u: "c # s = u @ r" "P u r" by blast
  then show "P [] (c # s) \<or> (\<exists>u r. s = u @ r \<and> P (c # u) r)" by (cases u) auto
next
  assume "P [] (c # s) \<or> (\<exists>u r. s = u @ r \<and> P (c # u) r)"
  then show "\<exists>u r. c # s = u @ r \<and> P u r"
    by (metis append_Cons append_Nil)
qed

lemma ex_split_Nil: "(\<exists>u r. [] = u @ r \<and> P u r) \<longleftrightarrow> P [] []"
  by simp

lemma denotes_many_step:
  "denotes (Many p # q) b (c # m) a \<longleftrightarrow> denotes q b (c # m) a \<or> (p c \<and> denotes (Many p # q) (Some c) m a)"
proof -
  have "(if c # u = [] then b else Some (last (c # u))) = (if u = [] then Some c else Some (last u))" for u by simp
  then show ?thesis
    unfolding denotes.simps(4) ex_split [where P = "\<lambda>u v. list_all p u \<and> denotes q (if u = [] then b else Some (last u)) v a"]
    by auto
qed

text \<open>The matcher finds exactly the texts of the pattern.\<close>

lemma fits_denotes: "fits q b s \<longleftrightarrow> (\<exists>m r. s = m @ r \<and> denotes q b m (first_char r))"
proof (induction q b s rule: fits.induct)
  case (2 p q b s)
  show ?case
  proof (cases s)
    case (Cons c t)
    then show ?thesis using 2 [OF Cons]
      unfolding Cons ex_split [where P = "\<lambda>m r. denotes (One p # q) b m (first_char r)"] by simp blast
  qed simp
next
  case (3 q b s)
  have "(if m = [] then first_char r else first_char m) = first_char (m @ r)" for m r by (cases m) simp_all
  then have "(\<exists>m r. s = m @ r \<and> denotes (Edge # q) b m (first_char r)) \<longleftrightarrow>
      wordy b \<noteq> wordy (first_char s) \<and> (\<exists>m r. s = m @ r \<and> denotes q b m (first_char r))" by auto
  then show ?case using 3 by simp
next
  case (4 p q b s)
  show ?case
  proof (cases s)
    case Nil
    then show ?thesis using 4(1) by simp
  next
    case (Cons c t)
    have "fits q b (c # t) \<longleftrightarrow> denotes q b [] (Some c) \<or> (\<exists>m r. t = m @ r \<and> denotes q b (c # m) (first_char r))"
      using 4(1) unfolding Cons ex_split [where P = "\<lambda>m r. denotes q b m (first_char r)"] by simp
    moreover have "denotes (Many p # q) b [] a \<longleftrightarrow> denotes q b [] a" for a by simp
    ultimately show ?thesis using 4(2) [OF Cons]
      unfolding Cons ex_split [where P = "\<lambda>m r. denotes (Many p # q) b m (first_char r)"] denotes_many_step
      by (simp del: denotes.simps(4)) blast
  qed
qed simp

definition before :: "char option \<Rightarrow> string \<Rightarrow> char option" where
  "before b u = (if u = [] then b else Some (last u))"

lemma before_simps [simp]: "before b [] = b" "before b (c # u) = before (Some c) u"
  by (simp_all add: before_def)

lemma search_from_iff: "search_from q b s \<longleftrightarrow> (\<exists>u r. s = u @ r \<and> fits q (before b u) r)"
proof (induction s arbitrary: b)
  case (Cons c s)
  then show ?case unfolding ex_split [where P = "\<lambda>u r. fits q (before b u) r"] by simp
qed simp

lemma search_finds:
  "re_search q s \<longleftrightarrow> (\<exists>u m r. s = u @ m @ r \<and> denotes q (before None u) m (first_char r))"
proof -
  have "re_search q s \<longleftrightarrow> (\<exists>u t. s = u @ t \<and> fits q (before None u) t)"
    unfolding re_search_def by (rule search_from_iff)
  then show ?thesis unfolding fits_denotes by metis
qed

end
