(* ===== verification/Terminal.thy ===== *)
theory Terminal
  imports Patterns DeployK8s Auth
begin

text \<open>
  \<^verbatim>\<open>backend/routers/terminal.py\<close>: the admission to the web terminal, the filter for
  dangerous commands between the socket and the remote shell (the upload of a file is in theory Upload). JSON and
  the connection over SSH are parameters; the texts of messages and the copying of the output are left out.
\<close>

section \<open>The black list\<close>

definition lits :: "string \<Rightarrow> pattern" where
  "lits s = List.map (\<lambda>c. One ((=) c)) s"

definition blanks :: pattern where
  "blanks = [One is_space, Many is_space]"

definition dangerous_patterns :: "pattern list" where
  "dangerous_patterns =
     [Edge # lits ''rm'' @ blanks @ [Many any_char] @ lits ''-rf'' @ blanks @ lits ''/'',
      Edge # lits ''rm'' @ blanks @ [Many any_char] @ lits ''-rf'' @ blanks @ lits ''~'',
      Edge # lits ''dd'' @ blanks @ lits ''if='',
      Edge # lits ''mkfs.'',
      lits '':()'' @ [Many is_space] @ lits ''{'' @ [Many any_char] @ lits '':|:&'' @ [Many is_space] @ lits ''};:'',
      lits ''>'' @ [Many is_space] @ lits ''/dev/sd'',
      Edge # lits ''chmod'' @ blanks @ [Many any_char] @ lits ''777'' @ blanks @ lits ''/'',
      lits ''>'' @ [Many is_space] @ lits ''/etc/passwd'',
      Edge # lits ''rm'' @ blanks @ [Many any_char] @ lits ''--no-preserve-root'' @ blanks @ lits ''/'',
      Edge # lits ''chown'' @ blanks @ [Many any_char] @ lits ''-R'' @ blanks @ [One is_word, Many is_word] @ blanks @ lits ''/'',
      Edge # lits ''chmod'' @ blanks @ [Many any_char] @ lits ''-R'' @ blanks @ [One is_digit, Many is_digit] @ blanks @ lits ''/etc'']"

definition check_dangerous :: "string \<Rightarrow> bool" where
  "check_dangerous cmd = (py_strip cmd \<noteq> [] \<and> list_ex (\<lambda>q. re_search q (py_strip cmd)) dangerous_patterns)"

section \<open>Input of the terminal\<close>

text \<open>The buffer of the line, the frames sent to the machine, the sizes set, and the warnings shown.\<close>

record shell =
  sh_buf :: string
  sh_sent :: "string list"
  sh_sizes :: "(int \<times> int) list"
  sh_warned :: nat

definition new_shell :: shell where
  "new_shell = \<lparr>sh_buf = [], sh_sent = [], sh_sizes = [], sh_warned = 0\<rparr>"

datatype frame = TextFrame string | BytesFrame string

definition return_key :: char where "return_key = CHR 0x0D"

definition next_buffer :: "string \<Rightarrow> string \<Rightarrow> string" where
  "next_buffer text buf =
     (if CHR 0x03 \<in> set text \<or> CHR 0x04 \<in> set text then []
      else if starts_with [CHR 0x1B] text then buf
      else if text = [CHR 0x7F] \<or> text = [CHR 0x08] then butlast buf
      else if length text = 1 \<and> 32 \<le> py_ord (hd text) then buf @ text
      else [])"

text \<open>\<open>resize\<close> is what JSON makes of a text that begins with a brace: the columns and rows of a resize
  event, if it is one.\<close>

definition send_text :: "(string \<Rightarrow> (int \<times> int) option) \<Rightarrow> string \<Rightarrow> shell \<Rightarrow> shell" where
  "send_text resize text s =
     (case (if starts_with ''{'' text then resize text else None) of
        Some dims \<Rightarrow> s\<lparr>sh_sizes := sh_sizes s @ [dims]\<rparr>
      | None \<Rightarrow>
          if return_key \<in> set text
          then (if check_dangerous (sh_buf s @ text) then s\<lparr>sh_buf := [], sh_warned := sh_warned s + 1\<rparr>
                else s\<lparr>sh_buf := [], sh_sent := sh_sent s @ [text]\<rparr>)
          else s\<lparr>sh_buf := next_buffer text (sh_buf s), sh_sent := sh_sent s @ [text]\<rparr>)"

fun ws_to_ssh :: "(string \<Rightarrow> (int \<times> int) option) \<Rightarrow> frame list \<Rightarrow> shell \<Rightarrow> shell" where
  "ws_to_ssh resize [] s = s"
| "ws_to_ssh resize (TextFrame t # fs) s = ws_to_ssh resize fs (send_text resize t s)"
| "ws_to_ssh resize (BytesFrame b # fs) s = ws_to_ssh resize fs (s\<lparr>sh_sent := sh_sent s @ [b]\<rparr>)"

section \<open>Admission\<close>

definition webshell_permitted :: "settings \<Rightarrow> string \<Rightarrow> string list \<Rightarrow> bool" where
  "webshell_permitted st role perms =
     (if role = super_admin_role st then True else ''*'' \<in> set perms \<or> ''cd.webshell'' \<in> set perms)"

text \<open>The gate becomes 503, a refused identity keeps its code; another exception leaves the function.\<close>

definition ws_verify :: "auth_env \<Rightarrow> string option \<Rightarrow> auth_state \<Rightarrow> string result \<times> auth_state" where
  "ws_verify env cookie s =
     (case cookie of
        None \<Rightarrow> (Inl (HTTPException 401), s)
      | Some token \<Rightarrow>
          if token = [] then (Inl (HTTPException 401), s)
          else case cd_deploy_gate (ae_settings env) (ae_now env) (ae_contract env) (as_contract s) (as_schema s) of
            (Inl e, cc, sc) \<Rightarrow>
              (Inl (if is_app_exception e then HTTPException 503 else e), s\<lparr>as_contract := cc, as_schema := sc\<rparr>)
          | (Inr _, cc, sc) \<Rightarrow>
              (let s1 = s\<lparr>as_contract := cc, as_schema := sc\<rparr>
               in case oidc_session (ae_hash env) (ae_now env) token (as_sessions s1) of
                 (Inl e, ss) \<Rightarrow> (Inl e, s1\<lparr>as_sessions := ss\<rparr>)
               | (Inr sess, ss) \<Rightarrow>
                   (case oidc_identity (ae_settings env) (ae_hash env) (ae_glue env) (ae_times env)
                           token (ss_user sess) (as_caches s1) ss of
                      (Inl e, c, ss') \<Rightarrow>
                        (Inl (if is_app_exception e then HTTPException (status_code e) else e),
                         s1\<lparr>as_sessions := ss', as_caches := c\<rparr>)
                    | (Inr i, c, ss') \<Rightarrow> (Inr (i_username i), s1\<lparr>as_sessions := ss', as_caches := c\<rparr>))))"

text \<open>The keys of the credentials, the readings of the clock in the second look at the identity, and what
  connecting and opening a shell give.\<close>

record term_world =
  tw_auth :: auth_env
  tw_times :: times
  tw_keys :: keyring
  tw_connect :: "cluster \<Rightarrow> bool"
  tw_shell :: "cluster \<Rightarrow> bool"

text \<open>The socket is closed with a code before it is accepted, or with a message afterwards; an exception
  leaves the handler; or a shell is open.\<close>

datatype goodbye = NoServer | BadSecret | NoConnection | NoShell

datatype admission = Refused nat | Raised exc | Ended goodbye | Opened cluster

definition http_exception :: "exc \<Rightarrow> bool" where
  "http_exception e = (case e of HTTPException _ \<Rightarrow> True | _ \<Rightarrow> False)"

definition secrets_of :: "keyring \<Rightarrow> server \<Rightarrow> cluster result" where
  "secrets_of k r =
     and_then (decrypt_strict k (s_password r)) (\<lambda>p. and_then (decrypt_strict k (s_key r)) (\<lambda>key.
       Inr \<lparr>cl_host = s_host r, cl_port = s_port r, cl_user = s_user r, cl_password = p, cl_key = key\<rparr>))"

definition open_shell :: "term_world \<Rightarrow> server table \<Rightarrow> row_id \<Rightarrow> admission" where
  "open_shell w t i =
     (case t_get s_id i t of
        None \<Rightarrow> Ended NoServer
      | Some r \<Rightarrow>
          (case secrets_of (tw_keys w) r of
             Inl e \<Rightarrow> if e = DecryptError then Ended BadSecret else Raised e
           | Inr c \<Rightarrow> if \<not> tw_connect w c then Ended NoConnection else if \<not> tw_shell w c then Ended NoShell else Opened c))"

definition terminal_route ::
  "term_world \<Rightarrow> server table \<Rightarrow> string option \<Rightarrow> row_id \<Rightarrow> auth_state \<Rightarrow> admission \<times> auth_state" where
  "terminal_route w t cookie i s =
     (let st = ae_settings (tw_auth w)
      in case ws_verify (tw_auth w) cookie s of
        (Inl e, s') \<Rightarrow> (if http_exception e then Refused 4001 else Raised e, s')
      | (Inr username, s') \<Rightarrow>
          (case get_identity st (ae_glue (tw_auth w)) (tw_times w) False username (as_caches s') of
             (Inl e, c) \<Rightarrow> (if is_app_exception (glue_exc e) then Refused 4003 else Raised (glue_exc e), s'\<lparr>as_caches := c\<rparr>)
           | (Inr j, c) \<Rightarrow>
               (if \<not> webshell_permitted st (i_role j) (case i_permissions j of None \<Rightarrow> [] | Some p \<Rightarrow> p) then Refused 4003
                else open_shell w t i, s'\<lparr>as_caches := c\<rparr>)))"

section \<open>Laws of the filter\<close>

lemma ws_append: "ws_to_ssh resize (fs @ gs) s = ws_to_ssh resize gs (ws_to_ssh resize fs s)"
proof (induction fs arbitrary: s)
  case (Cons f fs)
  then show ?case by (cases f) simp_all
qed simp

text \<open>A printable character.\<close>

definition printable :: "char \<Rightarrow> bool" where
  "printable c = (32 \<le> py_ord c \<and> py_ord c \<noteq> 127)"

definition keys :: "string \<Rightarrow> frame list" where
  "keys s = List.map (\<lambda>c. TextFrame [c]) s"

lemma printable_not_control:
  assumes "printable c"
  shows "c \<noteq> CHR 0x03" "c \<noteq> CHR 0x04" "c \<noteq> CHR 0x1B" "c \<noteq> CHR 0x7F" "c \<noteq> CHR 0x08" "c \<noteq> return_key"
  using assms by (auto simp: printable_def return_key_def)

lemma send_key:
  assumes "printable c" "resize ''{'' = None"
  shows "send_text resize [c] s = s\<lparr>sh_buf := sh_buf s @ [c], sh_sent := sh_sent s @ [[c]]\<rparr>"
  using assms printable_not_control [OF assms(1)]
  by (auto simp: send_text_def next_buffer_def starts_with_def printable_def)

lemma type_keys:
  assumes "list_all printable cmd" "resize ''{'' = None"
  shows "ws_to_ssh resize (keys cmd) s = s\<lparr>sh_buf := sh_buf s @ cmd, sh_sent := sh_sent s @ List.map (\<lambda>c. [c]) cmd\<rparr>"
  using assms(1) by (induction cmd arbitrary: s) (simp_all add: keys_def send_key assms(2))

lemma press_return:
  "send_text resize [return_key] s =
     (if check_dangerous (sh_buf s @ [return_key]) then s\<lparr>sh_buf := [], sh_warned := sh_warned s + 1\<rparr>
      else s\<lparr>sh_buf := [], sh_sent := sh_sent s @ [[return_key]]\<rparr>)"
  by (simp add: send_text_def starts_with_def return_key_def)

lemma strip_return: "py_strip (cmd @ [return_key]) = py_strip cmd"
proof -
  have sp: "is_space return_key" by code_simp
  show ?thesis
  proof (cases "\<forall>c\<in>set cmd. is_space c")
    case True
    then have "py_lstrip (cmd @ [return_key]) = []" "py_lstrip cmd = []" using sp by (auto simp: py_lstrip_def)
    then show ?thesis by (simp add: py_strip_def)
  next
    case False
    then have "py_lstrip (cmd @ [return_key]) = py_lstrip cmd @ [return_key]" by (auto simp: py_lstrip_def dropWhile_append1)
    then show ?thesis using sp by (simp add: py_strip_def py_rstrip_def)
  qed
qed

lemma dangerous_return [simp]: "check_dangerous (cmd @ [return_key]) = check_dangerous cmd"
  by (simp add: check_dangerous_def strip_return)

lemma no_line_harmless [simp]: "\<not> check_dangerous []"
  by (simp add: check_dangerous_def)

lemma blank_line_harmless [simp]: "\<not> check_dangerous [return_key]"
  using dangerous_return [of "[]"] by simp

section \<open>Laws of the admission\<close>

lemma permitted_as_route:
  "webshell_permitted st (u_role u) (u_perms u) \<longleftrightarrow> require_perm st ''cd.webshell'' u = Inr u"
  by (simp add: webshell_permitted_def require_perm_def)

lemma ws_verify_state: "snd (ws_verify env cookie s) = snd (authenticate env cookie None s)"
  by (auto simp: ws_verify_def authenticate_def extract_token_def Let_def split: option.splits sum.splits prod.splits)

lemma ws_verify_answer:
  "fst (ws_verify env cookie s) = Inr n \<longleftrightarrow> (\<exists>sess i. fst (authenticate env cookie None s) = Inr (sess, i) \<and> n = i_username i)"
  by (auto simp: ws_verify_def authenticate_def extract_token_def Let_def split: option.splits sum.splits prod.splits)

section \<open>Properties\<close>

text \<open>The terminal authenticates exactly as the routes do: the same cookies pass, and the sessions, caches
  and tables are afterwards the same.\<close>

theorem terminal_like_routes:
  "snd (ws_verify env cookie s) = snd (authenticate env cookie None s)
   \<and> (fst (ws_verify env cookie s) = Inr n \<longleftrightarrow> (\<exists>sess i. fst (authenticate env cookie None s) = Inr (sess, i) \<and> n = i_username i))"
  using ws_verify_state ws_verify_answer by blast

text \<open>C26. A shell is opened only for a cookie that authenticates, an account whose current role may use the
  terminal by the criterion of the routes, and a stored server with its own decrypted credentials.\<close>

theorem terminal_sound:
  assumes "fst (terminal_route w t cookie i s) = Opened c"
  shows "\<exists>sess a s' j r. authenticate (tw_auth w) cookie None s = (Inr (sess, a), s')
    \<and> fst (get_identity (ae_settings (tw_auth w)) (ae_glue (tw_auth w)) (tw_times w) False (i_username a) (as_caches s')) = Inr j
    \<and> require_perm (ae_settings (tw_auth w)) ''cd.webshell'' (user_of j) = Inr (user_of j)
    \<and> t_get s_id i t = Some r \<and> secrets_of (tw_keys w) r = Inr c"
proof -
  let ?st = "ae_settings (tw_auth w)"
  obtain v s' where v: "ws_verify (tw_auth w) cookie s = (v, s')" by force
  with assms obtain name where n: "v = Inr name" by (cases v) (auto simp: terminal_route_def Let_def split: if_splits)
  obtain x c' where x: "get_identity ?st (ae_glue (tw_auth w)) (tw_times w) False name (as_caches s') = (x, c')" by force
  with assms v n obtain j where j: "x = Inr j" by (cases x) (auto simp: terminal_route_def Let_def split: if_splits)
  have p: "webshell_permitted ?st (i_role j) (case i_permissions j of None \<Rightarrow> [] | Some q \<Rightarrow> q) \<and> open_shell w t i = Opened c"
    using assms v n x j by (auto simp: terminal_route_def Let_def split: if_splits)
  then have "require_perm ?st ''cd.webshell'' (user_of j) = Inr (user_of j)"
    unfolding permitted_as_route [symmetric] by (simp add: user_of_def)
  moreover obtain sess a where "authenticate (tw_auth w) cookie None s = (Inr (sess, a), s')" "name = i_username a"
    using ws_verify_answer [of "tw_auth w" cookie s name] ws_verify_state [of "tw_auth w" cookie s] v n
    by (cases "authenticate (tw_auth w) cookie None s") auto
  moreover obtain r where "t_get s_id i t = Some r" "secrets_of (tw_keys w) r = Inr c"
    using p by (auto simp: open_shell_def split: option.splits sum.splits if_splits)
  ultimately show ?thesis using x j by force
qed

text \<open>A dangerous line that is typed key by key is held: its Return does not reach the machine, and the
  buffer is empty again. A harmless one is sent.\<close>

theorem typed_line_held:
  assumes "list_all printable cmd" "resize ''{'' = None"
  shows "ws_to_ssh resize (keys cmd @ [TextFrame [return_key]]) new_shell =
    \<lparr>sh_buf = [], sh_sent = List.map (\<lambda>c. [c]) cmd @ (if check_dangerous cmd then [] else [[return_key]]), sh_sizes = [],
     sh_warned = (if check_dangerous cmd then 1 else 0)\<rparr>"
  by (simp add: ws_append type_keys [where resize = resize] assms press_return new_shell_def)

text \<open>C27. The filter does not hold: the keys of the line have already been sent, so a second Return, which is
  compared with an empty buffer, completes it; and a line that is pasted is never looked at. In both cases the
  machine receives the whole command.\<close>

theorem held_line_runs:
  assumes "list_all printable cmd" "resize ''{'' = None" "2 \<le> length cmd" "\<not> starts_with ''{'' cmd"
  shows "concat (sh_sent (ws_to_ssh resize (keys cmd @ [TextFrame [return_key], TextFrame [return_key]]) new_shell))
      = cmd @ (if check_dangerous cmd then [return_key] else [return_key, return_key])
    \<and> concat (sh_sent (ws_to_ssh resize [TextFrame cmd, TextFrame [return_key]] new_shell)) = cmd @ [return_key]"
proof
  have c: "concat (List.map (\<lambda>c. [c]) cmd) = cmd" by (induction cmd) simp_all
  show "concat (sh_sent (ws_to_ssh resize (keys cmd @ [TextFrame [return_key], TextFrame [return_key]]) new_shell))
      = cmd @ (if check_dangerous cmd then [return_key] else [return_key, return_key])"
    by (simp add: ws_append type_keys assms press_return new_shell_def c)
  have "CHR 0x03 \<notin> set cmd" "CHR 0x04 \<notin> set cmd" "return_key \<notin> set cmd" "\<not> starts_with [CHR 0x1B] cmd"
    using assms(1) printable_not_control starts_with_hd [of "CHR 0x1B" "[]" cmd] by (fastforce simp: list_all_iff)+
  moreover have "cmd \<noteq> [CHR 0x7F]" "cmd \<noteq> [CHR 0x08]" "length cmd \<noteq> 1" using assms(3) by auto
  ultimately have "next_buffer cmd [] = []" "return_key \<notin> set cmd" unfolding next_buffer_def by simp_all
  then show "concat (sh_sent (ws_to_ssh resize [TextFrame cmd, TextFrame [return_key]] new_shell)) = cmd @ [return_key]"
    using assms(4) by (simp add: send_text_def [of _ cmd] press_return new_shell_def)
qed

definition wipe :: string where
  "wipe = ''rm -rf /''"

lemma wipe_facts: "list_all printable wipe" "2 \<le> length wipe" "\<not> starts_with ''{'' wipe" "check_dangerous wipe"
  by code_simp+

text \<open>Other spellings of the same command are not on the list, and harmless commands are.\<close>

lemma spelling_decides: "\<not> check_dangerous ''rm -fr /''" "check_dangerous ''rm -rf /a''"
  by code_simp+

theorem held_line_runs_witness:
  "check_dangerous wipe \<and> concat (sh_sent (ws_to_ssh (\<lambda>_. None) [TextFrame wipe, TextFrame [return_key]] new_shell)) = wipe @ [return_key]"
  using held_line_runs [of wipe "\<lambda>_. None"] wipe_facts by simp

theorem typed_line_held_witness:
  "sh_warned (ws_to_ssh (\<lambda>_. None) (keys wipe @ [TextFrame [return_key]]) new_shell) = 1"
  using typed_line_held [of wipe "\<lambda>_. None"] wipe_facts by simp

definition sample_world :: term_world where
  "sample_world = \<lparr>tw_auth = (sample_env 1000)\<lparr>ae_glue := sample_glue [''cd.webshell'']\<rparr>, tw_times = at_time 1000,
     tw_keys = sample_keyring, tw_connect = (\<lambda>_. True), tw_shell = (\<lambda>_. True)\<rparr>"

lemma sample_opens:
  "fst (terminal_route sample_world sample_servers (Some ''tok'') 1 sample_auth) =
     Opened \<lparr>cl_host = ''h'', cl_port = 22, cl_user = ''root'', cl_password = [], cl_key = []\<rparr>"
  by code_simp

theorem terminal_sound_witness:
  "\<exists>n. fst (ws_verify (tw_auth sample_world) (Some ''tok'') sample_auth) = Inr n"
proof -
  obtain sess a s' where "authenticate (tw_auth sample_world) (Some ''tok'') None sample_auth = (Inr (sess, a), s')"
    using terminal_sound [OF sample_opens] by blast
  then show ?thesis using ws_verify_answer [of "tw_auth sample_world" "Some ''tok''" sample_auth] by auto
qed

end
