(* ===== verification/Upload.thy ===== *)
theory Upload
  imports Terminal Servers
begin

text \<open>
  The upload of a file to a server, \<^verbatim>\<open>upload_file\<close> of
  \<^verbatim>\<open>backend/routers/terminal.py\<close>, with \<^verbatim>\<open>posixpath.normpath\<close>: the path
  the file is written to. The connection and the writing are parameters.
\<close>

section \<open>Paths\<close>

definition slash :: char where "slash = CHR ''/''"

fun norm_comps :: "bool \<Rightarrow> string list \<Rightarrow> string list \<Rightarrow> string list" where
  "norm_comps absolute acc [] = rev acc"
| "norm_comps absolute acc (c # cs) =
     (if c = [] \<or> c = ''.'' then norm_comps absolute acc cs
      else if c \<noteq> ''..'' \<or> (\<not> absolute \<and> acc = []) \<or> (acc \<noteq> [] \<and> hd acc = ''..'')
      then norm_comps absolute (c # acc) cs
      else norm_comps absolute (tl acc) cs)"

text \<open>POSIX keeps exactly two leading slashes.\<close>

definition leading :: "string \<Rightarrow> nat" where
  "leading p = (if \<not> starts_with ''/'' p then 0 else if starts_with ''//'' p \<and> \<not> starts_with ''///'' p then 2 else 1)"

definition normpath :: "string \<Rightarrow> string" where
  "normpath p =
     (if p = [] then ''.''
      else let q = replicate (leading p) slash @ py_join [slash] (norm_comps (0 < leading p) [] (split_on slash p))
           in if q = [] then ''.'' else q)"

definition dirname :: "string \<Rightarrow> string" where
  "dirname p =
     (let head = rev (dropWhile (\<lambda>c. c \<noteq> slash) (rev p))
      in if head \<noteq> [] \<and> \<not> list_all ((=) slash) head then rstrip_char slash head else head)"

section \<open>The upload\<close>

definition is_letter :: "char \<Rightarrow> bool" where
  "is_letter c = (is_upper c \<or> is_lower c)"

definition strip_drive :: "string \<Rightarrow> string" where
  "strip_drive s = (case s of c # d # r \<Rightarrow> if is_letter c \<and> d = CHR '':'' then r else s | _ \<Rightarrow> s)"

definition safe_filename :: "string option \<Rightarrow> string" where
  "safe_filename filename = last (split_on slash (strip_drive (replace_char (CHR 0x5C) slash (or_empty filename))))"

definition blocked_prefixes :: "string list" where
  "blocked_prefixes = [''/etc'', ''/boot'', ''/sys'', ''/proc'', ''/dev'']"

definition is_blocked :: "string \<Rightarrow> bool" where
  "is_blocked p = list_ex (\<lambda>b. p = b \<or> starts_with (b @ ''/'') p) blocked_prefixes"

definition upload_target :: "string option \<Rightarrow> string \<Rightarrow> string result" where
  "upload_target filename path =
     (let name = safe_filename filename
      in if name = [] then Inl (ValidationError (Some ''errors.invalid_filename''))
         else if \<not> starts_with ''/'' path then Inl (ValidationError (Some ''errors.path_absolute''))
         else let p = normpath (strip_drive (replace_char (CHR 0x5C) slash (rstrip_char slash path @ [slash] @ name)))
              in if is_blocked p then Inl (ValidationError (Some ''errors.upload_blocked_path'')) else Inr p)"

text \<open>The machine and whether a command and the writing that follows succeed there.\<close>

record upload_world =
  uw_keys :: keyring
  uw_connect :: "cluster \<Rightarrow> bool"
  uw_write :: "cluster \<Rightarrow> string \<Rightarrow> string \<Rightarrow> bool"

definition upload_to_server ::
  "settings \<Rightarrow> upload_world \<Rightarrow> user \<Rightarrow> server table \<Rightarrow> row_id \<Rightarrow> string option \<Rightarrow> string \<Rightarrow> (cluster \<times> string) result" where
  "upload_to_server st w u t i filename path =
     and_then (require_perm st ''cd.webshell'' u) (\<lambda>_.
     case t_get s_id i t of
       None \<Rightarrow> Inl server_not_found
     | Some r \<Rightarrow>
         and_then (upload_target filename path) (\<lambda>p.
         case secrets_of (uw_keys w) r of
           Inl e \<Rightarrow> Inl (if e = DecryptError then undecryptable else e)
         | Inr c \<Rightarrow>
             if \<not> uw_connect w c then Inl (ValidationError (Some ''errors.ssh_connect_failed''))
             else if uw_write w c (''mkdir -p '' @ sh_quote (dirname p)) p then Inr (c, p)
             else Inl (ValidationError (Some ''errors.upload_failed''))))"

section \<open>Laws\<close>

definition plain_comp :: "string \<Rightarrow> bool" where
  "plain_comp c = (c \<notin> {[], ''.'', ''..''} \<and> slash \<notin> set c)"

lemma norm_comps_plain:
  "list_all plain_comp acc \<Longrightarrow> list_all (\<lambda>c. slash \<notin> set c) cs \<Longrightarrow> list_all plain_comp (norm_comps True acc cs)"
proof (induction cs arbitrary: acc)
  case (Cons c cs)
  have "list_all plain_comp (tl acc)" using Cons.prems(1) by (cases acc) simp_all
  moreover have "acc \<noteq> [] \<Longrightarrow> hd acc \<noteq> ''..''" using Cons.prems(1) by (cases acc) (auto simp: plain_comp_def)
  moreover have "c \<notin> {[], ''.'', ''..''} \<Longrightarrow> list_all plain_comp (c # acc)" using Cons.prems by (simp add: plain_comp_def [of c])
  ultimately show ?case using Cons.IH Cons.prems(1,2) by auto
qed (simp add: list_all_iff)

lemma split_plain_comps: "list_all (\<lambda>c. slash \<notin> set c) (split_on slash p)"
  by (simp add: list_all_iff split_on_members_no_sep)

text \<open>The components of a path, as the machine walks them: it takes two leading slashes for one.\<close>

definition components :: "string \<Rightarrow> string list" where
  "components p = filter (\<lambda>c. c \<noteq> []) (split_on slash p)"

lemma components_join:
  assumes "list_all plain_comp cs"
  shows "components (replicate n slash @ py_join [slash] cs) = cs"
proof -
  have "filter (\<lambda>c. c \<noteq> []) (split_on slash (replicate n slash @ s)) = filter (\<lambda>c. c \<noteq> []) (split_on slash s)" for s
    by (induction n) simp_all
  from this this [of "[]"] have all: "components (replicate n slash @ s) = components s" "components (replicate n slash) = []" for s
    by (simp_all add: components_def)
  have "cs \<noteq> [] \<Longrightarrow> split_on slash (py_join [slash] cs) = cs"
    using assms by (intro split_on_join) (auto simp: list_all_iff plain_comp_def)
  moreover have "filter (\<lambda>c. c \<noteq> []) cs = cs" using assms by (auto simp: list_all_iff plain_comp_def filter_id_conv)
  ultimately have "cs \<noteq> [] \<Longrightarrow> components (py_join [slash] cs) = cs" by (simp add: components_def)
  then show ?thesis using all by (cases "cs = []") simp_all
qed

lemma normpath_absolute:
  assumes "starts_with ''/'' p"
  shows "\<exists>cs. list_all plain_comp cs \<and> normpath p = replicate (leading p) slash @ py_join [slash] cs"
proof -
  have l: "0 < leading p" "p \<noteq> []" using assms by (auto simp: leading_def starts_with_def)
  then show ?thesis
    using norm_comps_plain [OF _ split_plain_comps, of "[]"] by (fastforce simp: normpath_def Let_def)
qed

lemma absolute_kept:
  assumes "starts_with ''/'' path"
  shows "starts_with ''/'' (strip_drive (replace_char (CHR 0x5C) slash (rstrip_char slash path @ [slash] @ name)))"
proof -
  obtain r where r: "path = slash # r" using assms by (auto simp: starts_with_iff slash_def)
  have "rstrip_char slash path = [] \<or> hd (rstrip_char slash path) = slash"
  proof (cases "\<forall>c\<in>set r. c = slash")
    case False
    then have "dropWhile (\<lambda>x. x = slash) (rev r @ [slash]) = dropWhile (\<lambda>x. x = slash) (rev r) @ [slash]"
      by (auto simp: dropWhile_append1)
    then show ?thesis by (simp add: rstrip_char_def r)
  qed (simp add: rstrip_char_def r)
  then obtain t where "rstrip_char slash path @ [slash] @ name = slash # t"
    by (cases "rstrip_char slash path") auto
  then show ?thesis
    by (cases t) (simp_all add: replace_char_def strip_drive_def slash_def is_letter_def is_upper_def is_lower_def starts_with_def)
qed

lemma first_component_blocked:
  assumes "\<not> is_blocked ([slash] @ py_join [slash] cs)" "cs \<noteq> []"
  shows "[slash] @ hd cs \<notin> set blocked_prefixes"
proof
  assume b: "[slash] @ hd cs \<in> set blocked_prefixes"
  obtain c r where "cs = c # r" using assms(2) by (cases cs) auto
  then have "[slash] @ py_join [slash] cs = [slash] @ hd cs \<or> starts_with (([slash] @ hd cs) @ ''/'') ([slash] @ py_join [slash] cs)"
    by (cases r) (auto simp: starts_with_def slash_def)
  then show False using b assms(1) unfolding is_blocked_def list_ex_iff by blast
qed

section \<open>Properties\<close>

text \<open>C28. An upload is written to an absolute path without empty, dot or double-dot components; its first
  component is none of the blocked directories, unless the path begins with two slashes.\<close>

theorem upload_confined:
  assumes "upload_to_server st w u t i filename path = Inr (c, p)"
  shows "require_perm st ''cd.webshell'' u = Inr u \<and> starts_with ''/'' p
    \<and> list_all plain_comp (components p)
    \<and> (starts_with ''//'' p \<or> components p = [] \<or> [slash] @ hd (components p) \<notin> set blocked_prefixes)"
proof -
  have perm: "require_perm st ''cd.webshell'' u = Inr u"
    using assms by (auto simp: upload_to_server_def require_perm_def split: if_splits)
  then obtain r where "t_get s_id i t = Some r"
    using assms by (cases "t_get s_id i t") (simp_all add: upload_to_server_def)
  then have t: "upload_target filename path = Inr p"
    using assms perm
    by (cases "upload_target filename path"; cases "secrets_of (uw_keys w) r") (auto simp: upload_to_server_def split: if_splits)
  let ?q = "strip_drive (replace_char (CHR 0x5C) slash (rstrip_char slash path @ [slash] @ safe_filename filename))"
  have q: "normpath ?q = p" "\<not> is_blocked p" "starts_with ''/'' path"
    using t by (auto simp: upload_target_def Let_def split: if_splits)
  have "starts_with ''/'' ?q" using absolute_kept [OF q(3)] by simp
  then obtain cs where cs: "list_all plain_comp cs" "p = replicate (leading ?q) slash @ py_join [slash] cs"
    using normpath_absolute q(1) by blast
  have l: "leading ?q \<in> {1, 2}" using \<open>starts_with ''/'' ?q\<close> by (auto simp: leading_def)
  have "components p = cs" using components_join [OF cs(1)] cs(2) by simp
  moreover have "starts_with ''/'' p" using l cs(2) by (auto simp: starts_with_def slash_def numeral_2_eq_2)
  moreover have "starts_with ''//'' p \<or> cs = [] \<or> [slash] @ hd cs \<notin> set blocked_prefixes"
  proof (cases "leading ?q = 2")
    case False
    then have "p = [slash] @ py_join [slash] cs" using l cs(2) by simp
    then show ?thesis using first_component_blocked q(2) by blast
  qed (use cs(2) in \<open>simp add: starts_with_def slash_def numeral_2_eq_2\<close>)
  ultimately show ?thesis using perm cs(1) by simp
qed

text \<open>Two leading slashes lead past the black list into the same directory.\<close>

lemma double_slash_escapes:
  "upload_target (Some ''passwd'') ''/etc'' = Inl (ValidationError (Some ''errors.upload_blocked_path''))
   \<and> upload_target (Some ''passwd'') ''//etc'' = Inr ''//etc/passwd''
   \<and> components ''//etc/passwd'' = components ''/etc/passwd''"
  by code_simp

definition webshell_user :: user where
  "webshell_user = \<lparr>u_name = ''bob'', u_role = ''dev'', u_perms = [''cd.webshell'']\<rparr>"

lemma sample_upload:
  "upload_to_server default_settings \<lparr>uw_keys = sample_keyring, uw_connect = (\<lambda>_. True), uw_write = (\<lambda>_ _ _. True)\<rparr> webshell_user
     sample_servers 1 (Some ''app.tgz'') ''/tmp/../srv/./x/'' =
   Inr (\<lparr>cl_host = ''h'', cl_port = 22, cl_user = ''root'', cl_password = [], cl_key = []\<rparr>, ''/srv/x/app.tgz'')"
  by code_simp

theorem upload_confined_witness:
  "list_all plain_comp (components ''/srv/x/app.tgz'')"
  using upload_confined [OF sample_upload] by blast

end
