(* ===== verification/SshConnect.thy ===== *)
theory SshConnect
  imports Servers
begin

text \<open>
  The connection itself, \<^verbatim>\<open>ssh_connect\<close> of
  \<^verbatim>\<open>backend/deployers/base.py\<close>: which file of known hosts is used, the key that is
  written to a temporary file and removed, the credential that is presented, and the retry that trusts an
  unknown host. What the directories allow, whether a file can be removed, the key a host shows and what a login
  gives are parameters; sockets and timeouts are left out.
\<close>

section \<open>Files\<close>

text \<open>An attempt to write the key of a server: the file was written, could not be created, or was created
  and stayed although writing it or protecting it failed.\<close>

datatype key_attempt = KeyWritten | KeyRefused | KeyLeft

text \<open>The removal of the key file: done, or the file was no longer there, or another error of the system,
  which leaves it and is not caught.\<close>

datatype removal = KeyRemoved | KeyGone | KeyStuck

datatype place = AtHome | AtProject

record ssh_files =
  sf_known :: "place \<Rightarrow> known_hosts option"
  sf_keys :: "string list"

datatype credential = KeyFile string | Password string | Standard

text \<open>The library's answers to a connection; the policy refuses hosts that are not in the file.\<close>

datatype login_result = LoggedOn | NotKnown | SshRefused | ConnectFailed

record ssh_env =
  se_home :: bool
  se_project :: bool
  se_writable :: "place \<Rightarrow> bool"
  se_temp_key :: key_attempt
  se_project_key :: key_attempt
  se_unlink :: removal
  se_shown :: "string \<Rightarrow> int \<Rightarrow> (string \<times> string) option"
  se_login :: "known_hosts \<Rightarrow> cluster \<Rightarrow> credential \<Rightarrow> login_result"
  se_keepalive :: int

definition known_hosts_file :: "ssh_env \<Rightarrow> place result" where
  "known_hosts_file e = (if se_home e then Inr AtHome else if se_project e then Inr AtProject else Inl OtherError)"

definition write_ssh_key_temp :: "ssh_env \<Rightarrow> string \<Rightarrow> ssh_files \<Rightarrow> unit result \<times> ssh_files" where
  "write_ssh_key_temp e key f =
     (case se_temp_key e of
        KeyWritten \<Rightarrow> (Inr (), f\<lparr>sf_keys := sf_keys f @ [key]\<rparr>)
      | first \<Rightarrow>
          let f1 = (if first = KeyLeft then f\<lparr>sf_keys := sf_keys f @ [key]\<rparr> else f)
          in case se_project_key e of
               KeyWritten \<Rightarrow> (Inr (), f1\<lparr>sf_keys := sf_keys f1 @ [key]\<rparr>)
             | KeyLeft \<Rightarrow> (Inl OtherError, f1\<lparr>sf_keys := sf_keys f1 @ [key]\<rparr>)
             | KeyRefused \<Rightarrow> (Inl OtherError, f1))"

definition loaded :: "ssh_files \<Rightarrow> place \<Rightarrow> known_hosts" where
  "loaded f p = (case sf_known f p of None \<Rightarrow> Map.empty | Some k \<Rightarrow> k)"

definition save_first_host_key :: "ssh_env \<Rightarrow> string \<Rightarrow> int \<Rightarrow> ssh_files \<Rightarrow> unit result \<times> ssh_files" where
  "save_first_host_key e host port f =
     (case se_shown e host port of
        None \<Rightarrow> (Inl RuntimeError, f)
      | Some key \<Rightarrow>
          (case known_hosts_file e of
             Inl x \<Rightarrow> (Inl x, f)
           | Inr p \<Rightarrow>
               if \<not> se_writable e p then (Inl OtherError, f)
               else (Inr (), f\<lparr>sf_known := (sf_known f)(p \<mapsto> add_host_key host port key (loaded f p))\<rparr>)))"

section \<open>Connecting\<close>

record connection =
  cn_target :: cluster
  cn_credential :: credential
  cn_keepalive :: "int option"

definition credential_of :: "cluster \<Rightarrow> credential" where
  "credential_of c = (if cl_key c \<noteq> [] then KeyFile (cl_key c) else if cl_password c \<noteq> [] then Password (cl_password c) else Standard)"

definition connected :: "ssh_env \<Rightarrow> cluster \<Rightarrow> connection" where
  "connected e c = \<lparr>cn_target = c, cn_credential = credential_of c,
     cn_keepalive = (if 0 < se_keepalive e then Some (se_keepalive e) else None)\<rparr>"

definition log_on :: "ssh_env \<Rightarrow> cluster \<Rightarrow> known_hosts \<Rightarrow> connection result" where
  "log_on e c known = (if se_login e known c (credential_of c) = LoggedOn then Inr (connected e c) else Inl OtherError)"

definition connect_or_trust :: "ssh_env \<Rightarrow> cluster \<Rightarrow> bool \<Rightarrow> place \<Rightarrow> ssh_files \<Rightarrow> connection result \<times> ssh_files" where
  "connect_or_trust e c trust p f =
     (if trust \<and> se_login e (loaded f p) c (credential_of c) = NotKnown
      then (case save_first_host_key e (cl_host c) (cl_port c) f of
              (Inl x, f') \<Rightarrow> (Inl x, f')
            | (Inr _, f') \<Rightarrow> (and_then (known_hosts_file e) (\<lambda>q. log_on e c (loaded f' q)), f'))
      else (log_on e c (loaded f p), f))"

text \<open>However the connection ends, its key file is removed, and an error of the removal takes the place of the
  outcome; a key that could not be written ends the call before.\<close>

definition drop_key :: "ssh_env \<Rightarrow> connection result \<times> ssh_files \<Rightarrow> connection result \<times> ssh_files" where
  "drop_key e out =
     (if se_unlink e = KeyStuck then (Inl OtherError, snd out)
      else (fst out, (snd out)\<lparr>sf_keys := butlast (sf_keys (snd out))\<rparr>))"

definition ssh_connect :: "ssh_env \<Rightarrow> cluster \<Rightarrow> bool \<Rightarrow> ssh_files \<Rightarrow> connection result \<times> ssh_files" where
  "ssh_connect e c trust f =
     (case known_hosts_file e of
        Inl x \<Rightarrow> (Inl x, f)
      | Inr p \<Rightarrow>
          if cl_key c = [] then connect_or_trust e c trust p f
          else (case write_ssh_key_temp e (cl_key c) f of
                  (Inl x, f1) \<Rightarrow> (Inl x, f1)
                | (Inr _, f1) \<Rightarrow> drop_key e (connect_or_trust e c trust p f1)))"

section \<open>Laws\<close>

lemma save_keeps_keys: "sf_keys (snd (save_first_host_key e h p f)) = sf_keys f"
  by (auto simp: save_first_host_key_def split: option.splits sum.splits)

lemma connect_keeps_keys: "sf_keys (snd (connect_or_trust e c trust p f)) = sf_keys f"
  using save_keeps_keys [of e "cl_host c" "cl_port c" f]
  by (auto simp: connect_or_trust_def split: prod.splits sum.splits)

lemma connect_without_trust: "connect_or_trust e c False p f = (log_on e c (loaded f p), f)"
  by (simp add: connect_or_trust_def)

lemma log_on_Inr: "log_on e c known = Inr n \<longleftrightarrow> se_login e known c (credential_of c) = LoggedOn \<and> n = connected e c"
  by (auto simp: log_on_def)

text \<open>The documented behaviour of the library under its policy: a login succeeds only if the file holds
  the key that the host shows.\<close>

definition rejects_unknown :: "ssh_env \<Rightarrow> bool" where
  "rejects_unknown e \<longleftrightarrow> (\<forall>known c w. se_login e known c w = LoggedOn \<longrightarrow>
     (\<exists>n key. se_shown e (cl_host c) (cl_port c) = Some key \<and> n \<in> {cl_host c, port_name (cl_host c) (cl_port c)}
       \<and> known (n, fst key) = Some (snd key)))"

text \<open>How many key files an attempt leaves, and whether one was written at all.\<close>

definition left_by :: "key_attempt \<Rightarrow> nat" where
  "left_by a = (if a = KeyLeft then 1 else 0)"

definition keys_stay :: "ssh_env \<Rightarrow> nat" where
  "keys_stay e =
     (if se_temp_key e = KeyWritten then (if se_unlink e = KeyStuck then 1 else 0)
      else left_by (se_temp_key e) +
        (if se_project_key e = KeyWritten then (if se_unlink e = KeyStuck then 1 else 0) else left_by (se_project_key e)))"

lemma write_key_result:
  "write_ssh_key_temp e key f =
     (if se_temp_key e = KeyWritten then (Inr (), f\<lparr>sf_keys := sf_keys f @ [key]\<rparr>)
      else let f1 = f\<lparr>sf_keys := sf_keys f @ replicate (left_by (se_temp_key e)) key\<rparr>
           in if se_project_key e = KeyWritten then (Inr (), f1\<lparr>sf_keys := sf_keys f1 @ [key]\<rparr>)
              else (Inl OtherError, f1\<lparr>sf_keys := sf_keys f1 @ replicate (left_by (se_project_key e)) key\<rparr>))"
  by (simp add: write_ssh_key_temp_def left_by_def Let_def split: key_attempt.splits)

lemma drop_key_keys:
  "sf_keys (snd out) = ks @ [k] \<Longrightarrow> sf_keys (snd (drop_key e out)) = ks @ replicate (if se_unlink e = KeyStuck then 1 else 0) k"
  by (simp add: drop_key_def)

lemma connect_keys:
  "sf_keys (snd (ssh_connect e c trust f)) = sf_keys f @ replicate (if cl_key c = [] \<or> isl (known_hosts_file e) then 0 else keys_stay e) (cl_key c)"
proof (cases "known_hosts_file e")
  case (Inr p)
  have dropped: "sf_keys (snd (drop_key e (connect_or_trust e c trust p (f\<lparr>sf_keys := ks @ [k]\<rparr>))))
      = ks @ replicate (if se_unlink e = KeyStuck then 1 else 0) k" for ks k
    by (rule drop_key_keys) (simp add: connect_keeps_keys)
  show ?thesis
  proof (cases "cl_key c = []")
    case True
    then show ?thesis using Inr by (simp add: ssh_connect_def connect_keeps_keys)
  next
    case False
    then show ?thesis
      using Inr dropped [of "sf_keys f" "cl_key c"] dropped [of "sf_keys f @ replicate (left_by (se_temp_key e)) (cl_key c)" "cl_key c"]
      by (auto simp: ssh_connect_def write_key_result keys_stay_def Let_def replicate_add)
  qed
qed (simp add: ssh_connect_def)

lemma connect_keeps_hosts: "sf_known (snd (ssh_connect e c False f)) = sf_known f"
  by (auto simp: ssh_connect_def write_key_result drop_key_def connect_without_trust Let_def split: sum.splits)

lemma connect_result:
  assumes "fst (ssh_connect e c False f) = Inr n"
  shows "\<exists>p. known_hosts_file e = Inr p \<and> log_on e c (loaded f p) = Inr n"
  using assms
  by (auto simp: ssh_connect_def write_key_result drop_key_def connect_without_trust Let_def loaded_def split: sum.splits if_splits)

lemma keys_stay_0:
  "keys_stay e = 0 \<longleftrightarrow> (se_temp_key e = KeyWritten \<longrightarrow> se_unlink e \<noteq> KeyStuck)
     \<and> se_temp_key e \<noteq> KeyLeft
     \<and> (se_temp_key e = KeyRefused \<longrightarrow> se_project_key e \<noteq> KeyLeft \<and> (se_project_key e = KeyWritten \<longrightarrow> se_unlink e \<noteq> KeyStuck))"
  by (cases "se_temp_key e"; cases "se_project_key e") (auto simp: keys_stay_def left_by_def)

section \<open>Properties\<close>

text \<open>C29. What a connection does to the disk. It removes the key file that it wrote, whether or not it
  succeeds; copies of the private key stay exactly when a failed attempt to write or protect one left its
  file behind, or when the removal fails. It removes nothing else and writes no other key. When it is not asked
  to trust, it leaves the known hosts as they are, and it succeeds only with a host whose shown key was in the
  file before, presenting the key before the password.\<close>

theorem connect_cleans_up:
  assumes "ssh_connect e c trust f = (r, f')" "rejects_unknown e"
  shows "(\<exists>k. sf_keys f' = sf_keys f @ replicate k (cl_key c))
    \<and> (sf_keys f' = sf_keys f \<longleftrightarrow> cl_key c = [] \<or> (\<exists>x. known_hosts_file e = Inl x)
        \<or> se_temp_key e \<noteq> KeyLeft \<and> (se_temp_key e = KeyWritten \<longrightarrow> se_unlink e \<noteq> KeyStuck)
          \<and> (se_temp_key e = KeyRefused \<longrightarrow> se_project_key e \<noteq> KeyLeft \<and> (se_project_key e = KeyWritten \<longrightarrow> se_unlink e \<noteq> KeyStuck)))
    \<and> (\<not> trust \<longrightarrow> sf_known f' = sf_known f)
    \<and> (\<not> trust \<and> r = Inr n \<longrightarrow> cn_credential n = credential_of c \<and>
        (\<exists>p m key. known_hosts_file e = Inr p \<and> se_shown e (cl_host c) (cl_port c) = Some key
          \<and> m \<in> {cl_host c, port_name (cl_host c) (cl_port c)} \<and> loaded f p (m, fst key) = Some (snd key)))"
proof -
  have keys: "sf_keys f' = sf_keys f @ replicate (if cl_key c = [] \<or> isl (known_hosts_file e) then 0 else keys_stay e) (cl_key c)"
    using connect_keys [of e c trust f] assms(1) by simp
  then have "sf_keys f' = sf_keys f \<longleftrightarrow> cl_key c = [] \<or> isl (known_hosts_file e) \<or> keys_stay e = 0" by auto
  moreover have "sf_known f' = sf_known f" if "\<not> trust" using connect_keeps_hosts [of e c f] assms(1) that by simp
  moreover have "cn_credential n = credential_of c \<and> (\<exists>p m key. known_hosts_file e = Inr p \<and> se_shown e (cl_host c) (cl_port c) = Some key
      \<and> m \<in> {cl_host c, port_name (cl_host c) (cl_port c)} \<and> loaded f p (m, fst key) = Some (snd key))" if plain: "\<not> trust" "r = Inr n"
  proof -
    obtain p where "known_hosts_file e = Inr p" "log_on e c (loaded f p) = Inr n"
      using connect_result [of e c f n] assms(1) plain by auto
    then show ?thesis using assms(2) unfolding log_on_Inr rejects_unknown_def connected_def by fastforce
  qed
  ultimately show ?thesis using keys unfolding keys_stay_0 isl_def by blast
qed

text \<open>In particular a key that was created but could not be protected stays, although the connection goes on
  with another copy; and a directory that exists but cannot be written is not replaced by the other one,
  although the fallback is meant for it.\<close>

lemma key_left_behind:
  assumes "se_temp_key e = KeyLeft" "se_project_key e \<noteq> KeyLeft" "se_unlink e \<noteq> KeyStuck" "known_hosts_file e = Inr p" "cl_key c \<noteq> []"
  shows "sf_keys (snd (ssh_connect e c trust f)) = sf_keys f @ [cl_key c]"
  using assms connect_keys [of e c trust f] by (simp add: keys_stay_def left_by_def)

lemma unwritable_home_fails:
  assumes "se_home e" "\<not> se_writable e AtHome" "se_shown e host port = Some key"
  shows "save_first_host_key e host port f = (Inl OtherError, f)"
  using assms by (simp add: save_first_host_key_def known_hosts_file_def)

definition sample_ssh :: ssh_env where
  "sample_ssh = \<lparr>se_home = True, se_project = True, se_writable = (\<lambda>_. True), se_temp_key = KeyWritten,
     se_project_key = KeyWritten, se_unlink = KeyRemoved, se_shown = (\<lambda>_ _. Some (''rsa'', ''k1'')),
     se_login = (\<lambda>known c _. if known (cl_host c, ''rsa'') = Some ''k1'' then LoggedOn else NotKnown), se_keepalive = 30\<rparr>"

definition sample_files :: ssh_files where
  "sample_files = \<lparr>sf_known = (\<lambda>_. Some [(''h'', ''rsa'') \<mapsto> ''k1'']), sf_keys = []\<rparr>"

definition sample_cluster :: cluster where
  "sample_cluster = \<lparr>cl_host = ''h'', cl_port = 22, cl_user = ''root'', cl_password = ''pw'', cl_key = ''pem''\<rparr>"

theorem connect_cleans_up_witness:
  "\<exists>n f'. ssh_connect sample_ssh sample_cluster False sample_files = (Inr n, f') \<and> sf_keys f' = [] \<and> cn_credential n = KeyFile ''pem''"
proof -
  have "rejects_unknown sample_ssh" by (auto simp: rejects_unknown_def sample_ssh_def)
  moreover have "fst (ssh_connect sample_ssh sample_cluster False sample_files) = Inr (connected sample_ssh sample_cluster)"
    by (simp add: ssh_connect_def known_hosts_file_def write_ssh_key_temp_def drop_key_def connect_or_trust_def log_on_def loaded_def
        sample_ssh_def sample_files_def sample_cluster_def)
  moreover have "se_temp_key sample_ssh = KeyWritten" "se_unlink sample_ssh \<noteq> KeyStuck" "sf_keys sample_files = []"
    by (simp_all add: sample_ssh_def sample_files_def)
  moreover obtain r f' where out: "ssh_connect sample_ssh sample_cluster False sample_files = (r, f')" by fastforce
  ultimately have r: "r = Inr (connected sample_ssh sample_cluster)" and c: "rejects_unknown sample_ssh" and
    k: "se_temp_key sample_ssh = KeyWritten" "se_unlink sample_ssh \<noteq> KeyStuck" "sf_keys sample_files = []" by simp_all
  note o = connect_cleans_up [OF out c, of "connected sample_ssh sample_cluster"]
  have "sf_keys f' = []" using o k by simp
  moreover have "cn_credential (connected sample_ssh sample_cluster) = credential_of sample_cluster" using o r by simp
  ultimately show ?thesis using out r by (simp add: credential_of_def sample_cluster_def)
qed

end
