(* ===== verification/Background.thy ===== *)
theory Background
  imports Prelude
begin

text \<open>
  The thread of the periodic synchronisation in
  \<^verbatim>\<open>backend/services/registry_service.py\<close>: its loop under the shared stop flag, and the
  start, the restart and the stop, which work on three variables of the module without a lock. Every read or
  write of one of them is a step of its own, because a restart is called from a route that FastAPI runs in a
  pool of threads, so several can be under way at once. Whether the distributed lock is granted, how long a
  wait or a round takes and whether the five seconds of a join pass are choices of the environment; the database
  factory and log lines are left out.
\<close>

section \<open>Threads\<close>

text \<open>Where a thread is: created but not started, at the head of the loop, in its wait, behind it,
  in a round, or ended (and has given the lock back).\<close>

datatype phase = Created | LoopHead | Sleeping | Woken | Syncing | Ended

definition is_live :: "phase \<Rightarrow> bool" where
  "is_live p = (p \<noteq> Created \<and> p \<noteq> Ended)"

text \<open>Where a call of the start or the restart is; \<open>Joining i\<close> waits for thread \<open>i\<close>.\<close>

datatype call_point = TestThread | TestAlive | SetStop | BeginJoin | Joining nat | ClearStop | Choose
  | StartClear | StartCreate | StartRun | Returned | CallRaised

text \<open>All threads ever created, the one the module remembers, the stop flag they share, and the calls with
  their intervals.\<close>

record sync_threads =
  sy_threads :: "phase list"
  sy_current :: "nat option"
  sy_stop :: bool
  sy_calls :: "(int \<times> call_point) list"

text \<open>One step of a thread; \<open>granted\<close> is the answer of the distributed lock.\<close>

definition sync_worker :: "bool \<Rightarrow> bool \<Rightarrow> phase \<Rightarrow> phase" where
  "sync_worker granted stop p =
     (case p of
        Created \<Rightarrow> Created
      | LoopHead \<Rightarrow> if stop then Ended else Sleeping
      | Sleeping \<Rightarrow> Woken
      | Woken \<Rightarrow> if stop then Ended else if granted then Syncing else LoopHead
      | Syncing \<Rightarrow> LoopHead
      | Ended \<Rightarrow> Ended)"

section \<open>Starting, restarting and stopping\<close>

text \<open>A step of the start: the check of the interval with the clearing of the flag, the new thread, and the
  start of the thread that the module then remembers, which may be another one. \<open>None\<close>: no step.\<close>

definition start_background_sync :: "int \<Rightarrow> call_point \<Rightarrow> sync_threads \<Rightarrow> (call_point \<times> sync_threads) option" where
  "start_background_sync interval at s =
     (case at of
        StartClear \<Rightarrow> Some (if interval \<le> 0 then (Returned, s) else (StartCreate, s\<lparr>sy_stop := False\<rparr>))
      | StartCreate \<Rightarrow> Some (StartRun, s\<lparr>sy_threads := sy_threads s @ [Created], sy_current := Some (length (sy_threads s))\<rparr>)
      | StartRun \<Rightarrow>
          Some (case sy_current s of
                  None \<Rightarrow> (CallRaised, s)
                | Some i \<Rightarrow> if sy_threads s ! i = Created then (Returned, s\<lparr>sy_threads := (sy_threads s)[i := LoopHead]\<rparr>)
                            else (CallRaised, s))
      | _ \<Rightarrow> None)"

text \<open>A step of the restart. The remembered thread is read three times before it is joined; the join ends
  with the thread or with the five seconds (\<open>expired\<close>), and the flag is cleared in any case.\<close>

definition restart_background_sync :: "bool \<Rightarrow> int \<Rightarrow> call_point \<Rightarrow> sync_threads \<Rightarrow> (call_point \<times> sync_threads) option" where
  "restart_background_sync expired interval at s =
     (case at of
        TestThread \<Rightarrow> Some (if sy_current s = None then Choose else TestAlive, s)
      | TestAlive \<Rightarrow>
          Some (case sy_current s of None \<Rightarrow> CallRaised | Some i \<Rightarrow> if is_live (sy_threads s ! i) then SetStop else Choose, s)
      | SetStop \<Rightarrow> Some (BeginJoin, s\<lparr>sy_stop := True\<rparr>)
      | BeginJoin \<Rightarrow>
          Some (case sy_current s of None \<Rightarrow> CallRaised | Some i \<Rightarrow> if sy_threads s ! i = Created then CallRaised else Joining i, s)
      | Joining i \<Rightarrow> if sy_threads s ! i = Ended \<or> expired then Some (ClearStop, s) else None
      | ClearStop \<Rightarrow> Some (Choose, s\<lparr>sy_stop := False\<rparr>)
      | Choose \<Rightarrow> Some (if 0 < interval then (StartClear, s) else (Returned, s\<lparr>sy_current := None\<rparr>))
      | _ \<Rightarrow> start_background_sync interval at s)"

definition stop_background_sync :: "sync_threads \<Rightarrow> sync_threads" where
  "stop_background_sync s = s\<lparr>sy_stop := True\<rparr>"

section \<open>Steps\<close>

datatype sync_event = WorkerStep nat bool | NewRestart int | CallStep nat bool | StopAll

definition call_done :: "int \<times> call_point \<Rightarrow> bool" where
  "call_done c = (snd c = Returned \<or> snd c = CallRaised)"

definition sync_event_step :: "sync_event \<Rightarrow> sync_threads \<Rightarrow> sync_threads option" where
  "sync_event_step ev s =
     (case ev of
        WorkerStep i granted \<Rightarrow>
          if i < length (sy_threads s)
          then Some (s\<lparr>sy_threads := (sy_threads s)[i := sync_worker granted (sy_stop s) (sy_threads s ! i)]\<rparr>) else None
      | NewRestart interval \<Rightarrow> Some (s\<lparr>sy_calls := sy_calls s @ [(interval, TestThread)]\<rparr>)
      | CallStep k expired \<Rightarrow>
          if k < length (sy_calls s)
          then map_option (\<lambda>(at, s'). s'\<lparr>sy_calls := (sy_calls s)[k := (fst (sy_calls s ! k), at)]\<rparr>)
                 (restart_background_sync expired (fst (sy_calls s ! k)) (snd (sy_calls s ! k)) s)
          else None
      | StopAll \<Rightarrow> Some (stop_background_sync s))"

text \<open>What a discipline of the callers allows: one call after the other (\<open>serial\<close>), no join that gives
  up (\<open>patient\<close>).\<close>

definition disciplined :: "bool \<Rightarrow> bool \<Rightarrow> sync_event \<Rightarrow> sync_threads \<Rightarrow> bool" where
  "disciplined serial patient ev s =
     (case ev of
        NewRestart _ \<Rightarrow> serial \<longrightarrow> list_all call_done (sy_calls s)
      | CallStep _ expired \<Rightarrow> patient \<longrightarrow> \<not> expired
      | _ \<Rightarrow> True)"

inductive sync_step :: "bool \<Rightarrow> bool \<Rightarrow> sync_threads \<Rightarrow> sync_threads \<Rightarrow> bool" for serial patient where
  sync_stepI: "disciplined serial patient ev s \<Longrightarrow> sync_event_step ev s = Some s' \<Longrightarrow> sync_step serial patient s s'"

text \<open>The start of the process: one call of the start, and no thread.\<close>

definition process_start :: "int \<Rightarrow> sync_threads" where
  "process_start interval = \<lparr>sy_threads = [], sy_current = None, sy_stop = False, sy_calls = [(interval, StartClear)]\<rparr>"

definition alive :: "sync_threads \<Rightarrow> nat set" where
  "alive s = {i. i < length (sy_threads s) \<and> is_live (sy_threads s ! i)}"

section \<open>Laws\<close>

lemma live_simps [simp]: "\<not> is_live Created" "\<not> is_live Ended" "is_live LoopHead" "is_live Sleeping" "is_live Woken" "is_live Syncing"
  by (simp_all add: is_live_def)

lemma worker_laws [simp]:
  "sync_worker g stop p = Created \<longleftrightarrow> p = Created" "\<not> is_live p \<Longrightarrow> sync_worker g stop p = p"
  by (cases p; simp add: sync_worker_def)+

lemma worker_alive: "alive (s\<lparr>sy_threads := (sy_threads s)[i := sync_worker g stop (sy_threads s ! i)]\<rparr>) \<subseteq> alive s"
proof
  fix x
  assume x: "x \<in> alive (s\<lparr>sy_threads := (sy_threads s)[i := sync_worker g stop (sy_threads s ! i)]\<rparr>)"
  show "x \<in> alive s"
  proof (rule ccontr)
    assume "x \<notin> alive s"
    then have "x < length (sy_threads s)" "\<not> is_live (sy_threads s ! x)" using x by (auto simp: alive_def)
    then show False using x by (cases "x = i") (auto simp: alive_def)
  qed
qed

lemma alive_simps [simp]:
  "alive (s\<lparr>sy_calls := cs\<rparr>) = alive s" "alive (s\<lparr>sy_stop := b\<rparr>) = alive s" "alive (s\<lparr>sy_current := c\<rparr>) = alive s"
  "alive (s\<lparr>sy_threads := sy_threads s @ [Created]\<rparr>) = alive s"
  by (auto simp: alive_def nth_append split: if_splits)

text \<open>The remembered thread exists and has been started, and no other is alive.\<close>

definition only_current :: "sync_threads \<Rightarrow> bool" where
  "only_current s \<longleftrightarrow> alive s \<subseteq> set_option (sy_current s)
     \<and> (\<forall>i. sy_current s = Some i \<longrightarrow> i < length (sy_threads s) \<and> sy_threads s ! i \<noteq> Created)"

text \<open>What holds while the only call under way is at a point.\<close>

definition point_inv :: "call_point \<Rightarrow> sync_threads \<Rightarrow> bool" where
  "point_inv at s \<longleftrightarrow>
     (case at of
        TestAlive \<Rightarrow> only_current s \<and> sy_current s \<noteq> None
      | SetStop \<Rightarrow> only_current s \<and> sy_current s \<noteq> None
      | BeginJoin \<Rightarrow> only_current s \<and> sy_current s \<noteq> None
      | Joining i \<Rightarrow> only_current s \<and> sy_current s = Some i
      | ClearStop \<Rightarrow> only_current s \<and> alive s = {}
      | Choose \<Rightarrow> only_current s \<and> alive s = {}
      | StartClear \<Rightarrow> only_current s \<and> alive s = {}
      | StartCreate \<Rightarrow> alive s = {}
      | StartRun \<Rightarrow> alive s = {} \<and> (\<exists>i. sy_current s = Some i \<and> i < length (sy_threads s) \<and> sy_threads s ! i = Created)
      | CallRaised \<Rightarrow> False
      | _ \<Rightarrow> only_current s)"

lemma only_current_simps [simp]:
  "only_current (s\<lparr>sy_calls := cs\<rparr>) = only_current s" "only_current (s\<lparr>sy_stop := b\<rparr>) = only_current s"
  by (simp_all add: only_current_def)

lemma point_inv_frame [simp]: "point_inv at (s\<lparr>sy_calls := cs\<rparr>) = point_inv at s" "point_inv at (s\<lparr>sy_stop := b\<rparr>) = point_inv at s"
  by (simp_all add: point_inv_def split: call_point.split)

lemma alive_current:
  assumes "only_current s" "\<forall>i. sy_current s = Some i \<longrightarrow> \<not> is_live (sy_threads s ! i)"
  shows "alive s = {}"
  using assms by (force simp: only_current_def alive_def)

lemma started_only: 
  assumes "alive s = {}" "i < length (sy_threads s)"
  shows "only_current (s\<lparr>sy_threads := (sy_threads s)[i := LoopHead], sy_current := Some i\<rparr>)"
  using assms by (auto simp: only_current_def alive_def nth_list_update split: if_splits)

lemma call_step_inv:
  assumes "restart_background_sync False n at s = Some (at', s')" "point_inv at s"
  shows "point_inv at' s'"
proof (cases at)
  case TestAlive
  then show ?thesis using assms alive_current [of s]
    by (auto simp: restart_background_sync_def point_inv_def split: if_splits)
next
  case (Joining i)
  then show ?thesis using assms alive_current [of s]
    by (auto simp: restart_background_sync_def point_inv_def split: if_splits)
next
  case TestThread
  then show ?thesis using assms alive_current [of s]
    by (auto simp: restart_background_sync_def point_inv_def split: if_splits)
next
  case BeginJoin
  then show ?thesis using assms by (auto simp: restart_background_sync_def point_inv_def only_current_def split: if_splits)
next
  case Choose
  then show ?thesis using assms by (auto simp: restart_background_sync_def point_inv_def only_current_def split: if_splits)
next
  case StartCreate
  then show ?thesis using assms by (auto simp: restart_background_sync_def start_background_sync_def point_inv_def)
next
  case StartRun
  then obtain i where i: "sy_current s = Some i" "i < length (sy_threads s)" "sy_threads s ! i = Created" "alive s = {}"
    using assms(2) by (auto simp: point_inv_def)
  then have "at' = Returned" "s' = s\<lparr>sy_threads := (sy_threads s)[i := LoopHead], sy_current := Some i\<rparr>"
    using assms(1) StartRun by (auto simp: restart_background_sync_def start_background_sync_def)
  then show ?thesis using started_only [OF i(4,2)] by (simp add: point_inv_def)
qed (use assms in \<open>auto simp: restart_background_sync_def start_background_sync_def point_inv_def split: if_splits\<close>)

lemma worker_inv:
  assumes "point_inv at s"
  shows "point_inv at (s\<lparr>sy_threads := (sy_threads s)[i := sync_worker g stop (sy_threads s ! i)]\<rparr>)"
proof -
  let ?s = "s\<lparr>sy_threads := (sy_threads s)[i := sync_worker g stop (sy_threads s ! i)]\<rparr>"
  have live: "alive ?s \<subseteq> alive s" by (rule worker_alive)
  have "sy_threads ?s ! j = Created \<longleftrightarrow> sy_threads s ! j = Created" for j
    by (cases "i < length (sy_threads s)"; cases "j = i") (simp_all add: list_update_beyond)
  then have created: "(sy_threads s)[i := sync_worker g stop (sy_threads s ! i)] ! j = Created \<longleftrightarrow> sy_threads s ! j = Created" for j by simp
  have only: "only_current s \<Longrightarrow> only_current ?s" using live by (auto simp: only_current_def created)
  show ?thesis using assms live only by (auto simp: point_inv_def created split: call_point.splits)
qed

text \<open>While calls come one after the other and joins do not give up, all calls but the last are over.\<close>

definition serial_inv :: "sync_threads \<Rightarrow> bool" where
  "serial_inv s \<longleftrightarrow> (\<exists>cs n at. sy_calls s = cs @ [(n, at)] \<and> (\<forall>c \<in> set cs. snd c = Returned) \<and> point_inv at s)"

lemma serial_step:
  assumes "sync_step True True s s'" "serial_inv s"
  shows "serial_inv s'"
  using assms(1)
proof cases
  case (sync_stepI ev)
  obtain cs n at where c: "sy_calls s = cs @ [(n, at)]" "\<forall>c \<in> set cs. snd c = Returned" "point_inv at s"
    using assms(2) by (auto simp: serial_inv_def)
  show ?thesis
  proof (cases ev)
    case (WorkerStep i g)
    then show ?thesis using sync_stepI(2) c worker_inv [OF c(3), of i g "sy_stop s"]
      by (auto simp: sync_event_step_def serial_inv_def split: if_splits)
  next
    case (NewRestart m)
    then have "at = Returned" using sync_stepI(1) c by (auto simp: disciplined_def call_done_def point_inv_def)
    then show ?thesis using sync_stepI(2) c NewRestart
      by (auto simp: sync_event_step_def serial_inv_def point_inv_def intro!: exI [of _ "cs @ [(n, at)]"])
  next
    case (CallStep k expired)
    then have e: "\<not> expired" using sync_stepI(1) by (simp add: disciplined_def)
    have k: "k < length (sy_calls s)" using sync_stepI(2) CallStep by (auto simp: sync_event_step_def split: if_splits)
    obtain at' s1 where r: "restart_background_sync False (fst (sy_calls s ! k)) (snd (sy_calls s ! k)) s = Some (at', s1)"
        "s' = s1\<lparr>sy_calls := (sy_calls s)[k := (fst (sy_calls s ! k), at')]\<rparr>"
      using sync_stepI(2) CallStep k e by (auto simp: sync_event_step_def)
    have "k = length cs"
    proof (rule ccontr)
      assume "k \<noteq> length cs"
      then have "snd (sy_calls s ! k) = Returned" using k c(1,2) by (auto simp: nth_append)
      then show False using r(1) by (simp add: restart_background_sync_def start_background_sync_def)
    qed
    then show ?thesis using r c call_step_inv [of n at s at' s1] by (auto simp: serial_inv_def)
  next
    case StopAll
    then show ?thesis using sync_stepI(2) c by (auto simp: sync_event_step_def stop_background_sync_def serial_inv_def)
  qed
qed

lemma point_alive: "point_inv at s \<Longrightarrow> card (alive s) \<le> 1 \<and> at \<noteq> CallRaised"
proof -
  assume p: "point_inv at s"
  then have "alive s \<subseteq> set_option (sy_current s)" by (auto simp: point_inv_def only_current_def split: call_point.splits)
  then show ?thesis using p by (cases "sy_current s") (auto simp: point_inv_def dest: card_mono [rotated])
qed

lemma serial_reach:
  assumes "(sync_step True True)\<^sup>*\<^sup>* (process_start interval) s"
  shows "serial_inv s"
proof -
  have "serial_inv (process_start interval)"
    by (simp add: serial_inv_def process_start_def point_inv_def only_current_def alive_def)
  with assms show ?thesis by (induction rule: rtranclp_induct) (auto intro: serial_step)
qed

text \<open>A sequence of events that the discipline allows, one after the other.\<close>

fun sync_run :: "bool \<Rightarrow> bool \<Rightarrow> sync_event list \<Rightarrow> sync_threads \<Rightarrow> sync_threads option" where
  "sync_run serial patient [] s = Some s"
| "sync_run serial patient (ev # evs) s =
     (if disciplined serial patient ev s then Option.bind (sync_event_step ev s) (sync_run serial patient evs) else None)"

lemma sync_run_steps: "sync_run serial patient evs s = Some s' \<Longrightarrow> (sync_step serial patient)\<^sup>*\<^sup>* s s'"
proof (induction evs arbitrary: s)
  case (Cons ev evs)
  then obtain s1 where "sync_step serial patient s s1" "sync_run serial patient evs s1 = Some s'"
    by (auto simp: bind_eq_Some_conv split: if_splits) (metis sync_stepI)
  then show ?case using Cons.IH by (auto intro: converse_rtranclp_into_rtranclp)
qed simp

lemmas sync_simps = sync_event_step_def restart_background_sync_def start_background_sync_def sync_worker_def disciplined_def
  call_done_def nth_append list_update_append

section \<open>Properties\<close>

text \<open>C21. As long as the calls of the restart do not overlap and no join gives up, at most one thread is
  alive at any time, and no call raises.\<close>

theorem one_sync_thread:
  assumes "(sync_step True True)\<^sup>*\<^sup>* (process_start interval) s"
  shows "card (alive s) \<le> 1 \<and> (\<forall>c \<in> set (sy_calls s). snd c \<noteq> CallRaised)"
  using serial_reach [OF assms] point_alive by (fastforce simp: serial_inv_def)

theorem one_sync_thread_witness:
  "\<exists>s. sync_run True True [CallStep 0 False, CallStep 0 False, CallStep 0 False, WorkerStep 0 True, NewRestart 10] (process_start 30)
     = Some s \<and> alive s = {0} \<and> card (alive s) \<le> 1"
proof -
  let ?s = "\<lparr>sy_threads = [Sleeping], sy_current = Some 0, sy_stop = False, sy_calls = [(30, Returned), (10, TestThread)]\<rparr>"
  have r: "sync_run True True [CallStep 0 False, CallStep 0 False, CallStep 0 False, WorkerStep 0 True, NewRestart 10] (process_start 30)
      = Some ?s"
    by (simp add: process_start_def sync_simps)
  have "card (alive ?s) \<le> 1" using one_sync_thread [OF sync_run_steps [OF r]] by blast
  then show ?thesis using r by (auto simp: alive_def)
qed

text \<open>The events of two restarts that meet the same sleeping thread \<open>i\<close>: both see it alive, both
  wait for its end, and each starts a thread of its own.\<close>

definition overlap :: "nat \<Rightarrow> nat \<Rightarrow> int \<Rightarrow> int \<Rightarrow> sync_event list" where
  "overlap i k m n =
     (let a = CallStep k False; b = CallStep (Suc k) False
      in [NewRestart m, NewRestart n, a, b, a, b, a, b, WorkerStep i True, WorkerStep i True, a, b, a, b,
          a, a, a, a, a, b, b, b, b, b])"

text \<open>C36. Two restarts at the same time leave two threads, although every join meets an ended thread:
  the route has no lock, and the second call overwrites the thread of the first, which no later restart can
  end.\<close>

theorem overlapping_restarts_double:
  assumes "sy_current s = Some i" "i < length (sy_threads s)" "sy_threads s ! i = Sleeping" "0 < m" "0 < n"
    and "s' = s\<lparr>sy_threads := (sy_threads s)[i := Ended] @ [LoopHead, LoopHead], sy_current := Some (Suc (length (sy_threads s))),
      sy_stop := False, sy_calls := sy_calls s @ [(m, Returned), (n, Returned)]\<rparr>"
  shows "(sync_step False True)\<^sup>*\<^sup>* s s' \<and> {length (sy_threads s), Suc (length (sy_threads s))} \<subseteq> alive s'"
proof
  have "sync_run False True (overlap i (length (sy_calls s)) m n) s = Some s'"
    using assms by (simp add: overlap_def Let_def sync_simps)
  then show "(sync_step False True)\<^sup>*\<^sup>* s s'" by (rule sync_run_steps)
  show "{length (sy_threads s), Suc (length (sy_threads s))} \<subseteq> alive s'"
    unfolding assms(6) by (simp add: alive_def nth_append)
qed

definition running_sync :: sync_threads where
  "running_sync = \<lparr>sy_threads = [Sleeping], sy_current = Some 0, sy_stop = False, sy_calls = [(30, Returned)]\<rparr>"

theorem overlapping_restarts_double_witness:
  "\<exists>s. (sync_step False True)\<^sup>*\<^sup>* running_sync s \<and> {1, 2} \<subseteq> alive s \<and> sy_current s = Some 2"
  using overlapping_restarts_double [of running_sync 0 10 5 "running_sync\<lparr>sy_threads := [Ended, LoopHead, LoopHead],
      sy_current := Some 2, sy_calls := [(30, Returned), (10, Returned), (5, Returned)]\<rparr>"]
  by (auto simp: running_sync_def numeral_2_eq_2)

text \<open>One restart alone does the same when it meets a long round: its join gives up after five seconds
  and the flag is cleared again, so the old thread goes on beside the new one.\<close>

lemma restart_doubles:
  fixes m :: int
  assumes "sy_current s = Some i" "i < length (sy_threads s)" "sy_threads s ! i = Syncing" "list_all call_done (sy_calls s)" "0 < m"
    and "a = (\<lambda>expired. CallStep (length (sy_calls s)) expired)"
  shows "\<exists>s'. (sync_step True False)\<^sup>*\<^sup>* s s' \<and> {i, length (sy_threads s)} \<subseteq> alive s'"
proof -
  have "sync_run True False [NewRestart m, a False, a False, a False, a False, a True, a False, a False, a False, a False, a False] s =
      Some (s\<lparr>sy_threads := sy_threads s @ [LoopHead], sy_current := Some (length (sy_threads s)),
        sy_stop := False, sy_calls := sy_calls s @ [(m, Returned)]\<rparr>)"
    using assms by (simp add: sync_simps)
  from sync_run_steps [OF this] show ?thesis using assms(2,3) by (auto simp: alive_def nth_append intro!: exI)
qed

end
