(* ===== verification/Schema.thy ===== *)
theory Schema
  imports Contract
begin

text \<open>
  The tables of \<^verbatim>\<open>backend/database.py\<close> and their creation in auto mode, for both
  databases: the statements in the order of the code, over a small model of what a statement does to tables,
  columns and indexes. What else may make a statement fail (rights, locks, rows that violate a unique index) is
  the parameter \<open>fails\<close>. The engine, the character set and the names of unique keys are left out.
\<close>

section \<open>Statements\<close>

datatype default_value = NoDefault | DNull | DNow | DInt int | DText string

datatype column = Column (col_name: string) (col_type: string) (col_default: default_value)

datatype key = Unique "string list" | Index string "string list" | References string string

datatype ddl =
    CreateTable string "column list" "key list"
  | AddColumn string column
  | DropColumn string string
  | CreateIndex string string "string list" bool
  | DropIndex string

text \<open>A statement whose failure is raised, and one under \<^verbatim>\<open>suppress(Exception)\<close>.\<close>

datatype stmt = Do ddl | Try ddl

record index_entry =
  ix_name :: string
  ix_table :: string
  ix_columns :: "string list"
  ix_unique :: bool

record sql_db =
  sq_tables :: "(string \<times> column list \<times> key list) list"
  sq_indexes :: "index_entry list"

definition empty_sql :: sql_db where
  "empty_sql = \<lparr>sq_tables = [], sq_indexes = []\<rparr>"

definition table_names :: "sql_db \<Rightarrow> string list" where
  "table_names db = List.map fst (sq_tables db)"

definition columns_of :: "sql_db \<Rightarrow> string \<Rightarrow> string list" where
  "columns_of db t = (case map_of (sq_tables db) t of None \<Rightarrow> [] | Some (cs, _) \<Rightarrow> List.map col_name cs)"

definition has_index :: "sql_db \<Rightarrow> string \<Rightarrow> bool" where
  "has_index db n = list_ex (\<lambda>x. ix_name x = n) (sq_indexes db)"

definition inline_indexes :: "string \<Rightarrow> key list \<Rightarrow> index_entry list" where
  "inline_indexes t ks = concat (List.map (\<lambda>k. case k of
     Index n cs \<Rightarrow> [\<lparr>ix_name = n, ix_table = t, ix_columns = cs, ix_unique = False\<rparr>] | _ \<Rightarrow> []) ks)"

definition change_table :: "string \<Rightarrow> (column list \<Rightarrow> column list) \<Rightarrow> sql_db \<Rightarrow> sql_db" where
  "change_table t f db = db\<lparr>sq_tables := List.map (\<lambda>(n, cs, ks). (n, if n = t then f cs else cs, ks)) (sq_tables db)\<rparr>"

text \<open>\<open>None\<close>: the database refuses. An existing index is kept; MySQL refuses it, which its caller suppresses.\<close>

fun exec_ddl :: "ddl \<Rightarrow> sql_db \<Rightarrow> sql_db option" where
  "exec_ddl (CreateTable t cs ks) db =
     Some (if t \<in> set (table_names db) then db
           else db\<lparr>sq_tables := sq_tables db @ [(t, cs, ks)], sq_indexes := sq_indexes db @ inline_indexes t ks\<rparr>)"
| "exec_ddl (AddColumn t c) db =
     (if t \<notin> set (table_names db) \<or> col_name c \<in> set (columns_of db t) then None
      else Some (change_table t (\<lambda>cs. cs @ [c]) db))"
| "exec_ddl (DropColumn t n) db =
     (if n \<notin> set (columns_of db t) \<or> list_ex (\<lambda>x. ix_table x = t \<and> n \<in> set (ix_columns x)) (sq_indexes db) then None
      else Some (change_table t (filter (\<lambda>c. col_name c \<noteq> n)) db))"
| "exec_ddl (CreateIndex n t cs u) db =
     (if has_index db n then Some db
      else if t \<notin> set (table_names db) \<or> \<not> set cs \<subseteq> set (columns_of db t) then None
      else Some (db\<lparr>sq_indexes := sq_indexes db @ [\<lparr>ix_name = n, ix_table = t, ix_columns = cs, ix_unique = u\<rparr>]\<rparr>))"
| "exec_ddl (DropIndex n) db = Some (db\<lparr>sq_indexes := filter (\<lambda>x. ix_name x \<noteq> n) (sq_indexes db)\<rparr>)"

text \<open>The error \<open>e\<close> is what a failed statement becomes for the driver.\<close>

fun run_stmts :: "exc \<Rightarrow> (ddl \<Rightarrow> bool) \<Rightarrow> stmt list \<Rightarrow> sql_db \<Rightarrow> sql_db result" where
  "run_stmts e fails [] db = Inr db"
| "run_stmts e fails (Do d # ss) db =
     (case (if fails d then None else exec_ddl d db) of None \<Rightarrow> Inl e | Some db' \<Rightarrow> run_stmts e fails ss db')"
| "run_stmts e fails (Try d # ss) db =
     run_stmts e fails ss (case (if fails d then None else exec_ddl d db) of None \<Rightarrow> db | Some db' \<Rightarrow> db')"

section \<open>MySQL\<close>

definition mysql_servers :: ddl where
  "mysql_servers = CreateTable ''cd_servers''
     [Column ''id'' ''INT AUTO_INCREMENT PRIMARY KEY'' NoDefault,
      Column ''name'' ''VARCHAR(255) UNIQUE'' NoDefault, Column ''host'' ''VARCHAR(255)'' NoDefault,
      Column ''port'' ''INT'' (DInt 22), Column ''user'' ''VARCHAR(64)'' (DText ''root''),
      Column ''type'' ''VARCHAR(32)'' (DText ''ssh''),
      Column ''auth_type'' ''VARCHAR(20)'' (DText ''password''),
      Column ''password'' ''VARCHAR(255)'' (DText []), Column ''ssh_key'' ''VARCHAR(8000)'' (DText []),
      Column ''tags'' ''VARCHAR(255)'' (DText []), Column ''created_at'' ''DATETIME'' DNow]
     []"

definition mysql_deploy_logs :: ddl where
  "mysql_deploy_logs = CreateTable ''cd_deploy_logs''
     [Column ''id'' ''INT AUTO_INCREMENT PRIMARY KEY'' NoDefault,
      Column ''project'' ''VARCHAR(255)'' NoDefault, Column ''tag'' ''VARCHAR(255)'' NoDefault,
      Column ''image'' ''VARCHAR(512)'' NoDefault, Column ''deploy_type'' ''VARCHAR(32)'' NoDefault,
      Column ''target'' ''VARCHAR(255)'' NoDefault, Column ''status'' ''VARCHAR(32)'' NoDefault,
      Column ''output'' ''TEXT'' NoDefault, Column ''triggered_by'' ''VARCHAR(64)'' (DText []),
      Column ''deploy_note'' ''VARCHAR(512)'' (DText []), Column ''duration_ms'' ''INT'' (DInt 0),
      Column ''stage_times'' ''TEXT'' NoDefault, Column ''runner'' ''VARCHAR(128)'' (DText []),
      Column ''heartbeat_at'' ''VARCHAR(32)'' (DText []), Column ''created_at'' ''DATETIME'' DNow]
     []"

definition mysql_bots :: ddl where
  "mysql_bots = CreateTable ''cd_bots''
     [Column ''id'' ''INT AUTO_INCREMENT PRIMARY KEY'' NoDefault,
      Column ''name'' ''VARCHAR(255) UNIQUE'' NoDefault, Column ''type'' ''VARCHAR(32)'' (DText ''custom''),
      Column ''webhook_url'' ''TEXT NOT NULL'' NoDefault, Column ''template'' ''VARCHAR(2000)'' (DText []),
      Column ''created_at'' ''DATETIME'' DNow]
     []"

definition mysql_registry_repositories :: ddl where
  "mysql_registry_repositories = CreateTable ''cd_registry_repositories''
     [Column ''id'' ''INT AUTO_INCREMENT PRIMARY KEY'' NoDefault,
      Column ''project_name'' ''VARCHAR(255) NOT NULL'' NoDefault,
      Column ''repo_name'' ''VARCHAR(512) NOT NULL'' NoDefault]
     [Unique [''project_name'', ''repo_name'']]"

definition mysql_registry_artifacts :: ddl where
  "mysql_registry_artifacts = CreateTable ''cd_registry_artifacts''
     [Column ''id'' ''INT AUTO_INCREMENT PRIMARY KEY'' NoDefault, Column ''repo_id'' ''INT'' NoDefault,
      Column ''tag'' ''VARCHAR(255)'' NoDefault, Column ''digest'' ''VARCHAR(128)'' NoDefault,
      Column ''artifact_id'' ''INT'' (DInt 0), Column ''artifact_digest'' ''VARCHAR(128)'' (DText []),
      Column ''size_bytes'' ''BIGINT'' (DInt 0), Column ''push_time'' ''DATETIME'' DNull,
      Column ''pull_time'' ''DATETIME'' DNull, Column ''scan_status'' ''VARCHAR(32)'' (DText []),
      Column ''scan_severity'' ''VARCHAR(16)'' (DText []), Column ''vuln_critical'' ''INT'' (DInt 0),
      Column ''vuln_high'' ''INT'' (DInt 0), Column ''vuln_medium'' ''INT'' (DInt 0),
      Column ''vuln_low'' ''INT'' (DInt 0), Column ''vuln_fixable'' ''INT'' (DInt 0),
      Column ''last_sync'' ''DATETIME'' DNull]
     [Unique [''repo_id'', ''tag'', ''digest''], References ''repo_id'' ''cd_registry_repositories'']"

definition mysql_config :: ddl where
  "mysql_config = CreateTable ''cd_config''
     [Column ''key_name'' ''VARCHAR(128) PRIMARY KEY'' NoDefault, Column ''value'' ''TEXT NOT NULL'' NoDefault]
     []"

definition mysql_alert_rules :: ddl where
  "mysql_alert_rules = CreateTable ''cd_alert_rules''
     [Column ''id'' ''INT AUTO_INCREMENT PRIMARY KEY'' NoDefault, Column ''name'' ''VARCHAR(255)'' NoDefault,
      Column ''target_type'' ''VARCHAR(32)'' (DText ''system''),
      Column ''resource_type'' ''VARCHAR(32) NOT NULL'' NoDefault,
      Column ''server_ids'' ''VARCHAR(2048)'' (DText []), Column ''threshold'' ''INT'' (DInt 80),
      Column ''bot_id'' ''INT'' (DInt 0), Column ''template'' ''VARCHAR(2000)'' (DText []),
      Column ''enabled'' ''TINYINT(1)'' (DInt 1), Column ''cooldown_minutes'' ''INT'' (DInt 10),
      Column ''duration_minutes'' ''INT'' (DInt 0), Column ''last_alert_at'' ''DATETIME'' DNull,
      Column ''created_at'' ''DATETIME'' DNow]
     []"

definition mysql_custom_monitors :: ddl where
  "mysql_custom_monitors = CreateTable ''cd_custom_monitors''
     [Column ''id'' ''INT AUTO_INCREMENT PRIMARY KEY'' NoDefault,
      Column ''name'' ''VARCHAR(255) NOT NULL'' NoDefault, Column ''command'' ''TEXT NOT NULL'' NoDefault,
      Column ''output_format'' ''VARCHAR(32)'' (DText ''auto''), Column ''description'' ''TEXT'' NoDefault,
      Column ''server_ids'' ''VARCHAR(2048)'' (DText []), Column ''enabled'' ''TINYINT(1)'' (DInt 1),
      Column ''created_at'' ''DATETIME'' DNow]
     []"

definition mysql_custom_monitor_metrics :: ddl where
  "mysql_custom_monitor_metrics = CreateTable ''cd_custom_monitor_metrics''
     [Column ''id'' ''INT AUTO_INCREMENT PRIMARY KEY'' NoDefault,
      Column ''monitor_id'' ''INT NOT NULL'' NoDefault, Column ''name'' ''VARCHAR(255) NOT NULL'' NoDefault,
      Column ''field_key'' ''VARCHAR(255) NOT NULL'' NoDefault, Column ''unit'' ''VARCHAR(32)'' (DText []),
      Column ''sort_order'' ''INT'' (DInt 0)]
     [References ''monitor_id'' ''cd_custom_monitors'', Index ''idx_metrics_monitor'' [''monitor_id'']]"

definition mysql_webhooks :: ddl where
  "mysql_webhooks = CreateTable ''cd_webhooks''
     [Column ''id'' ''INT AUTO_INCREMENT PRIMARY KEY'' NoDefault,
      Column ''name'' ''VARCHAR(255) UNIQUE'' NoDefault,
      Column ''token'' ''VARCHAR(255) UNIQUE NOT NULL'' NoDefault, Column ''bot_id'' ''INT'' (DInt 0),
      Column ''enabled'' ''TINYINT(1)'' (DInt 1), Column ''created_at'' ''DATETIME'' DNow]
     []"

definition mysql_webhook_events :: ddl where
  "mysql_webhook_events = CreateTable ''cd_webhook_events''
     [Column ''id'' ''INT AUTO_INCREMENT PRIMARY KEY'' NoDefault,
      Column ''webhook_id'' ''INT NOT NULL'' NoDefault, Column ''payload'' ''TEXT'' NoDefault,
      Column ''received_at'' ''DATETIME'' DNow, Column ''forwarded'' ''TINYINT(1)'' (DInt 0),
      Column ''forwarded_at'' ''DATETIME'' DNull]
     [Index ''idx_we_webhook'' [''webhook_id''], Index ''idx_we_received'' [''received_at'']]"

definition mysql_approvals :: ddl where
  "mysql_approvals = CreateTable ''cd_approvals''
     [Column ''id'' ''INT AUTO_INCREMENT PRIMARY KEY'' NoDefault,
      Column ''project'' ''VARCHAR(255) NOT NULL'' NoDefault, Column ''tag'' ''VARCHAR(255)'' (DText []),
      Column ''image'' ''VARCHAR(512)'' (DText []), Column ''deploy_type'' ''VARCHAR(32)'' (DText []),
      Column ''envs'' ''VARCHAR(255)'' (DText []), Column ''params_json'' ''TEXT'' NoDefault,
      Column ''status'' ''VARCHAR(16)'' (DText ''pending''), Column ''requester'' ''VARCHAR(64)'' (DText []),
      Column ''approver'' ''VARCHAR(64)'' (DText []), Column ''scheduled_at'' ''VARCHAR(32)'' (DText []),
      Column ''approve_note'' ''VARCHAR(512)'' (DText []), Column ''deploy_id'' ''INT'' (DInt 0),
      Column ''created_at'' ''DATETIME'' DNow, Column ''approved_at'' ''DATETIME'' DNull,
      Column ''updated_at'' ''DATETIME'' DNull]
     [Index ''idx_appr_status'' [''status''], Index ''idx_appr_project'' [''project''], Index ''idx_appr_created'' [''created_at'']]"

definition mysql_approval_rules :: ddl where
  "mysql_approval_rules = CreateTable ''cd_approval_rules''
     [Column ''id'' ''INT AUTO_INCREMENT PRIMARY KEY'' NoDefault,
      Column ''project'' ''VARCHAR(255) NOT NULL'' NoDefault, Column ''enabled'' ''TINYINT(1)'' (DInt 0),
      Column ''require_envs'' ''VARCHAR(255)'' (DText []),
      Column ''approver_role'' ''VARCHAR(32)'' (DText []), Column ''approvers'' ''VARCHAR(1024)'' (DText []),
      Column ''notify_bot_id'' ''INT'' (DInt 0),
      Column ''require_rollback_approval'' ''TINYINT(1)'' (DInt 1), Column ''created_at'' ''DATETIME'' DNow]
     [Unique [''project'']]"

definition mysql_sessions :: ddl where
  "mysql_sessions = CreateTable ''cd_sessions''
     [Column ''token_hash'' ''VARCHAR(64) PRIMARY KEY'' NoDefault,
      Column ''username'' ''VARCHAR(64) NOT NULL'' NoDefault,
      Column ''expires_at'' ''INT NOT NULL'' NoDefault, Column ''created_at'' ''DATETIME'' DNow]
     [Index ''idx_cds_username'' [''username'']]"

definition mysql_table_ddl :: "(string \<times> ddl) list" where
  "mysql_table_ddl =
     [(''cd_servers'', mysql_servers),
      (''cd_deploy_logs'', mysql_deploy_logs),
      (''cd_bots'', mysql_bots),
      (''cd_registry_repositories'', mysql_registry_repositories),
      (''cd_registry_artifacts'', mysql_registry_artifacts),
      (''cd_config'', mysql_config),
      (''cd_alert_rules'', mysql_alert_rules),
      (''cd_custom_monitors'', mysql_custom_monitors),
      (''cd_custom_monitor_metrics'', mysql_custom_monitor_metrics),
      (''cd_webhooks'', mysql_webhooks),
      (''cd_webhook_events'', mysql_webhook_events),
      (''cd_approvals'', mysql_approvals),
      (''cd_approval_rules'', mysql_approval_rules),
      (''cd_sessions'', mysql_sessions)]"

definition mysql_indexes :: "(string \<times> string \<times> string list \<times> bool) list" where
  "mysql_indexes =
     [(''idx_cds_type'', ''cd_servers'', [''type''], False),
      (''idx_cdl_project'', ''cd_deploy_logs'', [''project''], False),
      (''idx_cdl_created'', ''cd_deploy_logs'', [''created_at''], False),
      (''idx_cdl_project_tag_status'', ''cd_deploy_logs'', [''project'', ''tag'', ''status''], False),
      (''idx_cdl_status'', ''cd_deploy_logs'', [''status''], False),
      (''idx_cdl_approval_id'', ''cd_deploy_logs'', [''approval_id''], False),
      (''idx_cdl_lock_key'', ''cd_deploy_logs'', [''lock_key''], True),
      (''idx_cdr_repo_id'', ''cd_registry_artifacts'', [''repo_id''], False),
      (''idx_cdr_enabled'', ''cd_alert_rules'', [''enabled''], False),
      (''idx_cdr_created'', ''cd_alert_rules'', [''created_at''], False),
      (''idx_cdm_enabled'', ''cd_custom_monitors'', [''enabled''], False),
      (''idx_cdm_created'', ''cd_custom_monitors'', [''created_at''], False),
      (''idx_cwh_enabled'', ''cd_webhooks'', [''enabled''], False)]"

definition mysql_migrations :: "(string \<times> column) list" where
  "mysql_migrations =
     [(''cd_deploy_logs'', Column ''approval_id'' ''INT'' (DInt 0)),
      (''cd_deploy_logs'', Column ''runner'' ''VARCHAR(128)'' (DText [])),
      (''cd_deploy_logs'', Column ''heartbeat_at'' ''VARCHAR(32)'' (DText [])),
      (''cd_deploy_logs'', Column ''lock_key'' ''VARCHAR(255)'' DNull),
      (''cd_deploy_logs'', Column ''params_json'' ''TEXT'' NoDefault),
      (''cd_deploy_logs'', Column ''rollback_type'' ''VARCHAR(32)'' (DText ''manual'')),
      (''cd_deploy_logs'', Column ''artifact_id'' ''INT'' (DInt 0)),
      (''cd_deploy_logs'', Column ''artifact_digest'' ''VARCHAR(128)'' (DText [])),
      (''cd_approvals'', Column ''deploy_id'' ''INT'' (DInt 0)),
      (''cd_approvals'', Column ''approved_at'' ''VARCHAR(32)'' (DText [])),
      (''cd_approvals'', Column ''scheduled_at'' ''VARCHAR(32)'' (DText [])),
      (''cd_approvals'', Column ''updated_at'' ''VARCHAR(32)'' (DText [])),
      (''cd_custom_monitors'', Column ''output_format'' ''VARCHAR(32)'' (DText ''auto'')),
      (''cd_registry_artifacts'', Column ''artifact_id'' ''INT'' (DInt 0)),
      (''cd_registry_artifacts'', Column ''artifact_digest'' ''VARCHAR(128)'' (DText []))]"

text \<open>For each required table its statement, if there is one; then the indexes; then the missing columns.\<close>

definition mysql_creates :: "stmt list" where
  "mysql_creates = List.map Do (concat (List.map (\<lambda>t. case map_of mysql_table_ddl t of None \<Rightarrow> [] | Some d \<Rightarrow> [d]) cd_required_tables))"

definition ensure_mysql_indexes :: "stmt list" where
  "ensure_mysql_indexes = List.map (\<lambda>(n, t, cs, u). Try (CreateIndex n t cs u)) mysql_indexes"

definition ensure_mysql_migrations :: "stmt list" where
  "ensure_mysql_migrations = List.map (\<lambda>(t, c). Try (AddColumn t c)) mysql_migrations"

definition self_check :: "sql_db \<Rightarrow> sql_db result" where
  "self_check db = (if cd_missing_tables (table_names db) \<noteq> [] then Inl RuntimeError else Inr db)"

definition ensure_mysql_tables :: "(ddl \<Rightarrow> bool) \<Rightarrow> sql_db \<Rightarrow> sql_db result" where
  "ensure_mysql_tables fails db =
     and_then (run_stmts OtherError fails (mysql_creates @ ensure_mysql_indexes @ ensure_mysql_migrations) db) self_check"

section \<open>SQLite\<close>

definition sqlite_servers :: ddl where
  "sqlite_servers = CreateTable ''cd_servers''
     [Column ''id'' ''INTEGER PRIMARY KEY AUTOINCREMENT'' NoDefault,
      Column ''name'' ''VARCHAR(255) UNIQUE'' NoDefault, Column ''host'' ''VARCHAR(255)'' NoDefault,
      Column ''port'' ''INTEGER'' (DInt 22), Column ''user'' ''VARCHAR(64)'' (DText ''root''),
      Column ''type'' ''VARCHAR(32)'' (DText ''ssh''),
      Column ''auth_type'' ''VARCHAR(20)'' (DText ''password''),
      Column ''password'' ''VARCHAR(255)'' (DText []), Column ''ssh_key'' ''TEXT'' (DText []),
      Column ''tags'' ''VARCHAR(255)'' (DText []), Column ''created_at'' ''TEXT'' DNow]
     []"

definition sqlite_deploy_logs :: ddl where
  "sqlite_deploy_logs = CreateTable ''cd_deploy_logs''
     [Column ''id'' ''INTEGER PRIMARY KEY AUTOINCREMENT'' NoDefault,
      Column ''project'' ''VARCHAR(255)'' NoDefault, Column ''tag'' ''VARCHAR(255)'' NoDefault,
      Column ''image'' ''VARCHAR(512)'' NoDefault, Column ''deploy_type'' ''VARCHAR(32)'' NoDefault,
      Column ''target'' ''VARCHAR(255)'' NoDefault, Column ''status'' ''VARCHAR(32)'' NoDefault,
      Column ''output'' ''TEXT'' NoDefault, Column ''triggered_by'' ''VARCHAR(64)'' (DText []),
      Column ''deploy_note'' ''VARCHAR(512)'' (DText []), Column ''duration_ms'' ''INTEGER'' (DInt 0),
      Column ''stage_times'' ''TEXT'' (DText []), Column ''approval_id'' ''INTEGER'' (DInt 0),
      Column ''created_at'' ''TEXT'' DNow]
     []"

definition sqlite_bots :: ddl where
  "sqlite_bots = CreateTable ''cd_bots''
     [Column ''id'' ''INTEGER PRIMARY KEY AUTOINCREMENT'' NoDefault,
      Column ''name'' ''VARCHAR(255) UNIQUE'' NoDefault, Column ''type'' ''VARCHAR(32)'' (DText ''custom''),
      Column ''webhook_url'' ''TEXT NOT NULL'' NoDefault, Column ''template'' ''TEXT'' (DText []),
      Column ''created_at'' ''TEXT'' DNow]
     []"

definition sqlite_registry_repositories :: ddl where
  "sqlite_registry_repositories = CreateTable ''cd_registry_repositories''
     [Column ''id'' ''INTEGER PRIMARY KEY AUTOINCREMENT'' NoDefault,
      Column ''project_name'' ''VARCHAR(255) NOT NULL'' NoDefault,
      Column ''repo_name'' ''VARCHAR(512) NOT NULL'' NoDefault]
     [Unique [''project_name'', ''repo_name'']]"

definition sqlite_registry_artifacts :: ddl where
  "sqlite_registry_artifacts = CreateTable ''cd_registry_artifacts''
     [Column ''id'' ''INTEGER PRIMARY KEY AUTOINCREMENT'' NoDefault,
      Column ''repo_id'' ''INTEGER'' NoDefault, Column ''tag'' ''VARCHAR(255)'' NoDefault,
      Column ''digest'' ''VARCHAR(128)'' NoDefault, Column ''artifact_id'' ''INTEGER'' (DInt 0),
      Column ''artifact_digest'' ''VARCHAR(128)'' (DText []), Column ''size_bytes'' ''BIGINT'' (DInt 0),
      Column ''push_time'' ''TEXT'' (DText []), Column ''pull_time'' ''TEXT'' (DText []),
      Column ''scan_status'' ''VARCHAR(32)'' (DText []), Column ''scan_severity'' ''VARCHAR(16)'' (DText []),
      Column ''vuln_critical'' ''INTEGER'' (DInt 0), Column ''vuln_high'' ''INTEGER'' (DInt 0),
      Column ''vuln_medium'' ''INTEGER'' (DInt 0), Column ''vuln_low'' ''INTEGER'' (DInt 0),
      Column ''vuln_fixable'' ''INTEGER'' (DInt 0), Column ''last_sync'' ''TEXT'' (DText [])]
     [Unique [''repo_id'', ''tag'', ''digest''], References ''repo_id'' ''cd_registry_repositories'']"

definition sqlite_config :: ddl where
  "sqlite_config = CreateTable ''cd_config''
     [Column ''key_name'' ''VARCHAR(128) PRIMARY KEY'' NoDefault, Column ''value'' ''TEXT NOT NULL'' NoDefault]
     []"

definition sqlite_sessions :: ddl where
  "sqlite_sessions = CreateTable ''cd_sessions''
     [Column ''token_hash'' ''VARCHAR(64) PRIMARY KEY'' NoDefault,
      Column ''username'' ''VARCHAR(64) NOT NULL'' NoDefault,
      Column ''expires_at'' ''INTEGER NOT NULL'' NoDefault, Column ''created_at'' ''TEXT'' DNow]
     []"

definition sqlite_alert_rules :: ddl where
  "sqlite_alert_rules = CreateTable ''cd_alert_rules''
     [Column ''id'' ''INTEGER PRIMARY KEY AUTOINCREMENT'' NoDefault,
      Column ''name'' ''VARCHAR(255)'' NoDefault, Column ''target_type'' ''VARCHAR(32)'' (DText ''system''),
      Column ''resource_type'' ''VARCHAR(32) NOT NULL'' NoDefault,
      Column ''server_ids'' ''VARCHAR(2048)'' (DText []), Column ''threshold'' ''INTEGER'' (DInt 80),
      Column ''bot_id'' ''INTEGER'' (DInt 0), Column ''template'' ''TEXT'' (DText []),
      Column ''enabled'' ''INTEGER'' (DInt 1), Column ''cooldown_minutes'' ''INTEGER'' (DInt 10),
      Column ''duration_minutes'' ''INTEGER'' (DInt 0), Column ''last_alert_at'' ''TEXT'' (DText []),
      Column ''created_at'' ''TEXT'' DNow]
     []"

definition sqlite_custom_monitors :: ddl where
  "sqlite_custom_monitors = CreateTable ''cd_custom_monitors''
     [Column ''id'' ''INTEGER PRIMARY KEY AUTOINCREMENT'' NoDefault,
      Column ''name'' ''VARCHAR(255) NOT NULL'' NoDefault, Column ''command'' ''TEXT NOT NULL'' NoDefault,
      Column ''output_format'' ''VARCHAR(32)'' (DText ''auto''), Column ''description'' ''TEXT'' (DText []),
      Column ''server_ids'' ''VARCHAR(2048)'' (DText []), Column ''enabled'' ''INTEGER'' (DInt 1),
      Column ''created_at'' ''TEXT'' DNow]
     []"

definition sqlite_custom_monitor_metrics :: ddl where
  "sqlite_custom_monitor_metrics = CreateTable ''cd_custom_monitor_metrics''
     [Column ''id'' ''INTEGER PRIMARY KEY AUTOINCREMENT'' NoDefault,
      Column ''monitor_id'' ''INTEGER NOT NULL'' NoDefault,
      Column ''name'' ''VARCHAR(255) NOT NULL'' NoDefault,
      Column ''field_key'' ''VARCHAR(255) NOT NULL'' NoDefault, Column ''unit'' ''VARCHAR(32)'' (DText []),
      Column ''sort_order'' ''INTEGER'' (DInt 0)]
     [References ''monitor_id'' ''cd_custom_monitors'']"

definition sqlite_webhooks :: ddl where
  "sqlite_webhooks = CreateTable ''cd_webhooks''
     [Column ''id'' ''INTEGER PRIMARY KEY AUTOINCREMENT'' NoDefault,
      Column ''name'' ''VARCHAR(255) UNIQUE'' NoDefault,
      Column ''token'' ''VARCHAR(255) UNIQUE NOT NULL'' NoDefault, Column ''bot_id'' ''INTEGER'' (DInt 0),
      Column ''enabled'' ''INTEGER'' (DInt 1), Column ''created_at'' ''TEXT'' DNow]
     []"

definition sqlite_webhook_events :: ddl where
  "sqlite_webhook_events = CreateTable ''cd_webhook_events''
     [Column ''id'' ''INTEGER PRIMARY KEY AUTOINCREMENT'' NoDefault,
      Column ''webhook_id'' ''INTEGER NOT NULL'' NoDefault, Column ''payload'' ''TEXT'' NoDefault,
      Column ''received_at'' ''TEXT'' DNow, Column ''forwarded'' ''INTEGER'' (DInt 0),
      Column ''forwarded_at'' ''TEXT'' (DText [])]
     []"

definition sqlite_approvals :: ddl where
  "sqlite_approvals = CreateTable ''cd_approvals''
     [Column ''id'' ''INTEGER PRIMARY KEY AUTOINCREMENT'' NoDefault,
      Column ''project'' ''VARCHAR(255) NOT NULL'' NoDefault, Column ''tag'' ''VARCHAR(255)'' (DText []),
      Column ''image'' ''VARCHAR(512)'' (DText []), Column ''deploy_type'' ''VARCHAR(32)'' (DText []),
      Column ''envs'' ''VARCHAR(255)'' (DText []), Column ''params_json'' ''TEXT'' (DText []),
      Column ''status'' ''VARCHAR(16)'' (DText ''pending''), Column ''requester'' ''VARCHAR(64)'' (DText []),
      Column ''approver'' ''VARCHAR(64)'' (DText []), Column ''approve_note'' ''VARCHAR(512)'' (DText []),
      Column ''deploy_id'' ''INTEGER'' (DInt 0), Column ''created_at'' ''TEXT'' DNow,
      Column ''approved_at'' ''TEXT'' (DText []), Column ''scheduled_at'' ''TEXT'' (DText []),
      Column ''updated_at'' ''TEXT'' (DText [])]
     []"

definition sqlite_approval_rules :: ddl where
  "sqlite_approval_rules = CreateTable ''cd_approval_rules''
     [Column ''id'' ''INTEGER PRIMARY KEY AUTOINCREMENT'' NoDefault,
      Column ''project'' ''VARCHAR(255) NOT NULL UNIQUE'' NoDefault, Column ''enabled'' ''INTEGER'' (DInt 0),
      Column ''require_envs'' ''VARCHAR(255)'' (DText []),
      Column ''approver_role'' ''VARCHAR(32)'' (DText []), Column ''approvers'' ''VARCHAR(1024)'' (DText []),
      Column ''notify_bot_id'' ''INTEGER'' (DInt 0),
      Column ''require_rollback_approval'' ''INTEGER'' (DInt 1), Column ''created_at'' ''TEXT'' DNow]
     []"

definition sqlite_servers_part :: "stmt list" where
  "sqlite_servers_part =
     [Do sqlite_servers, Try (AddColumn ''cd_servers'' (Column ''password'' ''VARCHAR(255)'' (DText []))),
      Try (AddColumn ''cd_servers'' (Column ''ssh_key'' ''TEXT'' (DText []))),
      Try (AddColumn ''cd_servers'' (Column ''tags'' ''VARCHAR(255)'' (DText []))),
      Try (AddColumn ''cd_servers'' (Column ''auth_type'' ''VARCHAR(20)'' (DText ''password'')))]"

definition sqlite_logs_part :: "stmt list" where
  "sqlite_logs_part =
     [Do sqlite_deploy_logs,
      Try (AddColumn ''cd_deploy_logs'' (Column ''triggered_by'' ''VARCHAR(64)'' (DText []))),
      Try (AddColumn ''cd_deploy_logs'' (Column ''deploy_note'' ''VARCHAR(512)'' (DText []))),
      Try (AddColumn ''cd_deploy_logs'' (Column ''duration_ms'' ''INTEGER'' (DInt 0))),
      Try (AddColumn ''cd_deploy_logs'' (Column ''stage_times'' ''TEXT'' (DText []))),
      Try (AddColumn ''cd_deploy_logs'' (Column ''lock_key'' ''VARCHAR(255)'' NoDefault)),
      Try (AddColumn ''cd_deploy_logs'' (Column ''params_json'' ''TEXT'' (DText []))),
      Try (AddColumn ''cd_deploy_logs'' (Column ''rollback_type'' ''VARCHAR(32)'' (DText ''manual''))),
      Try (AddColumn ''cd_deploy_logs'' (Column ''artifact_id'' ''INTEGER'' (DInt 0))),
      Try (AddColumn ''cd_deploy_logs'' (Column ''artifact_digest'' ''VARCHAR(128)'' (DText []))),
      Try (AddColumn ''cd_deploy_logs'' (Column ''approval_id'' ''INTEGER'' (DInt 0))),
      Try (AddColumn ''cd_deploy_logs'' (Column ''runner'' ''VARCHAR(128)'' (DText []))),
      Try (AddColumn ''cd_deploy_logs'' (Column ''heartbeat_at'' ''VARCHAR(32)'' (DText []))),
      Do (CreateIndex ''idx_cdl_lock_key'' ''cd_deploy_logs'' [''lock_key''] True),
      Try (DropIndex ''idx_cdl_deploy_id''), Try (DropColumn ''cd_deploy_logs'' ''deploy_id'')]"

definition sqlite_registry_part :: "stmt list" where
  "sqlite_registry_part =
     [Do sqlite_bots, Try (AddColumn ''cd_bots'' (Column ''template'' ''TEXT'' (DText []))),
      Do sqlite_registry_repositories, Do sqlite_registry_artifacts, Do sqlite_config, Do sqlite_sessions]"

definition sqlite_monitor_part :: "stmt list" where
  "sqlite_monitor_part =
     [Do sqlite_alert_rules, Do sqlite_custom_monitors, Do sqlite_custom_monitor_metrics,
      Try (CreateIndex ''idx_metrics_monitor'' ''cd_custom_monitor_metrics'' [''monitor_id''] False),
      Do sqlite_webhooks, Do sqlite_webhook_events]"

definition sqlite_approvals_part :: "stmt list" where
  "sqlite_approvals_part =
     [Do sqlite_approvals]"

definition sqlite_approval_columns :: "column list" where
  "sqlite_approval_columns =
     [Column ''deploy_id'' ''INTEGER'' (DInt 0), Column ''approved_at'' ''TEXT'' (DText []),
      Column ''scheduled_at'' ''TEXT'' (DText []), Column ''updated_at'' ''TEXT'' (DText [])]"

definition sqlite_migrations :: "(string \<times> column) list" where
  "sqlite_migrations =
     [(''cd_custom_monitors'', Column ''output_format'' ''VARCHAR(32)'' (DText ''auto'')),
      (''cd_registry_artifacts'', Column ''artifact_id'' ''INTEGER'' (DInt 0)),
      (''cd_registry_artifacts'', Column ''artifact_digest'' ''VARCHAR(128)'' (DText [])),
      (''cd_approvals'', Column ''scheduled_at'' ''TEXT'' (DText []))]"

definition sqlite_indexes :: "(string \<times> string \<times> string list) list" where
  "sqlite_indexes =
     [(''idx_cdl_project'', ''cd_deploy_logs'', [''project'']),
      (''idx_cdl_created'', ''cd_deploy_logs'', [''created_at'']),
      (''idx_cdl_project_tag_status'', ''cd_deploy_logs'', [''project'', ''tag'', ''status'']),
      (''idx_cdl_status'', ''cd_deploy_logs'', [''status'']),
      (''idx_cdl_approval_id'', ''cd_deploy_logs'', [''approval_id'']),
      (''idx_cdr_repo_id'', ''cd_registry_artifacts'', [''repo_id'']),
      (''idx_cds_type'', ''cd_servers'', [''type'']),
      (''idx_cdr_enabled'', ''cd_alert_rules'', [''enabled'']),
      (''idx_cdr_created'', ''cd_alert_rules'', [''created_at'']),
      (''idx_cdm_enabled'', ''cd_custom_monitors'', [''enabled'']),
      (''idx_cdm_created'', ''cd_custom_monitors'', [''created_at'']),
      (''idx_cwh_enabled'', ''cd_webhooks'', [''enabled'']),
      (''idx_we_webhook'', ''cd_webhook_events'', [''webhook_id'']),
      (''idx_we_received'', ''cd_webhook_events'', [''received_at'']),
      (''idx_appr_status'', ''cd_approvals'', [''status'']),
      (''idx_appr_project'', ''cd_approvals'', [''project'']),
      (''idx_appr_created'', ''cd_approvals'', [''created_at'']),
      (''idx_cds_username'', ''cd_sessions'', [''username''])]"

definition ensure_indexes :: "stmt list" where
  "ensure_indexes = List.map (\<lambda>(n, t, cs). Try (CreateIndex n t cs False)) sqlite_indexes"

definition sqlite_script :: "stmt list" where
  "sqlite_script =
     sqlite_servers_part @ sqlite_logs_part @ sqlite_registry_part @ sqlite_monitor_part @ sqlite_approvals_part @
     List.map (\<lambda>c. Try (AddColumn ''cd_approvals'' c)) sqlite_approval_columns @ [Do sqlite_approval_rules] @
     List.map (\<lambda>(t, c). Try (AddColumn t c)) sqlite_migrations @ ensure_indexes"

definition ensure_cd_tables :: "(ddl \<Rightarrow> bool) \<Rightarrow> sql_db \<Rightarrow> sql_db result" where
  "ensure_cd_tables fails db =
     and_then (run_stmts (AppException 503 (Some ''errors.db_unavailable'')) fails sqlite_script db) self_check"

section \<open>Laws\<close>

fun created_table :: "ddl \<Rightarrow> string list" where
  "created_table (CreateTable t _ _) = [t]"
| "created_table _ = []"

fun ddl_of :: "stmt \<Rightarrow> ddl" where
  "ddl_of (Do d) = d"
| "ddl_of (Try d) = d"

text \<open>The tables that exist after a statement that raised nothing, and those it may have made.\<close>

fun must_create :: "stmt \<Rightarrow> string list" where
  "must_create (Do d) = created_table d"
| "must_create (Try d) = []"

definition may_create :: "stmt \<Rightarrow> string list" where
  "may_create s = created_table (ddl_of s)"

lemma change_table_names [simp]: "table_names (change_table t f db) = table_names db"
  by (auto simp: table_names_def change_table_def)

lemma change_table_indexes [simp]: "sq_indexes (change_table t f db) = sq_indexes db"
  by (simp add: change_table_def)

lemma new_table_names [simp]:
  "table_names (db\<lparr>sq_tables := sq_tables db @ [(t, cs, ks)]\<rparr>) = table_names db @ [t]"
  "table_names (db\<lparr>sq_indexes := x\<rparr>) = table_names db"
  by (simp_all add: table_names_def)

lemma columns_change:
  "columns_of (change_table t f db) m =
     (case map_of (sq_tables db) m of None \<Rightarrow> [] | Some (cs, _) \<Rightarrow> List.map col_name (if m = t then f cs else cs))"
proof -
  have "map_of (List.map (\<lambda>(n, cs, ks). (n, if n = t then f cs else cs, ks)) xs) m =
      map_option (\<lambda>(cs, ks). (if m = t then f cs else cs, ks)) (map_of xs m)" for xs :: "(string \<times> column list \<times> key list) list"
    by (induction xs) auto
  then show ?thesis by (simp add: columns_of_def change_table_def split: option.splits)
qed

lemma columns_new:
  "columns_of (db\<lparr>sq_tables := sq_tables db @ [(t, cs, ks)]\<rparr>) m =
     (if m \<in> set (table_names db) then columns_of db m else if m = t then List.map col_name cs else [])"
proof (cases "map_of (sq_tables db) m")
  case None
  then have "m \<notin> set (table_names db)" by (simp add: table_names_def map_of_eq_None_iff)
  then show ?thesis using None by (simp add: columns_of_def map_add_def)
next
  case (Some y)
  then have "m \<in> set (table_names db)" by (metis list.set_map map_of_eq_None_iff option.distinct(1) table_names_def)
  then show ?thesis using Some by (simp add: columns_of_def map_add_def)
qed

lemma columns_indexes [simp]: "columns_of (db\<lparr>sq_indexes := x\<rparr>) m = columns_of db m"
  by (simp add: columns_of_def)

text \<open>A statement makes the table it creates and touches the name of no other.\<close>

lemma exec_names:
  "exec_ddl d db = Some db' \<Longrightarrow> set (table_names db') = set (table_names db) \<union> set (created_table d)"
  by (cases d) (auto split: if_split_asm)

text \<open>What a statement does under \<^verbatim>\<open>suppress\<close>.\<close>

definition tried :: "(ddl \<Rightarrow> bool) \<Rightarrow> ddl \<Rightarrow> sql_db \<Rightarrow> sql_db" where
  "tried fails d db = (case (if fails d then None else exec_ddl d db) of None \<Rightarrow> db | Some db' \<Rightarrow> db')"

lemma run_Try [simp]: "run_stmts e fails (Try d # ss) db = run_stmts e fails ss (tried fails d db)"
  by (simp add: tried_def)

lemma run_Do:
  assumes "run_stmts e fails (Do d # ss) db = Inr db'"
  obtains x where "exec_ddl d db = Some x" "run_stmts e fails ss x = Inr db'"
  using assms by (auto split: option.splits if_splits)

declare run_stmts.simps(2,3) [simp del]

text \<open>What a run keeps if every statement keeps it.\<close>

lemma stmts_keep:
  assumes "run_stmts e fails ss db = Inr db'" "P db"
    and "\<And>s x y. s \<in> set ss \<Longrightarrow> P x \<Longrightarrow> exec_ddl (ddl_of s) x = Some y \<Longrightarrow> P y"
  shows "P db'"
  using assms
proof (induction ss arbitrary: db)
  case (Cons s ss)
  show ?case
  proof (cases s)
    case (Do d)
    obtain x where x: "exec_ddl d db = Some x" "run_stmts e fails ss x = Inr db'"
      using run_Do Cons.prems(1) Do by metis
    have "P x" using Cons.prems(2) Cons.prems(3) [of s] x(1) Do by simp
    then show ?thesis using Cons.IH [OF x(2)] Cons.prems(3) by auto
  next
    case (Try d)
    have "P (tried fails d db)"
      using Cons.prems(2) Cons.prems(3) [of s] Try by (auto simp: tried_def split: option.split)
    then show ?thesis using Cons.IH Cons.prems(1,3) Try by auto
  qed
qed simp

lemma stmts_reach:
  assumes "run_stmts e fails ss db = Inr db'" "Do d \<in> set ss"
    and "\<And>x y. exec_ddl d x = Some y \<Longrightarrow> P y"
    and "\<And>s x y. s \<in> set ss \<Longrightarrow> P x \<Longrightarrow> exec_ddl (ddl_of s) x = Some y \<Longrightarrow> P y"
  shows "P db'"
  using assms
proof (induction ss arbitrary: db)
  case (Cons s ss)
  show ?case
  proof (cases "s = Do d")
    case True
    obtain x where x: "exec_ddl d db = Some x" "run_stmts e fails ss x = Inr db'"
      using run_Do Cons.prems(1) True by metis
    have keep: "t \<in> set ss \<Longrightarrow> P y \<Longrightarrow> exec_ddl (ddl_of t) y = Some z \<Longrightarrow> P z" for t y z
      using Cons.prems(4) by (meson list.set_intros(2))
    show ?thesis by (rule stmts_keep [where P = P, OF x(2)]) (use Cons.prems(3) x(1) keep in blast)+
  next
    case False
    then have d: "Do d \<in> set ss" using Cons.prems(2) by auto
    obtain x where "run_stmts e fails ss x = Inr db'" using Cons.prems(1) run_Do by (cases s) (metis, simp)
    then show ?thesis by (rule Cons.IH [OF _ d Cons.prems(3)]) (use Cons.prems(4) in auto)
  qed
qed simp

lemma run_names:
  assumes "run_stmts e fails ss db = Inr db'"
  shows "set (table_names db) \<union> set (concat (List.map must_create ss)) \<subseteq> set (table_names db')"
    "set (table_names db') \<subseteq> set (table_names db) \<union> set (concat (List.map may_create ss))"
proof -
  have grow: "t \<in> set (table_names x) \<Longrightarrow> exec_ddl d x = Some y \<Longrightarrow> t \<in> set (table_names y)" for t d x y
    using exec_names by blast
  have "t \<in> set (table_names db')" if "t \<in> set (table_names db)" for t
    by (rule stmts_keep [where P = "\<lambda>x. t \<in> set (table_names x)", OF assms that]) (rule grow)
  moreover have "t \<in> set (table_names db')" if "s \<in> set ss" "t \<in> set (must_create s)" for t s
  proof -
    obtain d where d: "s = Do d" "t \<in> set (created_table d)" using \<open>t \<in> set (must_create s)\<close> by (cases s) auto
    show ?thesis
      by (rule stmts_reach [where P = "\<lambda>x. t \<in> set (table_names x)" and d = d, OF assms]) (use that d exec_names grow in blast)+
  qed
  ultimately show "set (table_names db) \<union> set (concat (List.map must_create ss)) \<subseteq> set (table_names db')" by auto
  show "set (table_names db') \<subseteq> set (table_names db) \<union> set (concat (List.map may_create ss))"
    by (rule stmts_keep [where P = "\<lambda>x. set (table_names x) \<subseteq> set (table_names db) \<union> set (concat (List.map may_create ss))", OF assms])
       (use exec_names may_create_def in fastforce)+
qed

lemma run_append: "run_stmts e fails (ss @ ts) db = and_then (run_stmts e fails ss db) (run_stmts e fails ts)"
  by (induction e fails ss db rule: run_stmts.induct) (auto simp: run_stmts.simps(2) tried_def split: option.splits)

lemma run_error: "run_stmts e fails ss db = Inl x \<Longrightarrow> x = e"
  by (induction e fails ss db rule: run_stmts.induct) (auto simp: run_stmts.simps(2) tried_def split: option.splits if_splits)

text \<open>The statements of both scripts create exactly the required tables.\<close>

lemmas mysql_tables = mysql_servers_def mysql_deploy_logs_def mysql_bots_def mysql_registry_repositories_def
  mysql_registry_artifacts_def mysql_config_def mysql_alert_rules_def mysql_custom_monitors_def
  mysql_custom_monitor_metrics_def mysql_webhooks_def mysql_webhook_events_def mysql_approvals_def
  mysql_approval_rules_def mysql_sessions_def

lemmas sqlite_tables = sqlite_servers_def sqlite_deploy_logs_def sqlite_bots_def sqlite_registry_repositories_def
  sqlite_registry_artifacts_def sqlite_config_def sqlite_alert_rules_def sqlite_custom_monitors_def
  sqlite_custom_monitor_metrics_def sqlite_webhooks_def sqlite_webhook_events_def sqlite_approvals_def
  sqlite_approval_rules_def sqlite_sessions_def

lemma mysql_creates_list: "mysql_creates = List.map (\<lambda>(_, d). Do d) mysql_table_ddl"
  by (simp add: mysql_creates_def mysql_table_ddl_def cd_required_tables_def)

lemma mysql_creates_tables:
  "concat (List.map must_create mysql_creates) = cd_required_tables"
  "concat (List.map may_create mysql_creates) = cd_required_tables"
  unfolding mysql_creates_list by (simp_all add: mysql_table_ddl_def cd_required_tables_def may_create_def mysql_tables)

lemma tries_create_nothing:
  "concat (List.map must_create ensure_mysql_indexes) = []" "concat (List.map may_create ensure_mysql_indexes) = []"
  "concat (List.map must_create ensure_mysql_migrations) = []" "concat (List.map may_create ensure_mysql_migrations) = []"
  "concat (List.map must_create ensure_indexes) = []" "concat (List.map may_create ensure_indexes) = []"
  by (auto simp: ensure_mysql_indexes_def ensure_mysql_migrations_def ensure_indexes_def may_create_def)

lemma sqlite_creates_tables:
  "set (concat (List.map must_create sqlite_script)) = set cd_required_tables"
  "set (concat (List.map may_create sqlite_script)) = set cd_required_tables"
  unfolding sqlite_script_def sqlite_servers_part_def sqlite_logs_part_def sqlite_registry_part_def sqlite_monitor_part_def
    sqlite_approvals_part_def sqlite_approval_columns_def sqlite_migrations_def
  by (auto simp: tries_create_nothing cd_required_tables_def sqlite_tables may_create_def)

lemma self_check_passes:
  assumes "set cd_required_tables \<subseteq> set (table_names db)"
  shows "self_check db = Inr db"
  using assms by (simp add: self_check_def missing_none)

section \<open>The lock index\<close>

definition lock_table :: string where "lock_table = ''cd_deploy_logs''"
definition lock_column :: string where "lock_column = ''lock_key''"
definition lock_index :: string where "lock_index = ''idx_cdl_lock_key''"

text \<open>A database without the column of the project lock, and so without its index.\<close>

definition lacks_lock :: "sql_db \<Rightarrow> bool" where
  "lacks_lock db = (lock_column \<notin> set (columns_of db lock_table) \<and> \<not> has_index db lock_index)"

text \<open>Statements that bring neither.\<close>

fun no_lock :: "ddl \<Rightarrow> bool" where
  "no_lock (CreateTable t cs ks) =
     ((t = lock_table \<longrightarrow> lock_column \<notin> set (List.map col_name cs)) \<and> lock_index \<notin> set (List.map ix_name (inline_indexes t ks)))"
| "no_lock (AddColumn t c) = (t \<noteq> lock_table \<or> col_name c \<noteq> lock_column)"
| "no_lock (DropColumn t n) = True"
| "no_lock (CreateIndex n t cs u) = (n = lock_index \<longrightarrow> t = lock_table \<and> lock_column \<in> set cs)"
| "no_lock (DropIndex n) = True"

lemma has_index_iff: "has_index db n \<longleftrightarrow> n \<in> set (List.map ix_name (sq_indexes db))"
  by (auto simp: has_index_def list_ex_iff)

lemma columns_add: "x \<in> set (columns_of (change_table t (\<lambda>cs. cs @ [c]) db) m) \<Longrightarrow> x \<in> set (columns_of db m) \<or> (m = t \<and> x = col_name c)"
  unfolding columns_change by (auto simp: columns_of_def split: option.splits if_splits)

lemma columns_drop: "x \<in> set (columns_of (change_table t (filter p) db) m) \<Longrightarrow> x \<in> set (columns_of db m)"
  unfolding columns_change by (auto simp: columns_of_def split: option.splits if_splits)

lemma lacks_lock_step:
  assumes "no_lock d" "lacks_lock db" "exec_ddl d db = Some db'"
  shows "lacks_lock db'"
proof (cases d)
  case (CreateTable t cs ks)
  then show ?thesis
    using assms by (auto simp: lacks_lock_def has_index_iff columns_new split: if_split_asm)
next
  case (AddColumn t c)
  then show ?thesis
    using assms by (auto simp: lacks_lock_def has_index_iff dest!: columns_add split: if_split_asm)
next
  case (DropColumn t n)
  then show ?thesis
    using assms by (auto simp: lacks_lock_def has_index_iff dest!: columns_drop split: if_split_asm)
qed (use assms in \<open>auto simp: lacks_lock_def has_index_iff split: if_split_asm\<close>)

lemma creates_bring_no_lock: "s \<in> set (mysql_creates @ ensure_mysql_indexes) \<Longrightarrow> no_lock (ddl_of s)"
proof -
  have "list_all (no_lock \<circ> ddl_of) mysql_creates"
    unfolding mysql_creates_list
    by (simp add: mysql_table_ddl_def mysql_tables lock_table_def lock_column_def lock_index_def inline_indexes_def)
  moreover have "list_all (no_lock \<circ> ddl_of) ensure_mysql_indexes"
    by (simp add: ensure_mysql_indexes_def mysql_indexes_def lock_table_def lock_column_def lock_index_def)
  ultimately show "s \<in> set (mysql_creates @ ensure_mysql_indexes) \<Longrightarrow> no_lock (ddl_of s)" by (auto simp: list_all_iff)
qed

lemma migrations_bring_no_index:
  assumes "s \<in> set ensure_mysql_migrations" "\<not> has_index x n" "exec_ddl (ddl_of s) x = Some y"
  shows "\<not> has_index y n"
  using assms by (auto simp: ensure_mysql_migrations_def has_index_iff split: if_split_asm)

lemma index_stays:
  assumes "exec_ddl d x = Some y" "has_index x n" "d \<noteq> DropIndex n"
  shows "has_index y n"
  using assms by (cases d) (auto simp: has_index_iff split: if_split_asm)

section \<open>Properties\<close>

text \<open>C35. Whatever the database held, a creation that raises nothing leaves every table it had and every
  required one, and no other; the check against drift at the end never raises.\<close>

theorem creation_completes:
  "(ensure_mysql_tables fails db = Inr x \<or> ensure_cd_tables fails db = Inr x \<longrightarrow>
      set (table_names x) = set (table_names db) \<union> set cd_required_tables)
   \<and> ensure_mysql_tables fails db \<noteq> Inl RuntimeError \<and> ensure_cd_tables fails db \<noteq> Inl RuntimeError"
proof -
  have my: "set (table_names y) = set (table_names db) \<union> set cd_required_tables"
    if "run_stmts OtherError fails (mysql_creates @ ensure_mysql_indexes @ ensure_mysql_migrations) db = Inr y" for y
    using run_names [OF that] by (intro subset_antisym) (simp_all add: mysql_creates_tables tries_create_nothing)
  have sq: "set (table_names y) = set (table_names db) \<union> set cd_required_tables"
    if "run_stmts e fails sqlite_script db = Inr y" for e y
    using run_names [OF that, unfolded sqlite_creates_tables] by blast
  have quiet: "and_then run self_check \<noteq> Inl RuntimeError"
    if "\<And>e. run = Inl e \<Longrightarrow> e \<noteq> RuntimeError" "\<And>y. run = Inr y \<Longrightarrow> set (table_names y) = set (table_names db) \<union> set cd_required_tables"
    for run
    using that by (cases run) (auto simp: self_check_def missing_none)
  let ?my = "run_stmts OtherError fails (mysql_creates @ ensure_mysql_indexes @ ensure_mysql_migrations) db"
  let ?sq = "run_stmts (AppException 503 (Some ''errors.db_unavailable'')) fails sqlite_script db"
  have "ensure_mysql_tables fails db \<noteq> Inl RuntimeError"
    unfolding ensure_mysql_tables_def by (rule quiet) (blast dest: run_error, rule my)
  moreover have "ensure_cd_tables fails db \<noteq> Inl RuntimeError"
    unfolding ensure_cd_tables_def by (rule quiet) (blast dest: run_error, rule sq)
  moreover have "ensure_mysql_tables fails db = Inr x \<Longrightarrow> ?my = Inr x" "ensure_cd_tables fails db = Inr x \<Longrightarrow> ?sq = Inr x"
    by (auto simp: ensure_mysql_tables_def ensure_cd_tables_def self_check_def split: if_split_asm)
  ultimately show ?thesis using my sq by blast
qed

text \<open>The index on which the project lock rests: SQLite always has it after a creation, but a MySQL
  database that had no column for the lock does not get it, because the indexes are created before the missing
  columns and their failure is suppressed. Only the next start of the process adds it.\<close>

theorem lock_index_late:
  assumes "lacks_lock db" "ensure_mysql_tables fails db = Inr x" "ensure_cd_tables fails' db' = Inr y"
  shows "\<not> has_index x lock_index \<and> has_index y lock_index"
proof
  obtain z where z: "run_stmts OtherError fails (mysql_creates @ ensure_mysql_indexes) db = Inr z"
      "run_stmts OtherError fails ensure_mysql_migrations z = Inr x"
    using assms(2) run_append [of OtherError fails "mysql_creates @ ensure_mysql_indexes" ensure_mysql_migrations db]
    by (auto simp: ensure_mysql_tables_def self_check_def split: if_split_asm)
  have "lacks_lock z"
    by (rule stmts_keep [where P = lacks_lock, OF z(1) assms(1)]) (rule lacks_lock_step [OF creates_bring_no_lock])
  then show "\<not> has_index x lock_index"
    by (intro stmts_keep [where P = "\<lambda>w. \<not> has_index w lock_index", OF z(2)])
       (auto simp: lacks_lock_def dest: migrations_bring_no_index)
  have r: "run_stmts (AppException 503 (Some ''errors.db_unavailable'')) fails' sqlite_script db' = Inr y"
    using assms(3) by (auto simp: ensure_cd_tables_def self_check_def split: if_split_asm)
  have "s \<in> set sqlite_script \<Longrightarrow> ddl_of s \<noteq> DropIndex lock_index" for s
    unfolding sqlite_script_def sqlite_servers_part_def sqlite_logs_part_def sqlite_registry_part_def sqlite_monitor_part_def
      sqlite_approvals_part_def sqlite_approval_columns_def sqlite_migrations_def ensure_indexes_def
    by (auto simp: sqlite_tables lock_index_def)
  then have keep: "s \<in> set sqlite_script \<Longrightarrow> has_index v lock_index \<Longrightarrow> exec_ddl (ddl_of s) v = Some w \<Longrightarrow> has_index w lock_index" for s v w
    using index_stays by blast
  have "Do (CreateIndex lock_index lock_table [lock_column] True) \<in> set sqlite_script"
    by (simp add: sqlite_script_def sqlite_logs_part_def lock_index_def lock_table_def lock_column_def)
  then show "has_index y lock_index"
    by (rule stmts_reach [where P = "\<lambda>w. has_index w lock_index", OF r _ _ keep]) (auto simp: has_index_iff split: if_split_asm)
qed

definition first_start :: "sql_db result" where
  "first_start = ensure_mysql_tables (\<lambda>_. False) empty_sql"

text \<open>The second start heals it.\<close>

lemma second_start_heals:
  "case and_then first_start (ensure_mysql_tables (\<lambda>_. False)) of Inl _ \<Rightarrow> False
   | Inr x \<Rightarrow> has_index x lock_index \<and> lock_column \<in> set (columns_of x lock_table)"
  by code_simp

lemma starts_succeed: "\<exists>x. first_start = Inr x" "\<exists>y. ensure_cd_tables (\<lambda>_. False) empty_sql = Inr y"
proof -
  show "\<exists>x. first_start = Inr x"
  proof (cases first_start)
    case (Inl a)
    show ?thesis using second_start_heals unfolding Inl by simp
  qed blast
  have "case ensure_cd_tables (\<lambda>_. False) empty_sql of Inl _ \<Rightarrow> False | Inr _ \<Rightarrow> True" by code_simp
  then show "\<exists>y. ensure_cd_tables (\<lambda>_. False) empty_sql = Inr y" by (auto split: sum.splits)
qed

theorem creation_completes_witness:
  "\<exists>x. first_start = Inr x \<and> set (table_names x) = set cd_required_tables"
proof -
  obtain x where x: "first_start = Inr x" using starts_succeed(1) by blast
  then have "set (table_names x) = set (table_names empty_sql) \<union> set cd_required_tables"
    using creation_completes [of "\<lambda>_. False" empty_sql x] by (simp add: first_start_def)
  moreover have "set (table_names empty_sql) = {}" by (simp add: empty_sql_def table_names_def)
  ultimately have "set (table_names x) = set cd_required_tables" by simp
  with x show ?thesis by blast
qed

theorem lock_index_late_witness:
  "\<exists>x y. first_start = Inr x \<and> ensure_cd_tables (\<lambda>_. False) empty_sql = Inr y \<and> \<not> has_index x lock_index \<and> has_index y lock_index"
proof -
  have "lacks_lock empty_sql" by (simp add: lacks_lock_def empty_sql_def columns_of_def has_index_def)
  then show ?thesis using starts_succeed lock_index_late first_start_def by metis
qed

end
