(* ===== verification/LockGap.thy ===== *)
theory LockGap
  imports Schema DeployRun
begin

text \<open>
  What the late index of theory Schema means for theory DeployRun: the INSERT of a running record
  (\<^verbatim>\<open>start_deploy_record\<close> of \<^verbatim>\<open>backend/deploy_run.py\<close>) is refused
  only by the unique index on the lock, so its behaviour depends on whether the database has it.
\<close>

section \<open>The insert on a database\<close>

definition start_on ::
  "sql_db \<Rightarrow> string \<Rightarrow> epoch \<Rightarrow> string \<Rightarrow> dlog_args \<Rightarrow> dlog table \<Rightarrow> row_id result \<times> dlog table" where
  "start_on db inst now ts g t =
     (if has_index db lock_index \<and> lock_taken (g_project g) t then (Inl ValueError, t)
      else (case t_insert dlog_assign (running_row inst now ts g) t of (t', i) \<Rightarrow> (Inr i, t')))"

definition running_of :: "string \<Rightarrow> dlog table \<Rightarrow> dlog list" where
  "running_of p t = filter (\<lambda>r. d_status r = ''running'' \<and> d_project r = p) (rows t)"

text \<open>With the index it is the operation of theory DeployRun, on which the exclusion rests.\<close>

lemma start_with_index: "has_index db lock_index \<Longrightarrow> start_on db inst now ts g t = start_deploy_record inst now ts g t"
  by (simp add: start_on_def start_deploy_record_def)

lemma start_without_index:
  assumes "\<not> has_index db lock_index"
  shows "\<exists>i t'. start_on db inst now ts g t = (Inr i, t') \<and> length (running_of (g_project g) t') = length (running_of (g_project g) t) + 1"
  using assms by (simp add: start_on_def t_insert_def running_of_def running_row_def dlog_assign_def)

section \<open>Properties\<close>

text \<open>C9. After the first start on MySQL in auto mode two deployments of one project can run: both inserts
  succeed. With SQLite the second one is refused while the first is running.\<close>

theorem first_start_two_runs:
  assumes "lacks_lock db" "ensure_mysql_tables fails db = Inr x" "ensure_cd_tables fails' db' = Inr y" "g_project h = g_project g"
    and "lock_inv t"
  shows "(\<exists>i j t1 t2. start_on x inst now ts g t = (Inr i, t1) \<and> start_on x inst' now' ts' h t1 = (Inr j, t2)
      \<and> 2 \<le> length (running_of (g_project g) t2))
    \<and> (\<forall>i t1. start_on y inst now ts g t = (Inr i, t1) \<longrightarrow> fst (start_on y inst' now' ts' h t1) = Inl ValueError)"
proof
  have x: "\<not> has_index x lock_index" and y: "has_index y lock_index" using lock_index_late [OF assms(1-3)] by auto
  obtain i t1 where 1: "start_on x inst now ts g t = (Inr i, t1)" "length (running_of (g_project g) t1) = length (running_of (g_project g) t) + 1"
    using start_without_index [OF x] by blast
  obtain j t2 where 2: "start_on x inst' now' ts' h t1 = (Inr j, t2)" "length (running_of (g_project h) t2) = length (running_of (g_project h) t1) + 1"
    using start_without_index [OF x] by blast
  show "\<exists>i j t1 t2. start_on x inst now ts g t = (Inr i, t1) \<and> start_on x inst' now' ts' h t1 = (Inr j, t2)
      \<and> 2 \<le> length (running_of (g_project g) t2)"
    using 1 2 assms(4) by (intro exI [of _ i] exI [of _ j] exI [of _ t1] exI [of _ t2]) simp
  show "\<forall>i t1. start_on y inst now ts g t = (Inr i, t1) \<longrightarrow> fst (start_on y inst' now' ts' h t1) = Inl ValueError"
    using assms(4) y
    by (auto simp: start_on_def t_insert_def lock_taken_def running_row_def dlog_assign_def split: if_splits)
qed

theorem first_start_two_runs_witness:
  "\<exists>x i j t1 t2. first_start = Inr x \<and> start_on x ''a'' 1 ''t'' sample_args empty_table = (Inr i, t1)
     \<and> start_on x ''b'' 2 ''t'' sample_args t1 = (Inr j, t2) \<and> 2 \<le> length (running_of ''web'' t2)"
proof -
  have "lacks_lock empty_sql" by (simp add: lacks_lock_def empty_sql_def columns_of_def has_index_def)
  moreover obtain x y where "first_start = Inr x" "ensure_cd_tables (\<lambda>_. False) empty_sql = Inr y" using starts_succeed by blast
  moreover have "g_project sample_args = ''web''" by (simp add: sample_args_def)
  ultimately show ?thesis
    using first_start_two_runs [of empty_sql "\<lambda>_. False" x "\<lambda>_. False" empty_sql y sample_args sample_args empty_table "''a''" 1 "''t''" "''b''" 2 "''t''"]
    by (auto simp: first_start_def)
qed

end
