(* ===== verification/Portal.thy ===== *)
theory Portal
  imports Auth CiClient DeployRoutes
begin

text \<open>
  The small routes: \<^verbatim>\<open>backend/routers/auth.py\<close> (who am I, logout),
  \<^verbatim>\<open>users.py\<close> (the accounts an approval rule may name) and
  \<^verbatim>\<open>projects.py\<close> with the status of a pipeline from
  \<^verbatim>\<open>backend/services/ci_service.py\<close>. Answers of the CI service are those of theory CiClient.
\<close>

section \<open>Logout\<close>

definition me_route :: "auth_env \<Rightarrow> string option \<Rightarrow> string option \<Rightarrow> auth_state \<Rightarrow> user result \<times> auth_state" where
  "me_route env cookie bearer s = get_current_user env cookie bearer s"

text \<open>The cookies the answer deletes, and the sessions. It succeeds with any token or none.\<close>

definition logout :: "(string \<Rightarrow> string) \<Rightarrow> string option \<Rightarrow> string option \<Rightarrow> sessions \<Rightarrow> string list \<times> sessions" where
  "logout h cookie bearer ss =
     ([''cd_token''],
      case extract_token cookie bearer of
        None \<Rightarrow> ss
      | Some token \<Rightarrow> if token = [] then ss else revoke_session h token ss)"

section \<open>Accounts\<close>

text \<open>An account without a name is skipped, one without a role raises, and so does an entry that is no object.\<close>

fun account_list :: "json list \<Rightarrow> (json \<times> json) list result" where
  "account_list [] = Inr []"
| "account_list (JObj m # us) =
     (if \<not> jtruthy (jget m ''username'') then account_list us
      else if map_of m ''role'' = None then Inl OtherError
      else and_then (account_list us) (\<lambda>rs. Inr ((jget m ''username'', jget m ''role'') # rs)))"
| "account_list (u # us) = Inl OtherError"

definition list_users :: "settings \<Rightarrow> ci_conf \<Rightarrow> user \<Rightarrow> ci_state \<Rightarrow> (json \<times> json) list result \<times> ci_state" where
  "list_users st c u s =
     (case perm_check st ''cd.deploy.approve'' u of
        Inl e \<Rightarrow> (Inl e, s)
      | Inr _ \<Rightarrow>
          (case ci_list_users c s of
             (Inl (CiClientError _ _), s') \<Rightarrow> (Inl (ServiceUnavailableError (Some ''errors.ci_service_unavailable'')), s')
           | (Inl Escaped, s') \<Rightarrow> (Inl OtherError, s')
           | (Inr us, s') \<Rightarrow> (account_list us, s')))"

section \<open>Projects\<close>

record job_row = job +
  jr_pipeline :: json
  jr_tag_time :: string

record pipeline_view =
  pv_project :: string
  pv_tag :: string
  pv_iid :: "json option"
  pv_status :: string
  pv_created :: string

definition get_pipeline_status :: "job_row list \<Rightarrow> string \<Rightarrow> pipeline_view option" where
  "get_pipeline_status js project =
     map_option (\<lambda>m. \<lparr>pv_project = str_or (j_name m) project, pv_tag = j_latest_tag m,
         pv_iid = (if jtruthy (jr_pipeline m) then Some (jr_pipeline m) else None),
         pv_status = (if j_latest_tag m \<noteq> [] then ''completed'' else ''unknown''), pv_created = jr_tag_time m\<rparr>)
       (List.find (\<lambda>m. j_name m = project \<or> j_path m = project) js)"

definition pipeline_status_route :: "job_row list \<Rightarrow> string \<Rightarrow> pipeline_view result" where
  "pipeline_status_route js project =
     (case get_pipeline_status js project of
        None \<Rightarrow> Inl (NotFoundError (Some ''errors.project_not_found''))
      | Some v \<Rightarrow> Inr v)"

definition project_tags_route :: "ci_conf \<Rightarrow> string \<Rightarrow> ci_state \<Rightarrow> json result \<times> ci_state" where
  "project_tags_route c project s =
     (case get_tags c project s of
        (Inr v, s') \<Rightarrow> (Inr v, s')
      | (Inl (CiClientError _ _), s') \<Rightarrow> (Inl (ServiceUnavailableError (Some ''errors.ci_service_unavailable'')), s')
      | (Inl Escaped, s') \<Rightarrow> (Inl OtherError, s'))"

section \<open>Properties\<close>

lemma authenticate_needs_session:
  assumes "fst (authenticate env cookie bearer s) = Inr x"
  shows "\<exists>token. extract_token cookie bearer = Some token \<and> token \<noteq> []
    \<and> lookup_session (ae_hash env) token (as_sessions s) \<noteq> None"
proof -
  obtain sess i s' where "authenticate env cookie bearer s = (Inr (sess, i), s')"
    using assms by (metis prod.collapse)
  then show ?thesis by (rule authenticate_Inr) auto
qed

text \<open>After a logout the same cookie and header no longer authenticate, whatever the identity service
  says, and every session with another digest is as it was.\<close>

theorem logout_ends_session:
  "fst (authenticate env cookie bearer (s\<lparr>as_sessions := snd (logout (ae_hash env) cookie bearer (as_sessions s))\<rparr>)) \<noteq> Inr x
   \<and> filter (\<lambda>r. Some (ss_hash r) \<noteq> map_option (ae_hash env) (extract_token cookie bearer))
       (snd (logout (ae_hash env) cookie bearer (as_sessions s)))
     = filter (\<lambda>r. Some (ss_hash r) \<noteq> map_option (ae_hash env) (extract_token cookie bearer)) (as_sessions s)"
proof
  show "fst (authenticate env cookie bearer (s\<lparr>as_sessions := snd (logout (ae_hash env) cookie bearer (as_sessions s))\<rparr>)) \<noteq> Inr x"
  proof
    assume "fst (authenticate env cookie bearer (s\<lparr>as_sessions := snd (logout (ae_hash env) cookie bearer (as_sessions s))\<rparr>)) = Inr x"
    then show False using authenticate_needs_session by (fastforce simp: logout_def revoke_session_def)
  qed
  show "filter (\<lambda>r. Some (ss_hash r) \<noteq> map_option (ae_hash env) (extract_token cookie bearer))
       (snd (logout (ae_hash env) cookie bearer (as_sessions s)))
     = filter (\<lambda>r. Some (ss_hash r) \<noteq> map_option (ae_hash env) (extract_token cookie bearer)) (as_sessions s)"
    by (auto simp: logout_def revoke_session_def delete_session_def intro!: filter_cong split: option.splits)
qed

text \<open>One account without a role makes the whole list fail.\<close>

lemma roleless_account_fails:
  "account_list [JObj [(''username'', JStr ''amy''), (''role'', JStr ''dev'')], JObj [(''username'', JStr ''bob'')]] = Inl OtherError"
  by code_simp

end
