(* ===== verification/Keys.thy ===== *)
theory Keys
  imports Crypto
begin

text \<open>
  The keys of \<^verbatim>\<open>backend/crypto.py\<close>: the main key from the secret and a salt that is
  derived from it, and the older keys that still open old data, from a fixed salt and from the salts found in
  files. The derivation, the cipher and base64 are parameters.
\<close>

section \<open>Keys\<close>

record cipher =
  cp_salt :: "string \<Rightarrow> string"
  cp_derive :: "string \<Rightarrow> string \<Rightarrow> string"
  cp_seal :: "string \<Rightarrow> string \<Rightarrow> string"
  cp_open :: "string \<Rightarrow> string \<Rightarrow> opened_token"
  cp_base64 :: "string \<Rightarrow> string option"

definition derive_key :: "cipher \<Rightarrow> string \<Rightarrow> string option \<Rightarrow> string" where
  "derive_key c raw salt = cp_derive c raw (case salt of None \<Rightarrow> cp_salt c raw | Some s \<Rightarrow> s)"

definition read_salt :: "cipher \<Rightarrow> key_file \<Rightarrow> string option" where
  "read_salt c f = (case f of Holds s \<Rightarrow> if py_strip s = [] then None else cp_base64 c (py_strip s) | _ \<Rightarrow> None)"

fun stored_salts :: "cipher \<Rightarrow> string list \<Rightarrow> key_file list \<Rightarrow> string list" where
  "stored_salts c salts [] = salts"
| "stored_salts c salts (f # fs) =
     (case read_salt c f of
        None \<Rightarrow> stored_salts c salts fs
      | Some s \<Rightarrow> stored_salts c (if s \<noteq> [] \<and> s \<notin> set salts then salts @ [s] else salts) fs)"

definition keyring_of :: "cipher \<Rightarrow> string \<Rightarrow> string \<Rightarrow> key_file list \<Rightarrow> keyring" where
  "keyring_of c raw legacy files =
     (let main = derive_key c raw None
      in \<lparr>kr_encrypt = cp_seal c main, kr_main = cp_open c main,
          kr_fallbacks = cp_open c (derive_key c raw (Some legacy)) #
            List.map (\<lambda>s. cp_open c (derive_key c raw (Some s))) (stored_salts c [] files)\<rparr>)"

section \<open>Laws\<close>

text \<open>What the cipher promises: a key opens what it sealed, and refuses what another key sealed.\<close>

definition good_cipher :: "cipher \<Rightarrow> bool" where
  "good_cipher c \<longleftrightarrow> (\<forall>k j v. cp_open c k (cp_seal c j v) = (if k = j then Plain v else BadToken))"

lemma salts_kept: "set salts \<subseteq> set (stored_salts c salts fs)"
  by (induction c salts fs rule: stored_salts.induct) (auto split: option.splits)

lemma salts_found: "f \<in> set fs \<Longrightarrow> read_salt c f = Some s \<Longrightarrow> s \<noteq> [] \<Longrightarrow> s \<in> set (stored_salts c salts fs)"
proof (induction c salts fs rule: stored_salts.induct)
  case (2 c salts g fs)
  show ?case
  proof (cases "f = g")
    case True
    then show ?thesis using 2(4,5) salts_kept [of "salts @ [s]" c fs] salts_kept [of salts c fs] by auto
  next
    case False
    then show ?thesis using 2 by (cases "read_salt c g") auto
  qed
qed simp

lemma salts_distinct: "distinct salts \<Longrightarrow> distinct (stored_salts c salts fs)"
  by (induction c salts fs rule: stored_salts.induct) (auto split: option.splits)

lemma fallbacks_open:
  assumes "good_cipher c" "k \<in> set ks"
  shows "try_fallbacks (List.map (cp_open c) ks) (cp_seal c k v) = Inr (Some v)"
  using assms by (induction ks) (auto simp: good_cipher_def)

section \<open>Properties\<close>

text \<open>Old data stays readable: what was encrypted under the derived salt, the fixed salt or a salt that is
  still in a file decrypts to itself.\<close>

theorem old_data_readable:
  assumes "good_cipher c"
    and "salt \<in> {cp_salt c raw, legacy} \<or> (f \<in> set files \<and> read_salt c f = Some salt \<and> salt \<noteq> [])"
  shows "decrypt (keyring_of c raw legacy files) (encrypt_prefix @ cp_seal c (cp_derive c raw salt) v) = Inr v"
proof -
  let ?ks = "derive_key c raw (Some legacy) # List.map (\<lambda>s. derive_key c raw (Some s)) (stored_salts c [] files)"
  have fb: "kr_fallbacks (keyring_of c raw legacy files) = List.map (cp_open c) ?ks"
    by (simp add: keyring_of_def Let_def)
  have "cp_derive c raw salt = derive_key c raw None \<or> cp_derive c raw salt \<in> set ?ks"
    using assms(2) salts_found [of f files c salt "[]"] by (auto simp: derive_key_def)
  then have "kr_main (keyring_of c raw legacy files) (cp_seal c (cp_derive c raw salt) v) = Plain v \<or>
      (kr_main (keyring_of c raw legacy files) (cp_seal c (cp_derive c raw salt) v) = BadToken
        \<and> try_fallbacks (kr_fallbacks (keyring_of c raw legacy files)) (cp_seal c (cp_derive c raw salt) v) = Inr (Some v))"
  proof
    assume "cp_derive c raw salt = derive_key c raw None"
    then show ?thesis using assms(1) by (simp add: keyring_of_def good_cipher_def Let_def)
  next
    assume "cp_derive c raw salt \<in> set ?ks"
    from fallbacks_open [OF assms(1) this] show ?thesis
      unfolding fb using assms(1) by (simp add: keyring_of_def good_cipher_def Let_def)
  qed
  then show ?thesis by (auto simp: decrypt_def encrypt_prefix_def starts_with_def Let_def)
qed

text \<open>A cipher that marks a token with its key, as an instance of the promise.\<close>

definition tagged :: "string \<Rightarrow> string" where
  "tagged k = concat (List.map (\<lambda>c. [CHR ''x'', c]) k) @ ''y''"

lemma tagged_prefix: "starts_with (tagged k) (tagged j @ v) \<longleftrightarrow> k = j"
proof (induction k arbitrary: j)
  case Nil
  then show ?case by (cases j) (simp_all add: tagged_def starts_with_def)
next
  case (Cons c k)
  show ?case
  proof (cases j)
    case (Cons d i)
    then show ?thesis using Cons.IH [of i] by (auto simp: tagged_def starts_with_def)
  qed (simp add: tagged_def starts_with_def)
qed

definition sample_cipher :: cipher where
  "sample_cipher = \<lparr>cp_salt = rev, cp_derive = (\<lambda>raw salt. raw @ ''-'' @ salt), cp_seal = (\<lambda>k v. tagged k @ v),
     cp_open = (\<lambda>k t. if starts_with (tagged k) t then Plain (drop (length (tagged k)) t) else BadToken), cp_base64 = Some\<rparr>"

theorem old_data_readable_witness:
  "decrypt (keyring_of sample_cipher ''key'' ''v1'' [Absent, Holds '' abc ''])
     (encrypt_prefix @ cp_seal sample_cipher (cp_derive sample_cipher ''key'' ''abc'') ''pw'') = Inr ''pw''"
proof -
  have "good_cipher sample_cipher" by (simp add: good_cipher_def sample_cipher_def tagged_prefix)
  moreover have "read_salt sample_cipher (Holds '' abc '') = Some ''abc''" by code_simp
  ultimately show ?thesis
    using old_data_readable [of sample_cipher "''abc''" "''key''" "''v1''" "Holds '' abc ''" "[Absent, Holds '' abc '']" "''pw''"] by simp
qed

end
