(* ===== verification/Spec2Isabelle.thy ===== *)
theory Spec2Isabelle
  imports System K8sSsh Fluxcd Sso Servers Edges Webhooks ApprovalRoutes Admin Status Upload SshConnect Background
    LockGap Portal Keys
begin

text \<open>
  Verification development for the Devops\_CD backend, a service that deploys container images to servers
  (SSH, docker-compose) and to Kubernetes (kubectl, Helm, Argo CD, Flux CD), under approval rules, with a
  log of deployments that also carries the lock of each project.

  \<^bold>\<open>How the program is put together.\<close> A request comes in over a route
  (\<^verbatim>\<open>backend/routers/*.py\<close>), passes the sign-on and the deployment gate
  (\<^verbatim>\<open>backend/auth.py\<close>, \<^verbatim>\<open>backend/database.py\<close>), and calls
  a service (\<^verbatim>\<open>backend/services/*.py\<close>). A deployment goes through the approval gate,
  takes the lock of its project by inserting a record, runs a strategy
  (\<^verbatim>\<open>backend/deployers/*.py\<close>) on each server, and closes the record. Background threads
  execute approved requests, refresh heartbeats, recover what a crash left behind, check alert rules and
  synchronise the registry; several instances share one database. Accounts, projects, builds and the contract
  that enables the service come from another service, Glue, over HTTP.

  \<^bold>\<open>Conventions.\<close> A table is a list of records with the counter of its primary key
  (theory Table); the database is a record of tables, passed and returned. An operation that may raise returns
  \<open>exc + 'a\<close> (theory Errors); what the program branches on is kept (class, status code, key), display
  texts are left out. Strings are lists of characters below 256. What the source only calls is a parameter:
  the HTTP services, the machine behind an SSH connection, ciphers and signatures, JSON, YAML and CSV parsers, the clock and
  random values. Where a property relies on such a parameter, its documented law is a named
  hypothesis, and a witness instantiates it.

  \<^bold>\<open>Foundations.\<close>
  \<^item> Prelude: Python's operations on strings and numbers, and the lemmas all theories share.
  \<^item> Errors (\<^verbatim>\<open>exceptions.py\<close>, \<^verbatim>\<open>responses.py\<close>); Settings
    (\<^verbatim>\<open>config.py\<close>); Data: the rows of the tables; Table: the statement shapes on them, with
    the locales \<open>row_key\<close> and \<open>unique_col\<close>, interpreted on the tables of Data,
    RegistrySync, Webhooks and Servers.
  \<^item> Locks: the locale \<open>exclusive_lock\<close>, interpreted in DeployRun on the project lock, and
    \<open>cas_machine\<close>, interpreted in Approvals on the conditional update of a status; each proves what its clients
    need once (an invariant over any sequence of operations, one winner of a race).
  \<^item> Measures and Patterns: numbers and regular expressions read the way Python reads them; the matcher is proved
    equal to the texts a pattern denotes.

  \<^bold>\<open>Access.\<close>
  \<^item> Contract: the contract of Glue with its cache (locale \<open>ttl_cache\<close>, interpreted here, in
    Oidc and in Monitor), the list of required tables and the deployment gate.
  \<^item> GlueIdentity, Auth, Oidc, Sso: identities behind their caches, sessions and permissions, the checks of an
    id token, the start and the callback of the sign-on, with the keys traced to the documents of the provider. Portal: logout, the accounts and the small project routes.
  \<^item> Crypto and Keys: the secret, credentials at rest, and the older keys that still open old data.
  \<^item> Edges: the order of resolved addresses and the masking of the access log. Status: \<^verbatim>\<open>main.py\<close>.

  \<^bold>\<open>Storage.\<close>
  \<^item> Schema: every statement that creates or changes tables for both databases. Theory Contract uses only its
    effect on the names of tables (\<open>ensure_tables\<close>), which \<open>creation_completes\<close> proves.
    The project lock of DeployRun is the UNIQUE index on \<open>lock_key\<close>; \<open>lock_index_late\<close> shows when MySQL
    does not have it yet, and LockGap what follows: two deployments of one project, and nothing below about their exclusion applies.
  \<^item> Dlock: the lock with a time to live that instances use between them. It is modelled for
    both ways of counting the rows of an UPDATE. Background: the threads of the synchronisation and the calls that restart
    them, interleaved at every access to the variables they share; at most one thread is alive if the calls do not overlap and no
    join gives up, and without these two conditions there can be two.

  \<^bold>\<open>Deployments.\<close>
  \<^item> DeployRun (\<^verbatim>\<open>deploy_run.py\<close>): the records, the project lock, cancellation, heartbeat, recovery, shutdown.
  \<^item> Deploy and DeployK8s (\<^verbatim>\<open>deploy_service.py\<close>,
    \<^verbatim>\<open>k8s_deploy_service.py\<close>): the bracket of checks, run and end. The locale
    \<open>run_protocol\<close> states what the bracket guarantees and is interpreted on both (in Deploy and in Executor).
    What others do meanwhile is a parameter, restricted by hypotheses only where a property says so.
  \<^item> Remote: machines as answers to the actions so far, so that a property can speak of what was run and in which
    order. Deployers, Compose, K8sSsh, InsecureRegistry, K8sUtils, Kubectl, Helm, Argocd, Fluxcd: one theory
    per strategy, with the commands as the strings the shell gets. SshConnect: the connection, known hosts and key files,
    with every way in which writing or removing a file can fail.
  \<^item> Executor and Rollback: deployments replayed from a stored snapshot, and the choice of where to go back to.

  \<^bold>\<open>Approvals.\<close> ApprovalRules (which rule applies, who may act, the format of schedules),
  Approvals (the requests and the gate), Execution (claims, runs, recovery, the scheduler).

  \<^bold>\<open>The whole.\<close> System: every transaction that writes requests or deployment records, by any
  thread of any instance, as one step of an inductive relation; invariants and histories hold in every reachable state,
  and the composed operations are sequences of steps. The properties of a claim and of the run it leads to (\<open>claim_once\<close>,
  \<open>claimed_run_settles\<close>) are stated there, under whatever steps others take: a claim excludes others until a transaction puts the
  request back, and they say which transactions do. This theory holds the properties that span components.

  \<^bold>\<open>Monitoring, registry, routes.\<close>
  \<^item> Monitor, CustomMonitors, Collector, Alerts, Notify: what is measured, how outputs are read, when an alert is
    sent and to which addresses.
  \<^item> Registry and RegistrySync: which registry is in use, and its cache in two tables. CiClient: the client of the CI
    service with its token.
  \<^item> DeployRoutes, ApprovalRoutes, Sse, Servers, Webhooks, Terminal, Upload, Admin: the routes with their permissions,
    the event stream and its reader in the page (messages to translate included), the web terminal with its filter, and
    uploads. \<open>routes_obey_gate\<close> covers the eight routes from which a deployment starts.

  \<^bold>\<open>What the lemmas show.\<close> Per component: the invariant of its state and that every operation keeps it;
  the behaviour of each operation on its branches, errors included; soundness of the checks (authentication, gate, claims,
  four eyes, routes, uploads); exclusion and settlement of deployments; what a recorded success of a strategy means
  on the machine; round trips of credentials, streams and labels; the tables that both databases end with. Several
  properties of kind error state a defect exactly (for example \<open>held_line_runs\<close>, \<open>first_start_two_runs\<close>,
  \<open>recovery_reopens_claimed\<close>, \<open>overlapping_restarts_double\<close>): they say what the code does, which is not what its documentation says.

  \<^bold>\<open>Bounds and fuel.\<close> Recursion is structural or has a measure. Loops that poll take their number of
  rounds from the source (30 rounds of Argo CD, 9 of Flux CD, 3 attempts of a retry, 50 pages of tags); the
  number of polls of the shutdown is a parameter. So no extra fuel is needed and every operation is total; a loop over a stream of messages ends with the list. Python's integers are
  \<open>int\<close> or \<open>nat\<close>; the program has no fixed-width integers of its own.

  \<^bold>\<open>Not modelled.\<close>
  \<^item> Display texts, translations and log lines; templates of messages only where they carry data.
  \<^item> The framework: parsing of requests into the request records, the wiring of routers, static files, the
    pool of connections, threads as such (their loops are modelled round by round), and the start and stop of the process.
  \<^item> Rounding of binary floats, characters beyond code point 255, and the details of the parsers named above.
  \<^item> The front end (apart from the reader of the event stream), the scripts of the database for manual creation, the tests and the
    images of the container.
\<close>

section \<open>Properties of the whole\<close>

text \<open>C1. Whatever the threads and instances do, in any order, each project has at most one running
  deployment record, the lock column names exactly the running ones, and both tables stay
  well-formed.\<close>

theorem one_running_per_project:
  assumes "sys_inv db" "step\<^sup>*\<^sup>* db db'" "r \<in> set (rows (db_logs db'))" "q \<in> set (rows (db_logs db'))"
    and "d_status r = ''running''" "d_status q = ''running''" "d_project r = d_project q"
  shows "r = q \<and> d_lock r = Some (d_project r) \<and> sys_inv db'"
proof -
  have inv: "sys_inv db'" using reach_inv assms(1,2) by blast
  then have l: "lock_inv (db_logs db')" by (simp add: sys_inv_def)
  show ?thesis using running_unique [OF l assms(3-7)] lock_invD(3) [OF l assms(3)] assms(5) inv by simp
qed

definition second_start :: "dlog table" where
  "second_start = snd (start_deploy_record ''i'' 5 [] (sample_args\<lparr>g_project := ''api''\<rparr>) (db_logs sample_db))"

theorem one_running_per_project_witness:
  "\<exists>r\<in>set (rows second_start). d_status r = ''running'' \<and> d_lock r = Some ''api'' \<and> sys_inv (sample_db\<lparr>db_logs := second_start\<rparr>)"
proof -
  let ?r = "dlog_assign 2 (running_row ''i'' 5 [] (sample_args\<lparr>g_project := ''api''\<rparr>))"
  have "log_step (db_logs sample_db) second_start" unfolding second_start_def by (rule ls_start)
  then have s: "step\<^sup>*\<^sup>* sample_db (sample_db\<lparr>db_logs := second_start\<rparr>)" by (rule log_steps1)
  have r: "?r \<in> set (rows second_start)" "d_status ?r = ''running''" "d_project ?r = ''api''"
    by (simp_all add: second_start_def start_deploy_record_def lock_taken_def sample_db_def pending_row_def t_insert_def
        running_row_def dlog_assign_def sample_args_def)
  then show ?thesis
    using one_running_per_project [OF sample_sys_inv(2) s, of ?r ?r] by auto
qed

text \<open>C3. The life of a request: it never disappears, what it orders (project, tag, type, parameters,
  requester) never changes, its status moves only along the legal moves, and once it is
  deployed, failed, rejected or cancelled it stays so.\<close>

theorem request_history:
  assumes "sys_inv db" "step\<^sup>*\<^sup>* db db'" "get_by_id j db = Some a"
  shows "\<exists>b. get_by_id j db' = Some b \<and> same_order a b \<and> legal_move\<^sup>*\<^sup>* (a_status a) (a_status b)
    \<and> (terminal (a_status a) \<longrightarrow> a_status b = a_status a)"
  using reach_row [OF assms(2) _ assms(3)] assms(1) terminal_absorbing by (metis sys_inv_def)

theorem request_history_witness:
  "\<exists>b. get_by_id 1 (snd (approve default_settings ''t'' 1 amy sample_db)) = Some b \<and> same_order sample_approval b"
proof -
  have "step\<^sup>*\<^sup>* sample_db (snd (approve default_settings ''t'' 1 amy sample_db))"
    by (rule r_into_rtranclp) (rule st_approve)
  moreover have "get_by_id 1 sample_db = Some sample_approval"
    by (simp add: get_by_id_def t_get_def sample_db_def sample_approval_def)
  ultimately show ?thesis using request_history [OF sample_sys_inv(2)] by blast
qed

text \<open>C2. Nothing that needed an approval is deployed without one: a request that was pending and is
  now approved, being deployed, deployed or failed carries an approver other than its requester,
  however the steps of threads and instances interleave.\<close>

theorem four_eyes_always:
  assumes "sys_inv db" "step\<^sup>*\<^sup>* db db'" "status_at j db = Some Pending"
    and "status_at j db' = Some st" "st \<in> {Approved, Deploying, Deployed, Failed}"
  shows "\<exists>b. get_by_id j db' = Some b \<and>
    (py_strip (a_requester b) = [] \<or> py_strip (a_approver b) \<noteq> py_strip (a_requester b))"
proof -
  obtain a where a: "get_by_id j db = Some a" "a_status a = Pending" using assms(3) by (auto simp: status_at_def)
  then have "four_eyes a" by (simp add: four_eyes_def)
  then obtain b where "get_by_id j db' = Some b" "four_eyes b"
    using reach_four_eyes [OF assms(2) _ a(1)] assms(1) by (auto simp: sys_inv_def)
  then show ?thesis using assms(4,5) by (auto simp: four_eyes_def status_at_def)
qed

theorem four_eyes_always_witness:
  "\<exists>b. get_by_id 1 (snd (approve default_settings ''t'' 1 amy sample_db)) = Some b \<and>
    (py_strip (a_requester b) = [] \<or> py_strip (a_approver b) \<noteq> py_strip (a_requester b))"
proof -
  have s: "step\<^sup>*\<^sup>* sample_db (snd (approve default_settings ''t'' 1 amy sample_db))"
    by (rule r_into_rtranclp) (rule st_approve)
  have "status_at 1 sample_db = Some Pending" "status_at 1 (snd (approve default_settings ''t'' 1 amy sample_db)) = Some Approved"
    by code_simp+
  then show ?thesis using four_eyes_always [OF sample_sys_inv(2) s] by blast
qed

text \<open>C4. The composed operations refine the steps: a deployment, the execution of a snapshot, a
  run of an approved request, a rollback and a round of the scheduler are sequences of steps,
  provided what others do meanwhile is; so the invariants and histories hold of them.\<close>

theorem operations_refine_steps:
  assumes "env_steps (de_meanwhile env)" "env_steps (de_meanwhile (xe_d y))" "\<And>i. env_steps (de_meanwhile (xe_d (x i)))"
  shows "step\<^sup>*\<^sup>* (ds_db d) (ds_db (snd (execute env u a d)))
    \<and> step\<^sup>*\<^sup>* (ds_db d) (ds_db (snd (execute_from_params env remote p v rb aid d)))
    \<and> step\<^sup>*\<^sup>* (ds_db d) (ds_db (snd (rollback env remote tx ra v d)))
    \<and> step\<^sup>*\<^sup>* (db_of s) (db_of (snd (claim_for_execution y aid name s)))
    \<and> step\<^sup>*\<^sup>* (db_of s) (db_of (snd (run_approval y aid v s)))
    \<and> step\<^sup>*\<^sup>* (db_of s) (db_of (snd (scheduler_tick drv inst m x s)))"
  by (intro conjI execute_steps executor_steps rollback_steps claim_steps run_steps tick_steps assms)

theorem operations_refine_steps_witness:
  "step\<^sup>*\<^sup>* (db_of sample_estate) (db_of (snd (scheduler_tick Changed ''i''
     \<lparr>mo_lock = 1, mo_due = ''2026'', mo_recover = 2, mo_stamp = ''2026''\<rparr> (\<lambda>_. sample_xenv) sample_estate)))"
proof -
  have "de_meanwhile sample_denv z = z" "de_meanwhile (xe_d sample_xenv) z = z" for z
    by (simp_all add: sample_xenv_def sample_denv_def)
  then have "env_steps (de_meanwhile sample_denv)" "env_steps (de_meanwhile (xe_d sample_xenv))"
    by (simp_all add: env_steps_def)
  then show ?thesis using operations_refine_steps [of sample_denv sample_xenv "\<lambda>_. sample_xenv"] by blast
qed

end
